(* ===== verification/Hourglass_Prelude.thy ===== *)
theory Hourglass_Prelude
  imports Main "HOL-Library.Word" "HOL-Library.AList" "HOL-Library.Sublist"
begin

text \<open>
  Shared vocabulary of the development: the Go types the program uses (byte slices, sized
  integers, ASCII strings), the few functions of Go's standard library that the sources call
  (\<open>strings.ToLower\<close>, \<open>strings.EqualFold\<close>, \<open>fmt.Sprintf("%d", n)\<close>, \<open>encoding/binary\<close>'s
  big-endian writers, maps with \<open>range\<close>), the generic slice helpers of
  \<open>ponos/pkg/util/utils.go\<close>, and the lemmas about them that several components share.
\<close>

section \<open>Types\<close>

type_synonym byte = "8 word"
type_synonym bytes = "byte list"
type_synonym u16 = "16 word"
type_synonym u32 = "32 word"

text \<open>
  \<open>uint64\<close> block numbers and timestamps are natural numbers; where the Go code computes on them
  with a possible wrap-around the definitions write \<open>mod 2 ^ 64\<close> out.
\<close>

type_synonym u64 = nat
type_synonym chain_id = nat

text \<open>Unix time in seconds, as \<open>time.Time\<close> values are used by the program.\<close>

type_synonym time = int

text \<open>A fallible Go call returns \<open>Inl\<close> an error or \<open>Inr\<close> a value.\<close>

type_synonym ('e, 'a) result = "'e + 'a"

named_theorems hg_defs "definitions unfolded by the component proofs"
named_theorems go_simps "rewrite rules for the Go library functions the sources call"

section \<open>Strings\<close>

text \<open>
  Addresses, hashes and task ids are ASCII text. \<open>strings.ToLower\<close> and \<open>strings.EqualFold\<close> on
  ASCII strings map the letters A to Z and leave every other character alone.
\<close>

definition lower_char :: "char \<Rightarrow> char" where
  "lower_char c = (if 65 \<le> (of_char c :: nat) \<and> (of_char c :: nat) \<le> 90
     then char_of ((of_char c :: nat) + 32) else c)"

definition toLower :: "string \<Rightarrow> string" where
  "toLower s = map lower_char s"

definition equalFold :: "string \<Rightarrow> string \<Rightarrow> bool" where
  "equalFold s t \<longleftrightarrow> toLower s = toLower t"

lemma lower_char_idem [go_simps]: "lower_char (lower_char c) = lower_char c"
  by (auto simp: lower_char_def)

lemma toLower_idem [simp]: "toLower (toLower s) = toLower s"
  by (simp add: toLower_def lower_char_idem)

lemma length_toLower [simp]: "length (toLower s) = length s"
  by (simp add: toLower_def)

lemma equalFold_refl [simp, intro]: "equalFold s s"
  by (simp add: equalFold_def)

lemma equalFold_sym: "equalFold s t \<longleftrightarrow> equalFold t s"
  by (auto simp: equalFold_def)

lemma equalFold_trans: "equalFold s t \<Longrightarrow> equalFold t u \<Longrightarrow> equalFold s u"
  by (simp add: equalFold_def)

lemma equalFold_toLower [simp]: "equalFold (toLower s) t \<longleftrightarrow> equalFold s t"
  by (simp add: equalFold_def)

lemma equalFold_toLower2 [simp]: "equalFold s (toLower t) \<longleftrightarrow> equalFold s t"
  by (simp add: equalFold_def)

section \<open>Decimal numbers: \<open>%d\<close>\<close>

definition digit :: "nat \<Rightarrow> char" where
  "digit d = char_of (48 + d)"

fun dec :: "nat \<Rightarrow> string" where
  "dec n = (if n < 10 then [digit n] else dec (n div 10) @ [digit (n mod 10)])"

declare dec.simps [simp del]

definition undec :: "string \<Rightarrow> nat" where
  "undec s = foldl (\<lambda>a c. 10 * a + ((of_char c :: nat) - 48)) 0 s"

lemma of_char_digit: "d < 10 \<Longrightarrow> (of_char (digit d) :: nat) = 48 + d"
  by (simp add: digit_def)

lemma undec_dec [simp]: "undec (dec n) = n"
proof (induction n rule: dec.induct)
  case (1 n)
  show ?case
  proof (cases "n < 10")
    case True
    then show ?thesis by (simp add: dec.simps [of n] undec_def of_char_digit)
  next
    case False
    with 1 have "undec (dec (n div 10)) = n div 10" by simp
    with False show ?thesis
      by (simp add: dec.simps [of n] undec_def of_char_digit)
  qed
qed

lemma dec_inj [simp]: "dec m = dec n \<longleftrightarrow> m = n"
  by (metis undec_dec)

lemma dec_digits: "c \<in> set (dec n) \<Longrightarrow> 48 \<le> (of_char c :: nat) \<and> (of_char c :: nat) < 58"
proof (induction n rule: dec.induct)
  case (1 n)
  show ?case
  proof (cases "n < 10")
    case True
    with "1.prems" show ?thesis by (simp add: dec.simps [of n] of_char_digit)
  next
    case False
    with "1.prems" consider "c \<in> set (dec (n div 10))" | "c = digit (n mod 10)"
      by (auto simp: dec.simps [of n])
    then show ?thesis
    proof cases
      case 1
      with False "1.IH" show ?thesis by simp
    next
      case 2
      then show ?thesis by (simp add: of_char_digit)
    qed
  qed
qed

lemma colon_notin_dec [simp]: "CHR '':'' \<notin> set (dec n)"
  using dec_digits [of "CHR '':''" n] by auto

lemma dec_nonempty [simp]: "dec n \<noteq> []"
  by (simp add: dec.simps [of n])

text \<open>
  Composite keys \<open>a:b\<close> are split at their last colon, so a key whose last component has no
  colon determines both components, whatever the first one contains.
\<close>

lemma append_colon_inj:
  assumes "a @ CHR '':'' # b = a' @ CHR '':'' # b'"
    and "CHR '':'' \<notin> set b" and "CHR '':'' \<notin> set b'"
  shows "a = a' \<and> b = b'"
proof -
  have last_part: "takeWhile (\<lambda>c. c \<noteq> CHR '':'') (rev (x @ CHR '':'' # y)) = rev y"
    if "CHR '':'' \<notin> set y" for x y :: string
  proof -
    have "rev (x @ CHR '':'' # y) = rev y @ CHR '':'' # rev x" by simp
    then show ?thesis using that by (auto simp: takeWhile_append2 takeWhile_tail)
  qed
  have "rev b = rev b'"
    using last_part [OF assms(2), of a] last_part [OF assms(3), of a'] assms(1) by simp
  then show ?thesis using assms(1) by simp
qed

lemma composite_key_inj:
  "a @ CHR '':'' # dec c @ CHR '':'' # dec n = a' @ CHR '':'' # dec c' @ CHR '':'' # dec n'
     \<longleftrightarrow> a = a' \<and> c = c' \<and> n = n'"
proof
  assume "a @ CHR '':'' # dec c @ CHR '':'' # dec n = a' @ CHR '':'' # dec c' @ CHR '':'' # dec n'"
  then have "(a @ CHR '':'' # dec c) @ CHR '':'' # dec n = (a' @ CHR '':'' # dec c') @ CHR '':'' # dec n'"
    by simp
  from append_colon_inj [OF this] append_colon_inj [of a "dec c" a' "dec c'"]
  show "a = a' \<and> c = c' \<and> n = n'" by simp
qed simp

section \<open>Go maps\<close>

text \<open>
  A Go map is an association list with distinct keys. \<open>range\<close> visits the entries in an
  unspecified order; the list gives one such order, and theorems about the result of a
  \<open>range\<close> loop are stated up to the order.
\<close>

definition gm_wf :: "('k \<times> 'v) list \<Rightarrow> bool" where
  "gm_wf m \<longleftrightarrow> distinct (map fst m)"

abbreviation gm_get :: "('k \<times> 'v) list \<Rightarrow> 'k \<Rightarrow> 'v option" where
  "gm_get m k \<equiv> map_of m k"

abbreviation gm_put :: "('k \<times> 'v) list \<Rightarrow> 'k \<Rightarrow> 'v \<Rightarrow> ('k \<times> 'v) list" where
  "gm_put m k v \<equiv> AList.update k v m"

abbreviation gm_del :: "('k \<times> 'v) list \<Rightarrow> 'k \<Rightarrow> ('k \<times> 'v) list" where
  "gm_del m k \<equiv> AList.delete k m"

lemma gm_wf_empty [simp]: "gm_wf []"
  by (simp add: gm_wf_def)

lemma gm_wf_put [simp]: "gm_wf m \<Longrightarrow> gm_wf (gm_put m k v)"
  by (simp add: gm_wf_def distinct_update)

lemma gm_wf_del [simp]: "gm_wf m \<Longrightarrow> gm_wf (gm_del m k)"
  by (simp add: gm_wf_def distinct_delete)

lemma gm_get_put [simp]: "gm_get (gm_put m k v) = (gm_get m)(k \<mapsto> v)"
  by (rule update_conv')

lemma gm_get_del [simp]: "gm_get (gm_del m k) = (gm_get m)(k := None)"
  by (rule delete_conv')

lemma gm_get_map_entry [simp]: "gm_get (AList.map_entry k f m) = (gm_get m)(k := map_option f (gm_get m k))"
  by (induction m) (auto simp: fun_eq_iff)

lemma gm_wf_map_entry [simp]: "gm_wf (AList.map_entry k f m) = gm_wf m"
proof -
  have "map fst (AList.map_entry k f m) = map fst m" by (induction m) auto
  then show ?thesis by (simp add: gm_wf_def)
qed

lemma gm_mem_iff: "gm_wf m \<Longrightarrow> (k, v) \<in> set m \<longleftrightarrow> gm_get m k = Some v"
  by (auto simp: gm_wf_def)

lemma gm_values_iff: "gm_wf m \<Longrightarrow> v \<in> snd ` set m \<longleftrightarrow> (\<exists>k. gm_get m k = Some v)"
  by (auto simp: gm_mem_iff image_iff Bex_def)

lemma gm_put_fresh: "gm_get m k = None \<Longrightarrow> gm_put m k v = m @ [(k, v)]"
  by (induction m) (auto split: if_splits)

lemma gm_keys_None: "gm_get m k = None \<longleftrightarrow> k \<notin> fst ` set m"
  by (rule map_of_eq_None_iff)

section \<open>Slice helpers of pkg/util\<close>

text \<open>\<open>util.Map\<close> passes the index as a \<open>uint64\<close>; no caller uses it.\<close>

definition utilMap :: "'a list \<Rightarrow> ('a \<Rightarrow> nat \<Rightarrow> 'b) \<Rightarrow> 'b list" where
  "utilMap coll mapper = map (\<lambda>(x, i). mapper x i) (zip coll [0..<length coll])"

fun utilFilter :: "'a list \<Rightarrow> ('a \<Rightarrow> bool) \<Rightarrow> 'a list" where
  "utilFilter [] criteria = []"
| "utilFilter (item # coll) criteria =
     (if criteria item then item # utilFilter coll criteria else utilFilter coll criteria)"

fun utilFind :: "'a list \<Rightarrow> ('a \<Rightarrow> bool) \<Rightarrow> 'a option" where
  "utilFind [] criteria = None"
| "utilFind (item # coll) criteria =
     (if criteria item then Some item else utilFind coll criteria)"

fun utilReduce :: "'a list \<Rightarrow> ('b \<Rightarrow> 'a \<Rightarrow> 'b) \<Rightarrow> 'b \<Rightarrow> 'b" where
  "utilReduce [] processor val = val"
| "utilReduce (item # coll) processor val = utilReduce coll processor (processor val item)"

fun utilFlatten :: "'a list list \<Rightarrow> 'a list" where
  "utilFlatten [] = []"
| "utilFlatten (arr # coll) = arr @ utilFlatten coll"

definition areAddressesEqual :: "string \<Rightarrow> string \<Rightarrow> bool" where
  "areAddressesEqual a b = equalFold a b"

lemma utilMap_map [go_simps]: "utilMap coll (\<lambda>x i. f x) = map f coll"
  unfolding utilMap_def by (rule nth_equalityI) auto

lemma utilFilter_filter [go_simps]: "utilFilter coll p = filter p coll"
  by (induction coll) auto

lemma utilFind_find [go_simps]: "utilFind coll p = find p coll"
  by (induction coll) auto

lemma utilReduce_foldl [go_simps]: "utilReduce coll f v = foldl f v coll"
  by (induction coll arbitrary: v) auto

lemma utilFlatten_concat [go_simps]: "utilFlatten coll = concat coll"
  by (induction coll) auto

lemma image_fixpoint: "(\<And>x. x \<in> A \<Longrightarrow> f x = x) \<Longrightarrow> f ` A = A"
  by (auto simp: image_iff)

lemma find_SomeD: "find p xs = Some x \<Longrightarrow> x \<in> set xs \<and> p x"
  by (induction xs) (auto split: if_splits)

lemma find_NoneD: "find p xs = None \<Longrightarrow> x \<in> set xs \<Longrightarrow> \<not> p x"
  by (induction xs) (auto split: if_splits)

section \<open>Byte strings\<close>

text \<open>The conversion \<open>[]byte(s)\<close>.\<close>

definition stringBytes :: "string \<Rightarrow> bytes" where
  "stringBytes s = map (\<lambda>c. word_of_nat (of_char c)) s"

section \<open>Big-endian encodings\<close>

text \<open>
  \<open>binary.BigEndian.PutUint16/32/64\<close>: byte \<open>i\<close> of an \<open>n\<close>-byte buffer is bits
  \<open>8 * (n - 1 - i)\<close> and up of the value.
\<close>

definition be_bytes :: "nat \<Rightarrow> nat \<Rightarrow> bytes" where
  "be_bytes n v = map (\<lambda>i. word_of_nat (v div 256 ^ (n - 1 - i))) [0..<n]"

definition be_nat :: "bytes \<Rightarrow> nat" where
  "be_nat bs = foldl (\<lambda>a b. 256 * a + unat b) 0 bs"

lemma length_be_bytes [simp]: "length (be_bytes n v) = n"
  by (simp add: be_bytes_def)

lemma be_bytes_Suc: "be_bytes (Suc n) v = be_bytes n (v div 256) @ [word_of_nat v]"
proof -
  have "v div 256 ^ (n - i) = v div 256 div 256 ^ (n - 1 - i)" if "i < n" for i
  proof -
    from that have "n - i = Suc (n - 1 - i)" by simp
    then have "v div 256 ^ (n - i) = v div (256 * 256 ^ (n - 1 - i))" by simp
    then show ?thesis by (simp only: div_mult2_eq)
  qed
  then show ?thesis by (simp add: be_bytes_def)
qed

lemma be_nat_snoc: "be_nat (bs @ [b]) = 256 * be_nat bs + unat b"
  by (simp add: be_nat_def)

lemma be_nat_be_bytes [simp]: "v < 256 ^ n \<Longrightarrow> be_nat (be_bytes n v) = v"
proof (induction n arbitrary: v)
  case 0
  then show ?case by (simp add: be_bytes_def be_nat_def)
next
  case (Suc n)
  then have "v div 256 < 256 ^ n" by (simp add: div_less_iff_less_mult mult.commute)
  with Suc.IH have "be_nat (be_bytes n (v div 256)) = v div 256" by blast
  then show ?case by (simp add: be_bytes_Suc be_nat_snoc unat_of_nat)
qed

lemma be_bytes_inj: "v < 256 ^ n \<Longrightarrow> w < 256 ^ n \<Longrightarrow> be_bytes n v = be_bytes n w \<longleftrightarrow> v = w"
  by (metis be_nat_be_bytes)

section \<open>Hexadecimal text\<close>

text \<open>\<open>encoding/hex\<close>.\<close>

definition hexDigit :: "nat \<Rightarrow> char" where
  "hexDigit n = (if n < 10 then char_of (48 + n) else char_of (87 + n))"

definition hexEncodeToString :: "bytes \<Rightarrow> string" where
  "hexEncodeToString bs = concat (map (\<lambda>b. [hexDigit (unat b div 16), hexDigit (unat b mod 16)]) bs)"

definition hexValue :: "char \<Rightarrow> nat option" where
  "hexValue c =
     (let n = of_char c in
      if 48 \<le> n \<and> n < 58 then Some (n - 48) else if 97 \<le> n \<and> n < 103 then Some (n - 87)
      else if 65 \<le> n \<and> n < 71 then Some (n - 55) else None)"

fun hexDecodeString :: "string \<Rightarrow> bytes option" where
  "hexDecodeString [] = Some []"
| "hexDecodeString [c] = None"
| "hexDecodeString (c # d # s) =
     (case (hexValue c, hexValue d, hexDecodeString s) of
        (Some h, Some l, Some bs) \<Rightarrow> Some (word_of_nat (16 * h + l) # bs)
      | _ \<Rightarrow> None)"

lemma hexValue_hexDigit [simp]: "n < 16 \<Longrightarrow> hexValue (hexDigit n) = Some n"
  by (auto simp: hexValue_def hexDigit_def Let_def)

lemma hexDecodeString_encode [simp]: "hexDecodeString (hexEncodeToString bs) = Some bs"
proof (induction bs)
  case (Cons b bs)
  have "unat b < 256" using unsigned_less [of b, where ?'a = nat] by simp
  then have "unat b div 16 < 16" by simp
  moreover have "16 * (unat b div 16) + unat b mod 16 = unat b" by (rule mult_div_mod_eq)
  ultimately show ?case using Cons.IH by (simp add: hexEncodeToString_def flip: of_nat_add of_nat_mult)
qed (simp add: hexEncodeToString_def)

end
