(* ===== verification/Task_Types.thy ===== *)
theory Task_Types
  imports Hourglass_Prelude "HOL-Library.List_Lexorder" "HOL-Library.Char_ord"
begin

text \<open>
  The data the aggregator's components exchange: tasks and task results
  (\<open>ponos/pkg/types/task.go\<close>), blocks and decoded logs (\<open>ponos/pkg/clients/ethereum/types.go\<close>,
  \<open>ponos/pkg/transactionLogParser/log\<close>), curve types (\<open>ponos/pkg/config/config.go\<close>), the
  records and the interface of the persistence layer (\<open>ponos/pkg/aggregator/storage\<close>), and the
  conversion of a \<open>TaskCreated\<close> log into a task.
\<close>

section \<open>Tasks and results\<close>

text \<open>A context is named by an identifier; the contexts themselves live in \<open>Block_Contexts\<close>.\<close>

type_synonym ctx_id = nat

record task =
  task_TaskId :: string
  task_AVSAddress :: string
  task_OperatorSetId :: u32
  task_CallbackAddr :: string
  task_DeadlineUnixSeconds :: "time option"
  task_ThresholdBips :: u16
  task_Payload :: bytes
  task_ChainId :: chain_id
  task_SourceBlockNumber :: u64
  task_L1ReferenceBlockNumber :: u64
  task_ReferenceTimestamp :: u32
  task_BlockHash :: string
  task_Version :: u32
  task_Context :: "ctx_id option"

record task_result =
  tr_TaskId :: string
  tr_AvsAddress :: string
  tr_OperatorSetId :: u32
  tr_Output :: bytes
  tr_OperatorAddress :: string
  tr_ResultSignature :: bytes
  tr_AuthSignature :: bytes

text \<open>The protobuf message \<open>executorV1.TaskResult\<close> carries the same fields.\<close>

record task_result_proto =
  trp_TaskId :: string
  trp_Output :: bytes
  trp_OperatorAddress :: string
  trp_ResultSignature :: bytes
  trp_AuthSignature :: bytes
  trp_AvsAddress :: string
  trp_OperatorSetId :: u32

definition taskResultFromTaskResultProto :: "task_result_proto \<Rightarrow> task_result" where
  "taskResultFromTaskResultProto tr =
     \<lparr>tr_TaskId = trp_TaskId tr,
      tr_AvsAddress = trp_AvsAddress tr,
      tr_OperatorSetId = trp_OperatorSetId tr,
      tr_Output = trp_Output tr,
      tr_OperatorAddress = trp_OperatorAddress tr,
      tr_ResultSignature = trp_ResultSignature tr,
      tr_AuthSignature = trp_AuthSignature tr\<rparr>"

section \<open>Curve types\<close>

datatype curve_type = CurveTypeUnknown | CurveTypeECDSA | CurveTypeBN254 | CurveTypeOther string

definition convertCurveTypeToSolidityEnum :: "curve_type \<Rightarrow> nat option" where
  "convertCurveTypeToSolidityEnum c =
     (case c of CurveTypeUnknown \<Rightarrow> Some 0 | CurveTypeECDSA \<Rightarrow> Some 1
      | CurveTypeBN254 \<Rightarrow> Some 2 | CurveTypeOther _ \<Rightarrow> None)"

definition convertSolidityEnumToCurveType :: "nat \<Rightarrow> curve_type option" where
  "convertSolidityEnumToCurveType v =
     (if v = 0 then Some CurveTypeUnknown else if v = 1 then Some CurveTypeECDSA
      else if v = 2 then Some CurveTypeBN254 else None)"

lemma curve_type_roundtrip:
  "convertSolidityEnumToCurveType v = Some c \<longleftrightarrow> convertCurveTypeToSolidityEnum c = Some v"
  by (auto simp: convertSolidityEnumToCurveType_def convertCurveTypeToSolidityEnum_def
      split: curve_type.splits if_splits)

section \<open>Blocks and logs\<close>

text \<open>
  \<open>EthereumTransaction\<close>, \<open>EthereumBlock\<close> and \<open>EthereumEventLog\<close> of the JSON-RPC client. A pointer is an
  option, a \<open>big.Int\<close> an integer. \<open>ChainId\<close> of a block is not part of the JSON-RPC response: a freshly
  fetched block has the zero value there.
\<close>

record ethereum_transaction =
  etx_BlockHash :: string
  etx_BlockNumber :: u64
  etx_From :: string
  etx_Gas :: u64
  etx_GasPrice :: int
  etx_Hash :: string
  etx_Input :: string
  etx_To :: string
  etx_Index :: u64
  etx_Value :: int
  etx_Nonce :: u64
  etx_V :: string
  etx_R :: string
  etx_S :: string
  etx_ChainId :: "u64 option"
  etx_Type :: u64

record ethereum_block =
  eb_Hash :: string
  eb_ParentHash :: string
  eb_Number :: u64
  eb_Timestamp :: u64
  eb_Transactions :: "ethereum_transaction option list"
  eb_Nonce :: string
  eb_ChainId :: chain_id

record ethereum_event_log =
  el_Removed :: bool
  el_LogIndex :: u64
  el_TransactionHash :: string
  el_TransactionIndex :: u64
  el_BlockHash :: string
  el_BlockNumber :: u64
  el_Address :: string
  el_Data :: string
  el_Topics :: "string list"

text \<open>
  Go values behind \<open>interface{}\<close>: of an argument, nil and the dynamic types the log parser stores; of
  the unpacked data, the ones the task conversion distinguishes and \<open>OutOther\<close> for any other.
\<close>

datatype arg_value = ArgNil | ArgString string | ArgAddress bytes | ArgInt int | ArgBool bool
datatype out_value = OutNat nat | OutBytes bytes | OutOther

record argument =
  arg_Name :: string
  arg_Type :: string
  arg_Value :: arg_value
  arg_Indexed :: bool

record decoded_log =
  dl_LogIndex :: u64
  dl_Address :: string
  dl_Arguments :: "argument list"
  dl_EventName :: string
  dl_OutputData :: "(string \<times> out_value) list option"

record log_with_block =
  lwb_Log :: decoded_log
  lwb_RawLog :: ethereum_event_log
  lwb_Block :: ethereum_block

section \<open>From a log to a task\<close>

datatype new_task_error =
    InvalidArgumentsLength nat
  | FailedToParseTaskId
  | FailedToParseAddress
  | FailedToUnmarshal
  | DeadlineTooLarge nat
  | NilPointerPanic

text \<open>
  \<open>outputDataType\<close>, the struct the log's data is marshalled into. \<open>encoding/json\<close> writes the
  keys of a map in sorted order and matches a key to a struct field up to case, a later key
  overwriting an earlier one; a value of the wrong type or out of range is an error.
\<close>

record output_data =
  od_ExecutorOperatorSetId :: u32
  od_OperatorTableReferenceTimestamp :: u32
  od_TaskDeadline :: "nat option"
  od_Payload :: bytes

definition od_zero :: output_data where
  "od_zero = \<lparr>od_ExecutorOperatorSetId = 0, od_OperatorTableReferenceTimestamp = 0,
     od_TaskDeadline = None, od_Payload = []\<rparr>"

definition json_u32 :: "out_value \<Rightarrow> u32 option" where
  "json_u32 v = (case v of OutNat n \<Rightarrow> (if n < 2 ^ 32 then Some (word_of_nat n) else None) | _ \<Rightarrow> None)"

definition json_field :: "output_data \<Rightarrow> string \<times> out_value \<Rightarrow> output_data option" where
  "json_field od kv =
     (if equalFold (fst kv) ''ExecutorOperatorSetId'' then
        map_option (\<lambda>w. od\<lparr>od_ExecutorOperatorSetId := w\<rparr>) (json_u32 (snd kv))
      else if equalFold (fst kv) ''OperatorTableReferenceTimestamp'' then
        map_option (\<lambda>w. od\<lparr>od_OperatorTableReferenceTimestamp := w\<rparr>) (json_u32 (snd kv))
      else if equalFold (fst kv) ''TaskDeadline'' then
        (case snd kv of OutNat n \<Rightarrow> Some (od\<lparr>od_TaskDeadline := Some n\<rparr>) | _ \<Rightarrow> None)
      else if equalFold (fst kv) ''Payload'' then
        (case snd kv of OutBytes b \<Rightarrow> Some (od\<lparr>od_Payload := b\<rparr>) | _ \<Rightarrow> None)
      else Some od)"

fun json_fields :: "output_data \<Rightarrow> (string \<times> out_value) list \<Rightarrow> output_data option" where
  "json_fields od [] = Some od"
| "json_fields od (kv # kvs) =
     (case json_field od kv of None \<Rightarrow> None | Some od' \<Rightarrow> json_fields od' kvs)"

text \<open>
  \<open>NewTaskFromLog\<close>. \<open>addrString\<close> is go-ethereum's \<open>Address.String\<close>. A log without data marshals
  to \<open>null\<close> and leaves \<open>od\<close> nil; a missing deadline is a nil \<open>*big.Int\<close>: both are dereferenced.
\<close>

definition newTaskFromLog ::
  "(bytes \<Rightarrow> string) \<Rightarrow> decoded_log \<Rightarrow> ethereum_block \<Rightarrow> string \<Rightarrow> (new_task_error, task) result" where
  "newTaskFromLog addrString log block inboxAddress =
     (if length (dl_Arguments log) < 3 then Inl (InvalidArgumentsLength (length (dl_Arguments log)))
      else case arg_Value (dl_Arguments log ! 1) of
        ArgString taskId \<Rightarrow>
          (case arg_Value (dl_Arguments log ! 2) of
            ArgAddress avsAddr \<Rightarrow>
              (case dl_OutputData log of
                None \<Rightarrow> Inl NilPointerPanic
              | Some m \<Rightarrow>
                (case json_fields od_zero (sort_key fst m) of
                  None \<Rightarrow> Inl FailedToUnmarshal
                | Some od \<Rightarrow>
                  (case od_TaskDeadline od of
                    None \<Rightarrow> Inl NilPointerPanic
                  | Some d \<Rightarrow>
                    if d > 2 ^ 63 - 1 then Inl (DeadlineTooLarge d)
                    else Inr \<lparr>task_TaskId = taskId,
                      task_AVSAddress = toLower (addrString avsAddr),
                      task_OperatorSetId = od_ExecutorOperatorSetId od,
                      task_CallbackAddr = inboxAddress,
                      task_DeadlineUnixSeconds = Some (int d),
                      task_ThresholdBips = 0,
                      task_Payload = od_Payload od,
                      task_ChainId = eb_ChainId block,
                      task_SourceBlockNumber = eb_Number block,
                      task_L1ReferenceBlockNumber = 0,
                      task_ReferenceTimestamp = od_OperatorTableReferenceTimestamp od,
                      task_BlockHash = eb_Hash block,
                      task_Version = 1,
                      task_Context = None\<rparr>)))
          | _ \<Rightarrow> Inl FailedToParseAddress)
      | _ \<Rightarrow> Inl FailedToParseTaskId)"

section \<open>Records of the persistence layer\<close>

datatype task_status =
  TaskStatusPending | TaskStatusProcessing | TaskStatusCompleted | TaskStatusFailed
  | TaskStatusOther string

definition statusString :: "task_status \<Rightarrow> string" where
  "statusString st = (case st of TaskStatusPending \<Rightarrow> ''pending'' | TaskStatusProcessing \<Rightarrow> ''processing''
     | TaskStatusCompleted \<Rightarrow> ''completed'' | TaskStatusFailed \<Rightarrow> ''failed''
     | TaskStatusOther s \<Rightarrow> s)"

record task_record =
  rec_Task :: task
  rec_Status :: task_status
  rec_CreatedAt :: time
  rec_UpdatedAt :: time

record block_record =
  br_Number :: u64
  br_Hash :: string
  br_ParentHash :: string
  br_Timestamp :: u64
  br_ChainId :: chain_id

datatype store_err =
  ErrNotFound | ErrAlreadyExists | ErrStoreClosed | ErrInvalidTaskStatus | ErrOther string

text \<open>
  The interface \<open>AggregatorStore\<close>: a Go interface value is a record of its methods over the
  store's state. An \<open>error\<close> result is \<open>None\<close> for nil; a pointer argument is an option. The
  methods that stamp a record take the time they read.
\<close>

record 's aggregator_store =
  sGetLastProcessedBlock :: "'s \<Rightarrow> string \<Rightarrow> chain_id \<Rightarrow> (store_err, block_record) result"
  sSaveBlock :: "'s \<Rightarrow> string \<Rightarrow> block_record option \<Rightarrow> store_err option \<times> 's"
  sGetBlock :: "'s \<Rightarrow> string \<Rightarrow> chain_id \<Rightarrow> u64 \<Rightarrow> (store_err, block_record) result"
  sDeleteBlock :: "'s \<Rightarrow> string \<Rightarrow> chain_id \<Rightarrow> u64 \<Rightarrow> store_err option \<times> 's"
  sSavePendingTask :: "time \<Rightarrow> 's \<Rightarrow> task option \<Rightarrow> store_err option \<times> 's"
  sGetTask :: "'s \<Rightarrow> string \<Rightarrow> (store_err, task) result"
  sListPendingTasks :: "'s \<Rightarrow> (store_err, task list) result"
  sListPendingTasksForAVS :: "'s \<Rightarrow> string \<Rightarrow> (store_err, task list) result"
  sUpdateTaskStatus :: "time \<Rightarrow> 's \<Rightarrow> string \<Rightarrow> task_status \<Rightarrow> store_err option \<times> 's"
  sDeleteTask :: "'s \<Rightarrow> string \<Rightarrow> store_err option \<times> 's"
  sClose :: "'s \<Rightarrow> store_err option \<times> 's"

text \<open>What survives a round trip through JSON: everything but the context (tag \<open>json:"-"\<close>).\<close>

definition task_persist :: "task \<Rightarrow> task" where
  "task_persist t = t\<lparr>task_Context := None\<rparr>"

text \<open>
  \<open>time.Time\<close> marshals to JSON only for years 0 to 9999; a task whose deadline lies beyond cannot
  be written by a store that serialises its records.
\<close>

definition json_time_ok :: "time \<Rightarrow> bool" where
  "json_time_ok d \<longleftrightarrow> - 62167219200 \<le> d \<and> d \<le> 253402300799"

definition storable :: "task \<Rightarrow> bool" where
  "storable t \<longleftrightarrow> (case task_DeadlineUnixSeconds t of None \<Rightarrow> True | Some d \<Rightarrow> json_time_ok d)"

lemma task_persist_simps [simp]:
  "task_TaskId (task_persist t) = task_TaskId t"
  "task_AVSAddress (task_persist t) = task_AVSAddress t"
  "task_SourceBlockNumber (task_persist t) = task_SourceBlockNumber t"
  "task_DeadlineUnixSeconds (task_persist t) = task_DeadlineUnixSeconds t"
  "task_persist (task_persist t) = task_persist t"
  "task_persist (t\<lparr>task_Context := c\<rparr>) = task_persist t"
  "storable (task_persist t) = storable t"
  by (simp_all add: task_persist_def storable_def)

section \<open>Properties of the conversion\<close>

lemma newTaskFromLog_Inr:
  assumes "newTaskFromLog f log block inbox = Inr t"
  obtains taskId avs m od d where
    "3 \<le> length (dl_Arguments log)"
    "arg_Value (dl_Arguments log ! 1) = ArgString taskId"
    "arg_Value (dl_Arguments log ! 2) = ArgAddress avs"
    "dl_OutputData log = Some m"
    "json_fields od_zero (sort_key fst m) = Some od"
    "od_TaskDeadline od = Some d" "d \<le> 2 ^ 63 - 1"
    "t = \<lparr>task_TaskId = taskId, task_AVSAddress = toLower (f avs),
          task_OperatorSetId = od_ExecutorOperatorSetId od, task_CallbackAddr = inbox,
          task_DeadlineUnixSeconds = Some (int d), task_ThresholdBips = 0,
          task_Payload = od_Payload od, task_ChainId = eb_ChainId block,
          task_SourceBlockNumber = eb_Number block, task_L1ReferenceBlockNumber = 0,
          task_ReferenceTimestamp = od_OperatorTableReferenceTimestamp od,
          task_BlockHash = eb_Hash block, task_Version = 1, task_Context = None\<rparr>"
  using assms that
  by (auto simp: newTaskFromLog_def split: if_splits arg_value.splits option.splits)

end
