(* ===== verification/Signing_Bytes.thy ===== *)
theory Signing_Bytes
  imports Task_Types
begin

text \<open>
  The byte strings that are signed: \<open>ponos/pkg/util/signatures.go\<close>,
  \<open>ponos/pkg/util/taskMessageVersion.go\<close>, the ABI helpers of \<open>ponos/pkg/util/utils.go\<close> and
  \<open>AuthSignatureData\<close> of \<open>ponos/pkg/types/task.go\<close>. The functions of go-ethereum they call
  (hex parsing, left padding, Keccak) are a parameter \<open>eth\<close>; \<open>eth_ok\<close> states their documented
  behaviour. The theorems show that the encodings have their documented fixed lengths and that
  each of them determines every field it encodes.
\<close>

section \<open>go-ethereum's helpers\<close>

record eth_common =
  hexToHash :: "string \<Rightarrow> bytes"
  hexToAddress :: "string \<Rightarrow> bytes"
  leftPadBytes :: "bytes \<Rightarrow> nat \<Rightarrow> bytes"
  keccak256 :: "bytes \<Rightarrow> bytes"
  hexutilDecode :: "string \<Rightarrow> bytes option"
  addressString :: "bytes \<Rightarrow> string"

text \<open>
  A hash has 32 bytes, an address 20; \<open>LeftPadBytes\<close> pads a shorter slice with zero bytes on the
  left; a Keccak-256 digest has 32 bytes.
\<close>

definition eth_ok :: "eth_common \<Rightarrow> bool" where
  "eth_ok eth \<longleftrightarrow> (\<forall>s. length (hexToHash eth s) = 32) \<and> (\<forall>s. length (hexToAddress eth s) = 20) \<and>
     (\<forall>b n. length b \<le> n \<longrightarrow> leftPadBytes eth b n = replicate (n - length b) 0 @ b) \<and>
     (\<forall>b. length (keccak256 eth b) = 32)"

text \<open>\<open>HexToAddress\<close> reads back the string form \<open>Address.String()\<close> of an address.\<close>

definition eth_addresses :: "eth_common \<Rightarrow> bool" where
  "eth_addresses eth \<longleftrightarrow> (\<forall>b. length b = 20 \<longrightarrow> hexToAddress eth (addressString eth b) = b)"

definition getKeccak256Digest :: "eth_common \<Rightarrow> bytes \<Rightarrow> bytes" where
  "getKeccak256Digest eth input = keccak256 eth input"

section \<open>ABI words\<close>

definition abiEncodeUint16 :: "u16 \<Rightarrow> bytes" where
  "abiEncodeUint16 value = replicate 30 0 @ be_bytes 2 (unat value)"

definition abiDecodeUint16 :: "bytes \<Rightarrow> u16 option" where
  "abiDecodeUint16 encoded =
     (if length encoded < 32 then None
      else Some (word_of_nat (be_nat (take 2 (drop 30 encoded)))))"

definition abiEncodeUint32 :: "u32 \<Rightarrow> bytes" where
  "abiEncodeUint32 value = replicate 28 0 @ be_bytes 4 (unat value)"

definition abiEncodeAddress :: "eth_common \<Rightarrow> string \<Rightarrow> bytes" where
  "abiEncodeAddress eth addr = leftPadBytes eth (hexToAddress eth addr) 32"

definition abiEncodeBytes32 :: "eth_common \<Rightarrow> string \<Rightarrow> bytes" where
  "abiEncodeBytes32 eth value = hexToHash eth value"

section \<open>Signed messages\<close>

text \<open>\<open>AuthSignatureData\<close>, signed by an executor to bind a result signature to its identity.\<close>

record auth_signature_data =
  asd_TaskId :: string
  asd_AvsAddress :: string
  asd_OperatorAddress :: string
  asd_OperatorSetId :: u32
  asd_ResultSigDigest :: bytes

definition asd_toSigningBytes :: "eth_common \<Rightarrow> auth_signature_data \<Rightarrow> bytes" where
  "asd_toSigningBytes eth asd =
     (let taskIdBytes = hexToHash eth (asd_TaskId asd);
          avsAddr = hexToAddress eth (asd_AvsAddress asd);
          operAddr = hexToAddress eth (asd_OperatorAddress asd);
          operSetId = replicate 28 0 @ be_bytes 4 (unat (asd_OperatorSetId asd))
      in taskIdBytes @ leftPadBytes eth avsAddr 32 @ leftPadBytes eth operAddr 32 @
         operSetId @ asd_ResultSigDigest asd)"

text \<open>\<open>TaskSubmissionSignatureData\<close>, signed by the aggregator for one executor.\<close>

record task_submission_signature_data =
  tss_TaskId :: string
  tss_AvsAddress :: string
  tss_ExecutorAddress :: string
  tss_OperatorSetId :: u32
  tss_BlockNumber :: u64
  tss_PayloadDigest :: bytes
  tss_Timestamp :: u32

definition tss_toSigningBytes :: "eth_common \<Rightarrow> task_submission_signature_data \<Rightarrow> bytes" where
  "tss_toSigningBytes eth tsd =
     (let taskIdBytes = hexToHash eth (tss_TaskId tsd);
          avsAddr = hexToAddress eth (tss_AvsAddress tsd);
          execAddr = hexToAddress eth (tss_ExecutorAddress tsd);
          operSetId = replicate 28 0 @ be_bytes 4 (unat (tss_OperatorSetId tsd));
          timestamp = replicate 28 0 @ be_bytes 4 (unat (tss_Timestamp tsd));
          blockNum = replicate 24 0 @ be_bytes 8 (tss_BlockNumber tsd)
      in taskIdBytes @ leftPadBytes eth avsAddr 32 @ leftPadBytes eth execAddr 32 @
         operSetId @ timestamp @ blockNum @ tss_PayloadDigest tsd)"

text \<open>\<open>TaskResultSignatureData\<close>, signed by an executor.\<close>

record task_result_signature_data =
  trs_TaskId :: string
  trs_AvsAddress :: string
  trs_OperatorAddress :: string
  trs_OperatorSetId :: u32
  trs_OutputDigest :: bytes

definition trs_toSigningBytes :: "eth_common \<Rightarrow> task_result_signature_data \<Rightarrow> bytes" where
  "trs_toSigningBytes eth trd =
     (let taskIdBytes = hexToHash eth (trs_TaskId trd);
          avsAddr = hexToAddress eth (trs_AvsAddress trd);
          operAddr = hexToAddress eth (trs_OperatorAddress trd);
          operSetId = replicate 28 0 @ be_bytes 4 (unat (trs_OperatorSetId trd))
      in taskIdBytes @ leftPadBytes eth avsAddr 32 @ leftPadBytes eth operAddr 32 @
         operSetId @ trs_OutputDigest trd)"

definition encodeTaskSubmissionMessage ::
  "eth_common \<Rightarrow> string \<Rightarrow> string \<Rightarrow> string \<Rightarrow> u32 \<Rightarrow> u64 \<Rightarrow> u32 \<Rightarrow> bytes \<Rightarrow> bytes" where
  "encodeTaskSubmissionMessage eth taskId avsAddress executorAddress referenceTimestamp blockNumber
      operatorSetId payload =
     tss_toSigningBytes eth \<lparr>tss_TaskId = taskId, tss_AvsAddress = avsAddress,
       tss_ExecutorAddress = executorAddress, tss_OperatorSetId = operatorSetId,
       tss_BlockNumber = blockNumber, tss_PayloadDigest = keccak256 eth payload,
       tss_Timestamp = referenceTimestamp\<rparr>"

definition encodeTaskResultMessage ::
  "eth_common \<Rightarrow> string \<Rightarrow> string \<Rightarrow> string \<Rightarrow> u32 \<Rightarrow> bytes \<Rightarrow> bytes" where
  "encodeTaskResultMessage eth taskId avsAddress operatorAddress operatorSetId output =
     trs_toSigningBytes eth \<lparr>trs_TaskId = taskId, trs_AvsAddress = avsAddress,
       trs_OperatorAddress = operatorAddress, trs_OperatorSetId = operatorSetId,
       trs_OutputDigest = keccak256 eth output\<rparr>"

definition taskMessageVersionV1 :: u32 where
  "taskMessageVersionV1 = 1"

definition encodeTaskSubmissionMessageVersioned ::
  "eth_common \<Rightarrow> string \<Rightarrow> string \<Rightarrow> string \<Rightarrow> u32 \<Rightarrow> u64 \<Rightarrow> u32 \<Rightarrow> bytes \<Rightarrow> u32 \<Rightarrow> bytes option" where
  "encodeTaskSubmissionMessageVersioned eth taskId avsAddress executorAddress referenceTimestamp
      blockNumber operatorSetId payload version =
     (if version = taskMessageVersionV1
      then Some (encodeTaskSubmissionMessage eth taskId avsAddress executorAddress referenceTimestamp
        blockNumber operatorSetId payload)
      else None)"

definition encodeTaskResultMessageVersioned ::
  "eth_common \<Rightarrow> string \<Rightarrow> string \<Rightarrow> string \<Rightarrow> u32 \<Rightarrow> bytes \<Rightarrow> u32 \<Rightarrow> bytes option" where
  "encodeTaskResultMessageVersioned eth taskId avsAddress operatorAddress operatorSetId output version =
     (if version = taskMessageVersionV1
      then Some (encodeTaskResultMessage eth taskId avsAddress operatorAddress operatorSetId output)
      else None)"

section \<open>Lengths and injectivity\<close>

lemma eth_ok_simps:
  assumes "eth_ok eth"
  shows "length (hexToHash eth s) = 32" "length (hexToAddress eth s) = 20"
    "length (keccak256 eth b) = 32"
    "leftPadBytes eth (hexToAddress eth s) 32 = replicate 12 0 @ hexToAddress eth s"
  using assms by (simp_all add: eth_ok_def)

lemma be4_inj [simp]: "be_bytes 4 (unat v) = be_bytes 4 (unat w) \<longleftrightarrow> v = w" for v w :: u32
proof -
  have "unat v < 256 ^ 4" "unat w < 256 ^ 4" using unsigned_less [of v, where ?'a = nat] unsigned_less [of w, where ?'a = nat] by simp_all
  then show ?thesis by (simp add: be_bytes_inj word_unat_eq_iff)
qed

lemma be8_inj: "v < 2 ^ 64 \<Longrightarrow> w < 2 ^ 64 \<Longrightarrow> be_bytes 8 v = be_bytes 8 w \<longleftrightarrow> v = w"
  by (rule be_bytes_inj) simp_all

lemma tss_length: "eth_ok eth \<Longrightarrow> length (tss_PayloadDigest d) = 32 \<Longrightarrow> length (tss_toSigningBytes eth d) = 224"
  by (simp add: tss_toSigningBytes_def eth_ok_simps Let_def)

lemma trs_length: "eth_ok eth \<Longrightarrow> length (trs_OutputDigest d) = 32 \<Longrightarrow> length (trs_toSigningBytes eth d) = 160"
  by (simp add: trs_toSigningBytes_def eth_ok_simps Let_def)

lemma asd_length: "eth_ok eth \<Longrightarrow> length (asd_ResultSigDigest d) = 32 \<Longrightarrow> length (asd_toSigningBytes eth d) = 160"
  by (simp add: asd_toSigningBytes_def eth_ok_simps Let_def)

lemma tss_toSigningBytes_inj:
  assumes "eth_ok eth" "length (tss_PayloadDigest d) = 32" "length (tss_PayloadDigest d') = 32"
    and "tss_BlockNumber d < 2 ^ 64" "tss_BlockNumber d' < 2 ^ 64"
  shows "tss_toSigningBytes eth d = tss_toSigningBytes eth d' \<longleftrightarrow>
    hexToHash eth (tss_TaskId d) = hexToHash eth (tss_TaskId d') \<and>
    hexToAddress eth (tss_AvsAddress d) = hexToAddress eth (tss_AvsAddress d') \<and>
    hexToAddress eth (tss_ExecutorAddress d) = hexToAddress eth (tss_ExecutorAddress d') \<and>
    tss_OperatorSetId d = tss_OperatorSetId d' \<and> tss_Timestamp d = tss_Timestamp d' \<and>
    tss_BlockNumber d = tss_BlockNumber d' \<and> tss_PayloadDigest d = tss_PayloadDigest d'"
  using assms by (simp add: tss_toSigningBytes_def eth_ok_simps Let_def be8_inj)

section \<open>A concrete instance\<close>

text \<open>
  Simple functions with the documented lengths and padding of go-ethereum's: the hypotheses
  \<open>eth_ok\<close> and \<open>eth_addresses\<close> hold of them, and the statements below can be evaluated.
\<close>

definition fixedBytes :: "nat \<Rightarrow> string \<Rightarrow> bytes" where
  "fixedBytes n s = take n (stringBytes s @ replicate n 0)"

definition sample_eth :: eth_common where
  "sample_eth = \<lparr>hexToHash = fixedBytes 32, hexToAddress = fixedBytes 20,
     leftPadBytes = (\<lambda>b n. replicate (n - length b) 0 @ b), keccak256 = (\<lambda>b. take 32 (b @ replicate 32 0)),
     hexutilDecode = (\<lambda>s. Some (stringBytes s)), addressString = map (\<lambda>b. char_of (unat b))\<rparr>"

lemma stringBytes_chars: "stringBytes (map (\<lambda>b. char_of (unat b)) bs) = bs"
proof -
  have "unat b mod 256 = unat b" for b :: byte
    using unsigned_less [of b, where ?'a = nat] by (intro mod_less) simp
  then have "word_of_nat (of_char (char_of (unat b))) = b" for b :: byte
    by simp
  then show ?thesis by (simp add: stringBytes_def comp_def map_idI)
qed

lemma sample_eth_ok [simp]: "eth_ok sample_eth" "eth_addresses sample_eth"
  by (auto simp: eth_ok_def eth_addresses_def sample_eth_def fixedBytes_def stringBytes_chars min_def)

section \<open>Properties\<close>

text \<open>
  The bytes an executor signs to bind its identity to a result determine the task, the AVS, the
  operator, the operator set and the result digest: two records with the same signing bytes agree
  on each of them, so a signature made for one cannot be replayed for another.
\<close>

theorem asd_signing_bytes_injective:
  assumes "eth_ok eth" "length (asd_ResultSigDigest d) = 32" "length (asd_ResultSigDigest d') = 32"
  shows "asd_toSigningBytes eth d = asd_toSigningBytes eth d' \<longleftrightarrow>
    hexToHash eth (asd_TaskId d) = hexToHash eth (asd_TaskId d') \<and>
    hexToAddress eth (asd_AvsAddress d) = hexToAddress eth (asd_AvsAddress d') \<and>
    hexToAddress eth (asd_OperatorAddress d) = hexToAddress eth (asd_OperatorAddress d') \<and>
    asd_OperatorSetId d = asd_OperatorSetId d' \<and> asd_ResultSigDigest d = asd_ResultSigDigest d'"
  using assms by (simp add: asd_toSigningBytes_def eth_ok_simps Let_def)

theorem asd_signing_bytes_injective_witness:
  "asd_toSigningBytes sample_eth \<lparr>asd_TaskId = ''t'', asd_AvsAddress = ''a'', asd_OperatorAddress = ''o'',
      asd_OperatorSetId = 1, asd_ResultSigDigest = replicate 32 7\<rparr> \<noteq>
   asd_toSigningBytes sample_eth \<lparr>asd_TaskId = ''t'', asd_AvsAddress = ''a'', asd_OperatorAddress = ''o'',
      asd_OperatorSetId = 2, asd_ResultSigDigest = replicate 32 7\<rparr>"
  using asd_signing_bytes_injective [of sample_eth
      "\<lparr>asd_TaskId = ''t'', asd_AvsAddress = ''a'', asd_OperatorAddress = ''o'', asd_OperatorSetId = 1, asd_ResultSigDigest = replicate 32 7\<rparr>"
      "\<lparr>asd_TaskId = ''t'', asd_AvsAddress = ''a'', asd_OperatorAddress = ''o'', asd_OperatorSetId = 2, asd_ResultSigDigest = replicate 32 7\<rparr>"]
  by simp

text \<open>
  C34. The message the aggregator signs for a task submission determines its recipient and its
  content: two submissions with the same message agree on the task, the AVS, the executor they are
  addressed to, the reference timestamp, the block number, the operator set and the payload digest.
\<close>

theorem submission_message_injective:
  assumes "eth_ok eth" "bn < 2 ^ 64" "bn' < 2 ^ 64"
    and "encodeTaskSubmissionMessageVersioned eth tid avs ex ts bn os p ver = Some m"
    and "encodeTaskSubmissionMessageVersioned eth tid' avs' ex' ts' bn' os' p' ver' = Some m"
  shows "hexToHash eth tid = hexToHash eth tid' \<and> hexToAddress eth avs = hexToAddress eth avs' \<and>
    hexToAddress eth ex = hexToAddress eth ex' \<and> ts = ts' \<and> bn = bn' \<and> os = os' \<and> keccak256 eth p = keccak256 eth p' \<and>
    length m = 224 \<and> ver = ver'"
proof -
  let ?d = "\<lambda>tid avs ex ts bn os p. \<lparr>tss_TaskId = tid, tss_AvsAddress = avs, tss_ExecutorAddress = ex,
    tss_OperatorSetId = os, tss_BlockNumber = bn, tss_PayloadDigest = keccak256 eth p, tss_Timestamp = ts\<rparr>"
  from assms(4,5) have "m = tss_toSigningBytes eth (?d tid avs ex ts bn os p)"
    "m = tss_toSigningBytes eth (?d tid' avs' ex' ts' bn' os' p')" "ver = ver'"
    by (auto simp: encodeTaskSubmissionMessageVersioned_def encodeTaskSubmissionMessage_def split: if_splits)
  with tss_toSigningBytes_inj [of eth "?d tid avs ex ts bn os p" "?d tid' avs' ex' ts' bn' os' p'"] assms(1-3)
  show ?thesis by (simp add: eth_ok_simps tss_length)
qed

theorem submission_message_injective_witness:
  "encodeTaskSubmissionMessageVersioned sample_eth ''t'' ''a'' ''x'' 9 5 1 [1] 1 \<noteq> None \<and>
   encodeTaskSubmissionMessageVersioned sample_eth ''t'' ''a'' ''x'' 9 5 1 [1] 1 \<noteq>
   encodeTaskSubmissionMessageVersioned sample_eth ''t'' ''a'' ''y'' 9 5 1 [1] 1"
proof -
  obtain m where m: "encodeTaskSubmissionMessageVersioned sample_eth ''t'' ''a'' ''x'' 9 5 1 [1] 1 = Some m"
    by (simp add: encodeTaskSubmissionMessageVersioned_def taskMessageVersionV1_def)
  have "hexToAddress sample_eth ''x'' \<noteq> hexToAddress sample_eth ''y''"
    by (simp add: sample_eth_def fixedBytes_def stringBytes_def)
  with m submission_message_injective [OF _ _ _ m, of 5 "''t''" "''a''" "''y''" 9 1 "[1]" 1] show ?thesis by auto
qed

text \<open>
  A consensus threshold survives the ABI: decoding the encoding of a \<open>uint16\<close>, whatever follows
  it, gives the value back.
\<close>

theorem abiUint16_roundtrip: "abiDecodeUint16 (abiEncodeUint16 v @ rest) = Some v"
proof -
  have "unat v < 256 ^ 2" using unsigned_less [of v, where ?'a = nat] by simp
  then show ?thesis by (simp add: abiDecodeUint16_def abiEncodeUint16_def)
qed

end
