(* ===== verification/Stake_Tally.thy ===== *)
theory Stake_Tally
  imports Signing_Bytes
begin

text \<open>
  What the BN254 and the ECDSA result aggregators share
  (\<open>ponos/pkg/signing/aggregation/aggregation.go\<close> and the identical parts of \<open>bn254.go\<close> and
  \<open>ecdsa.go\<close>): operators, responses grouped by the digest they sign, the running stake weight of
  each group, the winning digest, and the stake threshold. Weights are \<open>*big.Int\<close>, hence \<open>int\<close>.
  The invariant \<open>tally_ok\<close> says that the weight of a group is the stake of its signers and that
  every signer was admitted; \<open>tally_winner\<close> that the winning digest has the largest weight.
\<close>

section \<open>Data\<close>

record 'k operator =
  op_Address :: string
  op_PublicKey :: 'k
  op_OperatorIndex :: u32
  op_Weights :: "int list"

definition getAddress :: "eth_common \<Rightarrow> 'k operator \<Rightarrow> bytes" where
  "getAddress eth op = hexToAddress eth (op_Address op)"

record 'rs received_response =
  rr_TaskId :: string
  rr_TaskResult :: task_result
  rr_Signature :: 'rs
  rr_OutputDigest :: bytes

record ('pub, 'sg, 'k) signer_info =
  si_publicKey :: 'pub
  si_signature :: 'sg
  si_operator :: "'k operator"

record ('pub, 'sg, 'k, 'rs) digest_group =
  dg_signers :: "(string \<times> ('pub, 'sg, 'k) signer_info) list"
  dg_response :: "'rs received_response"
  dg_currentWeight :: int

record ('pub, 'sg, 'k, 'rs) aggregated_operators =
  ao_digestGroups :: "(bytes \<times> ('pub, 'sg, 'k, 'rs) digest_group) list"
  ao_winningDigest :: bytes
  ao_winningWeight :: "int option"

text \<open>
  The contract calls the aggregators make through \<open>IContractCaller\<close>, with the answers they get: a
  parameter of every operation that calls the chain.
\<close>

record cert_caller =
  calculateTaskMessageHash :: "bytes \<Rightarrow> bytes \<Rightarrow> bytes option"
  calculateBN254CertificateDigestBytes :: "u32 \<Rightarrow> bytes \<Rightarrow> bytes option"
  calculateECDSACertificateDigestBytes :: "u32 \<Rightarrow> bytes \<Rightarrow> bytes option"

text \<open>The errors of the aggregators, one constructor per error return.\<close>

datatype verify_error = AddressMismatch | BadResultSignature | BadKeyType | DigestCallFailed
  | ResultVerifyError | ResultMismatch | BadAuthSignature | AuthVerifyError | AuthMismatch

datatype agg_error = ErrInvalidTaskId | ErrInvalidReferenceTimestamp | ErrNoOperatorAddresses
  | ErrInvalidThreshold | ErrNilKey nat | ErrNotBN254Key nat | ErrAggregateKeys
  | TaskIdMismatch | EmptyResultSignature | EmptyAuthSignature | AlreadySubmitted
  | OperatorSetMismatch | NotInAllowedSet | TaskHashFailed | VerifyFailed verify_error
  | BadOperatorKey | NoSignaturesCollected | NoWinningSignatures | BadTaskIdHex
  | NoCertificateSignatures | BadSignatureLength nat

text \<open>Go's \<open>copy\<close> of a slice into a fresh 32-byte array.\<close>

definition copy32 :: "bytes \<Rightarrow> bytes" where
  "copy32 b = take 32 (b @ replicate 32 0)"

text \<open>A new tally: no groups, the zero digest and no winning weight.\<close>

definition newAggregatedOperators :: "('pub, 'sg, 'k, 'rs) aggregated_operators" where
  "newAggregatedOperators = \<lparr>ao_digestGroups = [], ao_winningDigest = replicate 32 0, ao_winningWeight = None\<rparr>"

section \<open>Recording a response\<close>

definition updateWinningResponse ::
  "('pub, 'sg, 'k, 'rs) aggregated_operators \<Rightarrow> ('pub, 'sg, 'k, 'rs) digest_group \<Rightarrow> bytes \<Rightarrow>
     ('pub, 'sg, 'k, 'rs) aggregated_operators" where
  "updateWinningResponse ao grp digest =
     (case ao_winningWeight ao of
        None \<Rightarrow> ao\<lparr>ao_winningWeight := Some (dg_currentWeight grp), ao_winningDigest := digest\<rparr>
      | Some w \<Rightarrow>
          if dg_currentWeight grp > w
          then ao\<lparr>ao_winningWeight := Some (dg_currentWeight grp), ao_winningDigest := digest\<rparr>
          else ao)"

definition firstWeight :: "'k operator \<Rightarrow> int" where
  "firstWeight op = (if op_Weights op \<noteq> [] then hd (op_Weights op) else 0)"

text \<open>
  The tail of \<open>ProcessNewSignature\<close>: create the group of the digest if there is none, enter the
  signer under the address of the response, add the operator's first weight if it has one, and
  update the winning digest.
\<close>

definition groupFor ::
  "('pub, 'sg, 'k, 'rs) aggregated_operators \<Rightarrow> bytes \<Rightarrow> 'rs received_response \<Rightarrow> ('pub, 'sg, 'k, 'rs) digest_group" where
  "groupFor ao digest rr =
     (case gm_get (ao_digestGroups ao) digest of
        None \<Rightarrow> \<lparr>dg_signers = [], dg_response = rr, dg_currentWeight = 0\<rparr>
      | Some g \<Rightarrow> g)"

definition recordVote ::
  "('pub, 'sg, 'k, 'rs) aggregated_operators option \<Rightarrow> bytes \<Rightarrow> string \<Rightarrow> ('pub, 'sg, 'k) signer_info \<Rightarrow>
     'rs received_response \<Rightarrow> ('pub, 'sg, 'k, 'rs) aggregated_operators" where
  "recordVote aopt digest addr si rr =
     (let ao = (case aopt of None \<Rightarrow> newAggregatedOperators | Some a \<Rightarrow> a);
          grp = groupFor ao digest rr;
          grp' = grp\<lparr>dg_signers := gm_put (dg_signers grp) addr si,
                     dg_currentWeight := dg_currentWeight grp + firstWeight (si_operator si)\<rparr>;
          ao' = ao\<lparr>ao_digestGroups := gm_put (ao_digestGroups ao) digest grp'\<rparr>
      in updateWinningResponse ao' grp' digest)"

section \<open>The stake threshold\<close>

text \<open>
  \<open>SigningThresholdMet\<close>. \<open>Quo\<close> truncates towards zero; the total stake is the sum of the first
  weights of all operators of the task.
\<close>

definition quo :: "int \<Rightarrow> int \<Rightarrow> int" where
  "quo a b = sgn a * sgn b * (\<bar>a\<bar> div \<bar>b\<bar>)"

fun totalStake :: "'k operator list \<Rightarrow> int \<Rightarrow> int" where
  "totalStake [] acc = acc"
| "totalStake (op # ops) acc = totalStake ops (if op_Weights op \<noteq> [] then acc + hd (op_Weights op) else acc)"

definition stakeThresholdMet ::
  "'k operator list \<Rightarrow> u16 \<Rightarrow> ('pub, 'sg, 'k, 'rs) aggregated_operators option \<Rightarrow> bool" where
  "stakeThresholdMet ops bips aopt =
     (case aopt of
        None \<Rightarrow> False
      | Some ao \<Rightarrow>
          if length (ao_digestGroups ao) = 0 then False
          else (case gm_get (ao_digestGroups ao) (ao_winningDigest ao) of
                  None \<Rightarrow> False
                | Some winningGroup \<Rightarrow>
                    (let total = totalStake ops 0
                     in if sgn total = 0 then False
                        else dg_currentWeight winningGroup \<ge> quo (total * int (unat bips)) 10000)))"

lemma totalStake_sum [go_simps]: "totalStake ops acc = acc + (\<Sum>op\<leftarrow>ops. firstWeight op)"
  by (induction ops arbitrary: acc) (auto simp: firstWeight_def)

lemma quo_nonneg [go_simps]: "0 \<le> a \<Longrightarrow> 0 < b \<Longrightarrow> quo a b = a div b"
  by (cases "a = 0") (auto simp: quo_def)

section \<open>Invariants\<close>

text \<open>\<open>V digest addr si\<close> says why the signer \<open>si\<close>, entered under \<open>addr\<close>, was admitted.\<close>

definition group_ok ::
  "(bytes \<Rightarrow> string \<Rightarrow> ('pub, 'sg, 'k) signer_info \<Rightarrow> bool) \<Rightarrow> bytes \<Rightarrow> ('pub, 'sg, 'k, 'rs) digest_group \<Rightarrow> bool" where
  "group_ok V d g \<longleftrightarrow> gm_wf (dg_signers g) \<and> dg_signers g \<noteq> [] \<and>
     dg_currentWeight g = (\<Sum>(a, si)\<leftarrow>dg_signers g. firstWeight (si_operator si)) \<and>
     rr_OutputDigest (dg_response g) = d \<and>
     (\<forall>a si. gm_get (dg_signers g) a = Some si \<longrightarrow> V d a si)"

definition tally_ok ::
  "(bytes \<Rightarrow> string \<Rightarrow> ('pub, 'sg, 'k) signer_info \<Rightarrow> bool) \<Rightarrow>
     ('pub, 'sg, 'k, 'rs) aggregated_operators option \<Rightarrow> bool" where
  "tally_ok V aopt \<longleftrightarrow> (case aopt of None \<Rightarrow> True | Some ao \<Rightarrow>
     gm_wf (ao_digestGroups ao) \<and>
     (\<forall>d g. gm_get (ao_digestGroups ao) d = Some g \<longrightarrow> group_ok V d g) \<and>
     gm_get (ao_digestGroups ao) (ao_winningDigest ao) \<noteq> None \<and> ao_winningWeight ao \<noteq> None)"

definition tally_winner :: "('pub, 'sg, 'k, 'rs) aggregated_operators option \<Rightarrow> bool" where
  "tally_winner aopt \<longleftrightarrow> (case aopt of None \<Rightarrow> True | Some ao \<Rightarrow>
     (\<exists>g. gm_get (ao_digestGroups ao) (ao_winningDigest ao) = Some g \<and>
        ao_winningWeight ao = Some (dg_currentWeight g) \<and>
        (\<forall>d g'. gm_get (ao_digestGroups ao) d = Some g' \<longrightarrow> dg_currentWeight g' \<le> dg_currentWeight g)))"

lemma tally_ok_None [simp]: "tally_ok V None"
  by (simp add: tally_ok_def)

lemma tally_winner_None [simp]: "tally_winner None"
  by (simp add: tally_winner_def)

lemma group_ok_mono: "group_ok V d g \<Longrightarrow> (\<And>a si. V d a si \<Longrightarrow> V' d a si) \<Longrightarrow> group_ok V' d g"
  by (auto simp: group_ok_def)

lemma tally_ok_mono: "tally_ok V aopt \<Longrightarrow> (\<And>d a si. V d a si \<Longrightarrow> V' d a si) \<Longrightarrow> tally_ok V' aopt"
  unfolding tally_ok_def by (cases aopt) (simp_all, blast intro: group_ok_mono)

lemma updateWinning_groups [simp]:
  "ao_digestGroups (updateWinningResponse ao g d) = ao_digestGroups ao"
  by (simp add: updateWinningResponse_def split: option.split)

lemma group_ok_add:
  assumes "g = \<lparr>dg_signers = [], dg_response = rr, dg_currentWeight = 0\<rparr> \<and> rr_OutputDigest rr = d \<or> group_ok V d g"
    and "gm_get (dg_signers g) addr = None" and "V d addr si"
  shows "group_ok V d (g\<lparr>dg_signers := gm_put (dg_signers g) addr si,
           dg_currentWeight := dg_currentWeight g + firstWeight (si_operator si)\<rparr>)"
  using assms
  by (auto simp: group_ok_def gm_put_fresh gm_wf_def gm_keys_None map_add_def
      split: if_splits option.splits)

lemma groupFor_ok:
  assumes "tally_ok V aopt" "rr_OutputDigest rr = d"
    and "groupFor (case aopt of None \<Rightarrow> newAggregatedOperators | Some a \<Rightarrow> a) d rr = g"
  shows "g = \<lparr>dg_signers = [], dg_response = rr, dg_currentWeight = 0\<rparr> \<or> group_ok V d g"
  using assms by (auto simp: tally_ok_def groupFor_def newAggregatedOperators_def split: option.splits)

text \<open>
  A response recorded under an address that no admitted signer uses keeps the invariant, and, when
  the weight of its operator is not negative, the winner.
\<close>

lemma recordVote_ok:
  assumes ok: "tally_ok V aopt" and fresh: "\<And>d' si'. \<not> V d' addr si'"
    and mono: "\<And>d' a si'. V d' a si' \<Longrightarrow> V' d' a si'"
    and new: "V' d addr si" "rr_OutputDigest rr = d"
  shows "tally_ok V' (Some (recordVote aopt d addr si rr))"
proof -
  let ?ao = "case aopt of None \<Rightarrow> newAggregatedOperators | Some a \<Rightarrow> a"
  let ?g = "groupFor ?ao d rr"
  from groupFor_ok [OF ok new(2) refl]
  have cases: "?g = \<lparr>dg_signers = [], dg_response = rr, dg_currentWeight = 0\<rparr> \<or> group_ok V d ?g" .
  then have "gm_get (dg_signers ?g) addr = None"
    using fresh by (cases "gm_get (dg_signers ?g) addr") (auto simp: group_ok_def)
  with cases new mono
  have g': "group_ok V' d (?g\<lparr>dg_signers := gm_put (dg_signers ?g) addr si,
           dg_currentWeight := dg_currentWeight ?g + firstWeight (si_operator si)\<rparr>)"
    by (blast intro: group_ok_add group_ok_mono)
  have old: "gm_wf (ao_digestGroups ?ao) \<and> (\<forall>d g. gm_get (ao_digestGroups ?ao) d = Some g \<longrightarrow> group_ok V' d g) \<and>
      (ao_winningWeight ?ao = None \<or> gm_get (ao_digestGroups ?ao) (ao_winningDigest ?ao) \<noteq> None)"
    using tally_ok_mono [OF ok, of V'] mono
    by (auto simp: tally_ok_def newAggregatedOperators_def split: option.splits)
  show ?thesis
    using g' old
    by (auto simp: tally_ok_def recordVote_def Let_def updateWinningResponse_def split: option.splits)
qed

lemma recordVote_winner:
  assumes "tally_ok V aopt" "tally_winner aopt" "0 \<le> firstWeight (si_operator si)"
  shows "tally_winner (Some (recordVote aopt d addr si rr))"
proof (cases aopt)
  case None
  then show ?thesis
    by (simp add: tally_winner_def recordVote_def groupFor_def newAggregatedOperators_def
        updateWinningResponse_def)
next
  case (Some ao)
  with assms(2) obtain g where g: "gm_get (ao_digestGroups ao) (ao_winningDigest ao) = Some g"
    "ao_winningWeight ao = Some (dg_currentWeight g)"
    "\<And>d g'. gm_get (ao_digestGroups ao) d = Some g' \<Longrightarrow> dg_currentWeight g' \<le> dg_currentWeight g"
    by (auto simp: tally_winner_def)
  define ng where "ng = groupFor ao d rr"
  have le: "gm_get (ao_digestGroups ao) d' = Some g' \<Longrightarrow> dg_currentWeight g + firstWeight (si_operator si) \<ge> dg_currentWeight g'" for d' g'
    using g(3) assms(3) by (meson add_increasing2)
  show ?thesis
    using Some g assms(3) g(3) [of d] le
    by (fastforce simp: tally_winner_def recordVote_def groupFor_def Let_def updateWinningResponse_def
        split: option.splits if_splits)
qed

section \<open>What a met threshold means\<close>

lemma sum_list_le_of_distinct:
  fixes f :: "'a \<Rightarrow> int"
  assumes "distinct xs" "set xs \<subseteq> set ys" "\<And>y. y \<in> set ys \<Longrightarrow> 0 \<le> f y"
  shows "(\<Sum>x\<leftarrow>xs. f x) \<le> (\<Sum>y\<leftarrow>ys. f y)"
proof -
  have "(\<Sum>x\<leftarrow>xs. f x) = sum f (set xs)" using assms(1) by (simp add: sum_list_distinct_conv_sum_set)
  also have "\<dots> \<le> sum f (set ys)" using assms(2,3) by (intro sum_mono2) auto
  also have "\<dots> \<le> (\<Sum>y\<leftarrow>ys. f y)"
    using assms(3)
  proof (induction ys)
    case (Cons y ys)
    then have "0 \<le> f y" and "sum f (set ys) \<le> (\<Sum>y\<leftarrow>ys. f y)" by auto
    then show ?case by (cases "y \<in> set ys") (auto simp: insert_absorb)
  qed simp
  finally show ?thesis .
qed

text \<open>
  Signers are entered under the address of their response. When that is the address of the
  operator itself, distinct signers are distinct operators.
\<close>

lemma group_ok_mem: "group_ok V d g \<Longrightarrow> (a, si) \<in> set (dg_signers g) \<Longrightarrow> V d a si"
  by (simp add: group_ok_def gm_mem_iff)

lemma group_operators_distinct:
  assumes "group_ok V d g" "\<And>a si. V d a si \<Longrightarrow> op_Address (si_operator si) = a"
  shows "distinct (map (\<lambda>(a, si). si_operator si) (dg_signers g))"
proof -
  have "map (op_Address \<circ> (\<lambda>(a, si). si_operator si)) (dg_signers g) = map fst (dg_signers g)"
    using group_ok_mem [OF assms(1)] assms(2) by auto
  moreover have "distinct (map fst (dg_signers g))"
    using assms(1) by (simp add: group_ok_def gm_wf_def)
  ultimately have "distinct (map op_Address (map (\<lambda>(a, si). si_operator si) (dg_signers g)))"
    by (simp only: map_map)
  then show ?thesis by (simp only: distinct_map)
qed

lemma group_weight_le_total:
  assumes "group_ok V d g"
    and "\<And>a si. V d a si \<Longrightarrow> op_Address (si_operator si) = a \<and> si_operator si \<in> set ops"
    and "\<And>op. op \<in> set ops \<Longrightarrow> 0 \<le> firstWeight op"
  shows "dg_currentWeight g \<le> totalStake ops 0"
proof -
  have "set (map (\<lambda>(a, si). si_operator si) (dg_signers g)) \<subseteq> set ops"
    using group_ok_mem [OF assms(1)] assms(2) by fastforce
  with group_operators_distinct [OF assms(1)] assms(2,3)
  have "(\<Sum>op\<leftarrow>map (\<lambda>(a, si). si_operator si) (dg_signers g). firstWeight op) \<le> (\<Sum>op\<leftarrow>ops. firstWeight op)"
    by (intro sum_list_le_of_distinct) auto
  then show ?thesis
    using assms(1) by (simp add: group_ok_def go_simps comp_def case_prod_unfold)
qed

text \<open>
  The threshold is met exactly when the winning group holds at least the rounded-down share of
  a positive total stake.
\<close>

lemma stakeThresholdMet_iff:
  assumes "tally_ok V (Some ao)" "\<And>op. op \<in> set ops \<Longrightarrow> 0 \<le> firstWeight op"
  shows "stakeThresholdMet ops bips (Some ao) \<longleftrightarrow>
    (\<exists>g. gm_get (ao_digestGroups ao) (ao_winningDigest ao) = Some g \<and> group_ok V (ao_winningDigest ao) g \<and>
       0 < totalStake ops 0 \<and> totalStake ops 0 * int (unat bips) div 10000 \<le> dg_currentWeight g)"
proof -
  have nonneg: "0 \<le> totalStake ops 0"
    using assms(2) by (auto simp: go_simps intro!: sum_list_nonneg)
  from assms(1) show ?thesis
    using nonneg
    by (auto simp: stakeThresholdMet_def tally_ok_def Let_def quo_nonneg sgn_if split: option.splits)
qed

lemma stakeThresholdMet_None [simp]: "\<not> stakeThresholdMet ops bips None"
  by (simp add: stakeThresholdMet_def)

text \<open>
  In terms of exact shares: a met threshold leaves the weight of the winning group less than one
  unit short of the share \<open>bips / 10000\<close> of the total stake, and a group with the full share always
  meets it.
\<close>

lemma div_threshold:
  "t * b div 10000 \<le> w \<longleftrightarrow> t * b < 10000 * (w + 1)" for t b w :: int
  by (simp add: int_div_less_self) linarith

end
