(* ===== verification/Aggregation_Spec.thy ===== *)
theory Aggregation_Spec
  imports Stake_Tally "HOL-Library.Multiset"
begin

text \<open>
  The contract of \<open>ITaskResultAggregator\<close> (\<open>ponos/pkg/signing/aggregation/aggregation.go\<close>), stated
  over an abstract ballot: the multiset of accepted votes (response address, stake weight, digest).
  The locale \<open>result_aggregator\<close> lists what both implementations promise and derives, for any
  sequence of responses, what a met threshold and a generated certificate mean.
\<close>

section \<open>The interface and the ballot\<close>

record ('st, 'cert) aggregator_ops =
  aSigningThresholdMet :: "'st \<Rightarrow> bool"
  aProcessNewSignature :: "'st \<Rightarrow> task_result \<Rightarrow> agg_error option \<times> 'st"
  aGenerateFinalCertificate :: "'st \<Rightarrow> (agg_error + 'cert) \<times> 'st"

type_synonym vote = "string \<times> int \<times> bytes"

definition voteWeight :: "bytes \<Rightarrow> vote multiset \<Rightarrow> int" where
  "voteWeight d B = (\<Sum>(a, w, d')\<in>#B. if d' = d then w else 0)"

definition voteDigests :: "vote multiset \<Rightarrow> bytes set" where
  "voteDigests B = (\<lambda>(a, w, d). d) ` set_mset B"

definition quorum :: "int \<Rightarrow> u16 \<Rightarrow> int \<Rightarrow> bool" where
  "quorum tot bips w \<longleftrightarrow> 0 < tot \<and> tot * int (unat bips) div 10000 \<le> w"

lemma voteWeight_empty [simp]: "voteWeight d {#} = 0"
  by (simp add: voteWeight_def)

lemma voteWeight_add [simp]:
  "voteWeight d (add_mset (a, w, d') B) = (if d' = d then w else 0) + voteWeight d B"
  by (simp add: voteWeight_def)

lemma voteWeight_plus [simp]: "voteWeight d (B + C) = voteWeight d B + voteWeight d C"
  by (simp add: voteWeight_def)

lemma voteWeight_none: "d \<notin> voteDigests B \<Longrightarrow> voteWeight d B = 0"
  by (induction B) (auto simp: voteDigests_def)

lemma quorum_mono: "quorum tot bips w \<Longrightarrow> w \<le> w' \<Longrightarrow> quorum tot bips w'"
  by (auto simp: quorum_def)

lemma quorum_exact: "quorum tot bips w \<longleftrightarrow> 0 < tot \<and> tot * int (unat bips) < 10000 * (w + 1)"
  by (simp add: quorum_def div_threshold)

section \<open>The ballot of a tally\<close>

definition groupVotes :: "bytes \<times> ('pub, 'sg, 'k, 'rs) digest_group \<Rightarrow> vote list" where
  "groupVotes dg = map (\<lambda>(a, si). (a, firstWeight (si_operator si), fst dg)) (dg_signers (snd dg))"

definition tallyVotes :: "('pub, 'sg, 'k, 'rs) aggregated_operators option \<Rightarrow> vote multiset" where
  "tallyVotes aopt = (case aopt of None \<Rightarrow> {#}
     | Some ao \<Rightarrow> mset (concat (map groupVotes (ao_digestGroups ao))))"

lemma mset_concat_put:
  assumes "gm_wf m" "gm_get m k = Some v"
  shows "mset (concat (map f (gm_put m k v'))) + mset (f (k, v)) = mset (concat (map f m)) + mset (f (k, v'))"
  using assms
proof (induction m)
  case (Cons e m)
  then show ?case by (cases e) (auto simp: gm_wf_def ac_simps split: if_splits)
qed simp

lemma recordVote_votes:
  assumes ok: "tally_ok V aopt" and fresh: "\<And>d' si'. \<not> V d' addr si'"
  shows "tallyVotes (Some (recordVote aopt d addr si rr)) =
    add_mset (addr, firstWeight (si_operator si), d) (tallyVotes aopt)"
proof (cases aopt)
  case None
  then show ?thesis
    by (simp add: tallyVotes_def recordVote_def groupFor_def newAggregatedOperators_def groupVotes_def Let_def)
next
  case (Some ao)
  show ?thesis
  proof (cases "gm_get (ao_digestGroups ao) d")
    case None
    with Some show ?thesis
      by (simp add: tallyVotes_def recordVote_def groupFor_def groupVotes_def Let_def gm_put_fresh)
  next
    case (Some g)
    with \<open>aopt = Some ao\<close> ok have g: "group_ok V d g" and wf: "gm_wf (ao_digestGroups ao)"
      by (auto simp: tally_ok_def)
    have "gm_get (dg_signers g) addr = None"
      using g fresh by (cases "gm_get (dg_signers g) addr") (auto simp: group_ok_def)
    then show ?thesis
      using \<open>aopt = Some ao\<close> Some
        mset_concat_put [OF wf Some, of groupVotes "g\<lparr>dg_signers := dg_signers g @ [(addr, si)],
          dg_currentWeight := dg_currentWeight g + firstWeight (si_operator si)\<rparr>"]
      by (simp add: tallyVotes_def recordVote_def groupFor_def Let_def gm_put_fresh groupVotes_def)
  qed
qed

lemma voteWeight_group:
  "voteWeight d (mset (groupVotes (d', g))) =
     (if d' = d then (\<Sum>(a, si)\<leftarrow>dg_signers g. firstWeight (si_operator si)) else 0)"
proof -
  have "voteWeight d (mset (map (\<lambda>(a, si). (a, firstWeight (si_operator si), d')) xs)) =
      (if d' = d then (\<Sum>(a, si)\<leftarrow>xs. firstWeight (si_operator si)) else 0)" for xs :: "(string \<times> ('a, 'b, 'c) signer_info) list"
    by (induction xs) auto
  then show ?thesis by (simp add: groupVotes_def)
qed

lemma voteWeight_groups:
  "gm_wf m \<Longrightarrow> voteWeight d (mset (concat (map groupVotes m))) =
     (case gm_get m d of None \<Rightarrow> 0 | Some g \<Rightarrow> \<Sum>(a, si)\<leftarrow>dg_signers g. firstWeight (si_operator si))"
proof (induction m)
  case (Cons e m)
  obtain d' g where e: "e = (d', g)" by (cases e)
  from Cons e have IH: "voteWeight d (mset (concat (map groupVotes m))) =
     (case gm_get m d of None \<Rightarrow> 0 | Some g \<Rightarrow> \<Sum>(a, si)\<leftarrow>dg_signers g. firstWeight (si_operator si))"
    and new: "gm_get m d' = None"
    by (auto simp: gm_wf_def map_of_eq_None_iff)
  show ?case using IH new e by (auto simp: voteWeight_group)
qed simp

lemma voteWeight_tally:
  assumes "tally_ok V (Some ao)"
  shows "voteWeight d (tallyVotes (Some ao)) =
    (case gm_get (ao_digestGroups ao) d of None \<Rightarrow> 0 | Some g \<Rightarrow> dg_currentWeight g)"
  using assms by (auto simp: tally_ok_def tallyVotes_def voteWeight_groups group_ok_def split: option.split)

lemma voteDigests_tally:
  assumes "tally_ok V (Some ao)"
  shows "voteDigests (tallyVotes (Some ao)) = fst ` set (ao_digestGroups ao)"
proof -
  have "\<And>d g. (d, g) \<in> set (ao_digestGroups ao) \<Longrightarrow> dg_signers g \<noteq> []"
    using assms by (auto simp: tally_ok_def group_ok_def gm_mem_iff)
  then have "(\<lambda>(a, w, d). d) ` set (groupVotes e) = {fst e}" if "e \<in> set (ao_digestGroups ao)" for e
    using that by (cases e) (simp add: groupVotes_def image_image case_prod_unfold image_constant_conv)
  then show ?thesis
    by (auto simp: voteDigests_def tallyVotes_def image_UN)
qed

lemma voteMem_tally:
  assumes "tally_ok V aopt" "(a, w, d) \<in># tallyVotes aopt"
  shows "\<exists>si. V d a si \<and> w = firstWeight (si_operator si)"
proof -
  from assms(2) obtain ao g si where "aopt = Some ao" "(d, g) \<in> set (ao_digestGroups ao)"
    "(a, si) \<in> set (dg_signers g)" "w = firstWeight (si_operator si)"
    by (auto simp: tallyVotes_def groupVotes_def split: option.splits)
  with assms(1) show ?thesis
    by (auto simp: tally_ok_def gm_mem_iff dest!: group_ok_mem)
qed

text \<open>
  For a well-formed tally with a proper winner, \<open>stakeThresholdMet\<close> says that some digest has a
  quorum, and the winning digest is one of largest weight.
\<close>

lemma winner_votes:
  assumes "tally_ok V (Some ao)" "tally_winner (Some ao)"
  shows "ao_winningDigest ao \<in> voteDigests (tallyVotes (Some ao))"
    and "d \<in> voteDigests (tallyVotes (Some ao)) \<Longrightarrow>
      voteWeight d (tallyVotes (Some ao)) \<le> voteWeight (ao_winningDigest ao) (tallyVotes (Some ao))"
proof -
  obtain g where g: "gm_get (ao_digestGroups ao) (ao_winningDigest ao) = Some g"
    "\<And>d g'. gm_get (ao_digestGroups ao) d = Some g' \<Longrightarrow> dg_currentWeight g' \<le> dg_currentWeight g"
    using assms(2) by (auto simp: tally_winner_def)
  show "ao_winningDigest ao \<in> voteDigests (tallyVotes (Some ao))"
    using g(1) by (force simp: voteDigests_tally [OF assms(1)] dest: map_of_SomeD)
  show "voteWeight d (tallyVotes (Some ao)) \<le> voteWeight (ao_winningDigest ao) (tallyVotes (Some ao))"
    if "d \<in> voteDigests (tallyVotes (Some ao))"
  proof -
    from that obtain g' where "gm_get (ao_digestGroups ao) d = Some g'"
      by (auto simp: voteDigests_tally [OF assms(1)] image_iff dest: weak_map_of_SomeI)
    with g show ?thesis by (simp add: voteWeight_tally [OF assms(1)])
  qed
qed

lemma stakeThreshold_votes:
  assumes "tally_ok V aopt" "tally_winner aopt" "\<forall>op\<in>set opers. 0 \<le> firstWeight op"
  shows "stakeThresholdMet opers bips aopt \<longleftrightarrow>
    (\<exists>d\<in>voteDigests (tallyVotes aopt). quorum (totalStake opers 0) bips (voteWeight d (tallyVotes aopt)))"
proof (cases aopt)
  case None
  then show ?thesis by (simp add: tallyVotes_def voteDigests_def)
next
  case (Some ao)
  then have ok: "tally_ok V (Some ao)" and win: "tally_winner (Some ao)" using assms by simp_all
  obtain g where g: "gm_get (ao_digestGroups ao) (ao_winningDigest ao) = Some g" "group_ok V (ao_winningDigest ao) g"
    using ok by (auto simp: tally_ok_def)
  have "stakeThresholdMet opers bips (Some ao) \<longleftrightarrow>
      quorum (totalStake opers 0) bips (voteWeight (ao_winningDigest ao) (tallyVotes (Some ao)))"
    using g assms(3) by (simp add: stakeThresholdMet_iff [OF ok] voteWeight_tally [OF ok] quorum_def)
  with Some winner_votes [OF ok win] show ?thesis by (auto intro: quorum_mono)
qed

section \<open>The contract\<close>

text \<open>
  \<open>valid st tr w d\<close>: the response \<open>tr\<close> passes every check and is worth \<open>w\<close> for digest \<open>d\<close>;
  \<open>receivedOf\<close>: the addresses that can no longer submit; \<open>decodable\<close>: the task id is a hex string.
\<close>

locale result_aggregator =
  fixes ops :: "('st, 'cert) aggregator_ops"
    and invar :: "'st \<Rightarrow> bool"
    and votesOf :: "'st \<Rightarrow> vote multiset"
    and receivedOf :: "'st \<Rightarrow> string set"
    and totalOf :: "'st \<Rightarrow> int"
    and bipsOf :: "'st \<Rightarrow> u16"
    and decodable :: "'st \<Rightarrow> bool"
    and valid :: "'st \<Rightarrow> task_result \<Rightarrow> int \<Rightarrow> bytes \<Rightarrow> bool"
    and certDigest :: "'cert \<Rightarrow> bytes"
  assumes process_invar: "invar st \<Longrightarrow> aProcessNewSignature ops st tr = (r, st') \<Longrightarrow> invar st'"
    and process_static: "aProcessNewSignature ops st tr = (r, st') \<Longrightarrow>
      totalOf st' = totalOf st \<and> bipsOf st' = bipsOf st \<and> decodable st' = decodable st \<and> valid st' = valid st"
    and process_ok: "invar st \<Longrightarrow> aProcessNewSignature ops st tr = (None, st') \<Longrightarrow>
      \<exists>w d. valid st tr w d \<and> tr_OperatorAddress tr \<notin> receivedOf st \<and>
        votesOf st' = add_mset (tr_OperatorAddress tr, w, d) (votesOf st) \<and>
        receivedOf st' = insert (tr_OperatorAddress tr) (receivedOf st)"
    and process_error: "invar st \<Longrightarrow> aProcessNewSignature ops st tr = (Some e, st') \<Longrightarrow>
      votesOf st' = votesOf st \<and> receivedOf st \<subseteq> receivedOf st' \<and>
      receivedOf st' \<subseteq> insert (tr_OperatorAddress tr) (receivedOf st)"
    and valid_unique: "valid st tr w d \<Longrightarrow> valid st tr w' d' \<Longrightarrow> w' = w \<and> d' = d"
    and valid_nonneg: "invar st \<Longrightarrow> valid st tr w d \<Longrightarrow> 0 \<le> w"
    and process_complete: "invar st \<Longrightarrow> valid st tr w d \<Longrightarrow> tr_OperatorAddress tr \<notin> receivedOf st \<Longrightarrow>
      \<exists>st'. aProcessNewSignature ops st tr = (None, st')"
    and votes_received: "invar st \<Longrightarrow> (a, w, d) \<in># votesOf st \<Longrightarrow> a \<in> receivedOf st"
    and threshold: "invar st \<Longrightarrow> aSigningThresholdMet ops st \<longleftrightarrow>
      (\<exists>d\<in>voteDigests (votesOf st). quorum (totalOf st) (bipsOf st) (voteWeight d (votesOf st)))"
    and generate_winner: "invar st \<Longrightarrow> aGenerateFinalCertificate ops st = (Inr cert, st') \<Longrightarrow>
      certDigest cert \<in> voteDigests (votesOf st) \<and>
      (\<forall>d\<in>voteDigests (votesOf st). voteWeight d (votesOf st) \<le> voteWeight (certDigest cert) (votesOf st))"
    and generate_ok: "invar st \<Longrightarrow> votesOf st \<noteq> {#} \<Longrightarrow> decodable st \<Longrightarrow>
      \<exists>cert st'. aGenerateFinalCertificate ops st = (Inr cert, st')"
begin

lemma process_cases:
  assumes "invar st" "aProcessNewSignature ops st tr = (r, st')"
  obtains (accepted) w d where "r = None" "valid st tr w d" "tr_OperatorAddress tr \<notin> receivedOf st"
      "votesOf st' = add_mset (tr_OperatorAddress tr, w, d) (votesOf st)" "invar st'"
  | (rejected) e where "r = Some e" "votesOf st' = votesOf st" "invar st'"
proof (cases r)
  case None
  with process_ok [OF assms(1), of tr st'] assms process_invar that(1) show thesis by blast
next
  case (Some e)
  with process_error [OF assms(1), of tr e st'] assms process_invar that(2) show thesis by blast
qed

text \<open>The certificate generated once the threshold is met is for a digest with a quorum.\<close>

lemma generate_quorum:
  assumes "invar st" "aSigningThresholdMet ops st" "aGenerateFinalCertificate ops st = (Inr cert, st')"
  shows "quorum (totalOf st) (bipsOf st) (voteWeight (certDigest cert) (votesOf st))"
  using assms threshold generate_winner quorum_mono by meson

text \<open>Every vote is backed by a valid response, and no address votes twice.\<close>

definition backed :: "'st \<Rightarrow> task_result set \<Rightarrow> bool" where
  "backed st trs \<longleftrightarrow> (\<forall>(a, w, d)\<in>#votesOf st. \<exists>tr\<in>trs. tr_OperatorAddress tr = a \<and> valid st tr w d)"

definition oneVoteEach :: "'st \<Rightarrow> bool" where
  "oneVoteEach st \<longleftrightarrow> (\<forall>a. size (filter_mset (\<lambda>v. fst v = a) (votesOf st)) \<le> 1)"

lemma backed_process:
  assumes "invar st" "backed st trs" "aProcessNewSignature ops st tr = (r, st')"
  shows "backed st' (insert tr trs)"
  using assms(1,3)
proof (cases rule: process_cases)
  case accepted
  then show ?thesis
    using assms(2) process_static [OF assms(3)] by (auto simp: backed_def)
next
  case rejected
  then show ?thesis
    using assms(2) process_static [OF assms(3)] by (fastforce simp: backed_def)
qed

lemma oneVoteEach_process:
  assumes "invar st" "oneVoteEach st" "aProcessNewSignature ops st tr = (r, st')"
  shows "oneVoteEach st'"
  using assms(1,3)
proof (cases rule: process_cases)
  case accepted
  have "filter_mset (\<lambda>v. fst v = tr_OperatorAddress tr) (votesOf st) = {#}"
    using votes_received [OF assms(1)] accepted(3) by (fastforce simp: filter_mset_eq_conv)
  then show ?thesis
    using assms(2) accepted by (auto simp: oneVoteEach_def)
next
  case rejected
  then show ?thesis using assms(2) by (simp add: oneVoteEach_def)
qed

end

end
