(* ===== verification/Aggregation_BN254.thy ===== *)
theory Aggregation_BN254
  imports Aggregation_Spec
begin

text \<open>
  The BN254 result aggregator, \<open>ponos/pkg/signing/aggregation/bn254.go\<close> with its types in
  \<open>aggregation.go\<close>. The BN254 library is a parameter \<open>lib\<close>. A \<open>nil\<close> interface value in an
  operator's key is \<open>None\<close>. An operation that changes the aggregator returns the aggregator it
  leaves behind together with its error or its result.
\<close>

section \<open>The BN254 library and the aggregator's state\<close>

record ('pub, 'sig, 'g2, 'k) bn254_lib =
  newSignatureFromBytes :: "bytes \<Rightarrow> 'sig option"
  verifySolidityCompatible :: "'sig \<Rightarrow> 'pub \<Rightarrow> bytes \<Rightarrow> bool option"
  sigVerify :: "'sig \<Rightarrow> 'pub \<Rightarrow> bytes \<Rightarrow> bool option"
  sigAdd :: "'sig \<Rightarrow> 'sig \<Rightarrow> 'sig"
  asBN254PublicKey :: "'k \<Rightarrow> 'pub option"
  keyBytes :: "'k \<Rightarrow> bytes"
  newPublicKeyFromBytes :: "bytes \<Rightarrow> 'pub option"
  libAggregatePublicKeys :: "'pub list \<Rightarrow> 'pub option"
  newZeroG2Point :: 'g2
  addPublicKey :: "'g2 \<Rightarrow> 'pub \<Rightarrow> 'g2"

type_synonym ('pub, 'sig, 'k) bn254_signer_info = "('pub, 'sig, 'k option) signer_info"
type_synonym ('pub, 'sig, 'k) bn254_group = "('pub, 'sig, 'k option, 'sig) digest_group"
type_synonym ('pub, 'sig, 'k) bn254_operators = "('pub, 'sig, 'k option, 'sig) aggregated_operators"

record ('pub, 'sig, 'k) bn254_aggregator =
  bt_TaskId :: string
  bt_ReferenceTimestamp :: u32
  bt_OperatorSetId :: u32
  bt_ThresholdBips :: u16
  bt_TaskData :: bytes
  bt_TaskExpirationTime :: "time option"
  bt_Operators :: "'k option operator list"
  bt_ReceivedSignatures :: "(string \<times> 'sig received_response) list"
  bt_AggregatePublicKey :: 'pub
  bt_aggregatedOperators :: "('pub, 'sig, 'k) bn254_operators option"

record ('sig, 'g2, 'k) bn254_certificate =
  bc_TaskId :: bytes
  bc_TaskResponse :: bytes
  bc_TaskResponseDigest :: bytes
  bc_NonSignersPubKeys :: "'k option list"
  bc_AllOperatorsPubKeys :: "'k option list"
  bc_SignersSignature :: 'sig
  bc_SignersPublicKey :: 'g2
  bc_NonSignerOperators :: "'k option operator list"
  bc_SortedOperatorsByIndex :: "'k option operator list"

section \<open>Construction\<close>

fun bn254KeysFrom :: "('pub, 'sig, 'g2, 'k) bn254_lib \<Rightarrow> nat \<Rightarrow> 'k option list \<Rightarrow> agg_error + 'pub list" where
  "bn254KeysFrom lib i [] = Inr []"
| "bn254KeysFrom lib i (pk # pks) =
     (case pk of
        None \<Rightarrow> Inl (ErrNilKey i)
      | Some k \<Rightarrow>
          (case newPublicKeyFromBytes lib (keyBytes lib k) of
             None \<Rightarrow> Inl (ErrNotBN254Key i)
           | Some b \<Rightarrow>
               (case bn254KeysFrom lib (Suc i) pks of Inl e \<Rightarrow> Inl e | Inr bs \<Rightarrow> Inr (b # bs))))"

definition aggregatePublicKeys :: "('pub, 'sig, 'g2, 'k) bn254_lib \<Rightarrow> 'k option list \<Rightarrow> agg_error + 'pub" where
  "aggregatePublicKeys lib pubKeys =
     (case bn254KeysFrom lib 0 pubKeys of
        Inl e \<Rightarrow> Inl e
      | Inr keys \<Rightarrow>
          (case libAggregatePublicKeys lib keys of None \<Rightarrow> Inl ErrAggregateKeys | Some k \<Rightarrow> Inr k))"

definition newBN254TaskResultAggregator ::
  "('pub, 'sig, 'g2, 'k) bn254_lib \<Rightarrow> string \<Rightarrow> u32 \<Rightarrow> u32 \<Rightarrow> u16 \<Rightarrow> bytes \<Rightarrow> time option \<Rightarrow>
     'k option operator list \<Rightarrow> agg_error + ('pub, 'sig, 'k) bn254_aggregator" where
  "newBN254TaskResultAggregator lib taskId referenceTimestamp operatorSetId thresholdBips taskData
      taskExpirationTime operators =
     (if length taskId = 0 then Inl ErrInvalidTaskId
      else if referenceTimestamp = 0 then Inl ErrInvalidReferenceTimestamp
      else if length operators = 0 then Inl ErrNoOperatorAddresses
      else if thresholdBips = 0 \<or> thresholdBips > 10000 then Inl ErrInvalidThreshold
      else (case aggregatePublicKeys lib (utilMap operators (\<lambda>op i. op_PublicKey op)) of
              Inl e \<Rightarrow> Inl e
            | Inr aggPub \<Rightarrow> Inr
                \<lparr>bt_TaskId = taskId, bt_ReferenceTimestamp = referenceTimestamp,
                 bt_OperatorSetId = operatorSetId, bt_ThresholdBips = thresholdBips,
                 bt_TaskData = taskData, bt_TaskExpirationTime = taskExpirationTime,
                 bt_Operators = operators, bt_ReceivedSignatures = [],
                 bt_AggregatePublicKey = aggPub, bt_aggregatedOperators = None\<rparr>))"

section \<open>Processing a response\<close>

definition bn254_SigningThresholdMet :: "('pub, 'sig, 'k) bn254_aggregator \<Rightarrow> bool" where
  "bn254_SigningThresholdMet tra =
     stakeThresholdMet (bt_Operators tra) (bt_ThresholdBips tra) (bt_aggregatedOperators tra)"

definition validateTaskResponse :: "('pub, 'sig, 'k) bn254_aggregator \<Rightarrow> task_result \<Rightarrow> agg_error option" where
  "validateTaskResponse tra taskResponse =
     (if bt_TaskId tra \<noteq> tr_TaskId taskResponse then Some TaskIdMismatch
      else if length (tr_ResultSignature taskResponse) = 0 then Some EmptyResultSignature
      else if length (tr_AuthSignature taskResponse) = 0 then Some EmptyAuthSignature
      else if gm_get (bt_ReceivedSignatures tra) (tr_OperatorAddress taskResponse) \<noteq> None then Some AlreadySubmitted
      else if tr_OperatorSetId taskResponse \<noteq> bt_OperatorSetId tra then Some OperatorSetMismatch
      else None)"

definition bn254_VerifyResponseSignature ::
  "eth_common \<Rightarrow> ('pub, 'sig, 'g2, 'k) bn254_lib \<Rightarrow> cert_caller \<Rightarrow> ('pub, 'sig, 'k) bn254_aggregator \<Rightarrow>
     task_result \<Rightarrow> 'k option operator \<Rightarrow> bytes \<Rightarrow> verify_error + 'sig" where
  "bn254_VerifyResponseSignature eth lib cc tra taskResponse op outputDigest =
     (if \<not> equalFold (tr_OperatorAddress taskResponse) (op_Address op) then Inl AddressMismatch
      else case newSignatureFromBytes lib (tr_ResultSignature taskResponse) of
        None \<Rightarrow> Inl BadResultSignature
      | Some resultSig \<Rightarrow>
      (case Option.bind (op_PublicKey op) (asBN254PublicKey lib) of
        None \<Rightarrow> Inl BadKeyType
      | Some pubKey \<Rightarrow>
      (case calculateBN254CertificateDigestBytes cc (bt_ReferenceTimestamp tra) outputDigest of
        None \<Rightarrow> Inl DigestCallFailed
      | Some signedOverDigest \<Rightarrow>
      (case verifySolidityCompatible lib resultSig pubKey (copy32 signedOverDigest) of
        None \<Rightarrow> Inl ResultVerifyError
      | Some False \<Rightarrow> Inl ResultMismatch
      | Some True \<Rightarrow>
      (case newSignatureFromBytes lib (tr_AuthSignature taskResponse) of
        None \<Rightarrow> Inl BadAuthSignature
      | Some authSig \<Rightarrow>
      (let authData = \<lparr>asd_TaskId = bt_TaskId tra, asd_AvsAddress = tr_AvsAddress taskResponse,
             asd_OperatorAddress = tr_OperatorAddress taskResponse,
             asd_OperatorSetId = bt_OperatorSetId tra,
             asd_ResultSigDigest = getKeccak256Digest eth (tr_ResultSignature taskResponse)\<rparr>;
           authBytesDigest = getKeccak256Digest eth (asd_toSigningBytes eth authData)
       in (case sigVerify lib authSig pubKey (copy32 authBytesDigest) of
             None \<Rightarrow> Inl AuthVerifyError
           | Some False \<Rightarrow> Inl AuthMismatch
           | Some True \<Rightarrow> Inr resultSig)))))))"

definition bn254_ProcessNewSignature ::
  "eth_common \<Rightarrow> ('pub, 'sig, 'g2, 'k) bn254_lib \<Rightarrow> cert_caller \<Rightarrow> ('pub, 'sig, 'k) bn254_aggregator \<Rightarrow>
     task_result \<Rightarrow> agg_error option \<times> ('pub, 'sig, 'k) bn254_aggregator" where
  "bn254_ProcessNewSignature eth lib cc tra taskResponse =
     (case validateTaskResponse tra taskResponse of
        Some e \<Rightarrow> (Some e, tra)
      | None \<Rightarrow>
      (case utilFind (bt_Operators tra) (\<lambda>op. equalFold (op_Address op) (tr_OperatorAddress taskResponse)) of
        None \<Rightarrow> (Some NotInAllowedSet, tra)
      | Some op \<Rightarrow>
      (let taskMessageHash = copy32 (hexToHash eth (tr_TaskId taskResponse)) in
      (case calculateTaskMessageHash cc taskMessageHash (tr_Output taskResponse) of
        None \<Rightarrow> (Some TaskHashFailed, tra)
      | Some outputTaskMessage \<Rightarrow>
      (case bn254_VerifyResponseSignature eth lib cc tra taskResponse op outputTaskMessage of
        Inl e \<Rightarrow> (Some (VerifyFailed e), tra)
      | Inr sig \<Rightarrow>
      (let rr = \<lparr>rr_TaskId = bt_TaskId tra, rr_TaskResult = taskResponse, rr_Signature = sig,
                 rr_OutputDigest = outputTaskMessage\<rparr>;
           tra1 = tra\<lparr>bt_ReceivedSignatures :=
                    gm_put (bt_ReceivedSignatures tra) (tr_OperatorAddress taskResponse) rr\<rparr>
       in (case Option.bind (op_PublicKey op) (\<lambda>k. newPublicKeyFromBytes lib (keyBytes lib k)) of
             None \<Rightarrow> (Some BadOperatorKey, tra1)
           | Some pubKey \<Rightarrow>
               (None, tra1\<lparr>bt_aggregatedOperators := Some (recordVote (bt_aggregatedOperators tra1)
                  outputTaskMessage (tr_OperatorAddress taskResponse)
                  \<lparr>si_publicKey = pubKey, si_signature = sig, si_operator = op\<rparr> rr)\<rparr>))))))))"

section \<open>The final certificate\<close>

text \<open>
  The loop over the signers of the winning group adds every signature to the first one.
  \<open>aggregatedSig\<close> is the pointer to the first signer's stored signature, so that \<open>Add\<close> changes the
  signature object that the signer, its received response and possibly the group's representative
  response share; \<open>storeSignature\<close> writes the object at all three places. The association list
  gives the order in which \<open>range\<close> happens to visit the signers.
\<close>

fun addSignatures :: "('pub, 'sig, 'g2, 'k) bn254_lib \<Rightarrow> 'sig option \<Rightarrow> 'g2 \<Rightarrow>
    (string \<times> ('pub, 'sig, 'k) bn254_signer_info) list \<Rightarrow> 'sig option \<times> 'g2" where
  "addSignatures lib aggregatedSig aggregatedPubKey [] = (aggregatedSig, aggregatedPubKey)"
| "addSignatures lib aggregatedSig aggregatedPubKey ((_, signer) # signers) =
     addSignatures lib
       (case aggregatedSig of
          None \<Rightarrow> Some (si_signature signer)
        | Some sig \<Rightarrow> Some (sigAdd lib sig (si_signature signer)))
       (addPublicKey lib aggregatedPubKey (si_publicKey signer)) signers"

definition storeSignature ::
  "string \<Rightarrow> 'sig \<Rightarrow> bytes \<Rightarrow> ('pub, 'sig, 'k) bn254_group \<Rightarrow> ('pub, 'sig, 'k) bn254_operators \<Rightarrow>
     ('pub, 'sig, 'k) bn254_aggregator \<Rightarrow> ('pub, 'sig, 'k) bn254_aggregator" where
  "storeSignature addr sig digest grp ao tra =
     (let upd = (\<lambda>rr. rr\<lparr>rr_Signature := sig\<rparr>);
          grp' = grp\<lparr>dg_signers := AList.map_entry addr (\<lambda>si. si\<lparr>si_signature := sig\<rparr>) (dg_signers grp),
                     dg_response := (if tr_OperatorAddress (rr_TaskResult (dg_response grp)) = addr
                                     then upd (dg_response grp) else dg_response grp)\<rparr>
      in tra\<lparr>bt_ReceivedSignatures := AList.map_entry addr upd (bt_ReceivedSignatures tra),
             bt_aggregatedOperators := Some (ao\<lparr>ao_digestGroups := gm_put (ao_digestGroups ao) digest grp'\<rparr>)\<rparr>)"

fun nonSigners :: "(string \<times> 'si) list \<Rightarrow> 'k operator list \<Rightarrow> 'k operator list" where
  "nonSigners signers [] = []"
| "nonSigners signers (op # ops) =
     (if gm_get signers (op_Address op) = None then op # nonSigners signers ops else nonSigners signers ops)"

definition bn254_GenerateFinalCertificate ::
  "eth_common \<Rightarrow> ('pub, 'sig, 'g2, 'k) bn254_lib \<Rightarrow> ('pub, 'sig, 'k) bn254_aggregator \<Rightarrow>
     (agg_error + ('sig, 'g2, 'k) bn254_certificate) \<times> ('pub, 'sig, 'k) bn254_aggregator" where
  "bn254_GenerateFinalCertificate eth lib tra =
     (case bt_aggregatedOperators tra of
        None \<Rightarrow> (Inl NoSignaturesCollected, tra)
      | Some ao \<Rightarrow>
      if length (ao_digestGroups ao) = 0 then (Inl NoSignaturesCollected, tra)
      else (case gm_get (ao_digestGroups ao) (ao_winningDigest ao) of
        None \<Rightarrow> (Inl NoWinningSignatures, tra)
      | Some winningGroup \<Rightarrow>
      (case addSignatures lib None (newZeroG2Point lib) (dg_signers winningGroup) of
        (None, _) \<Rightarrow> (Inl NoWinningSignatures, tra)
      | (Some aggregatedSig, aggregatedPubKey) \<Rightarrow>
      (let tra' = storeSignature (fst (hd (dg_signers winningGroup))) aggregatedSig (ao_winningDigest ao)
                    winningGroup ao tra;
           nonSignerOperators = sort_key op_OperatorIndex (nonSigners (dg_signers winningGroup) (bt_Operators tra));
           sortedOperators = sort_key op_OperatorIndex (bt_Operators tra)
       in (case hexutilDecode eth (bt_TaskId tra) of
             None \<Rightarrow> (Inl BadTaskIdHex, tra')
           | Some taskIdBytes \<Rightarrow>
               (Inr \<lparr>bc_TaskId = taskIdBytes,
                     bc_TaskResponse = tr_Output (rr_TaskResult (dg_response winningGroup)),
                     bc_TaskResponseDigest = rr_OutputDigest (dg_response winningGroup),
                     bc_NonSignersPubKeys = map op_PublicKey nonSignerOperators,
                     bc_AllOperatorsPubKeys = utilMap sortedOperators (\<lambda>op i. op_PublicKey op),
                     bc_SignersSignature = aggregatedSig,
                     bc_SignersPublicKey = aggregatedPubKey,
                     bc_NonSignerOperators = nonSignerOperators,
                     bc_SortedOperatorsByIndex = sortedOperators\<rparr>, tra'))))))"

text \<open>
  \<open>ToSubmitParams\<close>: \<open>op.PublicKey.Bytes()\<close> panics on a \<open>nil\<close> key, which is \<open>None\<close> here.
\<close>

record ('sig, 'g2) bn254_params =
  bp_TaskId :: bytes
  bp_TaskResponse :: bytes
  bp_TaskResponseDigest :: bytes
  bp_SignersSignature :: 'sig
  bp_SignersPublicKey :: 'g2
  bp_NonSignerOperators :: "(u32 \<times> bytes) list"
  bp_SortedOperatorsByIndex :: "(u32 \<times> bytes \<times> int list) list"

definition bn254_ToSubmitParams ::
  "('pub, 'sig, 'g2, 'k) bn254_lib \<Rightarrow> ('sig, 'g2, 'k) bn254_certificate \<Rightarrow> ('sig, 'g2) bn254_params option" where
  "bn254_ToSubmitParams lib cert =
     (if None \<in> set (map op_PublicKey (bc_NonSignerOperators cert @ bc_SortedOperatorsByIndex cert)) then None
      else Some \<lparr>bp_TaskId = bc_TaskId cert, bp_TaskResponse = bc_TaskResponse cert,
             bp_TaskResponseDigest = bc_TaskResponseDigest cert,
             bp_SignersSignature = bc_SignersSignature cert,
             bp_SignersPublicKey = bc_SignersPublicKey cert,
             bp_NonSignerOperators = map (\<lambda>op. (op_OperatorIndex op, keyBytes lib (the (op_PublicKey op))))
               (bc_NonSignerOperators cert),
             bp_SortedOperatorsByIndex = map (\<lambda>op. (op_OperatorIndex op, keyBytes lib (the (op_PublicKey op)), op_Weights op))
               (bc_SortedOperatorsByIndex cert)\<rparr>)"

section \<open>The contract holds\<close>

definition bn254_ops ::
  "eth_common \<Rightarrow> ('pub, 'sig, 'g2, 'k) bn254_lib \<Rightarrow> cert_caller \<Rightarrow>
     (('pub, 'sig, 'k) bn254_aggregator, ('sig, 'g2, 'k) bn254_certificate) aggregator_ops" where
  "bn254_ops eth lib cc =
     \<lparr>aSigningThresholdMet = bn254_SigningThresholdMet,
      aProcessNewSignature = bn254_ProcessNewSignature eth lib cc,
      aGenerateFinalCertificate = bn254_GenerateFinalCertificate eth lib\<rparr>"

text \<open>The checks a response has to pass, and what it is then worth.\<close>

definition bn254_valid ::
  "eth_common \<Rightarrow> ('pub, 'sig, 'g2, 'k) bn254_lib \<Rightarrow> cert_caller \<Rightarrow> ('pub, 'sig, 'k) bn254_aggregator \<Rightarrow>
     task_result \<Rightarrow> int \<Rightarrow> bytes \<Rightarrow> bool" where
  "bn254_valid eth lib cc tra tr w d \<longleftrightarrow>
     tr_TaskId tr = bt_TaskId tra \<and> tr_ResultSignature tr \<noteq> [] \<and> tr_AuthSignature tr \<noteq> [] \<and>
     tr_OperatorSetId tr = bt_OperatorSetId tra \<and>
     calculateTaskMessageHash cc (copy32 (hexToHash eth (tr_TaskId tr))) (tr_Output tr) = Some d \<and>
     (case find (\<lambda>op. equalFold (op_Address op) (tr_OperatorAddress tr)) (bt_Operators tra) of
        None \<Rightarrow> False
      | Some op \<Rightarrow> w = firstWeight op \<and>
          \<not> isl (bn254_VerifyResponseSignature eth lib cc tra tr op d) \<and>
          Option.bind (op_PublicKey op) (\<lambda>k. newPublicKeyFromBytes lib (keyBytes lib k)) \<noteq> None)"

definition bn254_signer ::
  "('pub, 'sig, 'k) bn254_aggregator \<Rightarrow> bytes \<Rightarrow> string \<Rightarrow> ('pub, 'sig, 'k) bn254_signer_info \<Rightarrow> bool" where
  "bn254_signer tra d a si \<longleftrightarrow> gm_get (bt_ReceivedSignatures tra) a \<noteq> None \<and>
     si_operator si \<in> set (bt_Operators tra) \<and> equalFold (op_Address (si_operator si)) a"

definition bn254_invar :: "('pub, 'sig, 'k) bn254_aggregator \<Rightarrow> bool" where
  "bn254_invar tra \<longleftrightarrow> tally_ok (bn254_signer tra) (bt_aggregatedOperators tra) \<and>
     tally_winner (bt_aggregatedOperators tra) \<and> (\<forall>op\<in>set (bt_Operators tra). 0 \<le> firstWeight op)"

lemma bn254_verify_cong:
  assumes "bt_TaskId tra' = bt_TaskId tra" "bt_ReferenceTimestamp tra' = bt_ReferenceTimestamp tra"
    "bt_OperatorSetId tra' = bt_OperatorSetId tra"
  shows "bn254_VerifyResponseSignature eth lib cc tra' = bn254_VerifyResponseSignature eth lib cc tra"
  unfolding fun_eq_iff bn254_VerifyResponseSignature_def assms by blast

text \<open>The three outcomes of \<open>ProcessNewSignature\<close>.\<close>

lemma bn254_process_cases:
  assumes "bn254_ProcessNewSignature eth lib cc tra tr = (r, tra')"
  obtains (accepted) op sig pk d rr where
      "r = None" "bn254_valid eth lib cc tra tr (firstWeight op) d"
      "find (\<lambda>op. equalFold (op_Address op) (tr_OperatorAddress tr)) (bt_Operators tra) = Some op"
      "bn254_VerifyResponseSignature eth lib cc tra tr op d = Inr sig"
      "gm_get (bt_ReceivedSignatures tra) (tr_OperatorAddress tr) = None"
      "rr = \<lparr>rr_TaskId = bt_TaskId tra, rr_TaskResult = tr, rr_Signature = sig, rr_OutputDigest = d\<rparr>"
      "tra' = tra\<lparr>bt_ReceivedSignatures := gm_put (bt_ReceivedSignatures tra) (tr_OperatorAddress tr) rr,
         bt_aggregatedOperators := Some (recordVote (bt_aggregatedOperators tra) d (tr_OperatorAddress tr)
           \<lparr>si_publicKey = pk, si_signature = sig, si_operator = op\<rparr> rr)\<rparr>"
  | (stored) rr where "r = Some BadOperatorKey"
      "tra' = tra\<lparr>bt_ReceivedSignatures := gm_put (bt_ReceivedSignatures tra) (tr_OperatorAddress tr) rr\<rparr>"
      "\<forall>w d. \<not> bn254_valid eth lib cc tra tr w d"
  | (rejected) e where "r = Some e" "tra' = tra"
      "(\<forall>w d. \<not> bn254_valid eth lib cc tra tr w d) \<or> gm_get (bt_ReceivedSignatures tra) (tr_OperatorAddress tr) \<noteq> None"
proof -
  note unf = bn254_ProcessNewSignature_def bn254_valid_def go_simps Let_def
  let ?hash = "calculateTaskMessageHash cc (copy32 (hexToHash eth (tr_TaskId tr))) (tr_Output tr)"
  show thesis
  proof (cases "validateTaskResponse tra tr")
    case (Some e)
    then have "(\<forall>w d. \<not> bn254_valid eth lib cc tra tr w d) \<or> gm_get (bt_ReceivedSignatures tra) (tr_OperatorAddress tr) \<noteq> None"
      by (auto simp: validateTaskResponse_def bn254_valid_def split: if_splits)
    with Some assms show thesis
      by (intro rejected [of e]) (auto simp: bn254_ProcessNewSignature_def)
  next
    case v: None
    then have fresh: "gm_get (bt_ReceivedSignatures tra) (tr_OperatorAddress tr) = None"
      and static: "tr_TaskId tr = bt_TaskId tra" "tr_ResultSignature tr \<noteq> []" "tr_AuthSignature tr \<noteq> []"
        "tr_OperatorSetId tr = bt_OperatorSetId tra"
      by (auto simp: validateTaskResponse_def split: if_splits)
    show thesis
    proof (cases "find (\<lambda>op. equalFold (op_Address op) (tr_OperatorAddress tr)) (bt_Operators tra)")
      case None
      with v assms show thesis by (intro rejected) (auto simp: unf)
    next
      case f: (Some op)
      show thesis
      proof (cases ?hash)
        case None
        with v f assms show thesis by (intro rejected) (auto simp: unf)
      next
        case h: (Some d)
        show thesis
        proof (cases "bn254_VerifyResponseSignature eth lib cc tra tr op d")
          case (Inl e)
          with v f h assms show thesis by (intro rejected) (auto simp: unf)
        next
          case vf: (Inr sig)
          show thesis
          proof (cases "Option.bind (op_PublicKey op) (\<lambda>k. newPublicKeyFromBytes lib (keyBytes lib k))")
            case None
            with v f h vf assms show thesis by (intro stored) (auto simp: unf)
          next
            case (Some pk)
            with v f h vf static fresh assms show thesis by (intro accepted) (auto simp: unf)
          qed
        qed
      qed
    qed
  qed
qed

lemma bn254_signer_mono:
  "bt_Operators tra' = bt_Operators tra \<Longrightarrow>
   (\<And>a. gm_get (bt_ReceivedSignatures tra) a \<noteq> None \<Longrightarrow> gm_get (bt_ReceivedSignatures tra') a \<noteq> None) \<Longrightarrow>
   bn254_signer tra d a si \<Longrightarrow> bn254_signer tra' d a si"
  by (simp add: bn254_signer_def)

lemma bn254_new_invar:
  assumes "newBN254TaskResultAggregator lib tid ts os bips td exp opers = Inr tra"
    and "\<forall>op\<in>set opers. 0 \<le> firstWeight op"
  shows "bn254_invar tra"
  using assms by (auto simp: newBN254TaskResultAggregator_def bn254_invar_def split: if_splits sum.splits)

lemma bn254_process_invar:
  assumes "bn254_invar tra" "bn254_ProcessNewSignature eth lib cc tra tr = (r, tra')"
  shows "bn254_invar tra'"
  using assms(2)
proof (cases rule: bn254_process_cases)
  case (accepted op sig pk d rr)
  have op: "op \<in> set (bt_Operators tra)" "equalFold (op_Address op) (tr_OperatorAddress tr)"
    using accepted(3) find_SomeD by fast+
  let ?vote = "recordVote (bt_aggregatedOperators tra) d (tr_OperatorAddress tr)
           \<lparr>si_publicKey = pk, si_signature = sig, si_operator = op\<rparr> rr"
  have "tally_ok (bn254_signer tra') (Some ?vote)"
    using assms(1) accepted op
    by (intro recordVote_ok [of "bn254_signer tra"]) (auto simp: bn254_invar_def bn254_signer_def)
  moreover have "tally_winner (Some ?vote)"
    using assms(1) op by (intro recordVote_winner) (auto simp: bn254_invar_def)
  ultimately show ?thesis
    using assms(1) accepted by (simp add: bn254_invar_def)
next
  case (stored rr)
  then show ?thesis
    using assms(1) by (auto simp: bn254_invar_def bn254_signer_def elim!: tally_ok_mono)
next
  case rejected
  then show ?thesis using assms(1) by simp
qed

lemma bn254_process_static:
  assumes "bn254_ProcessNewSignature eth lib cc tra tr = (r, tra')"
  shows "bt_TaskId tra' = bt_TaskId tra \<and> bt_ReferenceTimestamp tra' = bt_ReferenceTimestamp tra \<and>
    bt_OperatorSetId tra' = bt_OperatorSetId tra \<and> bt_ThresholdBips tra' = bt_ThresholdBips tra \<and>
    bt_Operators tra' = bt_Operators tra \<and> bn254_valid eth lib cc tra' = bn254_valid eth lib cc tra"
proof -
  have st: "bt_TaskId tra' = bt_TaskId tra \<and> bt_ReferenceTimestamp tra' = bt_ReferenceTimestamp tra \<and>
    bt_OperatorSetId tra' = bt_OperatorSetId tra \<and> bt_ThresholdBips tra' = bt_ThresholdBips tra \<and>
    bt_Operators tra' = bt_Operators tra"
    using assms by (cases rule: bn254_process_cases) simp_all
  then have "bn254_VerifyResponseSignature eth lib cc tra' = bn254_VerifyResponseSignature eth lib cc tra"
    by (intro bn254_verify_cong) simp_all
  with st show ?thesis by (simp add: bn254_valid_def fun_eq_iff cong: option.case_cong)
qed

lemma bn254_process_votes:
  assumes "bn254_invar tra" "bn254_ProcessNewSignature eth lib cc tra tr = (None, tra')"
  shows "\<exists>w d. bn254_valid eth lib cc tra tr w d \<and>
    gm_get (bt_ReceivedSignatures tra) (tr_OperatorAddress tr) = None \<and>
    tallyVotes (bt_aggregatedOperators tra') =
      add_mset (tr_OperatorAddress tr, w, d) (tallyVotes (bt_aggregatedOperators tra)) \<and>
    dom (gm_get (bt_ReceivedSignatures tra')) =
      insert (tr_OperatorAddress tr) (dom (gm_get (bt_ReceivedSignatures tra)))"
  using assms(2)
proof (cases rule: bn254_process_cases)
  case (accepted op sig pk d rr)
  have "tallyVotes (bt_aggregatedOperators tra') =
      add_mset (tr_OperatorAddress tr, firstWeight op, d) (tallyVotes (bt_aggregatedOperators tra))"
    using assms(1) accepted
    by (simp add: recordVote_votes [of "bn254_signer tra"] bn254_invar_def bn254_signer_def)
  with accepted show ?thesis by auto
qed simp_all

lemma bn254_threshold:
  assumes "bn254_invar tra"
  shows "bn254_SigningThresholdMet tra \<longleftrightarrow> (\<exists>d\<in>voteDigests (tallyVotes (bt_aggregatedOperators tra)).
    quorum (totalStake (bt_Operators tra) 0) (bt_ThresholdBips tra)
      (voteWeight d (tallyVotes (bt_aggregatedOperators tra))))"
  using assms unfolding bn254_invar_def bn254_SigningThresholdMet_def
  by (elim conjE) (rule stakeThreshold_votes)

lemma addSignatures_Some:
  "\<exists>sig pk. addSignatures lib (Some s) p signers = (Some sig, pk)"
  by (induction signers arbitrary: s p) auto

lemma addSignatures_nonempty: "signers \<noteq> [] \<Longrightarrow> \<exists>sig pk. addSignatures lib None p signers = (Some sig, pk)"
  using addSignatures_Some by (cases signers) auto

lemma nonSigners_filter [go_simps]:
  "nonSigners signers ops = filter (\<lambda>op. op_Address op \<notin> fst ` set signers) ops"
  by (induction ops) (auto simp: map_of_eq_None_iff)

text \<open>A generated certificate and the winning group it comes from.\<close>

lemma bn254_generate_cases:
  assumes "bn254_GenerateFinalCertificate eth lib tra = (Inr cert, tra')"
  obtains ao g sig pk where "bt_aggregatedOperators tra = Some ao"
    "gm_get (ao_digestGroups ao) (ao_winningDigest ao) = Some g"
    "addSignatures lib None (newZeroG2Point lib) (dg_signers g) = (Some sig, pk)"
    "hexutilDecode eth (bt_TaskId tra) = Some (bc_TaskId cert)"
    "bc_TaskResponse cert = tr_Output (rr_TaskResult (dg_response g))"
    "bc_TaskResponseDigest cert = rr_OutputDigest (dg_response g)"
    "bc_SignersSignature cert = sig" "bc_SignersPublicKey cert = pk"
    "bc_NonSignerOperators cert =
       sort_key op_OperatorIndex (filter (\<lambda>op. op_Address op \<notin> fst ` set (dg_signers g)) (bt_Operators tra))"
    "bc_SortedOperatorsByIndex cert = sort_key op_OperatorIndex (bt_Operators tra)"
    "bc_NonSignersPubKeys cert = map op_PublicKey (bc_NonSignerOperators cert)"
    "bc_AllOperatorsPubKeys cert = map op_PublicKey (bc_SortedOperatorsByIndex cert)"
    "tra' = storeSignature (fst (hd (dg_signers g))) sig (ao_winningDigest ao) g ao tra"
  using assms unfolding bn254_GenerateFinalCertificate_def
  by (auto simp: go_simps Let_def split: option.splits prod.splits if_splits)

lemma bn254_generate_winner:
  assumes "bn254_invar tra" "bn254_GenerateFinalCertificate eth lib tra = (Inr cert, tra')"
  shows "bc_TaskResponseDigest cert \<in> voteDigests (tallyVotes (bt_aggregatedOperators tra)) \<and>
    (\<forall>d\<in>voteDigests (tallyVotes (bt_aggregatedOperators tra)).
       voteWeight d (tallyVotes (bt_aggregatedOperators tra))
         \<le> voteWeight (bc_TaskResponseDigest cert) (tallyVotes (bt_aggregatedOperators tra)))"
  using assms(2)
proof (cases rule: bn254_generate_cases)
  case (1 ao g sig pk)
  then have ok: "tally_ok (bn254_signer tra) (Some ao)" "tally_winner (Some ao)"
    using assms(1) by (simp_all add: bn254_invar_def)
  with 1 have "bc_TaskResponseDigest cert = ao_winningDigest ao"
    by (simp add: tally_ok_def group_ok_def)
  with 1 winner_votes [OF ok] show ?thesis by simp
qed

lemma bn254_generate_ok:
  assumes "bn254_invar tra" "tallyVotes (bt_aggregatedOperators tra) \<noteq> {#}"
    "hexutilDecode eth (bt_TaskId tra) \<noteq> None"
  shows "\<exists>cert tra'. bn254_GenerateFinalCertificate eth lib tra = (Inr cert, tra')"
proof -
  from assms(2) obtain ao where ao: "bt_aggregatedOperators tra = Some ao"
    by (cases "bt_aggregatedOperators tra") (auto simp: tallyVotes_def)
  with assms(1) obtain g where g: "gm_get (ao_digestGroups ao) (ao_winningDigest ao) = Some g" "dg_signers g \<noteq> []"
    by (auto simp: bn254_invar_def tally_ok_def group_ok_def)
  then have "ao_digestGroups ao \<noteq> []" by auto
  with ao g assms(3) addSignatures_nonempty [OF g(2), of lib "newZeroG2Point lib"] show ?thesis
    by (auto simp: bn254_GenerateFinalCertificate_def Let_def split: prod.splits)
qed

interpretation bn: result_aggregator "bn254_ops eth lib cc" bn254_invar
  "\<lambda>tra. tallyVotes (bt_aggregatedOperators tra)" "\<lambda>tra. dom (gm_get (bt_ReceivedSignatures tra))"
  "\<lambda>tra. totalStake (bt_Operators tra) 0" bt_ThresholdBips
  "\<lambda>tra. hexutilDecode eth (bt_TaskId tra) \<noteq> None" "bn254_valid eth lib cc" bc_TaskResponseDigest
  for eth lib cc
proof (unfold_locales, unfold bn254_ops_def aggregator_ops.simps)
  fix tra tr r tra' assume "bn254_invar tra" "bn254_ProcessNewSignature eth lib cc tra tr = (r, tra')"
  then show "bn254_invar tra'" by (rule bn254_process_invar)
next
  fix tra tr r tra' assume "bn254_ProcessNewSignature eth lib cc tra tr = (r, tra')"
  from bn254_process_static [OF this]
  show "totalStake (bt_Operators tra') 0 = totalStake (bt_Operators tra) 0 \<and>
    bt_ThresholdBips tra' = bt_ThresholdBips tra \<and>
    (hexutilDecode eth (bt_TaskId tra') \<noteq> None) = (hexutilDecode eth (bt_TaskId tra) \<noteq> None) \<and>
    bn254_valid eth lib cc tra' = bn254_valid eth lib cc tra" by simp
next
  fix tra tr tra' assume "bn254_invar tra" "bn254_ProcessNewSignature eth lib cc tra tr = (None, tra')"
  from bn254_process_votes [OF this]
  show "\<exists>w d. bn254_valid eth lib cc tra tr w d \<and>
    tr_OperatorAddress tr \<notin> dom (gm_get (bt_ReceivedSignatures tra)) \<and>
    tallyVotes (bt_aggregatedOperators tra') =
      add_mset (tr_OperatorAddress tr, w, d) (tallyVotes (bt_aggregatedOperators tra)) \<and>
    dom (gm_get (bt_ReceivedSignatures tra')) =
      insert (tr_OperatorAddress tr) (dom (gm_get (bt_ReceivedSignatures tra)))" by blast
next
  fix tra tr e tra' assume "bn254_ProcessNewSignature eth lib cc tra tr = (Some e, tra')"
  then show "tallyVotes (bt_aggregatedOperators tra') = tallyVotes (bt_aggregatedOperators tra) \<and>
    dom (gm_get (bt_ReceivedSignatures tra)) \<subseteq> dom (gm_get (bt_ReceivedSignatures tra')) \<and>
    dom (gm_get (bt_ReceivedSignatures tra')) \<subseteq> insert (tr_OperatorAddress tr) (dom (gm_get (bt_ReceivedSignatures tra)))"
    by (cases rule: bn254_process_cases) auto
next
  fix tra tr w d w' d' assume "bn254_valid eth lib cc tra tr w d" "bn254_valid eth lib cc tra tr w' d'"
  then show "w' = w \<and> d' = d" by (auto simp: bn254_valid_def split: option.splits)
next
  fix tra tr w d assume "bn254_invar tra" "bn254_valid eth lib cc tra tr w d"
  then show "0 \<le> w"
    by (auto simp: bn254_invar_def bn254_valid_def split: option.splits dest: find_SomeD)
next
  fix tra tr w d assume v: "bn254_valid eth lib cc tra tr w d"
    "tr_OperatorAddress tr \<notin> dom (gm_get (bt_ReceivedSignatures tra))"
  obtain r tra' where p: "bn254_ProcessNewSignature eth lib cc tra tr = (r, tra')" by fastforce
  then have "r = None" using v by (cases rule: bn254_process_cases) (auto simp: domIff)
  with p show "\<exists>tra'. bn254_ProcessNewSignature eth lib cc tra tr = (None, tra')" by blast
next
  fix tra a w d assume "bn254_invar tra" "(a, w, d) \<in># tallyVotes (bt_aggregatedOperators tra)"
  then show "a \<in> dom (gm_get (bt_ReceivedSignatures tra))"
    by (auto simp: bn254_invar_def bn254_signer_def dest!: voteMem_tally)
qed (rule bn254_threshold bn254_generate_winner bn254_generate_ok; assumption)+

end
