(* ===== verification/Aggregation_ECDSA.thy ===== *)
theory Aggregation_ECDSA
  imports Aggregation_Spec
begin

text \<open>
  The ECDSA result aggregator, \<open>ponos/pkg/signing/aggregation/ecdsa.go\<close> with its types in
  \<open>aggregation.go\<close>. An operator's key is its signing address, 20 bytes. The ECDSA library is a
  parameter \<open>lib\<close>. Differences to the BN254 aggregator that the code has: the checks come in
  another order, the auth signature covers the parsed result signature, and the certificate
  carries one signature per signer instead of an aggregate.
\<close>

section \<open>The ECDSA library and the aggregator's state\<close>

record 'sig ecdsa_lib =
  ec_newSignatureFromBytes :: "bytes \<Rightarrow> 'sig option"
  ec_verifyWithAddress :: "'sig \<Rightarrow> bytes \<Rightarrow> bytes \<Rightarrow> bool option"
  ec_sigBytes :: "'sig \<Rightarrow> bytes"

type_synonym ecdsa_signer_info = "(bytes, bytes, bytes) signer_info"
type_synonym 'sig ecdsa_operators = "(bytes, bytes, bytes, 'sig) aggregated_operators"

record 'sig ecdsa_aggregator =
  et_TaskId :: string
  et_ReferenceTimestamp :: u32
  et_OperatorSetId :: u32
  et_ThresholdBips :: u16
  et_TaskData :: bytes
  et_TaskExpirationTime :: "time option"
  et_Operators :: "bytes operator list"
  et_OperatorSignatures :: "(string \<times> 'sig received_response) list"
  et_AggregatePublicKeys :: "bytes list"
  et_aggregatedOperators :: "'sig ecdsa_operators option"

record ecdsa_certificate =
  ec_TaskId :: bytes
  ec_TaskResponse :: bytes
  ec_TaskResponseDigest :: bytes
  ec_SignersSignatures :: "(bytes \<times> bytes) list"

section \<open>Construction\<close>

definition newECDSATaskResultAggregator ::
  "string \<Rightarrow> u32 \<Rightarrow> u32 \<Rightarrow> u16 \<Rightarrow> bytes \<Rightarrow> time option \<Rightarrow> bytes operator list \<Rightarrow> agg_error + 'sig ecdsa_aggregator" where
  "newECDSATaskResultAggregator taskId referenceTimestamp operatorSetId thresholdBips taskData
      taskExpirationTime operators =
     (if length taskId = 0 then Inl ErrInvalidTaskId
      else if referenceTimestamp = 0 then Inl ErrInvalidReferenceTimestamp
      else if length operators = 0 then Inl ErrNoOperatorAddresses
      else if thresholdBips = 0 \<or> thresholdBips > 10000 then Inl ErrInvalidThreshold
      else Inr \<lparr>et_TaskId = taskId, et_ReferenceTimestamp = referenceTimestamp,
                 et_OperatorSetId = operatorSetId, et_ThresholdBips = thresholdBips,
                 et_TaskData = taskData, et_TaskExpirationTime = taskExpirationTime,
                 et_Operators = operators, et_OperatorSignatures = [],
                 et_AggregatePublicKeys = utilMap operators (\<lambda>op i. op_PublicKey op),
                 et_aggregatedOperators = None\<rparr>)"

section \<open>Processing a response\<close>

definition ecdsa_SigningThresholdMet :: "'sig ecdsa_aggregator \<Rightarrow> bool" where
  "ecdsa_SigningThresholdMet tra =
     stakeThresholdMet (et_Operators tra) (et_ThresholdBips tra) (et_aggregatedOperators tra)"

definition ecdsa_VerifyResponseSignature ::
  "eth_common \<Rightarrow> 'sig ecdsa_lib \<Rightarrow> cert_caller \<Rightarrow> 'sig ecdsa_aggregator \<Rightarrow>
     task_result \<Rightarrow> bytes operator \<Rightarrow> bytes \<Rightarrow> verify_error + 'sig" where
  "ecdsa_VerifyResponseSignature eth lib cc tra taskResponse op outputDigest =
     (if \<not> equalFold (tr_OperatorAddress taskResponse) (op_Address op) then Inl AddressMismatch
      else case ec_newSignatureFromBytes lib (tr_ResultSignature taskResponse) of
        None \<Rightarrow> Inl BadResultSignature
      | Some resultSig \<Rightarrow>
      (case calculateECDSACertificateDigestBytes cc (et_ReferenceTimestamp tra) outputDigest of
        None \<Rightarrow> Inl DigestCallFailed
      | Some signedOverBytes \<Rightarrow>
      (case ec_verifyWithAddress lib resultSig (copy32 (getKeccak256Digest eth signedOverBytes)) (op_PublicKey op) of
        None \<Rightarrow> Inl ResultVerifyError
      | Some False \<Rightarrow> Inl ResultMismatch
      | Some True \<Rightarrow>
      (case ec_newSignatureFromBytes lib (tr_AuthSignature taskResponse) of
        None \<Rightarrow> Inl BadAuthSignature
      | Some authSig \<Rightarrow>
      (let authData = \<lparr>asd_TaskId = tr_TaskId taskResponse, asd_AvsAddress = tr_AvsAddress taskResponse,
             asd_OperatorAddress = tr_OperatorAddress taskResponse,
             asd_OperatorSetId = tr_OperatorSetId taskResponse,
             asd_ResultSigDigest = getKeccak256Digest eth (ec_sigBytes lib resultSig)\<rparr>;
           authBytesDigest = getKeccak256Digest eth (asd_toSigningBytes eth authData)
       in (case ec_verifyWithAddress lib authSig (copy32 authBytesDigest) (op_PublicKey op) of
             None \<Rightarrow> Inl AuthVerifyError
           | Some False \<Rightarrow> Inl AuthMismatch
           | Some True \<Rightarrow> Inr resultSig))))))"

definition ecdsa_ProcessNewSignature ::
  "eth_common \<Rightarrow> 'sig ecdsa_lib \<Rightarrow> cert_caller \<Rightarrow> 'sig ecdsa_aggregator \<Rightarrow>
     task_result \<Rightarrow> agg_error option \<times> 'sig ecdsa_aggregator" where
  "ecdsa_ProcessNewSignature eth lib cc tra taskResponse =
     (if et_TaskId tra \<noteq> tr_TaskId taskResponse then (Some TaskIdMismatch, tra)
      else if tr_OperatorSetId taskResponse \<noteq> et_OperatorSetId tra then (Some OperatorSetMismatch, tra)
      else (case utilFind (et_Operators tra) (\<lambda>op. equalFold (op_Address op) (tr_OperatorAddress taskResponse)) of
        None \<Rightarrow> (Some NotInAllowedSet, tra)
      | Some op \<Rightarrow>
      if length (tr_ResultSignature taskResponse) = 0 then (Some EmptyResultSignature, tra)
      else if length (tr_AuthSignature taskResponse) = 0 then (Some EmptyAuthSignature, tra)
      else if gm_get (et_OperatorSignatures tra) (tr_OperatorAddress taskResponse) \<noteq> None
      then (Some AlreadySubmitted, tra)
      else (let taskMessageHash = copy32 (hexToHash eth (tr_TaskId taskResponse)) in
      (case calculateTaskMessageHash cc taskMessageHash (tr_Output taskResponse) of
        None \<Rightarrow> (Some TaskHashFailed, tra)
      | Some outputTaskMessage \<Rightarrow>
      (case ecdsa_VerifyResponseSignature eth lib cc tra taskResponse op outputTaskMessage of
        Inl e \<Rightarrow> (Some (VerifyFailed e), tra)
      | Inr sig \<Rightarrow>
      (let rr = \<lparr>rr_TaskId = et_TaskId tra, rr_TaskResult = taskResponse, rr_Signature = sig,
                 rr_OutputDigest = outputTaskMessage\<rparr>
       in (None, tra\<lparr>et_OperatorSignatures :=
              gm_put (et_OperatorSignatures tra) (tr_OperatorAddress taskResponse) rr,
            et_aggregatedOperators := Some (recordVote (et_aggregatedOperators tra)
              outputTaskMessage (tr_OperatorAddress taskResponse)
              \<lparr>si_publicKey = op_PublicKey op, si_signature = tr_ResultSignature taskResponse,
               si_operator = op\<rparr> rr)\<rparr>)))))))"

section \<open>The final certificate\<close>

fun signersSignatures :: "eth_common \<Rightarrow> (bytes \<times> bytes) list \<Rightarrow> (string \<times> ecdsa_signer_info) list \<Rightarrow> (bytes \<times> bytes) list" where
  "signersSignatures eth acc [] = acc"
| "signersSignatures eth acc ((_, signer) # signers) =
     signersSignatures eth (gm_put acc (getAddress eth (si_operator signer)) (si_signature signer)) signers"

definition ecdsa_GenerateFinalCertificate ::
  "eth_common \<Rightarrow> 'sig ecdsa_aggregator \<Rightarrow> (agg_error + ecdsa_certificate) \<times> 'sig ecdsa_aggregator" where
  "ecdsa_GenerateFinalCertificate eth tra =
     (case et_aggregatedOperators tra of
        None \<Rightarrow> (Inl NoSignaturesCollected, tra)
      | Some ao \<Rightarrow>
      if length (ao_digestGroups ao) = 0 then (Inl NoSignaturesCollected, tra)
      else (case gm_get (ao_digestGroups ao) (ao_winningDigest ao) of
        None \<Rightarrow> (Inl NoWinningSignatures, tra)
      | Some winningGroup \<Rightarrow>
      if length (dg_signers winningGroup) = 0 then (Inl NoWinningSignatures, tra)
      else (case hexutilDecode eth (et_TaskId tra) of
        None \<Rightarrow> (Inl BadTaskIdHex, tra)
      | Some taskIdBytes \<Rightarrow>
          (Inr \<lparr>ec_TaskId = taskIdBytes,
                ec_TaskResponse = tr_Output (rr_TaskResult (dg_response winningGroup)),
                ec_TaskResponseDigest = rr_OutputDigest (dg_response winningGroup),
                ec_SignersSignatures = signersSignatures eth [] (dg_signers winningGroup)\<rparr>, tra))))"

text \<open>
  \<open>GetFinalSignature\<close>: addresses compared as byte slices (lexicographically), signatures of 65
  bytes each, concatenated in that order.
\<close>

fun concatSignatures :: "(bytes \<times> bytes) list \<Rightarrow> bytes list \<Rightarrow> bytes \<Rightarrow> agg_error + bytes" where
  "concatSignatures sigs [] finalSignature = Inr finalSignature"
| "concatSignatures sigs (addr # addresses) finalSignature =
     (let sig = (case gm_get sigs addr of None \<Rightarrow> [] | Some s \<Rightarrow> s)
      in if length sig \<noteq> 65 then Inl (BadSignatureLength (length sig))
         else concatSignatures sigs addresses (finalSignature @ sig))"

definition getFinalSignature :: "ecdsa_certificate \<Rightarrow> agg_error + bytes" where
  "getFinalSignature cert =
     (if length (ec_SignersSignatures cert) = 0 then Inl NoCertificateSignatures
      else concatSignatures (ec_SignersSignatures cert) (sort (map fst (ec_SignersSignatures cert))) [])"

record ecdsa_params =
  ep_TaskId :: bytes
  ep_TaskResponse :: bytes
  ep_TaskResponseDigest :: bytes
  ep_SignersSignatures :: "(bytes \<times> bytes) list"

definition ecdsa_ToSubmitParams :: "ecdsa_certificate \<Rightarrow> ecdsa_params" where
  "ecdsa_ToSubmitParams cert =
     \<lparr>ep_TaskId = ec_TaskId cert, ep_TaskResponse = ec_TaskResponse cert,
      ep_TaskResponseDigest = ec_TaskResponseDigest cert,
      ep_SignersSignatures = ec_SignersSignatures cert\<rparr>"

section \<open>The contract holds\<close>

definition ecdsa_ops ::
  "eth_common \<Rightarrow> 'sig ecdsa_lib \<Rightarrow> cert_caller \<Rightarrow> ('sig ecdsa_aggregator, ecdsa_certificate) aggregator_ops" where
  "ecdsa_ops eth lib cc =
     \<lparr>aSigningThresholdMet = ecdsa_SigningThresholdMet,
      aProcessNewSignature = ecdsa_ProcessNewSignature eth lib cc,
      aGenerateFinalCertificate = ecdsa_GenerateFinalCertificate eth\<rparr>"

text \<open>The checks a response has to pass, and what it is then worth.\<close>

definition ecdsa_valid ::
  "eth_common \<Rightarrow> 'sig ecdsa_lib \<Rightarrow> cert_caller \<Rightarrow> 'sig ecdsa_aggregator \<Rightarrow> task_result \<Rightarrow> int \<Rightarrow> bytes \<Rightarrow> bool" where
  "ecdsa_valid eth lib cc tra tr w d \<longleftrightarrow>
     tr_TaskId tr = et_TaskId tra \<and> tr_ResultSignature tr \<noteq> [] \<and> tr_AuthSignature tr \<noteq> [] \<and>
     tr_OperatorSetId tr = et_OperatorSetId tra \<and>
     calculateTaskMessageHash cc (copy32 (hexToHash eth (tr_TaskId tr))) (tr_Output tr) = Some d \<and>
     (case find (\<lambda>op. equalFold (op_Address op) (tr_OperatorAddress tr)) (et_Operators tra) of
        None \<Rightarrow> False
      | Some op \<Rightarrow> w = firstWeight op \<and> \<not> isl (ecdsa_VerifyResponseSignature eth lib cc tra tr op d))"

definition ecdsa_signer :: "'sig ecdsa_aggregator \<Rightarrow> bytes \<Rightarrow> string \<Rightarrow> ecdsa_signer_info \<Rightarrow> bool" where
  "ecdsa_signer tra d a si \<longleftrightarrow> gm_get (et_OperatorSignatures tra) a \<noteq> None \<and>
     si_operator si \<in> set (et_Operators tra) \<and> equalFold (op_Address (si_operator si)) a"

definition ecdsa_invar :: "'sig ecdsa_aggregator \<Rightarrow> bool" where
  "ecdsa_invar tra \<longleftrightarrow> tally_ok (ecdsa_signer tra) (et_aggregatedOperators tra) \<and>
     tally_winner (et_aggregatedOperators tra) \<and> (\<forall>op\<in>set (et_Operators tra). 0 \<le> firstWeight op)"

lemma ecdsa_verify_cong:
  assumes "et_ReferenceTimestamp tra' = et_ReferenceTimestamp tra"
  shows "ecdsa_VerifyResponseSignature eth lib cc tra' = ecdsa_VerifyResponseSignature eth lib cc tra"
  unfolding fun_eq_iff ecdsa_VerifyResponseSignature_def assms by blast

text \<open>The two outcomes of \<open>ProcessNewSignature\<close>.\<close>

lemma ecdsa_process_cases:
  assumes "ecdsa_ProcessNewSignature eth lib cc tra tr = (r, tra')"
  obtains (accepted) op sig d rr where
      "r = None" "ecdsa_valid eth lib cc tra tr (firstWeight op) d"
      "find (\<lambda>op. equalFold (op_Address op) (tr_OperatorAddress tr)) (et_Operators tra) = Some op"
      "ecdsa_VerifyResponseSignature eth lib cc tra tr op d = Inr sig"
      "gm_get (et_OperatorSignatures tra) (tr_OperatorAddress tr) = None"
      "rr = \<lparr>rr_TaskId = et_TaskId tra, rr_TaskResult = tr, rr_Signature = sig, rr_OutputDigest = d\<rparr>"
      "tra' = tra\<lparr>et_OperatorSignatures := gm_put (et_OperatorSignatures tra) (tr_OperatorAddress tr) rr,
         et_aggregatedOperators := Some (recordVote (et_aggregatedOperators tra) d (tr_OperatorAddress tr)
           \<lparr>si_publicKey = op_PublicKey op, si_signature = tr_ResultSignature tr, si_operator = op\<rparr> rr)\<rparr>"
  | (rejected) e where "r = Some e" "tra' = tra"
      "(\<forall>w d. \<not> ecdsa_valid eth lib cc tra tr w d) \<or> gm_get (et_OperatorSignatures tra) (tr_OperatorAddress tr) \<noteq> None"
proof -
  note unf = ecdsa_ProcessNewSignature_def ecdsa_valid_def go_simps Let_def
  let ?hash = "calculateTaskMessageHash cc (copy32 (hexToHash eth (tr_TaskId tr))) (tr_Output tr)"
  show thesis
  proof (cases "tr_TaskId tr = et_TaskId tra \<and> tr_OperatorSetId tr = et_OperatorSetId tra \<and>
      tr_ResultSignature tr \<noteq> [] \<and> tr_AuthSignature tr \<noteq> [] \<and>
      gm_get (et_OperatorSignatures tra) (tr_OperatorAddress tr) = None")
    case False
    then show thesis
      using assms rejected [of "the r"] by (auto simp: unf split: if_splits option.splits)
  next
    case static: True
    show thesis
    proof (cases "find (\<lambda>op. equalFold (op_Address op) (tr_OperatorAddress tr)) (et_Operators tra)")
      case None
      with static assms show thesis by (intro rejected) (auto simp: unf)
    next
      case f: (Some op)
      show thesis
      proof (cases ?hash)
        case None
        with static f assms show thesis by (intro rejected) (auto simp: unf)
      next
        case h: (Some d)
        show thesis
        proof (cases "ecdsa_VerifyResponseSignature eth lib cc tra tr op d")
          case (Inl e)
          with static f h assms show thesis by (intro rejected) (auto simp: unf)
        next
          case (Inr sig)
          with static f h assms show thesis by (intro accepted) (auto simp: unf)
        qed
      qed
    qed
  qed
qed

lemma ecdsa_new_invar:
  assumes "newECDSATaskResultAggregator tid ts os bips td exp opers = Inr tra"
    and "\<forall>op\<in>set opers. 0 \<le> firstWeight op"
  shows "ecdsa_invar tra"
  using assms by (auto simp: newECDSATaskResultAggregator_def ecdsa_invar_def split: if_splits)

lemma ecdsa_process_invar:
  assumes "ecdsa_invar tra" "ecdsa_ProcessNewSignature eth lib cc tra tr = (r, tra')"
  shows "ecdsa_invar tra'"
  using assms(2)
proof (cases rule: ecdsa_process_cases)
  case (accepted op sig d rr)
  have op: "op \<in> set (et_Operators tra)" "equalFold (op_Address op) (tr_OperatorAddress tr)"
    using accepted(3) find_SomeD by fast+
  let ?vote = "recordVote (et_aggregatedOperators tra) d (tr_OperatorAddress tr)
           \<lparr>si_publicKey = op_PublicKey op, si_signature = tr_ResultSignature tr, si_operator = op\<rparr> rr"
  have "tally_ok (ecdsa_signer tra') (Some ?vote)"
    using assms(1) accepted op
    by (intro recordVote_ok [of "ecdsa_signer tra"]) (auto simp: ecdsa_invar_def ecdsa_signer_def)
  moreover have "tally_winner (Some ?vote)"
    using assms(1) op by (intro recordVote_winner) (auto simp: ecdsa_invar_def)
  ultimately show ?thesis
    using assms(1) accepted by (simp add: ecdsa_invar_def)
next
  case rejected
  then show ?thesis using assms(1) by simp
qed

lemma ecdsa_process_static:
  assumes "ecdsa_ProcessNewSignature eth lib cc tra tr = (r, tra')"
  shows "et_TaskId tra' = et_TaskId tra \<and> et_ReferenceTimestamp tra' = et_ReferenceTimestamp tra \<and>
    et_OperatorSetId tra' = et_OperatorSetId tra \<and> et_ThresholdBips tra' = et_ThresholdBips tra \<and>
    et_Operators tra' = et_Operators tra \<and> ecdsa_valid eth lib cc tra' = ecdsa_valid eth lib cc tra"
proof -
  have st: "et_TaskId tra' = et_TaskId tra \<and> et_ReferenceTimestamp tra' = et_ReferenceTimestamp tra \<and>
    et_OperatorSetId tra' = et_OperatorSetId tra \<and> et_ThresholdBips tra' = et_ThresholdBips tra \<and>
    et_Operators tra' = et_Operators tra"
    using assms by (cases rule: ecdsa_process_cases) simp_all
  then have "ecdsa_VerifyResponseSignature eth lib cc tra' = ecdsa_VerifyResponseSignature eth lib cc tra"
    by (intro ecdsa_verify_cong) simp
  with st show ?thesis by (simp add: ecdsa_valid_def fun_eq_iff cong: option.case_cong)
qed

lemma ecdsa_process_votes:
  assumes "ecdsa_invar tra" "ecdsa_ProcessNewSignature eth lib cc tra tr = (None, tra')"
  shows "\<exists>w d. ecdsa_valid eth lib cc tra tr w d \<and>
    gm_get (et_OperatorSignatures tra) (tr_OperatorAddress tr) = None \<and>
    tallyVotes (et_aggregatedOperators tra') =
      add_mset (tr_OperatorAddress tr, w, d) (tallyVotes (et_aggregatedOperators tra)) \<and>
    dom (gm_get (et_OperatorSignatures tra')) =
      insert (tr_OperatorAddress tr) (dom (gm_get (et_OperatorSignatures tra)))"
  using assms(2)
proof (cases rule: ecdsa_process_cases)
  case (accepted op sig d rr)
  have "tallyVotes (et_aggregatedOperators tra') =
      add_mset (tr_OperatorAddress tr, firstWeight op, d) (tallyVotes (et_aggregatedOperators tra))"
    using assms(1) accepted
    by (simp add: recordVote_votes [of "ecdsa_signer tra"] ecdsa_invar_def ecdsa_signer_def)
  with accepted show ?thesis by auto
qed simp_all

lemma ecdsa_threshold:
  assumes "ecdsa_invar tra"
  shows "ecdsa_SigningThresholdMet tra \<longleftrightarrow> (\<exists>d\<in>voteDigests (tallyVotes (et_aggregatedOperators tra)).
    quorum (totalStake (et_Operators tra) 0) (et_ThresholdBips tra)
      (voteWeight d (tallyVotes (et_aggregatedOperators tra))))"
  using assms unfolding ecdsa_invar_def ecdsa_SigningThresholdMet_def
  by (elim conjE) (rule stakeThreshold_votes)

lemma ecdsa_generate_cases:
  assumes "ecdsa_GenerateFinalCertificate eth tra = (Inr cert, tra')"
  obtains ao g where "et_aggregatedOperators tra = Some ao"
    "gm_get (ao_digestGroups ao) (ao_winningDigest ao) = Some g" "dg_signers g \<noteq> []"
    "hexutilDecode eth (et_TaskId tra) = Some (ec_TaskId cert)"
    "ec_TaskResponse cert = tr_Output (rr_TaskResult (dg_response g))"
    "ec_TaskResponseDigest cert = rr_OutputDigest (dg_response g)"
    "ec_SignersSignatures cert = signersSignatures eth [] (dg_signers g)" "tra' = tra"
  using assms unfolding ecdsa_GenerateFinalCertificate_def
  by (auto split: option.splits if_splits)

lemma ecdsa_generate_winner:
  assumes "ecdsa_invar tra" "ecdsa_GenerateFinalCertificate eth tra = (Inr cert, tra')"
  shows "ec_TaskResponseDigest cert \<in> voteDigests (tallyVotes (et_aggregatedOperators tra)) \<and>
    (\<forall>d\<in>voteDigests (tallyVotes (et_aggregatedOperators tra)).
       voteWeight d (tallyVotes (et_aggregatedOperators tra))
         \<le> voteWeight (ec_TaskResponseDigest cert) (tallyVotes (et_aggregatedOperators tra)))"
  using assms(2)
proof (cases rule: ecdsa_generate_cases)
  case (1 ao g)
  then have ok: "tally_ok (ecdsa_signer tra) (Some ao)" "tally_winner (Some ao)"
    using assms(1) by (simp_all add: ecdsa_invar_def)
  with 1 have "ec_TaskResponseDigest cert = ao_winningDigest ao"
    by (simp add: tally_ok_def group_ok_def)
  with 1 winner_votes [OF ok] show ?thesis by simp
qed

lemma ecdsa_generate_ok:
  assumes "ecdsa_invar tra" "tallyVotes (et_aggregatedOperators tra) \<noteq> {#}"
    "hexutilDecode eth (et_TaskId tra) \<noteq> None"
  shows "\<exists>cert tra'. ecdsa_GenerateFinalCertificate eth tra = (Inr cert, tra')"
proof -
  from assms(2) obtain ao where ao: "et_aggregatedOperators tra = Some ao"
    by (cases "et_aggregatedOperators tra") (auto simp: tallyVotes_def)
  with assms(1) obtain g where g: "gm_get (ao_digestGroups ao) (ao_winningDigest ao) = Some g" "dg_signers g \<noteq> []"
    by (auto simp: ecdsa_invar_def tally_ok_def group_ok_def)
  then have "ao_digestGroups ao \<noteq> []" by auto
  with ao g assms(3) show ?thesis
    by (auto simp: ecdsa_GenerateFinalCertificate_def)
qed

interpretation ec: result_aggregator "ecdsa_ops eth lib cc" ecdsa_invar
  "\<lambda>tra. tallyVotes (et_aggregatedOperators tra)" "\<lambda>tra. dom (gm_get (et_OperatorSignatures tra))"
  "\<lambda>tra. totalStake (et_Operators tra) 0" et_ThresholdBips
  "\<lambda>tra. hexutilDecode eth (et_TaskId tra) \<noteq> None" "ecdsa_valid eth lib cc" ec_TaskResponseDigest
  for eth lib cc
proof (unfold_locales, unfold ecdsa_ops_def aggregator_ops.simps)
  fix tra tr r tra' assume "ecdsa_invar tra" "ecdsa_ProcessNewSignature eth lib cc tra tr = (r, tra')"
  then show "ecdsa_invar tra'" by (rule ecdsa_process_invar)
next
  fix tra tr r tra' assume "ecdsa_ProcessNewSignature eth lib cc tra tr = (r, tra')"
  from ecdsa_process_static [OF this]
  show "totalStake (et_Operators tra') 0 = totalStake (et_Operators tra) 0 \<and>
    et_ThresholdBips tra' = et_ThresholdBips tra \<and>
    (hexutilDecode eth (et_TaskId tra') \<noteq> None) = (hexutilDecode eth (et_TaskId tra) \<noteq> None) \<and>
    ecdsa_valid eth lib cc tra' = ecdsa_valid eth lib cc tra" by simp
next
  fix tra tr tra' assume "ecdsa_invar tra" "ecdsa_ProcessNewSignature eth lib cc tra tr = (None, tra')"
  from ecdsa_process_votes [OF this]
  show "\<exists>w d. ecdsa_valid eth lib cc tra tr w d \<and>
    tr_OperatorAddress tr \<notin> dom (gm_get (et_OperatorSignatures tra)) \<and>
    tallyVotes (et_aggregatedOperators tra') =
      add_mset (tr_OperatorAddress tr, w, d) (tallyVotes (et_aggregatedOperators tra)) \<and>
    dom (gm_get (et_OperatorSignatures tra')) =
      insert (tr_OperatorAddress tr) (dom (gm_get (et_OperatorSignatures tra)))" by blast
next
  fix tra tr e tra' assume "ecdsa_ProcessNewSignature eth lib cc tra tr = (Some e, tra')"
  then show "tallyVotes (et_aggregatedOperators tra') = tallyVotes (et_aggregatedOperators tra) \<and>
    dom (gm_get (et_OperatorSignatures tra)) \<subseteq> dom (gm_get (et_OperatorSignatures tra')) \<and>
    dom (gm_get (et_OperatorSignatures tra')) \<subseteq> insert (tr_OperatorAddress tr) (dom (gm_get (et_OperatorSignatures tra)))"
    by (cases rule: ecdsa_process_cases) auto
next
  fix tra tr w d w' d' assume "ecdsa_valid eth lib cc tra tr w d" "ecdsa_valid eth lib cc tra tr w' d'"
  then show "w' = w \<and> d' = d" by (auto simp: ecdsa_valid_def split: option.splits)
next
  fix tra tr w d assume "ecdsa_invar tra" "ecdsa_valid eth lib cc tra tr w d"
  then show "0 \<le> w"
    by (auto simp: ecdsa_invar_def ecdsa_valid_def split: option.splits dest: find_SomeD)
next
  fix tra tr w d assume v: "ecdsa_valid eth lib cc tra tr w d"
    "tr_OperatorAddress tr \<notin> dom (gm_get (et_OperatorSignatures tra))"
  obtain r tra' where p: "ecdsa_ProcessNewSignature eth lib cc tra tr = (r, tra')" by fastforce
  then have "r = None" using v by (cases rule: ecdsa_process_cases) (auto simp: domIff)
  with p show "\<exists>tra'. ecdsa_ProcessNewSignature eth lib cc tra tr = (None, tra')" by blast
next
  fix tra a w d assume "ecdsa_invar tra" "(a, w, d) \<in># tallyVotes (et_aggregatedOperators tra)"
  then show "a \<in> dom (gm_get (et_OperatorSignatures tra))"
    by (auto simp: ecdsa_invar_def ecdsa_signer_def dest!: voteMem_tally)
qed (rule ecdsa_threshold ecdsa_generate_winner ecdsa_generate_ok; assumption)+

section \<open>The concatenated signature\<close>

lemma concatSignatures_iff:
  "concatSignatures sigs as acc = Inr out \<longleftrightarrow>
    (\<forall>a\<in>set as. \<exists>s. gm_get sigs a = Some s \<and> length s = 65) \<and>
    out = acc @ concat (map (\<lambda>a. the (gm_get sigs a)) as)"
  by (induction as arbitrary: acc) (auto simp: Let_def split: option.splits)

lemma getFinalSignature_iff:
  assumes "gm_wf (ec_SignersSignatures cert)"
  shows "getFinalSignature cert = Inr out \<longleftrightarrow> ec_SignersSignatures cert \<noteq> [] \<and>
    (\<forall>(a, s)\<in>set (ec_SignersSignatures cert). length s = 65) \<and>
    out = concat (map (\<lambda>a. the (gm_get (ec_SignersSignatures cert) a)) (sort (map fst (ec_SignersSignatures cert))))"
  using assms by (auto simp: getFinalSignature_def concatSignatures_iff gm_mem_iff)

lemma signersSignatures_wf: "gm_wf acc \<Longrightarrow> gm_wf (signersSignatures eth acc signers)"
  by (induction eth acc signers rule: signersSignatures.induct) simp_all

lemma length_concat_65: "(\<forall>x\<in>set xs. length (f x) = 65) \<Longrightarrow> length (concat (map f xs)) = 65 * length xs"
  by (induction xs) auto

end
