(* ===== verification/Peering.thy ===== *)
theory Peering
  imports Signing_Bytes
begin

text \<open>
  Operator peers: the types and lookups of \<open>ponos/pkg/peering/peering.go\<close>, the contract reads that
  build them (\<open>GetOperatorSetMembersWithPeering\<close> and its helpers in
  \<open>ponos/pkg/contractCaller/caller/caller.go\<close>) and the fetcher that merges the operator sets of
  an AVS (\<open>ponos/pkg/peering/peeringDataFetcher/peeringDataFetcher.go\<close>). The generated contract
  bindings are a parameter. Pointers that the code leaves \<open>nil\<close> are \<open>None\<close>.
\<close>

section \<open>Peers\<close>

record 'k wrapped_public_key =
  wpk_PublicKey :: "'k option"
  wpk_ECDSAAddress :: bytes

record 'k operator_set =
  os_OperatorSetID :: u32
  os_OperatorIndex :: u32
  os_WrappedPublicKey :: "'k wrapped_public_key"
  os_NetworkAddress :: string
  os_CurveType :: curve_type

record 'k operator_peer_info =
  opi_OperatorAddress :: string
  opi_OperatorSets :: "'k operator_set list"

fun findOperatorSet :: "'k operator_set list \<Rightarrow> u32 \<Rightarrow> 'k operator_set option" where
  "findOperatorSet [] operatorSetId = None"
| "findOperatorSet (os # oss) operatorSetId =
     (if os_OperatorSetID os = operatorSetId then Some os else findOperatorSet oss operatorSetId)"

definition getOperatorSet :: "'k operator_peer_info \<Rightarrow> u32 \<Rightarrow> 'k operator_set option" where
  "getOperatorSet opi operatorSetId = findOperatorSet (opi_OperatorSets opi) operatorSetId"

definition getSocketForOperatorSet :: "'k operator_peer_info \<Rightarrow> u32 \<Rightarrow> string option" where
  "getSocketForOperatorSet opi operatorSetId =
     (case getOperatorSet opi operatorSetId of None \<Rightarrow> None | Some os \<Rightarrow> Some (os_NetworkAddress os))"

definition includesOperatorSetId :: "'k operator_peer_info \<Rightarrow> u32 \<Rightarrow> bool" where
  "includesOperatorSetId opi operatorSetId =
     list_ex (\<lambda>os. os_OperatorSetID os = operatorSetId) (opi_OperatorSets opi)"

lemma findOperatorSet_None: "findOperatorSet oss i = None \<longleftrightarrow> i \<notin> os_OperatorSetID ` set oss"
  by (induction oss) auto

lemma findOperatorSet_Some: "findOperatorSet oss i = Some os \<Longrightarrow> os \<in> set oss \<and> os_OperatorSetID os = i"
  by (induction oss) (auto split: if_splits)

lemma includes_iff_get: "includesOperatorSetId opi i \<longleftrightarrow> (\<exists>os. getOperatorSet opi i = Some os)"
proof -
  have "includesOperatorSetId opi i \<longleftrightarrow> i \<in> os_OperatorSetID ` set (opi_OperatorSets opi)"
    by (auto simp: includesOperatorSetId_def list_ex_iff)
  also have "\<dots> \<longleftrightarrow> getOperatorSet opi i \<noteq> None"
    by (simp add: getOperatorSet_def findOperatorSet_None)
  finally show ?thesis by simp
qed

section \<open>The contract reads\<close>

text \<open>
  Answers of the allocation manager, the key registrar and an AVS registrar, at an optional block.
  \<open>None\<close> is an error; a registrar read also fails when its binding cannot be created.
\<close>

record ('k, 'g2s) chain_contracts =
  am_GetAVSRegistrar :: "int option \<Rightarrow> bytes \<Rightarrow> bytes option"
  am_GetMembers :: "int option \<Rightarrow> bytes \<Rightarrow> u32 \<Rightarrow> bytes list option"
  reg_GetOperatorSocket :: "bytes \<Rightarrow> int option \<Rightarrow> bytes \<Rightarrow> string option"
  reg_GetAvsConfig :: "bytes \<Rightarrow> int option \<Rightarrow> (u32 \<times> u32 list) option"
  kr_GetOperatorSetCurveType :: "int option \<Rightarrow> bytes \<Rightarrow> u32 \<Rightarrow> nat option"
  kr_GetBN254Key :: "int option \<Rightarrow> bytes \<Rightarrow> u32 \<Rightarrow> bytes \<Rightarrow> ((int \<times> int) \<times> 'g2s) option"
  kr_GetECDSAAddress :: "int option \<Rightarrow> bytes \<Rightarrow> u32 \<Rightarrow> bytes \<Rightarrow> bytes option"
  newPublicKeyFromSolidity :: "int \<times> int \<Rightarrow> 'g2s \<Rightarrow> 'k option"

text \<open>\<open>CallOpts\<close> with the block number as \<open>big.NewInt(int64(blockNumber))\<close>, when it is positive.\<close>

definition callOpts :: "u64 \<Rightarrow> int option" where
  "callOpts blockNumber =
     (if blockNumber > 0
      then Some (let n = int blockNumber mod 2 ^ 64 in if n < 2 ^ 63 then n else n - 2 ^ 64)
      else None)"

definition getOperatorSetCurveType ::
  "eth_common \<Rightarrow> ('k, 'g2s) chain_contracts \<Rightarrow> string \<Rightarrow> u32 \<Rightarrow> u64 \<Rightarrow> curve_type option" where
  "getOperatorSetCurveType eth ch avsAddress operatorSetId blockNumber =
     (case kr_GetOperatorSetCurveType ch (callOpts blockNumber) (hexToAddress eth avsAddress) operatorSetId of
        None \<Rightarrow> None
      | Some c \<Rightarrow> convertSolidityEnumToCurveType c)"

definition getOperatorSetMembers ::
  "eth_common \<Rightarrow> ('k, 'g2s) chain_contracts \<Rightarrow> string \<Rightarrow> u32 \<Rightarrow> u64 \<Rightarrow> string list option" where
  "getOperatorSetMembers eth ch avsAddress operatorSetId blockNumber =
     (case am_GetMembers ch (callOpts blockNumber) (hexToAddress eth avsAddress) operatorSetId of
        None \<Rightarrow> None
      | Some members \<Rightarrow> Some (map (addressString eth) members))"

definition getOperatorSetDetailsForOperator ::
  "eth_common \<Rightarrow> ('k, 'g2s) chain_contracts \<Rightarrow> bytes \<Rightarrow> string \<Rightarrow> u32 \<Rightarrow> u64 \<Rightarrow> 'k operator_set option" where
  "getOperatorSetDetailsForOperator eth ch operatorAddress avsAddress operatorSetId blockNumber =
     (let opts = callOpts blockNumber; avsAddr = hexToAddress eth avsAddress in
      case am_GetAVSRegistrar ch opts avsAddr of
        None \<Rightarrow> None
      | Some registrar \<Rightarrow>
      (case reg_GetOperatorSocket ch registrar opts operatorAddress of
        None \<Rightarrow> None
      | Some socket \<Rightarrow>
      (case kr_GetOperatorSetCurveType ch opts avsAddr operatorSetId of
        None \<Rightarrow> None
      | Some curveTypeSolidity \<Rightarrow>
      (case convertSolidityEnumToCurveType curveTypeSolidity of
        None \<Rightarrow> None
      | Some curveType \<Rightarrow>
      (let opset = (\<lambda>wpk. \<lparr>os_OperatorSetID = operatorSetId, os_OperatorIndex = 0,
             os_WrappedPublicKey = wpk, os_NetworkAddress = socket, os_CurveType = curveType\<rparr>)
       in if curveType = CurveTypeBN254 then
            (case kr_GetBN254Key ch opts avsAddr operatorSetId operatorAddress of
               None \<Rightarrow> None
             | Some ((x, y), g2) \<Rightarrow>
                 if sgn x = 0 \<and> sgn y = 0 then None
                 else (case newPublicKeyFromSolidity ch (x, y) g2 of
                         None \<Rightarrow> None
                       | Some pubKey \<Rightarrow>
                           Some (opset \<lparr>wpk_PublicKey = Some pubKey, wpk_ECDSAAddress = replicate 20 0\<rparr>)))
          else if curveType = CurveTypeECDSA then
            (case kr_GetECDSAAddress ch opts avsAddr operatorSetId operatorAddress of
               None \<Rightarrow> None
             | Some ecdsaAddr \<Rightarrow>
                 if ecdsaAddr = replicate 20 0 then None
                 else Some (opset \<lparr>wpk_PublicKey = None, wpk_ECDSAAddress = ecdsaAddr\<rparr>))
          else None)))))"

text \<open>
  An operator whose details cannot be read is skipped with \<open>continue\<close>, which leaves the \<open>nil\<close>
  entry of the preallocated slice in place.
\<close>

fun membersFrom ::
  "eth_common \<Rightarrow> ('k, 'g2s) chain_contracts \<Rightarrow> string \<Rightarrow> u32 \<Rightarrow> u64 \<Rightarrow> nat \<Rightarrow> string list \<Rightarrow>
     'k operator_peer_info option list" where
  "membersFrom eth ch avsAddress operatorSetId blockNumber index [] = []"
| "membersFrom eth ch avsAddress operatorSetId blockNumber index (addr # addrs) =
     (case getOperatorSetDetailsForOperator eth ch (hexToAddress eth addr) avsAddress operatorSetId blockNumber of
        None \<Rightarrow> None
      | Some info \<Rightarrow> Some \<lparr>opi_OperatorAddress = addr,
                          opi_OperatorSets = [info\<lparr>os_OperatorIndex := word_of_nat index\<rparr>]\<rparr>)
     # membersFrom eth ch avsAddress operatorSetId blockNumber (Suc index) addrs"

definition getOperatorSetMembersWithPeering ::
  "eth_common \<Rightarrow> ('k, 'g2s) chain_contracts \<Rightarrow> string \<Rightarrow> u32 \<Rightarrow> u64 \<Rightarrow> 'k operator_peer_info option list option" where
  "getOperatorSetMembersWithPeering eth ch avsAddress operatorSetId blockNumber =
     (case getOperatorSetMembers eth ch avsAddress operatorSetId blockNumber of
        None \<Rightarrow> None
      | Some addrs \<Rightarrow>
          (let allMembers = membersFrom eth ch avsAddress operatorSetId blockNumber 0 addrs
           in if length allMembers = 0 then None else Some allMembers))"

definition getAVSConfig ::
  "eth_common \<Rightarrow> ('k, 'g2s) chain_contracts \<Rightarrow> string \<Rightarrow> u64 \<Rightarrow> (u32 \<times> u32 list) option" where
  "getAVSConfig eth ch avsAddress blockNumber =
     (case am_GetAVSRegistrar ch (callOpts blockNumber) (hexToAddress eth avsAddress) of
        None \<Rightarrow> None
      | Some registrar \<Rightarrow> reg_GetAvsConfig ch registrar (callOpts blockNumber))"

section \<open>Merging the operator sets\<close>

datatype fetch_error = FetchFailed | NilPeerPanic

text \<open>
  The map from address to peer; a \<open>nil\<close> peer makes \<open>peeringInfo.OperatorAddress\<close> panic.
\<close>

fun mergePeers :: "(string \<times> 'k operator_peer_info) list \<Rightarrow> 'k operator_peer_info option list \<Rightarrow>
    fetch_error + (string \<times> 'k operator_peer_info) list" where
  "mergePeers m [] = Inr m"
| "mergePeers m (None # ps) = Inl NilPeerPanic"
| "mergePeers m (Some p # ps) =
     (case gm_get m (opi_OperatorAddress p) of
        None \<Rightarrow> mergePeers (gm_put m (opi_OperatorAddress p) p) ps
      | Some infos \<Rightarrow>
          mergePeers (gm_put m (opi_OperatorAddress p)
            (infos\<lparr>opi_OperatorSets := opi_OperatorSets infos @ opi_OperatorSets p\<rparr>)) ps)"

fun mergeOperatorSets ::
  "eth_common \<Rightarrow> ('k, 'g2s) chain_contracts \<Rightarrow> string \<Rightarrow> u64 \<Rightarrow> (string \<times> 'k operator_peer_info) list \<Rightarrow> u32 list \<Rightarrow>
     fetch_error + (string \<times> 'k operator_peer_info) list" where
  "mergeOperatorSets eth ch avsAddress blockNumber m [] = Inr m"
| "mergeOperatorSets eth ch avsAddress blockNumber m (opset # opsets) =
     (case getOperatorSetMembersWithPeering eth ch avsAddress opset blockNumber of
        None \<Rightarrow> Inl FetchFailed
      | Some infos \<Rightarrow>
          (case mergePeers m infos of
             Inl e \<Rightarrow> Inl e
           | Inr m' \<Rightarrow> mergeOperatorSets eth ch avsAddress blockNumber m' opsets))"

definition listExecutorOperators ::
  "eth_common \<Rightarrow> ('k, 'g2s) chain_contracts \<Rightarrow> string \<Rightarrow> u64 \<Rightarrow> fetch_error + 'k operator_peer_info list" where
  "listExecutorOperators eth ch avsAddress blockNumber =
     (case getAVSConfig eth ch avsAddress blockNumber of
        None \<Rightarrow> Inl FetchFailed
      | Some (_, executorOperatorSetIds) \<Rightarrow>
          (case mergeOperatorSets eth ch avsAddress blockNumber [] executorOperatorSetIds of
             Inl e \<Rightarrow> Inl e
           | Inr m \<Rightarrow> Inr (map snd m)))"

definition listAggregatorOperators ::
  "eth_common \<Rightarrow> ('k, 'g2s) chain_contracts \<Rightarrow> string \<Rightarrow> u64 \<Rightarrow> 'k operator_peer_info option list option" where
  "listAggregatorOperators eth ch avsAddress blockNumber =
     (case getAVSConfig eth ch avsAddress blockNumber of
        None \<Rightarrow> None
      | Some (aggregatorOperatorSetId, _) \<Rightarrow>
          getOperatorSetMembersWithPeering eth ch avsAddress aggregatorOperatorSetId blockNumber)"

section \<open>What the merge gives\<close>

definition peerSets :: "(string \<times> 'k operator_peer_info) list \<Rightarrow> string \<Rightarrow> 'k operator_set list" where
  "peerSets m a = (case gm_get m a of None \<Rightarrow> [] | Some p \<Rightarrow> opi_OperatorSets p)"

definition peers_ok :: "(string \<times> 'k operator_peer_info) list \<Rightarrow> bool" where
  "peers_ok m \<longleftrightarrow> gm_wf m \<and> (\<forall>a p. gm_get m a = Some p \<longrightarrow> opi_OperatorAddress p = a)"

lemma peers_ok_Nil [simp]: "peers_ok []"
  by (simp add: peers_ok_def)

lemma peers_ok_put: "peers_ok m \<Longrightarrow> opi_OperatorAddress p = a \<Longrightarrow> peers_ok (gm_put m a p)"
  by (simp add: peers_ok_def)

lemma peers_ok_get: "peers_ok m \<Longrightarrow> gm_get m a = Some p \<Longrightarrow> opi_OperatorAddress p = a"
  by (simp add: peers_ok_def)

lemma mergePeers_ok: "mergePeers m ps = Inr m' \<Longrightarrow> peers_ok m \<Longrightarrow> peers_ok m'"
proof (induction m ps rule: mergePeers.induct)
  case (3 m p ps)
  show ?case
  proof (cases "gm_get m (opi_OperatorAddress p)")
    case None
    with 3 show ?thesis by (simp add: peers_ok_put)
  next
    case (Some infos)
    with 3 peers_ok_get [of m _ infos] show ?thesis by (simp add: peers_ok_put)
  qed
qed simp_all

lemma mergePeers_panic: "mergePeers m ps = Inl e \<longleftrightarrow> None \<in> set ps \<and> e = NilPeerPanic"
  by (induction m ps rule: mergePeers.induct) (auto split: option.splits)

lemma mergePeers_sets:
  "mergePeers m ps = Inr m' \<Longrightarrow>
   peerSets m' a = peerSets m a @ concat (map opi_OperatorSets (filter (\<lambda>p. opi_OperatorAddress p = a) (map the ps)))"
  by (induction m ps rule: mergePeers.induct) (auto simp: peerSets_def split: option.splits)

lemma set_map_the: "None \<notin> set ps \<Longrightarrow> set (map the ps) = {p. Some p \<in> set ps}"
  by (induction ps) auto

lemma mergeOperatorSets_ok:
  "mergeOperatorSets eth ch avs bn m ids = Inr m' \<Longrightarrow> peers_ok m \<Longrightarrow> peers_ok m'"
  by (induction eth ch avs bn m ids rule: mergeOperatorSets.induct)
    (auto split: option.splits sum.splits dest: mergePeers_ok)

lemma mergeOperatorSets_sets:
  "mergeOperatorSets eth ch avs bn m ids = Inr m' \<Longrightarrow>
   set (peerSets m' a) = set (peerSets m a) \<union>
     (\<Union>i\<in>set ids. \<Union>p\<in>{p. Some p \<in> set (the (getOperatorSetMembersWithPeering eth ch avs i bn)) \<and> opi_OperatorAddress p = a}.
        set (opi_OperatorSets p))"
proof (induction eth ch avs bn m ids rule: mergeOperatorSets.induct)
  case (2 eth ch avs bn m i ids)
  then obtain ps m1 where ps: "getOperatorSetMembersWithPeering eth ch avs i bn = Some ps"
    and m1: "mergePeers m ps = Inr m1" and m': "mergeOperatorSets eth ch avs bn m1 ids = Inr m'"
    by (auto split: option.splits sum.splits)
  have "None \<notin> set ps" using m1 mergePeers_panic [of m ps] by (metis Inl_Inr_False)
  then have "set (map the ps) = {p. Some p \<in> set ps}" by (rule set_map_the)
  then have "set (peerSets m1 a) = set (peerSets m a) \<union>
      (\<Union>p\<in>{p. Some p \<in> set ps \<and> opi_OperatorAddress p = a}. set (opi_OperatorSets p))"
    using mergePeers_sets [OF m1, of a] by auto
  moreover note "2.IH" [OF ps m1 m']
  ultimately show ?case by (simp only: list.set UN_insert ps option.sel Un_assoc)
qed simp

lemma membersFrom_length [simp]: "length (membersFrom eth ch avs i bn k addrs) = length addrs"
  by (induction addrs arbitrary: k) auto

lemma membersFrom_nth:
  "j < length addrs \<Longrightarrow> membersFrom eth ch avs i bn k addrs ! j =
     map_option (\<lambda>info. \<lparr>opi_OperatorAddress = addrs ! j, opi_OperatorSets = [info\<lparr>os_OperatorIndex := word_of_nat (k + j)\<rparr>]\<rparr>)
       (getOperatorSetDetailsForOperator eth ch (hexToAddress eth (addrs ! j)) avs i bn)"
  by (induction addrs arbitrary: k j) (auto simp: nth_Cons ac_simps split: option.splits nat.splits)

lemma details_setID:
  "getOperatorSetDetailsForOperator eth ch a avs i bn = Some os \<Longrightarrow> os_OperatorSetID os = i"
  by (auto simp: getOperatorSetDetailsForOperator_def Let_def split: option.splits if_splits prod.splits)

lemma listExecutor_distinct:
  assumes "listExecutorOperators eth ch avs bn = Inr peers"
  shows "distinct (map opi_OperatorAddress peers)"
proof -
  from assms obtain ids agg m where "mergeOperatorSets eth ch avs bn [] ids = Inr m" "peers = map snd m"
    by (auto simp: listExecutorOperators_def split: option.splits sum.splits)
  then have "peers_ok m" "peers = map snd m" by (auto intro: mergeOperatorSets_ok)
  moreover have "opi_OperatorAddress p = a" if "(a, p) \<in> set m" for a p
    using that \<open>peers_ok m\<close> by (simp add: peers_ok_def gm_mem_iff)
  ultimately have "map opi_OperatorAddress peers = map fst m" by auto
  moreover have "distinct (map fst m)" using \<open>peers_ok m\<close> by (simp add: peers_ok_def gm_wf_def)
  ultimately show ?thesis by simp
qed

text \<open>A member whose details cannot be read makes listing the executors panic.\<close>

lemma members_nil:
  assumes "getOperatorSetMembers eth ch avs i bn = Some addrs" "addr \<in> set addrs"
    and "getOperatorSetDetailsForOperator eth ch (hexToAddress eth addr) avs i bn = None"
  shows "\<exists>ps. getOperatorSetMembersWithPeering eth ch avs i bn = Some ps \<and> None \<in> set ps"
proof -
  from assms(2) obtain j where j: "j < length addrs" "addrs ! j = addr" by (auto simp: in_set_conv_nth)
  with assms(3) have "membersFrom eth ch avs i bn 0 addrs ! j = None" by (simp add: membersFrom_nth)
  with j have "None \<in> set (membersFrom eth ch avs i bn 0 addrs)" by (metis membersFrom_length nth_mem)
  moreover have "addrs \<noteq> []" using assms(2) by auto
  ultimately show ?thesis
    using assms(1) by (auto simp: getOperatorSetMembersWithPeering_def Let_def)
qed

lemma listExecutor_panic:
  assumes "getAVSConfig eth ch avs bn = Some (agg, i # ids)"
    and "getOperatorSetMembers eth ch avs i bn = Some addrs" "addr \<in> set addrs"
    and "getOperatorSetDetailsForOperator eth ch (hexToAddress eth addr) avs i bn = None"
  shows "listExecutorOperators eth ch avs bn = Inl NilPeerPanic"
proof -
  from members_nil [OF assms(2-)] obtain ps where
    "getOperatorSetMembersWithPeering eth ch avs i bn = Some ps" "None \<in> set ps" by blast
  moreover from this have "mergePeers [] ps = Inl NilPeerPanic" by (simp add: mergePeers_panic)
  ultimately show ?thesis using assms(1) by (simp add: listExecutorOperators_def)
qed

end
