(* ===== verification/Operator_Manager.thy ===== *)
theory Operator_Manager
  imports Peering
begin

text \<open>
  \<open>ponos/pkg/operatorManager/operatorManager.go\<close>: which operators take part in a task and with
  which stake weights. The contract callers of the configured chains are a map from chain id to
  the calls the manager makes, with their answers; the peering data fetcher is a parameter.
\<close>

section \<open>Configuration, contract calls and results\<close>

record om_config =
  omc_AvsAddress :: string
  omc_ChainIds :: "chain_id list"
  omc_L1ChainId :: chain_id

record bn254_operator_info =
  boi_PubkeyX :: int
  boi_PubkeyY :: int
  boi_Weights :: "int list"

record operator_table_data =
  otd_OperatorWeights :: "int list list"
  otd_Operators :: "bytes list"
  otd_LatestReferenceTimestamp :: u32
  otd_LatestReferenceBlockNumber :: u32
  otd_OperatorInfoTreeRoot :: bytes
  otd_OperatorInfos :: "bn254_operator_info list"

record latest_reference =
  lr_Timestamp :: u32
  lr_BlockNumber :: u32

record table_caller =
  tc_GetOperatorSetCurveType :: "string \<Rightarrow> u32 \<Rightarrow> u64 \<Rightarrow> curve_type option"
  tc_GetSupportedChainsForMultichain :: "u64 \<Rightarrow> (nat list \<times> bytes list) option"
  tc_GetTableUpdaterReferenceTimeAndBlock :: "bytes \<Rightarrow> u64 \<Rightarrow> latest_reference option"
  tc_GetOperatorTableData :: "bytes \<Rightarrow> u32 \<Rightarrow> chain_id \<Rightarrow> u64 \<Rightarrow> operator_table_data option"
  tc_GetOperatorInfos :: "bytes \<Rightarrow> u32 \<Rightarrow> u64 \<Rightarrow> bn254_operator_info list option"
  tc_GetOperatorInfoTreeRoot :: "bytes \<Rightarrow> u32 \<Rightarrow> u64 \<Rightarrow> u32 \<Rightarrow> bytes option"

record 'k operator_manager =
  om_config :: om_config
  om_contractCallers :: "(chain_id \<times> table_caller) list"
  om_listExecutorOperators :: "string \<Rightarrow> u64 \<Rightarrow> 'k operator_peer_info list option"

record 'k peer_weight =
  pw_ChainId :: chain_id
  pw_OperatorSetId :: u32
  pw_RootReferenceTimestamp :: u32
  pw_Weights :: "(string \<times> int list) list"
  pw_Operators :: "'k operator_peer_info list"
  pw_CurveType :: curve_type
  pw_OperatorInfoTreeRoot :: bytes
  pw_OperatorInfos :: "bn254_operator_info list"

datatype om_error = NoContractCaller chain_id | SupportedChainsFailed | NoTableUpdater chain_id
  | ReferenceTimeFailed | CurveTypeFailed | TableDataFailed | OperatorInfosFailed | TreeRootFailed
  | ListExecutorsFailed | IndexOutOfRange

definition newOperatorManager ::
  "om_config \<Rightarrow> (chain_id \<times> table_caller) list \<Rightarrow> (string \<Rightarrow> u64 \<Rightarrow> 'k operator_peer_info list option) \<Rightarrow> 'k operator_manager" where
  "newOperatorManager cfg ccs pdf =
     \<lparr>om_config = cfg, om_contractCallers = ccs, om_listExecutorOperators = pdf\<rparr>"

section \<open>Helpers\<close>

definition getContractCallerForChainId :: "'k operator_manager \<Rightarrow> chain_id \<Rightarrow> om_error + table_caller" where
  "getContractCallerForChainId om chainId =
     (case gm_get (om_contractCallers om) chainId of None \<Rightarrow> Inl (NoContractCaller chainId) | Some cc \<Rightarrow> Inr cc)"

definition getCurveTypeForOperatorSet ::
  "'k operator_manager \<Rightarrow> string \<Rightarrow> u32 \<Rightarrow> u64 \<Rightarrow> om_error + curve_type" where
  "getCurveTypeForOperatorSet om avsAddress operatorSetId blockNumber =
     (case getContractCallerForChainId om (omc_L1ChainId (om_config om)) of
        Inl e \<Rightarrow> Inl e
      | Inr l1Cc \<Rightarrow>
          (case tc_GetOperatorSetCurveType l1Cc avsAddress operatorSetId blockNumber of
             None \<Rightarrow> Inl CurveTypeFailed | Some c \<Rightarrow> Inr c))"

text \<open>
  \<open>tableData.OperatorWeights[i]\<close> panics when there are fewer weight rows than operators; a later
  operator with the same string form overwrites an earlier one.
\<close>

fun buildOperatorWeightsFrom ::
  "eth_common \<Rightarrow> (string \<times> int list) list \<Rightarrow> bytes list \<Rightarrow> int list list \<Rightarrow> (string \<times> int list) list option" where
  "buildOperatorWeightsFrom eth m [] ws = Some m"
| "buildOperatorWeightsFrom eth m (op # ops) [] = None"
| "buildOperatorWeightsFrom eth m (op # ops) (w # ws) =
     buildOperatorWeightsFrom eth (gm_put m (addressString eth op) w) ops ws"

definition buildOperatorWeights :: "eth_common \<Rightarrow> operator_table_data \<Rightarrow> (string \<times> int list) list option" where
  "buildOperatorWeights eth tableData =
     buildOperatorWeightsFrom eth [] (otd_Operators tableData) (otd_OperatorWeights tableData)"

definition filterOperatorsForSet ::
  "'k operator_peer_info list \<Rightarrow> (string \<times> int list) list \<Rightarrow> u32 \<Rightarrow> 'k operator_peer_info list" where
  "filterOperatorsForSet operators operatorWeights operatorSetId =
     utilFilter operators (\<lambda>op. list_ex (\<lambda>(opAddr, _).
       equalFold opAddr (opi_OperatorAddress op) \<and> includesOperatorSetId op operatorSetId) operatorWeights)"

definition decorateOperatorTableRoot ::
  "'k operator_manager \<Rightarrow> operator_table_data \<Rightarrow> chain_id \<Rightarrow> u64 \<Rightarrow> bytes \<Rightarrow> u32 \<Rightarrow> latest_reference \<Rightarrow>
     om_error + operator_table_data" where
  "decorateOperatorTableRoot om tableData taskChainId taskBlockNumber avsAddress operatorSetId referenceBlock =
     (case getContractCallerForChainId om taskChainId of
        Inl e \<Rightarrow> Inl e
      | Inr taskCc \<Rightarrow>
      (case (if taskChainId \<noteq> omc_L1ChainId (om_config om)
             then getContractCallerForChainId om (omc_L1ChainId (om_config om)) else Inr taskCc) of
        Inl e \<Rightarrow> Inl e
      | Inr calculatorCc \<Rightarrow>
      (case tc_GetOperatorInfos calculatorCc avsAddress operatorSetId (unat (lr_BlockNumber referenceBlock)) of
        None \<Rightarrow> Inl OperatorInfosFailed
      | Some operatorInfos \<Rightarrow>
      (case tc_GetOperatorInfoTreeRoot taskCc avsAddress operatorSetId taskBlockNumber (lr_Timestamp referenceBlock) of
        None \<Rightarrow> Inl TreeRootFailed
      | Some root \<Rightarrow>
          Inr (tableData\<lparr>otd_OperatorInfos := operatorInfos, otd_OperatorInfoTreeRoot := root,
                 otd_LatestReferenceTimestamp := lr_Timestamp referenceBlock,
                 otd_LatestReferenceBlockNumber := lr_BlockNumber referenceBlock\<rparr>)))))"

text \<open>
  The table updater of a chain: the loop stops at the first chain id that matches; in the other
  caller a zero address does not stop it. Reading past the addresses panics.
\<close>

definition zeroAddress :: bytes where
  "zeroAddress = replicate 20 0"

fun firstTableUpdater :: "chain_id \<Rightarrow> nat list \<Rightarrow> bytes list \<Rightarrow> bytes option" where
  "firstTableUpdater chainId [] addrs = Some zeroAddress"
| "firstTableUpdater chainId (c # cs) addrs =
     (if c mod 2 ^ 64 = chainId then (case addrs of [] \<Rightarrow> None | a # _ \<Rightarrow> Some a)
      else firstTableUpdater chainId cs (tl addrs))"

fun nonzeroTableUpdater :: "chain_id \<Rightarrow> bytes \<Rightarrow> nat list \<Rightarrow> bytes list \<Rightarrow> bytes option" where
  "nonzeroTableUpdater chainId acc [] addrs = Some acc"
| "nonzeroTableUpdater chainId acc (c # cs) [] = None"
| "nonzeroTableUpdater chainId acc (c # cs) (a # addrs) =
     nonzeroTableUpdater chainId (if acc = zeroAddress \<and> c mod 2 ^ 64 = chainId then a else acc) cs addrs"

section \<open>Operators and weights of a task\<close>

definition fetchOperatorTableData ::
  "eth_common \<Rightarrow> 'k operator_manager \<Rightarrow> bytes \<Rightarrow> u32 \<Rightarrow> chain_id \<Rightarrow> curve_type \<Rightarrow> u64 \<Rightarrow> u64 \<Rightarrow> om_error + operator_table_data" where
  "fetchOperatorTableData eth om avsAddress operatorSetId taskChainId curveType l1BlockNumber taskBlockNumber =
     (case getContractCallerForChainId om (omc_L1ChainId (om_config om)) of
        Inl e \<Rightarrow> Inl e
      | Inr l1Cc \<Rightarrow>
      (case tc_GetOperatorTableData l1Cc (hexToAddress eth (omc_AvsAddress (om_config om))) operatorSetId
              (omc_L1ChainId (om_config om)) l1BlockNumber of
        None \<Rightarrow> Inl TableDataFailed
      | Some tableData \<Rightarrow>
      if curveType \<noteq> CurveTypeBN254 then Inr tableData
      else (case tc_GetSupportedChainsForMultichain l1Cc l1BlockNumber of
        None \<Rightarrow> Inl SupportedChainsFailed
      | Some (chainIds, addrs) \<Rightarrow>
      (case nonzeroTableUpdater taskChainId zeroAddress chainIds addrs of
        None \<Rightarrow> Inl IndexOutOfRange
      | Some tableUpdaterAddr \<Rightarrow>
      if tableUpdaterAddr = zeroAddress then Inl (NoTableUpdater taskChainId)
      else (case getContractCallerForChainId om taskChainId of
        Inl e \<Rightarrow> Inl e
      | Inr taskCc \<Rightarrow>
      (case tc_GetTableUpdaterReferenceTimeAndBlock taskCc tableUpdaterAddr taskBlockNumber of
        None \<Rightarrow> Inl ReferenceTimeFailed
      | Some ref \<Rightarrow>
          decorateOperatorTableRoot om tableData taskChainId taskBlockNumber avsAddress operatorSetId ref))))))"

definition getExecutorPeersAndWeightsForTask ::
  "eth_common \<Rightarrow> 'k operator_manager \<Rightarrow> task \<Rightarrow> curve_type \<Rightarrow> om_error + 'k peer_weight" where
  "getExecutorPeersAndWeightsForTask eth om task curveType =
     (let l1Block = task_L1ReferenceBlockNumber task in
      case fetchOperatorTableData eth om (hexToAddress eth (task_AVSAddress task)) (task_OperatorSetId task)
             (task_ChainId task) curveType l1Block (task_SourceBlockNumber task) of
        Inl e \<Rightarrow> Inl e
      | Inr tableData \<Rightarrow>
      (case buildOperatorWeights eth tableData of
        None \<Rightarrow> Inl IndexOutOfRange
      | Some operatorWeights \<Rightarrow>
      (case om_listExecutorOperators om (omc_AvsAddress (om_config om)) l1Block of
        None \<Rightarrow> Inl ListExecutorsFailed
      | Some operators \<Rightarrow>
          Inr \<lparr>pw_ChainId = task_ChainId task, pw_OperatorSetId = task_OperatorSetId task,
               pw_RootReferenceTimestamp = task_ReferenceTimestamp task,
               pw_Weights = operatorWeights,
               pw_Operators = filterOperatorsForSet operators operatorWeights (task_OperatorSetId task),
               pw_CurveType = curveType,
               pw_OperatorInfoTreeRoot = otd_OperatorInfoTreeRoot tableData,
               pw_OperatorInfos = otd_OperatorInfos tableData\<rparr>)))"

definition getExecutorPeersAndWeightsForBlock ::
  "eth_common \<Rightarrow> 'k operator_manager \<Rightarrow> chain_id \<Rightarrow> u64 \<Rightarrow> u32 \<Rightarrow> om_error + 'k peer_weight" where
  "getExecutorPeersAndWeightsForBlock eth om chainId taskBlockNumber operatorSetId =
     (let l1 = omc_L1ChainId (om_config om); avs = omc_AvsAddress (om_config om);
          isL1Task = (chainId = l1) in
      case getContractCallerForChainId om l1 of
        Inl e \<Rightarrow> Inl e
      | Inr l1Cc \<Rightarrow>
      (case (if isL1Task then Inr l1Cc else getContractCallerForChainId om chainId) of
        Inl e \<Rightarrow> Inl e
      | Inr targetCc \<Rightarrow>
      (case tc_GetSupportedChainsForMultichain l1Cc 0 of
        None \<Rightarrow> Inl SupportedChainsFailed
      | Some (destChainIds, addrs) \<Rightarrow>
      (case firstTableUpdater chainId destChainIds addrs of
        None \<Rightarrow> Inl IndexOutOfRange
      | Some updater \<Rightarrow>
      if updater = zeroAddress then Inl (NoTableUpdater chainId)
      else (case tc_GetTableUpdaterReferenceTimeAndBlock targetCc updater taskBlockNumber of
        None \<Rightarrow> Inl ReferenceTimeFailed
      | Some ref \<Rightarrow>
      (let blockForTableData = (if isL1Task then taskBlockNumber else unat (lr_BlockNumber ref)) in
      (case tc_GetOperatorSetCurveType l1Cc avs operatorSetId blockForTableData of
        None \<Rightarrow> Inl CurveTypeFailed
      | Some curveType \<Rightarrow>
      (case tc_GetOperatorTableData l1Cc (hexToAddress eth avs) operatorSetId l1 blockForTableData of
        None \<Rightarrow> Inl TableDataFailed
      | Some tableData0 \<Rightarrow>
      (case (if curveType = CurveTypeBN254
             then decorateOperatorTableRoot om tableData0 chainId taskBlockNumber (hexToAddress eth avs) operatorSetId ref
             else Inr tableData0) of
        Inl e \<Rightarrow> Inl e
      | Inr tableData \<Rightarrow>
      (case buildOperatorWeights eth tableData of
        None \<Rightarrow> Inl IndexOutOfRange
      | Some operatorWeights \<Rightarrow>
      (case om_listExecutorOperators om avs blockForTableData of
        None \<Rightarrow> Inl ListExecutorsFailed
      | Some operators \<Rightarrow>
          Inr \<lparr>pw_ChainId = chainId, pw_OperatorSetId = operatorSetId,
               pw_RootReferenceTimestamp =
                 (if isL1Task then otd_LatestReferenceTimestamp tableData else lr_Timestamp ref),
               pw_Weights = operatorWeights,
               pw_Operators = filterOperatorsForSet operators operatorWeights operatorSetId,
               pw_CurveType = curveType,
               pw_OperatorInfoTreeRoot = otd_OperatorInfoTreeRoot tableData,
               pw_OperatorInfos = otd_OperatorInfos tableData\<rparr>)))))))))))"

section \<open>Selected operators belong to the set and have a weight\<close>

lemma filterOperators_mem:
  "op \<in> set (filterOperatorsForSet ops ws i) \<longleftrightarrow> op \<in> set ops \<and> includesOperatorSetId op i \<and>
    (\<exists>a\<in>fst ` set ws. equalFold a (opi_OperatorAddress op))"
  by (auto simp: filterOperatorsForSet_def go_simps list_ex_iff) force

lemma filterOperators_distinct:
  "distinct (map opi_OperatorAddress ops) \<Longrightarrow> distinct (map opi_OperatorAddress (filterOperatorsForSet ops ws i))"
  by (simp add: filterOperatorsForSet_def go_simps distinct_map_filter)

lemma buildWeights_wf: "gm_wf m \<Longrightarrow> buildOperatorWeightsFrom eth m ops ws = Some m' \<Longrightarrow> gm_wf m'"
  by (induction eth m ops ws rule: buildOperatorWeightsFrom.induct) auto

lemma buildWeights_keys:
  "buildOperatorWeightsFrom eth m ops ws = Some m' \<Longrightarrow> dom (gm_get m') = dom (gm_get m) \<union> addressString eth ` set ops"
  by (induction eth m ops ws rule: buildOperatorWeightsFrom.induct) auto

lemma buildWeights_total: "(\<exists>m'. buildOperatorWeightsFrom eth m ops ws = Some m') \<longleftrightarrow> length ops \<le> length ws"
  by (induction eth m ops ws rule: buildOperatorWeightsFrom.induct) auto

lemma buildWeights_keep:
  "buildOperatorWeightsFrom eth m ops ws = Some m' \<Longrightarrow> a \<notin> addressString eth ` set ops \<Longrightarrow> gm_get m' a = gm_get m a"
  by (induction eth m ops ws rule: buildOperatorWeightsFrom.induct) auto

lemma buildWeights_lookup:
  assumes "buildOperatorWeightsFrom eth m ops ws = Some m'" "inj_on (addressString eth) (set ops)"
    and "distinct ops" "i < length ops"
  shows "gm_get m' (addressString eth (ops ! i)) = Some (ws ! i)"
  using assms
proof (induction eth m ops ws arbitrary: i rule: buildOperatorWeightsFrom.induct)
  case (3 eth m op ops w ws)
  show ?case
  proof (cases i)
    case 0
    have "addressString eth op \<notin> addressString eth ` set ops"
      using "3.prems"(2,3) by auto
    with 0 "3.prems"(1) show ?thesis by (auto simp: buildWeights_keep)
  next
    case (Suc j)
    with 3 show ?thesis by auto
  qed
qed auto

lemma peersForTask_cases:
  assumes "getExecutorPeersAndWeightsForTask eth om task ct = Inr pw"
  obtains td ws ops where
    "fetchOperatorTableData eth om (hexToAddress eth (task_AVSAddress task)) (task_OperatorSetId task)
       (task_ChainId task) ct (task_L1ReferenceBlockNumber task) (task_SourceBlockNumber task) = Inr td"
    "buildOperatorWeights eth td = Some ws"
    "om_listExecutorOperators om (omc_AvsAddress (om_config om)) (task_L1ReferenceBlockNumber task) = Some ops"
    "pw_Weights pw = ws" "pw_Operators pw = filterOperatorsForSet ops ws (task_OperatorSetId task)"
    "pw_CurveType pw = ct" "pw_OperatorSetId pw = task_OperatorSetId task"
    "pw_RootReferenceTimestamp pw = task_ReferenceTimestamp task"
  using assms unfolding getExecutorPeersAndWeightsForTask_def Let_def
  by (auto split: sum.splits option.splits)

end
