(* ===== verification/Task_Session.thy ===== *)
theory Task_Session
  imports Aggregation_BN254 Aggregation_ECDSA Operator_Manager
begin

text \<open>
  One task from broadcast to certificate, \<open>ponos/pkg/taskSession/taskSession.go\<close>: building the
  operators of the aggregator, sending the task to every peer, filtering the answers, and the loop
  that feeds them to the result aggregator until the signing threshold is met. The loop works on
  the interface \<open>ITaskResultAggregator\<close>; its properties are proved once in the locale of that
  interface. Channels are sequences of events, in the order in which \<open>select\<close> picks them.
\<close>

section \<open>Sessions\<close>

datatype session_error = NoOperatorSet string | AggregatorFailed agg_error | CertificateFailed agg_error
  | SessionContextDone

record ('k, 'st) task_session =
  ts_Task :: task
  ts_operatorPeersWeight :: "'k peer_weight"
  ts_taskAggregator :: 'st
  ts_aggregatorAddress :: string
  ts_tlsEnabled :: bool

fun sessionOperators ::
  "('k operator_set \<Rightarrow> 'key) \<Rightarrow> u32 \<Rightarrow> (string \<times> int list) list \<Rightarrow> 'k operator_peer_info list \<Rightarrow>
     session_error + 'key operator list" where
  "sessionOperators key operatorSetId weights [] = Inr []"
| "sessionOperators key operatorSetId weights (peer # peers) =
     (case getOperatorSet peer operatorSetId of
        None \<Rightarrow> Inl (NoOperatorSet (opi_OperatorAddress peer))
      | Some opset \<Rightarrow>
          (case sessionOperators key operatorSetId weights peers of
             Inl e \<Rightarrow> Inl e
           | Inr ops \<Rightarrow> Inr (\<lparr>op_Address = opi_OperatorAddress peer, op_PublicKey = key opset,
                 op_OperatorIndex = os_OperatorIndex opset,
                 op_Weights = (case gm_get weights (opi_OperatorAddress peer) of None \<Rightarrow> [] | Some w \<Rightarrow> w)\<rparr> # ops)))"

definition newBN254TaskSession ::
  "('pub, 'sig, 'g2, 'k) bn254_lib \<Rightarrow> task \<Rightarrow> string \<Rightarrow> 'k peer_weight \<Rightarrow> bool \<Rightarrow>
     session_error + ('k, ('pub, 'sig, 'k) bn254_aggregator) task_session" where
  "newBN254TaskSession lib task aggregatorAddress pw tlsEnabled =
     (case sessionOperators (\<lambda>os. wpk_PublicKey (os_WrappedPublicKey os)) (task_OperatorSetId task)
             (pw_Weights pw) (pw_Operators pw) of
        Inl e \<Rightarrow> Inl e
      | Inr operators \<Rightarrow>
          (case newBN254TaskResultAggregator lib (task_TaskId task) (task_ReferenceTimestamp task)
                  (task_OperatorSetId task) (task_ThresholdBips task) (task_Payload task)
                  (task_DeadlineUnixSeconds task) operators of
             Inl e \<Rightarrow> Inl (AggregatorFailed e)
           | Inr ta \<Rightarrow> Inr \<lparr>ts_Task = task, ts_operatorPeersWeight = pw, ts_taskAggregator = ta,
                ts_aggregatorAddress = aggregatorAddress, ts_tlsEnabled = tlsEnabled\<rparr>))"

definition newECDSATaskSession ::
  "task \<Rightarrow> string \<Rightarrow> 'k peer_weight \<Rightarrow> bool \<Rightarrow> session_error + ('k, 'sig ecdsa_aggregator) task_session" where
  "newECDSATaskSession task aggregatorAddress pw tlsEnabled =
     (case sessionOperators (\<lambda>os. wpk_ECDSAAddress (os_WrappedPublicKey os)) (task_OperatorSetId task)
             (pw_Weights pw) (pw_Operators pw) of
        Inl e \<Rightarrow> Inl e
      | Inr operators \<Rightarrow>
          (case newECDSATaskResultAggregator (task_TaskId task) (task_ReferenceTimestamp task)
                  (task_OperatorSetId task) (task_ThresholdBips task) (task_Payload task)
                  (task_DeadlineUnixSeconds task) operators of
             Inl e \<Rightarrow> Inl (AggregatorFailed e)
           | Inr ta \<Rightarrow> Inr \<lparr>ts_Task = task, ts_operatorPeersWeight = pw, ts_taskAggregator = ta,
                ts_aggregatorAddress = aggregatorAddress, ts_tlsEnabled = tlsEnabled\<rparr>))"

section \<open>Sending the task to a peer\<close>

record task_submission =
  sub_TaskId :: string
  sub_AggregatorAddress :: string
  sub_AvsAddress :: string
  sub_Payload :: bytes
  sub_Signature :: bytes
  sub_OperatorSetId :: u32
  sub_ReferenceTimestamp :: u32
  sub_ExecutorAddress :: string
  sub_TaskBlockNumber :: u64
  sub_Version :: u32

text \<open>The executor clients and their answers, and the aggregator's signer.\<close>

record executor_net =
  en_NewExecutorClient :: "string \<Rightarrow> bool \<Rightarrow> bool"
  en_SubmitTask :: "string \<Rightarrow> task_submission \<Rightarrow> task_result_proto option"
  en_SignMessage :: "bytes \<Rightarrow> bytes option"

definition maximumTaskResponseSize :: nat where
  "maximumTaskResponseSize = 3 * 1024 * 1024 div 2"

definition generateSignatureForExecutor :: "eth_common \<Rightarrow> executor_net \<Rightarrow> task \<Rightarrow> string \<Rightarrow> bytes option" where
  "generateSignatureForExecutor eth net task executorAddress =
     (case encodeTaskSubmissionMessageVersioned eth (task_TaskId task) (task_AVSAddress task) executorAddress
             (task_ReferenceTimestamp task) (task_L1ReferenceBlockNumber task) (task_OperatorSetId task)
             (task_Payload task) (task_Version task) of
        None \<Rightarrow> None
      | Some encodedMessage \<Rightarrow> en_SignMessage net encodedMessage)"

definition submissionFor :: "('k, 'st) task_session \<Rightarrow> bytes \<Rightarrow> 'k operator_peer_info \<Rightarrow> task_submission" where
  "submissionFor ts signature peer =
     (let task = ts_Task ts
      in \<lparr>sub_TaskId = task_TaskId task, sub_AggregatorAddress = ts_aggregatorAddress ts,
          sub_AvsAddress = task_AVSAddress task, sub_Payload = task_Payload task,
          sub_Signature = signature, sub_OperatorSetId = task_OperatorSetId task,
          sub_ReferenceTimestamp = task_ReferenceTimestamp task,
          sub_ExecutorAddress = opi_OperatorAddress peer,
          sub_TaskBlockNumber = task_L1ReferenceBlockNumber task, sub_Version = task_Version task\<rparr>)"

text \<open>The goroutine of one peer: what it puts on the results channel, if anything.\<close>

definition submitToPeer ::
  "eth_common \<Rightarrow> executor_net \<Rightarrow> ('k, 'st) task_session \<Rightarrow> 'k operator_peer_info \<Rightarrow> task_result option" where
  "submitToPeer eth net ts peer =
     (let task = ts_Task ts in
      case getSocketForOperatorSet peer (task_OperatorSetId task) of
        None \<Rightarrow> None
      | Some socket \<Rightarrow>
      if \<not> en_NewExecutorClient net socket (ts_tlsEnabled ts) then None
      else (case generateSignatureForExecutor eth net task (opi_OperatorAddress peer) of
        None \<Rightarrow> None
      | Some signature \<Rightarrow>
      (case en_SubmitTask net socket (submissionFor ts signature peer) of
        None \<Rightarrow> None
      | Some res \<Rightarrow>
      if \<not> equalFold (trp_OperatorAddress res) (opi_OperatorAddress peer) then None
      else (let tr = taskResultFromTaskResultProto res
            in if length (tr_Output tr) \<ge> maximumTaskResponseSize then None else Some tr))))"

section \<open>Collecting the results\<close>

datatype session_event = ResultReceived task_result | ContextDone

text \<open>
  The \<open>for/select\<close> loop of \<open>Broadcast\<close> on the events it selects. \<open>None\<close> means that the loop still
  waits after these events.
\<close>

fun broadcastLoop ::
  "('st, 'cert) aggregator_ops \<Rightarrow> string \<Rightarrow> session_event list \<Rightarrow> 'st \<Rightarrow> (session_error + 'cert) option \<times> 'st" where
  "broadcastLoop ops taskId [] st = (None, st)"
| "broadcastLoop ops taskId (ContextDone # events) st = (Some (Inl SessionContextDone), st)"
| "broadcastLoop ops taskId (ResultReceived tr # events) st =
     (if taskId \<noteq> tr_TaskId tr then broadcastLoop ops taskId events st
      else (case aProcessNewSignature ops st tr of
        (Some e, st') \<Rightarrow> broadcastLoop ops taskId events st'
      | (None, st') \<Rightarrow>
          if \<not> aSigningThresholdMet ops st' then broadcastLoop ops taskId events st'
          else (case aGenerateFinalCertificate ops st' of
                  (Inl e, st'') \<Rightarrow> (Some (Inl (CertificateFailed e)), st'')
                | (Inr cert, st'') \<Rightarrow> (Some (Inr cert), st''))))"

text \<open>
  \<open>Process\<close> waits for the certificate channel or the end of its context. The error channel is
  written and never read. The list holds the outcomes \<open>select\<close> may pick; it is empty while
  \<open>Process\<close> blocks.
\<close>

datatype ctx_error = DeadlineExceeded | Canceled

definition sessionProcess ::
  "(session_error + 'cert) option \<Rightarrow> ctx_error option \<Rightarrow> (ctx_error + 'cert) list" where
  "sessionProcess broadcastResult ctxErr =
     (case broadcastResult of Some (Inr cert) \<Rightarrow> [Inr cert] | _ \<Rightarrow> []) @
     (case ctxErr of Some e \<Rightarrow> [Inl e] | None \<Rightarrow> [])"

section \<open>What the loop guarantees for every aggregator\<close>

definition collected :: "session_event list \<Rightarrow> task_result set" where
  "collected events = {tr. ResultReceived tr \<in> set events}"

lemma collected_Cons [simp]: "collected (ResultReceived tr # events) = insert tr (collected events)"
  by (auto simp: collected_def)

context result_aggregator
begin

lemma backed_mono: "backed st trs \<Longrightarrow> trs \<subseteq> trs' \<Longrightarrow> backed st trs'"
  unfolding backed_def by fast

lemma broadcast_sound:
  assumes "invar st" "backed st trs" "oneVoteEach st"
    and "broadcastLoop ops taskId events st = (Some (Inr cert), st')"
  shows "\<exists>st1. invar st1 \<and> backed st1 (trs \<union> collected events) \<and> oneVoteEach st1 \<and> valid st1 = valid st \<and>
    quorum (totalOf st) (bipsOf st) (voteWeight (certDigest cert) (votesOf st1)) \<and>
    aGenerateFinalCertificate ops st1 = (Inr cert, st')"
  using assms
proof (induction events arbitrary: st trs)
  case (Cons e events)
  from Cons.prems(4) obtain tr where e: "e = ResultReceived tr" by (cases e) simp_all
  show ?case
  proof (cases "taskId = tr_TaskId tr")
    case False
    with Cons.prems(4) e have "broadcastLoop ops taskId events st = (Some (Inr cert), st')" by simp
    from Cons.IH [OF Cons.prems(1) backed_mono [OF Cons.prems(2)] Cons.prems(3) this, of "insert tr trs"]
    show ?thesis by (simp add: e subset_insertI)
  next
    case True
    obtain r st2 where p: "aProcessNewSignature ops st tr = (r, st2)" by fastforce
    note step = process_invar [OF Cons.prems(1) p] backed_process [OF Cons.prems(1,2) p]
      oneVoteEach_process [OF Cons.prems(1,3) p] process_static [OF p]
    show ?thesis
    proof (cases "r = None \<and> aSigningThresholdMet ops st2")
      case True
      with Cons.prems(4) e p \<open>taskId = tr_TaskId tr\<close>
      have gen: "aGenerateFinalCertificate ops st2 = (Inr cert, st')" and met: "aSigningThresholdMet ops st2"
        by (auto split: prod.splits sum.splits)
      from generate_quorum [OF step(1) met gen] step gen backed_mono [OF step(2)]
      show ?thesis by (intro exI [of _ st2]) (auto simp: e)
    next
      case False
      with Cons.prems(4) e p \<open>taskId = tr_TaskId tr\<close>
      have "broadcastLoop ops taskId events st2 = (Some (Inr cert), st')"
        by (auto split: option.splits if_splits)
      from Cons.IH [OF step(1-3) this] step(4) show ?thesis by (simp add: e)
    qed
  qed
qed simp

text \<open>
  Progress: when the received results include valid ones for one digest whose weights form a
  quorum, all from different addresses, the loop returns a certificate, whatever else is received.
\<close>

lemma broadcast_progress:
  assumes "invar st" "decodable st" "\<not> aSigningThresholdMet ops st"
    and "\<forall>tr\<in>set trs. good tr \<longrightarrow> valid st tr (w tr) d \<and> tr_TaskId tr = taskId"
    and "distinct (map tr_OperatorAddress trs)" "\<forall>tr\<in>set trs. tr_OperatorAddress tr \<notin> receivedOf st"
    and "quorum (totalOf st) (bipsOf st) (voteWeight d (votesOf st) + (\<Sum>tr\<leftarrow>filter good trs. w tr))"
    and "d \<in> voteDigests (votesOf st) \<or> filter good trs \<noteq> []"
  shows "\<exists>cert st'. broadcastLoop ops taskId (map ResultReceived trs) st = (Some (Inr cert), st')"
  using assms
proof (induction trs arbitrary: st)
  case Nil
  then show ?case using threshold [OF Nil.prems(1)] by auto
next
  case (Cons tr trs)
  show ?case
  proof (cases "taskId = tr_TaskId tr")
    case False
    with Cons.prems have "\<not> good tr" by auto
    with False Cons.prems Cons.IH [of st] show ?thesis by simp
  next
    case True
    obtain r st2 where p: "aProcessNewSignature ops st tr = (r, st2)" by fastforce
    note static = process_static [OF p] and inv2 = process_invar [OF Cons.prems(1) p]
    show ?thesis
    proof (cases r)
      case (Some e)
      note err = process_error [OF Cons.prems(1) p [unfolded Some]]
      have "\<not> good tr"
        using process_complete [OF Cons.prems(1), of tr "w tr" d] Cons.prems(4,6) p Some by fastforce
      moreover have "\<not> aSigningThresholdMet ops st2"
        using Cons.prems(3) threshold [OF Cons.prems(1)] threshold [OF inv2] err static by simp
      moreover have "\<forall>tr'\<in>set trs. tr_OperatorAddress tr' \<notin> receivedOf st2"
        using err Cons.prems(5,6) by (simp add: subset_iff image_iff) metis
      ultimately show ?thesis
        using True p Some Cons.prems static err inv2 Cons.IH [of st2] by simp
    next
      case None
      from process_ok [OF Cons.prems(1) p [unfolded None]] obtain w' d' where ok:
        "valid st tr w' d'" "votesOf st2 = add_mset (tr_OperatorAddress tr, w', d') (votesOf st)"
        "receivedOf st2 = insert (tr_OperatorAddress tr) (receivedOf st)" by blast
      show ?thesis
      proof (cases "aSigningThresholdMet ops st2")
        case met: True
        have "votesOf st2 \<noteq> {#}" "decodable st2" using ok Cons.prems(2) static by simp_all
        from generate_ok [OF inv2 this] met True p None show ?thesis by auto
      next
        case False
        have gain: "(if good tr then w tr else 0) \<le> (if d' = d then w' else 0) \<and> (good tr \<longrightarrow> d' = d)"
          using ok(1) Cons.prems(4) valid_nonneg [OF Cons.prems(1) ok(1)] valid_unique [of st tr w' d' "w tr" d]
          by auto
        then have "quorum (totalOf st2) (bipsOf st2) (voteWeight d (votesOf st2) + (\<Sum>tr\<leftarrow>filter good trs. w tr))"
          using Cons.prems(7) static ok(2) by (auto elim!: quorum_mono split: if_splits)
        moreover have "d \<in> voteDigests (votesOf st2) \<or> filter good trs \<noteq> []"
          using Cons.prems(8) gain ok(2) by (auto simp: voteDigests_def split: if_splits)
        moreover have "\<forall>tr'\<in>set trs. tr_OperatorAddress tr' \<notin> receivedOf st2"
          using ok(3) Cons.prems(5,6) by (simp add: image_iff) metis
        ultimately show ?thesis
          using True p None False Cons.prems(2,4,5) static inv2 Cons.IH [of st2] by simp
      qed
    qed
  qed
qed

end

end
