(* ===== verification/Store_Spec.thy ===== *)
theory Store_Spec
  imports Task_Types
begin

text \<open>
  The contract of the persistence layer (\<open>ponos/pkg/aggregator/storage/storage.go\<close>), stated as
  a locale over an arbitrary implementation of the interface: an implementation is abstracted
  to the finite map of its tasks with their statuses and the map of its blocks by AVS address,
  chain and number. The clients (block contexts, chain poller, execution manager) are verified
  against the locale; \<open>Memory_Store\<close> and \<open>Badger_Store\<close> show that the two implementations of the
  repository satisfy it.
\<close>

section \<open>The task life cycle\<close>

text \<open>The transitions the storage layer accepts; completed and failed tasks are final.\<close>

inductive legal_transition :: "task_status \<Rightarrow> task_status \<Rightarrow> bool" where
  start_processing: "legal_transition TaskStatusPending TaskStatusProcessing"
| fail_pending: "legal_transition TaskStatusPending TaskStatusFailed"
| complete: "legal_transition TaskStatusProcessing TaskStatusCompleted"
| fail_processing: "legal_transition TaskStatusProcessing TaskStatusFailed"

inductive_simps legal_transition_simps [simp]:
  "legal_transition TaskStatusPending st"
  "legal_transition TaskStatusProcessing st"
  "legal_transition TaskStatusCompleted st"
  "legal_transition TaskStatusFailed st"
  "legal_transition (TaskStatusOther s) st"

definition terminal :: "task_status \<Rightarrow> bool" where
  "terminal st \<longleftrightarrow> (\<forall>st'. \<not> legal_transition st st')"

lemma terminal_simps [simp]:
  "terminal TaskStatusCompleted" "terminal TaskStatusFailed" "terminal (TaskStatusOther s)"
  "\<not> terminal TaskStatusPending" "\<not> terminal TaskStatusProcessing"
  by (auto simp: terminal_def)

lemma terminal_closed:
  "legal_transition\<^sup>*\<^sup>* st st' \<Longrightarrow> terminal st \<Longrightarrow> st' = st"
  by (induction rule: converse_rtranclp_induct) (auto simp: terminal_def)

text \<open>A task changes its status at most twice.\<close>

lemma legal_path_length: "(legal_transition ^^ n) st st' \<Longrightarrow> n \<le> 2"
proof (rule ccontr)
  assume path: "(legal_transition ^^ n) st st'" and "\<not> n \<le> 2"
  then obtain m where n: "n = Suc (Suc (Suc m))"
    by (metis Suc_le_eq Suc_1 add_2_eq_Suc less_imp_Suc_add not_le plus_nat.simps(2))
  from path obtain a b c where "legal_transition a b" "legal_transition b c" "legal_transition c st'"
    unfolding n by (auto elim!: relcomppE)
  then show False by (auto elim!: legal_transition.cases)
qed

text \<open>
  A run of status updates, each error ignored (the execution manager only logs them).
\<close>

fun runUpdates ::
  "'s aggregator_store \<Rightarrow> 's \<Rightarrow> (time \<times> string \<times> task_status) list \<Rightarrow> 's" where
  "runUpdates ops s [] = s"
| "runUpdates ops s ((now, tid, st) # us) =
     runUpdates ops (snd (sUpdateTaskStatus ops now s tid st)) us"

section \<open>The contract\<close>

locale task_store =
  fixes ops :: "'s aggregator_store"
    and invar :: "'s \<Rightarrow> bool"
    and is_closed :: "'s \<Rightarrow> bool"
    and tasksOf :: "'s \<Rightarrow> string \<Rightarrow> (task \<times> task_status) option"
    and blocksOf :: "'s \<Rightarrow> string \<times> chain_id \<times> u64 \<Rightarrow> block_record option"
  assumes task_key: "invar s \<Longrightarrow> tasksOf s tid = Some (t, st) \<Longrightarrow> task_TaskId t = tid"
    and block_key: "invar s \<Longrightarrow> blocksOf s (avs, c, n) = Some b \<Longrightarrow> br_ChainId b = c \<and> br_Number b = n"
    and getTask: "invar s \<Longrightarrow> \<not> is_closed s \<Longrightarrow>
      (case tasksOf s tid of None \<Rightarrow> sGetTask ops s tid = Inl ErrNotFound
       | Some (t, st) \<Rightarrow> \<exists>t'. sGetTask ops s tid = Inr t' \<and> task_persist t' = t)"
    and savePending_fresh: "invar s \<Longrightarrow> \<not> is_closed s \<Longrightarrow> task_TaskId t \<noteq> [] \<Longrightarrow> storable t \<Longrightarrow>
      tasksOf s (task_TaskId t) = None \<Longrightarrow>
      \<exists>s'. sSavePendingTask ops now s (Some t) = (None, s') \<and> invar s' \<and> \<not> is_closed s' \<and>
        tasksOf s' = (tasksOf s)(task_TaskId t \<mapsto> (task_persist t, TaskStatusPending)) \<and>
        blocksOf s' = blocksOf s"
    and update_legal: "invar s \<Longrightarrow> \<not> is_closed s \<Longrightarrow> tasksOf s tid = Some (t, st) \<Longrightarrow>
      legal_transition st st' \<Longrightarrow>
      \<exists>s'. sUpdateTaskStatus ops now s tid st' = (None, s') \<and> invar s' \<and> \<not> is_closed s' \<and>
        tasksOf s' = (tasksOf s)(tid \<mapsto> (t, st')) \<and> blocksOf s' = blocksOf s"
    and update_illegal: "invar s \<Longrightarrow> \<not> is_closed s \<Longrightarrow> tasksOf s tid = Some (t, st) \<Longrightarrow>
      \<not> legal_transition st st' \<Longrightarrow> \<exists>e. sUpdateTaskStatus ops now s tid st' = (Some e, s)"
    and update_missing: "invar s \<Longrightarrow> \<not> is_closed s \<Longrightarrow> tasksOf s tid = None \<Longrightarrow>
      sUpdateTaskStatus ops now s tid st' = (Some ErrNotFound, s)"
    and deleteTask: "invar s \<Longrightarrow> \<not> is_closed s \<Longrightarrow> tasksOf s tid \<noteq> None \<Longrightarrow>
      \<exists>s'. sDeleteTask ops s tid = (None, s') \<and> invar s' \<and> \<not> is_closed s' \<and>
        tasksOf s' = (tasksOf s)(tid := None) \<and> blocksOf s' = blocksOf s"
    and deleteTask_missing: "invar s \<Longrightarrow> \<not> is_closed s \<Longrightarrow> tasksOf s tid = None \<Longrightarrow>
      sDeleteTask ops s tid = (Some ErrNotFound, s)"
    and listPending: "invar s \<Longrightarrow> \<not> is_closed s \<Longrightarrow>
      \<exists>ts. sListPendingTasks ops s = Inr ts \<and> distinct (map task_TaskId ts) \<and>
        task_persist ` set ts = {t. \<exists>tid. tasksOf s tid = Some (t, TaskStatusPending)}"
    and listPendingForAVS: "invar s \<Longrightarrow> \<not> is_closed s \<Longrightarrow>
      \<exists>ts. sListPendingTasksForAVS ops s avs = Inr ts \<and> distinct (map task_TaskId ts) \<and>
        task_persist ` set ts =
          {t. (\<exists>tid. tasksOf s tid = Some (t, TaskStatusPending)) \<and> equalFold (task_AVSAddress t) avs}"
    and getBlock: "invar s \<Longrightarrow> \<not> is_closed s \<Longrightarrow>
      sGetBlock ops s avs c n =
        (case blocksOf s (avs, c, n) of None \<Rightarrow> Inl ErrNotFound | Some b \<Rightarrow> Inr b)"
    and saveBlock: "invar s \<Longrightarrow> \<not> is_closed s \<Longrightarrow>
      \<exists>s'. sSaveBlock ops s avs (Some b) = (None, s') \<and> invar s' \<and> \<not> is_closed s' \<and>
        tasksOf s' = tasksOf s \<and>
        blocksOf s' = (blocksOf s)((avs, br_ChainId b, br_Number b) \<mapsto> b)"
    and deleteBlock: "invar s \<Longrightarrow> \<not> is_closed s \<Longrightarrow> blocksOf s (avs, c, n) \<noteq> None \<Longrightarrow>
      \<exists>s'. sDeleteBlock ops s avs c n = (None, s') \<and> invar s' \<and> \<not> is_closed s' \<and>
        tasksOf s' = tasksOf s \<and> blocksOf s' = (blocksOf s)((avs, c, n) := None)"
    and deleteBlock_missing: "invar s \<Longrightarrow> \<not> is_closed s \<Longrightarrow> blocksOf s (avs, c, n) = None \<Longrightarrow>
      sDeleteBlock ops s avs c n = (Some ErrNotFound, s)"
    and closed_errors: "invar s \<Longrightarrow> is_closed s \<Longrightarrow>
      sGetTask ops s tid = Inl ErrStoreClosed \<and> sListPendingTasks ops s = Inl ErrStoreClosed \<and>
      sListPendingTasksForAVS ops s avs = Inl ErrStoreClosed \<and>
      sSavePendingTask ops now s topt = (Some ErrStoreClosed, s) \<and>
      sUpdateTaskStatus ops now s tid st = (Some ErrStoreClosed, s) \<and>
      sDeleteTask ops s tid = (Some ErrStoreClosed, s) \<and>
      sGetBlock ops s avs c n = Inl ErrStoreClosed \<and>
      sSaveBlock ops s avs bopt = (Some ErrStoreClosed, s) \<and>
      sDeleteBlock ops s avs c n = (Some ErrStoreClosed, s) \<and>
      sGetLastProcessedBlock ops s avs c = Inl ErrStoreClosed"
    and close_closes: "invar s \<Longrightarrow> \<not> is_closed s \<Longrightarrow>
      \<exists>s'. sClose ops s = (None, s') \<and> invar s' \<and> is_closed s'"
    and savePending_keeps: "invar s \<Longrightarrow> \<not> is_closed s \<Longrightarrow> tasksOf s (task_TaskId t) = None \<Longrightarrow>
      sSavePendingTask ops now s (Some t) = (e, s') \<Longrightarrow> invar s' \<and> \<not> is_closed s' \<and> blocksOf s' = blocksOf s \<and>
        (s' = s \<or> tasksOf s' = (tasksOf s)(task_TaskId t \<mapsto> (task_persist t, TaskStatusPending)))"
begin

lemma update_cases:
  assumes "invar s" "\<not> is_closed s" "sUpdateTaskStatus ops now s tid st' = (e, s')"
  obtains (legal) t st where "tasksOf s tid = Some (t, st)" "legal_transition st st'"
      "e = None" "invar s'" "\<not> is_closed s'" "tasksOf s' = (tasksOf s)(tid \<mapsto> (t, st'))"
      "blocksOf s' = blocksOf s"
  | (rejected) "e \<noteq> None" "s' = s"
proof (cases "tasksOf s tid")
  case None
  with assms update_missing [of s tid now st'] show ?thesis by (auto intro: rejected)
next
  case (Some p)
  obtain t st where p: "p = (t, st)" by (cases p)
  show ?thesis
  proof (cases "legal_transition st st'")
    case True
    with assms Some p update_legal [of s tid t st st' now] show ?thesis by (auto intro: legal)
  next
    case False
    with assms Some p update_illegal [of s tid t st st' now] show ?thesis by (auto intro: rejected)
  qed
qed

lemma update_keeps:
  assumes "invar s" "\<not> is_closed s"
  shows "invar (snd (sUpdateTaskStatus ops now s tid st)) \<and>
    \<not> is_closed (snd (sUpdateTaskStatus ops now s tid st)) \<and>
    blocksOf (snd (sUpdateTaskStatus ops now s tid st)) = blocksOf s \<and>
    dom (tasksOf (snd (sUpdateTaskStatus ops now s tid st))) = dom (tasksOf s)"
proof -
  obtain e s' where "sUpdateTaskStatus ops now s tid st = (e, s')" by fastforce
  then show ?thesis using assms by (cases rule: update_cases [OF assms]) (auto split: if_splits)
qed

text \<open>
  The life cycle: whatever updates are issued, every task's status moves along legal
  transitions only, no task appears or disappears and no block changes.
\<close>

lemma runUpdates_lifecycle:
  assumes "invar s" "\<not> is_closed s"
  shows "invar (runUpdates ops s us) \<and> \<not> is_closed (runUpdates ops s us) \<and>
    blocksOf (runUpdates ops s us) = blocksOf s \<and>
    rel_option (\<lambda>p q. fst q = fst p \<and> legal_transition\<^sup>*\<^sup>* (snd p) (snd q))
      (tasksOf s tid) (tasksOf (runUpdates ops s us) tid)"
  using assms
proof (induction us arbitrary: s)
  case Nil
  show ?case by (auto simp: Nil option.rel_refl)
next
  case (Cons u us)
  obtain now i st where u: "u = (now, i, st)" by (cases u)
  define s1 where "s1 = snd (sUpdateTaskStatus ops now s i st)"
  have keep: "invar s1" "\<not> is_closed s1" "blocksOf s1 = blocksOf s"
    using update_keeps [OF Cons.prems] by (auto simp: s1_def)
  have step: "rel_option (\<lambda>p q. fst q = fst p \<and> legal_transition\<^sup>*\<^sup>* (snd p) (snd q))
      (tasksOf s tid) (tasksOf s1 tid)"
  proof -
    obtain e s' where "sUpdateTaskStatus ops now s i st = (e, s')" by fastforce
    then show ?thesis
      by (cases rule: update_cases [OF Cons.prems]) (auto simp: s1_def option.rel_refl)
  qed
  show ?case
    using Cons.IH [OF keep(1,2)] keep(3) step
    by (auto simp: u s1_def [symmetric] rel_option_iff split: option.splits)
qed

lemma runUpdates_terminal:
  assumes "invar s" "\<not> is_closed s" "tasksOf s tid = Some (t, st)" "terminal st"
  shows "tasksOf (runUpdates ops s us) tid = Some (t, st)"
  using runUpdates_lifecycle [OF assms(1,2), of us tid] assms(3,4)
  by (auto simp: rel_option_iff split: option.splits dest: terminal_closed)

lemma save_then_get:
  assumes "invar s" "\<not> is_closed s" "task_TaskId t \<noteq> []" "storable t"
    and "tasksOf s (task_TaskId t) = None" and "sSavePendingTask ops now s (Some t) = (e, s')"
  shows "e = None \<and> (\<exists>t'. sGetTask ops s' (task_TaskId t) = Inr t' \<and> task_persist t' = task_persist t)"
  using savePending_fresh [OF assms(1-5), of now] assms(6) getTask [of s' "task_TaskId t"]
  by auto

lemma delete_then_get:
  assumes "invar s" "\<not> is_closed s" "sDeleteTask ops s tid = (e, s')"
  shows "invar s' \<and> \<not> is_closed s' \<and> sGetTask ops s' tid = Inl ErrNotFound"
proof (cases "tasksOf s tid")
  case None
  with assms deleteTask_missing [of s tid] getTask [of s tid] show ?thesis by auto
next
  case (Some p)
  with assms deleteTask [of s tid] getTask [of s' tid] show ?thesis by auto
qed

lemma deleteTask_keeps:
  assumes "invar s" "\<not> is_closed s"
  shows "invar (snd (sDeleteTask ops s tid)) \<and> \<not> is_closed (snd (sDeleteTask ops s tid)) \<and>
    blocksOf (snd (sDeleteTask ops s tid)) = blocksOf s \<and>
    tasksOf (snd (sDeleteTask ops s tid)) = (tasksOf s)(tid := None)"
proof (cases "tasksOf s tid")
  case None
  with assms deleteTask_missing [of s tid] show ?thesis by (auto simp: fun_upd_idem)
next
  case (Some p)
  with assms deleteTask [of s tid] show ?thesis by auto
qed

lemma deleteBlock_keeps:
  assumes "invar s" "\<not> is_closed s"
  shows "invar (snd (sDeleteBlock ops s avs c n)) \<and> \<not> is_closed (snd (sDeleteBlock ops s avs c n)) \<and>
    tasksOf (snd (sDeleteBlock ops s avs c n)) = tasksOf s \<and>
    blocksOf (snd (sDeleteBlock ops s avs c n)) = (blocksOf s)((avs, c, n) := None) \<and>
    fst (sDeleteBlock ops s avs c n) = (if blocksOf s (avs, c, n) = None then Some ErrNotFound else None)"
proof (cases "blocksOf s (avs, c, n)")
  case None
  with assms deleteBlock_missing [of s avs c n] show ?thesis by (auto simp: fun_upd_idem)
next
  case (Some p)
  with assms deleteBlock [of s avs c n] show ?thesis by auto
qed

end

text \<open>
  A store with a cursor: the last processed block of a chain is the block saved last for it, and
  there is none once that block is deleted. Operations on tasks do not move the cursor.
\<close>

locale cursor_store = task_store ops invar is_closed tasksOf blocksOf
  for ops :: "'s aggregator_store" and invar is_closed tasksOf blocksOf +
  assumes last_stored: "invar s \<Longrightarrow> \<not> is_closed s \<Longrightarrow> sGetLastProcessedBlock ops s avs c = Inr b \<Longrightarrow>
      blocksOf s (avs, c, br_Number b) = Some b"
    and last_save: "invar s \<Longrightarrow> \<not> is_closed s \<Longrightarrow> sSaveBlock ops s avs (Some b) = (e, s') \<Longrightarrow>
      sGetLastProcessedBlock ops s' avs (br_ChainId b) = Inr b"
    and last_save_other: "invar s \<Longrightarrow> \<not> is_closed s \<Longrightarrow> sSaveBlock ops s avs (Some b) = (e, s') \<Longrightarrow>
      c \<noteq> br_ChainId b \<Longrightarrow> sGetLastProcessedBlock ops s' avs c = sGetLastProcessedBlock ops s avs c"
    and last_delete: "invar s \<Longrightarrow> \<not> is_closed s \<Longrightarrow> sDeleteBlock ops s avs c n = (e, s') \<Longrightarrow>
      sGetLastProcessedBlock ops s' avs c =
        (case sGetLastProcessedBlock ops s avs c of
           Inr b \<Rightarrow> if br_Number b = n then Inl ErrNotFound else Inr b | Inl err \<Rightarrow> Inl err)"
    and last_savePending: "invar s \<Longrightarrow> \<not> is_closed s \<Longrightarrow> sSavePendingTask ops now s topt = (e, s') \<Longrightarrow>
      sGetLastProcessedBlock ops s' = sGetLastProcessedBlock ops s"
    and last_deleteTask: "invar s \<Longrightarrow> \<not> is_closed s \<Longrightarrow> sDeleteTask ops s tid = (e, s') \<Longrightarrow>
      sGetLastProcessedBlock ops s' = sGetLastProcessedBlock ops s"
    and save_nil: "invar s \<Longrightarrow> \<not> is_closed s \<Longrightarrow> \<exists>e. sSaveBlock ops s avs None = (Some e, s)"

end
