(* ===== verification/Memory_Store.thy ===== *)
theory Memory_Store
  imports Store_Spec
begin

text \<open>
  The in-memory implementation of the persistence layer
  (\<open>ponos/pkg/aggregator/storage/memory/memory.go\<close>): its state, one definition per method, the
  invariant of its maps, and the proof that it satisfies the contract \<open>task_store\<close>. Every method
  holds the store's mutex for its whole body, so a method is one atomic step.
\<close>

section \<open>State and operations\<close>

record stored_task_config =
  ostc_TaskSLA :: int
  ostc_CurveType :: curve_type
  ostc_TaskMetadata :: bytes
  ostc_ConsensusType :: nat
  ostc_Threshold :: u16

record stored_avs_config =
  ac_AggregatorOperatorSetId :: u32
  ac_ExecutorOperatorSetIds :: "u32 list"
  ac_CurveType :: curve_type

record mem_store =
  ms_closed :: bool
  ms_lastProcessedBlocks :: "(string \<times> u64) list"
  ms_tasks :: "(string \<times> task_record) list"
  ms_operatorSetConfigs :: "(string \<times> stored_task_config) list"
  ms_avsConfigs :: "(string \<times> stored_avs_config) list"
  ms_blocks :: "(string \<times> block_record) list"

definition newInMemoryAggregatorStore :: mem_store where
  "newInMemoryAggregatorStore = \<lparr>ms_closed = False, ms_lastProcessedBlocks = [], ms_tasks = [],
     ms_operatorSetConfigs = [], ms_avsConfigs = [], ms_blocks = []\<rparr>"

definition makeBlockKey :: "string \<Rightarrow> chain_id \<Rightarrow> string" where
  "makeBlockKey avs c = avs @ '':'' @ dec c"

definition makeBlockRecordKey :: "string \<Rightarrow> chain_id \<Rightarrow> u64 \<Rightarrow> string" where
  "makeBlockRecordKey avs c n = ''block:'' @ avs @ '':'' @ dec c @ '':'' @ dec n"

definition mem_GetLastProcessedBlock ::
  "mem_store \<Rightarrow> string \<Rightarrow> chain_id \<Rightarrow> (store_err, block_record) result" where
  "mem_GetLastProcessedBlock s avs c =
     (if ms_closed s then Inl ErrStoreClosed
      else case gm_get (ms_lastProcessedBlocks s) (makeBlockKey avs c) of
        None \<Rightarrow> Inl ErrNotFound
      | Some blockNum \<Rightarrow>
          (case gm_get (ms_blocks s) (makeBlockRecordKey avs c blockNum) of
            None \<Rightarrow> Inl ErrNotFound
          | Some block \<Rightarrow> Inr block))"

definition mem_SavePendingTask ::
  "time \<Rightarrow> mem_store \<Rightarrow> task option \<Rightarrow> store_err option \<times> mem_store" where
  "mem_SavePendingTask now s topt =
     (if ms_closed s then (Some ErrStoreClosed, s)
      else case topt of
        None \<Rightarrow> (Some (ErrOther ''invalid task: task or taskId is empty''), s)
      | Some t \<Rightarrow>
          if task_TaskId t = [] then (Some (ErrOther ''invalid task: task or taskId is empty''), s)
          else (None, s\<lparr>ms_tasks := gm_put (ms_tasks s) (task_TaskId t)
            \<lparr>rec_Task = t, rec_Status = TaskStatusPending, rec_CreatedAt = now, rec_UpdatedAt = now\<rparr>\<rparr>))"

definition mem_GetTask :: "mem_store \<Rightarrow> string \<Rightarrow> (store_err, task) result" where
  "mem_GetTask s tid =
     (if ms_closed s then Inl ErrStoreClosed
      else case gm_get (ms_tasks s) tid of
        None \<Rightarrow> Inl ErrNotFound
      | Some r \<Rightarrow> Inr (rec_Task r))"

definition mem_ListPendingTasks :: "mem_store \<Rightarrow> (store_err, task list) result" where
  "mem_ListPendingTasks s =
     (if ms_closed s then Inl ErrStoreClosed
      else Inr (map rec_Task (filter (\<lambda>r. rec_Status r = TaskStatusPending) (map snd (ms_tasks s)))))"

definition mem_ListPendingTasksForAVS :: "mem_store \<Rightarrow> string \<Rightarrow> (store_err, task list) result" where
  "mem_ListPendingTasksForAVS s avs =
     (if ms_closed s then Inl ErrStoreClosed
      else Inr (map rec_Task (filter (\<lambda>r. rec_Status r = TaskStatusPending \<and>
             equalFold (task_AVSAddress (rec_Task r)) avs) (map snd (ms_tasks s)))))"

text \<open>
  \<open>validateTaskStatusTransition\<close>: the table of allowed transitions, looked up by the current
  status; an unknown status has no entry.
\<close>

definition validTransitions :: "(task_status \<times> task_status list) list" where
  "validTransitions =
     [(TaskStatusPending, [TaskStatusProcessing, TaskStatusFailed]),
      (TaskStatusProcessing, [TaskStatusCompleted, TaskStatusFailed]),
      (TaskStatusCompleted, []),
      (TaskStatusFailed, [])]"

definition validateTaskStatusTransition :: "task_status \<Rightarrow> task_status \<Rightarrow> store_err option" where
  "validateTaskStatusTransition from to =
     (case gm_get validTransitions from of
        None \<Rightarrow> Some ErrInvalidTaskStatus
      | Some allowed \<Rightarrow> if to \<in> set allowed then None else Some ErrInvalidTaskStatus)"

definition mem_UpdateTaskStatus ::
  "time \<Rightarrow> mem_store \<Rightarrow> string \<Rightarrow> task_status \<Rightarrow> store_err option \<times> mem_store" where
  "mem_UpdateTaskStatus now s tid status =
     (if ms_closed s then (Some ErrStoreClosed, s)
      else case gm_get (ms_tasks s) tid of
        None \<Rightarrow> (Some ErrNotFound, s)
      | Some r \<Rightarrow>
          (case validateTaskStatusTransition (rec_Status r) status of
            Some e \<Rightarrow> (Some e, s)
          | None \<Rightarrow> (None, s\<lparr>ms_tasks :=
              gm_put (ms_tasks s) tid (r\<lparr>rec_Status := status, rec_UpdatedAt := now\<rparr>)\<rparr>)))"

definition mem_DeleteTask :: "mem_store \<Rightarrow> string \<Rightarrow> store_err option \<times> mem_store" where
  "mem_DeleteTask s tid =
     (if ms_closed s then (Some ErrStoreClosed, s)
      else case gm_get (ms_tasks s) tid of
        None \<Rightarrow> (Some ErrNotFound, s)
      | Some r \<Rightarrow> (None, s\<lparr>ms_tasks := gm_del (ms_tasks s) tid\<rparr>))"

definition mem_SaveBlock ::
  "mem_store \<Rightarrow> string \<Rightarrow> block_record option \<Rightarrow> store_err option \<times> mem_store" where
  "mem_SaveBlock s avs bopt =
     (if ms_closed s then (Some ErrStoreClosed, s)
      else case bopt of
        None \<Rightarrow> (Some (ErrOther ''block cannot be nil''), s)
      | Some b \<Rightarrow> (None, s\<lparr>
          ms_blocks := gm_put (ms_blocks s) (makeBlockRecordKey avs (br_ChainId b) (br_Number b)) b,
          ms_lastProcessedBlocks :=
            gm_put (ms_lastProcessedBlocks s) (makeBlockKey avs (br_ChainId b)) (br_Number b)\<rparr>))"

definition mem_GetBlock ::
  "mem_store \<Rightarrow> string \<Rightarrow> chain_id \<Rightarrow> u64 \<Rightarrow> (store_err, block_record) result" where
  "mem_GetBlock s avs c n =
     (if ms_closed s then Inl ErrStoreClosed
      else case gm_get (ms_blocks s) (makeBlockRecordKey avs c n) of
        None \<Rightarrow> Inl ErrNotFound
      | Some b \<Rightarrow> Inr b)"

definition mem_DeleteBlock ::
  "mem_store \<Rightarrow> string \<Rightarrow> chain_id \<Rightarrow> u64 \<Rightarrow> store_err option \<times> mem_store" where
  "mem_DeleteBlock s avs c n =
     (if ms_closed s then (Some ErrStoreClosed, s)
      else case gm_get (ms_blocks s) (makeBlockRecordKey avs c n) of
        None \<Rightarrow> (Some ErrNotFound, s)
      | Some b \<Rightarrow> (None, s\<lparr>ms_blocks := gm_del (ms_blocks s) (makeBlockRecordKey avs c n)\<rparr>))"

definition mem_Close :: "mem_store \<Rightarrow> store_err option \<times> mem_store" where
  "mem_Close s =
     (if ms_closed s then (Some ErrStoreClosed, s)
      else (None, \<lparr>ms_closed = True, ms_lastProcessedBlocks = [], ms_tasks = [],
        ms_operatorSetConfigs = [], ms_avsConfigs = [], ms_blocks = []\<rparr>))"

definition memory_ops :: "mem_store aggregator_store" where
  "memory_ops = \<lparr>
     sGetLastProcessedBlock = mem_GetLastProcessedBlock,
     sSaveBlock = mem_SaveBlock,
     sGetBlock = mem_GetBlock,
     sDeleteBlock = mem_DeleteBlock,
     sSavePendingTask = mem_SavePendingTask,
     sGetTask = mem_GetTask,
     sListPendingTasks = mem_ListPendingTasks,
     sListPendingTasksForAVS = mem_ListPendingTasksForAVS,
     sUpdateTaskStatus = mem_UpdateTaskStatus,
     sDeleteTask = mem_DeleteTask,
     sClose = mem_Close\<rparr>"

lemmas mem_defs = mem_GetLastProcessedBlock_def mem_SavePendingTask_def mem_GetTask_def
  mem_ListPendingTasks_def mem_ListPendingTasksForAVS_def mem_UpdateTaskStatus_def
  mem_DeleteTask_def mem_SaveBlock_def mem_GetBlock_def mem_DeleteBlock_def mem_Close_def

section \<open>Invariant and abstraction\<close>

definition mem_invar :: "mem_store \<Rightarrow> bool" where
  "mem_invar s \<longleftrightarrow> gm_wf (ms_tasks s) \<and> gm_wf (ms_blocks s) \<and> gm_wf (ms_lastProcessedBlocks s) \<and>
     (\<forall>(tid, r) \<in> set (ms_tasks s). task_TaskId (rec_Task r) = tid) \<and>
     (\<forall>(k, b) \<in> set (ms_blocks s). \<exists>avs. k = makeBlockRecordKey avs (br_ChainId b) (br_Number b))"

definition mem_tasksOf :: "mem_store \<Rightarrow> string \<Rightarrow> (task \<times> task_status) option" where
  "mem_tasksOf s tid =
     map_option (\<lambda>r. (task_persist (rec_Task r), rec_Status r)) (gm_get (ms_tasks s) tid)"

definition mem_blocksOf :: "mem_store \<Rightarrow> string \<times> chain_id \<times> u64 \<Rightarrow> block_record option" where
  "mem_blocksOf s k = (case k of (avs, c, n) \<Rightarrow> gm_get (ms_blocks s) (makeBlockRecordKey avs c n))"

lemma makeBlockKey_inj [simp]: "makeBlockKey a c = makeBlockKey a' c' \<longleftrightarrow> a = a' \<and> c = c'"
  using append_colon_inj [of a "dec c" a' "dec c'"] by (auto simp: makeBlockKey_def)

lemma makeBlockRecordKey_inj [simp]:
  "makeBlockRecordKey a c n = makeBlockRecordKey a' c' n' \<longleftrightarrow> a = a' \<and> c = c' \<and> n = n'"
  using composite_key_inj [of a c n a' c' n'] by (auto simp: makeBlockRecordKey_def)

lemma validate_iff_legal: "validateTaskStatusTransition from to = None \<longleftrightarrow> legal_transition from to"
  by (cases "from"; cases to) (auto simp: validateTaskStatusTransition_def validTransitions_def legal_transition.simps)

lemma mem_invar_taskD:
  "mem_invar s \<Longrightarrow> gm_get (ms_tasks s) tid = Some r \<Longrightarrow> task_TaskId (rec_Task r) = tid"
  by (fastforce simp: mem_invar_def dest: map_of_SomeD)

lemma mem_invar_blockD:
  "mem_invar s \<Longrightarrow> gm_get (ms_blocks s) (makeBlockRecordKey avs c n) = Some b \<Longrightarrow>
     br_ChainId b = c \<and> br_Number b = n"
  by (fastforce simp: mem_invar_def dest: map_of_SomeD)

lemma set_gm_put: "gm_wf m \<Longrightarrow> set (gm_put m k v) = insert (k, v) {p \<in> set m. fst p \<noteq> k}"
proof -
  assume wf: "gm_wf m"
  have "(k', v') \<in> set (gm_put m k v) \<longleftrightarrow> (k', v') \<in> insert (k, v) {p \<in> set m. fst p \<noteq> k}" for k' v'
    using wf gm_wf_put [OF wf, of k v] by (auto simp: gm_mem_iff)
  then show ?thesis by auto
qed

lemma set_gm_del: "set (gm_del m k) = {p \<in> set m. fst p \<noteq> k}"
  by (auto simp: AList.delete_eq)

lemma mem_invar_put_task:
  "mem_invar s \<Longrightarrow> task_TaskId (rec_Task r) = tid \<Longrightarrow> mem_invar (s\<lparr>ms_tasks := gm_put (ms_tasks s) tid r\<rparr>)"
  by (auto simp: mem_invar_def set_gm_put)

lemma mem_invar_del_task: "mem_invar s \<Longrightarrow> mem_invar (s\<lparr>ms_tasks := gm_del (ms_tasks s) tid\<rparr>)"
  by (auto simp: mem_invar_def set_gm_del)

lemma mem_invar_put_block:
  "mem_invar s \<Longrightarrow> mem_invar (s\<lparr>ms_blocks := gm_put (ms_blocks s) (makeBlockRecordKey avs (br_ChainId b) (br_Number b)) b,
     ms_lastProcessedBlocks := gm_put (ms_lastProcessedBlocks s) k n\<rparr>)"
  by (auto simp: mem_invar_def set_gm_put)

lemma mem_invar_del_block: "mem_invar s \<Longrightarrow> mem_invar (s\<lparr>ms_blocks := gm_del (ms_blocks s) k\<rparr>)"
  by (auto simp: mem_invar_def set_gm_del)

lemmas mem_invars = mem_invar_put_task mem_invar_del_task mem_invar_put_block mem_invar_del_block

text \<open>The tasks a \<open>range\<close> over the map selects.\<close>

lemma mem_pending_list:
  assumes "mem_invar s"
  shows "distinct (map task_TaskId (map rec_Task (filter P (map snd (ms_tasks s)))))"
    and "task_persist ` set (map rec_Task (filter P (map snd (ms_tasks s)))) =
      {t. \<exists>tid r. gm_get (ms_tasks s) tid = Some r \<and> P r \<and> t = task_persist (rec_Task r)}"
proof -
  have wf: "gm_wf (ms_tasks s)" using assms by (simp add: mem_invar_def)
  have ids: "task_TaskId (rec_Task (snd p)) = fst p" if "p \<in> set (ms_tasks s)" for p
    using that assms by (auto simp: mem_invar_def)
  have "map (\<lambda>p. task_TaskId (rec_Task (snd p))) (filter (P \<circ> snd) (ms_tasks s)) =
        map fst (filter (P \<circ> snd) (ms_tasks s))"
    by (rule map_cong) (auto simp: ids)
  moreover have "distinct (map fst (filter (P \<circ> snd) (ms_tasks s)))"
    using wf by (simp add: gm_wf_def distinct_map_filter)
  ultimately have "distinct (map (\<lambda>p. task_TaskId (rec_Task (snd p))) (filter (P \<circ> snd) (ms_tasks s)))"
    by (simp only:)
  then show "distinct (map task_TaskId (map rec_Task (filter P (map snd (ms_tasks s)))))"
    by (simp only: filter_map map_map comp_def)
  show "task_persist ` set (map rec_Task (filter P (map snd (ms_tasks s)))) =
      {t. \<exists>tid r. gm_get (ms_tasks s) tid = Some r \<and> P r \<and> t = task_persist (rec_Task r)}"
    using wf by (force simp: gm_mem_iff [symmetric] image_iff)
qed

section \<open>The contract holds\<close>

interpretation mem: task_store memory_ops mem_invar ms_closed mem_tasksOf mem_blocksOf
proof (unfold_locales, goal_cases)
  case 1 then show ?case by (auto simp: mem_tasksOf_def dest: mem_invar_taskD)
next
  case 2 then show ?case by (auto simp: mem_blocksOf_def dest: mem_invar_blockD)
next
  case 3 then show ?case
    by (auto simp: memory_ops_def mem_GetTask_def mem_tasksOf_def split: option.splits)
next
  case (4 s t now) then show ?case
    by (auto simp: memory_ops_def mem_SavePendingTask_def mem_tasksOf_def mem_blocksOf_def
        fun_eq_iff intro!: mem_invars)
next
  case (5 s tid t st st' now) then show ?case
    by (auto simp: memory_ops_def mem_UpdateTaskStatus_def mem_tasksOf_def mem_blocksOf_def
        validate_iff_legal [symmetric] fun_eq_iff mem_invar_taskD intro!: mem_invars)
next
  case 6 then show ?case
    by (auto simp: memory_ops_def mem_UpdateTaskStatus_def mem_tasksOf_def
        validate_iff_legal [symmetric])
next
  case 7 then show ?case by (auto simp: memory_ops_def mem_UpdateTaskStatus_def mem_tasksOf_def)
next
  case 8 then show ?case
    by (auto simp: memory_ops_def mem_DeleteTask_def mem_tasksOf_def mem_blocksOf_def fun_eq_iff
        intro!: mem_invars)
next
  case 9 then show ?case by (auto simp: memory_ops_def mem_DeleteTask_def mem_tasksOf_def)
next
  case (10 s) then show ?case
    using mem_pending_list [OF 10(1), of "\<lambda>r. rec_Status r = TaskStatusPending"]
    by (auto simp: memory_ops_def mem_ListPendingTasks_def mem_tasksOf_def)
next
  case (11 s avs) then show ?case
    using mem_pending_list [OF 11(1), of "\<lambda>r. rec_Status r = TaskStatusPending \<and>
      equalFold (task_AVSAddress (rec_Task r)) avs"]
    by (auto simp: memory_ops_def mem_ListPendingTasksForAVS_def mem_tasksOf_def) blast
next
  case 12 then show ?case by (auto simp: memory_ops_def mem_GetBlock_def mem_blocksOf_def)
next
  case (13 s avs b) then show ?case
    by (auto simp: memory_ops_def mem_SaveBlock_def mem_tasksOf_def mem_blocksOf_def fun_eq_iff
        intro!: mem_invars)
next
  case 14 then show ?case
    by (auto simp: memory_ops_def mem_DeleteBlock_def mem_tasksOf_def mem_blocksOf_def fun_eq_iff
        intro!: mem_invars)
next
  case 15 then show ?case by (auto simp: memory_ops_def mem_DeleteBlock_def mem_blocksOf_def)
next
  case 16 then show ?case by (simp add: memory_ops_def mem_defs)
next
  case 17 then show ?case by (auto simp: memory_ops_def mem_Close_def mem_invar_def)
next
  case (18 s t now e s') then show ?case
    by (auto simp: memory_ops_def mem_SavePendingTask_def mem_tasksOf_def mem_blocksOf_def fun_eq_iff
        split: if_splits intro!: mem_invars)
qed

lemma mem_invar_new: "mem_invar newInMemoryAggregatorStore"
  by (simp add: mem_invar_def newInMemoryAggregatorStore_def)

text \<open>The last processed block is the block saved last, as long as it is not deleted.\<close>

lemmas mem_last_defs = memory_ops_def mem_GetLastProcessedBlock_def mem_SaveBlock_def mem_DeleteBlock_def
  mem_SavePendingTask_def mem_DeleteTask_def mem_blocksOf_def

interpretation memc: cursor_store memory_ops mem_invar ms_closed mem_tasksOf mem_blocksOf
proof (unfold_locales, goal_cases)
  case (1 s avs c b)
  then obtain n where n: "gm_get (ms_blocks s) (makeBlockRecordKey avs c n) = Some b"
    by (auto simp: mem_last_defs split: option.splits)
  with 1 have "br_Number b = n" by (auto dest: mem_invar_blockD)
  with n show ?case by (simp add: mem_blocksOf_def)
next
  case 2 then show ?case by (auto simp: mem_last_defs)
next
  case 3 then show ?case by (auto simp: mem_last_defs split: option.splits)
next
  case (4 s avs c n e s')
  show ?case
  proof (cases "gm_get (ms_blocks s) (makeBlockRecordKey avs c n)")
    case None
    with 4 show ?thesis
      by (auto simp: mem_last_defs split: option.splits dest: mem_invar_blockD)
  next
    case (Some b)
    with 4 have "s' = s\<lparr>ms_blocks := gm_del (ms_blocks s) (makeBlockRecordKey avs c n)\<rparr>"
      by (simp add: mem_last_defs)
    with 4 show ?thesis
      by (auto simp: mem_last_defs split: option.splits dest: mem_invar_blockD)
  qed
next
  case 5 then show ?case by (auto simp: mem_last_defs fun_eq_iff split: option.splits if_splits)
next
  case 6 then show ?case by (auto simp: mem_last_defs fun_eq_iff split: option.splits if_splits)
next
  case 7 then show ?case by (simp add: mem_last_defs)
qed

lemma mem_last_after_save:
  "\<not> ms_closed s \<Longrightarrow> mem_SaveBlock s avs (Some b) = (e, s') \<Longrightarrow>
     mem_GetLastProcessedBlock s' avs (br_ChainId b) = Inr b"
  by (auto simp: mem_SaveBlock_def mem_GetLastProcessedBlock_def)

end
