(* ===== verification/Execution_Manager.thy ===== *)
theory Execution_Manager
  imports Task_Session Memory_Store
begin

text \<open>
  \<open>ponos/pkg/aggregator/avsExecutionManager/avsExecutionManager.go\<close>: taking tasks from the queue,
  resolving their configuration on chain, running a task session and recording the outcome. The
  contract callers, the operator manager's fetcher, and what the \<open>select\<close> at the end of a task sees
  are parameters. Operations return their error with the manager they leave behind.
\<close>

section \<open>Configuration and state\<close>

record em_config =
  emc_AvsAddress :: string
  emc_SupportedChainIds :: "chain_id list"
  emc_MailboxContractAddresses :: "(chain_id \<times> string) list"
  emc_AggregatorAddress :: string
  emc_L1ChainId :: chain_id
  emc_TlsEnabled :: bool

record mailbox_task_config =
  mtc_TaskSLA :: int
  mtc_CurveType :: nat
  mtc_ConsensusType :: nat
  mtc_ConsensusValue :: bytes
  mtc_TaskMetadata :: bytes

text \<open>The calls of the manager's contract callers, on top of those of the operator manager.\<close>

record exec_caller = table_caller +
  xc_GetExecutorOperatorSetTaskConfig :: "bytes \<Rightarrow> u32 \<Rightarrow> u64 \<Rightarrow> mailbox_task_config option"
  xc_GetAVSConfig :: "string \<Rightarrow> u64 \<Rightarrow> (u32 \<times> u32 list) option"

record operator_set_task_config =
  otc_TaskSLA :: int
  otc_CurveType :: curve_type
  otc_TaskMetadata :: bytes
  otc_ConsensusType :: nat
  otc_Threshold :: u16
  otc_L1ReferenceBlockNumber :: u64

record em_avs_config =
  eac_AggregatorOperatorSetId :: u32
  eac_ExecutorOperatorSetIds :: "u32 list"
  eac_curveType :: curve_type

record ('s, 'k) exec_manager =
  em_config :: em_config
  em_chainContractCallers :: "(chain_id \<times> exec_caller) list"
  em_operatorManager :: "'k operator_manager"
  em_inflightTasks :: "(string \<times> unit) list"
  em_avsConfig :: "em_avs_config option"
  em_store :: 's

datatype em_error = L1ChainIdMissing | MissingMailbox chain_id | MissingCaller chain_id | L1CallerMissing
  | AlreadyInFlight | NoCallerForChain chain_id | SupportedChainsError | NoTableUpdaterFor chain_id
  | UpdaterIndexPanic | ReferenceBlockError | TaskConfigError | BadCurveType | BadConsensusValue
  | BadConsensusType nat | AvsConfigError | AvsCurveError | UnsupportedCurve | PeersError om_error
  | NoOperators | SessionError session_error | NilContextPanic | TaskFailed | ContextCancelled | ContextDeadline
  | ListPendingError

fun hasExpectedMailboxContractsForChains :: "chain_id list \<Rightarrow> (chain_id \<times> string) list \<Rightarrow> em_error option" where
  "hasExpectedMailboxContractsForChains [] m = None"
| "hasExpectedMailboxContractsForChains (c # cs) m =
     (if gm_get m c = None then Some (MissingMailbox c) else hasExpectedMailboxContractsForChains cs m)"

fun hasExpectedContractCallersForChains :: "chain_id list \<Rightarrow> (chain_id \<times> exec_caller) list \<Rightarrow> em_error option" where
  "hasExpectedContractCallersForChains [] m = None"
| "hasExpectedContractCallersForChains (c # cs) m =
     (if gm_get m c = None then Some (MissingCaller c) else hasExpectedContractCallersForChains cs m)"

definition newAvsExecutionManager ::
  "em_config \<Rightarrow> (chain_id \<times> exec_caller) list \<Rightarrow> 'k operator_manager \<Rightarrow> 's \<Rightarrow> em_error + ('s, 'k) exec_manager" where
  "newAvsExecutionManager cfg callers om store =
     (if emc_L1ChainId cfg = 0 then Inl L1ChainIdMissing
      else (case hasExpectedMailboxContractsForChains (emc_SupportedChainIds cfg) (emc_MailboxContractAddresses cfg) of
        Some e \<Rightarrow> Inl e
      | None \<Rightarrow>
      (case hasExpectedContractCallersForChains (emc_SupportedChainIds cfg) callers of
        Some e \<Rightarrow> Inl e
      | None \<Rightarrow>
          if gm_get callers (emc_L1ChainId cfg) = None then Inl L1CallerMissing
          else Inr \<lparr>em_config = cfg, em_chainContractCallers = callers, em_operatorManager = om,
                 em_inflightTasks = [], em_avsConfig = None, em_store = store\<rparr>)))"

section \<open>Resolving a task's configuration\<close>

definition getContractCallerForChain :: "('s, 'k) exec_manager \<Rightarrow> chain_id \<Rightarrow> em_error + exec_caller" where
  "getContractCallerForChain em chainId =
     (case gm_get (em_chainContractCallers em) chainId of None \<Rightarrow> Inl (NoCallerForChain chainId) | Some cc \<Rightarrow> Inr cc)"

definition getL1BlockForChainBlock :: "('s, 'k) exec_manager \<Rightarrow> chain_id \<Rightarrow> u64 \<Rightarrow> em_error + u64" where
  "getL1BlockForChainBlock em chainId taskBlockNumber =
     (if chainId = emc_L1ChainId (em_config em) then Inr taskBlockNumber
      else (case gm_get (em_chainContractCallers em) (emc_L1ChainId (em_config em)) of
        None \<Rightarrow> Inl L1CallerMissing
      | Some l1Cc \<Rightarrow>
      (case gm_get (em_chainContractCallers em) chainId of
        None \<Rightarrow> Inl (NoCallerForChain chainId)
      | Some targetCc \<Rightarrow>
      (case tc_GetSupportedChainsForMultichain l1Cc 0 of
        None \<Rightarrow> Inl SupportedChainsError
      | Some (destChainIds, addrs) \<Rightarrow>
      (case firstTableUpdater chainId destChainIds addrs of
        None \<Rightarrow> Inl UpdaterIndexPanic
      | Some updater \<Rightarrow>
      if updater = zeroAddress then Inl (NoTableUpdaterFor chainId)
      else (case tc_GetTableUpdaterReferenceTimeAndBlock targetCc updater taskBlockNumber of
        None \<Rightarrow> Inl ReferenceBlockError
      | Some ref \<Rightarrow> Inr (unat (lr_BlockNumber ref))))))))"

text \<open>\<open>STAKE_PROPORTION_THRESHOLD\<close> is consensus type 1, the only one accepted.\<close>

definition getExecutorTaskConfig ::
  "eth_common \<Rightarrow> ('s, 'k) exec_manager \<Rightarrow> task \<Rightarrow> em_error + operator_set_task_config" where
  "getExecutorTaskConfig eth em task =
     (case getContractCallerForChain em (task_ChainId task) of
        Inl e \<Rightarrow> Inl e
      | Inr cc \<Rightarrow>
      (case getL1BlockForChainBlock em (task_ChainId task) (task_SourceBlockNumber task) of
        Inl e \<Rightarrow> Inl e
      | Inr l1Block \<Rightarrow>
      (let block = (if task_ChainId task = emc_L1ChainId (em_config em) then l1Block else task_SourceBlockNumber task) in
      (case xc_GetExecutorOperatorSetTaskConfig cc (hexToAddress eth (task_AVSAddress task)) (task_OperatorSetId task) block of
        None \<Rightarrow> Inl TaskConfigError
      | Some opsetConfig \<Rightarrow>
      (case convertSolidityEnumToCurveType (mtc_CurveType opsetConfig) of
        None \<Rightarrow> Inl BadCurveType
      | Some curveType \<Rightarrow>
      (case abiDecodeUint16 (mtc_ConsensusValue opsetConfig) of
        None \<Rightarrow> Inl BadConsensusValue
      | Some threshold \<Rightarrow>
          if mtc_ConsensusType opsetConfig \<noteq> 1 then Inl (BadConsensusType (mtc_ConsensusType opsetConfig))
          else Inr \<lparr>otc_TaskSLA = mtc_TaskSLA opsetConfig, otc_CurveType = curveType,
                 otc_TaskMetadata = mtc_TaskMetadata opsetConfig,
                 otc_ConsensusType = mtc_ConsensusType opsetConfig, otc_Threshold = threshold,
                 otc_L1ReferenceBlockNumber = l1Block\<rparr>))))))"

definition getAvsConfigAt ::
  "('s, 'k) exec_manager \<Rightarrow> u64 \<Rightarrow> (em_error + em_avs_config) \<times> ('s, 'k) exec_manager" where
  "getAvsConfigAt em blockNumber =
     (case gm_get (em_chainContractCallers em) (emc_L1ChainId (em_config em)) of
        None \<Rightarrow> (Inl L1CallerMissing, em)
      | Some cc \<Rightarrow>
      (case xc_GetAVSConfig cc (emc_AvsAddress (em_config em)) blockNumber of
        None \<Rightarrow> (Inl AvsConfigError, em)
      | Some (aggSet, execSets) \<Rightarrow>
      (case tc_GetOperatorSetCurveType cc (emc_AvsAddress (em_config em)) aggSet blockNumber of
        None \<Rightarrow> (Inl AvsCurveError, em)
      | Some curve \<Rightarrow>
          (let cfg = \<lparr>eac_AggregatorOperatorSetId = aggSet, eac_ExecutorOperatorSetIds = execSets, eac_curveType = curve\<rparr>
           in (Inr cfg, em\<lparr>em_avsConfig := Some cfg\<rparr>)))))"

section \<open>Running a task\<close>

text \<open>What the \<open>select\<close> of \<open>processBN254Task\<close> and \<open>processECDSATask\<close> receives first.\<close>

datatype task_select = SelDone | SelError | SelTaskContextDone "ctx_error option"

text \<open>
  The goroutine that runs the session: it reports an error when the session or the submission
  fails. \<open>None\<close> is the panic of \<open>ToSubmitParams\<close> on a nil key.
\<close>

definition bn254Goroutine ::
  "('pub, 'sig, 'g2, 'k) bn254_lib \<Rightarrow> (('sig, 'g2) bn254_params \<Rightarrow> bool) \<Rightarrow> ctx_error + ('sig, 'g2, 'k) bn254_certificate \<Rightarrow>
     task_select option" where
  "bn254Goroutine lib submit result =
     (case result of
        Inl e \<Rightarrow> Some SelError
      | Inr cert \<Rightarrow>
          (case bn254_ToSubmitParams lib cert of
             None \<Rightarrow> None
           | Some params \<Rightarrow> Some (if submit params then SelDone else SelError)))"

definition ecdsaGoroutine :: "(ecdsa_params \<Rightarrow> bool) \<Rightarrow> ctx_error + ecdsa_certificate \<Rightarrow> task_select" where
  "ecdsaGoroutine submit result =
     (case result of
        Inl e \<Rightarrow> SelError
      | Inr cert \<Rightarrow> if submit (ecdsa_ToSubmitParams cert) then SelDone else SelError)"

definition setStatus ::
  "'s aggregator_store \<Rightarrow> time \<Rightarrow> string \<Rightarrow> task_status \<Rightarrow> ('s, 'k) exec_manager \<Rightarrow> ('s, 'k) exec_manager" where
  "setStatus sops now tid status em = em\<lparr>em_store := snd (sUpdateTaskStatus sops now (em_store em) tid status)\<rparr>"

definition storeInflight :: "string \<Rightarrow> ('s, 'k) exec_manager \<Rightarrow> ('s, 'k) exec_manager" where
  "storeInflight tid em = em\<lparr>em_inflightTasks := gm_put (em_inflightTasks em) tid ()\<rparr>"

definition deleteInflight :: "string \<Rightarrow> ('s, 'k) exec_manager \<Rightarrow> ('s, 'k) exec_manager" where
  "deleteInflight tid em = em\<lparr>em_inflightTasks := gm_del (em_inflightTasks em) tid\<rparr>"

text \<open>
  When the task's context is done the code looks at \<open>ctx.Err()\<close>, the error of the manager's
  context: nil as long as the manager runs. \<open>task.Context.Done()\<close> on a nil context panics.
\<close>

definition processBN254Task ::
  "'s aggregator_store \<Rightarrow> time \<Rightarrow> task \<Rightarrow> task_select \<Rightarrow> ('s, 'k) exec_manager \<Rightarrow> em_error option \<times> ('s, 'k) exec_manager" where
  "processBN254Task sops now task sel em0 =
     (let tid = task_TaskId task; em = storeInflight tid em0 in
      if task_Context task = None then (Some NilContextPanic, em)
      else (case sel of
        SelDone \<Rightarrow> (None, deleteInflight tid (setStatus sops now tid TaskStatusCompleted em))
      | SelError \<Rightarrow> (Some TaskFailed, deleteInflight tid (setStatus sops now tid TaskStatusFailed em))
      | SelTaskContextDone ctxErr \<Rightarrow>
          (case ctxErr of
             Some Canceled \<Rightarrow> (Some ContextCancelled, em)
           | Some DeadlineExceeded \<Rightarrow> (Some ContextDeadline, em)
           | None \<Rightarrow> (None, em))))"

definition processECDSATask ::
  "'s aggregator_store \<Rightarrow> time \<Rightarrow> task \<Rightarrow> task_select \<Rightarrow> ('s, 'k) exec_manager \<Rightarrow> em_error option \<times> ('s, 'k) exec_manager" where
  "processECDSATask sops now task sel em0 =
     (let tid = task_TaskId task; em = storeInflight tid em0 in
      if task_Context task = None then (Some NilContextPanic, em)
      else (case sel of
        SelDone \<Rightarrow> (None, deleteInflight tid (setStatus sops now tid TaskStatusCompleted em))
      | SelError \<Rightarrow> (Some TaskFailed, deleteInflight tid (setStatus sops now tid TaskStatusFailed em))
      | SelTaskContextDone ctxErr \<Rightarrow>
          (case ctxErr of
             Some Canceled \<Rightarrow> (Some ContextCancelled, em)
           | Some DeadlineExceeded \<Rightarrow> (Some ContextDeadline, setStatus sops now tid TaskStatusFailed em)
           | None \<Rightarrow> (None, em))))"

text \<open>
  \<open>handleTask\<close>. \<open>selB\<close> and \<open>selE\<close> give what the final \<open>select\<close> sees for the session that was created.
  The task is updated in place with its threshold and its L1 reference block.
\<close>

definition handleTask ::
  "eth_common \<Rightarrow> ('pub, 'sig, 'g2, 'k) bn254_lib \<Rightarrow> 's aggregator_store \<Rightarrow> time \<Rightarrow>
     (('k, ('pub, 'sig, 'k) bn254_aggregator) task_session \<Rightarrow> task_select) \<Rightarrow>
     (('k, 'esig ecdsa_aggregator) task_session \<Rightarrow> task_select) \<Rightarrow>
     task \<Rightarrow> ('s, 'k) exec_manager \<Rightarrow> em_error option \<times> ('s, 'k) exec_manager" where
  "handleTask eth lib sops now selB selE task0 em0 =
     (if gm_get (em_inflightTasks em0) (task_TaskId task0) \<noteq> None then (Some AlreadyInFlight, em0)
      else (let em1 = setStatus sops now (task_TaskId task0) TaskStatusProcessing em0 in
      case getExecutorTaskConfig eth em1 task0 of
        Inl e \<Rightarrow> (Some e, em1)
      | Inr taskConfig \<Rightarrow>
      (let task = task0\<lparr>task_ThresholdBips := otc_Threshold taskConfig,
                        task_L1ReferenceBlockNumber := otc_L1ReferenceBlockNumber taskConfig\<rparr> in
      (case getAvsConfigAt em1 (task_L1ReferenceBlockNumber task) of
        (Inl e, em2) \<Rightarrow> (Some e, em2)
      | (Inr avsConfig, em2) \<Rightarrow>
      if eac_curveType avsConfig \<noteq> CurveTypeBN254 \<and> eac_curveType avsConfig \<noteq> CurveTypeECDSA
      then (Some UnsupportedCurve, em2)
      else (case getContractCallerForChain em2 (task_ChainId task) of
        Inl e \<Rightarrow> (Some e, em2)
      | Inr chainCC \<Rightarrow>
      (case getExecutorPeersAndWeightsForTask eth (em_operatorManager em2) task (otc_CurveType taskConfig) of
        Inl e \<Rightarrow> (Some (PeersError e), em2)
      | Inr pw \<Rightarrow>
      if length (pw_Operators pw) = 0 then (Some NoOperators, em2)
      else (case getCurveTypeForOperatorSet (em_operatorManager em2) (task_AVSAddress task) (task_OperatorSetId task)
                   (task_L1ReferenceBlockNumber task) of
        Inl e \<Rightarrow> (Some (PeersError e), em2)
      | Inr opsetCurveType \<Rightarrow>
      if gm_get (em_chainContractCallers em2) (emc_L1ChainId (em_config em2)) = None then (Some L1CallerMissing, em2)
      else if opsetCurveType = CurveTypeBN254 then
        (case newBN254TaskSession lib task (emc_AggregatorAddress (em_config em2)) pw (emc_TlsEnabled (em_config em2)) of
           Inl e \<Rightarrow> (Some (SessionError e), em2)
         | Inr ts \<Rightarrow> processBN254Task sops now task (selB ts) em2)
      else if opsetCurveType = CurveTypeECDSA then
        (case newECDSATaskSession task (emc_AggregatorAddress (em_config em2)) pw (emc_TlsEnabled (em_config em2)) of
           Inl e \<Rightarrow> (Some (SessionError e), em2)
         | Inr ts \<Rightarrow> processECDSATask sops now task (selE ts) em2)
      else (Some UnsupportedCurve, em2))))))))"

section \<open>Recovery\<close>

text \<open>
  \<open>recoverPendingTasks\<close>: the send on the queue succeeds only when a receiver or a slot is ready at
  once (\<open>room\<close>).
\<close>

fun recoverPending ::
  "'s aggregator_store \<Rightarrow> time \<Rightarrow> (task list \<Rightarrow> bool) \<Rightarrow> task list \<Rightarrow> task list \<Rightarrow> ('s, 'k) exec_manager \<Rightarrow>
     task list \<times> ('s, 'k) exec_manager" where
  "recoverPending sops now room [] queue em = (queue, em)"
| "recoverPending sops now room (task # tasks) queue em =
     (if (case task_DeadlineUnixSeconds task of None \<Rightarrow> False | Some d \<Rightarrow> now > d)
      then recoverPending sops now room tasks queue (setStatus sops now (task_TaskId task) TaskStatusFailed em)
      else if gm_get (em_inflightTasks em) (task_TaskId task) \<noteq> None then recoverPending sops now room tasks queue em
      else if room queue then recoverPending sops now room tasks (queue @ [task]) em
      else recoverPending sops now room tasks queue em)"

definition recoverPendingTasks ::
  "'s aggregator_store \<Rightarrow> time \<Rightarrow> (task list \<Rightarrow> bool) \<Rightarrow> task list \<Rightarrow> ('s, 'k) exec_manager \<Rightarrow>
     em_error option \<times> task list \<times> ('s, 'k) exec_manager" where
  "recoverPendingTasks sops now room queue em =
     (case sListPendingTasksForAVS sops (em_store em) (emc_AvsAddress (em_config em)) of
        Inl e \<Rightarrow> (Some ListPendingError, queue, em)
      | Inr tasks \<Rightarrow> (case recoverPending sops now room tasks queue em of (q, em') \<Rightarrow> (None, q, em')))"

section \<open>How a task ends\<close>

lemma em_simps [simp]:
  "em_inflightTasks (setStatus sops now tid st em) = em_inflightTasks em"
  "em_config (setStatus sops now tid st em) = em_config em"
  "em_operatorManager (setStatus sops now tid st em) = em_operatorManager em"
  "em_chainContractCallers (setStatus sops now tid st em) = em_chainContractCallers em"
  "em_store (setStatus sops now tid st em) = snd (sUpdateTaskStatus sops now (em_store em) tid st)"
  "em_store (storeInflight tid em) = em_store em" "em_store (deleteInflight tid em) = em_store em"
  "em_inflightTasks (storeInflight tid em) = gm_put (em_inflightTasks em) tid ()"
  "em_inflightTasks (deleteInflight tid em) = gm_del (em_inflightTasks em) tid"
  by (simp_all add: setStatus_def storeInflight_def deleteInflight_def)

lemma getAvsConfigAt_keeps:
  "getAvsConfigAt em bn = (r, em') \<Longrightarrow> em_store em' = em_store em \<and> em_inflightTasks em' = em_inflightTasks em \<and>
    em_config em' = em_config em \<and> em_operatorManager em' = em_operatorManager em"
  by (auto simp: getAvsConfigAt_def Let_def split: option.splits)

text \<open>
  The ways through \<open>handleTask\<close>: refused because the task is in flight, stopped by an error before a
  session exists, or handed to a session of one of the two curves.
\<close>

lemma handleTask_cases:
  assumes "handleTask eth lib sops now selB selE task0 em0 = (e, em')"
  obtains (refused) "gm_get (em_inflightTasks em0) (task_TaskId task0) \<noteq> None" "e = Some AlreadyInFlight" "em' = em0"
  | (early) err where "gm_get (em_inflightTasks em0) (task_TaskId task0) = None" "e = Some err"
      "em_store em' = snd (sUpdateTaskStatus sops now (em_store em0) (task_TaskId task0) TaskStatusProcessing)"
      "em_inflightTasks em' = em_inflightTasks em0"
  | (bn254) task em2 pw ts and tc :: operator_set_task_config where "gm_get (em_inflightTasks em0) (task_TaskId task0) = None"
      "em_store em2 = snd (sUpdateTaskStatus sops now (em_store em0) (task_TaskId task0) TaskStatusProcessing)"
      "em_inflightTasks em2 = em_inflightTasks em0"
      "task = task0\<lparr>task_ThresholdBips := otc_Threshold tc, task_L1ReferenceBlockNumber := otc_L1ReferenceBlockNumber tc\<rparr>"
      "getExecutorPeersAndWeightsForTask eth (em_operatorManager em0) task (otc_CurveType tc) = Inr pw" "pw_Operators pw \<noteq> []"
      "newBN254TaskSession lib task (emc_AggregatorAddress (em_config em0)) pw (emc_TlsEnabled (em_config em0)) = Inr ts"
      "processBN254Task sops now task (selB ts) em2 = (e, em')"
  | (ecdsa) task em2 pw ts and tc :: operator_set_task_config where "gm_get (em_inflightTasks em0) (task_TaskId task0) = None"
      "em_store em2 = snd (sUpdateTaskStatus sops now (em_store em0) (task_TaskId task0) TaskStatusProcessing)"
      "em_inflightTasks em2 = em_inflightTasks em0"
      "task = task0\<lparr>task_ThresholdBips := otc_Threshold tc, task_L1ReferenceBlockNumber := otc_L1ReferenceBlockNumber tc\<rparr>"
      "getExecutorPeersAndWeightsForTask eth (em_operatorManager em0) task (otc_CurveType tc) = Inr pw" "pw_Operators pw \<noteq> []"
      "newECDSATaskSession task (emc_AggregatorAddress (em_config em0)) pw (emc_TlsEnabled (em_config em0)) = Inr ts"
      "processECDSATask sops now task (selE ts) em2 = (e, em')"
proof (cases "gm_get (em_inflightTasks em0) (task_TaskId task0)")
  case (Some u)
  with assms have "e = Some AlreadyInFlight" "em' = em0" by (simp_all add: handleTask_def)
  with Some show thesis by (intro refused) simp_all
next
  case fresh: None
  let ?em1 = "setStatus sops now (task_TaskId task0) TaskStatusProcessing em0"
  show thesis
  proof (cases "getExecutorTaskConfig eth ?em1 task0")
    case (Inl err)
    with assms fresh show thesis by (intro early) (auto simp: handleTask_def)
  next
    case tc: (Inr tc)
    let ?task = "task0\<lparr>task_ThresholdBips := otc_Threshold tc, task_L1ReferenceBlockNumber := otc_L1ReferenceBlockNumber tc\<rparr>"
    obtain r em2 where av: "getAvsConfigAt ?em1 (otc_L1ReferenceBlockNumber tc) = (r, em2)" by fastforce
    note keeps = getAvsConfigAt_keeps [OF av, simplified]
    show thesis
    proof (cases "\<exists>err. e = Some err \<and> em' = em2")
      case True
      with fresh keeps early show thesis by auto
    next
      case False
      note run = assms [unfolded handleTask_def Let_def]
      obtain avsConfig where r: "r = Inr avsConfig"
        using run fresh tc av False by (cases r) simp_all
      have curve: "eac_curveType avsConfig = CurveTypeBN254 \<or> eac_curveType avsConfig = CurveTypeECDSA"
        using run fresh tc av False r by (cases "eac_curveType avsConfig") simp_all
      obtain cc where cc: "getContractCallerForChain em2 (task_ChainId task0) = Inr cc"
        using run fresh tc av False r curve by (cases "getContractCallerForChain em2 (task_ChainId task0)") auto
      obtain pw where pw: "getExecutorPeersAndWeightsForTask eth (em_operatorManager em2) ?task (otc_CurveType tc) = Inr pw"
        using run fresh tc av False r curve cc
        by (cases "getExecutorPeersAndWeightsForTask eth (em_operatorManager em2) ?task (otc_CurveType tc)") auto
      have ops: "pw_Operators pw \<noteq> []"
        using run fresh tc av False r curve cc pw by auto
      obtain ct where ct: "getCurveTypeForOperatorSet (em_operatorManager em2) (task_AVSAddress task0)
          (task_OperatorSetId task0) (otc_L1ReferenceBlockNumber tc) = Inr ct"
        using run fresh tc av False r curve cc pw ops
        by (cases "getCurveTypeForOperatorSet (em_operatorManager em2) (task_AVSAddress task0)
              (task_OperatorSetId task0) (otc_L1ReferenceBlockNumber tc)") auto
      have l1: "gm_get (em_chainContractCallers em2) (emc_L1ChainId (em_config em2)) \<noteq> None"
        using curve run fresh tc av False r cc pw ops ct
        by (cases "gm_get (em_chainContractCallers em2) (emc_L1ChainId (em_config em2))") (elim disjE, simp_all)
      have sess: "(if ct = CurveTypeBN254 then
          (case newBN254TaskSession lib ?task (emc_AggregatorAddress (em_config em2)) pw (emc_TlsEnabled (em_config em2)) of
             Inl e \<Rightarrow> (Some (SessionError e), em2)
           | Inr ts \<Rightarrow> processBN254Task sops now ?task (selB ts) em2)
          else if ct = CurveTypeECDSA then
          (case newECDSATaskSession ?task (emc_AggregatorAddress (em_config em2)) pw (emc_TlsEnabled (em_config em2)) of
             Inl e \<Rightarrow> (Some (SessionError e), em2)
           | Inr ts \<Rightarrow> processECDSATask sops now ?task (selE ts) em2)
          else (Some UnsupportedCurve, em2)) = (e, em')"
        using curve run fresh tc av r cc pw ops ct l1 by (elim disjE) simp_all
      from sess False consider ts where "newBN254TaskSession lib ?task (emc_AggregatorAddress (em_config em2)) pw (emc_TlsEnabled (em_config em2)) = Inr ts"
          "processBN254Task sops now ?task (selB ts) em2 = (e, em')"
        | ts where "newECDSATaskSession ?task (emc_AggregatorAddress (em_config em2)) pw (emc_TlsEnabled (em_config em2)) = Inr ts"
          "processECDSATask sops now ?task (selE ts) em2 = (e, em')"
        by (auto split: if_splits sum.splits)
      then show thesis
      proof cases
        case 1
        with fresh keeps pw ops show thesis by (intro bn254 [of em2 ?task tc pw ts]) simp_all
      next
        case 2
        with fresh keeps pw ops show thesis by (intro ecdsa [of em2 ?task tc pw ts]) simp_all
      qed
    qed
  qed
qed

context task_store
begin

lemma bn254_task_end:
  assumes "invar (em_store em)" "\<not> is_closed (em_store em)" "tasksOf (em_store em) (task_TaskId task) = Some (t, TaskStatusProcessing)"
    and "task_Context task \<noteq> None" "processBN254Task ops now task sel em = (e, em')"
  shows "case sel of
      SelDone \<Rightarrow> e = None \<and> tasksOf (em_store em') (task_TaskId task) = Some (t, TaskStatusCompleted) \<and>
        gm_get (em_inflightTasks em') (task_TaskId task) = None
    | SelError \<Rightarrow> e = Some TaskFailed \<and> tasksOf (em_store em') (task_TaskId task) = Some (t, TaskStatusFailed) \<and>
        gm_get (em_inflightTasks em') (task_TaskId task) = None
    | SelTaskContextDone c \<Rightarrow> (e = None \<longleftrightarrow> c = None) \<and>
        tasksOf (em_store em') (task_TaskId task) = Some (t, TaskStatusProcessing) \<and>
        gm_get (em_inflightTasks em') (task_TaskId task) \<noteq> None"
  using assms update_legal [OF assms(1-3), of TaskStatusCompleted now] update_legal [OF assms(1-3), of TaskStatusFailed now]
  by (auto simp: processBN254Task_def Let_def legal_transition.simps split: task_select.splits option.splits ctx_error.splits)

lemma ecdsa_task_end:
  assumes "invar (em_store em)" "\<not> is_closed (em_store em)" "tasksOf (em_store em) (task_TaskId task) = Some (t, TaskStatusProcessing)"
    and "task_Context task \<noteq> None" "processECDSATask ops now task sel em = (e, em')"
  shows "case sel of
      SelDone \<Rightarrow> e = None \<and> tasksOf (em_store em') (task_TaskId task) = Some (t, TaskStatusCompleted) \<and>
        gm_get (em_inflightTasks em') (task_TaskId task) = None
    | SelError \<Rightarrow> e = Some TaskFailed \<and> tasksOf (em_store em') (task_TaskId task) = Some (t, TaskStatusFailed) \<and>
        gm_get (em_inflightTasks em') (task_TaskId task) = None
    | SelTaskContextDone c \<Rightarrow> (e = None \<longleftrightarrow> c = None) \<and> (c = Some DeadlineExceeded \<longrightarrow> e = Some ContextDeadline) \<and>
        tasksOf (em_store em') (task_TaskId task) =
          Some (t, if c = Some DeadlineExceeded then TaskStatusFailed else TaskStatusProcessing) \<and>
        gm_get (em_inflightTasks em') (task_TaskId task) \<noteq> None"
  using assms update_legal [OF assms(1-3), of TaskStatusCompleted now] update_legal [OF assms(1-3), of TaskStatusFailed now]
  by (auto simp: processECDSATask_def Let_def legal_transition.simps split: task_select.splits option.splits ctx_error.splits)

text \<open>A pending task is taken to processing and never left pending; an early error leaves it processing.\<close>

lemma handleTask_status:
  assumes s: "invar (em_store em)" "\<not> is_closed (em_store em)"
    and pend: "tasksOf (em_store em) (task_TaskId task) = Some (t, TaskStatusPending)"
    and "task_Context task \<noteq> None" "gm_get (em_inflightTasks em) (task_TaskId task) = None"
    and "handleTask eth lib ops now selB selE task em = (e, em')"
  shows "\<exists>st. tasksOf (em_store em') (task_TaskId task) = Some (t, st) \<and>
    (st = TaskStatusCompleted \<longrightarrow> e = None \<and> ((\<exists>ts. selB ts = SelDone) \<or> (\<exists>ts. selE ts = SelDone))) \<and>
    (st = TaskStatusFailed \<longrightarrow> e = Some TaskFailed \<or> e = Some ContextDeadline) \<and>
    (st = TaskStatusCompleted \<or> st = TaskStatusFailed \<or> st = TaskStatusProcessing)"
proof -
  let ?s1 = "snd (sUpdateTaskStatus ops now (em_store em) (task_TaskId task) TaskStatusProcessing)"
  have s1: "invar ?s1" "\<not> is_closed ?s1" "tasksOf ?s1 (task_TaskId task) = Some (t, TaskStatusProcessing)"
    using update_legal [OF s pend, of TaskStatusProcessing now] by (auto simp: legal_transition.simps)
  from assms(6) show ?thesis
  proof (rule handleTask_cases, goal_cases refused early bn254 ecdsa)
    case refused
    with assms(5) show ?thesis by simp
  next
    case early
    with s1 show ?thesis by simp
  next
    case (bn254 task2 em2 pw ts tc)
    with bn254_task_end [of em2 task2 t now "selB ts" e em'] s1 assms(4) show ?thesis
      by (auto split: task_select.splits)
  next
    case (ecdsa task2 em2 pw ts tc)
    with ecdsa_task_end [of em2 task2 t now "selE ts" e em'] s1 assms(4) show ?thesis
      by (auto split: task_select.splits if_splits)
  qed
qed

end

end
