(* ===== verification/Block_Contexts.thy ===== *)
theory Block_Contexts
  imports Memory_Store
begin

text \<open>
  \<open>ponos/pkg/contextManager/taskBlockContextManager/taskBlockContextManager.go\<close>: one Go context per
  source block, shared by the tasks of the block, cancelled when the block is orphaned. A context
  is an entry of a heap (its deadline, whether it was cancelled), named by its identifier; a
  context is done when it is cancelled, past its deadline, or when the parent is done.
\<close>

section \<open>State\<close>

record go_context =
  gc_deadline :: time
  gc_cancelled :: bool

record block_context =
  bctx_Ctx :: ctx_id
  bctx_TaskIDs :: "(string \<times> unit) list"

record ctx_manager =
  cm_blockContexts :: "(u64 \<times> block_context) list"
  cm_contexts :: "(ctx_id \<times> go_context) list"
  cm_parentDone :: bool

definition newTaskBlockContextManager :: "bool \<Rightarrow> ctx_manager" where
  "newTaskBlockContextManager parentDone =
     \<lparr>cm_blockContexts = [], cm_contexts = [], cm_parentDone = parentDone\<rparr>"

definition ctxDone :: "ctx_manager \<Rightarrow> time \<Rightarrow> ctx_id \<Rightarrow> bool" where
  "ctxDone cm now c = (cm_parentDone cm \<or>
     (case gm_get (cm_contexts cm) c of None \<Rightarrow> False | Some g \<Rightarrow> gc_cancelled g \<or> gc_deadline g \<le> now))"

section \<open>Operations\<close>

text \<open>
  \<open>GetContext\<close>: a block that already has a context gives it to every further task, whatever the
  deadline of that task. \<open>*task.DeadlineUnixSeconds\<close> panics on a nil deadline: \<open>None\<close>.
\<close>

definition freshCtx :: "ctx_manager \<Rightarrow> ctx_id" where
  "freshCtx cm = Suc (foldr max (map fst (cm_contexts cm)) 0)"

definition getContext :: "ctx_manager \<Rightarrow> u64 \<Rightarrow> task \<Rightarrow> (ctx_id \<times> ctx_manager) option" where
  "getContext cm blockNumber task =
     (case gm_get (cm_blockContexts cm) blockNumber of
        Some blockCtx \<Rightarrow>
          Some (bctx_Ctx blockCtx, cm\<lparr>cm_blockContexts := gm_put (cm_blockContexts cm) blockNumber
            (blockCtx\<lparr>bctx_TaskIDs := gm_put (bctx_TaskIDs blockCtx) (task_TaskId task) ()\<rparr>)\<rparr>)
      | None \<Rightarrow>
          (case task_DeadlineUnixSeconds task of
             None \<Rightarrow> None
           | Some d \<Rightarrow>
               (let c = freshCtx cm
                in Some (c, cm\<lparr>cm_contexts := gm_put (cm_contexts cm) c \<lparr>gc_deadline = d, gc_cancelled = False\<rparr>,
                     cm_blockContexts := gm_put (cm_blockContexts cm) blockNumber
                       \<lparr>bctx_Ctx = c, bctx_TaskIDs = [(task_TaskId task, ())]\<rparr>\<rparr>))))"

fun deleteTasks :: "'s aggregator_store \<Rightarrow> 's \<Rightarrow> string list \<Rightarrow> 's" where
  "deleteTasks sops s [] = s"
| "deleteTasks sops s (taskID # ids) = deleteTasks sops (snd (sDeleteTask sops s taskID)) ids"

definition cancelBlock :: "'s aggregator_store \<Rightarrow> ctx_manager \<Rightarrow> 's \<Rightarrow> u64 \<Rightarrow> ctx_manager \<times> 's" where
  "cancelBlock sops cm s blockNumber =
     (case gm_get (cm_blockContexts cm) blockNumber of
        None \<Rightarrow> (cm, s)
      | Some blockCtx \<Rightarrow>
          (cm\<lparr>cm_contexts := AList.map_entry (bctx_Ctx blockCtx) (\<lambda>g. g\<lparr>gc_cancelled := True\<rparr>) (cm_contexts cm),
              cm_blockContexts := gm_del (cm_blockContexts cm) blockNumber\<rparr>,
           deleteTasks sops s (map fst (bctx_TaskIDs blockCtx))))"

definition cleanupContexts :: "ctx_manager \<Rightarrow> time \<Rightarrow> ctx_manager" where
  "cleanupContexts cm now =
     (let blocksToRemove = map fst (filter (\<lambda>(b, bc). ctxDone cm now (bctx_Ctx bc)) (cm_blockContexts cm))
      in cm\<lparr>cm_blockContexts := foldl (\<lambda>m b. gm_del m b) (cm_blockContexts cm) blocksToRemove\<rparr>)"

text \<open>The task identifiers registered for a block.\<close>

definition blockTasks :: "ctx_manager \<Rightarrow> u64 \<Rightarrow> string set" where
  "blockTasks cm b = (case gm_get (cm_blockContexts cm) b of None \<Rightarrow> {} | Some bc \<Rightarrow> fst ` set (bctx_TaskIDs bc))"

definition cm_invar :: "ctx_manager \<Rightarrow> bool" where
  "cm_invar cm \<longleftrightarrow> gm_wf (cm_blockContexts cm) \<and> gm_wf (cm_contexts cm) \<and>
     (\<forall>b bc. gm_get (cm_blockContexts cm) b = Some bc \<longrightarrow> gm_get (cm_contexts cm) (bctx_Ctx bc) \<noteq> None) \<and>
     (\<forall>b b' bc bc'. gm_get (cm_blockContexts cm) b = Some bc \<longrightarrow> gm_get (cm_blockContexts cm) b' = Some bc' \<longrightarrow>
        bctx_Ctx bc = bctx_Ctx bc' \<longrightarrow> b = b')"

section \<open>Properties\<close>

lemma cm_invar_ctx:
  "cm_invar cm \<Longrightarrow> gm_get (cm_blockContexts cm) b = Some bc \<Longrightarrow> \<exists>g. gm_get (cm_contexts cm) (bctx_Ctx bc) = Some g"
  by (auto simp: cm_invar_def)

lemma le_foldr_max: "n \<in> set xs \<Longrightarrow> n \<le> foldr max xs (0::nat)"
  by (induction xs) auto

lemma freshCtx_fresh: "gm_get (cm_contexts cm) (freshCtx cm) = None"
  using le_foldr_max [of "freshCtx cm" "map fst (cm_contexts cm)"]
  by (auto simp: freshCtx_def map_of_eq_None_iff)

lemma cm_invar_new [simp]: "cm_invar (newTaskBlockContextManager p)"
  by (simp add: cm_invar_def newTaskBlockContextManager_def)

lemma getContext_cases:
  assumes "getContext cm b t = Some (c, cm')"
  obtains (shared) bc where "gm_get (cm_blockContexts cm) b = Some bc" "c = bctx_Ctx bc"
      "cm_contexts cm' = cm_contexts cm" "cm_parentDone cm' = cm_parentDone cm"
      "cm_blockContexts cm' = gm_put (cm_blockContexts cm) b
         (bc\<lparr>bctx_TaskIDs := gm_put (bctx_TaskIDs bc) (task_TaskId t) ()\<rparr>)"
  | (created) d where "gm_get (cm_blockContexts cm) b = None" "task_DeadlineUnixSeconds t = Some d"
      "gm_get (cm_contexts cm) c = None" "cm_parentDone cm' = cm_parentDone cm"
      "cm_contexts cm' = gm_put (cm_contexts cm) c \<lparr>gc_deadline = d, gc_cancelled = False\<rparr>"
      "cm_blockContexts cm' = gm_put (cm_blockContexts cm) b \<lparr>bctx_Ctx = c, bctx_TaskIDs = [(task_TaskId t, ())]\<rparr>"
  using assms freshCtx_fresh [of cm]
  by (auto simp: getContext_def Let_def split: option.splits)

lemma getContext_invar:
  assumes "cm_invar cm" "getContext cm b t = Some (c, cm')"
  shows "cm_invar cm'"
  using assms(2)
proof (cases rule: getContext_cases)
  case (shared bc)
  then show ?thesis using assms(1) by (auto simp: cm_invar_def split: if_splits)
next
  case (created d)
  have "bctx_Ctx bc \<noteq> c" if "gm_get (cm_blockContexts cm) b' = Some bc" for b' bc
    using that created(3) assms(1) unfolding cm_invar_def by metis
  with created show ?thesis
    using assms(1) unfolding cm_invar_def by (auto split: if_splits)
qed

lemma getContext_registers:
  assumes "getContext cm b t = Some (c, cm')"
  shows "blockTasks cm' b = insert (task_TaskId t) (blockTasks cm b)"
    and "b' \<noteq> b \<Longrightarrow> blockTasks cm' b' = blockTasks cm b'"
  using assms by (cases rule: getContext_cases; auto simp: blockTasks_def dom_update)+

lemma getContext_done:
  assumes "getContext cm b t = Some (c, cm')"
  shows "c' \<noteq> c \<Longrightarrow> ctxDone cm' now c' = ctxDone cm now c'"
  using assms by (cases rule: getContext_cases) (auto simp: ctxDone_def)

context task_store
begin

lemma deleteTasks_keeps:
  assumes "invar s" "\<not> is_closed s"
  shows "invar (deleteTasks ops s ids) \<and> \<not> is_closed (deleteTasks ops s ids) \<and>
    blocksOf (deleteTasks ops s ids) = blocksOf s \<and>
    tasksOf (deleteTasks ops s ids) = (\<lambda>tid. if tid \<in> set ids then None else tasksOf s tid)"
  using assms
proof (induction ids arbitrary: s)
  case (Cons i ids)
  from deleteTask_keeps [OF Cons.prems, of i] Cons.IH [of "snd (sDeleteTask ops s i)"]
  show ?case by auto
qed auto

text \<open>
  Cancelling a block ends its context, removes exactly the tasks registered for the block from the
  store, and forgets the block; blocks of the store, other tasks and other contexts stay.
\<close>

lemma cancelBlock_effect:
  assumes "invar s" "\<not> is_closed s" "cm_invar cm" "cancelBlock ops cm s b = (cm', s')"
  shows "invar s' \<and> \<not> is_closed s' \<and> cm_invar cm' \<and> blocksOf s' = blocksOf s \<and>
    tasksOf s' = (\<lambda>tid. if tid \<in> blockTasks cm b then None else tasksOf s tid) \<and>
    gm_get (cm_blockContexts cm') = (gm_get (cm_blockContexts cm))(b := None) \<and>
    cm_parentDone cm' = cm_parentDone cm"
proof (cases "gm_get (cm_blockContexts cm) b")
  case None
  with assms show ?thesis by (auto simp: cancelBlock_def blockTasks_def fun_upd_idem)
next
  case (Some bc)
  with assms(4) have cm': "cm_blockContexts cm' = gm_del (cm_blockContexts cm) b"
    "cm_contexts cm' = AList.map_entry (bctx_Ctx bc) (\<lambda>g. g\<lparr>gc_cancelled := True\<rparr>) (cm_contexts cm)"
    "cm_parentDone cm' = cm_parentDone cm"
    and s': "s' = deleteTasks ops s (map fst (bctx_TaskIDs bc))"
    by (auto simp: cancelBlock_def)
  have "cm_invar cm'"
    using assms(3) cm_invar_ctx [OF assms(3) Some] unfolding cm_invar_def cm' by (auto split: if_splits)
  with Some cm' s' deleteTasks_keeps [OF assms(1,2), of "map fst (bctx_TaskIDs bc)"] show ?thesis
    by (simp add: blockTasks_def fun_upd_def)
qed

end

lemma cancelBlock_done:
  assumes "cm_invar cm" "gm_get (cm_blockContexts cm) b = Some bc" "cancelBlock sops cm s b = (cm', s')"
  shows "ctxDone cm' now (bctx_Ctx bc)" and "c \<noteq> bctx_Ctx bc \<Longrightarrow> ctxDone cm' now c = ctxDone cm now c"
  using assms cm_invar_ctx [OF assms(1,2)] by (auto simp: cancelBlock_def ctxDone_def split: option.splits)

lemma foldl_del: "gm_get (foldl (\<lambda>m b. gm_del m b) m bs) = (\<lambda>b. if b \<in> set bs then None else gm_get m b)"
  by (induction bs arbitrary: m) (auto simp: fun_eq_iff)

text \<open>Cleaning up forgets exactly the blocks whose context is done.\<close>

lemma cleanup_blocks:
  assumes "cm_invar cm"
  shows "gm_get (cm_blockContexts (cleanupContexts cm now)) b =
    (case gm_get (cm_blockContexts cm) b of
       None \<Rightarrow> None | Some bc \<Rightarrow> if ctxDone cm now (bctx_Ctx bc) then None else Some bc)"
proof -
  have "b \<in> fst ` set (filter (\<lambda>(b, bc). ctxDone cm now (bctx_Ctx bc)) (cm_blockContexts cm)) \<longleftrightarrow>
      (\<exists>bc. gm_get (cm_blockContexts cm) b = Some bc \<and> ctxDone cm now (bctx_Ctx bc))"
    using assms by (force simp: cm_invar_def gm_mem_iff)
  then show ?thesis by (auto simp: cleanupContexts_def foldl_del split: option.splits)
qed

end
