(* ===== verification/Contract_Store.thy ===== *)
theory Contract_Store
  imports Hourglass_Prelude
begin

text \<open>
  \<open>ponos/pkg/contractStore/inMemoryContractStore/inMemoryContractStore.go\<close>: the contracts the
  aggregator knows, looked up by name or address and overridden from the configuration.
  \<open>contracts\<close> is the slice of the store; the entries are replaced, never changed in place.
\<close>

record contract =
  co_Name :: string
  co_Address :: string
  co_AbiVersions :: "string list"
  co_ChainId :: chain_id

type_synonym contract_store = "contract list"

definition contractName_TaskMailbox :: string where
  "contractName_TaskMailbox = ''TaskMailbox''"

definition getContractByNameForChainId :: "contract_store \<Rightarrow> string \<Rightarrow> chain_id \<Rightarrow> contract option" where
  "getContractByNameForChainId ics name chainId =
     utilFind ics (\<lambda>c. equalFold (co_Name c) name \<and> co_ChainId c = chainId)"

definition getContractByAddress :: "contract_store \<Rightarrow> string \<Rightarrow> contract option" where
  "getContractByAddress ics address =
     (let addr = toLower address in utilFind ics (\<lambda>c. equalFold (co_Address c) addr))"

definition listContractAddressesForChain :: "contract_store \<Rightarrow> chain_id \<Rightarrow> string list" where
  "listContractAddressesForChain ics chainId =
     map fst (utilReduce ics (\<lambda>acc c. if co_ChainId c = chainId then gm_put acc (toLower (co_Address c)) c else acc) [])"

fun overrideLoop :: "string \<Rightarrow> chain_id list \<Rightarrow> contract \<Rightarrow> contract_store \<Rightarrow> bool \<times> contract_store" where
  "overrideLoop name chainIds contract [] = (False, [])"
| "overrideLoop name chainIds contract (orig # rest) =
     (case overrideLoop name chainIds contract rest of (found, rest') \<Rightarrow>
      if co_Name orig = name \<and> (length chainIds = 0 \<or> co_ChainId orig \<in> set chainIds)
      then (True, \<lparr>co_Name = co_Name orig, co_Address = co_Address contract,
                   co_AbiVersions = co_AbiVersions contract, co_ChainId = co_ChainId orig\<rparr> # rest')
      else (found, orig # rest'))"

definition overrideContract :: "contract_store \<Rightarrow> string \<Rightarrow> chain_id list \<Rightarrow> contract \<Rightarrow> contract_store" where
  "overrideContract ics name chainIds contract =
     (case overrideLoop name chainIds contract ics of (found, ics') \<Rightarrow>
      if found then ics'
      else ics' @ map (\<lambda>chainId. \<lparr>co_Name = co_Name contract, co_Address = co_Address contract,
             co_AbiVersions = co_AbiVersions contract, co_ChainId = chainId\<rparr>) chainIds)"

section \<open>Lookups after an override\<close>

lemma overrideLoop_snd:
  "snd (overrideLoop name chainIds contract ics) =
     map (\<lambda>o'. if co_Name o' = name \<and> (chainIds = [] \<or> co_ChainId o' \<in> set chainIds)
       then o'\<lparr>co_Address := co_Address contract, co_AbiVersions := co_AbiVersions contract\<rparr> else o') ics"
  by (induction ics) (auto split: prod.splits)

lemma overrideLoop_fst:
  "fst (overrideLoop name chainIds contract ics) \<longleftrightarrow>
     (\<exists>o'\<in>set ics. co_Name o' = name \<and> (chainIds = [] \<or> co_ChainId o' \<in> set chainIds))"
  by (induction ics) (auto split: prod.splits)

lemma find_map_keep:
  "(\<And>x. P (f x) = P x) \<Longrightarrow> find P (map f xs) = map_option f (find P xs)"
  by (induction xs) auto

lemma addresses_fold:
  "set (map fst (foldl (\<lambda>acc c. if co_ChainId c = ch then gm_put acc (toLower (co_Address c)) c else acc) m ics)) =
     set (map fst m) \<union> {toLower (co_Address c) |c. c \<in> set ics \<and> co_ChainId c = ch}"
proof (induction ics arbitrary: m)
  case (Cons c ics)
  have "set (map fst (gm_put m k c)) = insert k (set (map fst m))" for k
    by (simp add: dom_map_of_conv_image_fst [symmetric])
  with Cons show ?case by auto
qed simp

lemma addresses_distinct:
  "distinct (map fst m) \<Longrightarrow>
   distinct (map fst (foldl (\<lambda>acc c. if co_ChainId c = ch then gm_put acc (toLower (co_Address c)) c else acc) m ics))"
  by (induction ics arbitrary: m) (auto simp: distinct_update)

section \<open>Properties\<close>

text \<open>
  The addresses polled on a chain are exactly the lower-cased addresses of the contracts of that
  chain, each once, whatever duplicates the store holds.
\<close>

theorem contract_addresses_exact:
  "distinct (listContractAddressesForChain ics ch) \<and>
   set (listContractAddressesForChain ics ch) = {toLower (co_Address c) |c. c \<in> set ics \<and> co_ChainId c = ch}"
  by (simp add: listContractAddressesForChain_def go_simps addresses_distinct addresses_fold [simplified])

text \<open>
  An override takes effect: after overriding a contract on a list of chains, looking it up by name
  on one of these chains finds the override's address and ABI, if some entry of the name was there or
  none was (names that agree up to case being equal).
\<close>

theorem override_lookup:
  assumes names: "\<forall>o'\<in>set ics. equalFold (co_Name o') name \<longrightarrow> co_Name o' = name"
    and "co_Name contract = name" "ch \<in> set chainIds"
    and "(\<exists>o'\<in>set ics. co_Name o' = name \<and> co_ChainId o' = ch) \<or> (\<nexists>o'. o' \<in> set ics \<and> co_Name o' = name)"
  shows "map_option co_Address (getContractByNameForChainId (overrideContract ics name chainIds contract) name ch) =
      Some (co_Address contract)"
proof (cases "\<exists>o'\<in>set ics. co_Name o' = name \<and> co_ChainId o' = ch")
  case True
  let ?f = "\<lambda>o'. if co_Name o' = name \<and> (chainIds = [] \<or> co_ChainId o' \<in> set chainIds)
       then o'\<lparr>co_Address := co_Address contract, co_AbiVersions := co_AbiVersions contract\<rparr> else o'"
  from True assms(3) have ov: "overrideContract ics name chainIds contract = map ?f ics"
    using overrideLoop_fst [of name chainIds contract ics] overrideLoop_snd [of name chainIds contract ics]
    by (auto simp: overrideContract_def split: prod.splits)
  let ?P = "\<lambda>c. equalFold (co_Name c) name \<and> co_ChainId c = ch"
  have "find ?P (map ?f ics) = map_option ?f (find ?P ics)" by (rule find_map_keep) simp
  moreover obtain c where "find ?P ics = Some c" "c \<in> set ics" "?P c"
    using True by (cases "find ?P ics") (auto simp: find_None_iff dest: find_SomeD)
  ultimately show ?thesis
    using ov names assms(3) by (auto simp: getContractByNameForChainId_def go_simps)
next
  case False
  with assms(4) have none: "\<And>o'. o' \<in> set ics \<Longrightarrow> co_Name o' \<noteq> name" by blast
  let ?new = "map (\<lambda>chainId. \<lparr>co_Name = co_Name contract, co_Address = co_Address contract,
             co_AbiVersions = co_AbiVersions contract, co_ChainId = chainId\<rparr>) chainIds"
  from none have ov: "overrideContract ics name chainIds contract = ics @ ?new"
    using overrideLoop_fst [of name chainIds contract ics] overrideLoop_snd [of name chainIds contract ics]
    by (auto simp: overrideContract_def map_idI split: prod.splits)
  let ?P = "\<lambda>c. equalFold (co_Name c) name \<and> co_ChainId c = ch"
  have "find ?P ics = None" using none names by (auto simp: find_None_iff)
  then have "find ?P (ics @ ?new) = find ?P ?new" by (induction ics) (auto split: if_splits)
  moreover obtain c where "find ?P ?new = Some c"
    using assms(2,3) by (cases "find ?P ?new") (auto simp: find_None_iff)
  ultimately show ?thesis
    using ov find_SomeD [of ?P ?new c] by (auto simp: getContractByNameForChainId_def go_simps)
qed

theorem override_lookup_witness:
  "map_option co_Address (getContractByNameForChainId
     (overrideContract [\<lparr>co_Name = ''TaskMailbox'', co_Address = ''0x1'', co_AbiVersions = [], co_ChainId = 1\<rparr>]
        ''TaskMailbox'' [1] \<lparr>co_Name = ''TaskMailbox'', co_Address = ''0x2'', co_AbiVersions = [], co_ChainId = 0\<rparr>)
     ''TaskMailbox'' 1) = Some ''0x2''"
  using override_lookup [of "[\<lparr>co_Name = ''TaskMailbox'', co_Address = ''0x1'', co_AbiVersions = [], co_ChainId = 1\<rparr>]"
      "''TaskMailbox''" "\<lparr>co_Name = ''TaskMailbox'', co_Address = ''0x2'', co_AbiVersions = [], co_ChainId = 0\<rparr>" 1 "[1]"]
  by simp

end
