(* ===== verification/Log_Parser.thy ===== *)
theory Log_Parser
  imports Task_Types Contract_Store Signing_Bytes
begin

text \<open>
  \<open>ponos/pkg/transactionLogParser/transactionLogParser.go\<close>: decoding an event log with the ABI of the
  contract that emitted it, and \<open>ponos/pkg/contracts/contracts.go\<close>: the ABI of a contract, put together
  from its versions.

  go-ethereum's \<open>abi\<close> package is a parameter: \<open>parseABI\<close> is \<open>ABI.UnmarshalJSON\<close>, which leaves what it has
  parsed in the receiver also when it returns an error; a parsed ABI gives \<open>EventByID\<close> and
  \<open>UnpackIntoMap\<close>; \<open>readInteger\<close> is \<open>abi.ReadInteger\<close>.
\<close>

section \<open>ABIs\<close>

datatype abi_kind = IntTy | UintTy | BoolTy | AddressTy | StringTy | BytesTy | FixedBytesTy | OtherTy

record abi_type =
  at_T :: abi_kind
  at_String :: string

record abi_argument =
  aa_Name :: string
  aa_Type :: abi_type
  aa_Indexed :: bool

record abi_event =
  ev_Name :: string
  ev_RawName :: string
  ev_Inputs :: "abi_argument list"

record contract_abi =
  abi_EventByID :: "bytes \<Rightarrow> abi_event option"
  abi_UnpackIntoMap :: "string \<Rightarrow> bytes \<Rightarrow> (string \<times> out_value) list option"

text \<open>
  \<open>spare\<close>: the bytes between the length and the capacity of the slice that \<open>hexutil.Decode\<close> returns for
  a string.
\<close>

record abi_lib =
  parseABI :: "string \<Rightarrow> contract_abi \<times> string option"
  readInteger :: "abi_type \<Rightarrow> bytes \<Rightarrow> int option"
  spare :: "string \<Rightarrow> bytes"

datatype abi_error = AbiTooShort | AbiParseFailed string

fun stripAbis :: "string list \<Rightarrow> string list option" where
  "stripAbis [] = Some []"
| "stripAbis (contractAbi # abis) =
     (if length contractAbi < 2 then None
      else map_option (\<lambda>rest. take (length contractAbi - 2) (drop 1 contractAbi) # rest) (stripAbis abis))"

fun joinComma :: "string list \<Rightarrow> string" where
  "joinComma [] = []"
| "joinComma [s] = s"
| "joinComma (s # t # ts) = s @ '','' @ joinComma (t # ts)"

definition combineAbis :: "string list \<Rightarrow> (abi_error, string) result" where
  "combineAbis abis =
     (case stripAbis abis of
        None \<Rightarrow> Inl AbiTooShort
      | Some abisToCombine \<Rightarrow> Inr (''['' @ joinComma abisToCombine @ '']''))"

definition unmarshalJsonToAbi :: "abi_lib \<Rightarrow> string \<Rightarrow> (abi_error, contract_abi) result" where
  "unmarshalJsonToAbi lib json =
     (case parseABI lib json of (a, err) \<Rightarrow>
      (case err of
         None \<Rightarrow> Inr a
       | Some e \<Rightarrow>
           if list_ex (\<lambda>pattern. sublist pattern e) [''only single receive is allowed'', ''only single fallback is allowed'']
           then Inr a else Inl (AbiParseFailed e)))"

definition getAbi :: "abi_lib \<Rightarrow> contract \<Rightarrow> (abi_error, contract_abi) result" where
  "getAbi lib c =
     (case combineAbis (co_AbiVersions c) of
        Inl e \<Rightarrow> Inl e
      | Inr combinedAbi \<Rightarrow> unmarshalJsonToAbi lib combinedAbi)"

section \<open>Topics\<close>

datatype parse_outcome = Parsed arg_value | ParseError | ParsePanic

text \<open>
  \<open>word[:31]\<close> panics beyond the capacity of the slice, \<open>word[31]\<close> beyond its length.
\<close>

definition readBool :: "bytes \<Rightarrow> bytes \<Rightarrow> parse_outcome" where
  "readBool word extra =
     (if length (word @ extra) < 31 then ParsePanic
      else if list_ex (\<lambda>b. b \<noteq> 0) (take 31 (word @ extra)) then ParseError
      else if length word \<le> 31 then ParsePanic
      else if word ! 31 = 0 then Parsed (ArgBool False)
      else if word ! 31 = 1 then Parsed (ArgBool True)
      else ParseError)"

definition parseLogValueForType :: "eth_common \<Rightarrow> abi_lib \<Rightarrow> abi_argument \<Rightarrow> string \<Rightarrow> parse_outcome" where
  "parseLogValueForType eth lib argument value =
     (let valueBytes = (case hexutilDecode eth value of None \<Rightarrow> [] | Some b \<Rightarrow> b) in
      case at_T (aa_Type argument) of
        IntTy \<Rightarrow> (case readInteger lib (aa_Type argument) valueBytes of None \<Rightarrow> ParseError | Some i \<Rightarrow> Parsed (ArgInt i))
      | UintTy \<Rightarrow> (case readInteger lib (aa_Type argument) valueBytes of None \<Rightarrow> ParseError | Some i \<Rightarrow> Parsed (ArgInt i))
      | BoolTy \<Rightarrow> readBool valueBytes (if hexutilDecode eth value = None then [] else spare lib value)
      | AddressTy \<Rightarrow> Parsed (ArgAddress (hexToAddress eth value))
      | _ \<Rightarrow> Parsed (ArgString value))"

section \<open>Logs\<close>

datatype decode_error = DecodePanic | AbiFailed abi_error | EventNotFound | DataNotHex | UnpackFailed

text \<open>
  The loop over \<open>lg.Topics[1:]\<close>: topic \<open>i\<close> goes to argument \<open>i\<close>; a value that does not parse is logged
  and left nil; there must be an input for every topic. \<open>None\<close> is a panic.
\<close>

fun assignTopics ::
  "eth_common \<Rightarrow> abi_lib \<Rightarrow> abi_argument list \<Rightarrow> nat \<Rightarrow> string list \<Rightarrow> argument list \<Rightarrow> argument list option" where
  "assignTopics eth lib inputs i [] args = Some args"
| "assignTopics eth lib inputs i (param # params) args =
     (if i \<ge> length inputs then None
      else (case parseLogValueForType eth lib (inputs ! i) param of
              ParsePanic \<Rightarrow> None
            | ParseError \<Rightarrow> assignTopics eth lib inputs (Suc i) params args
            | Parsed d \<Rightarrow> assignTopics eth lib inputs (Suc i) params (args[i := (args ! i)\<lparr>arg_Value := d\<rparr>])))"

definition argumentOf :: "abi_argument \<Rightarrow> argument" where
  "argumentOf input = \<lparr>arg_Name = aa_Name input, arg_Type = at_String (aa_Type input), arg_Value = ArgNil,
     arg_Indexed = aa_Indexed input\<rparr>"

text \<open>
  \<open>DecodeLog\<close> with the contract store's ABI when none is given; the store answers an unknown address with
  a nil contract, which \<open>GetAbi\<close> dereferences. Where the code returns a partly decoded log along with an
  error, its callers look at the error only.
\<close>

definition decodeLogWith ::
  "eth_common \<Rightarrow> abi_lib \<Rightarrow> contract_abi \<Rightarrow> ethereum_event_log \<Rightarrow> (decode_error, decoded_log) result" where
  "decodeLogWith eth lib a lg =
     (let logAddress = hexToAddress eth (el_Address lg);
          topicHash = (if length (el_Topics lg) > 0 then hexToHash eth (el_Topics lg ! 0) else replicate 32 0) in
      case abi_EventByID a topicHash of
        None \<Rightarrow> Inl EventNotFound
      | Some event \<Rightarrow>
      (case assignTopics eth lib (ev_Inputs event) 0 (drop 1 (el_Topics lg)) (map argumentOf (ev_Inputs event)) of
        None \<Rightarrow> Inl DecodePanic
      | Some args \<Rightarrow>
          (let decodedLog = \<lparr>dl_LogIndex = el_LogIndex lg, dl_Address = addressString eth logAddress, dl_Arguments = args,
                 dl_EventName = ev_RawName event, dl_OutputData = None\<rparr> in
           if length (el_Data lg) = 0 then Inr decodedLog
           else if length (el_Data lg) < 2 then Inl DecodePanic
           else (case hexDecodeString (drop 2 (el_Data lg)) of
                   None \<Rightarrow> Inl DataNotHex
                 | Some byteData \<Rightarrow>
                     (case abi_UnpackIntoMap a (ev_Name event) byteData of
                        None \<Rightarrow> Inl UnpackFailed
                      | Some outputDataMap \<Rightarrow> Inr (decodedLog\<lparr>dl_OutputData := Some outputDataMap\<rparr>))))))"

definition decodeLog ::
  "eth_common \<Rightarrow> abi_lib \<Rightarrow> contract_store \<Rightarrow> contract_abi option \<Rightarrow> ethereum_event_log \<Rightarrow>
     (decode_error, decoded_log) result" where
  "decodeLog eth lib store a lg =
     (case a of
        Some a \<Rightarrow> decodeLogWith eth lib a lg
      | None \<Rightarrow>
          (case getContractByAddress store (el_Address lg) of
             None \<Rightarrow> Inl DecodePanic
           | Some contract \<Rightarrow>
               (case getAbi lib contract of
                  Inl e \<Rightarrow> Inl (AbiFailed e)
                | Inr newAbi \<Rightarrow> decodeLogWith eth lib newAbi lg)))"

end
