(* ===== verification/Chain_Poller.thy ===== *)
theory Chain_Poller
  imports Block_Contexts Log_Parser
begin

text \<open>
  \<open>ponos/pkg/chainPoller/EVMChainPoller/evmChainPoller.go\<close>: following a chain block by block,
  turning \<open>TaskCreated\<close> logs into queued and stored tasks, and undoing blocks that a chain
  reorganisation orphans. The state is the store (any implementation of \<open>AggregatorStore\<close>), the
  block contexts and what has been put on the task queue. The Ethereum client, the log decoder and
  the contract store are parameters, with the answers they give during one poll; \<open>room\<close> says
  whether a send on the task queue succeeds before its timeout.
\<close>

section \<open>Configuration, environment and state\<close>

record poller_config =
  pc_ChainId :: chain_id
  pc_InterestingContracts :: "string list"
  pc_AvsAddress :: string
  pc_MaxReorgDepth :: int
  pc_BlockHistorySize :: int
  pc_ReorgCheckEnabled :: bool

record eth_client =
  ecGetLatestBlock :: "u64 option"
  ecGetBlockByNumber :: "u64 \<Rightarrow> ethereum_block option"
  ecGetLogs :: "string \<Rightarrow> u64 \<Rightarrow> u64 \<Rightarrow> ethereum_event_log list option"

text \<open>
  \<open>pe_Mailbox\<close>: \<open>GetContractByNameForChainId("TaskMailbox", chain)\<close>, an error (\<open>None\<close>), no
  contract (\<open>Some None\<close>) or its address.
\<close>

record poller_env =
  pe_DecodeLog :: "ethereum_event_log \<Rightarrow> (decode_error, decoded_log) result"
  pe_Mailbox :: "chain_id \<Rightarrow> string option option"
  pe_addrString :: "bytes \<Rightarrow> string"
  pe_now :: time
  pe_room :: "task list \<Rightarrow> bool"

record 's poller =
  ps_store :: 's
  ps_cm :: ctx_manager
  ps_queue :: "task list"

datatype poll_error = ConvertFailed new_task_error | PollPanic | EnqueueFailed | MailboxLookupFailed
  | FetchLogsFailed | DecodeFailed | LatestBlockFailed | BlockFetchFailed | StoreFailed store_err
  | NoOrphans | ListPendingFailed

text \<open>The defaults \<open>NewEVMChainPoller\<close> fills in.\<close>

definition pollerDefaults :: "poller_config \<Rightarrow> poller_config" where
  "pollerDefaults cfg =
     (let cfg1 = (if pc_MaxReorgDepth cfg = 0 then cfg\<lparr>pc_MaxReorgDepth := 10\<rparr> else cfg);
          cfg2 = (if pc_BlockHistorySize cfg1 = 0 then cfg1\<lparr>pc_BlockHistorySize := 100\<rparr> else cfg1)
      in if \<not> pc_ReorgCheckEnabled cfg2 \<and> pc_MaxReorgDepth cfg2 > 0
         then cfg2\<lparr>pc_ReorgCheckEnabled := True\<rparr> else cfg2)"

definition u64_of_int :: "int \<Rightarrow> u64" where
  "u64_of_int i = nat (i mod 2 ^ 64)"

definition recordOfBlock :: "chain_id \<Rightarrow> ethereum_block \<Rightarrow> block_record" where
  "recordOfBlock c b = \<lparr>br_Number = eb_Number b, br_Hash = eb_Hash b, br_ParentHash = eb_ParentHash b,
     br_Timestamp = eb_Timestamp b, br_ChainId = c\<rparr>"

section \<open>Logs to tasks\<close>

definition processTask ::
  "'s aggregator_store \<Rightarrow> poller_config \<Rightarrow> poller_env \<Rightarrow> log_with_block \<Rightarrow> 's poller \<Rightarrow> poll_error option \<times> 's poller" where
  "processTask sops cfg env lwb ps =
     (let lg = lwb_Log lwb in
      case newTaskFromLog (pe_addrString env) lg (lwb_Block lwb) (dl_Address lg) of
        Inl e \<Rightarrow> (Some (if e = NilPointerPanic then PollPanic else ConvertFailed e), ps)
      | Inr task0 \<Rightarrow>
      (case getContext (ps_cm ps) (eb_Number (lwb_Block lwb)) task0 of
        None \<Rightarrow> (Some PollPanic, ps)
      | Some (c, cm') \<Rightarrow>
      (let task = task0\<lparr>task_Context := Some c\<rparr>; ps1 = ps\<lparr>ps_cm := cm'\<rparr> in
       if \<not> equalFold (task_AVSAddress task) (pc_AvsAddress cfg) then (None, ps1)
       else (case sGetTask sops (ps_store ps1) (task_TaskId task) of
               Inr existingTask \<Rightarrow> (None, ps1)
             | Inl e \<Rightarrow>
                 if pe_room env (ps_queue ps1)
                 then (None, ps1\<lparr>ps_queue := ps_queue ps1 @ [task],
                         ps_store := snd (sSavePendingTask sops (pe_now env) (ps_store ps1) (Some task))\<rparr>)
                 else (Some EnqueueFailed, ps1)))))"

definition handleLog ::
  "'s aggregator_store \<Rightarrow> poller_config \<Rightarrow> poller_env \<Rightarrow> log_with_block \<Rightarrow> 's poller \<Rightarrow> poll_error option \<times> 's poller" where
  "handleLog sops cfg env lwb ps =
     (if dl_EventName (lwb_Log lwb) \<noteq> ''TaskCreated'' then (None, ps)
      else (case pe_Mailbox env (eb_ChainId (lwb_Block lwb)) of
              None \<Rightarrow> (Some MailboxLookupFailed, ps)
            | Some None \<Rightarrow> (None, ps)
            | Some (Some mailbox) \<Rightarrow>
                if \<not> equalFold (dl_Address (lwb_Log lwb)) mailbox then (None, ps)
                else processTask sops cfg env lwb ps))"

fun listInteresting :: "string list \<Rightarrow> string list" where
  "listInteresting [] = []"
| "listInteresting (contract # contracts) =
     (if contract \<noteq> [] then toLower contract # listInteresting contracts else listInteresting contracts)"

text \<open>
  One request per contract; any failure fails the whole fetch. The replies are concatenated in
  channel order, here that of the contracts.
\<close>

fun collectLogs :: "ethereum_event_log list option list \<Rightarrow> ethereum_event_log list option" where
  "collectLogs [] = Some []"
| "collectLogs (r # rs) =
     (case r of
        None \<Rightarrow> None
      | Some logs \<Rightarrow> (case collectLogs rs of None \<Rightarrow> None | Some rest \<Rightarrow> Some (logs @ rest)))"

definition fetchLogsForInterestingContractsForBlock ::
  "poller_config \<Rightarrow> eth_client \<Rightarrow> u64 \<Rightarrow> ethereum_event_log list option" where
  "fetchLogsForInterestingContractsForBlock cfg ec blockNumber =
     collectLogs (map (\<lambda>contract. ecGetLogs ec contract blockNumber blockNumber)
       (listInteresting (pc_InterestingContracts cfg)))"

fun handleLogs ::
  "'s aggregator_store \<Rightarrow> poller_config \<Rightarrow> poller_env \<Rightarrow> ethereum_block \<Rightarrow> ethereum_event_log list \<Rightarrow> 's poller \<Rightarrow>
     poll_error option \<times> 's poller" where
  "handleLogs sops cfg env block [] ps = (None, ps)"
| "handleLogs sops cfg env block (log # logs) ps =
     (case pe_DecodeLog env log of
        Inl e \<Rightarrow> (Some (if e = DecodePanic then PollPanic else DecodeFailed), ps)
      | Inr decodedLog \<Rightarrow>
          (case handleLog sops cfg env \<lparr>lwb_Log = decodedLog, lwb_RawLog = log, lwb_Block = block\<rparr> ps of
             (Some e, ps') \<Rightarrow> (Some e, ps')
           | (None, ps') \<Rightarrow> handleLogs sops cfg env block logs ps'))"

definition processBlockLogs ::
  "'s aggregator_store \<Rightarrow> poller_config \<Rightarrow> poller_env \<Rightarrow> eth_client \<Rightarrow> ethereum_block \<Rightarrow> 's poller \<Rightarrow>
     (poll_error + block_record) \<times> 's poller" where
  "processBlockLogs sops cfg env ec block0 ps =
     (case fetchLogsForInterestingContractsForBlock cfg ec (eb_Number block0) of
        None \<Rightarrow> (Inl FetchLogsFailed, ps)
      | Some logs \<Rightarrow>
      (let block = block0\<lparr>eb_ChainId := pc_ChainId cfg\<rparr> in
      (case handleLogs sops cfg env block logs ps of
        (Some e, ps1) \<Rightarrow> (Inl e, ps1)
      | (None, ps1) \<Rightarrow>
      (let blockRecord = recordOfBlock (pc_ChainId cfg) block;
           ps2 = ps1\<lparr>ps_store := snd (sSaveBlock sops (ps_store ps1) (pc_AvsAddress cfg) (Some blockRecord))\<rparr>;
           history = u64_of_int (pc_BlockHistorySize cfg);
           ps3 = (if pc_BlockHistorySize cfg > 0 \<and> br_Number blockRecord > history
                  then ps2\<lparr>ps_store := snd (sDeleteBlock sops (ps_store ps2) (pc_AvsAddress cfg) (pc_ChainId cfg)
                         (br_Number blockRecord - history))\<rparr>
                  else ps2)
       in (Inr blockRecord, ps3)))))"

section \<open>Reorganisations\<close>

text \<open>
  The search loop of \<open>findOrphanedBlocks\<close> at depth \<open>k\<close>, with \<open>rest\<close> depths to go: \<open>parentBlockNum\<close> is
  \<open>startBlockNumber - k\<close> in \<open>uint64\<close> arithmetic. When the loop ends, the last record it looked at is
  saved; \<open>SaveBlock\<close> rejects a nil record.
\<close>

fun orphanSearch ::
  "'s aggregator_store \<Rightarrow> poller_config \<Rightarrow> eth_client \<Rightarrow> u64 \<Rightarrow> nat \<Rightarrow> nat \<Rightarrow> block_record option \<Rightarrow> block_record list \<Rightarrow> 's \<Rightarrow>
     (poll_error + block_record list) \<times> 's" where
  "orphanSearch sops cfg ec start k 0 parentRec orphans s =
     (case sSaveBlock sops s (pc_AvsAddress cfg) parentRec of
        (Some e, s') \<Rightarrow> (Inl (StoreFailed e), s')
      | (None, s') \<Rightarrow> (Inr orphans, s'))"
| "orphanSearch sops cfg ec start k (Suc rest) parentRec orphans s =
     (let parentNum = (start + 2 ^ 64 - k) mod 2 ^ 64 in
      if parentNum = 0 then
        (case sSaveBlock sops s (pc_AvsAddress cfg) parentRec of
           (Some e, s') \<Rightarrow> (Inl (StoreFailed e), s')
         | (None, s') \<Rightarrow> (Inr orphans, s'))
      else (case ecGetBlockByNumber ec parentNum of
        None \<Rightarrow> (Inl BlockFetchFailed, s)
      | Some canon \<Rightarrow>
      (case sGetBlock sops s (pc_AvsAddress cfg) (pc_ChainId cfg) parentNum of
        Inl e \<Rightarrow>
          if e = ErrNotFound then
            (case sSaveBlock sops s (pc_AvsAddress cfg) (Some (recordOfBlock (eb_ChainId canon) canon)) of
               (Some e, s') \<Rightarrow> (Inl (StoreFailed e), s')
             | (None, s') \<Rightarrow> (Inr orphans, s'))
          else (Inl (StoreFailed e), s)
      | Inr rec \<Rightarrow>
          if eb_Hash canon \<noteq> br_Hash rec
          then orphanSearch sops cfg ec start (Suc k) rest (Some rec) (orphans @ [rec]) s
          else (case sSaveBlock sops s (pc_AvsAddress cfg) (Some rec) of
                  (Some e, s') \<Rightarrow> (Inl (StoreFailed e), s')
                | (None, s') \<Rightarrow> (Inr orphans, s')))))"

definition findOrphanedBlocks ::
  "'s aggregator_store \<Rightarrow> poller_config \<Rightarrow> eth_client \<Rightarrow> ethereum_block \<Rightarrow> 's \<Rightarrow> (poll_error + block_record list) \<times> 's" where
  "findOrphanedBlocks sops cfg ec startBlock s =
     orphanSearch sops cfg ec (eb_Number startBlock) 1 (u64_of_int (pc_MaxReorgDepth cfg)) None [] s"

fun removeOrphans ::
  "'s aggregator_store \<Rightarrow> poller_config \<Rightarrow> block_record list \<Rightarrow> 's poller \<Rightarrow> poll_error option \<times> 's poller" where
  "removeOrphans sops cfg [] ps = (None, ps)"
| "removeOrphans sops cfg (orphan # orphans) ps =
     (let (cm', s1) = cancelBlock sops (ps_cm ps) (ps_store ps) (br_Number orphan) in
      case sDeleteBlock sops s1 (pc_AvsAddress cfg) (br_ChainId orphan) (br_Number orphan) of
        (e, s2) \<Rightarrow>
          (let ps' = ps\<lparr>ps_cm := cm', ps_store := s2\<rparr>
           in if e \<noteq> None \<and> e \<noteq> Some ErrNotFound then (Some (StoreFailed (the e)), ps')
              else removeOrphans sops cfg orphans ps'))"

definition reconcileReorg ::
  "'s aggregator_store \<Rightarrow> poller_config \<Rightarrow> eth_client \<Rightarrow> ethereum_block \<Rightarrow> 's poller \<Rightarrow> poll_error option \<times> 's poller" where
  "reconcileReorg sops cfg ec startBlock ps =
     (case findOrphanedBlocks sops cfg ec startBlock (ps_store ps) of
        (Inl e, s') \<Rightarrow> (Some e, ps\<lparr>ps_store := s'\<rparr>)
      | (Inr orphans, s') \<Rightarrow>
          if length orphans = 0 then (Some NoOrphans, ps\<lparr>ps_store := s'\<rparr>)
          else removeOrphans sops cfg orphans (ps\<lparr>ps_store := s'\<rparr>))"

section \<open>Polling\<close>

datatype poll_outcome = PollFailed poll_error | PollUpToDate | PollReorg "poll_error option" | PollDone

fun processBlocks ::
  "'s aggregator_store \<Rightarrow> poller_config \<Rightarrow> poller_env \<Rightarrow> eth_client \<Rightarrow> u64 list \<Rightarrow> block_record \<Rightarrow> 's poller \<Rightarrow>
     poll_outcome \<times> 's poller" where
  "processBlocks sops cfg env ec [] latest ps = (PollDone, ps)"
| "processBlocks sops cfg env ec (blockNum # blockNums) latest ps =
     (case ecGetBlockByNumber ec blockNum of
        None \<Rightarrow> (PollFailed BlockFetchFailed, ps)
      | Some newCanonBlock \<Rightarrow>
          if eb_ParentHash newCanonBlock \<noteq> br_Hash latest
          then (case reconcileReorg sops cfg ec newCanonBlock ps of (e, ps') \<Rightarrow> (PollReorg e, ps'))
          else (case processBlockLogs sops cfg env ec newCanonBlock ps of
                  (Inl e, ps') \<Rightarrow> (PollFailed e, ps')
                | (Inr rec, ps') \<Rightarrow> processBlocks sops cfg env ec blockNums rec ps'))"

definition processNextBlock ::
  "'s aggregator_store \<Rightarrow> poller_config \<Rightarrow> poller_env \<Rightarrow> eth_client \<Rightarrow> 's poller \<Rightarrow> poll_outcome \<times> 's poller" where
  "processNextBlock sops cfg env ec ps =
     (case sGetLastProcessedBlock sops (ps_store ps) (pc_AvsAddress cfg) (pc_ChainId cfg) of
        Inl e \<Rightarrow> (PollFailed (StoreFailed e), ps)
      | Inr latestRecord \<Rightarrow>
      (case ecGetLatestBlock ec of
        None \<Rightarrow> (PollFailed LatestBlockFailed, ps)
      | Some latestNum \<Rightarrow>
          if br_Number latestRecord = latestNum then (PollUpToDate, ps)
          else processBlocks sops cfg env ec
                 (if latestNum > br_Number latestRecord then [br_Number latestRecord + 1..<latestNum + 1] else [])
                 latestRecord ps))"

section \<open>Start and recovery\<close>

fun recoverTasks ::
  "'s aggregator_store \<Rightarrow> poller_env \<Rightarrow> task list \<Rightarrow> 's poller \<Rightarrow> poll_error option \<times> 's poller" where
  "recoverTasks sops env [] ps = (None, ps)"
| "recoverTasks sops env (task0 # tasks) ps =
     (case getContext (ps_cm ps) (task_SourceBlockNumber task0) task0 of
        None \<Rightarrow> (Some PollPanic, ps)
      | Some (c, cm') \<Rightarrow>
          (let task = task0\<lparr>task_Context := Some c\<rparr>; ps1 = ps\<lparr>ps_cm := cm'\<rparr> in
           if ctxDone cm' (pe_now env) c
           then recoverTasks sops env tasks (ps1\<lparr>ps_store :=
                  snd (sUpdateTaskStatus sops (pe_now env) (ps_store ps1) (task_TaskId task) TaskStatusFailed)\<rparr>)
           else if pe_room env (ps_queue ps1)
           then recoverTasks sops env tasks (ps1\<lparr>ps_queue := ps_queue ps1 @ [task]\<rparr>)
           else recoverTasks sops env tasks ps1))"

definition recoverInProgressTasks ::
  "'s aggregator_store \<Rightarrow> poller_config \<Rightarrow> poller_env \<Rightarrow> 's poller \<Rightarrow> poll_error option \<times> 's poller" where
  "recoverInProgressTasks sops cfg env ps =
     (case sListPendingTasksForAVS sops (ps_store ps) (pc_AvsAddress cfg) of
        Inl e \<Rightarrow> (Some ListPendingFailed, ps)
      | Inr tasks \<Rightarrow> recoverTasks sops env tasks ps)"

text \<open>\<open>Start\<close>, up to launching the polling goroutine; a failed recovery is only logged.\<close>

definition pollerStart ::
  "'s aggregator_store \<Rightarrow> poller_config \<Rightarrow> poller_env \<Rightarrow> eth_client \<Rightarrow> 's poller \<Rightarrow> poll_error option \<times> 's poller" where
  "pollerStart sops cfg env ec ps =
     (let recover = (\<lambda>ps. case recoverInProgressTasks sops cfg env ps of
             (Some PollPanic, ps') \<Rightarrow> (Some PollPanic, ps') | (_, ps') \<Rightarrow> (None, ps')) in
      case sGetLastProcessedBlock sops (ps_store ps) (pc_AvsAddress cfg) (pc_ChainId cfg) of
        Inr rec \<Rightarrow> recover ps
      | Inl e \<Rightarrow>
      (case ecGetLatestBlock ec of
        None \<Rightarrow> (Some LatestBlockFailed, ps)
      | Some n \<Rightarrow>
      (case ecGetBlockByNumber ec n of
        None \<Rightarrow> (Some BlockFetchFailed, ps)
      | Some block \<Rightarrow>
      (case sSaveBlock sops (ps_store ps) (pc_AvsAddress cfg) (Some (recordOfBlock (pc_ChainId cfg) block)) of
        (Some e, s') \<Rightarrow> (Some (StoreFailed e), ps\<lparr>ps_store := s'\<rparr>)
      | (None, s') \<Rightarrow> recover (ps\<lparr>ps_store := s'\<rparr>)))))"

section \<open>Linked blocks\<close>

text \<open>
  The stored blocks of a chain form a linked sequence that ends at the last processed block.
\<close>

definition blocks_linked :: "(string \<times> chain_id \<times> u64 \<Rightarrow> block_record option) \<Rightarrow> string \<Rightarrow> chain_id \<Rightarrow> bool" where
  "blocks_linked B avs c \<longleftrightarrow> (\<forall>n b b'. B (avs, c, n) = Some b \<longrightarrow> B (avs, c, Suc n) = Some b' \<longrightarrow>
     br_ParentHash b' = br_Hash b)"

definition blocks_below :: "(string \<times> chain_id \<times> u64 \<Rightarrow> block_record option) \<Rightarrow> string \<Rightarrow> chain_id \<Rightarrow> u64 \<Rightarrow> bool" where
  "blocks_below B avs c n \<longleftrightarrow> (\<forall>m b. B (avs, c, m) = Some b \<longrightarrow> m \<le> n)"

definition chain_ok ::
  "'s aggregator_store \<Rightarrow> ('s \<Rightarrow> string \<times> chain_id \<times> u64 \<Rightarrow> block_record option) \<Rightarrow> 's \<Rightarrow> string \<Rightarrow> chain_id \<Rightarrow> bool" where
  "chain_ok sops blocksOf s avs c \<longleftrightarrow> (\<forall>b. sGetLastProcessedBlock sops s avs c = Inr b \<longrightarrow>
     blocks_linked (blocksOf s) avs c \<and> blocks_below (blocksOf s) avs c (br_Number b))"

text \<open>The client answers with the block it was asked for, as the node reports it (no chain id).\<close>

definition client_ok :: "eth_client \<Rightarrow> bool" where
  "client_ok ec \<longleftrightarrow> (\<forall>n b. ecGetBlockByNumber ec n = Some b \<longrightarrow> eb_Number b = n \<and> eb_ChainId b = 0)"

definition config_ok :: "poller_config \<Rightarrow> bool" where
  "config_ok cfg \<longleftrightarrow> pc_ChainId cfg \<noteq> 0 \<and> pc_BlockHistorySize cfg < 2 ^ 63 \<and> pc_MaxReorgDepth cfg < 2 ^ 63"

lemma linked_delete: "blocks_linked B avs c \<Longrightarrow> (\<And>k b. B' k = Some b \<Longrightarrow> B k = Some b) \<Longrightarrow> blocks_linked B' avs c"
  unfolding blocks_linked_def by blast

lemma below_delete: "blocks_below B avs c n \<Longrightarrow> (\<And>k b. B' k = Some b \<Longrightarrow> B k = Some b) \<Longrightarrow> blocks_below B' avs c n"
  unfolding blocks_below_def by blast

lemma linked_extend:
  assumes "blocks_linked B avs c" "blocks_below B avs c n" "B (avs, c, n) = Some b" "br_ParentHash b' = br_Hash b"
  shows "blocks_linked (B((avs, c, Suc n) \<mapsto> b')) avs c \<and> blocks_below (B((avs, c, Suc n) \<mapsto> b')) avs c (Suc n)"
proof
  have "B (avs, c, Suc (Suc n)) = None"
    using assms(2) by (cases "B (avs, c, Suc (Suc n))") (auto simp: blocks_below_def)
  then show "blocks_linked (B((avs, c, Suc n) \<mapsto> b')) avs c"
    using assms(1,3,4) by (auto simp: blocks_linked_def)
  show "blocks_below (B((avs, c, Suc n) \<mapsto> b')) avs c (Suc n)"
    using assms(2) by (auto simp: blocks_below_def intro: le_SucI)
qed

text \<open>What \<open>processTask\<close> can do: fail on the log, or register the task and then skip, queue or refuse it.\<close>

lemma processTask_cases:
  assumes "processTask sops cfg env lwb ps = (r, ps')"
  obtains (failed) "r \<noteq> None" "ps' = ps"
  | (converted) t c cm where
      "newTaskFromLog (pe_addrString env) (lwb_Log lwb) (lwb_Block lwb) (dl_Address (lwb_Log lwb)) = Inr t"
      "getContext (ps_cm ps) (eb_Number (lwb_Block lwb)) t = Some (c, cm)" "ps_cm ps' = cm"
      "(if \<not> equalFold (task_AVSAddress t) (pc_AvsAddress cfg) \<or> (\<exists>u. sGetTask sops (ps_store ps) (task_TaskId t) = Inr u)
        then r = None \<and> ps_queue ps' = ps_queue ps \<and> ps_store ps' = ps_store ps
        else if pe_room env (ps_queue ps)
        then r = None \<and> ps_queue ps' = ps_queue ps @ [t\<lparr>task_Context := Some c\<rparr>] \<and>
          ps_store ps' = snd (sSavePendingTask sops (pe_now env) (ps_store ps) (Some (t\<lparr>task_Context := Some c\<rparr>)))
        else r = Some EnqueueFailed \<and> ps_queue ps' = ps_queue ps \<and> ps_store ps' = ps_store ps)"
proof (cases "newTaskFromLog (pe_addrString env) (lwb_Log lwb) (lwb_Block lwb) (dl_Address (lwb_Log lwb))")
  case (Inl e)
  with assms failed show thesis by (auto simp: processTask_def)
next
  case t: (Inr t)
  show thesis
  proof (cases "getContext (ps_cm ps) (eb_Number (lwb_Block lwb)) t")
    case None
    with t assms failed show thesis by (auto simp: processTask_def)
  next
    case (Some p)
    obtain c cm where p: "p = (c, cm)" by fastforce
    show thesis
      by (rule converted [OF t Some [unfolded p]])
        (use assms t Some p in \<open>auto simp: processTask_def Let_def split: sum.splits if_splits\<close>)
  qed
qed

lemma u64_sub: "k \<le> start \<Longrightarrow> start < 2 ^ 64 \<Longrightarrow> (start + 2 ^ 64 - k) mod 2 ^ 64 = start - k" for k start :: nat
proof -
  assume "k \<le> start" "start < 2 ^ 64"
  then have "start + 2 ^ 64 - k = (start - k) + 2 ^ 64" "start - k < 2 ^ 64" by linarith+
  then show ?thesis by (simp only: mod_add_self2 mod_less)
qed

context cursor_store
begin

text \<open>Tasks come and go without touching the blocks.\<close>

definition same_blocks :: "'s \<Rightarrow> 's \<Rightarrow> bool" where
  "same_blocks s s' \<longleftrightarrow> invar s' \<and> \<not> is_closed s' \<and> blocksOf s' = blocksOf s \<and>
     sGetLastProcessedBlock ops s' = sGetLastProcessedBlock ops s"

lemma same_blocks_refl: "invar s \<Longrightarrow> \<not> is_closed s \<Longrightarrow> same_blocks s s"
  by (simp add: same_blocks_def)

lemma same_blocks_trans: "same_blocks s s' \<Longrightarrow> same_blocks s' s'' \<Longrightarrow> same_blocks s s''"
  by (simp add: same_blocks_def)

lemma getTask_missing: "invar s \<Longrightarrow> \<not> is_closed s \<Longrightarrow> sGetTask ops s tid = Inl e \<Longrightarrow> tasksOf s tid = None"
  using getTask [of s tid] by (auto split: option.splits)

lemma processTask_same:
  assumes "invar (ps_store ps)" "\<not> is_closed (ps_store ps)" "processTask ops cfg env lwb ps = (r, ps')"
  shows "same_blocks (ps_store ps) (ps_store ps')"
proof (cases "ps_store ps' = ps_store ps")
  case True
  with assms show ?thesis by (simp add: same_blocks_refl)
next
  case False
  with assms(3) obtain t e e' where "sGetTask ops (ps_store ps) (task_TaskId t) = Inl e"
    and save: "sSavePendingTask ops (pe_now env) (ps_store ps) (Some t) = (e', ps_store ps')"
    by (auto simp: processTask_def Let_def split: sum.splits option.splits if_splits)
      (metis prod.collapse task.select_convs(1) task.surjective task.update_convs(14))
  with assms have "tasksOf (ps_store ps) (task_TaskId t) = None" by (auto intro: getTask_missing)
  with savePending_keeps [OF assms(1,2) _ save] last_savePending [OF assms(1,2) save]
  show ?thesis by (simp add: same_blocks_def)
qed

lemma handleLog_same:
  assumes "invar (ps_store ps)" "\<not> is_closed (ps_store ps)" "handleLog ops cfg env lwb ps = (r, ps')"
  shows "same_blocks (ps_store ps) (ps_store ps')"
  using assms by (auto simp: handleLog_def same_blocks_refl dest: processTask_same split: if_splits option.splits)

lemma handleLogs_same:
  "invar (ps_store ps) \<Longrightarrow> \<not> is_closed (ps_store ps) \<Longrightarrow> handleLogs ops cfg env block logs ps = (r, ps') \<Longrightarrow>
   same_blocks (ps_store ps) (ps_store ps')"
proof (induction logs arbitrary: ps)
  case (Cons log logs)
  show ?case
  proof (cases "pe_DecodeLog env log")
    case (Inl e)
    with Cons.prems show ?thesis by (simp add: same_blocks_refl)
  next
    case (Inr dl)
    obtain r1 ps1 where h: "handleLog ops cfg env \<lparr>lwb_Log = dl, lwb_RawLog = log, lwb_Block = block\<rparr> ps = (r1, ps1)"
      by fastforce
    note one = handleLog_same [OF Cons.prems(1,2) h]
    show ?thesis
    proof (cases r1)
      case None
      with Inr h Cons.prems(3) have "handleLogs ops cfg env block logs ps1 = (r, ps')" by simp
      with Cons.IH [of ps1] one show ?thesis by (auto simp: same_blocks_def)
    next
      case (Some e)
      with \<open>pe_DecodeLog env log = Inr dl\<close> h Cons.prems(3) one show ?thesis by simp
    qed
  qed
qed (simp add: same_blocks_refl)

text \<open>
  Processing a block either fails before anything about blocks changes, or saves the block as the
  last processed one and prunes at most older blocks.
\<close>

lemma processBlockLogs_cases:
  assumes "invar (ps_store ps)" "\<not> is_closed (ps_store ps)" "config_ok cfg"
    and "processBlockLogs ops cfg env ec block ps = (r, ps')"
  obtains (failed) e where "r = Inl e" "same_blocks (ps_store ps) (ps_store ps')"
  | (saved) rec where "r = Inr rec" "rec = recordOfBlock (pc_ChainId cfg) block"
      "invar (ps_store ps')" "\<not> is_closed (ps_store ps')"
      "sGetLastProcessedBlock ops (ps_store ps') (pc_AvsAddress cfg) (pc_ChainId cfg) = Inr rec"
      "\<And>k b. blocksOf (ps_store ps') k = Some b \<Longrightarrow>
         ((blocksOf (ps_store ps))((pc_AvsAddress cfg, pc_ChainId cfg, eb_Number block) \<mapsto> rec)) k = Some b"
proof (cases "fetchLogsForInterestingContractsForBlock cfg ec (eb_Number block)")
  case None
  with assms failed show thesis by (auto simp: processBlockLogs_def same_blocks_refl)
next
  case (Some logs)
  obtain r1 ps1 where h: "handleLogs ops cfg env (block\<lparr>eb_ChainId := pc_ChainId cfg\<rparr>) logs ps = (r1, ps1)"
    by fastforce
  note same = handleLogs_same [OF assms(1,2) h]
  show thesis
  proof (cases r1)
    case (Some e)
    with \<open>fetchLogsForInterestingContractsForBlock _ _ _ = _\<close> h assms(4) same failed show thesis
      by (auto simp: processBlockLogs_def)
  next
    case None
    define rec where "rec = recordOfBlock (pc_ChainId cfg) block"
    have rec: "br_ChainId rec = pc_ChainId cfg" "br_Number rec = eb_Number block"
      and rec': "recordOfBlock (pc_ChainId cfg) (block\<lparr>eb_ChainId := pc_ChainId cfg\<rparr>) = rec"
      by (simp_all add: rec_def recordOfBlock_def)
    have open1: "invar (ps_store ps1)" "\<not> is_closed (ps_store ps1)" "blocksOf (ps_store ps1) = blocksOf (ps_store ps)"
      using same by (simp_all add: same_blocks_def)
    obtain s2 where save: "sSaveBlock ops (ps_store ps1) (pc_AvsAddress cfg) (Some rec) = (None, s2)"
      and s2: "invar s2" "\<not> is_closed s2"
        "blocksOf s2 = (blocksOf (ps_store ps))((pc_AvsAddress cfg, pc_ChainId cfg, eb_Number block) \<mapsto> rec)"
      using saveBlock [OF open1(1,2), of "pc_AvsAddress cfg" rec] open1(3) rec by auto
    have last2: "sGetLastProcessedBlock ops s2 (pc_AvsAddress cfg) (pc_ChainId cfg) = Inr rec"
      using last_save [OF open1(1,2) save] rec by simp
    define h where "h = u64_of_int (pc_BlockHistorySize cfg)"
    define old where "old = br_Number rec - h"
    obtain e3 s3 where del: "sDeleteBlock ops s2 (pc_AvsAddress cfg) (pc_ChainId cfg) old = (e3, s3)" by fastforce
    have out: "r = Inr rec" "ps_store ps' =
        (if pc_BlockHistorySize cfg > 0 \<and> br_Number rec > h then s3 else s2)"
      using \<open>fetchLogsForInterestingContractsForBlock _ _ _ = _\<close> \<open>handleLogs _ _ _ _ _ _ = _\<close> None assms(4) save del
      by (auto simp: processBlockLogs_def rec' h_def old_def Let_def)
    show thesis
    proof (cases "pc_BlockHistorySize cfg > 0 \<and> br_Number rec > h")
      case False
      with out have "ps_store ps' = s2" by simp
      with out(1) s2 last2 show thesis by (intro saved [of rec]) (simp_all only: rec_def not_False_eq_True)
    next
      case True
      then have "h > 0" using assms(3) by (auto simp: h_def u64_of_int_def config_ok_def)
      with True have "old \<noteq> br_Number rec" unfolding old_def by linarith
      with last_delete [OF s2(1,2) del] last2
      have "sGetLastProcessedBlock ops s3 (pc_AvsAddress cfg) (pc_ChainId cfg) = Inr rec" by simp
      moreover have "invar s3" "\<not> is_closed s3"
        "blocksOf s3 = (blocksOf s2)((pc_AvsAddress cfg, pc_ChainId cfg, old) := None)"
        using deleteBlock_keeps [OF s2(1,2), of "pc_AvsAddress cfg" "pc_ChainId cfg" old] del by simp_all
      moreover from this(3) have "blocksOf s3 k = Some b \<Longrightarrow> blocksOf s2 k = Some b" for k b
        by (cases "k = (pc_AvsAddress cfg, pc_ChainId cfg, old)") simp_all
      moreover have "ps_store ps' = s3" using True out by simp
      ultimately show thesis using out(1) s2(3) by (intro saved [of rec]) (simp_all only: rec_def not_False_eq_True)
    qed
  qed
qed

lemma processBlockLogs_chain_ok:
  assumes "invar (ps_store ps)" "\<not> is_closed (ps_store ps)" "config_ok cfg"
    and ok: "chain_ok ops blocksOf (ps_store ps) (pc_AvsAddress cfg) (pc_ChainId cfg)"
    and last: "sGetLastProcessedBlock ops (ps_store ps) (pc_AvsAddress cfg) (pc_ChainId cfg) = Inr latest"
    and "eb_Number block = Suc (br_Number latest)" "eb_ParentHash block = br_Hash latest"
    and p: "processBlockLogs ops cfg env ec block ps = (r, ps')"
  shows "invar (ps_store ps') \<and> \<not> is_closed (ps_store ps') \<and>
    chain_ok ops blocksOf (ps_store ps') (pc_AvsAddress cfg) (pc_ChainId cfg) \<and>
    (case r of
       Inl e \<Rightarrow> sGetLastProcessedBlock ops (ps_store ps') (pc_AvsAddress cfg) (pc_ChainId cfg) = Inr latest
     | Inr rec \<Rightarrow> sGetLastProcessedBlock ops (ps_store ps') (pc_AvsAddress cfg) (pc_ChainId cfg) = Inr rec \<and>
         br_Number rec = eb_Number block)"
  using assms(1-3) p
proof (cases rule: processBlockLogs_cases)
  case failed
  then show ?thesis using ok last by (auto simp: same_blocks_def chain_ok_def)
next
  case (saved rec)
  have link: "blocks_linked (blocksOf (ps_store ps)) (pc_AvsAddress cfg) (pc_ChainId cfg)"
    "blocks_below (blocksOf (ps_store ps)) (pc_AvsAddress cfg) (pc_ChainId cfg) (br_Number latest)"
    using ok last by (auto simp: chain_ok_def)
  have "br_ParentHash rec = br_Hash latest" using saved(2) assms(7) by (simp add: recordOfBlock_def)
  from linked_extend [OF link last_stored [OF assms(1,2) last] this]
  have "blocks_linked (blocksOf (ps_store ps')) (pc_AvsAddress cfg) (pc_ChainId cfg)"
    "blocks_below (blocksOf (ps_store ps')) (pc_AvsAddress cfg) (pc_ChainId cfg) (Suc (br_Number latest))"
    using saved(6) assms(6) by (auto intro: linked_delete below_delete)
  with saved assms(6) show ?thesis by (auto simp: chain_ok_def recordOfBlock_def)
qed

text \<open>
  The search at depth \<open>k\<close>: the records found so far are the stored blocks above \<open>start - k\<close>. It
  fails without changing the blocks, or it ends at a stored block that is still canonical
  (\<open>found\<close>), at a block that is not stored (\<open>missing\<close>: the record it saves goes to another chain
  id), or at the depth limit (\<open>deep\<close>: the cursor is on an orphan).
\<close>

definition orphans_above :: "'s \<Rightarrow> string \<Rightarrow> chain_id \<Rightarrow> u64 \<Rightarrow> u64 \<Rightarrow> block_record list \<Rightarrow> bool" where
  "orphans_above s avs c m start orphans \<longleftrightarrow> br_Number ` set orphans = {m<..<start} \<and>
     (\<forall>b\<in>set orphans. blocksOf s (avs, c, br_Number b) = Some b)"

lemma orphans_above_snoc:
  assumes "orphans_above s avs c n start orphans" "blocksOf s (avs, c, n) = Some b" "br_Number b = n"
    "n < start" "n = Suc m"
  shows "orphans_above s avs c m start (orphans @ [b])"
proof -
  have "{m<..<start} = insert n {n<..<start}" using assms(4,5) by auto
  with assms show ?thesis by (auto simp: orphans_above_def)
qed

definition search_end ::
  "string \<Rightarrow> chain_id \<Rightarrow> eth_client \<Rightarrow> u64 \<Rightarrow> 's \<Rightarrow> poll_error + block_record list \<Rightarrow> 's \<Rightarrow> bool" where
  "search_end avs c ec start s r s' \<longleftrightarrow> invar s' \<and> \<not> is_closed s' \<and> tasksOf s' = tasksOf s \<and>
    (\<forall>n. blocksOf s' (avs, c, n) = blocksOf s (avs, c, n)) \<and>
    (case r of
       Inl e \<Rightarrow> sGetLastProcessedBlock ops s' avs c = sGetLastProcessedBlock ops s avs c
     | Inr orphs \<Rightarrow> \<exists>m. orphans_above s avs c m start orphs \<and>
         ((\<exists>b canon. m < start \<and> sGetLastProcessedBlock ops s' avs c = Inr b \<and> br_Number b = m \<and>
             ecGetBlockByNumber ec m = Some canon \<and> eb_Hash canon = br_Hash b) \<or>
          m < start \<and> blocksOf s (avs, c, m) = None \<and>
            sGetLastProcessedBlock ops s' avs c = sGetLastProcessedBlock ops s avs c \<or>
          (\<exists>b\<in>set orphs. sGetLastProcessedBlock ops s' avs c = Inr b)))"

lemma save_stored:
  assumes "invar s" "\<not> is_closed s" "blocksOf s (avs, c, br_Number b) = Some b"
  shows "\<exists>s'. sSaveBlock ops s avs (Some b) = (None, s') \<and> invar s' \<and> \<not> is_closed s' \<and>
    tasksOf s' = tasksOf s \<and> blocksOf s' = blocksOf s \<and> sGetLastProcessedBlock ops s' avs c = Inr b"
proof -
  have "br_ChainId b = c" using block_key [OF assms(1,3)] by simp
  with saveBlock [OF assms(1,2), of avs b] last_save [OF assms(1,2), of avs b] assms(3)
  show ?thesis by (auto simp: fun_upd_idem)
qed

lemma search_limit:
  assumes "invar s" "\<not> is_closed s" "orphans_above s avs c m start orphans"
    and "case prec of None \<Rightarrow> orphans = [] | Some p \<Rightarrow> p \<in> set orphans"
    and "(case sSaveBlock ops s avs prec of (Some e, s') \<Rightarrow> (Inl (StoreFailed e), s') | (None, s') \<Rightarrow> (Inr orphans, s')) = (r, s')"
  shows "search_end avs c ec start s r s'"
proof (cases prec)
  case None
  with save_nil [OF assms(1,2), of avs] assms show ?thesis by (auto simp: search_end_def)
next
  case (Some p)
  with assms(3,4) have "blocksOf s (avs, c, br_Number p) = Some p" "p \<in> set orphans"
    by (auto simp: orphans_above_def)
  with save_stored [OF assms(1,2), of avs c p] Some assms(3,5) show ?thesis
    by (auto simp: search_end_def) blast
qed

lemma orphanSearch_end:
  assumes "invar s" "\<not> is_closed s" "client_ok ec" "pc_ChainId cfg \<noteq> 0" "start < 2 ^ 64" "1 \<le> k" "k \<le> start"
    and "orphans_above s (pc_AvsAddress cfg) (pc_ChainId cfg) (start - k) start orphans"
    and "case prec of None \<Rightarrow> orphans = [] | Some p \<Rightarrow> p \<in> set orphans"
    and "orphanSearch ops cfg ec start k rest prec orphans s = (r, s')"
  shows "search_end (pc_AvsAddress cfg) (pc_ChainId cfg) ec start s r s'"
  using assms
proof (induction rest arbitrary: k prec orphans)
  case 0
  then show ?case by (intro search_limit) simp_all
next
  case (Suc rest)
  let ?avs = "pc_AvsAddress cfg" and ?c = "pc_ChainId cfg"
  define n where "n = start - k"
  have "(start + 2 ^ 64 - k) mod 2 ^ 64 = n"
    unfolding n_def using Suc.prems(5,7) by (rule u64_sub [rotated])
  note step = Suc.prems(10) [unfolded orphanSearch.simps Let_def this]
  show ?case
  proof (cases "n = 0")
    case True
    with step have "(case sSaveBlock ops s ?avs prec of (Some e, s') \<Rightarrow> (Inl (StoreFailed e), s') | (None, s') \<Rightarrow> (Inr orphans, s')) = (r, s')"
      by simp
    with Suc.prems show ?thesis by (intro search_limit)
  next
    case False
    show ?thesis
    proof (cases "ecGetBlockByNumber ec n")
      case None
      with step False Suc.prems(1,2) show ?thesis by (auto simp: search_end_def)
    next
      case (Some canon)
      then have canon: "eb_Number canon = n" "eb_ChainId canon = 0"
        using Suc.prems(3) by (auto simp: client_ok_def)
      have below: "n < start" "orphans_above s ?avs ?c n start orphans"
        using Suc.prems(6-8) by (auto simp: n_def)
      show ?thesis
      proof (cases "blocksOf s (?avs, ?c, n)")
        case None
        then have "sGetBlock ops s ?avs ?c n = Inl ErrNotFound"
          using getBlock [OF Suc.prems(1,2)] by simp
        with step False Some have "(case sSaveBlock ops s ?avs (Some (recordOfBlock 0 canon)) of
            (Some e, s') \<Rightarrow> (Inl (StoreFailed e), s') | (None, s') \<Rightarrow> (Inr orphans, s')) = (r, s')"
          by (simp add: canon)
        moreover obtain s1 where s1: "sSaveBlock ops s ?avs (Some (recordOfBlock 0 canon)) = (None, s1)"
          "invar s1" "\<not> is_closed s1" "tasksOf s1 = tasksOf s"
          "blocksOf s1 = (blocksOf s)((?avs, 0, n) \<mapsto> recordOfBlock 0 canon)"
          using saveBlock [OF Suc.prems(1,2), of ?avs "recordOfBlock 0 canon"] canon
          by (auto simp: recordOfBlock_def)
        ultimately have "r = Inr orphans" "s' = s1" by simp_all
        with s1 below None Suc.prems(4) last_save_other [OF Suc.prems(1,2) s1(1), of ?c] show ?thesis
          by (auto simp: search_end_def recordOfBlock_def)
      next
        case stored: (Some rec)
        then have rec: "br_Number rec = n" "sGetBlock ops s ?avs ?c n = Inr rec"
          using getBlock [OF Suc.prems(1,2)] block_key [OF Suc.prems(1)] by (simp, fastforce)
        show ?thesis
        proof (cases "eb_Hash canon = br_Hash rec")
          case True
          with step False Some rec save_stored [OF Suc.prems(1,2), of ?avs ?c rec] stored below
          show ?thesis by (auto simp: search_end_def) blast
        next
          case differs: False
          have "n = Suc (start - Suc k)" using False by (simp add: n_def)
          with stored rec below have
            "orphans_above s ?avs ?c (start - Suc k) start (orphans @ [rec])"
            by (intro orphans_above_snoc [of s ?avs ?c n]) auto
          moreover have "Suc k \<le> start" using False by (simp add: n_def)
          moreover have "orphanSearch ops cfg ec start (Suc k) rest (Some rec) (orphans @ [rec]) s = (r, s')"
            using step False Some rec differs by simp
          ultimately show ?thesis
            using Suc.IH [of "Suc k" "orphans @ [rec]" "Some rec"] Suc.prems(1-6) by simp
        qed
      qed
    qed
  qed
qed

lemma deleteTasks_last:
  assumes "invar s" "\<not> is_closed s"
  shows "sGetLastProcessedBlock ops (deleteTasks ops s ids) = sGetLastProcessedBlock ops s"
  using assms
proof (induction ids arbitrary: s)
  case (Cons i ids)
  obtain e s1 where "sDeleteTask ops s i = (e, s1)" by fastforce
  with Cons deleteTask_keeps [OF Cons.prems, of i] last_deleteTask [OF Cons.prems, of i] show ?case by simp
qed simp

lemma cancelBlock_last:
  assumes "invar s" "\<not> is_closed s" "cancelBlock ops cm s b = (cm', s')"
  shows "sGetLastProcessedBlock ops s' = sGetLastProcessedBlock ops s"
  using assms by (auto simp: cancelBlock_def deleteTasks_last split: option.splits)

lemma removeOrphans_effect:
  assumes "invar (ps_store ps)" "\<not> is_closed (ps_store ps)" "cm_invar (ps_cm ps)"
    and "\<forall>b\<in>set orphans. br_ChainId b = pc_ChainId cfg" "removeOrphans ops cfg orphans ps = (r, ps')"
  shows "r = None \<and> invar (ps_store ps') \<and> \<not> is_closed (ps_store ps') \<and> cm_invar (ps_cm ps') \<and>
    ps_queue ps' = ps_queue ps \<and>
    (\<forall>n. blocksOf (ps_store ps') (pc_AvsAddress cfg, pc_ChainId cfg, n) =
       (if n \<in> br_Number ` set orphans then None else blocksOf (ps_store ps) (pc_AvsAddress cfg, pc_ChainId cfg, n))) \<and>
    sGetLastProcessedBlock ops (ps_store ps') (pc_AvsAddress cfg) (pc_ChainId cfg) =
      (case sGetLastProcessedBlock ops (ps_store ps) (pc_AvsAddress cfg) (pc_ChainId cfg) of
         Inr b \<Rightarrow> if br_Number b \<in> br_Number ` set orphans then Inl ErrNotFound else Inr b
       | Inl e \<Rightarrow> Inl e) \<and>
    tasksOf (ps_store ps') = (\<lambda>tid. if \<exists>b\<in>set orphans. tid \<in> blockTasks (ps_cm ps) (br_Number b) then None
       else tasksOf (ps_store ps) tid)"
  using assms
proof (induction orphans arbitrary: ps)
  case Nil
  then show ?case by (auto split: sum.splits)
next
  case (Cons b orphans)
  let ?avs = "pc_AvsAddress cfg" and ?c = "pc_ChainId cfg"
  obtain cm1 s1 where cancel: "cancelBlock ops (ps_cm ps) (ps_store ps) (br_Number b) = (cm1, s1)" by fastforce
  note eff = cancelBlock_effect [OF Cons.prems(1-3) cancel]
  have s1: "invar s1" "\<not> is_closed s1" using eff by simp_all
  obtain e s2 where del: "sDeleteBlock ops s1 ?avs ?c (br_Number b) = (e, s2)" by fastforce
  note keep = deleteBlock_keeps [OF s1, of ?avs ?c "br_Number b", unfolded del prod.sel]
  have e: "\<not> (e \<noteq> None \<and> e \<noteq> Some ErrNotFound)" using keep by simp
  define ps2 where "ps2 = ps\<lparr>ps_cm := cm1, ps_store := s2\<rparr>"
  have rest: "removeOrphans ops cfg orphans ps2 = (r, ps')"
    using Cons.prems(4,5) cancel del e by (auto simp: ps2_def Let_def)
  have tasks: "blockTasks cm1 n = (if n = br_Number b then {} else blockTasks (ps_cm ps) n)" for n
    using eff by (simp add: blockTasks_def)
  have last2: "sGetLastProcessedBlock ops s2 ?avs ?c =
      (case sGetLastProcessedBlock ops (ps_store ps) ?avs ?c of
         Inr b' \<Rightarrow> if br_Number b' = br_Number b then Inl ErrNotFound else Inr b' | Inl e \<Rightarrow> Inl e)"
    using last_delete [OF s1 del] cancelBlock_last [OF Cons.prems(1,2) cancel] by simp
  have inv2: "invar (ps_store ps2)" "\<not> is_closed (ps_store ps2)" "cm_invar (ps_cm ps2)"
    "\<forall>b\<in>set orphans. br_ChainId b = ?c"
    using keep eff Cons.prems(4) by (simp_all add: ps2_def)
  have t2: "tasksOf s2 tid = (if tid \<in> blockTasks (ps_cm ps) (br_Number b) then None else tasksOf (ps_store ps) tid)"
    and b2: "blocksOf s2 (?avs, ?c, n) = (if n = br_Number b then None else blocksOf (ps_store ps) (?avs, ?c, n))" for tid n
    using keep eff by simp_all
  have IH: "r = None" "invar (ps_store ps')" "\<not> is_closed (ps_store ps')" "cm_invar (ps_cm ps')" "ps_queue ps' = ps_queue ps"
    "\<forall>n. blocksOf (ps_store ps') (?avs, ?c, n) = (if n \<in> br_Number ` set orphans then None else blocksOf s2 (?avs, ?c, n))"
    "sGetLastProcessedBlock ops (ps_store ps') ?avs ?c = (case sGetLastProcessedBlock ops s2 ?avs ?c of
         Inr b \<Rightarrow> if br_Number b \<in> br_Number ` set orphans then Inl ErrNotFound else Inr b | Inl e \<Rightarrow> Inl e)"
    "tasksOf (ps_store ps') = (\<lambda>tid. if \<exists>b\<in>set orphans. tid \<in> blockTasks cm1 (br_Number b) then None else tasksOf s2 tid)"
    using Cons.IH [OF inv2 rest] by (simp_all add: ps2_def cong: if_cong)
  have "sGetLastProcessedBlock ops (ps_store ps') ?avs ?c =
      (case sGetLastProcessedBlock ops (ps_store ps) ?avs ?c of
         Inr b' \<Rightarrow> if br_Number b' \<in> br_Number ` set (b # orphans) then Inl ErrNotFound else Inr b' | Inl e \<Rightarrow> Inl e)"
    unfolding IH(7) last2 by (simp split: sum.split)
  moreover have "tasksOf (ps_store ps') tid = (if \<exists>b\<in>set (b # orphans). tid \<in> blockTasks (ps_cm ps) (br_Number b) then None
       else tasksOf (ps_store ps) tid)" for tid
    unfolding IH(8) by (auto simp: t2 tasks)
  moreover have "\<forall>n. blocksOf (ps_store ps') (?avs, ?c, n) =
       (if n \<in> br_Number ` set (b # orphans) then None else blocksOf (ps_store ps) (?avs, ?c, n))"
    using IH(6) by (simp add: b2)
  ultimately show ?case using IH(1-5) by (simp add: fun_eq_iff)
qed

text \<open>
  A reorganisation leaves the cursor on a stored block that is still canonical with every stored
  block above it gone, or it leaves no cursor at all, or it changes nothing about blocks.
\<close>

lemma reconcileReorg_cases:
  assumes "invar (ps_store ps)" "\<not> is_closed (ps_store ps)" "cm_invar (ps_cm ps)" "client_ok ec" "config_ok cfg"
    and last: "sGetLastProcessedBlock ops (ps_store ps) (pc_AvsAddress cfg) (pc_ChainId cfg) = Inr latest"
    and num: "eb_Number block = Suc (br_Number latest)" "eb_Number block < 2 ^ 64"
    and rec: "reconcileReorg ops cfg ec block ps = (r, ps')"
  shows "invar (ps_store ps') \<and> \<not> is_closed (ps_store ps') \<and> cm_invar (ps_cm ps') \<and> ps_queue ps' = ps_queue ps \<and>
    (\<forall>n b. blocksOf (ps_store ps') (pc_AvsAddress cfg, pc_ChainId cfg, n) = Some b \<longrightarrow>
       blocksOf (ps_store ps) (pc_AvsAddress cfg, pc_ChainId cfg, n) = Some b) \<and>
    (case sGetLastProcessedBlock ops (ps_store ps') (pc_AvsAddress cfg) (pc_ChainId cfg) of
       Inl e \<Rightarrow> e = ErrNotFound
     | Inr b \<Rightarrow> (r \<noteq> None \<and> br_Number b = br_Number latest) \<or>
         (\<exists>canon. r = None \<and> ecGetBlockByNumber ec (br_Number b) = Some canon \<and> eb_Hash canon = br_Hash b \<and>
           (\<forall>n. br_Number b < n \<and> n \<le> br_Number latest \<longrightarrow>
              blocksOf (ps_store ps') (pc_AvsAddress cfg, pc_ChainId cfg, n) = None)))"
  proof -
  let ?avs = "pc_AvsAddress cfg" and ?c = "pc_ChainId cfg" and ?s = "ps_store ps"
  define start where "start = eb_Number block"
  obtain q s1 where find: "findOrphanedBlocks ops cfg ec block ?s = (q, s1)" by fastforce
  have "search_end ?avs ?c ec start ?s q s1"
    using find assms(1-5) num
    by (intro orphanSearch_end [where k = 1 and orphans = "[]" and prec = None])
      (auto simp: findOrphanedBlocks_def start_def config_ok_def orphans_above_def)
  note search = this [unfolded search_end_def]
  have stored: "blocksOf ?s (?avs, ?c, br_Number latest) = Some latest"
    using last_stored [OF assms(1,2) last] .
  show ?thesis
  proof (cases q)
    case (Inl e)
    with search find rec last assms(3) show ?thesis by (auto simp: reconcileReorg_def)
  next
    case (Inr orphs)
    with search obtain m where m: "orphans_above ?s ?avs ?c m start orphs"
      and ends: "(\<exists>b canon. m < start \<and> sGetLastProcessedBlock ops s1 ?avs ?c = Inr b \<and> br_Number b = m \<and>
             ecGetBlockByNumber ec m = Some canon \<and> eb_Hash canon = br_Hash b) \<or>
          m < start \<and> blocksOf ?s (?avs, ?c, m) = None \<and> sGetLastProcessedBlock ops s1 ?avs ?c = Inr latest \<or>
          (\<exists>b\<in>set orphs. sGetLastProcessedBlock ops s1 ?avs ?c = Inr b)"
      using last by auto
    have nums: "br_Number ` set orphs = {m<..<start}" using m by (simp add: orphans_above_def)
    show ?thesis
    proof (cases "orphs = []")
      case True
      with nums have "\<not> m < br_Number latest" using num by (auto simp: start_def)
      then have "m < start \<Longrightarrow> m = br_Number latest" using num by (simp add: start_def)
      with ends stored True have "\<exists>b. sGetLastProcessedBlock ops s1 ?avs ?c = Inr b \<and> br_Number b = br_Number latest"
        by auto
      with True Inr search find rec assms(3) show ?thesis by (auto simp: reconcileReorg_def)
    next
      case False
      have chain: "\<forall>b\<in>set orphs. br_ChainId b = ?c"
        using m block_key [OF assms(1)] by (auto simp: orphans_above_def)
      have "removeOrphans ops cfg orphs (ps\<lparr>ps_store := s1\<rparr>) = (r, ps')"
        using False Inr find rec by (simp add: reconcileReorg_def)
      from removeOrphans_effect [OF _ _ _ chain this] search assms(3)
      have eff: "r = None" "invar (ps_store ps')" "\<not> is_closed (ps_store ps')" "cm_invar (ps_cm ps')"
        "ps_queue ps' = ps_queue ps"
        "\<And>n. blocksOf (ps_store ps') (?avs, ?c, n) = (if m < n \<and> n < start then None else blocksOf ?s (?avs, ?c, n))"
        "sGetLastProcessedBlock ops (ps_store ps') ?avs ?c =
          (case sGetLastProcessedBlock ops s1 ?avs ?c of
             Inr b \<Rightarrow> if m < br_Number b \<and> br_Number b < start then Inl ErrNotFound else Inr b | Inl e \<Rightarrow> Inl e)"
        by (simp_all add: nums cong: sum.case_cong if_cong)
      have "{m<..<start} \<noteq> {}" using False nums by auto
      then have "m < br_Number latest" "br_Number latest < start" using num by (auto simp: start_def)
      moreover have "m < br_Number b \<and> br_Number b < start" if "b \<in> set orphs" for b
        using that nums by auto
      ultimately show ?thesis using ends eff num by (auto simp: start_def)
    qed
  qed
qed

text \<open>Everything a poll preserves.\<close>

definition poller_ok :: "poller_config \<Rightarrow> 's poller \<Rightarrow> bool" where
  "poller_ok cfg ps \<longleftrightarrow> invar (ps_store ps) \<and> \<not> is_closed (ps_store ps) \<and> cm_invar (ps_cm ps) \<and>
     chain_ok ops blocksOf (ps_store ps) (pc_AvsAddress cfg) (pc_ChainId cfg)"

lemma processTask_cm:
  assumes "cm_invar (ps_cm ps)" "processTask ops cfg env lwb ps = (r, ps')"
  shows "cm_invar (ps_cm ps')"
  using assms(2)
proof (cases rule: processTask_cases)
  case (converted t c cm)
  then show ?thesis using getContext_invar [OF assms(1)] by metis
qed (use assms(1) in simp)

lemma handleLogs_cm:
  "cm_invar (ps_cm ps) \<Longrightarrow> handleLogs ops cfg env block logs ps = (r, ps') \<Longrightarrow> cm_invar (ps_cm ps')"
proof (induction logs arbitrary: ps)
  case (Cons log logs)
  show ?case
  proof (cases "pe_DecodeLog env log")
    case (Inl e)
    with Cons.prems show ?thesis by simp
  next
    case (Inr dl)
    obtain r1 ps1 where h: "handleLog ops cfg env \<lparr>lwb_Log = dl, lwb_RawLog = log, lwb_Block = block\<rparr> ps = (r1, ps1)"
      by fastforce
    then have "cm_invar (ps_cm ps1)"
      using Cons.prems(1) by (auto simp: handleLog_def split: if_splits option.splits intro: processTask_cm)
    with Inr h Cons show ?thesis by (auto split: option.splits)
  qed
qed simp

lemma processBlockLogs_cm:
  assumes "cm_invar (ps_cm ps)" "processBlockLogs ops cfg env ec block ps = (r, ps')"
  shows "cm_invar (ps_cm ps')"
  using assms handleLogs_cm
  by (fastforce simp: processBlockLogs_def Let_def split: option.splits prod.splits)

lemma reconcileReorg_ok:
  assumes "poller_ok cfg ps" "client_ok ec" "config_ok cfg"
    and last: "sGetLastProcessedBlock ops (ps_store ps) (pc_AvsAddress cfg) (pc_ChainId cfg) = Inr latest"
    and "eb_Number block = Suc (br_Number latest)" "eb_Number block < 2 ^ 64"
    and "reconcileReorg ops cfg ec block ps = (r, ps')"
  shows "poller_ok cfg ps'"
proof -
  let ?avs = "pc_AvsAddress cfg" and ?c = "pc_ChainId cfg"
  have p: "invar (ps_store ps)" "\<not> is_closed (ps_store ps)" "cm_invar (ps_cm ps)"
    "blocks_linked (blocksOf (ps_store ps)) ?avs ?c" "blocks_below (blocksOf (ps_store ps)) ?avs ?c (br_Number latest)"
    using assms(1) last by (auto simp: poller_ok_def chain_ok_def)
  note R = reconcileReorg_cases [OF p(1-3) assms(2,3) last assms(5-7)]
  then have sub: "\<And>n b. blocksOf (ps_store ps') (?avs, ?c, n) = Some b \<Longrightarrow> blocksOf (ps_store ps) (?avs, ?c, n) = Some b"
    by blast
  have "blocks_linked (blocksOf (ps_store ps')) ?avs ?c" using p(4) sub unfolding blocks_linked_def by blast
  moreover have "blocks_below (blocksOf (ps_store ps')) ?avs ?c (br_Number b)"
    if "sGetLastProcessedBlock ops (ps_store ps') ?avs ?c = Inr b" for b
  proof -
    have "n \<le> br_Number b" if n: "blocksOf (ps_store ps') (?avs, ?c, n) = Some b'" for n b'
    proof -
      have "n \<le> br_Number latest" using p(5) sub [OF n] by (auto simp: blocks_below_def)
      with R n \<open>sGetLastProcessedBlock ops (ps_store ps') ?avs ?c = Inr b\<close> show ?thesis
        by (auto simp: not_less [symmetric])
    qed
    then show ?thesis by (auto simp: blocks_below_def)
  qed
  ultimately show ?thesis using R by (simp add: poller_ok_def chain_ok_def)
qed

lemma processBlocks_ok:
  assumes "poller_ok cfg ps" "client_ok ec" "config_ok cfg" "tip < 2 ^ 64"
    and "sGetLastProcessedBlock ops (ps_store ps) (pc_AvsAddress cfg) (pc_ChainId cfg) = Inr latest"
    and "processBlocks ops cfg env ec [Suc (br_Number latest)..<Suc tip] latest ps = (r, ps')"
  shows "poller_ok cfg ps'"
  using assms
proof (induction "Suc tip - Suc (br_Number latest)" arbitrary: latest ps)
  case 0
  then show ?case by simp
next
  case (Suc d)
  then have lt: "Suc (br_Number latest) < Suc tip" by linarith
  note step = Suc.prems(6) [unfolded upt_conv_Cons [OF lt] processBlocks.simps]
  show ?case
  proof (cases "ecGetBlockByNumber ec (Suc (br_Number latest))")
    case None
    with step Suc.prems(1) show ?thesis by simp
  next
    case (Some block)
    then have num: "eb_Number block = Suc (br_Number latest)" "eb_Number block < 2 ^ 64"
      using Suc.prems(2,4) lt by (auto simp: client_ok_def)
    show ?thesis
    proof (cases "eb_ParentHash block = br_Hash latest")
      case False
      with step Some obtain e where "reconcileReorg ops cfg ec block ps = (e, ps')"
        by (auto split: prod.splits)
      with reconcileReorg_ok [OF Suc.prems(1-3,5) num] show ?thesis by blast
    next
      case True
      obtain q ps1 where p: "processBlockLogs ops cfg env ec block ps = (q, ps1)" by fastforce
      have ok1: "poller_ok cfg ps1 \<and> (case q of Inl e \<Rightarrow> True | Inr rec \<Rightarrow>
          sGetLastProcessedBlock ops (ps_store ps1) (pc_AvsAddress cfg) (pc_ChainId cfg) = Inr rec \<and>
          br_Number rec = Suc (br_Number latest))"
        using processBlockLogs_chain_ok [OF _ _ Suc.prems(3) _ Suc.prems(5) num(1) True p]
          processBlockLogs_cm [OF _ p] Suc.prems(1) num(1)
        by (auto simp: poller_ok_def split: sum.splits)
      show ?thesis
      proof (cases q)
        case (Inl e)
        with step Some True p ok1 show ?thesis by simp
      next
        case (Inr rec)
        with step Some True p ok1 have "processBlocks ops cfg env ec [Suc (br_Number rec)..<Suc tip] rec ps1 = (r, ps')"
          by simp
        moreover have "d = Suc tip - Suc (br_Number rec)" using Suc.hyps(2) ok1 Inr by simp
        ultimately show ?thesis using Suc.hyps(1) [of rec ps1] ok1 Inr Suc.prems(2-4) by simp
      qed
    qed
  qed
qed

lemma processBlocks_done:
  assumes "invar (ps_store ps)" "\<not> is_closed (ps_store ps)" "client_ok ec" "config_ok cfg"
    and "sGetLastProcessedBlock ops (ps_store ps) (pc_AvsAddress cfg) (pc_ChainId cfg) = Inr latest"
    and "br_Number latest \<le> tip" "processBlocks ops cfg env ec [Suc (br_Number latest)..<Suc tip] latest ps = (PollDone, ps')"
  shows "\<exists>b. sGetLastProcessedBlock ops (ps_store ps') (pc_AvsAddress cfg) (pc_ChainId cfg) = Inr b \<and> br_Number b = tip \<and>
    (br_Number latest < tip \<longrightarrow> (\<exists>block. ecGetBlockByNumber ec tip = Some block \<and> b = recordOfBlock (pc_ChainId cfg) block))"
  using assms
proof (induction "Suc tip - Suc (br_Number latest)" arbitrary: latest ps)
  case 0
  then show ?case by simp
next
  case (Suc d)
  then have lt: "Suc (br_Number latest) < Suc tip" by linarith
  note step = Suc.prems(7) [unfolded upt_conv_Cons [OF lt] processBlocks.simps]
  from step obtain block rec ps1 where block: "ecGetBlockByNumber ec (Suc (br_Number latest)) = Some block"
    and p: "processBlockLogs ops cfg env ec block ps = (Inr rec, ps1)"
    and rest: "processBlocks ops cfg env ec [Suc (Suc (br_Number latest))..<Suc tip] rec ps1 = (PollDone, ps')"
    by (auto split: option.splits if_splits prod.splits sum.splits)
  from Suc.prems(1,2,4) p have r: "rec = recordOfBlock (pc_ChainId cfg) block" "invar (ps_store ps1)"
    "\<not> is_closed (ps_store ps1)"
    "sGetLastProcessedBlock ops (ps_store ps1) (pc_AvsAddress cfg) (pc_ChainId cfg) = Inr rec"
    by (cases rule: processBlockLogs_cases, auto)+
  have num: "br_Number rec = Suc (br_Number latest)"
    using block Suc.prems(3) by (auto simp: r(1) recordOfBlock_def client_ok_def)
  have "d = Suc tip - Suc (br_Number rec)" using Suc.hyps(2) num by simp
  from Suc.hyps(1) [OF this r(2,3) Suc.prems(3,4) r(4)] num lt rest block r(1,4)
  show ?case by (cases "br_Number rec = tip") auto
qed

lemma processNextBlock_ok:
  assumes "poller_ok cfg ps" "client_ok ec" "config_ok cfg" "\<forall>n. ecGetLatestBlock ec = Some n \<longrightarrow> n < 2 ^ 64"
    and "processNextBlock ops cfg env ec ps = (r, ps')"
  shows "poller_ok cfg ps'"
proof (cases "sGetLastProcessedBlock ops (ps_store ps) (pc_AvsAddress cfg) (pc_ChainId cfg)")
  case (Inl e)
  with assms show ?thesis by (simp add: processNextBlock_def)
next
  case (Inr latest)
  then show ?thesis
    using assms processBlocks_ok [OF assms(1-3) _ Inr]
    by (auto simp: processNextBlock_def split: option.splits if_splits)
qed

text \<open>A poll that runs to its end has caught up with the chain.\<close>

lemma processNextBlock_done:
  assumes "poller_ok cfg ps" "client_ok ec" "config_ok cfg"
    and "processNextBlock ops cfg env ec ps = (PollDone, ps')"
    and "sGetLastProcessedBlock ops (ps_store ps) (pc_AvsAddress cfg) (pc_ChainId cfg) = Inr latest"
    and "ecGetLatestBlock ec = Some tip" "br_Number latest < tip"
  shows "\<exists>block. ecGetBlockByNumber ec tip = Some block \<and>
    sGetLastProcessedBlock ops (ps_store ps') (pc_AvsAddress cfg) (pc_ChainId cfg) =
      Inr (recordOfBlock (pc_ChainId cfg) block)"
  using assms processBlocks_done [OF _ _ assms(2,3,5), of tip env ps']
  by (auto simp: processNextBlock_def poller_ok_def)

text \<open>
  A reorganisation as deep as the search limit: every block down to the limit is stored and
  orphaned. The search then saves its deepest orphan as the last block, and removing the orphans
  deletes that block too: no last processed block is left.
\<close>

lemma orphanSearch_deep:
  assumes "invar s" "\<not> is_closed s" "start < 2 ^ 64" "k + rest \<le> start" "1 \<le> k"
    and deep: "\<And>n. start - (k + rest) < n \<Longrightarrow> n \<le> start - k \<Longrightarrow> \<exists>b canon.
      blocksOf s (pc_AvsAddress cfg, pc_ChainId cfg, n) = Some b \<and> ecGetBlockByNumber ec n = Some canon \<and>
      eb_Hash canon \<noteq> br_Hash b"
    and "\<forall>b\<in>set orphans. blocksOf s (pc_AvsAddress cfg, pc_ChainId cfg, br_Number b) = Some b"
    and "rest = 0 \<Longrightarrow> \<exists>p. prec = Some p \<and> p \<in> set orphans"
  shows "\<exists>orphs b s'. orphanSearch ops cfg ec start k rest prec orphans s = (Inr orphs, s') \<and> invar s' \<and>
    \<not> is_closed s' \<and> b \<in> set orphs \<and> sGetLastProcessedBlock ops s' (pc_AvsAddress cfg) (pc_ChainId cfg) = Inr b \<and>
    (\<forall>b\<in>set orphs. br_ChainId b = pc_ChainId cfg)"
  using assms
proof (induction rest arbitrary: k prec orphans)
  case 0
  then obtain p where p: "prec = Some p" "p \<in> set orphans" by blast
  with 0 have "blocksOf s (pc_AvsAddress cfg, pc_ChainId cfg, br_Number p) = Some p" by blast
  moreover have "\<forall>b\<in>set orphans. br_ChainId b = pc_ChainId cfg"
    using 0 block_key [OF 0(1)] by blast
  ultimately show ?case
    using save_stored [OF 0(1,2), of "pc_AvsAddress cfg" "pc_ChainId cfg" p] p by auto
next
  case (Suc rest)
  let ?n = "start - k"
  have "(start + 2 ^ 64 - k) mod 2 ^ 64 = ?n"
    using Suc.prems(3,4) by (intro u64_sub) simp_all
  moreover have "start - (k + Suc rest) < ?n" using Suc.prems(4) by simp
  from Suc.prems(6) [OF this] obtain b canon where b: "blocksOf s (pc_AvsAddress cfg, pc_ChainId cfg, ?n) = Some b"
    "ecGetBlockByNumber ec ?n = Some canon" "eb_Hash canon \<noteq> br_Hash b" by auto
  moreover have "sGetBlock ops s (pc_AvsAddress cfg) (pc_ChainId cfg) ?n = Inr b" "br_Number b = ?n"
    using b(1) getBlock [OF Suc.prems(1,2)] block_key [OF Suc.prems(1) b(1)] by simp_all
  ultimately have "orphanSearch ops cfg ec start k (Suc rest) prec orphans s =
      orphanSearch ops cfg ec start (Suc k) rest (Some b) (orphans @ [b]) s"
    using Suc.prems(4) by simp
  moreover have "\<exists>orphs b' s'. orphanSearch ops cfg ec start (Suc k) rest (Some b) (orphans @ [b]) s = (Inr orphs, s') \<and> invar s' \<and>
    \<not> is_closed s' \<and> b' \<in> set orphs \<and> sGetLastProcessedBlock ops s' (pc_AvsAddress cfg) (pc_ChainId cfg) = Inr b' \<and>
    (\<forall>b\<in>set orphs. br_ChainId b = pc_ChainId cfg)"
    using Suc.prems b \<open>br_Number b = ?n\<close> by (intro Suc.IH) auto
  ultimately show ?case by simp
qed

lemma reconcileReorg_deep:
  assumes "invar (ps_store ps)" "\<not> is_closed (ps_store ps)" "cm_invar (ps_cm ps)"
    and "eb_Number block < 2 ^ 64" "0 < D" "D < eb_Number block" "D = u64_of_int (pc_MaxReorgDepth cfg)"
    and "\<And>n. eb_Number block - Suc D < n \<Longrightarrow> n < eb_Number block \<Longrightarrow> \<exists>b canon.
      blocksOf (ps_store ps) (pc_AvsAddress cfg, pc_ChainId cfg, n) = Some b \<and> ecGetBlockByNumber ec n = Some canon \<and>
      eb_Hash canon \<noteq> br_Hash b"
    and "reconcileReorg ops cfg ec block ps = (r, ps')"
  shows "r = None \<and> sGetLastProcessedBlock ops (ps_store ps') (pc_AvsAddress cfg) (pc_ChainId cfg) = Inl ErrNotFound"
proof -
  have "\<exists>orphs b s'. findOrphanedBlocks ops cfg ec block (ps_store ps) = (Inr orphs, s') \<and> invar s' \<and>
    \<not> is_closed s' \<and> b \<in> set orphs \<and> sGetLastProcessedBlock ops s' (pc_AvsAddress cfg) (pc_ChainId cfg) = Inr b \<and>
    (\<forall>b\<in>set orphs. br_ChainId b = pc_ChainId cfg)"
    unfolding findOrphanedBlocks_def assms(7) [symmetric]
    by (rule orphanSearch_deep) (use assms in auto)
  then obtain orphs b s' where s': "findOrphanedBlocks ops cfg ec block (ps_store ps) = (Inr orphs, s')" "invar s'"
    "\<not> is_closed s'" "b \<in> set orphs" "sGetLastProcessedBlock ops s' (pc_AvsAddress cfg) (pc_ChainId cfg) = Inr b"
    "\<forall>b\<in>set orphs. br_ChainId b = pc_ChainId cfg" by blast
  then have "removeOrphans ops cfg orphs (ps\<lparr>ps_store := s'\<rparr>) = (r, ps')"
    using assms(9) by (cases orphs) (auto simp: reconcileReorg_def)
  from removeOrphans_effect [OF _ _ _ s'(6) this] s' assms(3) show ?thesis by simp
qed

end

context task_store
begin

text \<open>
  A queued task is stored as pending and registered for its block; the same log processed again
  queues nothing.
\<close>

lemma processTask_queued:
  assumes "invar (ps_store ps)" "\<not> is_closed (ps_store ps)" "processTask ops cfg env lwb ps = (r, ps')"
    and "ps_queue ps' \<noteq> ps_queue ps"
  shows "\<exists>t. ps_queue ps' = ps_queue ps @ [t] \<and> r = None \<and> equalFold (task_AVSAddress t) (pc_AvsAddress cfg) \<and>
    tasksOf (ps_store ps) (task_TaskId t) = None \<and>
    task_TaskId t \<in> blockTasks (ps_cm ps') (eb_Number (lwb_Block lwb)) \<and> task_SourceBlockNumber t = eb_Number (lwb_Block lwb) \<and>
    (task_TaskId t \<noteq> [] \<and> storable t \<longrightarrow>
       tasksOf (ps_store ps') (task_TaskId t) = Some (task_persist t, TaskStatusPending))"
  using assms(3)
proof (cases rule: processTask_cases)
  case (converted t c cm)
  let ?t = "t\<lparr>task_Context := Some c\<rparr>"
  from converted(4) assms(4) have q: "equalFold (task_AVSAddress t) (pc_AvsAddress cfg)" "r = None"
    "\<nexists>u. sGetTask ops (ps_store ps) (task_TaskId t) = Inr u" "ps_queue ps' = ps_queue ps @ [?t]"
    "ps_store ps' = snd (sSavePendingTask ops (pe_now env) (ps_store ps) (Some ?t))"
    by (auto split: if_splits)
  have none: "tasksOf (ps_store ps) (task_TaskId ?t) = None"
    using getTask [OF assms(1,2), of "task_TaskId t"] q(3) by (auto split: option.splits)
  have "task_SourceBlockNumber t = eb_Number (lwb_Block lwb)"
    using converted(1) by (auto elim: newTaskFromLog_Inr)
  moreover have "task_TaskId t \<in> blockTasks (ps_cm ps') (eb_Number (lwb_Block lwb))"
    using getContext_registers(1) [OF converted(2)] converted(3) by simp
  moreover have "tasksOf (ps_store ps') (task_TaskId ?t) = Some (task_persist ?t, TaskStatusPending)"
    if "task_TaskId ?t \<noteq> []" "storable ?t"
    using savePending_fresh [OF assms(1,2) that none, of "pe_now env"] q(5) by auto
  ultimately show ?thesis using q(1,2,4) none by (intro exI [of _ ?t]) simp
qed (use assms(4) in simp)

lemma processTask_again:
  assumes "invar (ps_store ps)" "\<not> is_closed (ps_store ps)" "processTask ops cfg env lwb ps = (None, ps1)"
    and "\<And>t. newTaskFromLog (pe_addrString env) (lwb_Log lwb) (lwb_Block lwb) (dl_Address (lwb_Log lwb)) = Inr t \<Longrightarrow>
      task_TaskId t \<noteq> [] \<and> storable t"
    and "processTask ops cfg (env\<lparr>pe_now := now', pe_room := room'\<rparr>) lwb ps1 = (r2, ps2)"
  shows "r2 = None \<and> ps_queue ps2 = ps_queue ps1 \<and> ps_store ps2 = ps_store ps1"
  using assms(3)
proof (cases rule: processTask_cases)
  case (converted t c cm)
  let ?t = "t\<lparr>task_Context := Some c\<rparr>"
  have skip: "\<not> equalFold (task_AVSAddress t) (pc_AvsAddress cfg) \<or> (\<exists>u. sGetTask ops (ps_store ps1) (task_TaskId t) = Inr u)"
  proof (cases "\<not> equalFold (task_AVSAddress t) (pc_AvsAddress cfg) \<or> (\<exists>u. sGetTask ops (ps_store ps) (task_TaskId t) = Inr u)")
    case True
    with converted(4) show ?thesis by auto
  next
    case False
    have none: "tasksOf (ps_store ps) (task_TaskId ?t) = None"
      using getTask [OF assms(1,2), of "task_TaskId t"] False by (auto split: option.splits)
    have "task_TaskId ?t \<noteq> []" "storable ?t" using assms(4) [OF converted(1)] by (simp_all add: storable_def)
    from save_then_get [OF assms(1,2) this none, of "pe_now env" _ "ps_store ps1"] False converted(4)
    show ?thesis by (auto simp: split: if_splits) (metis prod.collapse)
  qed
  from assms(5) show ?thesis
  proof (cases rule: processTask_cases)
    case (converted t' c' cm')
    with \<open>newTaskFromLog _ _ _ _ = Inr t\<close> have "t' = t" by simp
    with converted(4) skip show ?thesis by (auto split: if_splits)
  next
    case failed
    have "gm_get (cm_blockContexts (ps_cm ps1)) (eb_Number (lwb_Block lwb)) \<noteq> None"
      using converted(2,3) by (auto elim!: getContext_cases)
    with failed assms(5) converted(1) skip show ?thesis
      by (auto simp: processTask_def getContext_def Let_def split: option.splits sum.splits if_splits)
  qed
qed simp

end

end
