(* ===== verification/Auth.thy ===== *)
theory Auth
  imports Signing_Bytes
begin

text \<open>
  \<open>ponos/pkg/auth\<close>: challenge tokens and the verification of a signed token
  (\<open>tokenManager.go\<close>, \<open>verifier.go\<close>, \<open>grpc_helpers.go\<close>). The random identifier drawn by
  \<open>uuid.New\<close>, the clock and the signer are arguments. The operations are also the steps of a
  transition relation on the verifier, over which the theorems count how often a token is accepted.
\<close>

section \<open>Challenge tokens\<close>

record token_entry =
  te_Token :: string
  te_CreatedAt :: time
  te_ExpiresAt :: time
  te_Used :: bool

record token_manager =
  ctm_tokens :: "(string \<times> token_entry) list"
  ctm_authorizedEntity :: string
  ctm_expiration :: int

datatype token_error = EntityMismatch | TokenNotFound | TokenAlreadyUsed | TokenExpired

definition newChallengeTokenManager :: "string \<Rightarrow> int \<Rightarrow> token_manager" where
  "newChallengeTokenManager authorizedEntity expiration =
     \<lparr>ctm_tokens = [], ctm_authorizedEntity = toLower authorizedEntity, ctm_expiration = expiration\<rparr>"

definition tokenOf :: "eth_common \<Rightarrow> string \<Rightarrow> string" where
  "tokenOf eth uuidStr = hexEncodeToString (getKeccak256Digest eth (stringBytes uuidStr))"

definition generateChallengeToken ::
  "eth_common \<Rightarrow> string \<Rightarrow> time \<Rightarrow> token_manager \<Rightarrow> string \<Rightarrow> (token_error + token_entry) \<times> token_manager" where
  "generateChallengeToken eth uuidStr now ctm entity =
     (if \<not> equalFold entity (ctm_authorizedEntity ctm) then (Inl EntityMismatch, ctm)
      else (let token = tokenOf eth uuidStr;
                entry = \<lparr>te_Token = token, te_CreatedAt = now, te_ExpiresAt = now + ctm_expiration ctm, te_Used = False\<rparr>
            in (Inr entry, ctm\<lparr>ctm_tokens := gm_put (ctm_tokens ctm) token entry\<rparr>)))"

text \<open>The entry is a pointer: setting \<open>Used\<close> changes the entry of the map.\<close>

definition useChallengeToken :: "time \<Rightarrow> token_manager \<Rightarrow> string \<Rightarrow> token_error option \<times> token_manager" where
  "useChallengeToken now ctm token =
     (case gm_get (ctm_tokens ctm) token of
        None \<Rightarrow> (Some TokenNotFound, ctm)
      | Some entry \<Rightarrow>
          if te_Used entry then (Some TokenAlreadyUsed, ctm)
          else if now > te_ExpiresAt entry then (Some TokenExpired, ctm)
          else (None, ctm\<lparr>ctm_tokens := AList.map_entry token (te_Used_update (\<lambda>_. True)) (ctm_tokens ctm)\<rparr>))"

definition cleanupExpiredTokens :: "time \<Rightarrow> token_manager \<Rightarrow> token_manager" where
  "cleanupExpiredTokens now ctm =
     ctm\<lparr>ctm_tokens := filter (\<lambda>(token, entry). \<not> now > te_ExpiresAt entry) (ctm_tokens ctm)\<rparr>"

section \<open>The verifier\<close>

text \<open>gRPC status codes and errors with a status; a plain error has none.\<close>

datatype grpc_code = Unauthenticated | Internal | InvalidArgument | Unimplemented | AlreadyExists | DeadlineExceeded
  | NotFound | PermissionDenied

datatype auth_error = Status grpc_code | PlainError

record auth_signature =
  as_ChallengeToken :: string
  as_Signature :: bytes

type_synonym signer = "bytes \<Rightarrow> bytes option"

record verifier =
  v_tokenManager :: token_manager
  v_signer :: signer

definition newVerifier :: "token_manager \<Rightarrow> signer \<Rightarrow> verifier" where
  "newVerifier tm sg = \<lparr>v_tokenManager = tm, v_signer = sg\<rparr>"

definition constructSignedMessage :: "eth_common \<Rightarrow> string \<Rightarrow> bytes" where
  "constructSignedMessage eth challengeToken = getKeccak256Digest eth (stringBytes challengeToken)"

fun bytesEqualFrom :: "bytes \<Rightarrow> bytes \<Rightarrow> nat \<Rightarrow> nat \<Rightarrow> bool" where
  "bytesEqualFrom a b i 0 = True"
| "bytesEqualFrom a b i (Suc n) = (if a ! i \<noteq> b ! i then False else bytesEqualFrom a b (Suc i) n)"

definition bytesEqual :: "bytes \<Rightarrow> bytes \<Rightarrow> bool" where
  "bytesEqual a b = (if length a \<noteq> length b then False else bytesEqualFrom a b 0 (length a))"

text \<open>
  \<open>auth == nil\<close> compares an interface value; the services pass a typed pointer, so their nil
  authentication reaches the token lookup with an empty token instead (\<open>authOfPointer\<close>). The
  protobuf getters return the zero value on a nil message.
\<close>

definition verifierGenerate ::
  "eth_common \<Rightarrow> string \<Rightarrow> time \<Rightarrow> verifier \<Rightarrow> string \<Rightarrow> (token_error + token_entry) \<times> verifier" where
  "verifierGenerate eth uuidStr now v entity =
     (case generateChallengeToken eth uuidStr now (v_tokenManager v) entity of
        (r, tm) \<Rightarrow> (r, v\<lparr>v_tokenManager := tm\<rparr>))"

definition verifyAuthentication ::
  "eth_common \<Rightarrow> time \<Rightarrow> verifier \<Rightarrow> auth_signature option \<Rightarrow> auth_error option \<times> verifier" where
  "verifyAuthentication eth now v auth =
     (case auth of
        None \<Rightarrow> (Some (Status Unauthenticated), v)
      | Some au \<Rightarrow>
      (case useChallengeToken now (v_tokenManager v) (as_ChallengeToken au) of
        (Some e, tm) \<Rightarrow> (Some (Status Unauthenticated), v\<lparr>v_tokenManager := tm\<rparr>)
      | (None, tm) \<Rightarrow>
      (let v' = v\<lparr>v_tokenManager := tm\<rparr>;
           signedMessage = constructSignedMessage eth (as_ChallengeToken au)
       in (case v_signer v signedMessage of
             None \<Rightarrow> (Some (Status Internal), v')
           | Some expectedSig \<Rightarrow>
               if \<not> bytesEqual (as_Signature au) expectedSig then (Some (Status Unauthenticated), v')
               else (None, v')))))"

definition authOfPointer :: "auth_signature option \<Rightarrow> auth_signature option" where
  "authOfPointer p = Some (case p of None \<Rightarrow> \<lparr>as_ChallengeToken = '''', as_Signature = []\<rparr> | Some au \<Rightarrow> au)"

definition handleAuthError :: "auth_error option \<Rightarrow> auth_error option" where
  "handleAuthError err =
     (case err of
        None \<Rightarrow> None
      | Some (Status c) \<Rightarrow> Some (Status c)
      | Some PlainError \<Rightarrow> Some (Status Unauthenticated))"

section \<open>The verifier as a transition system\<close>

datatype auth_label =
    Generated string string time
  | Refused string
  | Accepted auth_signature time
  | Rejected "auth_signature option" time auth_error
  | Cleaned time

inductive auth_step :: "eth_common \<Rightarrow> verifier \<Rightarrow> auth_label \<Rightarrow> verifier \<Rightarrow> bool" for eth where
  gen: "verifierGenerate eth uuidStr now v entity = (Inr entry, v') \<Longrightarrow> auth_step eth v (Generated entity (te_Token entry) now) v'"
| refuse: "verifierGenerate eth uuidStr now v entity = (Inl e, v') \<Longrightarrow> auth_step eth v (Refused entity) v'"
| accept: "verifyAuthentication eth now v (Some au) = (None, v') \<Longrightarrow> auth_step eth v (Accepted au now) v'"
| reject: "verifyAuthentication eth now v auth = (Some e, v') \<Longrightarrow> auth_step eth v (Rejected auth now e) v'"
| clean: "auth_step eth v (Cleaned now) (v\<lparr>v_tokenManager := cleanupExpiredTokens now (v_tokenManager v)\<rparr>)"

text \<open>A run, the latest label first.\<close>

inductive auth_run :: "eth_common \<Rightarrow> verifier \<Rightarrow> auth_label list \<Rightarrow> verifier \<Rightarrow> bool" for eth v0 where
  start: "auth_run eth v0 [] v0"
| step: "auth_run eth v0 ls v \<Longrightarrow> auth_step eth v l v' \<Longrightarrow> auth_run eth v0 (l # ls) v'"

fun acceptedCount :: "string \<Rightarrow> auth_label list \<Rightarrow> nat" where
  "acceptedCount tok [] = 0"
| "acceptedCount tok (Accepted au now # ls) = (if as_ChallengeToken au = tok then 1 else 0) + acceptedCount tok ls"
| "acceptedCount tok (l # ls) = acceptedCount tok ls"

fun generatedCount :: "string \<Rightarrow> auth_label list \<Rightarrow> nat" where
  "generatedCount tok [] = 0"
| "generatedCount tok (Generated entity t now # ls) = (if t = tok then 1 else 0) + generatedCount tok ls"
| "generatedCount tok (l # ls) = generatedCount tok ls"

definition unusedTokens :: "string \<Rightarrow> token_manager \<Rightarrow> nat" where
  "unusedTokens tok ctm = (case gm_get (ctm_tokens ctm) tok of None \<Rightarrow> 0 | Some e \<Rightarrow> if te_Used e then 0 else 1)"

definition token_invar :: "token_manager \<Rightarrow> bool" where
  "token_invar ctm \<longleftrightarrow> gm_wf (ctm_tokens ctm)"

text \<open>Every entry of the manager stems from a generation for the authorized entity.\<close>

definition tokens_issued :: "auth_label list \<Rightarrow> token_manager \<Rightarrow> bool" where
  "tokens_issued ls ctm \<longleftrightarrow>
     (\<forall>tok e. gm_get (ctm_tokens ctm) tok = Some e \<longrightarrow>
       (\<exists>entity t0. Generated entity tok t0 \<in> set ls \<and> equalFold entity (ctm_authorizedEntity ctm) \<and>
          te_ExpiresAt e = t0 + ctm_expiration ctm))"

inductive_cases auth_stepE: "auth_step eth v l v'"

section \<open>Tokens are single use\<close>

lemma bytesEqualFrom_iff: "bytesEqualFrom a b i n \<longleftrightarrow> (\<forall>j<n. a ! (i + j) = b ! (i + j))"
  by (induction n arbitrary: i) (auto simp: less_Suc_eq_0_disj all_conj_distrib)

lemma bytesEqual_iff: "bytesEqual a b \<longleftrightarrow> a = b"
  by (auto simp: bytesEqual_def bytesEqualFrom_iff intro: nth_equalityI)

lemma useChallengeToken_cases:
  assumes "useChallengeToken now ctm tok = (r, ctm')"
  obtains (ok) e where "r = None" "gm_get (ctm_tokens ctm) tok = Some e" "\<not> te_Used e" "now \<le> te_ExpiresAt e"
      "ctm' = ctm\<lparr>ctm_tokens := AList.map_entry tok (te_Used_update (\<lambda>_. True)) (ctm_tokens ctm)\<rparr>"
  | (bad) err where "r = Some err" "ctm' = ctm"
  using assms by (auto simp: useChallengeToken_def split: option.splits if_splits)

lemma gm_get_filter_wf: "gm_wf m \<Longrightarrow>
    gm_get (filter (\<lambda>(k, v). P v) m) k = (case gm_get m k of None \<Rightarrow> None | Some v \<Rightarrow> if P v then Some v else None)"
  by (induction m) (auto simp: gm_wf_def gm_keys_None split: option.splits)

lemma gm_wf_filter [simp]: "gm_wf m \<Longrightarrow> gm_wf (filter P m)"
  by (auto simp: gm_wf_def distinct_map_filter)

lemma verify_accepts_iff:
  "fst (verifyAuthentication eth now v (Some au)) = None \<longleftrightarrow>
     (\<exists>e. gm_get (ctm_tokens (v_tokenManager v)) (as_ChallengeToken au) = Some e \<and> \<not> te_Used e \<and> now \<le> te_ExpiresAt e) \<and>
     v_signer v (constructSignedMessage eth (as_ChallengeToken au)) = Some (as_Signature au)"
  by (auto simp: verifyAuthentication_def useChallengeToken_def Let_def bytesEqual_iff not_less
      split: option.splits if_splits)

text \<open>Whatever the outcome, a verification leaves the manager that \<open>useChallengeToken\<close> leaves.\<close>

lemma verify_manager:
  "snd (verifyAuthentication eth now v (Some au)) =
     v\<lparr>v_tokenManager := snd (useChallengeToken now (v_tokenManager v) (as_ChallengeToken au))\<rparr>"
  by (auto simp: verifyAuthentication_def Let_def split: option.splits prod.splits)

lemma verify_none [simp]: "verifyAuthentication eth now v None = (Some (Status Unauthenticated), v)"
  by (simp add: verifyAuthentication_def)

lemma use_unused:
  "token_invar ctm \<Longrightarrow> unusedTokens tok (snd (useChallengeToken now ctm t)) \<le> unusedTokens tok ctm"
  by (auto simp: useChallengeToken_def unusedTokens_def token_invar_def split: option.splits if_splits)

lemma use_invar: "token_invar ctm \<Longrightarrow> token_invar (snd (useChallengeToken now ctm t))"
  by (auto simp: useChallengeToken_def token_invar_def split: option.splits if_splits)

lemma use_static: "ctm_authorizedEntity (snd (useChallengeToken now ctm t)) = ctm_authorizedEntity ctm"
    "ctm_expiration (snd (useChallengeToken now ctm t)) = ctm_expiration ctm"
  by (auto simp: useChallengeToken_def split: option.splits if_splits)

lemma use_accepted:
  "fst (useChallengeToken now ctm t) = None \<Longrightarrow>
     unusedTokens t ctm = 1 \<and> unusedTokens t (snd (useChallengeToken now ctm t)) = 0"
  by (auto simp: useChallengeToken_def unusedTokens_def split: option.splits if_splits)

lemma accept_uses:
  "verifyAuthentication eth now v (Some au) = (None, v') \<Longrightarrow>
     fst (useChallengeToken now (v_tokenManager v) (as_ChallengeToken au)) = None"
  by (auto simp: verifyAuthentication_def split: option.splits prod.splits)

lemma auth_step_effect:
  assumes "auth_step eth v l v'" "token_invar (v_tokenManager v)"
  shows "token_invar (v_tokenManager v')" (is ?inv)
    and "acceptedCount tok [l] + unusedTokens tok (v_tokenManager v') \<le>
      unusedTokens tok (v_tokenManager v) + generatedCount tok [l]" (is ?count)
    and "v_signer v' = v_signer v"
    and "ctm_authorizedEntity (v_tokenManager v') = ctm_authorizedEntity (v_tokenManager v)"
    and "ctm_expiration (v_tokenManager v') = ctm_expiration (v_tokenManager v)"
proof -
  have "?inv \<and> ?count \<and> v_signer v' = v_signer v \<and>
    ctm_authorizedEntity (v_tokenManager v') = ctm_authorizedEntity (v_tokenManager v) \<and>
    ctm_expiration (v_tokenManager v') = ctm_expiration (v_tokenManager v)"
    using assms(1)
  proof cases
    case (gen uuidStr now entity entry)
    with assms(2) show ?thesis
      by (auto simp: verifierGenerate_def generateChallengeToken_def Let_def token_invar_def unusedTokens_def
          split: if_splits)
  next
    case (refuse uuidStr now entity e)
    with assms(2) show ?thesis
      by (auto simp: verifierGenerate_def generateChallengeToken_def Let_def split: if_splits)
  next
    case (accept now au)
    then have v': "v' = v\<lparr>v_tokenManager := snd (useChallengeToken now (v_tokenManager v) (as_ChallengeToken au))\<rparr>"
      using verify_manager [of eth now v au] by simp
    with accept assms(2) use_invar use_static use_unused [OF assms(2), of tok now "as_ChallengeToken au"]
      use_accepted [OF accept_uses [OF accept(2)]] show ?thesis by auto
  next
    case (reject now auth e)
    show ?thesis
    proof (cases auth)
      case None
      with reject assms(2) show ?thesis by simp
    next
      case (Some au)
      then have v': "v' = v\<lparr>v_tokenManager := snd (useChallengeToken now (v_tokenManager v) (as_ChallengeToken au))\<rparr>"
        using reject verify_manager [of eth now v au] by simp
      with reject assms(2) use_invar use_static use_unused [OF assms(2), of tok now "as_ChallengeToken au"]
      show ?thesis by auto
    qed
  next
    case (clean now)
    with assms(2) show ?thesis
      by (auto simp: cleanupExpiredTokens_def token_invar_def unusedTokens_def gm_get_filter_wf
          split: option.splits)
  qed
  then show ?inv ?count "v_signer v' = v_signer v"
    "ctm_authorizedEntity (v_tokenManager v') = ctm_authorizedEntity (v_tokenManager v)"
    "ctm_expiration (v_tokenManager v') = ctm_expiration (v_tokenManager v)" by simp_all
qed

lemma acceptedCount_Cons: "acceptedCount tok (l # ls) = acceptedCount tok [l] + acceptedCount tok ls"
  by (cases l) simp_all

lemma generatedCount_Cons: "generatedCount tok (l # ls) = generatedCount tok [l] + generatedCount tok ls"
  by (cases l) simp_all

lemma auth_run_invar:
  "auth_run eth v0 ls v \<Longrightarrow> token_invar (v_tokenManager v0) \<Longrightarrow> token_invar (v_tokenManager v)"
  by (induction rule: auth_run.induct) (auto dest: auth_step_effect(1))

lemma auth_run_count:
  assumes "auth_run eth v0 ls v" "token_invar (v_tokenManager v0)"
  shows "acceptedCount tok ls + unusedTokens tok (v_tokenManager v) \<le>
    unusedTokens tok (v_tokenManager v0) + generatedCount tok ls"
  using assms
proof (induction rule: auth_run.induct)
  case (step ls v l v')
  from auth_step_effect(2) [OF step(2) auth_run_invar [OF step(1,4)], of tok] step(3) [OF step(4)]
  show ?case by (simp add: acceptedCount_Cons [of tok l ls] generatedCount_Cons [of tok l ls])
qed simp

lemma auth_run_static:
  assumes "auth_run eth v0 ls v" "token_invar (v_tokenManager v0)"
  shows "v_signer v = v_signer v0 \<and> ctm_authorizedEntity (v_tokenManager v) = ctm_authorizedEntity (v_tokenManager v0) \<and>
    ctm_expiration (v_tokenManager v) = ctm_expiration (v_tokenManager v0)"
  using assms
proof (induction rule: auth_run.induct)
  case (step ls v l v')
  note e = auth_step_effect [OF step(2) auth_run_invar [OF step(1,4)]]
  from e(3-5) step(3) [OF step(4)] show ?case by simp
qed simp

lemma tokens_issued_more: "tokens_issued ls ctm \<Longrightarrow> tokens_issued (l # ls) ctm"
  by (fastforce simp: tokens_issued_def)

lemma tokens_issued_use: "tokens_issued ls ctm \<Longrightarrow> tokens_issued ls (snd (useChallengeToken now ctm t))"
  by (auto simp: useChallengeToken_def tokens_issued_def split: option.splits if_splits)

lemma auth_step_issued:
  assumes "auth_step eth v l v'" "token_invar (v_tokenManager v)" "tokens_issued ls (v_tokenManager v)"
  shows "tokens_issued (l # ls) (v_tokenManager v')"
  using assms(1)
proof cases
  case (gen uuidStr now entity entry)
  with assms(3) show ?thesis
    by (fastforce simp: verifierGenerate_def generateChallengeToken_def Let_def tokens_issued_def split: if_splits)
next
  case (refuse uuidStr now entity e)
  with tokens_issued_more [OF assms(3)] show ?thesis
    by (auto simp: verifierGenerate_def generateChallengeToken_def Let_def split: if_splits)
next
  case (accept now au)
  with verify_manager [of eth now v au] tokens_issued_more [OF tokens_issued_use [OF assms(3)]] show ?thesis by simp
next
  case (reject now auth e)
  show ?thesis
  proof (cases auth)
    case None
    with reject tokens_issued_more [OF assms(3)] show ?thesis by simp
  next
    case (Some au)
    with reject verify_manager [of eth now v au] tokens_issued_more [OF tokens_issued_use [OF assms(3)]] show ?thesis by simp
  qed
next
  case (clean now)
  with tokens_issued_more [OF assms(3), of l] assms(2) show ?thesis
    by (auto simp: cleanupExpiredTokens_def tokens_issued_def token_invar_def gm_get_filter_wf
        split: option.splits if_splits)
qed

lemma auth_run_issued:
  assumes "auth_run eth v0 ls v" "token_invar (v_tokenManager v0)" "tokens_issued [] (v_tokenManager v0)"
  shows "tokens_issued ls (v_tokenManager v)"
  using assms by (induction rule: auth_run.induct) (auto intro: auth_step_issued auth_run_invar)

lemma new_token_manager [simp]:
  "token_invar (newChallengeTokenManager entity exp)" "tokens_issued [] (newChallengeTokenManager entity exp)"
  "unusedTokens tok (newChallengeTokenManager entity exp) = 0"
  "ctm_authorizedEntity (newChallengeTokenManager entity exp) = toLower entity"
  "ctm_expiration (newChallengeTokenManager entity exp) = exp"
  "v_tokenManager (newVerifier tm sg) = tm" "v_signer (newVerifier tm sg) = sg"
  by (simp_all add: newChallengeTokenManager_def token_invar_def tokens_issued_def unusedTokens_def newVerifier_def)

section \<open>Properties\<close>

text \<open>A run that issues one token and accepts it once.\<close>

definition sample_signer :: signer where
  "sample_signer m = Some (1 # m)"

definition sample_token :: string where
  "sample_token = tokenOf sample_eth ''u''"

definition sample_auth :: auth_signature where
  "sample_auth = \<lparr>as_ChallengeToken = sample_token, as_Signature = 1 # constructSignedMessage sample_eth sample_token\<rparr>"

definition sample_verifier :: verifier where
  "sample_verifier = newVerifier (newChallengeTokenManager ''0xAb'' 300) sample_signer"

lemma sample_run:
  "\<exists>v. auth_run sample_eth sample_verifier [Generated ''0xaB'' sample_token 100] v \<and>
    fst (verifyAuthentication sample_eth 200 v (Some sample_auth)) = None"
proof -
  have entity: "equalFold ''0xaB'' ''0xAb''" by code_simp
  obtain e v where v: "verifierGenerate sample_eth ''u'' 100 sample_verifier ''0xaB'' = (Inr e, v)" "te_Token e = sample_token"
    "gm_get (ctm_tokens (v_tokenManager v)) sample_token = Some e" "\<not> te_Used e" "te_ExpiresAt e = 400" "v_signer v = sample_signer"
    using entity by (simp add: verifierGenerate_def generateChallengeToken_def sample_verifier_def Let_def sample_token_def
        newVerifier_def newChallengeTokenManager_def)
  from auth_run.step [OF auth_run.start auth_step.gen [OF v(1)]] v(2)
  have "auth_run sample_eth sample_verifier [Generated ''0xaB'' sample_token 100] v" by simp
  moreover have "fst (verifyAuthentication sample_eth 200 v (Some sample_auth)) = None"
    using v by (simp add: verify_accepts_iff sample_auth_def sample_signer_def)
  ultimately show ?thesis by blast
qed

text \<open>
  C30. A challenge token is accepted at most as often as it was issued: over any sequence of token
  generations, verifications (accepted or rejected) and cleanups from a new verifier, the number of
  accepted requests with a token never exceeds the number of times that token was generated.
\<close>

theorem token_single_use:
  assumes "auth_run eth (newVerifier (newChallengeTokenManager entity exp) sg) ls v"
  shows "acceptedCount tok ls \<le> generatedCount tok ls"
  using auth_run_count [OF assms, of tok] by simp

theorem token_single_use_witness:
  "\<exists>v. auth_run sample_eth sample_verifier [Accepted sample_auth 200, Generated ''0xaB'' sample_token 100] v \<and>
    acceptedCount sample_token [Accepted sample_auth 200, Generated ''0xaB'' sample_token 100] \<le>
    generatedCount sample_token [Accepted sample_auth 200, Generated ''0xaB'' sample_token 100]"
proof -
  from sample_run obtain v v' where "auth_run sample_eth sample_verifier [Generated ''0xaB'' sample_token 100] v"
    "verifyAuthentication sample_eth 200 v (Some sample_auth) = (None, v')" by (metis prod.collapse)
  then have run: "auth_run sample_eth sample_verifier [Accepted sample_auth 200, Generated ''0xaB'' sample_token 100] v'"
    by (blast intro: auth_run.step auth_step.accept)
  with token_single_use [of sample_eth "''0xAb''" 300 sample_signer _ v' sample_token] show ?thesis
    unfolding sample_verifier_def by blast
qed

text \<open>
  C31. An accepted request carries a token that was generated for the authorized entity (up to letter
  case) no longer ago than the expiration time, and a signature equal to the verifier's own
  signature over the hash of the token.
\<close>

theorem accepted_request_authentic:
  assumes "auth_run eth (newVerifier (newChallengeTokenManager entity exp) sg) ls v"
    and "fst (verifyAuthentication eth now v (Some au)) = None"
  shows "(\<exists>entity' t0. Generated entity' (as_ChallengeToken au) t0 \<in> set ls \<and> equalFold entity' entity \<and> now \<le> t0 + exp) \<and>
    sg (constructSignedMessage eth (as_ChallengeToken au)) = Some (as_Signature au)"
proof -
  have st: "v_signer v = sg" "ctm_authorizedEntity (v_tokenManager v) = toLower entity" "ctm_expiration (v_tokenManager v) = exp"
    using auth_run_static [OF assms(1)] by simp_all
  have "tokens_issued ls (v_tokenManager v)" using auth_run_issued [OF assms(1)] by simp
  with assms(2) st show ?thesis unfolding verify_accepts_iff tokens_issued_def by fastforce
qed

theorem accepted_request_authentic_witness:
  "\<exists>v. fst (verifyAuthentication sample_eth 200 v (Some sample_auth)) = None \<and>
    sample_signer (constructSignedMessage sample_eth sample_token) = Some (as_Signature sample_auth)"
proof -
  from sample_run obtain v where "auth_run sample_eth sample_verifier [Generated ''0xaB'' sample_token 100] v"
    "fst (verifyAuthentication sample_eth 200 v (Some sample_auth)) = None" by blast
  with accepted_request_authentic [of sample_eth "''0xAb''" 300 sample_signer _ v 200 sample_auth] show ?thesis
    by (auto simp: sample_verifier_def sample_auth_def)
qed

text \<open>
  A verification that gets past the token check burns the token, whether or not the signature
  turns out to be right: every later request with the same token is rejected as unauthenticated.
\<close>

theorem verification_burns_token:
  assumes "fst (useChallengeToken now (v_tokenManager v) (as_ChallengeToken au)) = None"
    and "as_ChallengeToken au' = as_ChallengeToken au"
  shows "fst (verifyAuthentication eth later (snd (verifyAuthentication eth now v (Some au))) (Some au')) =
    Some (Status Unauthenticated)"
  using assms
  by (auto simp: verify_manager verifyAuthentication_def [of eth later] useChallengeToken_def split: option.splits if_splits)

theorem verification_burns_token_witness:
  "\<exists>v. fst (verifyAuthentication sample_eth 200 v (Some (sample_auth\<lparr>as_Signature := [3]\<rparr>))) = Some (Status Unauthenticated) \<and>
    fst (verifyAuthentication sample_eth 201
      (snd (verifyAuthentication sample_eth 200 v (Some (sample_auth\<lparr>as_Signature := [3]\<rparr>)))) (Some sample_auth)) =
    Some (Status Unauthenticated)"
proof -
  from sample_run obtain v where acc: "fst (verifyAuthentication sample_eth 200 v (Some sample_auth)) = None" by blast
  have use: "fst (useChallengeToken 200 (v_tokenManager v) sample_token) = None"
    using acc accept_uses [of sample_eth 200 v sample_auth] by (cases "verifyAuthentication sample_eth 200 v (Some sample_auth)")
      (simp add: sample_auth_def)
  have sg: "v_signer v (constructSignedMessage sample_eth sample_token) = Some (1 # constructSignedMessage sample_eth sample_token)"
    using acc by (simp add: verify_accepts_iff) (simp add: sample_auth_def)
  have "fst (verifyAuthentication sample_eth 200 v (Some (sample_auth\<lparr>as_Signature := [3]\<rparr>))) = Some (Status Unauthenticated)"
    using use sg by (auto simp: verifyAuthentication_def sample_auth_def Let_def bytesEqual_iff split: prod.splits option.splits)
  with verification_burns_token [of 200 v "sample_auth\<lparr>as_Signature := [3]\<rparr>" sample_auth sample_eth 201] use
  show ?thesis by (auto simp: sample_auth_def)
qed

end
