(* ===== verification/Aggregator.thy ===== *)
theory Aggregator
  imports Execution_Manager Chain_Poller Auth Contract_Store Memory_Store
begin

text \<open>
  \<open>ponos/pkg/aggregator/aggregator.go\<close> and \<open>handlers.go\<close>: the aggregator registers AVSs, giving each
  an execution manager, one poller per chain and a cancellable context, and serves its management
  API behind the challenge-token authentication. The contract callers that \<open>Initialize\<close> builds, what
  the pollers read from the chain during their start and the peering data are arguments. The
  pollers' \<open>Start\<close> calls, which the code runs concurrently, are taken one after the other.
\<close>

section \<open>Configuration and state\<close>

record chain_config =
  ch_Name :: string
  ch_ChainId :: chain_id
  ch_RpcURL :: string
  ch_PollIntervalSeconds :: int

record aggregator_avs =
  aa_Address :: string
  aa_ChainIds :: "nat list"

record aggregator_config =
  ac_Address :: string
  ac_AVSs :: "aggregator_avs list"
  ac_Chains :: "chain_config list"
  ac_L1ChainId :: chain_id
  ac_Authentication :: "bool option"
  ac_TLSEnabled :: bool

record signers =
  sg_ECDSASigner :: "signer option"
  sg_BLSSigner :: "signer option"

record ('s, 'k) avs_info =
  ai_Address :: string
  ai_ExecutionManager :: "('s, 'k) exec_manager"
  ai_CancelFunc :: "ctx_id option"

text \<open>
  \<open>ag_cancelled\<close>: the AVS contexts that have been cancelled; \<open>ag_nextCtx\<close> numbers the contexts made
  so far. \<open>ag_rootCtx\<close> is whether the root context is set.
\<close>

record ('s, 'k) aggregator =
  ag_config :: aggregator_config
  ag_rootCtx :: bool
  ag_contracts :: contract_store
  ag_chainContractCallers :: "(chain_id \<times> exec_caller) list"
  ag_avsManagers :: "(string \<times> ('s, 'k) avs_info) list"
  ag_peering :: "string \<Rightarrow> u64 \<Rightarrow> 'k operator_peer_info list option"
  ag_store :: 's
  ag_authVerifier :: "verifier option"
  ag_nextCtx :: ctx_id
  ag_cancelled :: "ctx_id list"

datatype ag_error = L1ChainIdUnset | NoL1Caller | CallerInitFailed | AlreadyRegistered | InvalidChainIds
  | NilRootContextPanic | PollersFailed poll_error | ManagerFailed em_error | NotStarted | NotRegistered

section \<open>Authentication of the management API\<close>

definition getAuthVerifier :: "aggregator_config \<Rightarrow> signers \<Rightarrow> verifier option" where
  "getAuthVerifier cfg sgs =
     (case ac_Authentication cfg of
        None \<Rightarrow> None
      | Some enabled \<Rightarrow>
          if \<not> enabled then None
          else (case (if sg_ECDSASigner sgs \<noteq> None then sg_ECDSASigner sgs else sg_BLSSigner sgs) of
                  None \<Rightarrow> None
                | Some authSigner \<Rightarrow>
                    Some (newVerifier (newChallengeTokenManager (ac_Address cfg) (5 * 60)) authSigner)))"

definition verifyAuth ::
  "eth_common \<Rightarrow> time \<Rightarrow> ('s, 'k) aggregator \<Rightarrow> auth_signature option \<Rightarrow> auth_error option \<times> ('s, 'k) aggregator" where
  "verifyAuth eth now a auth =
     (case ag_authVerifier a of
        None \<Rightarrow> if auth \<noteq> None then (Some (Status Unimplemented), a) else (None, a)
      | Some v \<Rightarrow>
          (case verifyAuthentication eth now v (authOfPointer auth) of
             (r, v') \<Rightarrow> (r, a\<lparr>ag_authVerifier := Some v'\<rparr>)))"

section \<open>Creation\<close>

definition newAggregator ::
  "aggregator_config \<Rightarrow> contract_store \<Rightarrow> (string \<Rightarrow> u64 \<Rightarrow> 'k operator_peer_info list option) \<Rightarrow> signers \<Rightarrow> 's \<Rightarrow>
     ag_error + ('s, 'k) aggregator" where
  "newAggregator cfg contracts peering sgs store =
     (if ac_L1ChainId cfg = 0 then Inl L1ChainIdUnset
      else Inr \<lparr>ag_config = cfg, ag_rootCtx = False, ag_contracts = contracts, ag_chainContractCallers = [],
             ag_avsManagers = [], ag_peering = peering, ag_store = store,
             ag_authVerifier = getAuthVerifier cfg sgs, ag_nextCtx = 0, ag_cancelled = []\<rparr>)"

fun initCallers ::
  "(chain_config \<Rightarrow> exec_caller option) \<Rightarrow> chain_config list \<Rightarrow> (chain_id \<times> exec_caller) list \<Rightarrow>
     ag_error + (chain_id \<times> exec_caller) list" where
  "initCallers mk [] callers = Inr callers"
| "initCallers mk (chain # rest) callers =
     (case mk chain of
        None \<Rightarrow> Inl CallerInitFailed
      | Some cc \<Rightarrow> initCallers mk rest (gm_put callers (ch_ChainId chain) cc))"

definition initializeContractCallers ::
  "(chain_config \<Rightarrow> exec_caller option) \<Rightarrow> aggregator_config \<Rightarrow> ag_error + (chain_id \<times> exec_caller) list" where
  "initializeContractCallers mk cfg =
     (case initCallers mk (ac_Chains cfg) [] of
        Inl e \<Rightarrow> Inl e
      | Inr callers \<Rightarrow> if gm_get callers (ac_L1ChainId cfg) = None then Inl NoL1Caller else Inr callers)"

definition aggregatorInitialize ::
  "(chain_config \<Rightarrow> exec_caller option) \<Rightarrow> ('s, 'k) aggregator \<Rightarrow> ag_error option \<times> ('s, 'k) aggregator" where
  "aggregatorInitialize mk a =
     (case initializeContractCallers mk (ag_config a) of
        Inl e \<Rightarrow> (Some e, a)
      | Inr callers \<Rightarrow> (None, a\<lparr>ag_chainContractCallers := callers\<rparr>))"

section \<open>Chains and pollers of an AVS\<close>

definition getMailboxAddressesForChains :: "contract list \<Rightarrow> (chain_id \<times> string) list" where
  "getMailboxAddressesForChains allContracts =
     utilReduce allContracts (\<lambda>acc c. if co_Name c \<noteq> contractName_TaskMailbox then acc
       else gm_put acc (co_ChainId c) (co_Address c)) []"

definition getValidChainsForAvs :: "('s, 'k) aggregator \<Rightarrow> nat list \<Rightarrow> ag_error + chain_id list" where
  "getValidChainsForAvs a chainIds =
     (let validChainMap = foldl (\<lambda>m c. gm_put m (ch_ChainId c) True) [] (ac_Chains (ag_config a));
          validChainIds = utilFilter chainIds (\<lambda>i. gm_get validChainMap i = Some True)
      in if length validChainIds \<noteq> length chainIds then Inl InvalidChainIds
         else Inr (utilMap validChainIds (\<lambda>i _. i)))"

fun getChainConfig :: "chain_config list \<Rightarrow> chain_id \<Rightarrow> chain_config option" where
  "getChainConfig [] chainId = None"
| "getChainConfig (c # cs) chainId = (if ch_ChainId c = chainId then Some c else getChainConfig cs chainId)"

text \<open>The configuration of one poller; the fields the aggregator leaves out are zero.\<close>

fun getChainPollers ::
  "('s, 'k) aggregator \<Rightarrow> string \<Rightarrow> chain_id list \<Rightarrow> (chain_id \<times> poller_config) list \<Rightarrow> (chain_id \<times> poller_config) list" where
  "getChainPollers a avsAddress [] pollers = pollers"
| "getChainPollers a avsAddress (chainId # rest) pollers =
     (case getChainConfig (ac_Chains (ag_config a)) chainId of
        None \<Rightarrow> getChainPollers a avsAddress rest pollers
      | Some chain \<Rightarrow>
          getChainPollers a avsAddress rest
            (gm_put pollers chainId
              (pollerDefaults \<lparr>pc_ChainId = chainId,
                 pc_InterestingContracts = listContractAddressesForChain (ag_contracts a) chainId,
                 pc_AvsAddress = avsAddress, pc_MaxReorgDepth = 0, pc_BlockHistorySize = 0,
                 pc_ReorgCheckEnabled = False\<rparr>)))"

text \<open>Every poller is started, also after a failure; the first error is returned when all are done.\<close>

fun startPollers ::
  "'s aggregator_store \<Rightarrow> poller_env \<Rightarrow> (chain_id \<Rightarrow> eth_client) \<Rightarrow> (chain_id \<times> poller_config) list \<Rightarrow>
     's \<times> task list \<Rightarrow> poll_error option \<times> 's \<times> task list" where
  "startPollers sops env clients [] sq = (None, sq)"
| "startPollers sops env clients ((chainId, cfg) # rest) (s, q) =
     (case pollerStart sops cfg env (clients chainId) \<lparr>ps_store = s, ps_cm = newTaskBlockContextManager False, ps_queue = q\<rparr> of
        (e, ps) \<Rightarrow>
          (case startPollers sops env clients rest (ps_store ps, ps_queue ps) of
             (e', sq) \<Rightarrow> (case e of None \<Rightarrow> e' | Some err \<Rightarrow> Some err, sq)))"

section \<open>Registration\<close>

definition storeAvsManager ::
  "string \<Rightarrow> ('s, 'k) exec_manager \<Rightarrow> ctx_id \<Rightarrow> ('s, 'k) aggregator \<Rightarrow> ag_error option \<times> ('s, 'k) aggregator" where
  "storeAvsManager avsAddress aem cancelFunc a =
     (if gm_get (ag_avsManagers a) avsAddress \<noteq> None then (Some AlreadyRegistered, a)
      else (None, a\<lparr>ag_avsManagers := gm_put (ag_avsManagers a) avsAddress
             \<lparr>ai_Address = avsAddress, ai_ExecutionManager = aem, ai_CancelFunc = Some cancelFunc\<rparr>\<rparr>))"

definition removeAvsManager :: "string \<Rightarrow> ('s, 'k) aggregator \<Rightarrow> ('s, 'k) aggregator" where
  "removeAvsManager avsAddress a = a\<lparr>ag_avsManagers := gm_del (ag_avsManagers a) avsAddress\<rparr>"

definition cancelAvs :: "ctx_id \<Rightarrow> ('s, 'k) aggregator \<Rightarrow> ('s, 'k) aggregator" where
  "cancelAvs c a = a\<lparr>ag_cancelled := c # ag_cancelled a\<rparr>"

text \<open>
  \<open>AvsExecutionManager.Start\<close>: recovers the pending tasks, ignoring a failure, and starts the loop
  that handles the queue. It never returns an error.
\<close>

definition execManagerStart ::
  "'s aggregator_store \<Rightarrow> time \<Rightarrow> (task list \<Rightarrow> bool) \<Rightarrow> task list \<Rightarrow> ('s, 'k) exec_manager \<Rightarrow> task list \<times> ('s, 'k) exec_manager" where
  "execManagerStart sops now room queue em =
     (case recoverPendingTasks sops now room queue em of (_, q, em') \<Rightarrow> (q, em'))"

text \<open>
  \<open>registerAvs\<close>. \<open>context.WithCancel\<close> panics on a nil parent, before the code's own check of
  \<open>rootCtx\<close>. From the creation of the AVS context on, an error cancels it.
\<close>

definition registerAvs ::
  "'s aggregator_store \<Rightarrow> poller_env \<Rightarrow> (chain_id \<Rightarrow> eth_client) \<Rightarrow> aggregator_avs \<Rightarrow> ('s, 'k) aggregator \<Rightarrow>
     ag_error option \<times> task list \<times> ('s, 'k) aggregator" where
  "registerAvs sops env clients avs a =
     (if gm_get (ag_avsManagers a) (aa_Address avs) \<noteq> None then (Some AlreadyRegistered, [], a)
      else (case getValidChainsForAvs a (aa_ChainIds avs) of
        Inl e \<Rightarrow> (Some e, [], a)
      | Inr supportedChains \<Rightarrow>
      (let om = newOperatorManager \<lparr>omc_AvsAddress = aa_Address avs, omc_ChainIds = supportedChains,
                    omc_L1ChainId = ac_L1ChainId (ag_config a)\<rparr>
                  (map (\<lambda>(c, cc). (c, table_caller.truncate cc)) (ag_chainContractCallers a)) (ag_peering a);
           chainPollers = getChainPollers a (aa_Address avs) supportedChains [] in
      if \<not> ag_rootCtx a then (Some NilRootContextPanic, [], a)
      else (let avsCtx = ag_nextCtx a; a1 = a\<lparr>ag_nextCtx := Suc avsCtx\<rparr> in
      (case startPollers sops env clients chainPollers (ag_store a1, []) of
        (Some e, s, q) \<Rightarrow> (Some (PollersFailed e), q, cancelAvs avsCtx (a1\<lparr>ag_store := s\<rparr>))
      | (None, s, q) \<Rightarrow>
      (let a2 = a1\<lparr>ag_store := s\<rparr> in
      (case newAvsExecutionManager \<lparr>emc_AvsAddress = aa_Address avs, emc_SupportedChainIds = supportedChains,
              emc_MailboxContractAddresses = getMailboxAddressesForChains (ag_contracts a2),
              emc_AggregatorAddress = ac_Address (ag_config a2), emc_L1ChainId = ac_L1ChainId (ag_config a2),
              emc_TlsEnabled = ac_TLSEnabled (ag_config a2)\<rparr>
            (ag_chainContractCallers a2) om (ag_store a2) of
        Inl e \<Rightarrow> (Some (ManagerFailed e), q, cancelAvs avsCtx a2)
      | Inr aem \<Rightarrow>
      (case storeAvsManager (aa_Address avs) aem avsCtx a2 of
        (Some e, a3) \<Rightarrow> (Some e, q, cancelAvs avsCtx a3)
      | (None, a3) \<Rightarrow>
      (case execManagerStart sops (pe_now env) (pe_room env) q aem of
        (q', aem') \<Rightarrow>
          (None, q', a3\<lparr>ag_store := em_store aem',
             ag_avsManagers := AList.map_entry (aa_Address avs) (ai_ExecutionManager_update (\<lambda>_. aem')) (ag_avsManagers a3)\<rparr>))))))))))"

definition deregisterAvs :: "string \<Rightarrow> ('s, 'k) aggregator \<Rightarrow> ag_error option \<times> ('s, 'k) aggregator" where
  "deregisterAvs avsAddress a =
     (case gm_get (ag_avsManagers a) avsAddress of
        None \<Rightarrow> (Some NotRegistered, a)
      | Some avsInfo \<Rightarrow>
          (let a1 = a\<lparr>ag_avsManagers := gm_del (ag_avsManagers a) avsAddress\<rparr> in
           case ai_CancelFunc avsInfo of
             None \<Rightarrow> (None, a1)
           | Some cancelFunc \<Rightarrow> (None, cancelAvs cancelFunc a1)))"

fun startAvss ::
  "'s aggregator_store \<Rightarrow> poller_env \<Rightarrow> (chain_id \<Rightarrow> eth_client) \<Rightarrow> aggregator_avs list \<Rightarrow> ('s, 'k) aggregator \<Rightarrow>
     ag_error option \<times> ('s, 'k) aggregator" where
  "startAvss sops env clients [] a = (None, a)"
| "startAvss sops env clients (avs # avss) a =
     (case registerAvs sops env clients avs a of
        (Some e, q, a') \<Rightarrow> (Some e, a')
      | (None, q, a') \<Rightarrow> startAvss sops env clients avss a')"

definition aggregatorStart ::
  "'s aggregator_store \<Rightarrow> poller_env \<Rightarrow> (chain_id \<Rightarrow> eth_client) \<Rightarrow> ('s, 'k) aggregator \<Rightarrow> ag_error option \<times> ('s, 'k) aggregator" where
  "aggregatorStart sops env clients a =
     startAvss sops env clients (ac_AVSs (ag_config a)) (a\<lparr>ag_rootCtx := True\<rparr>)"

section \<open>The management API\<close>

record register_request =
  rq_AvsAddress :: string
  rq_ChainIds :: "u32 list"
  rq_Auth :: "auth_signature option"

datatype rpc_result = RpcSuccess | RpcStatus grpc_code | RpcPanic

definition rpcOfAuth :: "auth_error \<Rightarrow> rpc_result" where
  "rpcOfAuth e = (case e of Status c \<Rightarrow> RpcStatus c | PlainError \<Rightarrow> RpcStatus Unauthenticated)"

definition rpc_RegisterAvs ::
  "eth_common \<Rightarrow> 's aggregator_store \<Rightarrow> poller_env \<Rightarrow> (chain_id \<Rightarrow> eth_client) \<Rightarrow> register_request \<Rightarrow> ('s, 'k) aggregator \<Rightarrow>
     rpc_result \<times> ('s, 'k) aggregator" where
  "rpc_RegisterAvs eth sops env clients request a =
     (case verifyAuth eth (pe_now env) a (rq_Auth request) of
        (r, a1) \<Rightarrow>
      (case handleAuthError r of
        Some e \<Rightarrow> (rpcOfAuth e, a1)
      | None \<Rightarrow>
      (case registerAvs sops env clients
              \<lparr>aa_Address = rq_AvsAddress request, aa_ChainIds = utilMap (rq_ChainIds request) (\<lambda>i _. unat i)\<rparr> a1 of
        (Some NilRootContextPanic, q, a2) \<Rightarrow> (RpcPanic, a2)
      | (Some e, q, a2) \<Rightarrow> (RpcStatus Internal, a2)
      | (None, q, a2) \<Rightarrow> (RpcSuccess, a2))))"

definition rpc_DeRegisterAvs ::
  "eth_common \<Rightarrow> time \<Rightarrow> string \<Rightarrow> auth_signature option \<Rightarrow> ('s, 'k) aggregator \<Rightarrow> rpc_result \<times> ('s, 'k) aggregator" where
  "rpc_DeRegisterAvs eth now avsAddress auth a =
     (case verifyAuth eth now a auth of
        (r, a1) \<Rightarrow>
      (case handleAuthError r of
        Some e \<Rightarrow> (rpcOfAuth e, a1)
      | None \<Rightarrow>
      (case deregisterAvs avsAddress a1 of
        (Some e, a2) \<Rightarrow> (RpcStatus Internal, a2)
      | (None, a2) \<Rightarrow> (RpcSuccess, a2))))"

definition rpc_GetChallengeToken ::
  "eth_common \<Rightarrow> string \<Rightarrow> time \<Rightarrow> string \<Rightarrow> ('s, 'k) aggregator \<Rightarrow> (grpc_code + string \<times> time) \<times> ('s, 'k) aggregator" where
  "rpc_GetChallengeToken eth uuidStr now aggregatorAddress a =
     (case ag_authVerifier a of
        None \<Rightarrow> (Inl Unimplemented, a)
      | Some v \<Rightarrow>
      (case verifierGenerate eth uuidStr now v aggregatorAddress of
        (Inl e, v') \<Rightarrow> (Inl InvalidArgument, a\<lparr>ag_authVerifier := Some v'\<rparr>)
      | (Inr entry, v') \<Rightarrow> (Inr (te_Token entry, te_ExpiresAt entry), a\<lparr>ag_authVerifier := Some v'\<rparr>)))"

section \<open>Every registered AVS runs under a live context\<close>

definition avs_invar :: "('s, 'k) aggregator \<Rightarrow> bool" where
  "avs_invar a \<longleftrightarrow> gm_wf (ag_avsManagers a) \<and> (\<forall>c\<in>set (ag_cancelled a). c < ag_nextCtx a) \<and>
     (\<forall>addr info. gm_get (ag_avsManagers a) addr = Some info \<longrightarrow> ai_Address info = addr \<and>
        (\<exists>c. ai_CancelFunc info = Some c \<and> c < ag_nextCtx a \<and> c \<notin> set (ag_cancelled a))) \<and>
     (\<forall>addr info addr' info'. gm_get (ag_avsManagers a) addr = Some info \<longrightarrow>
        gm_get (ag_avsManagers a) addr' = Some info' \<longrightarrow> ai_CancelFunc info = ai_CancelFunc info' \<longrightarrow> addr = addr')"

lemma avs_invarD:
  assumes "avs_invar a" "gm_get (ag_avsManagers a) addr = Some info"
  obtains c where "ai_Address info = addr" "ai_CancelFunc info = Some c" "c < ag_nextCtx a" "c \<notin> set (ag_cancelled a)"
  using assms unfolding avs_invar_def by blast

lemma validChains_iff:
  "gm_get (foldl (\<lambda>m c. gm_put m (ch_ChainId c) True) m0 cs) i = Some True \<longleftrightarrow>
     i \<in> ch_ChainId ` set cs \<or> gm_get m0 i = Some True"
  by (induction cs arbitrary: m0) auto

lemma length_filter_all: "length (filter P xs) = length xs \<longleftrightarrow> (\<forall>x\<in>set xs. P x)"
proof (induction xs)
  case (Cons x xs)
  have "length (filter P xs) \<noteq> Suc (length xs)" using length_filter_le [of P xs] by linarith
  with Cons show ?case by auto
qed simp

lemma map_entry_put:
  "AList.map_entry k f (gm_put m k v) = gm_put m k (f v)"
  by (induction m) auto

lemma getValidChains_Inr:
  "getValidChainsForAvs a chainIds = Inr cs \<longleftrightarrow>
     cs = chainIds \<and> set chainIds \<subseteq> ch_ChainId ` set (ac_Chains (ag_config a))"
proof -
  let ?S = "ch_ChainId ` set (ac_Chains (ag_config a))"
  have "filter (\<lambda>i. i \<in> ?S) chainIds = chainIds" if "\<forall>i\<in>set chainIds. i \<in> ?S" using that by (rule filter_True)
  then show ?thesis
    using length_filter_all [of "\<lambda>i. i \<in> ?S" chainIds]
    by (auto simp: getValidChainsForAvs_def Let_def go_simps validChains_iff)
qed

lemma hasMailboxes_None:
  "hasExpectedMailboxContractsForChains cs m = None \<longleftrightarrow> (\<forall>c\<in>set cs. gm_get m c \<noteq> None)"
  by (induction cs) auto

lemma hasCallers_None:
  "hasExpectedContractCallersForChains cs m = None \<longleftrightarrow> (\<forall>c\<in>set cs. gm_get m c \<noteq> None)"
  by (induction cs) auto

lemma newAvsExecutionManager_Inr:
  "newAvsExecutionManager cfg callers om store = Inr em \<longleftrightarrow>
     emc_L1ChainId cfg \<noteq> 0 \<and> (\<forall>c\<in>set (emc_SupportedChainIds cfg). gm_get (emc_MailboxContractAddresses cfg) c \<noteq> None \<and>
       gm_get callers c \<noteq> None) \<and> gm_get callers (emc_L1ChainId cfg) \<noteq> None \<and>
     em = \<lparr>em_config = cfg, em_chainContractCallers = callers, em_operatorManager = om,
           em_inflightTasks = [], em_avsConfig = None, em_store = store\<rparr>"
  using hasMailboxes_None [of "emc_SupportedChainIds cfg" "emc_MailboxContractAddresses cfg"]
    hasCallers_None [of "emc_SupportedChainIds cfg" callers]
  by (auto simp: newAvsExecutionManager_def split: option.splits if_splits)

text \<open>The ways through \<open>registerAvs\<close>: refused with nothing done, failed and undone, or registered.\<close>

lemma registerAvs_cases:
  assumes "registerAvs sops env clients avs a = (r, q, a')"
  obtains (refused) err where "r = Some err" "a' = a"
  | (failed) err s where "r = Some err" "ag_rootCtx a" "a' = cancelAvs (ag_nextCtx a) (a\<lparr>ag_nextCtx := Suc (ag_nextCtx a), ag_store := s\<rparr>)"
  | (registered) s aem where "r = None" "gm_get (ag_avsManagers a) (aa_Address avs) = None" "ag_rootCtx a"
      "set (aa_ChainIds avs) \<subseteq> ch_ChainId ` set (ac_Chains (ag_config a))"
      "\<forall>c\<in>set (aa_ChainIds avs). gm_get (getMailboxAddressesForChains (ag_contracts a)) c \<noteq> None \<and>
         gm_get (ag_chainContractCallers a) c \<noteq> None"
      "a' = a\<lparr>ag_nextCtx := Suc (ag_nextCtx a), ag_store := s,
         ag_avsManagers := gm_put (ag_avsManagers a) (aa_Address avs)
           \<lparr>ai_Address = aa_Address avs, ai_ExecutionManager = aem, ai_CancelFunc = Some (ag_nextCtx a)\<rparr>\<rparr>"
proof (cases "gm_get (ag_avsManagers a) (aa_Address avs)")
  case (Some i)
  with assms show thesis by (intro refused) (auto simp: registerAvs_def)
next
  case fresh: None
  show thesis
  proof (cases "getValidChainsForAvs a (aa_ChainIds avs)")
    case (Inl e)
    with assms fresh show thesis by (intro refused) (auto simp: registerAvs_def)
  next
    case ok: (Inr cs)
    then have cs: "cs = aa_ChainIds avs" "set (aa_ChainIds avs) \<subseteq> ch_ChainId ` set (ac_Chains (ag_config a))"
      by (simp_all add: getValidChains_Inr)
    let ?om = "newOperatorManager \<lparr>omc_AvsAddress = aa_Address avs, omc_ChainIds = cs,
      omc_L1ChainId = ac_L1ChainId (ag_config a)\<rparr>
      (map (\<lambda>(c, cc). (c, table_caller.truncate cc)) (ag_chainContractCallers a)) (ag_peering a)"
    let ?cfg = "\<lparr>emc_AvsAddress = aa_Address avs, emc_SupportedChainIds = cs,
      emc_MailboxContractAddresses = getMailboxAddressesForChains (ag_contracts a),
      emc_AggregatorAddress = ac_Address (ag_config a), emc_L1ChainId = ac_L1ChainId (ag_config a),
      emc_TlsEnabled = ac_TLSEnabled (ag_config a)\<rparr>"
    show thesis
    proof (cases "ag_rootCtx a")
      case False
      with assms fresh ok show thesis by (intro refused) (auto simp: registerAvs_def)
    next
      case root: True
      obtain e s q1 where st: "startPollers sops env clients (getChainPollers a (aa_Address avs) cs []) (ag_store a, []) = (e, s, q1)"
        by (metis prod.exhaust)
      show thesis
      proof (cases e)
        case (Some err)
        with assms fresh ok root st show thesis by (intro failed [of "PollersFailed err" s]) (simp_all add: registerAvs_def Let_def)
      next
        case started: None
        show thesis
        proof (cases "newAvsExecutionManager ?cfg (ag_chainContractCallers a) ?om s")
          case (Inl err)
          with assms fresh ok root st started show thesis
            by (intro failed [of "ManagerFailed err" s]) (simp_all add: registerAvs_def Let_def)
        next
          case em: (Inr aem)
          obtain q2 aem' where ex: "execManagerStart sops (pe_now env) (pe_room env) q1 aem = (q2, aem')" by fastforce
          let ?info = "\<lambda>m. \<lparr>ai_Address = aa_Address avs, ai_ExecutionManager = m, ai_CancelFunc = Some (ag_nextCtx a)\<rparr>"
          from assms fresh ok root st started em ex
          have a': "r = None" "a' = a\<lparr>ag_nextCtx := Suc (ag_nextCtx a), ag_store := em_store aem',
              ag_avsManagers := gm_put (ag_avsManagers a) (aa_Address avs) (?info aem')\<rparr>"
            by (simp_all add: registerAvs_def Let_def storeAvsManager_def map_entry_put)
          from em cs have "\<forall>c\<in>set (aa_ChainIds avs). gm_get (getMailboxAddressesForChains (ag_contracts a)) c \<noteq> None \<and>
              gm_get (ag_chainContractCallers a) c \<noteq> None"
            by (simp add: newAvsExecutionManager_Inr)
          with a' fresh root cs show thesis by (intro registered [of aem' "em_store aem'"]) simp_all
        qed
      qed
    qed
  qed
qed

lemma avs_invar_register:
  assumes "avs_invar a" "registerAvs sops env clients avs a = (r, q, a')"
  shows "avs_invar a'"
  using assms(2)
proof (cases rule: registerAvs_cases)
  case refused
  with assms(1) show ?thesis by simp
next
  case (failed err s)
  with assms(1) show ?thesis unfolding avs_invar_def cancelAvs_def by fastforce
next
  case (registered s aem)
  let ?c = "ag_nextCtx a"
  have fresh: "ai_CancelFunc info \<noteq> Some ?c" if "gm_get (ag_avsManagers a) addr = Some info" for addr info
    using assms(1) that by (auto elim: avs_invarD)
  have "?c \<notin> set (ag_cancelled a)" using assms(1) by (auto simp: avs_invar_def)
  moreover have "gm_wf (ag_avsManagers a)" "\<forall>c\<in>set (ag_cancelled a). c < Suc ?c"
    using assms(1) by (auto simp: avs_invar_def)
  moreover have "ai_Address info = addr \<and> (\<exists>c. ai_CancelFunc info = Some c \<and> c < Suc ?c \<and> c \<notin> set (ag_cancelled a))"
    if "gm_get (ag_avsManagers a) addr = Some info" for addr info
    using assms(1) that by (auto elim!: avs_invarD)
  moreover have "addr = addr'" if "gm_get (ag_avsManagers a) addr = Some info"
    "gm_get (ag_avsManagers a) addr' = Some info'" "ai_CancelFunc info = ai_CancelFunc info'" for addr addr' info info'
    using assms(1) that unfolding avs_invar_def by blast
  ultimately show ?thesis
    using registered(6) fresh unfolding avs_invar_def by (auto split: if_splits) metis
qed

lemma avs_invar_deregister:
  assumes "avs_invar a" "deregisterAvs addr a = (r, a')"
  shows "avs_invar a'"
proof (cases "gm_get (ag_avsManagers a) addr")
  case None
  with assms show ?thesis by (simp add: deregisterAvs_def)
next
  case (Some info)
  with assms(1) obtain c where c: "ai_CancelFunc info = Some c" "c < ag_nextCtx a" by (blast elim: avs_invarD)
  with assms(2) Some have "a' = cancelAvs c (a\<lparr>ag_avsManagers := gm_del (ag_avsManagers a) addr\<rparr>)"
    by (simp add: deregisterAvs_def)
  with assms(1) c Some show ?thesis by (auto simp: avs_invar_def cancelAvs_def) (metis)+
qed

text \<open>The verifier is the only part of the aggregator an authentication check touches.\<close>

lemma verifyAuth_keeps:
  "verifyAuth eth now a au = (r, a') \<Longrightarrow> ag_avsManagers a' = ag_avsManagers a \<and> ag_cancelled a' = ag_cancelled a \<and>
     ag_nextCtx a' = ag_nextCtx a \<and> ag_store a' = ag_store a"
  by (auto simp: verifyAuth_def split: option.splits prod.splits if_splits)

lemma verifyAuth_invar: "avs_invar a \<Longrightarrow> verifyAuth eth now a au = (r, a') \<Longrightarrow> avs_invar a'"
  by (drule verifyAuth_keeps) (simp add: avs_invar_def)

lemma verifyAuth_status:
  "verifyAuth eth now a au = (Some e, a') \<Longrightarrow> \<exists>c. e = Status c"
  by (auto simp: verifyAuth_def verifyAuthentication_def authOfPointer_def Let_def
      split: option.splits prod.splits if_splits)

section \<open>The aggregator as a transition system\<close>

inductive ag_step :: "eth_common \<Rightarrow> 's aggregator_store \<Rightarrow> ('s, 'k) aggregator \<Rightarrow> ('s, 'k) aggregator \<Rightarrow> bool" for eth sops where
  register: "rpc_RegisterAvs eth sops env clients request a = (r, a') \<Longrightarrow> ag_step eth sops a a'"
| deregister: "rpc_DeRegisterAvs eth now addr au a = (r, a') \<Longrightarrow> ag_step eth sops a a'"
| token: "rpc_GetChallengeToken eth uuidStr now addr a = (r, a') \<Longrightarrow> ag_step eth sops a a'"
| boot: "registerAvs sops env clients avs a = (r, q, a') \<Longrightarrow> ag_step eth sops a a'"
| init: "aggregatorInitialize mk a = (r, a') \<Longrightarrow> ag_step eth sops a a'"
| root: "ag_step eth sops a (a\<lparr>ag_rootCtx := True\<rparr>)"

inductive_cases ag_stepE: "ag_step eth sops a a'"

lemma rpc_RegisterAvs_invar:
  assumes "avs_invar a" "rpc_RegisterAvs eth sops env clients request a = (r, a')"
  shows "avs_invar a'"
proof -
  obtain r1 a1 where v: "verifyAuth eth (pe_now env) a (rq_Auth request) = (r1, a1)" by fastforce
  with assms(1) have i1: "avs_invar a1" by (rule verifyAuth_invar)
  obtain e q a2 where reg: "registerAvs sops env clients
      \<lparr>aa_Address = rq_AvsAddress request, aa_ChainIds = utilMap (rq_ChainIds request) (\<lambda>i _. unat i)\<rparr> a1 = (e, q, a2)"
    by (metis prod.exhaust)
  have "a' = a1 \<or> a' = a2"
    using assms(2) v reg by (auto simp: rpc_RegisterAvs_def split: option.splits ag_error.splits)
  with i1 avs_invar_register [OF i1 reg] show ?thesis by blast
qed

lemma rpc_DeRegisterAvs_invar:
  assumes "avs_invar a" "rpc_DeRegisterAvs eth now addr au a = (r, a')"
  shows "avs_invar a'"
  using assms
  by (auto simp: rpc_DeRegisterAvs_def split: prod.splits option.splits
      intro: verifyAuth_invar avs_invar_deregister [OF verifyAuth_invar])

lemma ag_step_invar:
  assumes "ag_step eth sops a a'" "avs_invar a"
  shows "avs_invar a'"
  using assms(1)
proof cases
  case (token uuidStr now addr r)
  with assms(2) show ?thesis
    by (auto simp: rpc_GetChallengeToken_def avs_invar_def split: option.splits sum.splits prod.splits)
next
  case (init mk r)
  with assms(2) show ?thesis by (auto simp: aggregatorInitialize_def avs_invar_def split: sum.splits)
next
  case root
  with assms(2) show ?thesis by (simp add: avs_invar_def)
qed (use assms(2) in \<open>auto intro: rpc_RegisterAvs_invar rpc_DeRegisterAvs_invar avs_invar_register\<close>)

lemma avs_invar_new: "newAggregator cfg contracts peering sgs store = Inr a \<Longrightarrow> avs_invar a"
  by (auto simp: newAggregator_def avs_invar_def split: if_splits)

lemma ag_reach_invar: "(ag_step eth sops)\<^sup>*\<^sup>* a a' \<Longrightarrow> avs_invar a \<Longrightarrow> avs_invar a'"
  by (induction rule: rtranclp_induct) (auto intro: ag_step_invar)

section \<open>Properties\<close>

text \<open>An aggregator for one chain whose contract caller answers nothing, with the in-memory store.\<close>

definition sample_caller :: exec_caller where
  "sample_caller = \<lparr>tc_GetOperatorSetCurveType = (\<lambda>_ _ _. None), tc_GetSupportedChainsForMultichain = (\<lambda>_. None),
     tc_GetTableUpdaterReferenceTimeAndBlock = (\<lambda>_ _. None), tc_GetOperatorTableData = (\<lambda>_ _ _ _. None),
     tc_GetOperatorInfos = (\<lambda>_ _ _. None), tc_GetOperatorInfoTreeRoot = (\<lambda>_ _ _ _. None),
     xc_GetExecutorOperatorSetTaskConfig = (\<lambda>_ _ _. None), xc_GetAVSConfig = (\<lambda>_ _. None)\<rparr>"

definition sample_ag_config :: aggregator_config where
  "sample_ag_config = \<lparr>ac_Address = ''0xAb'', ac_AVSs = [],
     ac_Chains = [\<lparr>ch_Name = ''anvil'', ch_ChainId = 1, ch_RpcURL = '''', ch_PollIntervalSeconds = 1\<rparr>],
     ac_L1ChainId = 1, ac_Authentication = Some True, ac_TLSEnabled = False\<rparr>"

definition sample_aggregator :: "(mem_store, unit) aggregator" where
  "sample_aggregator = \<lparr>ag_config = sample_ag_config, ag_rootCtx = True, ag_contracts = [],
     ag_chainContractCallers = [(1, sample_caller)], ag_avsManagers = [], ag_peering = (\<lambda>_ _. None),
     ag_store = newInMemoryAggregatorStore, ag_authVerifier = Some sample_verifier, ag_nextCtx = 0, ag_cancelled = []\<rparr>"

definition sample_env :: poller_env where
  "sample_env = \<lparr>pe_DecodeLog = (\<lambda>_. Inl EventNotFound), pe_Mailbox = (\<lambda>_. None), pe_addrString = (\<lambda>_. ''''), pe_now = 200, pe_room = (\<lambda>_. True)\<rparr>"

definition sample_client :: eth_client where
  "sample_client = \<lparr>ecGetLatestBlock = None, ecGetBlockByNumber = (\<lambda>_. None), ecGetLogs = (\<lambda>_ _ _. None)\<rparr>"

lemma sample_reach:
  "newAggregator sample_ag_config [] (\<lambda>_ _. None) \<lparr>sg_ECDSASigner = Some sample_signer, sg_BLSSigner = None\<rparr> newInMemoryAggregatorStore =
     Inr (sample_aggregator\<lparr>ag_rootCtx := False, ag_chainContractCallers := []\<rparr>)"
  "(ag_step eth sops)\<^sup>*\<^sup>* (sample_aggregator\<lparr>ag_rootCtx := False, ag_chainContractCallers := []\<rparr>) sample_aggregator"
proof -
  let ?a0 = "sample_aggregator\<lparr>ag_rootCtx := False, ag_chainContractCallers := []\<rparr>"
  show "newAggregator sample_ag_config [] (\<lambda>_ _. None) \<lparr>sg_ECDSASigner = Some sample_signer, sg_BLSSigner = None\<rparr>
      newInMemoryAggregatorStore = Inr ?a0"
    by (simp add: newAggregator_def sample_ag_config_def sample_aggregator_def getAuthVerifier_def sample_verifier_def)
  have "aggregatorInitialize (\<lambda>_. Some sample_caller) ?a0 = (None, sample_aggregator\<lparr>ag_rootCtx := False\<rparr>)"
    by (simp add: aggregatorInitialize_def initializeContractCallers_def sample_aggregator_def sample_ag_config_def)
  then have "ag_step eth sops ?a0 (sample_aggregator\<lparr>ag_rootCtx := False\<rparr>)" by (rule ag_step.init)
  moreover have "ag_step eth sops (sample_aggregator\<lparr>ag_rootCtx := False\<rparr>) sample_aggregator"
    using ag_step.root [of eth sops "sample_aggregator\<lparr>ag_rootCtx := False\<rparr>"] by (simp add: sample_aggregator_def)
  ultimately show "(ag_step eth sops)\<^sup>*\<^sup>* ?a0 sample_aggregator" by (meson converse_rtranclp_into_rtranclp r_into_rtranclp)
qed

lemma sample_register:
  "\<exists>q a'. registerAvs memory_ops sample_env (\<lambda>_. sample_client) \<lparr>aa_Address = ''0xCd'', aa_ChainIds = []\<rparr> sample_aggregator =
     (None, q, a') \<and> gm_get (ag_avsManagers a') ''0xCd'' \<noteq> None"
  by (simp add: registerAvs_def sample_aggregator_def sample_ag_config_def getValidChainsForAvs_def Let_def
      newAvsExecutionManager_def storeAvsManager_def execManagerStart_def recoverPendingTasks_def memory_ops_def
      mem_ListPendingTasksForAVS_def newInMemoryAggregatorStore_def utilMap_def)

text \<open>
  C32. In every state the aggregator reaches through its management API, its start-up registrations and
  its initialisation, each registered AVS owns a context of its own that has not been cancelled, and
  no two AVSs share one: deregistering or failing to register one AVS never stops another.
\<close>

theorem registered_avs_context_live:
  assumes "newAggregator cfg contracts peering sgs store = Inr a0" "(ag_step eth sops)\<^sup>*\<^sup>* a0 a"
    and "gm_get (ag_avsManagers a) addr = Some info"
  shows "ai_Address info = addr \<and> (\<exists>c. ai_CancelFunc info = Some c \<and> c \<notin> set (ag_cancelled a) \<and>
    (\<forall>addr' info'. gm_get (ag_avsManagers a) addr' = Some info' \<and> ai_CancelFunc info' = Some c \<longrightarrow> addr' = addr))"
proof -
  have inv: "avs_invar a" using ag_reach_invar [OF assms(2) avs_invar_new [OF assms(1)]] .
  then obtain c where "ai_Address info = addr" "ai_CancelFunc info = Some c" "c \<notin> set (ag_cancelled a)"
    using assms(3) by (rule avs_invarD)
  moreover have "\<forall>addr' info'. gm_get (ag_avsManagers a) addr' = Some info' \<and> ai_CancelFunc info' = Some c \<longrightarrow> addr' = addr"
    using inv assms(3) calculation(2) unfolding avs_invar_def by metis
  ultimately show ?thesis by blast
qed

theorem registered_avs_context_live_witness:
  "\<exists>a info c. (ag_step sample_eth memory_ops)\<^sup>*\<^sup>* sample_aggregator a \<and> gm_get (ag_avsManagers a) ''0xCd'' = Some info \<and>
     ai_CancelFunc info = Some c \<and> c \<notin> set (ag_cancelled a)"
proof -
  from sample_register obtain q a' info where
    reg: "registerAvs memory_ops sample_env (\<lambda>_. sample_client) \<lparr>aa_Address = ''0xCd'', aa_ChainIds = []\<rparr> sample_aggregator = (None, q, a')"
    and info: "gm_get (ag_avsManagers a') ''0xCd'' = Some info" by auto
  have st: "ag_step sample_eth memory_ops sample_aggregator a'" using reg by (rule ag_step.boot)
  show ?thesis
    using registered_avs_context_live [OF sample_reach(1) rtranclp.rtrancl_into_rtrancl [OF sample_reach(2) st] info] st info
    by blast
qed

text \<open>
  Registering an AVS is all or nothing. On success the AVS was not registered before, every
  requested chain is configured and has a contract caller and a mailbox, and exactly the AVS's entry
  is added. On an error no entry is added or removed, and a context that was created for the AVS is
  cancelled, which stops the pollers that were started with it.
\<close>

theorem registerAvs_all_or_nothing:
  assumes "registerAvs sops env clients avs a = (r, q, a')"
  shows "(r \<noteq> None \<longrightarrow> ag_avsManagers a' = ag_avsManagers a \<and>
      (ag_nextCtx a' \<noteq> ag_nextCtx a \<longrightarrow> ag_nextCtx a \<in> set (ag_cancelled a'))) \<and>
    (r = None \<longrightarrow> gm_get (ag_avsManagers a) (aa_Address avs) = None \<and>
      (\<forall>c\<in>set (aa_ChainIds avs). c \<in> ch_ChainId ` set (ac_Chains (ag_config a)) \<and>
         gm_get (ag_chainContractCallers a) c \<noteq> None \<and> gm_get (getMailboxAddressesForChains (ag_contracts a)) c \<noteq> None) \<and>
      (\<exists>aem. gm_get (ag_avsManagers a') (aa_Address avs) =
        Some \<lparr>ai_Address = aa_Address avs, ai_ExecutionManager = aem, ai_CancelFunc = Some (ag_nextCtx a)\<rparr>) \<and>
      (\<forall>x. x \<noteq> aa_Address avs \<longrightarrow> gm_get (ag_avsManagers a') x = gm_get (ag_avsManagers a) x) \<and>
      ag_cancelled a' = ag_cancelled a)"
  using assms by (cases rule: registerAvs_cases) (auto simp: cancelAvs_def)

theorem registerAvs_all_or_nothing_witness:
  "\<exists>r q a'. registerAvs memory_ops sample_env (\<lambda>_. sample_client) \<lparr>aa_Address = ''0xCd'', aa_ChainIds = [1]\<rparr> sample_aggregator = (r, q, a') \<and>
     r \<noteq> None \<and> ag_avsManagers a' = [] \<and> 0 \<in> set (ag_cancelled a')"
proof -
  obtain r q a' where reg: "registerAvs memory_ops sample_env (\<lambda>_. sample_client) \<lparr>aa_Address = ''0xCd'', aa_ChainIds = [1]\<rparr> sample_aggregator = (r, q, a')"
    by (metis prod.exhaust)
  moreover have "r \<noteq> None" "ag_nextCtx a' = 1"
    using reg by (auto simp: registerAvs_def sample_aggregator_def sample_ag_config_def getValidChainsForAvs_def Let_def
        utilMap_def pollerStart_def memory_ops_def mem_GetLastProcessedBlock_def newInMemoryAggregatorStore_def
        sample_client_def cancelAvs_def)
  ultimately show ?thesis using registerAvs_all_or_nothing [OF reg] by (auto simp: sample_aggregator_def)
qed

text \<open>
  With a verifier configured, a management request that fails authentication changes no
  registration and cancels no context: \<open>RegisterAvs\<close> and \<open>DeRegisterAvs\<close> answer with a status error.
\<close>

theorem unauthenticated_request_no_effect:
  assumes "ag_authVerifier a = Some v" "fst (verifyAuthentication eth (pe_now env) v (authOfPointer au)) \<noteq> None"
    and "rpc_RegisterAvs eth sops env clients \<lparr>rq_AvsAddress = addr, rq_ChainIds = cs, rq_Auth = au\<rparr> a = (r, a1)"
    and "rpc_DeRegisterAvs eth (pe_now env) addr au a = (r', a2)"
  shows "(\<exists>c. r = RpcStatus c \<and> r' = RpcStatus c) \<and> ag_avsManagers a1 = ag_avsManagers a \<and> ag_avsManagers a2 = ag_avsManagers a \<and>
    ag_cancelled a1 = ag_cancelled a \<and> ag_cancelled a2 = ag_cancelled a \<and> ag_store a1 = ag_store a"
proof -
  obtain e a3 where va: "verifyAuth eth (pe_now env) a au = (Some e, a3)"
    using assms(1,2) by (cases "verifyAuthentication eth (pe_now env) v (authOfPointer au)") (auto simp: verifyAuth_def)
  then obtain c where "e = Status c" by (blast dest: verifyAuth_status)
  with va assms(3,4) have "r = RpcStatus c" "r' = RpcStatus c" "a1 = a3" "a2 = a3"
    by (simp_all add: rpc_RegisterAvs_def rpc_DeRegisterAvs_def handleAuthError_def rpcOfAuth_def)
  with verifyAuth_keeps [OF va] show ?thesis by simp
qed

theorem unauthenticated_request_no_effect_witness:
  "\<exists>c a1. rpc_RegisterAvs sample_eth memory_ops sample_env (\<lambda>_. sample_client)
     \<lparr>rq_AvsAddress = ''0xCd'', rq_ChainIds = [], rq_Auth = None\<rparr> sample_aggregator = (RpcStatus c, a1) \<and>
     ag_avsManagers a1 = []"
proof -
  obtain r a1 r' a2 where
    r: "rpc_RegisterAvs sample_eth memory_ops sample_env (\<lambda>_. sample_client)
      \<lparr>rq_AvsAddress = ''0xCd'', rq_ChainIds = [], rq_Auth = None\<rparr> sample_aggregator = (r, a1)"
    "rpc_DeRegisterAvs sample_eth (pe_now sample_env) ''0xCd'' None sample_aggregator = (r', a2)" by (metis prod.exhaust)
  have "fst (verifyAuthentication sample_eth (pe_now sample_env) sample_verifier (authOfPointer None)) \<noteq> None"
    by (simp add: authOfPointer_def verifyAuthentication_def useChallengeToken_def sample_verifier_def newVerifier_def
        newChallengeTokenManager_def)
  with unauthenticated_request_no_effect [OF _ _ r] show ?thesis using r by (auto simp: sample_aggregator_def)
qed

text \<open>
  Authentication fails open: an aggregator whose configuration enables authentication but which
  has no signer is created without a verifier, and then lets every request without credentials pass.
\<close>

theorem auth_enabled_without_signer_accepts:
  assumes "newAggregator cfg contracts peering \<lparr>sg_ECDSASigner = None, sg_BLSSigner = None\<rparr> store = Inr a"
    and "ac_Authentication cfg = Some True"
  shows "verifyAuth eth now a None = (None, a)"
  using assms by (auto simp: newAggregator_def getAuthVerifier_def verifyAuth_def split: if_splits)

theorem auth_enabled_without_signer_accepts_witness:
  "\<exists>a. newAggregator sample_ag_config [] (\<lambda>_ _. None :: unit operator_peer_info list option)
     \<lparr>sg_ECDSASigner = None, sg_BLSSigner = None\<rparr> newInMemoryAggregatorStore = Inr a \<and>
     ac_Authentication sample_ag_config = Some True \<and> verifyAuth sample_eth 0 a None = (None, a)"
proof -
  obtain a where a: "newAggregator sample_ag_config [] (\<lambda>_ _. None :: unit operator_peer_info list option)
     \<lparr>sg_ECDSASigner = None, sg_BLSSigner = None\<rparr> newInMemoryAggregatorStore = Inr a"
    by (simp add: newAggregator_def sample_ag_config_def)
  have en: "ac_Authentication sample_ag_config = Some True" by (simp add: sample_ag_config_def)
  show ?thesis using auth_enabled_without_signer_accepts [OF a en, of sample_eth 0] a en by auto
qed

end
