(* ===== verification/Key_Value.thy ===== *)
theory Key_Value
  imports Task_Types
begin

text \<open>
  BadgerDB (\<open>github.com/dgraph-io/badger\<close>) is not part of the repository: it is a parameter \<open>kv\<close>, the
  operations of a transactional key-value store, and \<open>kv_ok\<close> states the documented behaviour the code
  relies on (a read returns the value written last, an iterator with a prefix visits exactly the keys
  with that prefix, once each and in key order, a transaction commits). The type of values is the one of
  the JSON documents a store writes.
\<close>

section \<open>The interface\<close>

datatype kv_err = ErrKeyNotFound | KvError string

record ('db, 'v) kv =
  kv_get :: "'db \<Rightarrow> string \<Rightarrow> (kv_err, 'v) result"
  kv_set :: "'db \<Rightarrow> string \<Rightarrow> 'v \<Rightarrow> (kv_err, 'db) result"
  kv_delete :: "'db \<Rightarrow> string \<Rightarrow> (kv_err, 'db) result"
  kv_commit :: "'db \<Rightarrow> 'db \<Rightarrow> (kv_err, 'db) result"
  kv_iter :: "'db \<Rightarrow> string \<Rightarrow> (string \<times> 'v) list"
  kv_close :: "'db \<Rightarrow> kv_err option"

definition kv_ok :: "('db, 'v) kv \<Rightarrow> ('db \<Rightarrow> string \<Rightarrow> 'v option) \<Rightarrow> bool" where
  "kv_ok kv view \<longleftrightarrow>
     (\<forall>db k. kv_get kv db k = (case view db k of None \<Rightarrow> Inl ErrKeyNotFound | Some v \<Rightarrow> Inr v)) \<and>
     (\<forall>db k v. \<exists>db'. kv_set kv db k v = Inr db' \<and> view db' = (view db)(k \<mapsto> v)) \<and>
     (\<forall>db k. \<exists>db'. kv_delete kv db k = Inr db' \<and> view db' = (view db)(k := None)) \<and>
     (\<forall>db db'. kv_commit kv db db' = Inr db') \<and>
     (\<forall>db p. set (kv_iter kv db p) = {(k, v). view db k = Some v \<and> prefix p k} \<and>
        distinct (map fst (kv_iter kv db p)) \<and> sorted (map fst (kv_iter kv db p))) \<and>
     (\<forall>db. kv_close kv db = None)"

lemma kv_ok_iter:
  assumes "kv_ok kv view"
  shows "set (kv_iter kv db p) = {(k, v). view db k = Some v \<and> prefix p k}"
    and "distinct (map fst (kv_iter kv db p))"
  using assms by (simp_all add: kv_ok_def)

section \<open>A concrete key-value store\<close>

text \<open>
  An association list with sorted iteration satisfies the assumptions on the database, so the
  contracts of the stores have closed instances.
\<close>

definition kv_alist :: "((string \<times> 'v) list, 'v) kv" where
  "kv_alist = \<lparr>
     kv_get = (\<lambda>db k. case map_of db k of None \<Rightarrow> Inl ErrKeyNotFound | Some v \<Rightarrow> Inr v),
     kv_set = (\<lambda>db k v. Inr (AList.update k v db)),
     kv_delete = (\<lambda>db k. Inr (AList.delete k db)),
     kv_commit = (\<lambda>db db'. Inr db'),
     kv_iter = (\<lambda>db p. sort_key fst (filter (\<lambda>kv. prefix p (fst kv)) (AList.clearjunk db))),
     kv_close = (\<lambda>db. None)\<rparr>"

lemma kv_alist_ok: "kv_ok (kv_alist :: ((string \<times> 'v) list, 'v) kv) map_of"
proof -
  have set_iter: "set (filter (\<lambda>kv. prefix p (fst kv)) (AList.clearjunk db)) = {(k, v). map_of db k = Some v \<and> prefix p k}"
    for p and db :: "(string \<times> 'v) list"
  proof -
    have "(k, v) \<in> set (AList.clearjunk db) \<longleftrightarrow> map_of db k = Some v" for k v
      by (metis map_of_clearjunk distinct_clearjunk map_of_eq_Some_iff)
    then show ?thesis by auto
  qed
  have distinct_iter: "distinct (map fst (filter (\<lambda>kv. prefix p (fst kv)) (AList.clearjunk db)))"
    for p and db :: "(string \<times> 'v) list"
    by (simp add: distinct_map_filter distinct_clearjunk)
  have "distinct (map fst (sort_key fst xs)) \<longleftrightarrow> distinct (map fst xs)" for xs :: "(string \<times> 'v) list"
    by (simp add: distinct_map)
  then show ?thesis
    using set_iter distinct_iter
    by (simp add: kv_ok_def kv_alist_def update_conv' delete_conv')
qed

end
