(* ===== verification/Badger_Store.thy ===== *)
theory Badger_Store
  imports Store_Spec Key_Value
begin

text \<open>
  The BadgerDB implementation of the persistence layer
  (\<open>ponos/pkg/aggregator/storage/badger/badger.go\<close>) over the key-value store of \<open>Key_Value\<close>.
  Tasks are stored under \<open>task:<id>\<close> with an index entry
  \<open>taskstatus:<status>:<id>\<close>, blocks under \<open>block:<avs>:<chain>:<number>\<close>. The invariant says that
  the index agrees with the records; with it the store satisfies the contract \<open>task_store\<close>.
\<close>

section \<open>Stored values\<close>

text \<open>
  Values are the JSON texts the code writes: a task record (without the context), a block
  record, or the empty value of an index entry.
\<close>

datatype kv_value = VTask task_record | VBlock block_record | VEmpty

definition kv_store_err :: "kv_err \<Rightarrow> store_err" where
  "kv_store_err e = (case e of ErrKeyNotFound \<Rightarrow> ErrOther ''Key not found'' | KvError m \<Rightarrow> ErrOther m)"

text \<open>\<open>json.Marshal\<close> and \<open>json.Unmarshal\<close> of the two record types.\<close>

definition marshal_task :: "task_record \<Rightarrow> kv_value option" where
  "marshal_task r = (if storable (rec_Task r)
     then Some (VTask (r\<lparr>rec_Task := task_persist (rec_Task r)\<rparr>)) else None)"

definition unmarshal_task :: "kv_value \<Rightarrow> task_record option" where
  "unmarshal_task v = (case v of VTask r \<Rightarrow> Some r | _ \<Rightarrow> None)"

definition unmarshal_block :: "kv_value \<Rightarrow> block_record option" where
  "unmarshal_block v = (case v of VBlock b \<Rightarrow> Some b | _ \<Rightarrow> None)"

section \<open>State and operations\<close>

record 'db badger_store =
  bs_db :: 'db
  bs_closed :: bool

definition taskKey :: "string \<Rightarrow> string" where
  "taskKey tid = ''task:'' @ tid"

definition statusKey :: "task_status \<Rightarrow> string \<Rightarrow> string" where
  "statusKey st tid = ''taskstatus:'' @ statusString st @ '':'' @ tid"

definition blockKey :: "string \<Rightarrow> chain_id \<Rightarrow> u64 \<Rightarrow> string" where
  "blockKey avs c n = ''block:'' @ avs @ '':'' @ dec c @ '':'' @ dec n"

definition latestBlockPrefix :: "string \<Rightarrow> chain_id \<Rightarrow> string" where
  "latestBlockPrefix avs c = ''block:'' @ avs @ '':'' @ dec c"

text \<open>\<open>db.Update\<close>: run a transaction and commit it; an error leaves the database as it was.\<close>

definition badger_update ::
  "('db, kv_value) kv \<Rightarrow> 'db badger_store \<Rightarrow> ('db \<Rightarrow> (store_err, 'db) result) \<Rightarrow> store_err option \<times> 'db badger_store" where
  "badger_update kv s txn =
     (case txn (bs_db s) of
        Inl e \<Rightarrow> (Some e, s)
      | Inr db \<Rightarrow>
          (case kv_commit kv (bs_db s) db of
            Inl e \<Rightarrow> (Some (kv_store_err e), s)
          | Inr db' \<Rightarrow> (None, s\<lparr>bs_db := db'\<rparr>)))"

definition txn_set :: "('db, kv_value) kv \<Rightarrow> 'db \<Rightarrow> string \<Rightarrow> kv_value \<Rightarrow> (store_err, 'db) result" where
  "txn_set kv db k v = (case kv_set kv db k v of Inl e \<Rightarrow> Inl (kv_store_err e) | Inr db' \<Rightarrow> Inr db')"

definition txn_delete :: "('db, kv_value) kv \<Rightarrow> 'db \<Rightarrow> string \<Rightarrow> (store_err, 'db) result" where
  "txn_delete kv db k = (case kv_delete kv db k of Inl e \<Rightarrow> Inl (kv_store_err e) | Inr db' \<Rightarrow> Inr db')"

text \<open>\<open>txn.Get\<close> with \<open>ErrKeyNotFound\<close> mapped to \<open>ErrNotFound\<close>, then \<open>item.Value\<close>.\<close>

definition txn_get :: "('db, kv_value) kv \<Rightarrow> 'db \<Rightarrow> string \<Rightarrow> (store_err, kv_value) result" where
  "txn_get kv db k = (case kv_get kv db k of
     Inl ErrKeyNotFound \<Rightarrow> Inl ErrNotFound | Inl e \<Rightarrow> Inl (kv_store_err e) | Inr v \<Rightarrow> Inr v)"

fun lastBlockLoop ::
  "(string \<times> kv_value) list \<Rightarrow> block_record option \<Rightarrow> u64 \<Rightarrow> (store_err, block_record option) result" where
  "lastBlockLoop [] blockRecord highestBlockNum = Inr blockRecord"
| "lastBlockLoop ((k, v) # items) blockRecord highestBlockNum =
     (case unmarshal_block v of
        None \<Rightarrow> Inl (ErrOther ''failed to unmarshal block record'')
      | Some r \<Rightarrow>
          if blockRecord = None \<or> br_Number r > highestBlockNum
          then lastBlockLoop items (Some r) (br_Number r)
          else lastBlockLoop items blockRecord highestBlockNum)"

definition badger_GetLastProcessedBlock ::
  "('db, kv_value) kv \<Rightarrow> 'db badger_store \<Rightarrow> string \<Rightarrow> chain_id \<Rightarrow> (store_err, block_record) result" where
  "badger_GetLastProcessedBlock kv s avs c =
     (if bs_closed s then Inl ErrStoreClosed
      else case lastBlockLoop (kv_iter kv (bs_db s) (latestBlockPrefix avs c)) None 0 of
        Inl e \<Rightarrow> Inl e
      | Inr None \<Rightarrow> Inl ErrNotFound
      | Inr (Some b) \<Rightarrow> Inr b)"

definition badger_SavePendingTask ::
  "('db, kv_value) kv \<Rightarrow> time \<Rightarrow> 'db badger_store \<Rightarrow> task option \<Rightarrow> store_err option \<times> 'db badger_store" where
  "badger_SavePendingTask kv now s topt =
     (if bs_closed s then (Some ErrStoreClosed, s)
      else case topt of
        None \<Rightarrow> (Some (ErrOther ''task is nil''), s)
      | Some t \<Rightarrow>
          (case marshal_task \<lparr>rec_Task = t, rec_Status = TaskStatusPending, rec_CreatedAt = 0, rec_UpdatedAt = 0\<rparr> of
            None \<Rightarrow> (Some (ErrOther ''failed to marshal task''), s)
          | Some value \<Rightarrow>
              badger_update kv s (\<lambda>db.
                case kv_get kv db (taskKey (task_TaskId t)) of
                  Inr _ \<Rightarrow> Inl ErrAlreadyExists
                | Inl (KvError m) \<Rightarrow> Inl (ErrOther m)
                | Inl ErrKeyNotFound \<Rightarrow>
                    (case txn_set kv db (taskKey (task_TaskId t)) value of
                      Inl e \<Rightarrow> Inl e
                    | Inr db' \<Rightarrow> txn_set kv db' (statusKey TaskStatusPending (task_TaskId t)) VEmpty))))"

definition badger_GetTask :: "('db, kv_value) kv \<Rightarrow> 'db badger_store \<Rightarrow> string \<Rightarrow> (store_err, task) result" where
  "badger_GetTask kv s tid =
     (if bs_closed s then Inl ErrStoreClosed
      else case txn_get kv (bs_db s) (taskKey tid) of
        Inl e \<Rightarrow> Inl e
      | Inr v \<Rightarrow>
          (case unmarshal_task v of
            None \<Rightarrow> Inl (ErrOther ''failed to get task'')
          | Some r \<Rightarrow> Inr (rec_Task r)))"

text \<open>One round of the listing loops: the task an index entry points to, or nothing.\<close>

definition pendingItem :: "('db, kv_value) kv \<Rightarrow> 'db \<Rightarrow> string \<times> kv_value \<Rightarrow> task option" where
  "pendingItem kv db item =
     (let tid = drop (length (statusKey TaskStatusPending [])) (fst item)
      in case kv_get kv db (taskKey tid) of
           Inl _ \<Rightarrow> None
         | Inr v \<Rightarrow> map_option rec_Task (unmarshal_task v))"

definition badger_ListPendingTasks :: "('db, kv_value) kv \<Rightarrow> 'db badger_store \<Rightarrow> (store_err, task list) result" where
  "badger_ListPendingTasks kv s =
     (if bs_closed s then Inl ErrStoreClosed
      else Inr (List.map_filter (pendingItem kv (bs_db s))
        (kv_iter kv (bs_db s) (statusKey TaskStatusPending []))))"

definition badger_ListPendingTasksForAVS ::
  "('db, kv_value) kv \<Rightarrow> 'db badger_store \<Rightarrow> string \<Rightarrow> (store_err, task list) result" where
  "badger_ListPendingTasksForAVS kv s avs =
     (if bs_closed s then Inl ErrStoreClosed
      else Inr (filter (\<lambda>t. equalFold (task_AVSAddress t) avs)
        (List.map_filter (pendingItem kv (bs_db s))
          (kv_iter kv (bs_db s) (statusKey TaskStatusPending [])))))"

definition isValidStatusTransition :: "task_status \<Rightarrow> task_status \<Rightarrow> bool" where
  "isValidStatusTransition from to =
     (case from of
        TaskStatusPending \<Rightarrow> to = TaskStatusProcessing \<or> to = TaskStatusFailed
      | TaskStatusProcessing \<Rightarrow> to = TaskStatusCompleted \<or> to = TaskStatusFailed
      | TaskStatusCompleted \<Rightarrow> False
      | TaskStatusFailed \<Rightarrow> False
      | TaskStatusOther _ \<Rightarrow> False)"

definition badger_UpdateTaskStatus ::
  "('db, kv_value) kv \<Rightarrow> time \<Rightarrow> 'db badger_store \<Rightarrow> string \<Rightarrow> task_status \<Rightarrow> store_err option \<times> 'db badger_store" where
  "badger_UpdateTaskStatus kv now s tid status =
     (if bs_closed s then (Some ErrStoreClosed, s)
      else badger_update kv s (\<lambda>db.
        case txn_get kv db (taskKey tid) of
          Inl e \<Rightarrow> Inl e
        | Inr v \<Rightarrow>
          (case unmarshal_task v of
            None \<Rightarrow> Inl (ErrOther ''unmarshal'')
          | Some r \<Rightarrow>
            if \<not> isValidStatusTransition (rec_Status r) status
            then Inl (ErrOther ''invalid status transition'')
            else case txn_delete kv db (statusKey (rec_Status r) tid) of
              Inl e \<Rightarrow> Inl e
            | Inr db1 \<Rightarrow>
              (case marshal_task (r\<lparr>rec_Status := status\<rparr>) of
                None \<Rightarrow> Inl (ErrOther ''marshal'')
              | Some value \<Rightarrow>
                (case txn_set kv db1 (taskKey tid) value of
                  Inl e \<Rightarrow> Inl e
                | Inr db2 \<Rightarrow> txn_set kv db2 (statusKey status tid) VEmpty)))))"

definition badger_DeleteTask ::
  "('db, kv_value) kv \<Rightarrow> 'db badger_store \<Rightarrow> string \<Rightarrow> store_err option \<times> 'db badger_store" where
  "badger_DeleteTask kv s tid =
     (if bs_closed s then (Some ErrStoreClosed, s)
      else badger_update kv s (\<lambda>db.
        case txn_get kv db (taskKey tid) of
          Inl e \<Rightarrow> Inl e
        | Inr v \<Rightarrow>
          (case unmarshal_task v of
            None \<Rightarrow> Inl (ErrOther ''unmarshal'')
          | Some r \<Rightarrow>
            (case txn_delete kv db (taskKey tid) of
              Inl e \<Rightarrow> Inl e
            | Inr db1 \<Rightarrow> txn_delete kv db1 (statusKey (rec_Status r) tid)))))"

definition badger_SaveBlock ::
  "('db, kv_value) kv \<Rightarrow> 'db badger_store \<Rightarrow> string \<Rightarrow> block_record option \<Rightarrow> store_err option \<times> 'db badger_store" where
  "badger_SaveBlock kv s avs bopt =
     (if bs_closed s then (Some ErrStoreClosed, s)
      else case bopt of
        None \<Rightarrow> (Some (ErrOther ''block is nil''), s)
      | Some b \<Rightarrow> badger_update kv s (\<lambda>db.
          txn_set kv db (blockKey avs (br_ChainId b) (br_Number b)) (VBlock b)))"

definition badger_GetBlock ::
  "('db, kv_value) kv \<Rightarrow> 'db badger_store \<Rightarrow> string \<Rightarrow> chain_id \<Rightarrow> u64 \<Rightarrow> (store_err, block_record) result" where
  "badger_GetBlock kv s avs c n =
     (if bs_closed s then Inl ErrStoreClosed
      else case txn_get kv (bs_db s) (blockKey avs c n) of
        Inl e \<Rightarrow> Inl e
      | Inr v \<Rightarrow>
          (case unmarshal_block v of
            None \<Rightarrow> Inl (ErrOther ''failed to get block info'')
          | Some b \<Rightarrow> Inr b))"

definition badger_DeleteBlock ::
  "('db, kv_value) kv \<Rightarrow> 'db badger_store \<Rightarrow> string \<Rightarrow> chain_id \<Rightarrow> u64 \<Rightarrow> store_err option \<times> 'db badger_store" where
  "badger_DeleteBlock kv s avs c n =
     (if bs_closed s then (Some ErrStoreClosed, s)
      else badger_update kv s (\<lambda>db.
        case txn_get kv db (blockKey avs c n) of
          Inl e \<Rightarrow> Inl e
        | Inr _ \<Rightarrow> txn_delete kv db (blockKey avs c n)))"

definition badger_Close :: "('db, kv_value) kv \<Rightarrow> 'db badger_store \<Rightarrow> store_err option \<times> 'db badger_store" where
  "badger_Close kv s =
     (if bs_closed s then (None, s)
      else (map_option kv_store_err (kv_close kv (bs_db s)), s\<lparr>bs_closed := True\<rparr>))"

definition badger_ops :: "('db, kv_value) kv \<Rightarrow> 'db badger_store aggregator_store" where
  "badger_ops kv = \<lparr>
     sGetLastProcessedBlock = badger_GetLastProcessedBlock kv,
     sSaveBlock = badger_SaveBlock kv,
     sGetBlock = badger_GetBlock kv,
     sDeleteBlock = badger_DeleteBlock kv,
     sSavePendingTask = badger_SavePendingTask kv,
     sGetTask = badger_GetTask kv,
     sListPendingTasks = badger_ListPendingTasks kv,
     sListPendingTasksForAVS = badger_ListPendingTasksForAVS kv,
     sUpdateTaskStatus = badger_UpdateTaskStatus kv,
     sDeleteTask = badger_DeleteTask kv,
     sClose = badger_Close kv\<rparr>"

section \<open>Keys\<close>

definition known :: "task_status \<Rightarrow> bool" where
  "known st \<longleftrightarrow> st \<in> {TaskStatusPending, TaskStatusProcessing, TaskStatusCompleted, TaskStatusFailed}"

lemma known_simps [simp]:
  "known TaskStatusPending" "known TaskStatusProcessing" "known TaskStatusCompleted"
  "known TaskStatusFailed" "\<not> known (TaskStatusOther x)"
  by (simp_all add: known_def)

lemma key_distinct [simp]:
  "taskKey a \<noteq> statusKey st b" "taskKey a \<noteq> blockKey x c n" "statusKey st b \<noteq> taskKey a"
  "statusKey st b \<noteq> blockKey x c n" "blockKey x c n \<noteq> taskKey a" "blockKey x c n \<noteq> statusKey st b"
  by (simp_all add: taskKey_def statusKey_def blockKey_def)

lemma taskKey_inj [simp]: "taskKey a = taskKey b \<longleftrightarrow> a = b"
  by (simp add: taskKey_def)

lemma blockKey_inj [simp]: "blockKey a c n = blockKey a' c' n' \<longleftrightarrow> a = a' \<and> c = c' \<and> n = n'"
  by (simp add: blockKey_def composite_key_inj)

lemma statusKey_inj [simp]:
  "known st \<Longrightarrow> known st' \<Longrightarrow> statusKey st a = statusKey st' b \<longleftrightarrow> st = st' \<and> a = b"
  by (auto simp: known_def statusKey_def statusString_def)

lemma pending_prefix:
  "known st \<Longrightarrow> prefix (statusKey TaskStatusPending []) (statusKey st tid) \<longleftrightarrow> st = TaskStatusPending"
  by (auto simp: known_def statusKey_def statusString_def)

lemma pending_prefix_other [simp]:
  "\<not> prefix (statusKey TaskStatusPending []) (taskKey tid)"
  "\<not> prefix (statusKey TaskStatusPending []) (blockKey a c n)"
  by (simp_all add: statusKey_def statusString_def taskKey_def blockKey_def)

lemma drop_pending_prefix [simp]:
  "drop (length (statusKey TaskStatusPending [])) (statusKey TaskStatusPending tid) = tid"
  by (simp add: statusKey_def statusString_def)

lemma latest_prefix_keys [simp]:
  "\<not> prefix (latestBlockPrefix a c) (taskKey tid)" "\<not> prefix (latestBlockPrefix a c) (statusKey st tid)"
  by (simp_all add: latestBlockPrefix_def taskKey_def statusKey_def)

lemma latest_prefix_same: "prefix (latestBlockPrefix a c) (blockKey a c n)"
  by (simp add: latestBlockPrefix_def blockKey_def)

lemma latest_prefix_iff: "prefix (latestBlockPrefix a c) (blockKey a c' n) \<longleftrightarrow> prefix (dec c) (dec c' @ '':'' @ dec n)"
  by (simp add: latestBlockPrefix_def blockKey_def)

section \<open>Invariant: the status index agrees with the records\<close>

definition status_of :: "(string \<Rightarrow> kv_value option) \<Rightarrow> string \<Rightarrow> task_status option" where
  "status_of v tid = (case v (taskKey tid) of Some (VTask r) \<Rightarrow> Some (rec_Status r) | _ \<Rightarrow> None)"

definition task_entry_ok :: "string \<Rightarrow> kv_value \<Rightarrow> bool" where
  "task_entry_ok tid x = (case x of VTask r \<Rightarrow> task_TaskId (rec_Task r) = tid \<and> known (rec_Status r) \<and>
     task_persist (rec_Task r) = rec_Task r \<and> storable (rec_Task r) | _ \<Rightarrow> False)"

definition block_entry_ok :: "chain_id \<Rightarrow> u64 \<Rightarrow> kv_value \<Rightarrow> bool" where
  "block_entry_ok c n x = (case x of VBlock b \<Rightarrow> br_ChainId b = c \<and> br_Number b = n | _ \<Rightarrow> False)"

definition index_ok :: "(string \<Rightarrow> kv_value option) \<Rightarrow> bool" where
  "index_ok v \<longleftrightarrow>
     (\<forall>k. v k \<noteq> None \<longrightarrow> (\<exists>tid. k = taskKey tid) \<or> (\<exists>st tid. known st \<and> k = statusKey st tid) \<or>
        (\<exists>a c n. k = blockKey a c n)) \<and>
     (\<forall>tid x. v (taskKey tid) = Some x \<longrightarrow> task_entry_ok tid x) \<and>
     (\<forall>st tid. known st \<longrightarrow> v (statusKey st tid) = (if status_of v tid = Some st then Some VEmpty else None)) \<and>
     (\<forall>a c n x. v (blockKey a c n) = Some x \<longrightarrow> block_entry_ok c n x)"

lemma index_ok_empty: "index_ok (\<lambda>k. None)"
  by (simp add: index_ok_def status_of_def)

lemma index_ok_taskE:
  assumes "index_ok v" "v (taskKey tid) = Some x"
  obtains r where "x = VTask r" "task_TaskId (rec_Task r) = tid" "known (rec_Status r)"
    "task_persist (rec_Task r) = rec_Task r" "storable (rec_Task r)" "status_of v tid = Some (rec_Status r)"
proof -
  have "task_entry_ok tid x" using assms by (auto simp: index_ok_def)
  with assms(2) that show ?thesis by (cases x) (auto simp: task_entry_ok_def status_of_def)
qed

lemma index_ok_blockE:
  assumes "index_ok v" "v (blockKey a c n) = Some x"
  obtains b where "x = VBlock b" "br_ChainId b = c" "br_Number b = n"
proof -
  have "block_entry_ok c n x" using assms by (auto simp: index_ok_def)
  with that show ?thesis by (cases x) (auto simp: block_entry_ok_def)
qed

lemma index_ok_status:
  "index_ok v \<Longrightarrow> known st \<Longrightarrow> v (statusKey st tid) = (if status_of v tid = Some st then Some VEmpty else None)"
  by (simp add: index_ok_def)

lemma status_of_upd [simp]:
  "status_of (v(taskKey tid \<mapsto> VTask r)) tid' = (if tid' = tid then Some (rec_Status r) else status_of v tid')"
  "status_of (v(taskKey tid := None)) tid' = (if tid' = tid then None else status_of v tid')"
  "status_of (v(statusKey st tid := x)) tid' = status_of v tid'"
  "status_of (v(blockKey a c n := x)) tid' = status_of v tid'"
  by (auto simp: status_of_def)

lemma index_ok_save:
  assumes "index_ok v" "status_of v tid = None" "task_entry_ok tid (VTask r)"
  shows "index_ok (v(taskKey tid \<mapsto> VTask r, statusKey (rec_Status r) tid \<mapsto> VEmpty))"
  using assms unfolding index_ok_def
  by (intro conjI allI impI) (auto simp: task_entry_ok_def split: if_splits)

lemma index_ok_update:
  assumes "index_ok v" "status_of v tid = Some old" "known old" "task_entry_ok tid (VTask r)"
  shows "index_ok (v(statusKey old tid := None, taskKey tid \<mapsto> VTask r, statusKey (rec_Status r) tid \<mapsto> VEmpty))"
  using assms unfolding index_ok_def
  by (intro conjI allI impI) (auto simp: task_entry_ok_def split: if_splits)

lemma index_ok_delete:
  assumes "index_ok v" "status_of v tid = Some st" "known st"
  shows "index_ok (v(taskKey tid := None, statusKey st tid := None))"
  using assms unfolding index_ok_def
  by (intro conjI allI impI) (auto split: if_splits)

lemma index_ok_put_block:
  assumes "index_ok v"
  shows "index_ok (v(blockKey a (br_ChainId b) (br_Number b) \<mapsto> VBlock b))"
  using assms unfolding index_ok_def
  by (intro conjI allI impI) (auto simp: block_entry_ok_def split: if_splits)

lemma index_ok_del_block:
  assumes "index_ok v"
  shows "index_ok (v(blockKey a c n := None))"
  using assms unfolding index_ok_def
  by (intro conjI allI impI) (auto split: if_splits)

section \<open>Transactions over a reliable key-value store\<close>

lemma kv_ok_simps:
  assumes "kv_ok kv view"
  shows "kv_get kv db k = (case view db k of None \<Rightarrow> Inl ErrKeyNotFound | Some v \<Rightarrow> Inr v)"
    and "txn_get kv db k = (case view db k of None \<Rightarrow> Inl ErrNotFound | Some v \<Rightarrow> Inr v)"
    and "txn_set kv db k v = Inr (projr (kv_set kv db k v))"
    and "view (projr (kv_set kv db k v)) = (view db)(k \<mapsto> v)"
    and "txn_delete kv db k = Inr (projr (kv_delete kv db k))"
    and "view (projr (kv_delete kv db k)) = (view db)(k := None)"
    and "kv_close kv db = None"
    and "badger_update kv s f = (case f (bs_db s) of Inl e \<Rightarrow> (Some e, s) | Inr db' \<Rightarrow> (None, s\<lparr>bs_db := db'\<rparr>))"
proof -
  obtain db1 where s: "kv_set kv db k v = Inr db1" "view db1 = (view db)(k \<mapsto> v)"
    using assms unfolding kv_ok_def by blast
  obtain db2 where d: "kv_delete kv db k = Inr db2" "view db2 = (view db)(k := None)"
    using assms unfolding kv_ok_def by blast
  show get: "kv_get kv db k = (case view db k of None \<Rightarrow> Inl ErrKeyNotFound | Some v \<Rightarrow> Inr v)"
    using assms by (simp add: kv_ok_def)
  show "txn_get kv db k = (case view db k of None \<Rightarrow> Inl ErrNotFound | Some v \<Rightarrow> Inr v)"
    by (simp add: txn_get_def get split: option.splits)
  show "txn_set kv db k v = Inr (projr (kv_set kv db k v))"
    and "view (projr (kv_set kv db k v)) = (view db)(k \<mapsto> v)"
    by (simp_all add: txn_set_def s)
  show "txn_delete kv db k = Inr (projr (kv_delete kv db k))"
    and "view (projr (kv_delete kv db k)) = (view db)(k := None)"
    by (simp_all add: txn_delete_def d)
  show "kv_close kv db = None" using assms by (simp add: kv_ok_def)
  show "badger_update kv s f = (case f (bs_db s) of Inl e \<Rightarrow> (Some e, s) | Inr db' \<Rightarrow> (None, s\<lparr>bs_db := db'\<rparr>))"
    using assms by (auto simp: badger_update_def kv_ok_def split: sum.splits)
qed

definition badger_invar :: "('db \<Rightarrow> string \<Rightarrow> kv_value option) \<Rightarrow> 'db badger_store \<Rightarrow> bool" where
  "badger_invar view s \<longleftrightarrow> index_ok (view (bs_db s))"

definition badger_tasksOf ::
  "('db \<Rightarrow> string \<Rightarrow> kv_value option) \<Rightarrow> 'db badger_store \<Rightarrow> string \<Rightarrow> (task \<times> task_status) option" where
  "badger_tasksOf view s tid =
     (case view (bs_db s) (taskKey tid) of Some (VTask r) \<Rightarrow> Some (rec_Task r, rec_Status r) | _ \<Rightarrow> None)"

definition badger_blocksOf ::
  "('db \<Rightarrow> string \<Rightarrow> kv_value option) \<Rightarrow> 'db badger_store \<Rightarrow> string \<times> chain_id \<times> u64 \<Rightarrow> block_record option" where
  "badger_blocksOf view s k =
     (case k of (a, c, n) \<Rightarrow> (case view (bs_db s) (blockKey a c n) of Some (VBlock b) \<Rightarrow> Some b | _ \<Rightarrow> None))"

lemmas badger_abs = badger_invar_def badger_tasksOf_def badger_blocksOf_def

lemma isValid_iff_legal: "isValidStatusTransition from to \<longleftrightarrow> legal_transition from to"
  by (cases "from") (auto simp: isValidStatusTransition_def)

lemma legal_known: "legal_transition st st' \<Longrightarrow> known st'"
  by (auto elim: legal_transition.cases)

lemma badger_task_NoneD:
  "badger_invar view s \<Longrightarrow> badger_tasksOf view s tid = None \<Longrightarrow>
     view (bs_db s) (taskKey tid) = None \<and> status_of (view (bs_db s)) tid = None"
  by (cases "view (bs_db s) (taskKey tid)")
    (auto simp: badger_abs status_of_def elim: index_ok_taskE)

lemma badger_task_SomeE:
  assumes "badger_tasksOf view s tid = Some (t, st)" "badger_invar view s"
  obtains r where "view (bs_db s) (taskKey tid) = Some (VTask r)" "t = rec_Task r" "st = rec_Status r"
    "task_TaskId (rec_Task r) = tid" "known (rec_Status r)" "task_persist (rec_Task r) = rec_Task r"
    "storable (rec_Task r)" "status_of (view (bs_db s)) tid = Some (rec_Status r)"
  using assms that
  by (auto simp: badger_abs split: option.splits kv_value.splits elim!: index_ok_taskE)

lemma badger_persisted:
  "badger_tasksOf view s tid = Some (t, st) \<Longrightarrow> badger_invar view s \<Longrightarrow> task_persist t = t"
  by (auto elim!: badger_task_SomeE)

lemma badger_blocksOf_Some:
  "badger_blocksOf view s (a, c, n) = Some b \<longleftrightarrow> view (bs_db s) (blockKey a c n) = Some (VBlock b)"
  by (simp add: badger_blocksOf_def split: option.split kv_value.split)

lemma badger_block_iff:
  "badger_invar view s \<Longrightarrow>
     (case view (bs_db s) (blockKey a c n) of None \<Rightarrow> badger_blocksOf view s (a, c, n) = None
      | Some x \<Rightarrow> \<exists>b. x = VBlock b \<and> badger_blocksOf view s (a, c, n) = Some b)"
  by (auto simp: badger_abs split: option.splits elim: index_ok_blockE)

lemma badger_save_fresh:
  assumes ok: "kv_ok kv view" and "badger_invar view s" "\<not> bs_closed s" "storable t"
    and fresh: "badger_tasksOf view s (task_TaskId t) = None"
  shows "\<exists>s'. badger_SavePendingTask kv now s (Some t) = (None, s') \<and> badger_invar view s' \<and> \<not> bs_closed s' \<and>
    badger_tasksOf view s' = (badger_tasksOf view s)(task_TaskId t \<mapsto> (task_persist t, TaskStatusPending)) \<and>
    badger_blocksOf view s' = badger_blocksOf view s"
proof -
  define r where "r = \<lparr>rec_Task = task_persist t, rec_Status = TaskStatusPending, rec_CreatedAt = 0, rec_UpdatedAt = 0\<rparr>"
  have none: "view (bs_db s) (taskKey (task_TaskId t)) = None" "status_of (view (bs_db s)) (task_TaskId t) = None"
    using badger_task_NoneD [OF assms(2) fresh] by auto
  have "index_ok ((view (bs_db s))(taskKey (task_TaskId t) \<mapsto> VTask r, statusKey (rec_Status r) (task_TaskId t) \<mapsto> VEmpty))"
    by (rule index_ok_save) (use assms none in \<open>auto simp: badger_invar_def r_def task_entry_ok_def\<close>)
  then show ?thesis
    using assms none
    by (auto simp: badger_SavePendingTask_def marshal_task_def kv_ok_simps [OF ok] badger_abs r_def fun_eq_iff)
qed

lemma badger_update_legal:
  assumes ok: "kv_ok kv view" and inv: "badger_invar view s" and "\<not> bs_closed s"
    and some: "badger_tasksOf view s tid = Some (t, st)" and legal: "legal_transition st st'"
  shows "\<exists>s'. badger_UpdateTaskStatus kv now s tid st' = (None, s') \<and> badger_invar view s' \<and> \<not> bs_closed s' \<and>
    badger_tasksOf view s' = (badger_tasksOf view s)(tid \<mapsto> (t, st')) \<and>
    badger_blocksOf view s' = badger_blocksOf view s"
proof -
  obtain r where r: "view (bs_db s) (taskKey tid) = Some (VTask r)" "t = rec_Task r" "st = rec_Status r"
    "task_TaskId (rec_Task r) = tid" "known (rec_Status r)" "task_persist (rec_Task r) = rec_Task r"
    "storable (rec_Task r)" "status_of (view (bs_db s)) tid = Some (rec_Status r)"
    using some inv by (rule badger_task_SomeE)
  define r' where "r' = r\<lparr>rec_Status := st'\<rparr>"
  have "index_ok ((view (bs_db s))(statusKey st tid := None, taskKey tid \<mapsto> VTask r',
      statusKey (rec_Status r') tid \<mapsto> VEmpty))"
    by (rule index_ok_update)
      (use inv r legal in \<open>auto simp: badger_invar_def r'_def task_entry_ok_def dest: legal_known\<close>)
  then show ?thesis
    using assms(3) r legal
    by (auto simp: badger_UpdateTaskStatus_def unmarshal_task_def marshal_task_def isValid_iff_legal
        kv_ok_simps [OF ok] badger_abs r'_def fun_eq_iff)
qed

lemma badger_delete_task:
  assumes ok: "kv_ok kv view" and inv: "badger_invar view s" and "\<not> bs_closed s"
    and some: "badger_tasksOf view s tid = Some (t, st)"
  shows "\<exists>s'. badger_DeleteTask kv s tid = (None, s') \<and> badger_invar view s' \<and> \<not> bs_closed s' \<and>
    badger_tasksOf view s' = (badger_tasksOf view s)(tid := None) \<and>
    badger_blocksOf view s' = badger_blocksOf view s"
proof -
  obtain r where r: "view (bs_db s) (taskKey tid) = Some (VTask r)" "t = rec_Task r" "st = rec_Status r"
    "known (rec_Status r)" "status_of (view (bs_db s)) tid = Some (rec_Status r)"
    using some inv by (rule badger_task_SomeE)
  have "index_ok ((view (bs_db s))(taskKey tid := None, statusKey st tid := None))"
    by (rule index_ok_delete) (use inv r in \<open>auto simp: badger_invar_def\<close>)
  then show ?thesis
    using assms(3) r
    by (auto simp: badger_DeleteTask_def unmarshal_task_def kv_ok_simps [OF ok] badger_abs fun_eq_iff)
qed

text \<open>The listing loop visits the pending tasks, each exactly once.\<close>

lemma pendingItem_index:
  assumes ok: "kv_ok kv view" and inv: "badger_invar view s"
    and "item \<in> set (kv_iter kv (bs_db s) (statusKey TaskStatusPending []))"
  shows "\<exists>tid t. fst item = statusKey TaskStatusPending tid \<and> pendingItem kv (bs_db s) item = Some t \<and>
    badger_tasksOf view s tid = Some (t, TaskStatusPending) \<and> task_TaskId t = tid"
proof -
  let ?v = "view (bs_db s)"
  have item: "?v (fst item) = Some (snd item)" "prefix (statusKey TaskStatusPending []) (fst item)"
    using assms(3) kv_ok_iter(1) [OF ok] by auto
  have ix: "index_ok ?v" using inv by (simp add: badger_invar_def)
  then obtain st tid where key: "known st" "fst item = statusKey st tid"
    using item by (auto simp: index_ok_def)
  then have st: "st = TaskStatusPending" using item pending_prefix by auto
  then have "status_of ?v tid = Some TaskStatusPending"
    using item(1) key index_ok_status [OF ix, of st tid] by (auto split: if_splits)
  then obtain r where r: "?v (taskKey tid) = Some (VTask r)" "rec_Status r = TaskStatusPending"
    by (auto simp: status_of_def split: option.splits kv_value.splits)
  moreover have "task_TaskId (rec_Task r) = tid"
    using index_ok_taskE [OF ix r(1)] by auto
  ultimately show ?thesis
    using key st
    by (auto simp: pendingItem_def kv_ok_simps [OF ok] unmarshal_task_def badger_tasksOf_def)
qed

lemma pending_indexed:
  assumes ok: "kv_ok kv view" and inv: "badger_invar view s"
    and "badger_tasksOf view s tid = Some (t, TaskStatusPending)"
  shows "(statusKey TaskStatusPending tid, VEmpty) \<in> set (kv_iter kv (bs_db s) (statusKey TaskStatusPending []))"
proof -
  have "status_of (view (bs_db s)) tid = Some TaskStatusPending"
    using inv assms(3) by (auto elim!: badger_task_SomeE)
  with inv have "view (bs_db s) (statusKey TaskStatusPending tid) = Some VEmpty"
    using index_ok_status [of "view (bs_db s)" TaskStatusPending tid] by (simp add: badger_invar_def)
  then show ?thesis
    by (simp add: kv_ok_iter(1) [OF ok]) (use pending_prefix [of TaskStatusPending tid] in simp)
qed

lemma badger_pending:
  assumes ok: "kv_ok kv view" and inv: "badger_invar view s"
  defines "ts \<equiv> List.map_filter (pendingItem kv (bs_db s)) (kv_iter kv (bs_db s) (statusKey TaskStatusPending []))"
  shows "distinct (map task_TaskId ts)"
    and "set ts = {t. \<exists>tid. badger_tasksOf view s tid = Some (t, TaskStatusPending)}"
proof -
  let ?its = "kv_iter kv (bs_db s) (statusKey TaskStatusPending [])"
  have ts: "ts = map (\<lambda>it. the (pendingItem kv (bs_db s) it)) ?its"
  proof -
    have "filter (\<lambda>it. pendingItem kv (bs_db s) it \<noteq> None) ?its = ?its"
      by (rule filter_True) (use pendingItem_index [OF ok inv] in fastforce)
    then show ?thesis by (simp only: ts_def List.map_filter_def comp_def)
  qed
  have keys: "statusKey TaskStatusPending (task_TaskId (the (pendingItem kv (bs_db s) it))) = fst it"
    if "it \<in> set ?its" for it
    using pendingItem_index [OF ok inv that] by auto
  have "map (statusKey TaskStatusPending) (map task_TaskId ts) = map fst ?its"
    using keys by (auto simp: ts)
  then have "distinct (map (statusKey TaskStatusPending) (map task_TaskId ts))"
    using kv_ok_iter(2) [OF ok] by metis
  then show "distinct (map task_TaskId ts)"
    unfolding distinct_map [of "statusKey TaskStatusPending"] by blast
  show "set ts = {t. \<exists>tid. badger_tasksOf view s tid = Some (t, TaskStatusPending)}"
  proof (intro equalityI subsetI)
    fix t assume "t \<in> set ts"
    then show "t \<in> {t. \<exists>tid. badger_tasksOf view s tid = Some (t, TaskStatusPending)}"
      using pendingItem_index [OF ok inv] by (force simp: ts)
  next
    fix t assume "t \<in> {t. \<exists>tid. badger_tasksOf view s tid = Some (t, TaskStatusPending)}"
    then obtain tid where t: "badger_tasksOf view s tid = Some (t, TaskStatusPending)" by auto
    from pending_indexed [OF ok inv t] pendingItem_index [OF ok inv, of "(statusKey TaskStatusPending tid, VEmpty)"] t
    show "t \<in> set ts" by (force simp: ts)
  qed
qed

section \<open>The contract holds\<close>

lemma badger_task_store:
  assumes ok: "kv_ok kv view"
  shows "task_store (badger_ops kv) (badger_invar view) bs_closed (badger_tasksOf view) (badger_blocksOf view)"
proof (unfold_locales, goal_cases)
  case 1 then show ?case by (auto elim!: badger_task_SomeE)
next
  case 2 then show ?case
    by (auto simp: badger_abs split: option.splits kv_value.splits elim: index_ok_blockE)
next
  case (3 s tid) then show ?case
    using badger_task_NoneD [of view s tid]
    by (cases "badger_tasksOf view s tid")
      (auto simp: badger_ops_def badger_GetTask_def kv_ok_simps [OF ok] unmarshal_task_def
        elim!: badger_task_SomeE)
next
  case 4 then show ?case by (simp add: badger_ops_def badger_save_fresh [OF ok])
next
  case 5 then show ?case by (simp add: badger_ops_def badger_update_legal [OF ok])
next
  case 6 then show ?case
    by (auto simp: badger_ops_def badger_UpdateTaskStatus_def kv_ok_simps [OF ok] unmarshal_task_def
        isValid_iff_legal elim!: badger_task_SomeE)
next
  case 7 then show ?case
    by (auto simp: badger_ops_def badger_UpdateTaskStatus_def kv_ok_simps [OF ok] dest: badger_task_NoneD)
next
  case 8 then show ?case using badger_delete_task [OF ok] by (auto simp: badger_ops_def)
next
  case 9 then show ?case
    by (auto simp: badger_ops_def badger_DeleteTask_def kv_ok_simps [OF ok] dest: badger_task_NoneD)
next
  case (10 s)
  have "task_persist ` {t. \<exists>tid. badger_tasksOf view s tid = Some (t, TaskStatusPending)} =
      {t. \<exists>tid. badger_tasksOf view s tid = Some (t, TaskStatusPending)}"
    by (rule image_fixpoint) (use 10(1) in \<open>auto dest: badger_persisted\<close>)
  with 10 badger_pending [OF ok 10(1)] show ?case
    by (simp add: badger_ops_def badger_ListPendingTasks_def)
next
  case (11 s avs)
  let ?P = "{t. (\<exists>tid. badger_tasksOf view s tid = Some (t, TaskStatusPending)) \<and> equalFold (task_AVSAddress t) avs}"
  have "task_persist ` ?P = ?P"
    by (rule image_fixpoint) (use 11(1) in \<open>auto dest: badger_persisted\<close>)
  then show ?case using 11 badger_pending [OF ok 11(1)]
    by (simp add: badger_ops_def badger_ListPendingTasksForAVS_def distinct_map_filter)
next
  case (12 s avs c n) then show ?case
    using badger_block_iff [OF 12(1), of avs c n]
    by (auto simp: badger_ops_def badger_GetBlock_def kv_ok_simps [OF ok] unmarshal_block_def
        split: option.splits)
next
  case (13 s avs b) then show ?case
    using index_ok_put_block [of "view (bs_db s)" avs b]
    by (auto simp: badger_ops_def badger_SaveBlock_def kv_ok_simps [OF ok] badger_abs fun_eq_iff)
next
  case (14 s avs c n) then show ?case
    using index_ok_del_block [of "view (bs_db s)" avs c n] badger_block_iff [OF 14(1), of avs c n]
    by (auto simp: badger_ops_def badger_DeleteBlock_def kv_ok_simps [OF ok] badger_abs fun_eq_iff
        split: option.splits)
next
  case (15 s avs c n) then show ?case
    using badger_block_iff [OF 15(1), of avs c n]
    by (auto simp: badger_ops_def badger_DeleteBlock_def kv_ok_simps [OF ok] split: option.splits)
next
  case 16 then show ?case
    by (simp add: badger_ops_def badger_GetTask_def badger_ListPendingTasks_def
        badger_ListPendingTasksForAVS_def badger_SavePendingTask_def badger_UpdateTaskStatus_def
        badger_DeleteTask_def badger_GetBlock_def badger_SaveBlock_def badger_DeleteBlock_def
        badger_GetLastProcessedBlock_def)
next
  case 17 then show ?case by (simp add: badger_ops_def badger_Close_def kv_ok_simps [OF ok] badger_invar_def)
next
  case (18 s t now e s')
  show ?case
  proof (cases "storable t")
    case True
    with 18 badger_save_fresh [OF ok, of s t now] show ?thesis by (auto simp: badger_ops_def)
  next
    case False
    with 18 have "s' = s" by (auto simp: badger_ops_def badger_SavePendingTask_def marshal_task_def)
    with 18 show ?thesis by simp
  qed
qed

section \<open>The last processed block\<close>

text \<open>
  The iteration computes a block of maximal number among all records whose key starts with the
  prefix, whatever chain they belong to.
\<close>

lemma lastBlockLoop_max:
  assumes "\<forall>it \<in> set items. \<exists>b. snd it = VBlock b"
    and "\<forall>b. acc = Some b \<longrightarrow> br_Number b = hi"
  shows "\<exists>res. lastBlockLoop items acc hi = Inr res \<and>
    (res = None \<longleftrightarrow> acc = None \<and> items = []) \<and>
    (\<forall>b. res = Some b \<longrightarrow> (acc = Some b \<or> VBlock b \<in> snd ` set items) \<and>
       (\<forall>b'. acc = Some b' \<or> VBlock b' \<in> snd ` set items \<longrightarrow> br_Number b' \<le> br_Number b))"
  using assms
proof (induction items arbitrary: acc hi)
  case Nil
  then show ?case by auto
next
  case (Cons it items)
  obtain k b where it: "it = (k, VBlock b)" using Cons.prems(1) by (cases it) auto
  show ?case
  proof (cases "acc = None \<or> hi < br_Number b")
    case True
    with it have step: "lastBlockLoop (it # items) acc hi = lastBlockLoop items (Some b) (br_Number b)"
      by (auto simp: unmarshal_block_def)
    obtain res where "lastBlockLoop items (Some b) (br_Number b) = Inr res" "res \<noteq> None"
      "\<forall>x. res = Some x \<longrightarrow> (Some b = Some x \<or> VBlock x \<in> snd ` set items) \<and>
        (\<forall>b'. Some b = Some b' \<or> VBlock b' \<in> snd ` set items \<longrightarrow> br_Number b' \<le> br_Number x)"
      using Cons.IH [of "Some b" "br_Number b"] Cons.prems by auto
    with step it True Cons.prems(2) show ?thesis by (cases acc) (auto, force+)
  next
    case False
    with it have step: "lastBlockLoop (it # items) acc hi = lastBlockLoop items acc hi"
      by (auto simp: unmarshal_block_def)
    obtain res where "lastBlockLoop items acc hi = Inr res" "res \<noteq> None"
      "\<forall>x. res = Some x \<longrightarrow> (acc = Some x \<or> VBlock x \<in> snd ` set items) \<and>
        (\<forall>b'. acc = Some b' \<or> VBlock b' \<in> snd ` set items \<longrightarrow> br_Number b' \<le> br_Number x)"
      using Cons.IH [of acc hi] Cons.prems False by auto
    with step it False Cons.prems(2) show ?thesis by (cases acc) (auto, force+)
  qed
qed

definition matching_block ::
  "('db \<Rightarrow> string \<Rightarrow> kv_value option) \<Rightarrow> 'db badger_store \<Rightarrow> string \<Rightarrow> chain_id \<Rightarrow> block_record \<Rightarrow> bool" where
  "matching_block view s avs c b \<longleftrightarrow> (\<exists>a c' n. badger_blocksOf view s (a, c', n) = Some b \<and>
     prefix (latestBlockPrefix avs c) (blockKey a c' n))"

lemma iter_blocks:
  assumes ok: "kv_ok kv view" and inv: "badger_invar view s"
  shows "\<forall>it \<in> set (kv_iter kv (bs_db s) (latestBlockPrefix avs c)). \<exists>b. snd it = VBlock b"
    and "VBlock b \<in> snd ` set (kv_iter kv (bs_db s) (latestBlockPrefix avs c)) \<longleftrightarrow> matching_block view s avs c b"
proof -
  have ix: "index_ok (view (bs_db s))" using inv by (simp add: badger_invar_def)
  have key: "\<exists>a c' n b. k = blockKey a c' n \<and> v = VBlock b \<and> badger_blocksOf view s (a, c', n) = Some b"
    if "view (bs_db s) k = Some v" "prefix (latestBlockPrefix avs c) k" for k v
  proof -
    from that ix obtain a c' n where k: "k = blockKey a c' n"
      unfolding index_ok_def by (metis latest_prefix_keys option.distinct(1))
    with that badger_block_iff [OF inv, of a c' n] show ?thesis by auto
  qed
  show "\<forall>it \<in> set (kv_iter kv (bs_db s) (latestBlockPrefix avs c)). \<exists>b. snd it = VBlock b"
    using key by (fastforce simp: kv_ok_iter(1) [OF ok])
  show "VBlock b \<in> snd ` set (kv_iter kv (bs_db s) (latestBlockPrefix avs c)) \<longleftrightarrow> matching_block view s avs c b"
  proof
    assume "VBlock b \<in> snd ` set (kv_iter kv (bs_db s) (latestBlockPrefix avs c))"
    then obtain k where "view (bs_db s) k = Some (VBlock b)" "prefix (latestBlockPrefix avs c) k"
      by (auto simp: kv_ok_iter(1) [OF ok])
    with key show "matching_block view s avs c b" by (fastforce simp: matching_block_def)
  next
    assume "matching_block view s avs c b"
    then obtain a c' n where "view (bs_db s) (blockKey a c' n) = Some (VBlock b)"
      "prefix (latestBlockPrefix avs c) (blockKey a c' n)"
      by (auto simp: matching_block_def badger_blocksOf_Some)
    then show "VBlock b \<in> snd ` set (kv_iter kv (bs_db s) (latestBlockPrefix avs c))" by (force simp: kv_ok_iter(1) [OF ok])
  qed
qed

lemma badger_last:
  assumes ok: "kv_ok kv view" and inv: "badger_invar view s" and "\<not> bs_closed s"
  shows "(badger_GetLastProcessedBlock kv s avs c = Inl ErrNotFound \<and> (\<forall>b. \<not> matching_block view s avs c b)) \<or>
    (\<exists>b. badger_GetLastProcessedBlock kv s avs c = Inr b \<and> matching_block view s avs c b \<and>
      (\<forall>b'. matching_block view s avs c b' \<longrightarrow> br_Number b' \<le> br_Number b))"
proof -
  let ?its = "kv_iter kv (bs_db s) (latestBlockPrefix avs c)"
  obtain res where res: "lastBlockLoop ?its None 0 = Inr res" "res = None \<longleftrightarrow> ?its = []"
    "\<forall>b. res = Some b \<longrightarrow> VBlock b \<in> snd ` set ?its \<and> (\<forall>b'. VBlock b' \<in> snd ` set ?its \<longrightarrow> br_Number b' \<le> br_Number b)"
    using lastBlockLoop_max [OF iter_blocks(1) [OF ok inv, of avs c], of None 0] by auto
  show ?thesis
  proof (cases res)
    case None
    with res assms(3) iter_blocks(2) [OF ok inv, of _ avs c] show ?thesis
      by (auto simp: badger_GetLastProcessedBlock_def)
  next
    case (Some b)
    with res assms(3) iter_blocks(2) [OF ok inv, of _ avs c] show ?thesis
      by (auto simp: badger_GetLastProcessedBlock_def)
  qed
qed

section \<open>A closed instance\<close>

interpretation badger: task_store "badger_ops kv_alist" "badger_invar map_of" bs_closed
  "badger_tasksOf map_of" "badger_blocksOf map_of"
  by (rule badger_task_store [OF kv_alist_ok])

lemma badger_invar_empty: "badger_invar map_of \<lparr>bs_db = [], bs_closed = False\<rparr>"
  using index_ok_empty by (simp add: badger_invar_def)

end
