(* ===== verification/Store_Theorems.thy ===== *)
theory Store_Theorems
  imports Memory_Store Badger_Store
begin

text \<open>
  The two stores as implementations of one abstract data type: a map of tasks with their statuses
  and a map of blocks. The operations that change a store are interpreted on the maps; the lemma
  \<open>storeOps_refine\<close>, proved once in the locale \<open>task_store\<close>, says that an implementation follows the
  interpretation, and the properties instantiate it.
\<close>

section \<open>Operations and their meaning\<close>

datatype store_op = SavePendingOp time task | UpdateOp time string task_status | DeleteTaskOp string
  | SaveBlockOp string block_record | DeleteBlockOp string chain_id u64

fun applyOp :: "'s aggregator_store \<Rightarrow> 's \<Rightarrow> store_op \<Rightarrow> 's" where
  "applyOp ops s (SavePendingOp now t) = snd (sSavePendingTask ops now s (Some t))"
| "applyOp ops s (UpdateOp now tid st) = snd (sUpdateTaskStatus ops now s tid st)"
| "applyOp ops s (DeleteTaskOp tid) = snd (sDeleteTask ops s tid)"
| "applyOp ops s (SaveBlockOp avs b) = snd (sSaveBlock ops s avs (Some b))"
| "applyOp ops s (DeleteBlockOp avs c n) = snd (sDeleteBlock ops s avs c n)"

type_synonym abs_store =
  "(string \<Rightarrow> (task \<times> task_status) option) \<times> (string \<times> chain_id \<times> u64 \<Rightarrow> block_record option)"

fun specOp :: "abs_store \<Rightarrow> store_op \<Rightarrow> abs_store" where
  "specOp (T, B) (SavePendingOp now t) = (T(task_TaskId t \<mapsto> (task_persist t, TaskStatusPending)), B)"
| "specOp (T, B) (UpdateOp now tid st) =
     (case T tid of None \<Rightarrow> (T, B)
      | Some (t, st0) \<Rightarrow> if legal_transition st0 st then (T(tid \<mapsto> (t, st)), B) else (T, B))"
| "specOp (T, B) (DeleteTaskOp tid) = (T(tid := None), B)"
| "specOp (T, B) (SaveBlockOp avs b) = (T, B((avs, br_ChainId b, br_Number b) \<mapsto> b))"
| "specOp (T, B) (DeleteBlockOp avs c n) = (T, B((avs, c, n) := None))"

text \<open>What the clients save: tasks with an identifier that is not in use and a serialisable deadline.\<close>

fun admissible :: "abs_store \<Rightarrow> store_op \<Rightarrow> bool" where
  "admissible (T, B) (SavePendingOp now t) \<longleftrightarrow> task_TaskId t \<noteq> [] \<and> storable t \<and> T (task_TaskId t) = None"
| "admissible (T, B) _ \<longleftrightarrow> True"

fun admissibleRun :: "abs_store \<Rightarrow> store_op list \<Rightarrow> bool" where
  "admissibleRun A [] \<longleftrightarrow> True"
| "admissibleRun A (op # ops) \<longleftrightarrow> admissible A op \<and> admissibleRun (specOp A op) ops"

definition emptyAbs :: abs_store where
  "emptyAbs = (Map.empty, Map.empty)"

context task_store
begin

lemma applyOp_refines:
  assumes "invar s" "\<not> is_closed s" "admissible (tasksOf s, blocksOf s) op"
  shows "invar (applyOp ops s op) \<and> \<not> is_closed (applyOp ops s op) \<and>
    (tasksOf (applyOp ops s op), blocksOf (applyOp ops s op)) = specOp (tasksOf s, blocksOf s) op"
proof (cases op)
  case (SavePendingOp now t)
  with assms savePending_fresh [OF assms(1,2), of t now] show ?thesis by auto
next
  case (UpdateOp now tid st)
  obtain e s' where u: "sUpdateTaskStatus ops now s tid st = (e, s')" by fastforce
  show ?thesis
  proof (cases "tasksOf s tid")
    case None
    with UpdateOp assms update_missing [OF assms(1,2) None] show ?thesis by simp
  next
    case (Some p)
    obtain t st0 where p: "p = (t, st0)" by (cases p)
    show ?thesis
      using UpdateOp Some p assms update_legal [OF assms(1,2), of tid t st0 st now]
        update_illegal [OF assms(1,2), of tid t st0 st now] by (cases "legal_transition st0 st") auto
  qed
next
  case (DeleteTaskOp tid)
  with deleteTask_keeps [OF assms(1,2), of tid] show ?thesis by simp
next
  case (SaveBlockOp avs b)
  with saveBlock [OF assms(1,2), of avs b] show ?thesis by auto
next
  case (DeleteBlockOp avs c n)
  with deleteBlock_keeps [OF assms(1,2), of avs c n] show ?thesis by simp
qed

lemma storeOps_refine:
  assumes "invar s" "\<not> is_closed s" "admissibleRun (tasksOf s, blocksOf s) os"
  shows "invar (foldl (applyOp ops) s os) \<and> \<not> is_closed (foldl (applyOp ops) s os) \<and>
    (tasksOf (foldl (applyOp ops) s os), blocksOf (foldl (applyOp ops) s os)) = foldl specOp (tasksOf s, blocksOf s) os"
  using assms
proof (induction os arbitrary: s)
  case (Cons op os)
  from Cons.prems applyOp_refines [of s op] have 1: "invar (applyOp ops s op)" "\<not> is_closed (applyOp ops s op)"
    "(tasksOf (applyOp ops s op), blocksOf (applyOp ops s op)) = specOp (tasksOf s, blocksOf s) op" by simp_all
  with Cons.prems(3) have "admissibleRun (tasksOf (applyOp ops s op), blocksOf (applyOp ops s op)) os" by simp
  from Cons.IH [OF 1(1,2) this] 1(3) show ?case by simp
qed simp

end

text \<open>Two stores side by side: what their clients read is the same.\<close>

locale store_pair = a: task_store opsA invarA closedA tasksA blocksA + b: task_store opsB invarB closedB tasksB blocksB
  for opsA :: "'s aggregator_store" and invarA closedA tasksA blocksA
    and opsB :: "'t aggregator_store" and invarB closedB tasksB blocksB
begin

lemma same_reads:
  assumes "invarA s" "\<not> closedA s" "invarB t" "\<not> closedB t" "tasksA s = tasksB t" "blocksA s = blocksB t"
  shows "map_sum id task_persist (sGetTask opsA s tid) = map_sum id task_persist (sGetTask opsB t tid) \<and>
    sGetBlock opsA s avs c n = sGetBlock opsB t avs c n"
proof -
  have "map_sum id task_persist (sGetTask opsA s tid) = map_sum id task_persist (sGetTask opsB t tid)"
    using a.getTask [OF assms(1,2), of tid] b.getTask [OF assms(3,4), of tid] assms(5)
    by (cases "tasksB t tid") auto
  moreover have "sGetBlock opsA s avs c n = sGetBlock opsB t avs c n"
    using a.getBlock [OF assms(1,2)] b.getBlock [OF assms(3,4)] assms(6) by simp
  ultimately show ?thesis ..
qed

lemma same_pending:
  assumes "invarA s" "\<not> closedA s" "invarB t" "\<not> closedB t" "tasksA s = tasksB t"
  shows "\<exists>ts us. sListPendingTasks opsA s = Inr ts \<and> sListPendingTasks opsB t = Inr us \<and>
    task_persist ` set ts = task_persist ` set us \<and> length ts = length us"
proof -
  obtain ts where ts: "sListPendingTasks opsA s = Inr ts" "distinct (map task_TaskId ts)"
    "task_persist ` set ts = {x. \<exists>tid. tasksA s tid = Some (x, TaskStatusPending)}"
    using a.listPending [OF assms(1,2)] by blast
  obtain us where us: "sListPendingTasks opsB t = Inr us" "distinct (map task_TaskId us)"
    "task_persist ` set us = {x. \<exists>tid. tasksB t tid = Some (x, TaskStatusPending)}"
    using b.listPending [OF assms(3,4)] by blast
  have "task_TaskId ` set ts = task_TaskId ` task_persist ` set ts"
    "task_TaskId ` set us = task_TaskId ` task_persist ` set us" by (simp_all add: image_image)
  then have "set (map task_TaskId ts) = set (map task_TaskId us)" using ts(3) us(3) assms(5) by simp
  with ts(2) us(2) have "length (map task_TaskId ts) = length (map task_TaskId us)" by (metis distinct_card)
  with ts us assms(5) show ?thesis by auto
qed

end

interpretation memory_badger: store_pair memory_ops mem_invar ms_closed mem_tasksOf mem_blocksOf
  "badger_ops kv_alist" "badger_invar map_of" bs_closed "badger_tasksOf map_of" "badger_blocksOf map_of"
  by unfold_locales

section \<open>Properties\<close>

definition sample_task :: task where
  "sample_task = \<lparr>task_TaskId = ''0x1'', task_AVSAddress = ''0xa'', task_OperatorSetId = 1, task_CallbackAddr = ''0xc'',
     task_DeadlineUnixSeconds = Some 1000, task_ThresholdBips = 6000, task_Payload = [1], task_ChainId = 1,
     task_SourceBlockNumber = 5, task_L1ReferenceBlockNumber = 0, task_ReferenceTimestamp = 9,
     task_BlockHash = ''0xh'', task_Version = 1, task_Context = Some 0\<rparr>"

definition sample_block :: "chain_id \<Rightarrow> u64 \<Rightarrow> block_record" where
  "sample_block c n = \<lparr>br_Number = n, br_Hash = ''0xh'', br_ParentHash = ''0xp'', br_Timestamp = 0, br_ChainId = c\<rparr>"

definition sample_ops :: "store_op list" where
  "sample_ops = [SavePendingOp 100 sample_task, UpdateOp 101 ''0x1'' TaskStatusProcessing, SaveBlockOp ''0xa'' (sample_block 1 5),
     UpdateOp 102 ''0x1'' TaskStatusPending, UpdateOp 103 ''0x1'' TaskStatusCompleted]"

lemma sample_admissible: "admissibleRun emptyAbs sample_ops"
  by (simp add: sample_ops_def emptyAbs_def sample_task_def storable_def json_time_ok_def task_persist_def)

lemma sample_result_spec:
  "fst (foldl specOp emptyAbs sample_ops) ''0x1'' = Some (task_persist sample_task, TaskStatusCompleted)"
  by (simp add: sample_ops_def emptyAbs_def sample_task_def task_persist_def)

lemma memory_new_abs: "(mem_tasksOf newInMemoryAggregatorStore, mem_blocksOf newInMemoryAggregatorStore) = emptyAbs"
  by (simp add: mem_tasksOf_def mem_blocksOf_def newInMemoryAggregatorStore_def emptyAbs_def fun_eq_iff)

lemma memory_new_open: "\<not> ms_closed newInMemoryAggregatorStore"
  by (simp add: newInMemoryAggregatorStore_def)

text \<open>A new database is empty and satisfies the invariant.\<close>

lemma badger_new_abs:
  assumes "view db = Map.empty"
  shows "badger_invar view \<lparr>bs_db = db, bs_closed = False\<rparr>"
    "(badger_tasksOf view \<lparr>bs_db = db, bs_closed = False\<rparr>, badger_blocksOf view \<lparr>bs_db = db, bs_closed = False\<rparr>) = emptyAbs"
proof -
  show "badger_invar view \<lparr>bs_db = db, bs_closed = False\<rparr>"
    using index_ok_empty by (simp add: badger_invar_def assms)
  show "(badger_tasksOf view \<lparr>bs_db = db, bs_closed = False\<rparr>, badger_blocksOf view \<lparr>bs_db = db, bs_closed = False\<rparr>) = emptyAbs"
    by (simp add: badger_tasksOf_def badger_blocksOf_def emptyAbs_def fun_eq_iff assms)
qed

text \<open>
  The in-memory store implements the abstract store: after any sequence of saves, status updates
  and deletions, its tasks with their statuses and its blocks are what the operations mean on maps;
  in particular a status update takes effect exactly when it is a legal transition.
\<close>

theorem memory_store_refines:
  assumes "admissibleRun emptyAbs os"
  shows "(mem_tasksOf (foldl (applyOp memory_ops) newInMemoryAggregatorStore os),
      mem_blocksOf (foldl (applyOp memory_ops) newInMemoryAggregatorStore os)) = foldl specOp emptyAbs os"
  using mem.storeOps_refine [OF mem_invar_new memory_new_open, of os] assms by (simp add: memory_new_abs)

theorem memory_store_refines_witness:
  "mem_tasksOf (foldl (applyOp memory_ops) newInMemoryAggregatorStore sample_ops) ''0x1'' =
     Some (task_persist sample_task, TaskStatusCompleted)"
  using memory_store_refines [OF sample_admissible] sample_result_spec by (metis fst_conv)



text \<open>
  C27. The two stores are interchangeable for their clients: after the same admissible operations they
  answer every \<open>GetTask\<close> (up to the context, which is not persisted) and \<open>GetBlock\<close> alike, and list
  the same pending tasks.
\<close>

theorem stores_equivalent:
  assumes "kv_ok kv view" "view db = Map.empty" "admissibleRun emptyAbs os"
    and "s = foldl (applyOp memory_ops) newInMemoryAggregatorStore os"
    and "t = foldl (applyOp (badger_ops kv)) \<lparr>bs_db = db, bs_closed = False\<rparr> os"
  shows "map_sum id task_persist (sGetTask memory_ops s tid) = map_sum id task_persist (sGetTask (badger_ops kv) t tid) \<and>
    sGetBlock memory_ops s avs c n = sGetBlock (badger_ops kv) t avs c n \<and>
    (\<exists>ts us. sListPendingTasks memory_ops s = Inr ts \<and> sListPendingTasks (badger_ops kv) t = Inr us \<and>
      task_persist ` set ts = task_persist ` set us \<and> length ts = length us)"
proof -
  note pair = store_pair.intro [OF mem.task_store_axioms badger_task_store [OF assms(1)]]
  have s: "mem_invar s" "\<not> ms_closed s" "(mem_tasksOf s, mem_blocksOf s) = foldl specOp emptyAbs os"
    using mem.storeOps_refine [OF mem_invar_new memory_new_open, of os] assms(3,4) by (simp_all add: memory_new_abs)
  have t: "badger_invar view t" "\<not> bs_closed t" "(badger_tasksOf view t, badger_blocksOf view t) = foldl specOp emptyAbs os"
    using task_store.storeOps_refine [OF badger_task_store [OF assms(1)] badger_new_abs(1) [of view db, OF assms(2)], of os] assms(3,5)
      badger_new_abs(2) [of view db, OF assms(2)] by simp_all
  have same: "mem_tasksOf s = badger_tasksOf view t" "mem_blocksOf s = badger_blocksOf view t"
    using s(3) t(3) by (metis prod.inject)+
  show ?thesis
    using store_pair.same_reads [OF pair s(1,2) t(1,2) same] store_pair.same_pending [OF pair s(1,2) t(1,2) same(1)] by blast
qed

theorem stores_equivalent_witness:
  "sGetBlock memory_ops (foldl (applyOp memory_ops) newInMemoryAggregatorStore sample_ops) ''0xa'' 1 5 =
   sGetBlock (badger_ops kv_alist) (foldl (applyOp (badger_ops kv_alist)) \<lparr>bs_db = [], bs_closed = False\<rparr> sample_ops) ''0xa'' 1 5"
  using stores_equivalent [OF kv_alist_ok _ sample_admissible refl refl, of "[]"] by simp

text \<open>
  A task's life cycle in the in-memory store: whatever status updates are issued, in whatever
  order, the stored task itself never changes, its status only moves along legal transitions, and a
  completed or failed task keeps its status for good.
\<close>

theorem memory_task_lifecycle:
  assumes "mem_invar s" "\<not> ms_closed s" "mem_tasksOf s tid = Some (t, st)"
  shows "\<exists>st'. mem_tasksOf (runUpdates memory_ops s us) tid = Some (t, st') \<and> legal_transition\<^sup>*\<^sup>* st st' \<and>
    (st = TaskStatusCompleted \<or> st = TaskStatusFailed \<longrightarrow> st' = st)"
  using mem.runUpdates_lifecycle [OF assms(1,2), of us tid] mem.runUpdates_terminal [OF assms, of us] assms(3)
  by (auto simp: rel_option_iff split: option.splits)

lemma sample_saved:
  "mem_invar (applyOp memory_ops newInMemoryAggregatorStore (SavePendingOp 100 sample_task))"
  "\<not> ms_closed (applyOp memory_ops newInMemoryAggregatorStore (SavePendingOp 100 sample_task))"
  "mem_tasksOf (applyOp memory_ops newInMemoryAggregatorStore (SavePendingOp 100 sample_task)) ''0x1'' =
     Some (task_persist sample_task, TaskStatusPending)"
proof -
  have "admissible emptyAbs (SavePendingOp 100 sample_task)" using sample_admissible by (simp add: sample_ops_def)
  with mem.applyOp_refines [OF mem_invar_new memory_new_open, of "SavePendingOp 100 sample_task"]
  have r: "mem_invar (applyOp memory_ops newInMemoryAggregatorStore (SavePendingOp 100 sample_task)) \<and>
    \<not> ms_closed (applyOp memory_ops newInMemoryAggregatorStore (SavePendingOp 100 sample_task)) \<and>
    (mem_tasksOf (applyOp memory_ops newInMemoryAggregatorStore (SavePendingOp 100 sample_task)),
     mem_blocksOf (applyOp memory_ops newInMemoryAggregatorStore (SavePendingOp 100 sample_task))) =
      specOp emptyAbs (SavePendingOp 100 sample_task)"
    by (simp only: memory_new_abs) blast
  then show "mem_invar (applyOp memory_ops newInMemoryAggregatorStore (SavePendingOp 100 sample_task))"
    "\<not> ms_closed (applyOp memory_ops newInMemoryAggregatorStore (SavePendingOp 100 sample_task))" by simp_all
  have id: "task_TaskId sample_task = ''0x1''" by (simp add: sample_task_def)
  show "mem_tasksOf (applyOp memory_ops newInMemoryAggregatorStore (SavePendingOp 100 sample_task)) ''0x1'' =
     Some (task_persist sample_task, TaskStatusPending)"
    using r by (simp add: emptyAbs_def id)
qed

theorem memory_task_lifecycle_witness:
  "\<exists>st'. mem_tasksOf (runUpdates memory_ops (applyOp memory_ops newInMemoryAggregatorStore (SavePendingOp 100 sample_task))
       [(101, ''0x1'', TaskStatusFailed), (102, ''0x1'', TaskStatusCompleted)]) ''0x1'' = Some (task_persist sample_task, st') \<and>
     legal_transition\<^sup>*\<^sup>* TaskStatusPending st'"
  using memory_task_lifecycle [OF sample_saved, of "[(101, ''0x1'', TaskStatusFailed), (102, ''0x1'', TaskStatusCompleted)]"] by blast

text \<open>
  The last processed block that the BadgerDB store reports is the stored block of that AVS and
  chain with the highest number, or none if there is no such block, provided that no stored block of
  another chain has a key with the same textual prefix.
\<close>

theorem badger_last_block_highest:
  assumes "kv_ok kv view" "badger_invar view s" "\<not> bs_closed s"
    and "\<forall>a c' n b. badger_blocksOf view s (a, c', n) = Some b \<and> prefix (latestBlockPrefix avs c) (blockKey a c' n) \<longrightarrow> a = avs \<and> c' = c"
  shows "(badger_GetLastProcessedBlock kv s avs c = Inl ErrNotFound \<and> (\<forall>n. badger_blocksOf view s (avs, c, n) = None)) \<or>
    (\<exists>b. badger_GetLastProcessedBlock kv s avs c = Inr b \<and> badger_blocksOf view s (avs, c, br_Number b) = Some b \<and>
      (\<forall>n b'. badger_blocksOf view s (avs, c, n) = Some b' \<longrightarrow> br_Number b' \<le> br_Number b))"
proof -
  note key = task_store.block_key [OF badger_task_store [OF assms(1)] assms(2)]
  have m: "matching_block view s avs c b \<longleftrightarrow> badger_blocksOf view s (avs, c, br_Number b) = Some b" for b
  proof
    assume "matching_block view s avs c b"
    then obtain a c' n where "badger_blocksOf view s (a, c', n) = Some b" "prefix (latestBlockPrefix avs c) (blockKey a c' n)"
      by (auto simp: matching_block_def)
    with assms(4) key [of a c' n b] show "badger_blocksOf view s (avs, c, br_Number b) = Some b" by blast
  next
    assume "badger_blocksOf view s (avs, c, br_Number b) = Some b"
    with latest_prefix_same show "matching_block view s avs c b" unfolding matching_block_def by blast
  qed
  have own: "matching_block view s avs c b" if "badger_blocksOf view s (avs, c, n) = Some b" for n b
    using that key [OF that] m by simp
  from badger_last [OF assms(1-3), of avs c] show ?thesis
  proof (elim disjE exE conjE)
    assume "badger_GetLastProcessedBlock kv s avs c = Inl ErrNotFound" "\<forall>b. \<not> matching_block view s avs c b"
    with own show ?thesis by (meson not_None_eq)
  next
    fix b assume "badger_GetLastProcessedBlock kv s avs c = Inr b" "matching_block view s avs c b"
      "\<forall>b'. matching_block view s avs c b' \<longrightarrow> br_Number b' \<le> br_Number b"
    with own m show ?thesis by blast
  qed
qed

definition sample_badger :: "(string \<times> kv_value) list badger_store" where
  "sample_badger = snd (badger_SaveBlock kv_alist \<lparr>bs_db = [], bs_closed = False\<rparr> ''0xa'' (Some (sample_block 1 5)))"

lemma sample_badger_facts:
  "badger_invar map_of sample_badger \<and> \<not> bs_closed sample_badger \<and>
   badger_blocksOf map_of sample_badger = [(''0xa'', 1, 5) \<mapsto> sample_block 1 5]"
  using badger.saveBlock [OF badger_invar_empty, of "''0xa''" "sample_block 1 5"] badger_new_abs(2) [of map_of "[]"]
  by (auto simp: sample_badger_def badger_ops_def emptyAbs_def sample_block_def)

theorem badger_last_block_highest_witness:
  "badger_GetLastProcessedBlock kv_alist sample_badger ''0xa'' 1 = Inr (sample_block 1 5)"
proof -
  have "\<forall>a c' n b. badger_blocksOf map_of sample_badger (a, c', n) = Some b \<and>
      prefix (latestBlockPrefix ''0xa'' 1) (blockKey a c' n) \<longrightarrow> a = ''0xa'' \<and> c' = 1"
    using sample_badger_facts by auto
  from badger_last_block_highest [OF kv_alist_ok _ _ this] sample_badger_facts show ?thesis
    by (auto split: if_splits)
qed

text \<open>
  The BadgerDB store confuses chains whose decimal identifiers extend one another, as Base (8453)
  and Base Sepolia (84532) do: after saving block 100 of chain 84532, the last processed block of
  chain 8453 is that block, where the in-memory store reports that there is none.
\<close>

theorem badger_last_block_crosses_chains:
  "badger_GetLastProcessedBlock kv_alist
     (snd (badger_SaveBlock kv_alist \<lparr>bs_db = [], bs_closed = False\<rparr> ''0xa'' (Some (sample_block 84532 100)))) ''0xa'' 8453 =
     Inr (sample_block 84532 100) \<and>
   mem_GetLastProcessedBlock (snd (mem_SaveBlock newInMemoryAggregatorStore ''0xa'' (Some (sample_block 84532 100)))) ''0xa'' 8453 =
     Inl ErrNotFound"
proof -
  let ?s = "snd (badger_SaveBlock kv_alist \<lparr>bs_db = [], bs_closed = False\<rparr> ''0xa'' (Some (sample_block 84532 100)))"
  have inv: "badger_invar map_of ?s" "\<not> bs_closed ?s"
    and blocks: "badger_blocksOf map_of ?s = [(''0xa'', 84532, 100) \<mapsto> sample_block 84532 100]"
    using badger.saveBlock [OF badger_invar_empty, of "''0xa''" "sample_block 84532 100"] badger_new_abs(2) [of map_of "[]"]
    by (auto simp: badger_ops_def emptyAbs_def sample_block_def)
  have "prefix (latestBlockPrefix ''0xa'' 8453) (blockKey ''0xa'' 84532 100)"
    by (simp add: latest_prefix_iff dec.simps [of 84532])
  then have m: "matching_block map_of ?s ''0xa'' 8453 b \<longleftrightarrow> b = sample_block 84532 100" for b
    unfolding matching_block_def blocks by auto
  then have "badger_GetLastProcessedBlock kv_alist ?s ''0xa'' 8453 = Inr (sample_block 84532 100)"
    using badger_last [OF kv_alist_ok inv, of "''0xa''" 8453] by auto
  moreover have "mem_GetLastProcessedBlock (snd (mem_SaveBlock newInMemoryAggregatorStore ''0xa'' (Some (sample_block 84532 100)))) ''0xa'' 8453 =
     Inl ErrNotFound"
    by (simp add: mem_SaveBlock_def mem_GetLastProcessedBlock_def newInMemoryAggregatorStore_def sample_block_def)
  ultimately show ?thesis ..
qed

end
