(* ===== verification/Session_Theorems.thy ===== *)
theory Session_Theorems
  imports Task_Session
begin

text \<open>
  What a task session delivers, for the two result aggregators: a certificate is backed by valid
  responses of different addresses whose stake is a quorum (soundness), and it is produced once
  such responses have arrived (progress). The general statements are proved in the locale of
  \<open>ITaskResultAggregator\<close> and instantiated through its interpretations.
\<close>

section \<open>Responses behind a ballot\<close>

text \<open>The votes for a digest come from a list of responses, one per address.\<close>

lemma votes_by_responses:
  assumes "\<forall>(a, w, d')\<in>#B. \<exists>tr\<in>T. tr_OperatorAddress tr = a \<and> V tr w d'"
    and "\<forall>a. size (filter_mset (\<lambda>v. fst v = a) B) \<le> 1"
  shows "\<exists>rs. distinct (map (\<lambda>r. tr_OperatorAddress (fst r)) rs) \<and> (\<forall>(tr, w)\<in>set rs. tr \<in> T \<and> V tr w d) \<and>
    voteWeight d B = (\<Sum>(tr, w)\<leftarrow>rs. w) \<and> (\<forall>(tr, w)\<in>set rs. (tr_OperatorAddress tr, w, d) \<in># B)"
  using assms
proof (induction B)
  case (add v B)
  obtain a w d' where v: "v = (a, w, d')" by (cases v)
  have one: "\<forall>a. size (filter_mset (\<lambda>v. fst v = a) B) \<le> 1"
  proof
    fix x
    have "size (filter_mset (\<lambda>v. fst v = x) B) \<le> size (filter_mset (\<lambda>v. fst v = x) (add_mset v B))"
      by (simp only: filter_mset_add_mset) simp
    also have "\<dots> \<le> 1" using add.prems(2) by blast
    finally show "size (filter_mset (\<lambda>v. fst v = x) B) \<le> 1" .
  qed
  have "\<forall>(a, w, d')\<in>#B. \<exists>tr\<in>T. tr_OperatorAddress tr = a \<and> V tr w d'" using add.prems(1) by simp
  from add.IH [OF this one] obtain rs where rs: "distinct (map (\<lambda>r. tr_OperatorAddress (fst r)) rs)" "\<forall>(tr, w)\<in>set rs. tr \<in> T \<and> V tr w d"
    "voteWeight d B = (\<Sum>(tr, w)\<leftarrow>rs. w)" "\<forall>(tr, w)\<in>set rs. (tr_OperatorAddress tr, w, d) \<in># B" by blast
  show ?case
  proof (cases "d' = d")
    case False
    with rs v show ?thesis by (intro exI [of _ rs]) auto
  next
    case True
    obtain tr where tr: "tr \<in> T" "tr_OperatorAddress tr = a" "V tr w d" using add.prems(1) v True by auto
    have "size (filter_mset (\<lambda>v. fst v = a) (add_mset v B)) \<le> 1" using add.prems(2) by blast
    then have "filter_mset (\<lambda>v. fst v = a) B = {#}" using v by simp
    then have "\<And>w d. (a, w, d) \<notin># B" by (auto simp: filter_mset_eq_conv)
    with rs(4) have "a \<notin> set (map (\<lambda>r. tr_OperatorAddress (fst r)) rs)" by fastforce
    with rs v True tr show ?thesis by (intro exI [of _ "(tr, w) # rs"]) auto
  qed
qed (intro exI [of _ "[]"], simp)

context result_aggregator
begin

lemma certificate_backed:
  assumes "invar st" "votesOf st = {#}" "broadcastLoop ops taskId events st = (Some (Inr cert), st')"
  shows "\<exists>rs. distinct (map (\<lambda>r. tr_OperatorAddress (fst r)) rs) \<and>
    (\<forall>(tr, w)\<in>set rs. tr \<in> collected events \<and> valid st tr w (certDigest cert)) \<and>
    quorum (totalOf st) (bipsOf st) (\<Sum>(tr, w)\<leftarrow>rs. w)"
proof -
  from assms(2) have "backed st {}" "oneVoteEach st" by (simp_all add: backed_def oneVoteEach_def)
  from broadcast_sound [OF assms(1) this assms(3)] obtain st1 where st1: "backed st1 (collected events)" "oneVoteEach st1"
    "valid st1 = valid st" "quorum (totalOf st) (bipsOf st) (voteWeight (certDigest cert) (votesOf st1))" by auto
  from votes_by_responses [of "votesOf st1" "collected events" "valid st" "certDigest cert"] st1
  obtain rs where "distinct (map (\<lambda>r. tr_OperatorAddress (fst r)) rs)"
    "\<forall>(tr, w)\<in>set rs. tr \<in> collected events \<and> valid st tr w (certDigest cert)"
    "voteWeight (certDigest cert) (votesOf st1) = (\<Sum>(tr, w)\<leftarrow>rs. w)"
    unfolding backed_def oneVoteEach_def by auto
  with st1(4) show ?thesis by auto
qed

lemma certificate_reached:
  assumes "invar st" "votesOf st = {#}" "receivedOf st = {}" "decodable st"
    and "distinct (map tr_OperatorAddress trs)" "good \<noteq> []" "set good \<subseteq> set trs" "distinct good"
    and "\<forall>tr\<in>set good. valid st tr (w tr) d \<and> tr_TaskId tr = taskId"
    and "quorum (totalOf st) (bipsOf st) (\<Sum>tr\<leftarrow>good. w tr)"
  shows "\<exists>cert st'. broadcastLoop ops taskId (map ResultReceived trs) st = (Some (Inr cert), st')"
proof -
  have "distinct trs" using assms(5) by (simp add: distinct_map)
  then have "mset (filter (\<lambda>tr. tr \<in> set good) trs) = mset good"
    using assms(7,8) by (intro set_eq_iff_mset_eq_distinct [THEN iffD1]) auto
  then have sum: "(\<Sum>tr\<leftarrow>filter (\<lambda>tr. tr \<in> set good) trs. w tr) = (\<Sum>tr\<leftarrow>good. w tr)"
    by (metis mset_map sum_mset_sum_list)
  have "\<not> aSigningThresholdMet ops st" using threshold [OF assms(1)] assms(2) by (simp add: voteDigests_def)
  moreover have "filter (\<lambda>tr. tr \<in> set good) trs \<noteq> []"
    using assms(6,7) by (cases good) (auto simp: filter_empty_conv)
  ultimately show ?thesis
    using assms sum by (intro broadcast_progress [where good = "\<lambda>tr. tr \<in> set good" and w = w and d = d]) auto
qed

end

section \<open>Concrete libraries\<close>

text \<open>
  Signatures and keys are numbers, a signature is valid for the key with its number, and contract
  calls return the padded output as the digest.
\<close>

definition sample_bn254 :: "(nat, nat, nat, nat) bn254_lib" where
  "sample_bn254 = \<lparr>newSignatureFromBytes = (\<lambda>b. if b = [] then None else Some (unat (hd b))),
     verifySolidityCompatible = (\<lambda>s p d. Some (s = p)), sigVerify = (\<lambda>s p d. Some (s = p)), sigAdd = (+),
     asBN254PublicKey = Some, keyBytes = (\<lambda>k. [word_of_nat k]),
     newPublicKeyFromBytes = (\<lambda>b. if b = [] then None else Some (unat (hd b))),
     libAggregatePublicKeys = (\<lambda>ps. Some (sum_list ps)), newZeroG2Point = 0, addPublicKey = (+)\<rparr>"

definition sample_ecdsa :: "nat ecdsa_lib" where
  "sample_ecdsa = \<lparr>ec_newSignatureFromBytes = (\<lambda>b. if b = [] then None else Some (unat (hd b))),
     ec_verifyWithAddress = (\<lambda>s d a. Some (a = [word_of_nat s])), ec_sigBytes = (\<lambda>s. [word_of_nat s])\<rparr>"

definition sample_cc :: cert_caller where
  "sample_cc = \<lparr>calculateTaskMessageHash = (\<lambda>h out. Some (copy32 out)),
     calculateBN254CertificateDigestBytes = (\<lambda>ts d. Some d), calculateECDSACertificateDigestBytes = (\<lambda>ts d. Some d)\<rparr>"

definition sample_operator :: "string \<Rightarrow> 'k \<Rightarrow> int \<Rightarrow> 'k operator" where
  "sample_operator addr key w = \<lparr>op_Address = addr, op_PublicKey = key, op_OperatorIndex = 0, op_Weights = [w]\<rparr>"

definition sample_result :: "string \<Rightarrow> byte \<Rightarrow> bytes \<Rightarrow> task_result" where
  "sample_result addr sig out = \<lparr>tr_TaskId = ''0x1'', tr_AvsAddress = ''0xa'', tr_OperatorSetId = 1, tr_Output = out,
     tr_OperatorAddress = addr, tr_ResultSignature = [sig], tr_AuthSignature = [sig]\<rparr>"

lemmas sample_defs = sample_bn254_def sample_ecdsa_def sample_cc_def sample_operator_def sample_result_def

section \<open>Properties\<close>

definition sample_bn254_operators :: "nat option operator list" where
  "sample_bn254_operators = [sample_operator ''0xaa'' (Some 5) 60, sample_operator ''0xbb'' (Some 6) 40]"

definition sample_bn254_aggregator :: "(nat, nat, nat) bn254_aggregator" where
  "sample_bn254_aggregator = \<lparr>bt_TaskId = ''0x1'', bt_ReferenceTimestamp = 9, bt_OperatorSetId = 1, bt_ThresholdBips = 6000,
     bt_TaskData = [], bt_TaskExpirationTime = None, bt_Operators = sample_bn254_operators, bt_ReceivedSignatures = [],
     bt_AggregatePublicKey = 11, bt_aggregatedOperators = None\<rparr>"

lemma sample_bn254_new:
  "newBN254TaskResultAggregator sample_bn254 ''0x1'' 9 1 6000 [] None sample_bn254_operators = Inr sample_bn254_aggregator"
  by (simp add: newBN254TaskResultAggregator_def aggregatePublicKeys_def sample_bn254_operators_def sample_defs
      sample_bn254_aggregator_def utilMap_def)

lemma sample_nonneg: "\<forall>op\<in>set sample_bn254_operators. 0 \<le> firstWeight op"
  by (simp add: sample_bn254_operators_def sample_defs firstWeight_def)

lemma sample_bn254_valid:
  "bn254_valid sample_eth sample_bn254 sample_cc sample_bn254_aggregator (sample_result ''0xaa'' 5 [7]) 60 (copy32 [7])"
  by (simp add: bn254_valid_def sample_bn254_aggregator_def sample_bn254_operators_def sample_defs firstWeight_def
      bn254_VerifyResponseSignature_def Let_def)

lemma bn254_new_fields:
  assumes "newBN254TaskResultAggregator lib tid ts os bips td ex opers = Inr tra"
  shows "bt_Operators tra = opers" "bt_ThresholdBips tra = bips" "bt_TaskId tra = tid"
    "tallyVotes (bt_aggregatedOperators tra) = {#}" "bt_ReceivedSignatures tra = []"
  using assms by (auto simp: newBN254TaskResultAggregator_def tallyVotes_def split: if_splits sum.splits)

text \<open>
  C2. Soundness of a BN254 task session: when the broadcast loop returns a certificate, there are
  responses among the collected ones, from pairwise different addresses, each of which passed every
  check of the aggregator (task, operator set, membership, result signature and authentication
  signature) for the certificate's digest, and whose stake weights sum up to a quorum: at least the
  threshold share, rounded down, of the positive total stake.
\<close>

theorem bn254_certificate_backed_by_quorum:
  assumes "newBN254TaskResultAggregator lib tid ts os bips td ex opers = Inr tra"
    and "\<forall>op\<in>set opers. 0 \<le> firstWeight op"
    and "broadcastLoop (bn254_ops eth lib cc) tid events tra = (Some (Inr cert), tra')"
  shows "\<exists>rs. distinct (map (\<lambda>r. tr_OperatorAddress (fst r)) rs) \<and>
    (\<forall>(tr, w)\<in>set rs. tr \<in> collected events \<and> bn254_valid eth lib cc tra tr w (bc_TaskResponseDigest cert)) \<and>
    quorum (totalStake opers 0) bips (\<Sum>(tr, w)\<leftarrow>rs. w)"
  using bn.certificate_backed [OF bn254_new_invar [OF assms(1,2)] _ assms(3)] by (simp add: bn254_new_fields [OF assms(1)])

text \<open>
  C3. Progress of a BN254 task session: when the results that arrive include, whatever else arrives,
  valid responses for one digest from a quorum of the stake, the loop returns a certificate and does
  not wait or fail, provided that the task id is a hexadecimal string and no two results carry the
  same address.
\<close>

theorem bn254_session_reaches_certificate:
  assumes "newBN254TaskResultAggregator lib tid ts os bips td ex opers = Inr tra"
    and "\<forall>op\<in>set opers. 0 \<le> firstWeight op" "hexutilDecode eth tid \<noteq> None"
    and "distinct (map tr_OperatorAddress trs)" "good \<noteq> []" "set good \<subseteq> set trs" "distinct good"
    and "\<forall>tr\<in>set good. bn254_valid eth lib cc tra tr (w tr) d"
    and "quorum (totalStake opers 0) bips (\<Sum>tr\<leftarrow>good. w tr)"
  shows "\<exists>cert tra'. broadcastLoop (bn254_ops eth lib cc) tid (map ResultReceived trs) tra = (Some (Inr cert), tra')"
proof -
  note st = bn254_new_fields [OF assms(1)]
  with assms(8) have "\<forall>tr\<in>set good. bn254_valid eth lib cc tra tr (w tr) d \<and> tr_TaskId tr = tid"
    by (auto simp: bn254_valid_def)
  with st assms(3-7,9) show ?thesis
    by (intro bn.certificate_reached [OF bn254_new_invar [OF assms(1,2)], where good = good and w = w and d = d]) auto
qed

text \<open>Witnesses: one response of stake 60 out of 100 for a threshold of 60 percent.\<close>

lemma sample_quorum: "quorum (totalStake sample_bn254_operators 0) 6000 60"
  by (simp add: quorum_def sample_bn254_operators_def sample_defs)

lemma sample_decodes: "hexutilDecode sample_eth ''0x1'' \<noteq> None"
  by (simp add: sample_eth_def)

lemma sample_bn254_reaches:
  "\<exists>cert tra'. broadcastLoop (bn254_ops sample_eth sample_bn254 sample_cc) ''0x1''
     [ResultReceived (sample_result ''0xaa'' 5 [7])] sample_bn254_aggregator = (Some (Inr cert), tra')"
  using bn.certificate_reached [OF bn254_new_invar [OF sample_bn254_new sample_nonneg],
      where trs = "[sample_result ''0xaa'' 5 [7]]" and good = "[sample_result ''0xaa'' 5 [7]]" and w = "\<lambda>_. 60"
        and d = "copy32 [7]" and eth = sample_eth and lib = sample_bn254 and cc = sample_cc and taskId = "''0x1''"]
    sample_bn254_valid sample_quorum sample_decodes
  by (simp add: sample_bn254_aggregator_def tallyVotes_def) (simp add: sample_result_def)

theorem bn254_certificate_backed_by_quorum_witness:
  "\<exists>cert tra' rs. broadcastLoop (bn254_ops sample_eth sample_bn254 sample_cc) ''0x1''
     [ResultReceived (sample_result ''0xaa'' 5 [7])] sample_bn254_aggregator = (Some (Inr cert), tra') \<and>
     quorum (totalStake sample_bn254_operators 0) 6000 (\<Sum>(tr, w)\<leftarrow>rs. w) \<and>
     list_all (\<lambda>(tr, w). tr = sample_result ''0xaa'' 5 [7]) rs"
proof -
  from sample_bn254_reaches obtain cert tra' where r: "broadcastLoop (bn254_ops sample_eth sample_bn254 sample_cc) ''0x1''
     [ResultReceived (sample_result ''0xaa'' 5 [7])] sample_bn254_aggregator = (Some (Inr cert), tra')" by blast
  with bn254_certificate_backed_by_quorum [OF sample_bn254_new sample_nonneg r] show ?thesis
    by (fastforce simp: collected_def list_all_iff)
qed

theorem bn254_session_reaches_certificate_witness:
  "\<exists>cert tra'. broadcastLoop (bn254_ops sample_eth sample_bn254 sample_cc) ''0x1''
     (map ResultReceived [sample_result ''0xbb'' 0 [], sample_result ''0xaa'' 5 [7]]) sample_bn254_aggregator =
     (Some (Inr cert), tra')"
proof -
  have d: "distinct (map tr_OperatorAddress [sample_result ''0xbb'' 0 [], sample_result ''0xaa'' 5 [7]])"
    by (simp add: sample_result_def)
  show ?thesis
    by (rule bn254_session_reaches_certificate [OF sample_bn254_new sample_nonneg sample_decodes d,
          where good = "[sample_result ''0xaa'' 5 [7]]" and w = "\<lambda>_. 60" and d = "copy32 [7]"])
      (use sample_bn254_valid sample_quorum in simp_all)
qed

section \<open>Properties of ECDSA sessions\<close>

definition sample_ecdsa_operators :: "bytes operator list" where
  "sample_ecdsa_operators = [sample_operator ''0xaa'' [5] 60, sample_operator ''0xbb'' [6] 40]"

definition sample_ecdsa_aggregator :: "nat ecdsa_aggregator" where
  "sample_ecdsa_aggregator = \<lparr>et_TaskId = ''0x1'', et_ReferenceTimestamp = 9, et_OperatorSetId = 1, et_ThresholdBips = 6000,
     et_TaskData = [], et_TaskExpirationTime = None, et_Operators = sample_ecdsa_operators, et_OperatorSignatures = [],
     et_AggregatePublicKeys = [[5], [6]], et_aggregatedOperators = None\<rparr>"

lemma sample_ecdsa_new:
  "newECDSATaskResultAggregator ''0x1'' 9 1 6000 [] None sample_ecdsa_operators = Inr sample_ecdsa_aggregator"
  by (simp add: newECDSATaskResultAggregator_def sample_ecdsa_operators_def sample_defs sample_ecdsa_aggregator_def utilMap_def)

lemma sample_ecdsa_nonneg: "\<forall>op\<in>set sample_ecdsa_operators. 0 \<le> firstWeight op"
  by (simp add: sample_ecdsa_operators_def sample_defs firstWeight_def)

lemma sample_ecdsa_quorum: "quorum (totalStake sample_ecdsa_operators 0) 6000 60"
  by (simp add: quorum_def sample_ecdsa_operators_def sample_defs)

lemma sample_ecdsa_valid:
  "ecdsa_valid sample_eth sample_ecdsa sample_cc sample_ecdsa_aggregator (sample_result ''0xaa'' 5 [7]) 60 (copy32 [7])"
  by (simp add: ecdsa_valid_def sample_ecdsa_aggregator_def sample_ecdsa_operators_def sample_defs firstWeight_def
      ecdsa_VerifyResponseSignature_def Let_def)

lemma ecdsa_new_fields:
  assumes "newECDSATaskResultAggregator tid ts os bips td ex opers = Inr tra"
  shows "et_Operators tra = opers" "et_ThresholdBips tra = bips" "et_TaskId tra = tid"
    "tallyVotes (et_aggregatedOperators tra) = {#}" "et_OperatorSignatures tra = []"
  using assms by (auto simp: newECDSATaskResultAggregator_def tallyVotes_def split: if_splits)

text \<open>
  C4. Soundness of an ECDSA task session: a returned certificate is backed by collected responses of
  pairwise different addresses that passed every check for its digest and hold a quorum of the stake.
\<close>

theorem ecdsa_certificate_backed_by_quorum:
  assumes "newECDSATaskResultAggregator tid ts os bips td ex opers = Inr tra"
    and "\<forall>op\<in>set opers. 0 \<le> firstWeight op"
    and "broadcastLoop (ecdsa_ops eth lib cc) tid events tra = (Some (Inr cert), tra')"
  shows "\<exists>rs. distinct (map (\<lambda>r. tr_OperatorAddress (fst r)) rs) \<and>
    (\<forall>(tr, w)\<in>set rs. tr \<in> collected events \<and> ecdsa_valid eth lib cc tra tr w (ec_TaskResponseDigest cert)) \<and>
    quorum (totalStake opers 0) bips (\<Sum>(tr, w)\<leftarrow>rs. w)"
  using ec.certificate_backed [OF ecdsa_new_invar [OF assms(1,2)] _ assms(3)] by (simp add: ecdsa_new_fields [OF assms(1)])

text \<open>
  Progress of an ECDSA task session: valid responses for one digest from a quorum of the stake,
  whatever else arrives, make the loop return a certificate.
\<close>

theorem ecdsa_session_reaches_certificate:
  assumes "newECDSATaskResultAggregator tid ts os bips td ex opers = Inr tra"
    and "\<forall>op\<in>set opers. 0 \<le> firstWeight op" "hexutilDecode eth tid \<noteq> None"
    and "distinct (map tr_OperatorAddress trs)" "good \<noteq> []" "set good \<subseteq> set trs" "distinct good"
    and "\<forall>tr\<in>set good. ecdsa_valid eth lib cc tra tr (w tr) d"
    and "quorum (totalStake opers 0) bips (\<Sum>tr\<leftarrow>good. w tr)"
  shows "\<exists>cert tra'. broadcastLoop (ecdsa_ops eth lib cc) tid (map ResultReceived trs) tra = (Some (Inr cert), tra')"
proof -
  note st = ecdsa_new_fields [OF assms(1)]
  with assms(8) have "\<forall>tr\<in>set good. ecdsa_valid eth lib cc tra tr (w tr) d \<and> tr_TaskId tr = tid"
    by (auto simp: ecdsa_valid_def)
  with st assms(3-7,9) show ?thesis
    by (intro ec.certificate_reached [OF ecdsa_new_invar [OF assms(1,2)], where good = good and w = w and d = d]) auto
qed

lemma sample_ecdsa_reaches:
  "\<exists>cert tra'. broadcastLoop (ecdsa_ops sample_eth sample_ecdsa sample_cc) ''0x1''
     [ResultReceived (sample_result ''0xaa'' 5 [7])] sample_ecdsa_aggregator = (Some (Inr cert), tra')"
  using ec.certificate_reached [OF ecdsa_new_invar [OF sample_ecdsa_new sample_ecdsa_nonneg],
      where trs = "[sample_result ''0xaa'' 5 [7]]" and good = "[sample_result ''0xaa'' 5 [7]]" and w = "\<lambda>_. 60"
        and d = "copy32 [7]" and eth = sample_eth and lib = sample_ecdsa and cc = sample_cc and taskId = "''0x1''"]
    sample_ecdsa_valid sample_ecdsa_quorum sample_decodes
  by (simp add: sample_ecdsa_aggregator_def tallyVotes_def) (simp add: sample_result_def)

theorem ecdsa_certificate_backed_by_quorum_witness:
  "\<exists>cert tra' rs. broadcastLoop (ecdsa_ops sample_eth sample_ecdsa sample_cc) ''0x1''
     [ResultReceived (sample_result ''0xaa'' 5 [7])] sample_ecdsa_aggregator = (Some (Inr cert), tra') \<and>
     quorum (totalStake sample_ecdsa_operators 0) 6000 (\<Sum>(tr, w)\<leftarrow>rs. w) \<and>
     list_all (\<lambda>(tr, w). tr = sample_result ''0xaa'' 5 [7]) rs"
proof -
  from sample_ecdsa_reaches obtain cert tra' where r: "broadcastLoop (ecdsa_ops sample_eth sample_ecdsa sample_cc) ''0x1''
     [ResultReceived (sample_result ''0xaa'' 5 [7])] sample_ecdsa_aggregator = (Some (Inr cert), tra')" by blast
  with ecdsa_certificate_backed_by_quorum [OF sample_ecdsa_new sample_ecdsa_nonneg r] show ?thesis
    by (fastforce simp: collected_def list_all_iff)
qed

theorem ecdsa_session_reaches_certificate_witness:
  "\<exists>cert tra'. broadcastLoop (ecdsa_ops sample_eth sample_ecdsa sample_cc) ''0x1''
     (map ResultReceived [sample_result ''0xbb'' 0 [], sample_result ''0xaa'' 5 [7]]) sample_ecdsa_aggregator =
     (Some (Inr cert), tra')"
proof -
  have d: "distinct (map tr_OperatorAddress [sample_result ''0xbb'' 0 [], sample_result ''0xaa'' 5 [7]])"
    by (simp add: sample_result_def)
  show ?thesis
    by (rule ecdsa_session_reaches_certificate [OF sample_ecdsa_new sample_ecdsa_nonneg sample_decodes d,
          where good = "[sample_result ''0xaa'' 5 [7]]" and w = "\<lambda>_. 60" and d = "copy32 [7]"])
      (use sample_ecdsa_valid sample_ecdsa_quorum in simp_all)
qed

section \<open>Limits of the tally\<close>


text \<open>
  Letter case apart, an operator is never counted twice: when every response carries an operator's
  address exactly as the operator list has it, the weight recorded for a digest never exceeds the
  total stake.
\<close>

theorem bn254_group_weight_within_stake:
  assumes "bn254_invar tra" "bt_aggregatedOperators tra = Some ao" "gm_get (ao_digestGroups ao) d = Some g"
    and "\<forall>a si. (a, si) \<in> set (dg_signers g) \<longrightarrow> a = op_Address (si_operator si)"
  shows "dg_currentWeight g \<le> totalStake (bt_Operators tra) 0"
proof -
  let ?V = "\<lambda>d a si. bn254_signer tra d a si \<and> a = op_Address (si_operator si)"
  have g: "group_ok (bn254_signer tra) d g" using assms(1-3) by (auto simp: bn254_invar_def tally_ok_def)
  then have "group_ok ?V d g" using assms(4) unfolding group_ok_def by (auto dest: map_of_SomeD)
  then show ?thesis
    by (rule group_weight_le_total) (use assms(1) in \<open>auto simp: bn254_signer_def bn254_invar_def\<close>)
qed

lemma sample_bn254_processed:
  "\<exists>tra ao g. bn254_ProcessNewSignature sample_eth sample_bn254 sample_cc sample_bn254_aggregator (sample_result ''0xaa'' 5 [7]) = (None, tra) \<and>
     bt_aggregatedOperators tra = Some ao \<and> gm_get (ao_digestGroups ao) (copy32 [7]) = Some g \<and>
     map fst (dg_signers g) = [''0xaa''] \<and> map (op_Address \<circ> si_operator \<circ> snd) (dg_signers g) = [''0xaa''] \<and>
     bt_Operators tra = sample_bn254_operators"
  by (simp add: bn254_ProcessNewSignature_def validateTaskResponse_def sample_bn254_aggregator_def
      sample_bn254_operators_def sample_defs Let_def bn254_VerifyResponseSignature_def recordVote_def groupFor_def
      newAggregatedOperators_def firstWeight_def updateWinningResponse_def)

theorem bn254_group_weight_within_stake_witness:
  "\<exists>(tra :: (nat, nat, nat) bn254_aggregator) ao g. bt_aggregatedOperators tra = Some ao \<and> gm_get (ao_digestGroups ao) (copy32 [7]) = Some g \<and>
     dg_currentWeight g \<le> totalStake sample_bn254_operators 0"
proof -
  from sample_bn254_processed obtain tra ao g where
    p: "bn254_ProcessNewSignature sample_eth sample_bn254 sample_cc sample_bn254_aggregator (sample_result ''0xaa'' 5 [7]) = (None, tra)"
    and ao: "bt_aggregatedOperators tra = Some ao" "gm_get (ao_digestGroups ao) (copy32 [7]) = Some g"
    and s: "map fst (dg_signers g) = [''0xaa'']" "map (op_Address \<circ> si_operator \<circ> snd) (dg_signers g) = [''0xaa'']"
    and ops: "bt_Operators tra = sample_bn254_operators" by auto
  have inv: "bn254_invar tra" using bn254_process_invar [OF bn254_new_invar [OF sample_bn254_new sample_nonneg] p] .
  have "\<forall>a si. (a, si) \<in> set (dg_signers g) \<longrightarrow> a = op_Address (si_operator si)" using s by auto
  from bn254_group_weight_within_stake [OF inv ao this] ao ops show ?thesis by auto
qed

section \<open>The certificates\<close>

text \<open>
  What a BN254 certificate holds: the signers of one digest's group were all admitted by the
  aggregator, the non-signers are exactly the operators whose address is not among the signers'
  addresses, ordered by operator index, and all operators are listed in that order.
\<close>

theorem bn254_certificate_contents:
  assumes "bn254_invar tra" "bn254_GenerateFinalCertificate eth lib tra = (Inr cert, tra')"
  shows "\<exists>ao g. bt_aggregatedOperators tra = Some ao \<and> gm_get (ao_digestGroups ao) (bc_TaskResponseDigest cert) = Some g \<and>
    (\<forall>(a, si)\<in>set (dg_signers g). si_operator si \<in> set (bt_Operators tra) \<and> equalFold (op_Address (si_operator si)) a) \<and>
    set (bc_NonSignerOperators cert) = {op \<in> set (bt_Operators tra). op_Address op \<notin> fst ` set (dg_signers g)} \<and>
    sorted (map op_OperatorIndex (bc_NonSignerOperators cert)) \<and>
    mset (bc_SortedOperatorsByIndex cert) = mset (bt_Operators tra) \<and>
    sorted (map op_OperatorIndex (bc_SortedOperatorsByIndex cert)) \<and>
    addSignatures lib None (newZeroG2Point lib) (dg_signers g) = (Some (bc_SignersSignature cert), bc_SignersPublicKey cert)"
  using assms(2)
proof (cases rule: bn254_generate_cases)
  case (1 ao g sig pk)
  with assms(1) have g: "group_ok (bn254_signer tra) (ao_winningDigest ao) g"
    by (auto simp: bn254_invar_def tally_ok_def)
  then have "bc_TaskResponseDigest cert = ao_winningDigest ao" using 1 by (simp add: group_ok_def)
  moreover have "\<forall>(a, si)\<in>set (dg_signers g). si_operator si \<in> set (bt_Operators tra) \<and> equalFold (op_Address (si_operator si)) a"
    using group_ok_mem [OF g] by (auto simp: bn254_signer_def)
  ultimately show ?thesis using 1 by (intro exI [of _ ao] exI [of _ g]) simp
qed

theorem bn254_certificate_contents_witness:
  "\<exists>(tra :: (nat, nat, nat) bn254_aggregator) (cert :: (nat, nat, nat) bn254_certificate) tra'.
     bn254_GenerateFinalCertificate sample_eth sample_bn254 tra = (Inr cert, tra') \<and>
     mset (bc_SortedOperatorsByIndex cert) = mset sample_bn254_operators"
proof -
  from sample_bn254_processed obtain tra ao g where
    p: "bn254_ProcessNewSignature sample_eth sample_bn254 sample_cc sample_bn254_aggregator (sample_result ''0xaa'' 5 [7]) = (None, tra)"
    and ops: "bt_Operators tra = sample_bn254_operators" by auto
  have inv: "bn254_invar tra" using bn254_process_invar [OF bn254_new_invar [OF sample_bn254_new sample_nonneg] p] .
  have "tallyVotes (bt_aggregatedOperators tra) \<noteq> {#}" "hexutilDecode sample_eth (bt_TaskId tra) \<noteq> None"
    using bn254_process_votes [OF bn254_new_invar [OF sample_bn254_new sample_nonneg] p] by (auto simp: sample_eth_def)
  with bn254_generate_ok [OF inv, of sample_eth sample_bn254] obtain cert tra' where
    gen: "bn254_GenerateFinalCertificate sample_eth sample_bn254 tra = (Inr cert, tra')" by blast
  from bn254_certificate_contents [OF inv gen] gen ops show ?thesis by auto
qed

text \<open>
  The signature bytes submitted for an ECDSA certificate are the signers' signatures, 65 bytes
  each, in the order of the signers' addresses; they exist exactly when there is a signer and every
  signature has that length.
\<close>

theorem ecdsa_final_signature:
  assumes "ecdsa_GenerateFinalCertificate eth tra = (Inr cert, tra')"
  shows "(getFinalSignature cert = Inr out \<longleftrightarrow> ec_SignersSignatures cert \<noteq> [] \<and>
      (\<forall>(a, s)\<in>set (ec_SignersSignatures cert). length s = 65) \<and>
      out = concat (map (\<lambda>a. the (gm_get (ec_SignersSignatures cert) a)) (sort (map fst (ec_SignersSignatures cert))))) \<and>
    (getFinalSignature cert = Inr out \<longrightarrow> length out = 65 * length (ec_SignersSignatures cert))"
proof -
  have wf: "gm_wf (ec_SignersSignatures cert)"
    using assms by (auto simp: ecdsa_GenerateFinalCertificate_def signersSignatures_wf split: option.splits if_splits)
  note iff = getFinalSignature_iff [OF wf, of out]
  have "length out = 65 * length (ec_SignersSignatures cert)" if "getFinalSignature cert = Inr out"
  proof -
    let ?f = "\<lambda>a. the (gm_get (ec_SignersSignatures cert) a)"
    have "\<forall>a\<in>set (sort (map fst (ec_SignersSignatures cert))). length (?f a) = 65"
      using that iff wf by (auto simp: gm_mem_iff)
    from length_concat_65 [of "sort (map fst (ec_SignersSignatures cert))" ?f, OF this] that iff show ?thesis by simp
  qed
  with iff show ?thesis by blast
qed

theorem ecdsa_final_signature_witness:
  "\<exists>(tra :: nat ecdsa_aggregator) cert tra'. ecdsa_GenerateFinalCertificate sample_eth tra = (Inr cert, tra') \<and>
     getFinalSignature cert = Inr (replicate 65 3)"
proof -
  define op where "op = sample_operator ''0xaa'' ([5] :: bytes) 60"
  define g :: "(bytes, bytes, bytes, nat) digest_group" where
    "g = \<lparr>dg_signers = [(''0xaa'', \<lparr>si_publicKey = [5], si_signature = replicate 65 3, si_operator = op\<rparr>)],
      dg_response = \<lparr>rr_TaskId = ''0x1'', rr_TaskResult = sample_result ''0xaa'' 5 [7], rr_Signature = 5, rr_OutputDigest = [1]\<rparr>,
      dg_currentWeight = 60\<rparr>"
  define tra where "tra = sample_ecdsa_aggregator\<lparr>et_aggregatedOperators :=
    Some \<lparr>ao_digestGroups = [([1], g)], ao_winningDigest = [1], ao_winningWeight = Some 60\<rparr>\<rparr>"
  obtain cert tra' where gen: "ecdsa_GenerateFinalCertificate sample_eth tra = (Inr cert, tra')"
    and sigs: "ec_SignersSignatures cert = [(getAddress sample_eth op, replicate 65 3)]"
    by (simp add: ecdsa_GenerateFinalCertificate_def tra_def g_def sample_eth_def)
  have "getFinalSignature cert = Inr (replicate 65 3)"
    using ecdsa_final_signature [OF gen, of "replicate 65 3"] by (simp add: sigs)
  with gen show ?thesis by blast
qed

end
