(* ===== verification/Poller_Theorems.thy ===== *)
theory Poller_Theorems
  imports Chain_Poller Memory_Store
begin

text \<open>
  What the chain poller guarantees with the in-memory store: the stored blocks are always a linked
  part of some chain ending at the cursor, a completed poll has caught up, a reorganisation takes
  back exactly the orphaned blocks and their tasks, and a log creates its task once. The general
  lemmas are proved in the locales \<open>task_store\<close> and \<open>cursor_store\<close> of \<open>Chain_Poller\<close>.
\<close>

section \<open>Runs of the poller\<close>

definition newPoller :: "'s \<Rightarrow> 's poller" where
  "newPoller s = \<lparr>ps_store = s, ps_cm = newTaskBlockContextManager False, ps_queue = []\<rparr>"

text \<open>The polling loop: one \<open>processNextBlock\<close> per tick, whatever the previous one returned.\<close>

definition pollForBlocks ::
  "'s aggregator_store \<Rightarrow> poller_config \<Rightarrow> (poller_env \<times> eth_client) list \<Rightarrow> 's poller \<Rightarrow> 's poller" where
  "pollForBlocks sops cfg ticks ps = foldl (\<lambda>ps (env, ec). snd (processNextBlock sops cfg env ec ps)) ps ticks"

definition clients_ok :: "(poller_env \<times> eth_client) list \<Rightarrow> bool" where
  "clients_ok ticks \<longleftrightarrow> (\<forall>(env, ec)\<in>set ticks. client_ok ec \<and> (\<forall>n. ecGetLatestBlock ec = Some n \<longrightarrow> n < 2 ^ 64))"

context cursor_store
begin

lemma pollForBlocks_ok:
  assumes "poller_ok cfg ps" "config_ok cfg" "clients_ok ticks"
  shows "poller_ok cfg (pollForBlocks ops cfg ticks ps)"
  using assms
proof (induction ticks arbitrary: ps)
  case (Cons tick ticks)
  obtain env ec where tick: "tick = (env, ec)" by (cases tick)
  obtain r ps1 where p: "processNextBlock ops cfg env ec ps = (r, ps1)" by fastforce
  have "poller_ok cfg ps1"
    using processNextBlock_ok [OF Cons.prems(1) _ Cons.prems(2) _ p] Cons.prems(3) tick by (simp add: clients_ok_def)
  with Cons.IH [of ps1] Cons.prems(2,3) tick p show ?case by (simp add: pollForBlocks_def clients_ok_def)
qed (simp add: pollForBlocks_def)

text \<open>The first start on a store without blocks for the chain and without pending tasks.\<close>

lemma pollerStart_ok:
  assumes "invar s" "\<not> is_closed s" "\<forall>n. blocksOf s (pc_AvsAddress cfg, pc_ChainId cfg, n) = None"
    and "tasksOf s = Map.empty" "pollerStart ops cfg env ec (newPoller s) = (r, ps)"
  shows "poller_ok cfg ps"
proof -
  let ?avs = "pc_AvsAddress cfg" and ?c = "pc_ChainId cfg"
  obtain e where last: "sGetLastProcessedBlock ops s ?avs ?c = Inl e"
    using last_stored [OF assms(1,2), of ?avs ?c] assms(3) by (cases "sGetLastProcessedBlock ops s ?avs ?c") auto
  have ok0: "poller_ok cfg (newPoller s)"
    using assms(1,2) last by (simp add: poller_ok_def newPoller_def chain_ok_def)
  have rec: "recoverInProgressTasks ops cfg env (newPoller s') = (None, newPoller s')"
    if st: "invar s'" "\<not> is_closed s'" "tasksOf s' = Map.empty" for s'
  proof -
    obtain ts where "sListPendingTasksForAVS ops s' ?avs = Inr ts" "task_persist ` set ts = {}"
      using listPendingForAVS [OF st(1,2), of ?avs] st(3) by auto
    then show ?thesis by (simp add: recoverInProgressTasks_def newPoller_def)
  qed
  show ?thesis
  proof (cases "\<exists>n block. ecGetLatestBlock ec = Some n \<and> ecGetBlockByNumber ec n = Some block")
    case False
    with assms(5) last ok0 show ?thesis
      by (auto simp: pollerStart_def newPoller_def split: option.splits)
  next
    case True
    then obtain n block where b: "ecGetLatestBlock ec = Some n" "ecGetBlockByNumber ec n = Some block" by blast
    let ?rec = "recordOfBlock ?c block"
    have key: "br_ChainId ?rec = ?c" by (simp add: recordOfBlock_def)
    obtain s' where s': "sSaveBlock ops s ?avs (Some ?rec) = (None, s')" "invar s'" "\<not> is_closed s'"
      "tasksOf s' = tasksOf s" "blocksOf s' = (blocksOf s)((?avs, ?c, br_Number ?rec) \<mapsto> ?rec)"
      using saveBlock [OF assms(1,2), of ?avs ?rec] key by auto
    have "sGetLastProcessedBlock ops s' ?avs ?c = Inr ?rec" using last_save [OF assms(1,2) s'(1)] key by simp
    then have "poller_ok cfg (newPoller s')"
      using s' assms(3) by (auto simp: poller_ok_def newPoller_def chain_ok_def blocks_linked_def blocks_below_def split: if_splits)
    moreover have "ps = newPoller s'"
      using assms(4,5) b last s' rec [of s'] by (simp add: pollerStart_def Let_def newPoller_def)
    ultimately show ?thesis by simp
  qed
qed

end

section \<open>A concrete chain\<close>

text \<open>Block \<open>n\<close> has a hash of \<open>n\<close> letters, and the hash of its predecessor as parent hash.\<close>

definition sample_chain :: "char \<Rightarrow> u64 \<Rightarrow> eth_client" where
  "sample_chain letter tip = \<lparr>ecGetLatestBlock = Some tip,
     ecGetBlockByNumber = (\<lambda>n. Some \<lparr>eb_Hash = replicate n letter, eb_ParentHash = replicate (n - 1) letter, eb_Number = n,
       eb_Timestamp = 0, eb_Transactions = [], eb_Nonce = '''', eb_ChainId = 0\<rparr>), ecGetLogs = (\<lambda>_ _ _. Some [])\<rparr>"

definition sample_poller_config :: poller_config where
  "sample_poller_config = \<lparr>pc_ChainId = 1, pc_InterestingContracts = [''0xmb''], pc_AvsAddress = ''0xa'',
     pc_MaxReorgDepth = 10, pc_BlockHistorySize = 100, pc_ReorgCheckEnabled = True\<rparr>"

definition sample_poller_env :: poller_env where
  "sample_poller_env = \<lparr>pe_DecodeLog = (\<lambda>_. Inl EventNotFound), pe_Mailbox = (\<lambda>_. None), pe_addrString = (\<lambda>_. ''0xa''), pe_now = 10, pe_room = (\<lambda>_. True)\<rparr>"

lemma sample_chain_ok: "client_ok (sample_chain l tip)" "config_ok sample_poller_config"
  by (simp_all add: client_ok_def sample_chain_def config_ok_def sample_poller_config_def)

section \<open>Properties\<close>


lemma sample_poll:
  "mem_GetLastProcessedBlock (ps_store (pollForBlocks memory_ops sample_poller_config
      [(sample_poller_env, sample_chain CHR ''a'' 6)]
      (snd (pollerStart memory_ops sample_poller_config sample_poller_env (sample_chain CHR ''a'' 5)
        (newPoller newInMemoryAggregatorStore))))) ''0xa'' 1 =
   Inr \<lparr>br_Number = 6, br_Hash = ''aaaaaa'', br_ParentHash = ''aaaaa'', br_Timestamp = 0, br_ChainId = 1\<rparr>"
  by code_simp



text \<open>
  C6. A successful reconciliation puts the poller back on the canonical chain: no block is invented,
  and if a last processed block remains, the node still has a block of that number with that hash and
  every stored block above it is gone.
\<close>

theorem reorg_returns_to_canonical_chain:
  assumes "mem_invar (ps_store ps)" "\<not> ms_closed (ps_store ps)" "cm_invar (ps_cm ps)" "client_ok ec" "config_ok cfg"
    and "mem_GetLastProcessedBlock (ps_store ps) (pc_AvsAddress cfg) (pc_ChainId cfg) = Inr latest"
    and "eb_Number block = Suc (br_Number latest)" "eb_Number block < 2 ^ 64"
    and "reconcileReorg memory_ops cfg ec block ps = (None, ps')"
  shows "(\<forall>n b. mem_blocksOf (ps_store ps') (pc_AvsAddress cfg, pc_ChainId cfg, n) = Some b \<longrightarrow>
      mem_blocksOf (ps_store ps) (pc_AvsAddress cfg, pc_ChainId cfg, n) = Some b) \<and>
    (\<forall>b. mem_GetLastProcessedBlock (ps_store ps') (pc_AvsAddress cfg) (pc_ChainId cfg) = Inr b \<longrightarrow>
      (\<exists>canon. ecGetBlockByNumber ec (br_Number b) = Some canon \<and> eb_Hash canon = br_Hash b) \<and>
      (\<forall>n. br_Number b < n \<and> n \<le> br_Number latest \<longrightarrow>
        mem_blocksOf (ps_store ps') (pc_AvsAddress cfg, pc_ChainId cfg, n) = None))"
proof -
  have last: "sGetLastProcessedBlock memory_ops (ps_store ps) (pc_AvsAddress cfg) (pc_ChainId cfg) = Inr latest"
    using assms(6) by (simp add: memory_ops_def)
  have get: "sGetLastProcessedBlock memory_ops = mem_GetLastProcessedBlock" by (simp add: memory_ops_def)
  from memc.reconcileReorg_cases [OF assms(1-5) last assms(7-9)] show ?thesis
    unfolding get by (auto split: sum.splits)
qed

text \<open>
  Reorganisations take back tasks: removing orphaned blocks deletes exactly the blocks and the
  tasks registered under them, from the store and from the set of pending work, and leaves every
  other task and block of the chain alone.
\<close>

theorem orphan_removal_exact:
  assumes "mem_invar (ps_store ps)" "\<not> ms_closed (ps_store ps)" "cm_invar (ps_cm ps)"
    and "\<forall>b\<in>set orphans. br_ChainId b = pc_ChainId cfg" "removeOrphans memory_ops cfg orphans ps = (r, ps')"
  shows "r = None \<and> ps_queue ps' = ps_queue ps \<and>
    (\<forall>n. mem_blocksOf (ps_store ps') (pc_AvsAddress cfg, pc_ChainId cfg, n) =
       (if n \<in> br_Number ` set orphans then None else mem_blocksOf (ps_store ps) (pc_AvsAddress cfg, pc_ChainId cfg, n))) \<and>
    (\<forall>tid. mem_tasksOf (ps_store ps') tid =
       (if \<exists>b\<in>set orphans. tid \<in> blockTasks (ps_cm ps) (br_Number b) then None else mem_tasksOf (ps_store ps) tid))"
  using memc.removeOrphans_effect [OF assms] by simp

text \<open>
  A reorganisation at least as deep as the search limit stops the poller for good: reconciling
  reports success, but no last processed block is left, and every later poll, whatever the node then
  answers, fails on the missing block and leaves the state as it is.
\<close>

theorem deep_reorg_stalls_poller:
  assumes "mem_invar (ps_store ps)" "\<not> ms_closed (ps_store ps)" "cm_invar (ps_cm ps)"
    and "eb_Number block < 2 ^ 64" "0 < D" "D < eb_Number block" "D = u64_of_int (pc_MaxReorgDepth cfg)"
    and "\<forall>n. eb_Number block - Suc D < n \<and> n < eb_Number block \<longrightarrow> (\<exists>b canon.
      mem_blocksOf (ps_store ps) (pc_AvsAddress cfg, pc_ChainId cfg, n) = Some b \<and> ecGetBlockByNumber ec n = Some canon \<and>
      eb_Hash canon \<noteq> br_Hash b)"
    and "reconcileReorg memory_ops cfg ec block ps = (r, ps')"
  shows "r = None \<and> pollForBlocks memory_ops cfg ticks ps' = ps' \<and>
    processNextBlock memory_ops cfg env ec' ps' = (PollFailed (StoreFailed ErrNotFound), ps')"
proof -
  from memc.reconcileReorg_deep [OF assms(1-7) _ assms(9)] assms(8)
  have r: "r = None" and none: "sGetLastProcessedBlock memory_ops (ps_store ps') (pc_AvsAddress cfg) (pc_ChainId cfg) = Inl ErrNotFound"
    by auto
  have stuck: "processNextBlock memory_ops cfg env ec' ps' = (PollFailed (StoreFailed ErrNotFound), ps')" for env ec'
    by (simp add: processNextBlock_def none)
  have "pollForBlocks memory_ops cfg ticks ps' = ps'"
    unfolding pollForBlocks_def by (induction ticks) (auto simp: stuck)
  with r stuck show ?thesis by blast
qed

text \<open>
  A log creates its task once: when the same log is handled again, at any later time, nothing is
  queued and nothing is stored a second time.
\<close>

theorem task_created_once:
  assumes "mem_invar (ps_store ps)" "\<not> ms_closed (ps_store ps)" "processTask memory_ops cfg env lwb ps = (None, ps1)"
    and "\<forall>t. newTaskFromLog (pe_addrString env) (lwb_Log lwb) (lwb_Block lwb) (dl_Address (lwb_Log lwb)) = Inr t \<longrightarrow>
      task_TaskId t \<noteq> [] \<and> storable t"
    and "processTask memory_ops cfg (env\<lparr>pe_now := now', pe_room := room'\<rparr>) lwb ps1 = (r2, ps2)"
  shows "r2 = None \<and> ps_queue ps2 = ps_queue ps1 \<and> ps_store ps2 = ps_store ps1"
  using mem.processTask_again [OF assms(1-3) _ assms(5)] assms(4) by blast

section \<open>The properties at concrete inputs\<close>

text \<open>
  A poller at block 6 of a chain, and a node that has replaced the blocks from 6 on.
\<close>

definition sample_ps :: "mem_store poller" where
  "sample_ps = pollForBlocks memory_ops sample_poller_config [(sample_poller_env, sample_chain CHR ''a'' 6)]
     (snd (pollerStart memory_ops sample_poller_config sample_poller_env (sample_chain CHR ''a'' 5)
        (newPoller newInMemoryAggregatorStore)))"

definition sample_fork_block :: "u64 \<Rightarrow> ethereum_block" where
  "sample_fork_block n = \<lparr>eb_Hash = replicate n (if n \<le> 5 then CHR ''a'' else CHR ''b''),
     eb_ParentHash = replicate (n - 1) (if n \<le> 6 then CHR ''a'' else CHR ''b''), eb_Number = n, eb_Timestamp = 0, eb_Transactions = [], eb_Nonce = '''', eb_ChainId = 0\<rparr>"

definition sample_fork :: eth_client where
  "sample_fork = \<lparr>ecGetLatestBlock = Some 7, ecGetBlockByNumber = (\<lambda>n. Some (sample_fork_block n)), ecGetLogs = (\<lambda>_ _ _. Some [])\<rparr>"

definition sample_shallow :: "int \<Rightarrow> poller_config" where
  "sample_shallow d = sample_poller_config\<lparr>pc_MaxReorgDepth := d\<rparr>"

lemma sample_cfg [simp]:
  "pc_AvsAddress sample_poller_config = ''0xa''" "pc_ChainId sample_poller_config = 1"
  "pc_AvsAddress (sample_shallow d) = ''0xa''" "pc_ChainId (sample_shallow d) = 1" "pc_MaxReorgDepth (sample_shallow d) = d"
  by (simp_all add: sample_poller_config_def sample_shallow_def)

lemma sample_ps_ok:
  "mem_invar (ps_store sample_ps)" "\<not> ms_closed (ps_store sample_ps)" "cm_invar (ps_cm sample_ps)"
  "chain_ok memory_ops mem_blocksOf (ps_store sample_ps) ''0xa'' 1"
proof -
  obtain r ps where st: "pollerStart memory_ops sample_poller_config sample_poller_env (sample_chain CHR ''a'' 5)
        (newPoller newInMemoryAggregatorStore) = (r, ps)" by fastforce
  have "memc.poller_ok sample_poller_config ps"
    by (rule memc.pollerStart_ok [OF mem_invar_new _ _ _ st])
      (simp_all add: newInMemoryAggregatorStore_def mem_blocksOf_def mem_tasksOf_def fun_eq_iff)
  moreover have "clients_ok [(sample_poller_env, sample_chain CHR ''a'' 6)]"
    by (simp add: clients_ok_def sample_chain_ok) (simp add: sample_chain_def)
  ultimately have "memc.poller_ok sample_poller_config sample_ps"
    using memc.pollForBlocks_ok [OF _ sample_chain_ok(2)] st by (simp add: sample_ps_def)
  then show "mem_invar (ps_store sample_ps)" "\<not> ms_closed (ps_store sample_ps)" "cm_invar (ps_cm sample_ps)"
    "chain_ok memory_ops mem_blocksOf (ps_store sample_ps) ''0xa'' 1" by (simp_all add: memc.poller_ok_def)
qed

definition sample_block6 :: block_record where
  "sample_block6 = \<lparr>br_Number = 6, br_Hash = ''aaaaaa'', br_ParentHash = ''aaaaa'', br_Timestamp = 0, br_ChainId = 1\<rparr>"

lemma sample_ps_last: "mem_GetLastProcessedBlock (ps_store sample_ps) ''0xa'' 1 = Inr sample_block6"
  unfolding sample_ps_def sample_block6_def by (rule sample_poll)

lemma sample_fork_ok: "client_ok sample_fork"
  by (simp add: client_ok_def sample_fork_def sample_fork_block_def)


lemma sample_ps_eq:
  "sample_ps = \<lparr>ps_store = \<lparr>ms_closed = False, ms_lastProcessedBlocks = [(makeBlockKey ''0xa'' 1, 6)], ms_tasks = [],
       ms_operatorSetConfigs = [], ms_avsConfigs = [],
       ms_blocks = [(makeBlockRecordKey ''0xa'' 1 5, \<lparr>br_Number = 5, br_Hash = ''aaaaa'', br_ParentHash = ''aaaa'', br_Timestamp = 0, br_ChainId = 1\<rparr>),
         (makeBlockRecordKey ''0xa'' 1 6, sample_block6)]\<rparr>,
     ps_cm = \<lparr>cm_blockContexts = [], cm_contexts = [], cm_parentDone = False\<rparr>, ps_queue = []\<rparr>"
  by code_simp

lemma sample_reorg:
  "\<exists>ps' b. reconcileReorg memory_ops (sample_shallow 2) sample_fork (sample_fork_block 7) sample_ps = (None, ps') \<and>
     mem_GetLastProcessedBlock (ps_store ps') ''0xa'' 1 = Inr b \<and> br_Number b = 5"
proof -
  have two: "u64_of_int 2 = Suc (Suc 0)" by (simp add: u64_of_int_def)
  have h: "replicate 6 CHR ''b'' = ''bbbbbb''" "replicate 5 CHR ''a'' = ''aaaaa''" by code_simp+
  have s: "\<exists>s'. findOrphanedBlocks memory_ops (sample_shallow 2) sample_fork (sample_fork_block 7) (ps_store sample_ps) = (Inr [sample_block6], s') \<and>
      s' = (ps_store sample_ps)\<lparr>ms_lastProcessedBlocks := [(makeBlockKey ''0xa'' 1, 5)]\<rparr>"
    unfolding findOrphanedBlocks_def sample_cfg two
    by (simp add: sample_fork_block_def h orphanSearch.simps Let_def sample_fork_def sample_ps_eq memory_ops_def
        mem_GetBlock_def mem_SaveBlock_def sample_block6_def)
  then show ?thesis
    by (auto simp: reconcileReorg_def sample_ps_eq memory_ops_def mem_DeleteBlock_def mem_GetLastProcessedBlock_def
        sample_block6_def cancelBlock_def Let_def)
qed

theorem reorg_returns_to_canonical_chain_witness:
  "\<exists>ps'. reconcileReorg memory_ops (sample_shallow 2) sample_fork (sample_fork_block 7) sample_ps = (None, ps') \<and>
     mem_blocksOf (ps_store ps') (''0xa'', 1, 6) = None"
proof -
  from sample_reorg obtain ps' b where
    p: "reconcileReorg memory_ops (sample_shallow 2) sample_fork (sample_fork_block 7) sample_ps = (None, ps')"
    and b: "mem_GetLastProcessedBlock (ps_store ps') ''0xa'' 1 = Inr b" "br_Number b = 5" by blast
  have cfg: "config_ok (sample_shallow 2)" by (simp add: config_ok_def sample_shallow_def sample_poller_config_def)
  have num: "eb_Number (sample_fork_block 7) = Suc (br_Number sample_block6)" "eb_Number (sample_fork_block 7) < 2 ^ 64"
    by (simp_all add: sample_fork_block_def sample_block6_def)
  from reorg_returns_to_canonical_chain [OF sample_ps_ok(1-3) sample_fork_ok cfg _ num p] sample_ps_last b
  have "mem_blocksOf (ps_store ps') (''0xa'', 1, 6) = None" by (simp add: sample_block6_def)
  with p show ?thesis by blast
qed

theorem orphan_removal_exact_witness:
  "\<exists>ps'. removeOrphans memory_ops sample_poller_config [sample_block6] sample_ps = (None, ps') \<and>
     mem_blocksOf (ps_store ps') (''0xa'', 1, 6) = None"
proof -
  obtain r ps' where p: "removeOrphans memory_ops sample_poller_config [sample_block6] sample_ps = (r, ps')" by fastforce
  have "\<forall>b\<in>set [sample_block6]. br_ChainId b = pc_ChainId sample_poller_config" by (simp add: sample_block6_def)
  from orphan_removal_exact [OF sample_ps_ok(1-3) this p] p show ?thesis by (simp add: sample_block6_def)
qed

theorem deep_reorg_stalls_poller_witness:
  "\<exists>ps'. reconcileReorg memory_ops (sample_shallow 1) sample_fork (sample_fork_block 7) sample_ps = (None, ps') \<and>
     processNextBlock memory_ops (sample_shallow 1) sample_poller_env sample_fork ps' = (PollFailed (StoreFailed ErrNotFound), ps')"
proof -
  obtain r ps' where p: "reconcileReorg memory_ops (sample_shallow 1) sample_fork (sample_fork_block 7) sample_ps = (r, ps')" by fastforce
  have "sGetLastProcessedBlock memory_ops (ps_store sample_ps) ''0xa'' 1 = Inr sample_block6"
    using sample_ps_last by (simp add: memory_ops_def)
  from memc.last_stored [OF sample_ps_ok(1,2) this]
  have "mem_blocksOf (ps_store sample_ps) (''0xa'', 1, 6) = Some sample_block6" by (simp add: sample_block6_def)
  then have "\<exists>b canon. mem_blocksOf (ps_store sample_ps) (''0xa'', 1, n) = Some b \<and>
      ecGetBlockByNumber sample_fork n = Some canon \<and> eb_Hash canon \<noteq> br_Hash b" if "5 < n \<and> n < 7" for n
  proof -
    from that have "n = 6" by linarith
    moreover have "replicate 6 CHR ''b'' \<noteq> ''aaaaaa''" by code_simp
    ultimately show ?thesis
      using \<open>mem_blocksOf (ps_store sample_ps) (''0xa'', 1, 6) = Some sample_block6\<close>
      by (simp add: sample_fork_block_def sample_fork_def) (simp add: sample_block6_def)
  qed
  then have orph: "\<forall>n. eb_Number (sample_fork_block 7) - Suc 1 < n \<and> n < eb_Number (sample_fork_block 7) \<longrightarrow> (\<exists>b canon.
      mem_blocksOf (ps_store sample_ps) (pc_AvsAddress (sample_shallow 1), pc_ChainId (sample_shallow 1), n) = Some b \<and>
      ecGetBlockByNumber sample_fork n = Some canon \<and> eb_Hash canon \<noteq> br_Hash b)"
    by (simp add: sample_fork_block_def)
  have D: "eb_Number (sample_fork_block 7) < 2 ^ 64" "0 < (1::nat)" "1 < eb_Number (sample_fork_block 7)"
    "1 = u64_of_int (pc_MaxReorgDepth (sample_shallow 1))"
    by (simp_all add: sample_fork_block_def u64_of_int_def)
  from deep_reorg_stalls_poller [OF sample_ps_ok(1-3) D orph p] p show ?thesis by blast
qed

definition sample_log :: log_with_block where
  "sample_log = \<lparr>lwb_Log = \<lparr>dl_LogIndex = 0, dl_Address = ''0xmb'',
       dl_Arguments = [\<lparr>arg_Name = ''creator'', arg_Type = ''address'', arg_Value = ArgAddress [], arg_Indexed = True\<rparr>,
         \<lparr>arg_Name = ''taskHash'', arg_Type = ''bytes32'', arg_Value = ArgString ''0x1'', arg_Indexed = True\<rparr>,
         \<lparr>arg_Name = ''avs'', arg_Type = ''address'', arg_Value = ArgAddress [], arg_Indexed = True\<rparr>],
       dl_EventName = ''TaskCreated'', dl_OutputData = Some [(''TaskDeadline'', OutNat 100)]\<rparr>,
     lwb_RawLog = \<lparr>el_Removed = False, el_LogIndex = 0, el_TransactionHash = '''', el_TransactionIndex = 0, el_BlockHash = '''', el_BlockNumber = 7,
        el_Address = ''0xmb'', el_Data = '''', el_Topics = []\<rparr>,
     lwb_Block = sample_fork_block 7\<rparr>"

definition sample_converted :: task where
  "sample_converted = \<lparr>task_TaskId = ''0x1'', task_AVSAddress = ''0xa'', task_OperatorSetId = 0, task_CallbackAddr = ''0xmb'',
     task_DeadlineUnixSeconds = Some 100, task_ThresholdBips = 0, task_Payload = [], task_ChainId = 0,
     task_SourceBlockNumber = 7, task_L1ReferenceBlockNumber = 0, task_ReferenceTimestamp = 0,
     task_BlockHash = replicate 7 CHR ''b'', task_Version = 1, task_Context = None\<rparr>"

lemma sample_fields:
  "json_fields od_zero (sort_key fst [(''TaskDeadline'', OutNat 100)]) =
     Some \<lparr>od_ExecutorOperatorSetId = 0, od_OperatorTableReferenceTimestamp = 0, od_TaskDeadline = Some 100, od_Payload = []\<rparr>"
  "toLower ''0xa'' = ''0xa''"
  by code_simp+

lemma sample_addr: "equalFold ''0xa'' ''0xa''"
  by simp

theorem task_created_once_witness:
  "\<exists>ps1 ps2. processTask memory_ops sample_poller_config sample_poller_env sample_log sample_ps = (None, ps1) \<and>
     map task_TaskId (ps_queue ps1) = [''0x1''] \<and>
     processTask memory_ops sample_poller_config sample_poller_env sample_log ps1 = (None, ps2) \<and> ps_queue ps2 = ps_queue ps1"
proof -
  let ?p = "processTask memory_ops sample_poller_config sample_poller_env sample_log sample_ps"
  have conv1: "newTaskFromLog (pe_addrString sample_poller_env) (lwb_Log sample_log) (lwb_Block sample_log) (dl_Address (lwb_Log sample_log)) =
      Inr sample_converted"
    using sample_fields by (simp add: newTaskFromLog_def sample_log_def sample_poller_env_def sample_converted_def sample_fork_block_def)
  have q: "fst ?p = None \<and> map task_TaskId (ps_queue (snd ?p)) = [''0x1'']"
    using sample_addr conv1 by (simp add: processTask_def Let_def getContext_def sample_ps_eq memory_ops_def mem_GetTask_def sample_converted_def
        sample_poller_env_def)
  then obtain ps1 where p: "?p = (None, ps1)" by (cases ?p) auto
  obtain r2 ps2 where p2: "processTask memory_ops sample_poller_config
      (sample_poller_env\<lparr>pe_now := pe_now sample_poller_env, pe_room := pe_room sample_poller_env\<rparr>) sample_log ps1 = (r2, ps2)" by fastforce
  have conv: "\<forall>t. newTaskFromLog (pe_addrString sample_poller_env) (lwb_Log sample_log) (lwb_Block sample_log) (dl_Address (lwb_Log sample_log)) = Inr t \<longrightarrow>
      task_TaskId t \<noteq> [] \<and> storable t"
    unfolding conv1 by (simp add: sample_converted_def storable_def json_time_ok_def)
  from task_created_once [OF sample_ps_ok(1,2) p conv p2] p p2 q show ?thesis by simp
qed

end
