(* ===== verification/Execution_Theorems.thy ===== *)
theory Execution_Theorems
  imports Execution_Manager Session_Theorems
begin

text \<open>
  A task from the queue to its final status, across the operator manager, the task session, the
  result aggregators, the execution manager and the store: who is asked, what their stake counts,
  and what a completed or failed task means.
\<close>

section \<open>The operators of a session\<close>

lemma sessionOperators_Inr:
  assumes "sessionOperators key i ws peers = Inr opers"
  shows "map op_Address opers = map opi_OperatorAddress peers \<and>
    (\<forall>op\<in>set opers. op_Weights op = (case gm_get ws (op_Address op) of None \<Rightarrow> [] | Some w \<Rightarrow> w)) \<and>
    (\<forall>p\<in>set peers. includesOperatorSetId p i)"
  using assms
proof (induction key i ws peers arbitrary: opers rule: sessionOperators.induct)
  case (2 key i ws peer peers)
  then show ?case by (auto simp: includes_iff_get split: option.splits sum.splits)
qed simp

lemma sessionOperators_ok:
  "(\<exists>opers. sessionOperators key i ws peers = Inr opers) \<longleftrightarrow> (\<forall>p\<in>set peers. includesOperatorSetId p i)"
  by (induction key i ws peers rule: sessionOperators.induct) (auto simp: includes_iff_get split: option.splits sum.splits)

definition weights_nonneg :: "(string \<times> int list) list \<Rightarrow> bool" where
  "weights_nonneg ws \<longleftrightarrow> (\<forall>a w. gm_get ws a = Some w \<longrightarrow> (\<forall>x\<in>set w. 0 \<le> x))"

lemma session_weights_nonneg:
  assumes "sessionOperators key i ws peers = Inr opers" "weights_nonneg ws"
  shows "\<forall>op\<in>set opers. 0 \<le> firstWeight op"
  using sessionOperators_Inr [OF assms(1)] assms(2)
  by (auto simp: firstWeight_def weights_nonneg_def split: option.splits)

section \<open>What the select of a task can see\<close>

text \<open>
  The goroutine of a task reports what comes out of the session's \<open>Process\<close> on the certificates of the
  broadcast loop; the \<open>select\<close> picks its report or the end of the task's context.
\<close>

definition bn254Selects ::
  "eth_common \<Rightarrow> ('pub, 'sig, 'g2, 'k) bn254_lib \<Rightarrow> cert_caller \<Rightarrow> (('sig, 'g2) bn254_params \<Rightarrow> bool) \<Rightarrow> session_event list \<Rightarrow>
     ctx_error option \<Rightarrow> ('k, ('pub, 'sig, 'k) bn254_aggregator) task_session \<Rightarrow> task_select \<Rightarrow> bool" where
  "bn254Selects eth lib cc submit events ctxErr ts sel \<longleftrightarrow>
     (case sel of SelTaskContextDone c \<Rightarrow> True
      | _ \<Rightarrow> (\<exists>r\<in>set (sessionProcess (fst (broadcastLoop (bn254_ops eth lib cc) (task_TaskId (ts_Task ts)) events (ts_taskAggregator ts))) ctxErr).
                bn254Goroutine lib submit r = Some sel))"

definition ecdsaSelects ::
  "eth_common \<Rightarrow> 'sig ecdsa_lib \<Rightarrow> cert_caller \<Rightarrow> (ecdsa_params \<Rightarrow> bool) \<Rightarrow> session_event list \<Rightarrow>
     ctx_error option \<Rightarrow> ('k, 'sig ecdsa_aggregator) task_session \<Rightarrow> task_select \<Rightarrow> bool" where
  "ecdsaSelects eth lib cc submit events ctxErr ts sel \<longleftrightarrow>
     (case sel of SelTaskContextDone c \<Rightarrow> True
      | _ \<Rightarrow> (\<exists>r\<in>set (sessionProcess (fst (broadcastLoop (ecdsa_ops eth lib cc) (task_TaskId (ts_Task ts)) events (ts_taskAggregator ts))) ctxErr).
                ecdsaGoroutine submit r = sel))"

lemma sessionProcess_Inr: "Inr cert \<in> set (sessionProcess b c) \<Longrightarrow> b = Some (Inr cert)"
  by (auto simp: sessionProcess_def split: option.splits sum.splits)

lemma bn254Selects_done:
  assumes "bn254Selects eth lib cc submit events ctxErr ts SelDone"
  obtains cert params where
    "fst (broadcastLoop (bn254_ops eth lib cc) (task_TaskId (ts_Task ts)) events (ts_taskAggregator ts)) = Some (Inr cert)"
    "bn254_ToSubmitParams lib cert = Some params" "submit params"
proof -
  from assms obtain r where
    r: "r \<in> set (sessionProcess (fst (broadcastLoop (bn254_ops eth lib cc) (task_TaskId (ts_Task ts)) events (ts_taskAggregator ts))) ctxErr)"
    "bn254Goroutine lib submit r = Some SelDone" by (auto simp: bn254Selects_def)
  then obtain cert params where "r = Inr cert" "bn254_ToSubmitParams lib cert = Some params" "submit params"
    by (auto simp: bn254Goroutine_def split: sum.splits option.splits if_splits)
  with r(1) that show thesis by (blast dest: sessionProcess_Inr)
qed

lemma ecdsaSelects_done:
  assumes "ecdsaSelects eth lib cc submit events ctxErr ts SelDone"
  obtains cert where
    "fst (broadcastLoop (ecdsa_ops eth lib cc) (task_TaskId (ts_Task ts)) events (ts_taskAggregator ts)) = Some (Inr cert)"
    "submit (ecdsa_ToSubmitParams cert)"
proof -
  from assms obtain r where
    r: "r \<in> set (sessionProcess (fst (broadcastLoop (ecdsa_ops eth lib cc) (task_TaskId (ts_Task ts)) events (ts_taskAggregator ts))) ctxErr)"
    "ecdsaGoroutine submit r = SelDone" by (auto simp: ecdsaSelects_def)
  then obtain cert where "r = Inr cert" "submit (ecdsa_ToSubmitParams cert)"
    by (auto simp: ecdsaGoroutine_def split: sum.splits if_splits)
  with r(1) that show thesis by (blast dest: sessionProcess_Inr)
qed

text \<open>A quorum of valid responses behind an accepted submission, per curve.\<close>

definition bn254Settled ::
  "eth_common \<Rightarrow> ('pub, 'sig, 'g2, 'k) bn254_lib \<Rightarrow> cert_caller \<Rightarrow> (('sig, 'g2) bn254_params \<Rightarrow> bool) \<Rightarrow> session_event list \<Rightarrow> bool" where
  "bn254Settled eth lib cc submit events \<longleftrightarrow>
     (\<exists>(tra :: ('pub, 'sig, 'k) bn254_aggregator) cert params rs. bn254_ToSubmitParams lib cert = Some params \<and> submit params \<and>
       distinct (map (\<lambda>r. tr_OperatorAddress (fst r)) rs) \<and>
       (\<forall>(tr, w)\<in>set rs. tr \<in> collected events \<and> bn254_valid eth lib cc tra tr w (bc_TaskResponseDigest cert)) \<and>
       quorum (totalStake (bt_Operators tra) 0) (bt_ThresholdBips tra) (\<Sum>(tr, w)\<leftarrow>rs. w))"

definition ecdsaSettled ::
  "eth_common \<Rightarrow> 'sig ecdsa_lib \<Rightarrow> cert_caller \<Rightarrow> (ecdsa_params \<Rightarrow> bool) \<Rightarrow> session_event list \<Rightarrow> bool" where
  "ecdsaSettled eth lib cc submit events \<longleftrightarrow>
     (\<exists>(tra :: 'sig ecdsa_aggregator) cert rs. submit (ecdsa_ToSubmitParams cert) \<and>
       distinct (map (\<lambda>r. tr_OperatorAddress (fst r)) rs) \<and>
       (\<forall>(tr, w)\<in>set rs. tr \<in> collected events \<and> ecdsa_valid eth lib cc tra tr w (ec_TaskResponseDigest cert)) \<and>
       quorum (totalStake (et_Operators tra) 0) (et_ThresholdBips tra) (\<Sum>(tr, w)\<leftarrow>rs. w))"

lemma bn254_done_settled:
  assumes "newBN254TaskSession lib task agg pw tls = Inr ts" "weights_nonneg (pw_Weights pw)"
    and "bn254Selects eth lib cc submit events ctxErr ts SelDone"
  shows "bn254Settled eth lib cc submit events"
proof -
  from assms(1) obtain opers where so: "sessionOperators (\<lambda>os. wpk_PublicKey (os_WrappedPublicKey os)) (task_OperatorSetId task)
      (pw_Weights pw) (pw_Operators pw) = Inr opers"
    and new: "newBN254TaskResultAggregator lib (task_TaskId task) (task_ReferenceTimestamp task) (task_OperatorSetId task)
      (task_ThresholdBips task) (task_Payload task) (task_DeadlineUnixSeconds task) opers = Inr (ts_taskAggregator ts)"
    by (auto simp: newBN254TaskSession_def split: sum.splits)
  from assms(3) obtain cert params where
    c: "fst (broadcastLoop (bn254_ops eth lib cc) (task_TaskId (ts_Task ts)) events (ts_taskAggregator ts)) = Some (Inr cert)"
    "bn254_ToSubmitParams lib cert = Some params" "submit params" by (rule bn254Selects_done)
  note inv = bn254_new_invar [OF new session_weights_nonneg [OF so assms(2)]]
  from c(1) obtain tra' where "broadcastLoop (bn254_ops eth lib cc) (task_TaskId (ts_Task ts)) events (ts_taskAggregator ts) = (Some (Inr cert), tra')"
    by (metis prod.collapse)
  from bn.certificate_backed [OF inv bn254_new_fields(4) [OF new] this] c(2,3) show ?thesis
    unfolding bn254Settled_def by blast
qed

lemma ecdsa_done_settled:
  assumes "newECDSATaskSession task agg pw tls = Inr ts" "weights_nonneg (pw_Weights pw)"
    and "ecdsaSelects eth lib cc submit events ctxErr ts SelDone"
  shows "ecdsaSettled eth lib cc submit events"
proof -
  from assms(1) obtain opers where so: "sessionOperators (\<lambda>os. wpk_ECDSAAddress (os_WrappedPublicKey os)) (task_OperatorSetId task)
      (pw_Weights pw) (pw_Operators pw) = Inr opers"
    and new: "newECDSATaskResultAggregator (task_TaskId task) (task_ReferenceTimestamp task) (task_OperatorSetId task)
      (task_ThresholdBips task) (task_Payload task) (task_DeadlineUnixSeconds task) opers = Inr (ts_taskAggregator ts)"
    by (auto simp: newECDSATaskSession_def split: sum.splits)
  from assms(3) obtain cert where
    c: "fst (broadcastLoop (ecdsa_ops eth lib cc) (task_TaskId (ts_Task ts)) events (ts_taskAggregator ts)) = Some (Inr cert)"
    "submit (ecdsa_ToSubmitParams cert)" by (rule ecdsaSelects_done)
  note inv = ecdsa_new_invar [OF new session_weights_nonneg [OF so assms(2)]]
  from c(1) obtain tra' where "broadcastLoop (ecdsa_ops eth lib cc) (task_TaskId (ts_Task ts)) events (ts_taskAggregator ts) = (Some (Inr cert), tra')"
    by (metis prod.collapse)
  from ec.certificate_backed [OF inv ecdsa_new_fields(4) [OF new] this] c(2) show ?thesis
    unfolding ecdsaSettled_def by blast
qed

section \<open>Properties\<close>


text \<open>
  Handling a pending task never leaves it pending: it ends as completed (and then without an
  error), as failed (only when the session, the submission or the deadline failed), or still as
  processing; the task itself is not altered.
\<close>

theorem handled_task_leaves_pending:
  assumes "mem_invar (em_store em)" "\<not> ms_closed (em_store em)"
    and "mem_tasksOf (em_store em) (task_TaskId task) = Some (t, TaskStatusPending)"
    and "task_Context task \<noteq> None" "gm_get (em_inflightTasks em) (task_TaskId task) = None"
    and "handleTask eth lib memory_ops now selB selE task em = (e, em')"
  shows "\<exists>st. mem_tasksOf (em_store em') (task_TaskId task) = Some (t, st) \<and>
    (st = TaskStatusCompleted \<and> e = None \<or>
     st = TaskStatusFailed \<and> (e = Some TaskFailed \<or> e = Some ContextDeadline) \<or> st = TaskStatusProcessing)"
  using mem.handleTask_status [OF assms] by blast

text \<open>
  A task whose own context ends before its session reports is lost: the code then asks the
  manager's context for the reason, finds none and returns without an error; the task keeps the
  status processing and stays registered as in flight, so that every later attempt is refused.
\<close>

theorem context_end_leaks_task:
  assumes "mem_invar (em_store em)" "\<not> ms_closed (em_store em)"
    and "mem_tasksOf (em_store em) (task_TaskId task) = Some (t, TaskStatusProcessing)" "task_Context task \<noteq> None"
  shows "\<exists>em'. processBN254Task memory_ops now task (SelTaskContextDone None) em = (None, em') \<and>
      processECDSATask memory_ops now task (SelTaskContextDone None) em = (None, em') \<and>
      mem_tasksOf (em_store em') (task_TaskId task) = Some (t, TaskStatusProcessing) \<and>
      handleTask eth lib memory_ops now' selB selE task em' = (Some AlreadyInFlight, em')"
proof -
  let ?em' = "storeInflight (task_TaskId task) em"
  have "processBN254Task memory_ops now task (SelTaskContextDone None) em = (None, ?em')"
    "processECDSATask memory_ops now task (SelTaskContextDone None) em = (None, ?em')"
    using assms(4) by (auto simp: processBN254Task_def processECDSATask_def Let_def)
  moreover have "handleTask eth lib memory_ops now' selB selE task ?em' = (Some AlreadyInFlight, ?em')"
    by (simp add: handleTask_def)
  ultimately show ?thesis using assms(3) by (intro exI [of _ ?em']) simp
qed

section \<open>The properties at concrete inputs\<close>

text \<open>An L1 chain with an ECDSA operator set of two operators with stakes 60 and 40.\<close>

definition sample_xcaller :: exec_caller where
  "sample_xcaller = \<lparr>tc_GetOperatorSetCurveType = (\<lambda>_ _ _. Some CurveTypeECDSA), tc_GetSupportedChainsForMultichain = (\<lambda>_. None),
     tc_GetTableUpdaterReferenceTimeAndBlock = (\<lambda>_ _. None),
     tc_GetOperatorTableData = (\<lambda>_ _ _ _. Some \<lparr>otd_OperatorWeights = [[60], [40]], otd_Operators = [stringBytes ''0xaa'', stringBytes ''0xbb''],
        otd_LatestReferenceTimestamp = 9, otd_LatestReferenceBlockNumber = 5, otd_OperatorInfoTreeRoot = [], otd_OperatorInfos = []\<rparr>),
     tc_GetOperatorInfos = (\<lambda>_ _ _. None), tc_GetOperatorInfoTreeRoot = (\<lambda>_ _ _ _. None),
     xc_GetExecutorOperatorSetTaskConfig = (\<lambda>_ _ _. Some \<lparr>mtc_TaskSLA = 0, mtc_CurveType = 1, mtc_ConsensusType = 1,
        mtc_ConsensusValue = abiEncodeUint16 6000, mtc_TaskMetadata = []\<rparr>),
     xc_GetAVSConfig = (\<lambda>_ _. Some (0, [1]))\<rparr>"

definition sample_peer :: "string \<Rightarrow> bytes \<Rightarrow> nat operator_peer_info" where
  "sample_peer addr key = \<lparr>opi_OperatorAddress = addr, opi_OperatorSets = [\<lparr>os_OperatorSetID = 1, os_OperatorIndex = 0,
     os_WrappedPublicKey = \<lparr>wpk_PublicKey = None, wpk_ECDSAAddress = key\<rparr>, os_NetworkAddress = ''sock'', os_CurveType = CurveTypeECDSA\<rparr>]\<rparr>"

definition sample_om :: "nat operator_manager" where
  "sample_om = \<lparr>om_config = \<lparr>omc_AvsAddress = ''0xa'', omc_ChainIds = [1], omc_L1ChainId = 1\<rparr>,
     om_contractCallers = [(1, table_caller.truncate sample_xcaller)],
     om_listExecutorOperators = (\<lambda>_ _. Some [sample_peer ''0xaa'' [5], sample_peer ''0xbb'' [6]])\<rparr>"

definition sample_em_config :: em_config where
  "sample_em_config = \<lparr>emc_AvsAddress = ''0xa'', emc_SupportedChainIds = [1], emc_MailboxContractAddresses = [(1, ''0xmb'')],
     emc_AggregatorAddress = ''0xagg'', emc_L1ChainId = 1, emc_TlsEnabled = False\<rparr>"

definition sample_queued :: task where
  "sample_queued = \<lparr>task_TaskId = ''0x1'', task_AVSAddress = ''0xa'', task_OperatorSetId = 1, task_CallbackAddr = ''0xmb'',
     task_DeadlineUnixSeconds = None, task_ThresholdBips = 0, task_Payload = [], task_ChainId = 1,
     task_SourceBlockNumber = 5, task_L1ReferenceBlockNumber = 0, task_ReferenceTimestamp = 9,
     task_BlockHash = ''0xh'', task_Version = 1, task_Context = Some 0\<rparr>"

definition sample_em :: "task_status \<Rightarrow> (mem_store, nat) exec_manager" where
  "sample_em st = \<lparr>em_config = sample_em_config, em_chainContractCallers = [(1, sample_xcaller)], em_operatorManager = sample_om,
     em_inflightTasks = [], em_avsConfig = None,
     em_store = newInMemoryAggregatorStore\<lparr>ms_tasks := [(''0x1'', \<lparr>rec_Task = sample_queued, rec_Status = st, rec_CreatedAt = 0, rec_UpdatedAt = 0\<rparr>)]\<rparr>\<rparr>"

lemma sample_em_store:
  "mem_invar (em_store (sample_em st))" "\<not> ms_closed (em_store (sample_em st))"
  "mem_tasksOf (em_store (sample_em st)) ''0x1'' = Some (task_persist sample_queued, st)"
  by (simp_all add: mem_invar_def sample_em_def newInMemoryAggregatorStore_def sample_queued_def mem_tasksOf_def gm_wf_def)

definition sample_run_task :: task where
  "sample_run_task = sample_queued\<lparr>task_ThresholdBips := 6000, task_L1ReferenceBlockNumber := 5\<rparr>"

lemma sample_threshold: "abiDecodeUint16 (abiEncodeUint16 6000) = Some 6000"
  by (simp add: abiDecodeUint16_def abiEncodeUint16_def be_nat_be_bytes)

definition sample_weights :: "(string \<times> int list) list" where
  "sample_weights = [(''0xaa'', [60]), (''0xbb'', [40])]"

lemma sample_address: "addressString sample_eth (stringBytes ''0xaa'') = ''0xaa''" "addressString sample_eth (stringBytes ''0xbb'') = ''0xbb''"
  by code_simp+

lemma sample_peers:
  assumes "getExecutorPeersAndWeightsForTask sample_eth sample_om task ct = Inr pw"
  shows "pw_Weights pw = sample_weights"
  using assms sample_address
  by (auto simp: getExecutorPeersAndWeightsForTask_def fetchOperatorTableData_def getContractCallerForChainId_def sample_om_def
      table_caller.truncate_def sample_xcaller_def buildOperatorWeights_def sample_weights_def Let_def split: if_splits)

lemma sample_weights_nonneg: "weights_nonneg sample_weights"
  by (auto simp: weights_nonneg_def sample_weights_def split: if_splits)

text \<open>The session that the manager creates for the task is the sample session.\<close>

definition sample_pw :: "nat peer_weight" where
  "sample_pw = \<lparr>pw_ChainId = 1, pw_OperatorSetId = 1, pw_RootReferenceTimestamp = 9, pw_Weights = sample_weights,
     pw_Operators = [sample_peer ''0xaa'' [5], sample_peer ''0xbb'' [6]], pw_CurveType = CurveTypeECDSA,
     pw_OperatorInfoTreeRoot = [], pw_OperatorInfos = []\<rparr>"

lemma sample_peers_for_task:
  "getExecutorPeersAndWeightsForTask sample_eth sample_om sample_run_task CurveTypeECDSA = Inr sample_pw"
proof -
  have "filterOperatorsForSet [sample_peer ''0xaa'' [5], sample_peer ''0xbb'' [6]] sample_weights 1 =
      [sample_peer ''0xaa'' [5], sample_peer ''0xbb'' [6]]" by code_simp
  with sample_address show ?thesis
    by (simp add: getExecutorPeersAndWeightsForTask_def fetchOperatorTableData_def getContractCallerForChainId_def sample_om_def
        table_caller.truncate_def sample_xcaller_def buildOperatorWeights_def sample_weights_def Let_def sample_run_task_def
        sample_queued_def sample_pw_def)
qed

definition sample_session :: "(nat, nat ecdsa_aggregator) task_session" where
  "sample_session = \<lparr>ts_Task = sample_run_task, ts_operatorPeersWeight = sample_pw, ts_taskAggregator = sample_ecdsa_aggregator,
     ts_aggregatorAddress = ''0xagg'', ts_tlsEnabled = False\<rparr>"

lemma sample_session_new: "newECDSATaskSession sample_run_task ''0xagg'' sample_pw False = Inr sample_session"
  using sample_ecdsa_new
  by (simp add: newECDSATaskSession_def sample_pw_def sample_peer_def getOperatorSet_def sample_weights_def sample_run_task_def
      sample_queued_def sample_session_def sample_ecdsa_operators_def sample_operator_def)

lemma sample_handle:
  assumes "selE sample_session = SelDone"
  shows "\<exists>em'. handleTask sample_eth lib memory_ops 1 selB selE sample_queued (sample_em TaskStatusPending) = (None, em') \<and>
    mem_tasksOf (em_store em') ''0x1'' = Some (task_persist sample_queued, TaskStatusCompleted)"
proof -
  let ?em = "sample_em TaskStatusPending" and ?em1 = "setStatus memory_ops 1 ''0x1'' TaskStatusProcessing (sample_em TaskStatusPending)"
  have id: "task_TaskId sample_queued = ''0x1''" "task_ChainId sample_queued = 1" by (simp_all add: sample_queued_def)
  have em: "em_inflightTasks ?em = []" "em_chainContractCallers ?em = [(1, sample_xcaller)]" "em_config ?em = sample_em_config"
    "em_operatorManager ?em = sample_om" by (simp_all add: sample_em_def)
  have "getExecutorTaskConfig sample_eth ?em1 sample_queued = Inr \<lparr>otc_TaskSLA = 0, otc_CurveType = CurveTypeECDSA,
      otc_TaskMetadata = [], otc_ConsensusType = 1, otc_Threshold = 6000, otc_L1ReferenceBlockNumber = 5\<rparr>"
    by (simp add: getExecutorTaskConfig_def getContractCallerForChain_def getL1BlockForChainBlock_def em sample_em_config_def
        sample_queued_def sample_xcaller_def convertSolidityEnumToCurveType_def sample_threshold)
  moreover obtain em2 where "getAvsConfigAt ?em1 5 = (Inr \<lparr>eac_AggregatorOperatorSetId = 0, eac_ExecutorOperatorSetIds = [1], eac_curveType = CurveTypeECDSA\<rparr>, em2)"
    and em2: "em2 = ?em1\<lparr>em_avsConfig := Some \<lparr>eac_AggregatorOperatorSetId = 0, eac_ExecutorOperatorSetIds = [1], eac_curveType = CurveTypeECDSA\<rparr>\<rparr>"
    by (simp add: getAvsConfigAt_def em sample_em_config_def sample_xcaller_def Let_def)
  moreover have "getCurveTypeForOperatorSet sample_om ''0xa'' 1 5 = Inr CurveTypeECDSA"
    by (simp add: getCurveTypeForOperatorSet_def getContractCallerForChainId_def sample_om_def table_caller.truncate_def sample_xcaller_def)
  moreover have t: "sample_queued\<lparr>task_ThresholdBips := 6000, task_L1ReferenceBlockNumber := 5\<rparr> = sample_run_task"
    "task_AVSAddress sample_run_task = ''0xa''" "task_OperatorSetId sample_run_task = 1" "task_ChainId sample_run_task = 1"
    "task_L1ReferenceBlockNumber sample_run_task = 5"
    by (simp_all add: sample_run_task_def sample_queued_def)
  ultimately have h: "handleTask sample_eth lib memory_ops 1 selB selE sample_queued ?em = processECDSATask memory_ops 1 sample_run_task SelDone em2"
    using sample_peers_for_task sample_session_new assms
    by (simp add: handleTask_def id em getContractCallerForChain_def sample_em_config_def sample_pw_def)
  have s2: "mem_invar (em_store em2)" "\<not> ms_closed (em_store em2)"
    "mem_tasksOf (em_store em2) (task_TaskId sample_run_task) = Some (task_persist sample_queued, TaskStatusProcessing)"
    using mem.update_legal [OF sample_em_store, of TaskStatusPending TaskStatusProcessing 1]
    by (auto simp: em2 sample_run_task_def id)
  obtain e em' where p: "processECDSATask memory_ops 1 sample_run_task SelDone em2 = (e, em')" by fastforce
  have "task_Context sample_run_task \<noteq> None" by (simp add: sample_run_task_def sample_queued_def)
  from mem.ecdsa_task_end [OF s2 this p] h p show ?thesis by (simp add: sample_run_task_def id)
qed

definition sample_selE :: "(nat, nat ecdsa_aggregator) task_session \<Rightarrow> task_select" where
  "sample_selE ts = (if ts = sample_session then SelDone else SelTaskContextDone None)"


theorem handled_task_leaves_pending_witness:
  "\<exists>em' e st. handleTask sample_eth sample_bn254 memory_ops 1 (\<lambda>ts. SelTaskContextDone None) sample_selE sample_queued (sample_em TaskStatusPending) = (e, em') \<and>
     mem_tasksOf (em_store em') ''0x1'' = Some (task_persist sample_queued, st) \<and> st \<noteq> TaskStatusPending"
proof -
  obtain e em' where h: "handleTask sample_eth sample_bn254 memory_ops 1 (\<lambda>ts. SelTaskContextDone None) sample_selE sample_queued (sample_em TaskStatusPending) = (e, em')"
    by fastforce
  have id: "task_TaskId sample_queued = ''0x1''" "task_Context sample_queued \<noteq> None" by (simp_all add: sample_queued_def)
  have fresh: "gm_get (em_inflightTasks (sample_em TaskStatusPending)) ''0x1'' = None" by (simp add: sample_em_def)
  from handled_task_leaves_pending [OF sample_em_store(1,2), where task = sample_queued, unfolded id(1), OF sample_em_store(3) id(2) fresh h] h
  show ?thesis by auto
qed

theorem context_end_leaks_task_witness:
  "\<exists>em'. processBN254Task memory_ops 1 sample_queued (SelTaskContextDone None) (sample_em TaskStatusProcessing) = (None, em') \<and>
     mem_tasksOf (em_store em') ''0x1'' = Some (task_persist sample_queued, TaskStatusProcessing) \<and>
     handleTask sample_eth sample_bn254 memory_ops 2 (\<lambda>ts. SelDone) sample_selE sample_queued em' = (Some AlreadyInFlight, em')"
proof -
  have id: "task_TaskId sample_queued = ''0x1''" "task_Context sample_queued \<noteq> None" by (simp_all add: sample_queued_def)
  from context_end_leaks_task [OF sample_em_store(1,2), where task = sample_queued, unfolded id(1), OF sample_em_store(3) id(2)]
  show ?thesis by blast
qed

end
