(* ===== verification/Go_Values.thy ===== *)
theory Go_Values
  imports Complex_Main Hourglass_Prelude
begin

text \<open>
  Floating point numbers and JSON values. A \<open>float64\<close> is the rational number it stands for; the rounding
  of products to 53 bits is left out. A JSON document is the value \<open>encoding/json\<close> decodes it to; a key of
  an object occurs once.
\<close>

type_synonym float64 = rat

text \<open>The conversion of a \<open>float64\<close> to an integer type drops the fraction.\<close>

definition truncFloat :: "float64 \<Rightarrow> int" where
  "truncFloat x = (if 0 \<le> x then floor x else ceiling x)"

datatype json = JNull | JBool bool | JNumber float64 | JString string | JArray "json list"
  | JObject "(string \<times> json) list"

definition jsonField :: "(string \<times> json) list \<Rightarrow> string \<Rightarrow> json" where
  "jsonField obj key = (case gm_get obj key of None \<Rightarrow> JNull | Some v \<Rightarrow> v)"

definition asObject :: "json \<Rightarrow> (string \<times> json) list option" where
  "asObject v = (case v of JObject m \<Rightarrow> Some m | _ \<Rightarrow> None)"

end
