(* ===== verification/Container_Types.thy ===== *)
theory Container_Types
  imports Go_Values
begin

text \<open>
  The data of the container manager, \<open>ponos/pkg/containerManager\<close>: \<open>types.go\<close>, \<open>constants.go\<close>, the
  default liveness configuration of \<open>utils.go\<close>, and the builder and validation of configurations of
  \<open>configBuilder.go\<close>. A \<open>time.Duration\<close> is an integer number of nanoseconds.

  The main results are when a built configuration passes validation, and the closed form and the bounds of
  the restart delay.
\<close>

section \<open>Durations\<close>

type_synonym duration = int

abbreviation millisecond :: duration where
  "millisecond \<equiv> 1000000"

abbreviation second :: duration where
  "second \<equiv> 1000000000"

section \<open>Containers and events\<close>

text \<open>Port mappings list the host ports bound to a container port.\<close>

record container_info =
  ci_ID :: string
  ci_Hostname :: string
  ci_Status :: string
  ci_Ports :: "(string \<times> string list) list"
  ci_Networks :: "string list"

text \<open>\<open>cc_PortBindings\<close> maps a port to the host addresses and host ports it is bound to.\<close>

record container_config =
  cc_Hostname :: string
  cc_Image :: string
  cc_Env :: "string list"
  cc_WorkingDir :: string
  cc_ExposedPorts :: "string list"
  cc_PortBindings :: "(string \<times> (string \<times> string) list) list"
  cc_NetworkName :: string
  cc_MemoryLimit :: int
  cc_CPUShares :: int
  cc_User :: string
  cc_Privileged :: bool
  cc_ReadOnly :: bool
  cc_AutoRemove :: bool
  cc_RestartPolicy :: string

record container_state =
  cst_Status :: string
  cst_ExitCode :: int
  cst_StartedAt :: time
  cst_FinishedAt :: "time option"
  cst_RestartCount :: nat
  cst_OOMKilled :: bool
  cst_Error :: string
  cst_Restarting :: bool

datatype container_event_type = EventStarted | EventStopped | EventCrashed | EventOOMKilled | EventRestarted
  | EventHealthy | EventUnhealthy | EventRestarting | EventRestartFailed

record container_event =
  ce_ContainerID :: string
  ce_Type :: container_event_type
  ce_State :: container_state
  ce_Message :: string

section \<open>Configuration\<close>

record health_check_config =
  hcc_Enabled :: bool
  hcc_Interval :: duration
  hcc_Timeout :: duration
  hcc_Retries :: int
  hcc_StartPeriod :: duration
  hcc_FailureThreshold :: int

record restart_policy =
  rp_Enabled :: bool
  rp_MaxRestarts :: int
  rp_RestartDelay :: duration
  rp_BackoffMultiplier :: float64
  rp_MaxBackoffDelay :: duration
  rp_RestartTimeout :: duration
  rp_RestartOnCrash :: bool
  rp_RestartOnOOM :: bool
  rp_RestartOnUnhealthy :: bool

record resource_thresholds =
  rt_CPUThreshold :: float64
  rt_MemoryThreshold :: float64
  rt_RestartOnCPU :: bool
  rt_RestartOnMemory :: bool

record resource_usage =
  ru_CPUPercent :: float64
  ru_MemoryUsage :: int
  ru_MemoryLimit :: int
  ru_MemoryPercent :: float64
  ru_NetworkRx :: int
  ru_NetworkTx :: int
  ru_DiskRead :: int
  ru_DiskWrite :: int

record liveness_config =
  lc_HealthCheckConfig :: health_check_config
  lc_RestartPolicy :: restart_policy
  lc_ResourceThresholds :: resource_thresholds
  lc_MonitorEvents :: bool
  lc_ResourceMonitoring :: bool
  lc_ResourceCheckInterval :: duration

record container_manager_config =
  cmc_DockerHost :: string
  cmc_DockerVersion :: string
  cmc_StartTimeout :: duration
  cmc_StopTimeout :: duration
  cmc_HealthCheckConfig :: "health_check_config option"
  cmc_LivenessConfig :: "liveness_config option"

text \<open>The zero values of the structs.\<close>

definition zeroContainerState :: container_state where
  "zeroContainerState = \<lparr>cst_Status = [], cst_ExitCode = 0, cst_StartedAt = 0, cst_FinishedAt = None,
     cst_RestartCount = 0, cst_OOMKilled = False, cst_Error = [], cst_Restarting = False\<rparr>"

definition zeroHealthCheckConfig :: health_check_config where
  "zeroHealthCheckConfig = \<lparr>hcc_Enabled = False, hcc_Interval = 0, hcc_Timeout = 0, hcc_Retries = 0,
     hcc_StartPeriod = 0, hcc_FailureThreshold = 0\<rparr>"

definition zeroRestartPolicy :: restart_policy where
  "zeroRestartPolicy = \<lparr>rp_Enabled = False, rp_MaxRestarts = 0, rp_RestartDelay = 0, rp_BackoffMultiplier = 0,
     rp_MaxBackoffDelay = 0, rp_RestartTimeout = 0, rp_RestartOnCrash = False, rp_RestartOnOOM = False,
     rp_RestartOnUnhealthy = False\<rparr>"

definition zeroResourceThresholds :: resource_thresholds where
  "zeroResourceThresholds = \<lparr>rt_CPUThreshold = 0, rt_MemoryThreshold = 0, rt_RestartOnCPU = False, rt_RestartOnMemory = False\<rparr>"

definition zeroLivenessConfig :: liveness_config where
  "zeroLivenessConfig = \<lparr>lc_HealthCheckConfig = zeroHealthCheckConfig, lc_RestartPolicy = zeroRestartPolicy,
     lc_ResourceThresholds = zeroResourceThresholds, lc_MonitorEvents = False, lc_ResourceMonitoring = False,
     lc_ResourceCheckInterval = 0\<rparr>"

definition zeroContainerManagerConfig :: container_manager_config where
  "zeroContainerManagerConfig = \<lparr>cmc_DockerHost = [], cmc_DockerVersion = [], cmc_StartTimeout = 0,
     cmc_StopTimeout = 0, cmc_HealthCheckConfig = None, cmc_LivenessConfig = None\<rparr>"

section \<open>Defaults\<close>

abbreviation defaultStartTimeout :: duration where
  "defaultStartTimeout \<equiv> 30 * second"

abbreviation defaultStopTimeout :: duration where
  "defaultStopTimeout \<equiv> 10 * second"

abbreviation defaultRestartTimeout :: duration where
  "defaultRestartTimeout \<equiv> 60 * second"

abbreviation defaultHealthInterval :: duration where
  "defaultHealthInterval \<equiv> 5 * second"

abbreviation defaultResourceInterval :: duration where
  "defaultResourceInterval \<equiv> 30 * second"

abbreviation defaultRestartDelay :: duration where
  "defaultRestartDelay \<equiv> 2 * second"

abbreviation defaultMaxBackoffDelay :: duration where
  "defaultMaxBackoffDelay \<equiv> 30 * second"

abbreviation defaultHealthStartPeriod :: duration where
  "defaultHealthStartPeriod \<equiv> 10 * second"

abbreviation defaultHealthTimeout :: duration where
  "defaultHealthTimeout \<equiv> 2 * second"

definition defaultHealthCheckConfig :: "duration \<Rightarrow> health_check_config" where
  "defaultHealthCheckConfig startPeriod = \<lparr>hcc_Enabled = True, hcc_Interval = defaultHealthInterval,
     hcc_Timeout = defaultHealthTimeout, hcc_Retries = 3, hcc_StartPeriod = startPeriod, hcc_FailureThreshold = 3\<rparr>"

definition defaultRestartPolicy :: restart_policy where
  "defaultRestartPolicy = \<lparr>rp_Enabled = True, rp_MaxRestarts = 5, rp_RestartDelay = defaultRestartDelay,
     rp_BackoffMultiplier = 2, rp_MaxBackoffDelay = defaultMaxBackoffDelay, rp_RestartTimeout = defaultRestartTimeout,
     rp_RestartOnCrash = True, rp_RestartOnOOM = True, rp_RestartOnUnhealthy = True\<rparr>"

definition defaultResourceThresholds :: resource_thresholds where
  "defaultResourceThresholds = \<lparr>rt_CPUThreshold = 90, rt_MemoryThreshold = 90, rt_RestartOnCPU = False,
     rt_RestartOnMemory = False\<rparr>"

text \<open>The literals of \<open>DefaultContainerManagerConfig\<close>, \<open>NewDockerContainerManager\<close> and \<open>NewDefaultAvsPerformerLivenessConfig\<close>.\<close>

definition livenessConfigWith :: "health_check_config \<Rightarrow> liveness_config" where
  "livenessConfigWith hc = \<lparr>lc_HealthCheckConfig = hc, lc_RestartPolicy = defaultRestartPolicy,
     lc_ResourceThresholds = defaultResourceThresholds, lc_MonitorEvents = True, lc_ResourceMonitoring = True,
     lc_ResourceCheckInterval = defaultResourceInterval\<rparr>"

definition newDefaultAvsPerformerLivenessConfig :: liveness_config where
  "newDefaultAvsPerformerLivenessConfig = livenessConfigWith (defaultHealthCheckConfig defaultHealthStartPeriod)"

definition defaultContainerManagerConfig :: container_manager_config where
  "defaultContainerManagerConfig = zeroContainerManagerConfig\<lparr>cmc_StartTimeout := defaultStartTimeout,
     cmc_StopTimeout := defaultStopTimeout,
     cmc_HealthCheckConfig := Some (defaultHealthCheckConfig defaultStartTimeout),
     cmc_LivenessConfig := Some (livenessConfigWith (defaultHealthCheckConfig defaultHealthStartPeriod))\<rparr>"

section \<open>The builder\<close>

text \<open>\<open>orDefault\<close> is the test for the zero value that every builder makes.\<close>

abbreviation orDefault :: "'a::zero \<Rightarrow> 'a \<Rightarrow> 'a" where
  "orDefault x y \<equiv> if x = 0 then y else x"

definition buildHealthCheckConfig :: "health_check_config option \<Rightarrow> health_check_config" where
  "buildHealthCheckConfig cfg =
     (let config = (case cfg of None \<Rightarrow> zeroHealthCheckConfig | Some c \<Rightarrow> c)
      in config\<lparr>hcc_Interval := orDefault (hcc_Interval config) defaultHealthInterval,
           hcc_Timeout := orDefault (hcc_Timeout config) defaultHealthTimeout,
           hcc_Retries := orDefault (hcc_Retries config) 3,
           hcc_StartPeriod := orDefault (hcc_StartPeriod config) defaultHealthStartPeriod,
           hcc_FailureThreshold := orDefault (hcc_FailureThreshold config) 3\<rparr>)"

definition buildRestartPolicy :: "restart_policy option \<Rightarrow> restart_policy" where
  "buildRestartPolicy p =
     (let policy = (case p of None \<Rightarrow> zeroRestartPolicy | Some q \<Rightarrow> q);
          filled = policy\<lparr>rp_MaxRestarts := orDefault (rp_MaxRestarts policy) 5,
           rp_RestartDelay := orDefault (rp_RestartDelay policy) defaultRestartDelay,
           rp_BackoffMultiplier := orDefault (rp_BackoffMultiplier policy) 2,
           rp_MaxBackoffDelay := orDefault (rp_MaxBackoffDelay policy) defaultMaxBackoffDelay,
           rp_RestartTimeout := orDefault (rp_RestartTimeout policy) defaultRestartTimeout\<rparr>
      in if \<not> rp_RestartOnCrash policy \<and> \<not> rp_RestartOnOOM policy \<and> \<not> rp_RestartOnUnhealthy policy
         then filled\<lparr>rp_RestartOnCrash := True, rp_RestartOnOOM := True, rp_RestartOnUnhealthy := False\<rparr>
         else filled)"

definition buildResourceThresholds :: "resource_thresholds option \<Rightarrow> resource_thresholds" where
  "buildResourceThresholds t =
     (let thresholds = (case t of None \<Rightarrow> zeroResourceThresholds | Some x \<Rightarrow> x)
      in thresholds\<lparr>rt_CPUThreshold := orDefault (rt_CPUThreshold thresholds) 90,
           rt_MemoryThreshold := orDefault (rt_MemoryThreshold thresholds) 90\<rparr>)"

definition mergeHealthCheckConfig :: "health_check_config \<Rightarrow> health_check_config \<Rightarrow> health_check_config" where
  "mergeHealthCheckConfig userConfig defaultConfig =
     defaultConfig\<lparr>hcc_Enabled := hcc_Enabled userConfig,
       hcc_Interval := orDefault (hcc_Interval userConfig) (hcc_Interval defaultConfig),
       hcc_Timeout := orDefault (hcc_Timeout userConfig) (hcc_Timeout defaultConfig),
       hcc_Retries := orDefault (hcc_Retries userConfig) (hcc_Retries defaultConfig),
       hcc_StartPeriod := orDefault (hcc_StartPeriod userConfig) (hcc_StartPeriod defaultConfig),
       hcc_FailureThreshold := orDefault (hcc_FailureThreshold userConfig) (hcc_FailureThreshold defaultConfig)\<rparr>"

definition buildLivenessConfig :: "liveness_config option \<Rightarrow> health_check_config option \<Rightarrow> liveness_config" where
  "buildLivenessConfig cfg defaultHealthConfig =
     (let config = (case cfg of None \<Rightarrow> zeroLivenessConfig | Some c \<Rightarrow> c);
          health = (case defaultHealthConfig of
             Some d \<Rightarrow> mergeHealthCheckConfig (lc_HealthCheckConfig config) d
           | None \<Rightarrow> buildHealthCheckConfig (Some (lc_HealthCheckConfig config)))
      in config\<lparr>lc_HealthCheckConfig := health,
           lc_RestartPolicy := buildRestartPolicy (Some (lc_RestartPolicy config)),
           lc_ResourceThresholds := buildResourceThresholds (Some (lc_ResourceThresholds config)),
           lc_ResourceCheckInterval := orDefault (lc_ResourceCheckInterval config) defaultResourceInterval\<rparr>)"

definition buildContainerManagerConfig :: "container_manager_config option \<Rightarrow> container_manager_config" where
  "buildContainerManagerConfig cfg =
     (let config = (case cfg of None \<Rightarrow> zeroContainerManagerConfig | Some c \<Rightarrow> c);
          health = (case cmc_HealthCheckConfig config of None \<Rightarrow> buildHealthCheckConfig None | Some h \<Rightarrow> h)
      in config\<lparr>cmc_StartTimeout := orDefault (cmc_StartTimeout config) defaultStartTimeout,
           cmc_StopTimeout := orDefault (cmc_StopTimeout config) defaultStopTimeout,
           cmc_HealthCheckConfig := Some health,
           cmc_LivenessConfig := Some (case cmc_LivenessConfig config of
               None \<Rightarrow> buildLivenessConfig None (Some health) | Some l \<Rightarrow> l)\<rparr>)"

section \<open>Validation\<close>

datatype container_config_error = ErrInvalidStartTimeout | ErrInvalidStopTimeout | ErrInvalidHealthInterval
  | ErrInvalidFailureThreshold | ErrInvalidMaxRestarts | ErrInvalidRestartDelay | ErrInvalidResourceInterval

definition validateHealthCheckConfig :: "health_check_config \<Rightarrow> container_config_error option" where
  "validateHealthCheckConfig config =
     (if hcc_Interval config < second then Some ErrInvalidHealthInterval
      else if hcc_FailureThreshold config < 1 then Some ErrInvalidFailureThreshold
      else None)"

definition validateLivenessConfig :: "liveness_config \<Rightarrow> container_config_error option" where
  "validateLivenessConfig config =
     (case validateHealthCheckConfig (lc_HealthCheckConfig config) of
        Some err \<Rightarrow> Some err
      | None \<Rightarrow>
          if rp_MaxRestarts (lc_RestartPolicy config) < 0 then Some ErrInvalidMaxRestarts
          else if rp_RestartDelay (lc_RestartPolicy config) < 0 then Some ErrInvalidRestartDelay
          else if lc_ResourceCheckInterval config < second then Some ErrInvalidResourceInterval
          else None)"

definition validateManagerConfig :: "container_manager_config \<Rightarrow> container_config_error option" where
  "validateManagerConfig config =
     (if cmc_StartTimeout config < 0 then Some ErrInvalidStartTimeout
      else if cmc_StopTimeout config < 0 then Some ErrInvalidStopTimeout
      else case (case cmc_HealthCheckConfig config of None \<Rightarrow> None | Some h \<Rightarrow> validateHealthCheckConfig h) of
        Some err \<Rightarrow> Some err
      | None \<Rightarrow> (case cmc_LivenessConfig config of None \<Rightarrow> None | Some l \<Rightarrow> validateLivenessConfig l))"

section \<open>The restart delay\<close>

text \<open>\<open>time.Duration(float64(delay) * multiplier)\<close>.\<close>

definition scaleDuration :: "duration \<Rightarrow> float64 \<Rightarrow> duration" where
  "scaleDuration delay multiplier = truncFloat (of_int delay * multiplier)"

text \<open>The loop runs at most \<open>restartCount\<close> times and stops when the maximum is reached.\<close>

fun backoffLoop :: "restart_policy \<Rightarrow> nat \<Rightarrow> duration \<Rightarrow> duration" where
  "backoffLoop policy 0 delay = delay"
| "backoffLoop policy (Suc n) delay =
     (if delay < rp_MaxBackoffDelay policy
      then backoffLoop policy n (scaleDuration delay (rp_BackoffMultiplier policy)) else delay)"

definition calculateRestartDelay :: "restart_policy \<Rightarrow> nat \<Rightarrow> duration" where
  "calculateRestartDelay policy restartCount =
     (if restartCount = 0 then rp_RestartDelay policy
      else let delay = backoffLoop policy restartCount (rp_RestartDelay policy)
           in if rp_MaxBackoffDelay policy < delay then rp_MaxBackoffDelay policy else delay)"


section \<open>Built configurations are valid\<close>

text \<open>The fields a configuration sets itself, rather than leaving them zero, are in range.\<close>

definition set_fields_valid :: "liveness_config \<Rightarrow> bool" where
  "set_fields_valid c \<longleftrightarrow>
     (hcc_Interval (lc_HealthCheckConfig c) = 0 \<or> second \<le> hcc_Interval (lc_HealthCheckConfig c)) \<and>
     0 \<le> hcc_FailureThreshold (lc_HealthCheckConfig c) \<and>
     0 \<le> rp_MaxRestarts (lc_RestartPolicy c) \<and> 0 \<le> rp_RestartDelay (lc_RestartPolicy c) \<and>
     (lc_ResourceCheckInterval c = 0 \<or> second \<le> lc_ResourceCheckInterval c)"

lemma validateHealth_iff:
  "validateHealthCheckConfig h = None \<longleftrightarrow> second \<le> hcc_Interval h \<and> 1 \<le> hcc_FailureThreshold h"
  by (auto simp: validateHealthCheckConfig_def)

lemma validateLiveness_iff:
  "validateLivenessConfig c = None \<longleftrightarrow> validateHealthCheckConfig (lc_HealthCheckConfig c) = None \<and>
     0 \<le> rp_MaxRestarts (lc_RestartPolicy c) \<and> 0 \<le> rp_RestartDelay (lc_RestartPolicy c) \<and> second \<le> lc_ResourceCheckInterval c"
  by (auto simp: validateLivenessConfig_def split: option.splits)

lemma validateManagerConfig_iff:
  "validateManagerConfig m = None \<longleftrightarrow> 0 \<le> cmc_StartTimeout m \<and> 0 \<le> cmc_StopTimeout m \<and>
     (\<forall>h. cmc_HealthCheckConfig m = Some h \<longrightarrow> validateHealthCheckConfig h = None) \<and>
     (\<forall>l. cmc_LivenessConfig m = Some l \<longrightarrow> validateLivenessConfig l = None)"
  by (cases "cmc_HealthCheckConfig m"; cases "cmc_LivenessConfig m") (auto simp: validateManagerConfig_def split: option.splits)

lemma buildHealth_fields [simp]:
  "hcc_Interval (buildHealthCheckConfig (Some h)) = orDefault (hcc_Interval h) defaultHealthInterval"
  "hcc_FailureThreshold (buildHealthCheckConfig (Some h)) = orDefault (hcc_FailureThreshold h) 3"
  "hcc_Interval (mergeHealthCheckConfig h d) = orDefault (hcc_Interval h) (hcc_Interval d)"
  "hcc_FailureThreshold (mergeHealthCheckConfig h d) = orDefault (hcc_FailureThreshold h) (hcc_FailureThreshold d)"
  by (simp_all add: buildHealthCheckConfig_def mergeHealthCheckConfig_def)

lemma buildPolicy_fields [simp]:
  "rp_Enabled (buildRestartPolicy (Some p)) = rp_Enabled p"
  "rp_MaxRestarts (buildRestartPolicy (Some p)) = orDefault (rp_MaxRestarts p) 5"
  "rp_RestartDelay (buildRestartPolicy (Some p)) = orDefault (rp_RestartDelay p) defaultRestartDelay"
  by (simp_all add: buildRestartPolicy_def Let_def)

lemma buildLiveness_fields [simp]:
  "lc_HealthCheckConfig (buildLivenessConfig (Some c) dflt) = (case dflt of
     Some d \<Rightarrow> mergeHealthCheckConfig (lc_HealthCheckConfig c) d | None \<Rightarrow> buildHealthCheckConfig (Some (lc_HealthCheckConfig c)))"
  "lc_RestartPolicy (buildLivenessConfig (Some c) dflt) = buildRestartPolicy (Some (lc_RestartPolicy c))"
  "lc_ResourceCheckInterval (buildLivenessConfig (Some c) dflt) = orDefault (lc_ResourceCheckInterval c) defaultResourceInterval"
  by (simp_all add: buildLivenessConfig_def Let_def)

lemma buildLiveness_valid:
  assumes "\<And>d. dflt = Some d \<Longrightarrow> validateHealthCheckConfig d = None"
  shows "validateLivenessConfig (buildLivenessConfig (Some c) dflt) = None \<longleftrightarrow> set_fields_valid c"
  using assms by (cases dflt) (auto simp: validateLiveness_iff validateHealth_iff set_fields_valid_def)

lemma buildLiveness_None: "buildLivenessConfig None dflt = buildLivenessConfig (Some zeroLivenessConfig) dflt"
  by (simp add: buildLivenessConfig_def)

lemma set_fields_valid_zero [simp]: "set_fields_valid zeroLivenessConfig"
  by (simp add: set_fields_valid_def zeroLivenessConfig_def zeroHealthCheckConfig_def zeroRestartPolicy_def)

lemma buildHealth_None_valid [simp]: "validateHealthCheckConfig (buildHealthCheckConfig None) = None"
  by (simp add: validateHealth_iff buildHealthCheckConfig_def zeroHealthCheckConfig_def)


text \<open>
  The comment on \<open>MaxRestarts\<close> offers \<open>-1\<close> for unlimited restarts; no configuration with a negative
  number is valid, and the builder turns 0, the other value without a limit, into 5.
\<close>

lemma unlimited_restarts_unavailable:
  "rp_MaxRestarts (lc_RestartPolicy c) < 0 \<Longrightarrow> validateLivenessConfig c \<noteq> None"
  "validateLivenessConfig (buildLivenessConfig (Some c) None) = None \<Longrightarrow>
     0 < rp_MaxRestarts (lc_RestartPolicy (buildLivenessConfig (Some c) None))"
  using buildLiveness_valid [of None c] by (auto simp: validateLiveness_iff set_fields_valid_def)

section \<open>The restart delay grows and is bounded\<close>

lemma scaleDuration_ge: "0 \<le> d \<Longrightarrow> 1 \<le> m \<Longrightarrow> d \<le> scaleDuration d m"
proof -
  assume "0 \<le> d" "1 \<le> m"
  then have "(of_int d :: rat) * 1 \<le> of_int d * m" by (intro mult_left_mono) auto
  then have "d \<le> floor (of_int d * m)" by (simp add: le_floor_iff)
  moreover have "0 \<le> (of_int d :: rat) * m" using \<open>0 \<le> d\<close> \<open>1 \<le> m\<close> by simp
  ultimately show ?thesis by (simp add: scaleDuration_def truncFloat_def)
qed

lemma scaleDuration_int [simp]: "scaleDuration d (of_int k) = d * k"
proof -
  have "(of_int d :: rat) * of_int k = of_int (d * k)" by simp
  then show ?thesis unfolding scaleDuration_def truncFloat_def by (simp only: floor_of_int ceiling_of_int if_cancel)
qed

lemma backoffLoop_ge:
  assumes "1 \<le> rp_BackoffMultiplier p" "0 \<le> d"
  shows "d \<le> backoffLoop p n d"
  using assms(2)
proof (induction n arbitrary: d)
  case (Suc n)
  from scaleDuration_ge [OF Suc.prems assms(1)] Suc.IH [of "scaleDuration d (rp_BackoffMultiplier p)"] Suc.prems
  show ?case by simp
qed simp

lemma backoffLoop_mono:
  assumes "1 \<le> rp_BackoffMultiplier p" "0 \<le> d"
  shows "backoffLoop p n d \<le> backoffLoop p (Suc n) d"
  using assms(2)
proof (induction n arbitrary: d)
  case 0
  then show ?case using scaleDuration_ge [OF 0 assms(1)] by simp
next
  case (Suc n)
  have "0 \<le> scaleDuration d (rp_BackoffMultiplier p)" using scaleDuration_ge [OF Suc.prems assms(1)] Suc.prems by simp
  from Suc.IH [OF this] show ?case by simp
qed

lemma backoffLoop_int:
  assumes "rp_BackoffMultiplier p = of_int k" "1 \<le> k" "0 \<le> d"
  shows "min (backoffLoop p n d) (rp_MaxBackoffDelay p) = min (d * k ^ n) (rp_MaxBackoffDelay p)"
  using assms(3)
proof (induction n arbitrary: d)
  case (Suc n)
  show ?case
  proof (cases "d < rp_MaxBackoffDelay p")
    case True
    then show ?thesis using Suc.IH [of "d * k"] Suc.prems assms(1,2) by (simp add: mult.assoc)
  next
    case False
    have "1 \<le> k ^ Suc n" using assms(2) by (rule one_le_power)
    with Suc.prems have "d \<le> d * k ^ Suc n" by (metis mult_left_mono mult.right_neutral)
    then show ?thesis using False by auto
  qed
qed simp

lemma calculateRestartDelay_min:
  assumes "rp_RestartDelay p \<le> rp_MaxBackoffDelay p"
  shows "calculateRestartDelay p n = min (backoffLoop p n (rp_RestartDelay p)) (rp_MaxBackoffDelay p)"
  using assms by (auto simp: calculateRestartDelay_def Let_def)




end
