(* ===== verification/Executor_Store.thy ===== *)
theory Executor_Store
  imports Key_Value
begin

text \<open>
  The persistence layer of the executor, \<open>ponos/pkg/executor/storage\<close>: the state of the deployed
  performers and the set of processed tasks. The interface is a record of operations, its contract the
  locale \<open>performer_store\<close>; \<open>replay_log\<close> extends it by the promise that a processed task is remembered.
  The in-memory store (\<open>storage/memory/memory.go\<close>) implements the first, the BadgerDB store
  (\<open>storage/badger/badger.go\<close>) both.
\<close>

section \<open>Records and interface\<close>

record env_var_record =
  ev_Name :: string
  ev_Value :: string
  ev_ValueFromEnv :: string

record performer_state =
  pst_PerformerId :: string
  pst_AvsAddress :: string
  pst_ResourceId :: string
  pst_Status :: string
  pst_ArtifactRegistry :: string
  pst_ArtifactDigest :: string
  pst_ArtifactTag :: string
  pst_DeploymentMode :: string
  pst_CreatedAt :: time
  pst_LastHealthCheck :: time
  pst_ContainerHealthy :: bool
  pst_ApplicationHealthy :: bool
  pst_NetworkName :: string
  pst_ContainerEndpoint :: string
  pst_ContainerHostname :: string
  pst_EnvironmentVars :: "env_var_record list"

record processed_task =
  pt_TaskId :: string
  pt_ProcessedAt :: time

datatype ex_store_err = ExErrNotFound | ExErrStoreClosed | ExErrOther string

record 's executor_store =
  xsSavePerformerState :: "'s \<Rightarrow> string \<Rightarrow> performer_state option \<Rightarrow> ex_store_err option \<times> 's"
  xsGetPerformerState :: "'s \<Rightarrow> string \<Rightarrow> (ex_store_err, performer_state) result"
  xsListPerformerStates :: "'s \<Rightarrow> (ex_store_err, performer_state list) result"
  xsDeletePerformerState :: "'s \<Rightarrow> string \<Rightarrow> ex_store_err option \<times> 's"
  xsMarkTaskProcessed :: "time \<Rightarrow> 's \<Rightarrow> string \<Rightarrow> ex_store_err option \<times> 's"
  xsIsTaskProcessed :: "'s \<Rightarrow> string \<Rightarrow> (ex_store_err, bool) result"
  xsClose :: "'s \<Rightarrow> ex_store_err option \<times> 's"

text \<open>The states a store can serialise: \<open>time.Time\<close> marshals for years 0 to 9999 only.\<close>

definition persistable :: "performer_state \<Rightarrow> bool" where
  "persistable st \<longleftrightarrow> json_time_ok (pst_CreatedAt st) \<and> json_time_ok (pst_LastHealthCheck st)"

section \<open>The in-memory store\<close>

record mem_executor_store =
  mx_closed :: bool
  mx_performerStates :: "(string \<times> performer_state) list"

definition newInMemoryExecutorStore :: mem_executor_store where
  "newInMemoryExecutorStore = \<lparr>mx_closed = False, mx_performerStates = []\<rparr>"

definition mx_SavePerformerState ::
  "mem_executor_store \<Rightarrow> string \<Rightarrow> performer_state option \<Rightarrow> ex_store_err option \<times> mem_executor_store" where
  "mx_SavePerformerState s performerId state =
     (if mx_closed s then (Some ExErrStoreClosed, s)
      else case state of
        None \<Rightarrow> (Some (ExErrOther ''performer state cannot be nil''), s)
      | Some st \<Rightarrow>
          if performerId = [] then (Some (ExErrOther ''performer ID cannot be empty''), s)
          else (None, s\<lparr>mx_performerStates :=
            gm_put (mx_performerStates s) performerId (st\<lparr>pst_PerformerId := performerId\<rparr>)\<rparr>))"

definition mx_GetPerformerState :: "mem_executor_store \<Rightarrow> string \<Rightarrow> (ex_store_err, performer_state) result" where
  "mx_GetPerformerState s performerId =
     (if mx_closed s then Inl ExErrStoreClosed
      else case gm_get (mx_performerStates s) performerId of
        None \<Rightarrow> Inl ExErrNotFound
      | Some st \<Rightarrow> Inr st)"

definition mx_ListPerformerStates :: "mem_executor_store \<Rightarrow> (ex_store_err, performer_state list) result" where
  "mx_ListPerformerStates s =
     (if mx_closed s then Inl ExErrStoreClosed else Inr (map snd (mx_performerStates s)))"

definition mx_DeletePerformerState ::
  "mem_executor_store \<Rightarrow> string \<Rightarrow> ex_store_err option \<times> mem_executor_store" where
  "mx_DeletePerformerState s performerId =
     (if mx_closed s then (Some ExErrStoreClosed, s)
      else if gm_get (mx_performerStates s) performerId = None then (Some ExErrNotFound, s)
      else (None, s\<lparr>mx_performerStates := gm_del (mx_performerStates s) performerId\<rparr>))"

definition mx_MarkTaskProcessed ::
  "time \<Rightarrow> mem_executor_store \<Rightarrow> string \<Rightarrow> ex_store_err option \<times> mem_executor_store" where
  "mx_MarkTaskProcessed now s taskId =
     (if mx_closed s then (Some ExErrStoreClosed, s)
      else if taskId = [] then (Some (ExErrOther ''task ID cannot be empty''), s)
      else (None, s))"

definition mx_IsTaskProcessed :: "mem_executor_store \<Rightarrow> string \<Rightarrow> (ex_store_err, bool) result" where
  "mx_IsTaskProcessed s taskId = (if mx_closed s then Inl ExErrStoreClosed else Inr False)"

definition mx_Close :: "mem_executor_store \<Rightarrow> ex_store_err option \<times> mem_executor_store" where
  "mx_Close s =
     (if mx_closed s then (Some ExErrStoreClosed, s)
      else (None, s\<lparr>mx_closed := True, mx_performerStates := []\<rparr>))"

definition mx_ops :: "mem_executor_store executor_store" where
  "mx_ops = \<lparr>
     xsSavePerformerState = mx_SavePerformerState,
     xsGetPerformerState = mx_GetPerformerState,
     xsListPerformerStates = mx_ListPerformerStates,
     xsDeletePerformerState = mx_DeletePerformerState,
     xsMarkTaskProcessed = mx_MarkTaskProcessed,
     xsIsTaskProcessed = mx_IsTaskProcessed,
     xsClose = mx_Close\<rparr>"

section \<open>The BadgerDB store\<close>

datatype xkv_value = VPerformer performer_state | VProcessed processed_task

record 'db badger_executor_store =
  bx_db :: 'db
  bx_closed :: bool

definition performerKey :: "string \<Rightarrow> string" where
  "performerKey performerId = ''performer:'' @ performerId"

definition processedKey :: "string \<Rightarrow> string" where
  "processedKey taskId = ''processed:'' @ taskId"

definition xkv_err :: "kv_err \<Rightarrow> ex_store_err" where
  "xkv_err e = (case e of ErrKeyNotFound \<Rightarrow> ExErrOther ''Key not found'' | KvError m \<Rightarrow> ExErrOther m)"

text \<open>\<open>db.Update\<close> of one transaction: an error leaves the database as it was.\<close>

definition bx_update ::
  "('db, xkv_value) kv \<Rightarrow> 'db badger_executor_store \<Rightarrow> ('db \<Rightarrow> (ex_store_err, 'db) result) \<Rightarrow>
     ex_store_err option \<times> 'db badger_executor_store" where
  "bx_update kv s txn =
     (case txn (bx_db s) of
        Inl e \<Rightarrow> (Some e, s)
      | Inr db \<Rightarrow>
          (case kv_commit kv (bx_db s) db of
            Inl e \<Rightarrow> (Some (xkv_err e), s)
          | Inr db' \<Rightarrow> (None, s\<lparr>bx_db := db'\<rparr>)))"

definition bx_SavePerformerState ::
  "('db, xkv_value) kv \<Rightarrow> 'db badger_executor_store \<Rightarrow> string \<Rightarrow> performer_state option \<Rightarrow>
     ex_store_err option \<times> 'db badger_executor_store" where
  "bx_SavePerformerState kv s performerId state =
     (if bx_closed s then (Some ExErrStoreClosed, s)
      else case state of
        None \<Rightarrow> (Some (ExErrOther ''state is nil''), s)
      | Some st \<Rightarrow>
          if \<not> persistable st then (Some (ExErrOther ''failed to marshal performer state''), s)
          else bx_update kv s (\<lambda>db.
            case kv_set kv db (performerKey performerId) (VPerformer st) of
              Inl e \<Rightarrow> Inl (xkv_err e) | Inr db' \<Rightarrow> Inr db'))"

definition bx_GetPerformerState ::
  "('db, xkv_value) kv \<Rightarrow> 'db badger_executor_store \<Rightarrow> string \<Rightarrow> (ex_store_err, performer_state) result" where
  "bx_GetPerformerState kv s performerId =
     (if bx_closed s then Inl ExErrStoreClosed
      else case kv_get kv (bx_db s) (performerKey performerId) of
        Inl ErrKeyNotFound \<Rightarrow> Inl ExErrNotFound
      | Inl e \<Rightarrow> Inl (xkv_err e)
      | Inr (VPerformer st) \<Rightarrow> Inr st
      | Inr _ \<Rightarrow> Inl (ExErrOther ''failed to get performer state''))"

definition bx_ListPerformerStates ::
  "('db, xkv_value) kv \<Rightarrow> 'db badger_executor_store \<Rightarrow> (ex_store_err, performer_state list) result" where
  "bx_ListPerformerStates kv s =
     (if bx_closed s then Inl ExErrStoreClosed
      else Inr (List.map_filter (\<lambda>item. case snd item of VPerformer st \<Rightarrow> Some st | _ \<Rightarrow> None)
        (kv_iter kv (bx_db s) ''performer:'')))"

definition bx_DeletePerformerState ::
  "('db, xkv_value) kv \<Rightarrow> 'db badger_executor_store \<Rightarrow> string \<Rightarrow>
     ex_store_err option \<times> 'db badger_executor_store" where
  "bx_DeletePerformerState kv s performerId =
     (if bx_closed s then (Some ExErrStoreClosed, s)
      else bx_update kv s (\<lambda>db.
        case kv_get kv db (performerKey performerId) of
          Inl ErrKeyNotFound \<Rightarrow> Inl ExErrNotFound
        | Inl e \<Rightarrow> Inl (xkv_err e)
        | Inr _ \<Rightarrow> (case kv_delete kv db (performerKey performerId) of Inl e \<Rightarrow> Inl (xkv_err e) | Inr db' \<Rightarrow> Inr db')))"

definition bx_MarkTaskProcessed ::
  "('db, xkv_value) kv \<Rightarrow> time \<Rightarrow> 'db badger_executor_store \<Rightarrow> string \<Rightarrow>
     ex_store_err option \<times> 'db badger_executor_store" where
  "bx_MarkTaskProcessed kv now s taskId =
     (if bx_closed s then (Some ExErrStoreClosed, s)
      else if taskId = [] then (Some (ExErrOther ''task ID cannot be empty''), s)
      else if \<not> json_time_ok now then (Some (ExErrOther ''failed to marshal processed task''), s)
      else bx_update kv s (\<lambda>db.
        case kv_set kv db (processedKey taskId) (VProcessed \<lparr>pt_TaskId = taskId, pt_ProcessedAt = now\<rparr>) of
          Inl e \<Rightarrow> Inl (xkv_err e) | Inr db' \<Rightarrow> Inr db'))"

definition bx_IsTaskProcessed ::
  "('db, xkv_value) kv \<Rightarrow> 'db badger_executor_store \<Rightarrow> string \<Rightarrow> (ex_store_err, bool) result" where
  "bx_IsTaskProcessed kv s taskId =
     (if bx_closed s then Inl ExErrStoreClosed
      else case kv_get kv (bx_db s) (processedKey taskId) of
        Inl ErrKeyNotFound \<Rightarrow> Inr False
      | Inl e \<Rightarrow> Inl (xkv_err e)
      | Inr _ \<Rightarrow> Inr True)"

definition bx_Close ::
  "('db, xkv_value) kv \<Rightarrow> 'db badger_executor_store \<Rightarrow> ex_store_err option \<times> 'db badger_executor_store" where
  "bx_Close kv s =
     (if bx_closed s then (None, s)
      else (map_option xkv_err (kv_close kv (bx_db s)), s\<lparr>bx_closed := True\<rparr>))"

definition bx_ops :: "('db, xkv_value) kv \<Rightarrow> 'db badger_executor_store executor_store" where
  "bx_ops kv = \<lparr>
     xsSavePerformerState = bx_SavePerformerState kv,
     xsGetPerformerState = bx_GetPerformerState kv,
     xsListPerformerStates = bx_ListPerformerStates kv,
     xsDeletePerformerState = bx_DeletePerformerState kv,
     xsMarkTaskProcessed = bx_MarkTaskProcessed kv,
     xsIsTaskProcessed = bx_IsTaskProcessed kv,
     xsClose = bx_Close kv\<rparr>"

section \<open>The contract\<close>

text \<open>
  \<open>performersOf\<close> is the abstract content of a store and \<open>processedOf\<close> the tasks it reports as processed.
  A client saves a state under its own, non-empty performer id.
\<close>

locale performer_store =
  fixes ops :: "'s executor_store"
    and invar :: "'s \<Rightarrow> bool"
    and is_closed :: "'s \<Rightarrow> bool"
    and performersOf :: "'s \<Rightarrow> string \<Rightarrow> performer_state option"
    and processedOf :: "'s \<Rightarrow> string set"
  assumes performer_key: "invar s \<Longrightarrow> performersOf s pid = Some st \<Longrightarrow> pst_PerformerId st = pid"
    and savePerformer: "invar s \<Longrightarrow> \<not> is_closed s \<Longrightarrow> pid \<noteq> [] \<Longrightarrow> pst_PerformerId st = pid \<Longrightarrow> persistable st \<Longrightarrow>
      \<exists>s'. xsSavePerformerState ops s pid (Some st) = (None, s') \<and> invar s' \<and> \<not> is_closed s' \<and>
        performersOf s' = (performersOf s)(pid \<mapsto> st) \<and> processedOf s' = processedOf s"
    and savePerformer_keeps: "invar s \<Longrightarrow> \<not> is_closed s \<Longrightarrow> pst_PerformerId st = pid \<Longrightarrow>
      xsSavePerformerState ops s pid (Some st) = (e, s') \<Longrightarrow> invar s' \<and> \<not> is_closed s' \<and> processedOf s' = processedOf s"
    and getPerformer: "invar s \<Longrightarrow> \<not> is_closed s \<Longrightarrow>
      xsGetPerformerState ops s pid = (case performersOf s pid of None \<Rightarrow> Inl ExErrNotFound | Some st \<Rightarrow> Inr st)"
    and listPerformers: "invar s \<Longrightarrow> \<not> is_closed s \<Longrightarrow>
      \<exists>sts. xsListPerformerStates ops s = Inr sts \<and> set sts = ran (performersOf s) \<and> distinct (map pst_PerformerId sts)"
    and deletePerformer: "invar s \<Longrightarrow> \<not> is_closed s \<Longrightarrow> performersOf s pid \<noteq> None \<Longrightarrow>
      \<exists>s'. xsDeletePerformerState ops s pid = (None, s') \<and> invar s' \<and> \<not> is_closed s' \<and>
        performersOf s' = (performersOf s)(pid := None) \<and> processedOf s' = processedOf s"
    and deletePerformer_missing: "invar s \<Longrightarrow> \<not> is_closed s \<Longrightarrow> performersOf s pid = None \<Longrightarrow>
      xsDeletePerformerState ops s pid = (Some ExErrNotFound, s)"
    and isProcessed: "invar s \<Longrightarrow> \<not> is_closed s \<Longrightarrow> xsIsTaskProcessed ops s tid = Inr (tid \<in> processedOf s)"
    and markProcessed: "invar s \<Longrightarrow> \<not> is_closed s \<Longrightarrow> xsMarkTaskProcessed ops now s tid = (e, s') \<Longrightarrow>
      invar s' \<and> \<not> is_closed s' \<and> performersOf s' = performersOf s \<and> processedOf s \<subseteq> processedOf s' \<and>
      processedOf s' \<subseteq> insert tid (processedOf s)"
    and closed_errors: "invar s \<Longrightarrow> is_closed s \<Longrightarrow>
      xsSavePerformerState ops s pid sto = (Some ExErrStoreClosed, s) \<and> xsGetPerformerState ops s pid = Inl ExErrStoreClosed \<and>
      xsListPerformerStates ops s = Inl ExErrStoreClosed \<and> xsDeletePerformerState ops s pid = (Some ExErrStoreClosed, s) \<and>
      xsMarkTaskProcessed ops now s tid = (Some ExErrStoreClosed, s) \<and> xsIsTaskProcessed ops s tid = Inl ExErrStoreClosed"
    and close_closes: "invar s \<Longrightarrow> \<not> is_closed s \<Longrightarrow> \<exists>s'. xsClose ops s = (None, s') \<and> invar s' \<and> is_closed s'"
begin

lemma saved_is_listed:
  assumes "invar s" "\<not> is_closed s" "pid \<noteq> []" "pst_PerformerId st = pid" "persistable st"
    and "xsSavePerformerState ops s pid (Some st) = (e, s')" "xsListPerformerStates ops s' = Inr sts"
  shows "e = None \<and> st \<in> set sts"
proof -
  from savePerformer [OF assms(1-5)] assms(6) have s': "e = None" "invar s'" "\<not> is_closed s'" "performersOf s' pid = Some st"
    by auto
  with listPerformers [OF s'(2,3)] assms(7) show ?thesis by (auto simp: ran_def)
qed

end

text \<open>A store that remembers the tasks that were processed.\<close>

locale replay_log = performer_store +
  assumes remembers: "invar s \<Longrightarrow> \<not> is_closed s \<Longrightarrow> tid \<noteq> [] \<Longrightarrow> json_time_ok now \<Longrightarrow>
      xsMarkTaskProcessed ops now s tid = (e, s') \<Longrightarrow> e = None \<and> processedOf s' = insert tid (processedOf s)"

section \<open>The in-memory store implements the contract\<close>

definition mx_invar :: "mem_executor_store \<Rightarrow> bool" where
  "mx_invar s \<longleftrightarrow> gm_wf (mx_performerStates s) \<and>
     (\<forall>pid st. gm_get (mx_performerStates s) pid = Some st \<longrightarrow> pst_PerformerId st = pid)"

definition mx_performersOf :: "mem_executor_store \<Rightarrow> string \<Rightarrow> performer_state option" where
  "mx_performersOf s = gm_get (mx_performerStates s)"

lemma mx_invar_new [simp]: "mx_invar newInMemoryExecutorStore"
  by (simp add: mx_invar_def newInMemoryExecutorStore_def)

lemma mx_list:
  assumes "mx_invar s"
  shows "set (map snd (mx_performerStates s)) = ran (mx_performersOf s)"
    and "distinct (map pst_PerformerId (map snd (mx_performerStates s)))"
proof -
  from assms have wf: "gm_wf (mx_performerStates s)" by (simp add: mx_invar_def)
  then show "set (map snd (mx_performerStates s)) = ran (mx_performersOf s)"
    by (auto simp: mx_performersOf_def ran_def gm_mem_iff image_iff Bex_def)
  have "pst_PerformerId (snd x) = fst x" if "x \<in> set (mx_performerStates s)" for x
  proof -
    from that wf have "gm_get (mx_performerStates s) (fst x) = Some (snd x)" by (metis gm_mem_iff prod.collapse)
    with assms show ?thesis unfolding mx_invar_def by blast
  qed
  then have "map pst_PerformerId (map snd (mx_performerStates s)) = map fst (mx_performerStates s)" by simp
  with wf show "distinct (map pst_PerformerId (map snd (mx_performerStates s)))" unfolding gm_wf_def by metis
qed

interpretation mx: performer_store mx_ops mx_invar mx_closed mx_performersOf "\<lambda>s. {}"
proof (unfold_locales, goal_cases)
  case (1 s pid st) then show ?case by (simp add: mx_invar_def mx_performersOf_def)
next
  case (2 s pid st)
  then have "mx_SavePerformerState s pid (Some st) = (None, s\<lparr>mx_performerStates := gm_put (mx_performerStates s) pid st\<rparr>)"
    by (simp add: mx_SavePerformerState_def) (metis performer_state.surjective performer_state.update_convs(1))
  with 2 show ?case by (auto simp: mx_ops_def mx_invar_def mx_performersOf_def)
next
  case (3 s st pid e s')
  then show ?case by (auto simp: mx_ops_def mx_SavePerformerState_def mx_invar_def split: if_splits)
next
  case (4 s pid) then show ?case by (simp add: mx_ops_def mx_GetPerformerState_def mx_performersOf_def)
next
  case (5 s) then show ?case using mx_list [OF 5(1)] by (simp add: mx_ops_def mx_ListPerformerStates_def)
next
  case (6 s pid) then show ?case
    by (auto simp: mx_ops_def mx_DeletePerformerState_def mx_invar_def mx_performersOf_def)
next
  case (7 s pid) then show ?case by (simp add: mx_ops_def mx_DeletePerformerState_def mx_performersOf_def)
next
  case (8 s tid) then show ?case by (simp add: mx_ops_def mx_IsTaskProcessed_def)
next
  case (9 s now tid e s') then show ?case by (auto simp: mx_ops_def mx_MarkTaskProcessed_def split: if_splits)
next
  case (10 s pid sto now tid) then show ?case
    by (simp add: mx_ops_def mx_SavePerformerState_def mx_GetPerformerState_def mx_ListPerformerStates_def
        mx_DeletePerformerState_def mx_MarkTaskProcessed_def mx_IsTaskProcessed_def)
next
  case (11 s) then show ?case by (simp add: mx_ops_def mx_Close_def mx_invar_def)
qed

section \<open>The BadgerDB store implements both contracts\<close>

definition bx_invar :: "('db \<Rightarrow> string \<Rightarrow> xkv_value option) \<Rightarrow> 'db badger_executor_store \<Rightarrow> bool" where
  "bx_invar view s \<longleftrightarrow> (\<forall>pid v. view (bx_db s) (performerKey pid) = Some v \<longrightarrow>
     (\<exists>st. v = VPerformer st \<and> pst_PerformerId st = pid))"

definition bx_performersOf ::
  "('db \<Rightarrow> string \<Rightarrow> xkv_value option) \<Rightarrow> 'db badger_executor_store \<Rightarrow> string \<Rightarrow> performer_state option" where
  "bx_performersOf view s pid = (case view (bx_db s) (performerKey pid) of Some (VPerformer st) \<Rightarrow> Some st | _ \<Rightarrow> None)"

definition bx_processedOf :: "('db \<Rightarrow> string \<Rightarrow> xkv_value option) \<Rightarrow> 'db badger_executor_store \<Rightarrow> string set" where
  "bx_processedOf view s = {tid. view (bx_db s) (processedKey tid) \<noteq> None}"

lemma bx_performersOf_Some:
  "bx_performersOf view s pid = Some st \<longleftrightarrow> view (bx_db s) (performerKey pid) = Some (VPerformer st)"
  by (auto simp: bx_performersOf_def split: option.splits xkv_value.splits)

lemmas bx_abs = bx_invar_def bx_performersOf_def bx_processedOf_def

lemma xkey_simps [simp]:
  "performerKey a = performerKey b \<longleftrightarrow> a = b" "processedKey a = processedKey b \<longleftrightarrow> a = b"
  "performerKey a \<noteq> processedKey b" "processedKey a \<noteq> performerKey b"
  by (simp_all add: performerKey_def processedKey_def)

lemma bx_kv_simps:
  assumes "kv_ok kv view"
  shows "kv_get kv db k = (case view db k of None \<Rightarrow> Inl ErrKeyNotFound | Some v \<Rightarrow> Inr v)"
    and "\<exists>db'. kv_set kv db k v = Inr db' \<and> view db' = (view db)(k \<mapsto> v)"
    and "\<exists>db'. kv_delete kv db k = Inr db' \<and> view db' = (view db)(k := None)"
    and "bx_update kv s f = (case f (bx_db s) of Inl e \<Rightarrow> (Some e, s) | Inr db' \<Rightarrow> (None, s\<lparr>bx_db := db'\<rparr>))"
    and "kv_close kv db = None"
  using assms by (auto simp: kv_ok_def bx_update_def split: sum.splits)

lemma bx_list:
  assumes ok: "kv_ok kv view" and inv: "bx_invar view s" and "\<not> bx_closed s"
  shows "\<exists>sts. bx_ListPerformerStates kv s = Inr sts \<and> set sts = ran (bx_performersOf view s) \<and>
    distinct (map pst_PerformerId sts)"
proof -
  let ?items = "kv_iter kv (bx_db s) ''performer:''"
    and ?f = "\<lambda>item :: string \<times> xkv_value. case snd item of VPerformer st \<Rightarrow> Some st | _ \<Rightarrow> None"
  have items: "(k, v) \<in> set ?items \<longleftrightarrow> (\<exists>pid. k = performerKey pid \<and> view (bx_db s) k = Some v)" for k v
    by (auto simp: kv_ok_iter(1) [OF ok] performerKey_def prefix_def)
  have entry: "\<exists>st. v = VPerformer st \<and> k = performerKey (pst_PerformerId st)" if "(k, v) \<in> set ?items" for k v
    using that inv by (auto simp: items bx_invar_def)
  have "set (List.map_filter ?f ?items) = ran (bx_performersOf view s)"
  proof (rule set_eqI)
    fix st
    have "st \<in> set (List.map_filter ?f ?items) \<longleftrightarrow> (\<exists>k. (k, VPerformer st) \<in> set ?items)"
      by (force simp: map_filter_def split: xkv_value.splits)
    also have "\<dots> \<longleftrightarrow> (\<exists>pid. bx_performersOf view s pid = Some st)"
      by (auto simp: items bx_performersOf_Some)
    finally show "st \<in> set (List.map_filter ?f ?items) \<longleftrightarrow> st \<in> ran (bx_performersOf view s)" by (simp add: ran_def)
  qed
  moreover have "map performerKey (map pst_PerformerId (List.map_filter ?f xs)) = map fst xs" if "set xs \<subseteq> set ?items" for xs
    using that
  proof (induction xs)
    case (Cons x xs)
    then show ?case using entry [of "fst x" "snd x"] by (auto simp: map_filter_simps)
  qed (simp add: map_filter_simps)
  then have "distinct (map pst_PerformerId (List.map_filter ?f ?items))"
    using kv_ok_iter(2) [OF ok, of "bx_db s" "''performer:''"] by (metis distinct_map order_refl)
  ultimately show ?thesis using assms(3) by (simp add: bx_ListPerformerStates_def)
qed

lemma bx_replay_log:
  assumes ok: "kv_ok kv view"
  shows "replay_log (bx_ops kv) (bx_invar view) bx_closed (bx_performersOf view) (bx_processedOf view)"
proof (unfold_locales, goal_cases)
  case (1 s pid st) then show ?case by (auto simp: bx_abs split: option.splits xkv_value.splits)
next
  case (2 s pid st)
  obtain db' where "kv_set kv (bx_db s) (performerKey pid) (VPerformer st) = Inr db'"
    "view db' = (view (bx_db s))(performerKey pid \<mapsto> VPerformer st)" using bx_kv_simps(2) [OF ok] by blast
  with 2 show ?case by (auto simp: bx_ops_def bx_SavePerformerState_def bx_kv_simps(4) [OF ok] bx_abs fun_eq_iff)
next
  case (3 s st pid e s')
  obtain db' where "kv_set kv (bx_db s) (performerKey pid) (VPerformer st) = Inr db'"
    "view db' = (view (bx_db s))(performerKey pid \<mapsto> VPerformer st)" using bx_kv_simps(2) [OF ok] by blast
  with 3 show ?case
    by (auto simp: bx_ops_def bx_SavePerformerState_def bx_kv_simps(4) [OF ok] bx_abs split: if_splits)
next
  case (4 s pid) then show ?case
    by (auto simp: bx_ops_def bx_GetPerformerState_def bx_kv_simps(1) [OF ok] bx_abs split: option.splits xkv_value.splits)
next
  case (5 s) then show ?case using bx_list [OF ok] by (simp add: bx_ops_def)
next
  case (6 s pid)
  obtain db' where "kv_delete kv (bx_db s) (performerKey pid) = Inr db'"
    "view db' = (view (bx_db s))(performerKey pid := None)" using bx_kv_simps(3) [OF ok] by blast
  with 6 show ?case
    by (auto simp: bx_ops_def bx_DeletePerformerState_def bx_kv_simps(1,4) [OF ok] bx_abs fun_eq_iff split: option.splits)
next
  case (7 s pid)
  then have "view (bx_db s) (performerKey pid) = None" by (auto simp: bx_abs split: option.splits xkv_value.splits)
  with 7 show ?case by (simp add: bx_ops_def bx_DeletePerformerState_def bx_kv_simps(1,4) [OF ok])
next
  case (8 s tid) then show ?case
    by (auto simp: bx_ops_def bx_IsTaskProcessed_def bx_kv_simps(1) [OF ok] bx_abs split: option.splits)
next
  case (9 s now tid e s')
  obtain db' where "kv_set kv (bx_db s) (processedKey tid) (VProcessed \<lparr>pt_TaskId = tid, pt_ProcessedAt = now\<rparr>) = Inr db'"
    "view db' = (view (bx_db s))(processedKey tid \<mapsto> VProcessed \<lparr>pt_TaskId = tid, pt_ProcessedAt = now\<rparr>)"
    using bx_kv_simps(2) [OF ok] by blast
  with 9 show ?case
    by (auto simp: bx_ops_def bx_MarkTaskProcessed_def bx_kv_simps(4) [OF ok] bx_abs split: if_splits intro!: ext)
next
  case (10 s pid sto now tid) then show ?case
    by (simp add: bx_ops_def bx_SavePerformerState_def bx_GetPerformerState_def bx_ListPerformerStates_def
        bx_DeletePerformerState_def bx_MarkTaskProcessed_def bx_IsTaskProcessed_def)
next
  case (11 s) then show ?case by (simp add: bx_ops_def bx_Close_def bx_kv_simps(5) [OF ok] bx_invar_def)
next
  case (12 s tid now e s')
  obtain db' where "kv_set kv (bx_db s) (processedKey tid) (VProcessed \<lparr>pt_TaskId = tid, pt_ProcessedAt = now\<rparr>) = Inr db'"
    "view db' = (view (bx_db s))(processedKey tid \<mapsto> VProcessed \<lparr>pt_TaskId = tid, pt_ProcessedAt = now\<rparr>)"
    using bx_kv_simps(2) [OF ok] by blast
  with 12 show ?case by (auto simp: bx_ops_def bx_MarkTaskProcessed_def bx_kv_simps(4) [OF ok] bx_abs)
qed

interpretation bx: replay_log "bx_ops kv_alist" "bx_invar map_of" bx_closed "bx_performersOf map_of" "bx_processedOf map_of"
  by (rule bx_replay_log [OF kv_alist_ok])

end
