(* ===== verification/Container_Performer.thy ===== *)
theory Container_Performer
  imports Container_Types Executor_Store Auth
begin

text \<open>
  The performer of one AVS in Docker containers,
  \<open>ponos/pkg/executor/avsPerformer/avsContainerPerformer/containerPerformer.go\<close>, with the types of
  \<open>avsPerformer/avsPerformer.go\<close> and the helpers of \<open>containerManager/utils.go\<close>. A performer has a slot for
  the container in service and one for the next container; a deployment creates the next container, waits
  until it reports healthy and promotes it, and the container it replaces is drained and removed.

  \<open>*PerformerContainer\<close> values are shared between the slots and the monitoring goroutines, so they live
  in a heap, and the slots hold references. \<open>currentContainer\<close> is an \<open>atomic.Value\<close>: nothing stored yet
  (\<open>None\<close>), a \<open>nil\<close> pointer stored (\<open>Some None\<close>) or a container. The container manager (the Docker API) is
  a parameter; \<open>uuid.New()\<close> and the clock are arguments. The critical sections under
  \<open>performerContainersMu\<close> are the atomic operations.
\<close>

section \<open>Types\<close>

record kubernetes_env =
  ke_SecretName :: string
  ke_SecretKey :: string
  ke_ConfigMapName :: string
  ke_ConfigMapKey :: string

record performer_env =
  pv_Name :: string
  pv_Value :: string
  pv_ValueFromEnv :: string
  pv_KubernetesEnv :: "kubernetes_env option"

record performer_image =
  img_Repository :: string
  img_Tag :: string
  img_Digest :: string
  img_Envs :: "performer_env list"
  img_ServiceAccountName :: string

definition emptyImage :: performer_image where
  "emptyImage = \<lparr>img_Repository = [], img_Tag = [], img_Digest = [], img_Envs = [], img_ServiceAccountName = []\<rparr>"

datatype performer_status = PerformerHealthUnknown | PerformerHealthy | PerformerUnhealthy

record status_event =
  se_Status :: performer_status
  se_PerformerID :: string
  se_Message :: string

record performer_health =
  ph_ContainerIsHealthy :: bool
  ph_ApplicationIsHealthy :: bool
  ph_ConsecutiveFailures :: nat
  ph_LastHealthCheck :: time

record performer_metadata =
  pm_PerformerID :: string
  pm_AvsAddress :: string
  pm_ResourceID :: string
  pm_Status :: string
  pm_ArtifactRegistry :: string
  pm_ArtifactTag :: string
  pm_ArtifactDigest :: string
  pm_ContainerHealthy :: bool
  pm_ApplicationHealthy :: bool
  pm_LastHealthCheck :: time

record avs_performer_config =
  apc_AvsAddress :: string
  apc_Image :: performer_image
  apc_PerformerNetworkName :: string
  apc_ApplicationHealthCheckInterval :: duration

record performer_container =
  pc_performerID :: string
  pc_info :: container_info
  pc_client :: string
  pc_performerHealth :: performer_health
  pc_statusChan :: "status_event list"
  pc_statusDone :: bool
  pc_image :: performer_image
  pc_status :: string

text \<open>
  The container manager; the flag says whether the context passed to the call is done. An operation answers an error message or nothing, with the manager's next
  state \<open>'d\<close>. \<open>ev_*\<close> is the rest of the environment: the process environment, SHA-256 and
  \<open>NewAvsPerformerClient\<close>.
\<close>

record 'd container_manager =
  cmCreate :: "bool \<Rightarrow> 'd \<Rightarrow> container_config \<Rightarrow> (string, container_info) result \<times> 'd"
  cmStart :: "bool \<Rightarrow> 'd \<Rightarrow> string \<Rightarrow> string option \<times> 'd"
  cmWaitForRunning :: "bool \<Rightarrow> 'd \<Rightarrow> string \<Rightarrow> string option \<times> 'd"
  cmInspect :: "bool \<Rightarrow> 'd \<Rightarrow> string \<Rightarrow> (string, container_info) result"
  cmStop :: "'d \<Rightarrow> string \<Rightarrow> string option \<times> 'd"
  cmRemove :: "'d \<Rightarrow> string \<Rightarrow> string option \<times> 'd"
  cmStartLivenessMonitoring :: "bool \<Rightarrow> 'd \<Rightarrow> string \<Rightarrow> liveness_config \<Rightarrow> string option \<times> 'd"
  cmStopLivenessMonitoring :: "'d \<Rightarrow> string \<Rightarrow> 'd"
  cmTriggerRestart :: "'d \<Rightarrow> string \<Rightarrow> string \<Rightarrow> string option \<times> 'd"
  cmAdoptContainer :: "bool \<Rightarrow> 'd \<Rightarrow> string \<Rightarrow> liveness_config \<Rightarrow> string option \<times> 'd"
  ev_Getenv :: "string \<Rightarrow> string"
  ev_Sha256 :: "bytes \<Rightarrow> bytes"
  ev_NewAvsPerformerClient :: "string \<Rightarrow> string option"

record 'd container_performer =
  cp_config :: avs_performer_config
  cp_heap :: "performer_container list"
  cp_current :: "nat option option"
  cp_next :: "nat option"
  cp_taskWaitGroups :: "(string \<times> nat) list"
  cp_draining :: "string list"
  cp_drains :: "nat list"
  cp_deploying :: bool
  cp_docker :: 'd

datatype performer_error = CreateFailed string | StartFailed string | WaitFailed string | InspectFailed string
  | NoPortMapping | ClientFailed string | LivenessFailed string | NextExists string | InvalidCurrent
  | PerformerNotFound string | RemoveFailed string | NotInNextSlot string | CannotPromote string
  | NoCurrentContainer | ExecuteFailed string | DeploymentInProgress string | DeploymentTimeout
  | DeploymentCancelled | AdoptFailed string

section \<open>Container configuration\<close>

definition hashAvsAddress :: "'d container_manager \<Rightarrow> string \<Rightarrow> string" where
  "hashAvsAddress cm avsAddress = take 6 (hexEncodeToString (ev_Sha256 cm (stringBytes avsAddress)))"

definition internalContainerPort :: nat where
  "internalContainerPort = 8080"

definition createDefaultContainerConfig ::
  "'d container_manager \<Rightarrow> nat \<Rightarrow> string \<Rightarrow> string \<Rightarrow> string \<Rightarrow> string \<Rightarrow> nat \<Rightarrow> string \<Rightarrow> string list \<Rightarrow> container_config" where
  "createDefaultContainerConfig cm timestamp avsAddress imageRepo imageTag imageDigest containerPort networkName envs =
     \<lparr>cc_Hostname = ''avs-performer-'' @ hashAvsAddress cm avsAddress @ ''-'' @ dec timestamp,
      cc_Image = (if imageDigest \<noteq> [] then imageRepo @ ''@'' @ imageDigest else imageRepo @ '':'' @ imageTag),
      cc_Env = envs, cc_WorkingDir = [], cc_ExposedPorts = [dec containerPort @ ''/tcp''],
      cc_PortBindings = [(dec containerPort @ ''/tcp'', [(''0.0.0.0'', [])])], cc_NetworkName = networkName,
      cc_MemoryLimit = 0, cc_CPUShares = 0, cc_User = [], cc_Privileged = False, cc_ReadOnly = False,
      cc_AutoRemove = True, cc_RestartPolicy = ''no''\<rparr>"

definition getContainerEndpoint :: "container_info \<Rightarrow> nat \<Rightarrow> string \<Rightarrow> string option" where
  "getContainerEndpoint info containerPort networkName =
     (if networkName \<noteq> [] then Some (ci_Hostname info @ '':'' @ dec containerPort)
      else case gm_get (ci_Ports info) (dec containerPort @ ''/tcp'') of
        Some (hostPort # _) \<Rightarrow> Some (''localhost:'' @ hostPort)
      | _ \<Rightarrow> None)"

definition buildDockerEnvsFromConfig :: "'d container_manager \<Rightarrow> performer_image \<Rightarrow> string list" where
  "buildDockerEnvsFromConfig cm img = map (\<lambda>env.
     pv_Name env @ ''='' @ (if pv_ValueFromEnv env \<noteq> [] then ev_Getenv cm (pv_ValueFromEnv env) else pv_Value env))
     (img_Envs img)"

definition configFor :: "'d container_manager \<Rightarrow> nat \<Rightarrow> avs_performer_config \<Rightarrow> performer_image \<Rightarrow> container_config" where
  "configFor cm timestamp cfg img =
     createDefaultContainerConfig cm timestamp (apc_AvsAddress cfg) (img_Repository img) (img_Tag img)
       (img_Digest img) internalContainerPort (apc_PerformerNetworkName cfg) (buildDockerEnvsFromConfig cm img)"

section \<open>Creating and starting a container\<close>

definition generatePerformerID :: "avs_performer_config \<Rightarrow> string \<Rightarrow> string" where
  "generatePerformerID cfg uuid = ''performer-'' @ apc_AvsAddress cfg @ ''-'' @ uuid"

definition cleanupFailedContainer :: "'d container_manager \<Rightarrow> 'd \<Rightarrow> string \<Rightarrow> 'd" where
  "cleanupFailedContainer cm d containerID = snd (cmRemove cm d containerID)"

text \<open>
  Every failure after \<open>Create\<close> removes the container again. The container removed after a failing client
  or monitor is the one \<open>Inspect\<close> reported.
\<close>

definition createAndStartContainer ::
  "'d container_manager \<Rightarrow> bool \<Rightarrow> avs_performer_config \<Rightarrow> string \<Rightarrow> time \<Rightarrow> performer_image \<Rightarrow> container_config \<Rightarrow> 'd \<Rightarrow>
     (performer_error, performer_container) result \<times> 'd" where
  "createAndStartContainer cm ctxDone cfg uuid now img containerConfig d =
     (case cmCreate cm ctxDone d containerConfig of
        (Inl e, d1) \<Rightarrow> (Inl (CreateFailed e), d1)
      | (Inr containerInfo, d1) \<Rightarrow>
     (case cmStart cm ctxDone d1 (ci_ID containerInfo) of
        (Some e, d2) \<Rightarrow> (Inl (StartFailed e), cleanupFailedContainer cm d2 (ci_ID containerInfo))
      | (None, d2) \<Rightarrow>
     (case cmWaitForRunning cm ctxDone d2 (ci_ID containerInfo) of
        (Some e, d3) \<Rightarrow> (Inl (WaitFailed e), cleanupFailedContainer cm d3 (ci_ID containerInfo))
      | (None, d3) \<Rightarrow>
     (case cmInspect cm ctxDone d3 (ci_ID containerInfo) of
        Inl e \<Rightarrow> (Inl (InspectFailed e), cleanupFailedContainer cm d3 (ci_ID containerInfo))
      | Inr updatedInfo \<Rightarrow>
     (case getContainerEndpoint updatedInfo internalContainerPort (cc_NetworkName containerConfig) of
        None \<Rightarrow> (Inl NoPortMapping, cleanupFailedContainer cm d3 (ci_ID containerInfo))
      | Some endpoint \<Rightarrow>
     (case ev_NewAvsPerformerClient cm endpoint of
        Some e \<Rightarrow> (Inl (ClientFailed e), cleanupFailedContainer cm d3 (ci_ID updatedInfo))
      | None \<Rightarrow>
     (case cmStartLivenessMonitoring cm ctxDone d3 (ci_ID updatedInfo) newDefaultAvsPerformerLivenessConfig of
        (Some e, d4) \<Rightarrow> (Inl (LivenessFailed e), cleanupFailedContainer cm d4 (ci_ID updatedInfo))
      | (None, d4) \<Rightarrow>
          (Inr \<lparr>pc_performerID = generatePerformerID cfg uuid, pc_info = updatedInfo, pc_client = endpoint,
             pc_performerHealth = \<lparr>ph_ContainerIsHealthy = True, ph_ApplicationIsHealthy = False,
               ph_ConsecutiveFailures = 0, ph_LastHealthCheck = now\<rparr>,
             pc_statusChan = [], pc_statusDone = ctxDone, pc_image = img, pc_status = []\<rparr>, d4))))))))"

section \<open>The slots\<close>

abbreviation defaultApplicationHealthCheckInterval :: duration where
  "defaultApplicationHealthCheckInterval \<equiv> 15 * second"

definition newAvsContainerPerformer :: "avs_performer_config \<Rightarrow> 'd \<Rightarrow> 'd container_performer" where
  "newAvsContainerPerformer cfg d =
     \<lparr>cp_config = cfg\<lparr>apc_ApplicationHealthCheckInterval :=
        orDefault (apc_ApplicationHealthCheckInterval cfg) defaultApplicationHealthCheckInterval\<rparr>, cp_heap = [], cp_current = None, cp_next = None, cp_taskWaitGroups = [],
      cp_draining = [], cp_drains = [], cp_deploying = False, cp_docker = d\<rparr>"

abbreviation updContainer ::
  "nat \<Rightarrow> (performer_container \<Rightarrow> performer_container) \<Rightarrow> 'd container_performer \<Rightarrow> 'd container_performer" where
  "updContainer r f aps \<equiv> aps\<lparr>cp_heap := (cp_heap aps)[r := f (cp_heap aps ! r)]\<rparr>"

definition statusInService :: string where
  "statusInService = ''InService''"

definition statusStaged :: string where
  "statusStaged = ''Staged''"

definition performerInitialize ::
  "'d container_manager \<Rightarrow> bool \<Rightarrow> string \<Rightarrow> time \<Rightarrow> nat \<Rightarrow> 'd container_performer \<Rightarrow> performer_error option \<times> 'd container_performer" where
  "performerInitialize cm ctxDone uuid now timestamp aps =
     (let cfg = cp_config aps; img = apc_Image cfg
      in if img_Repository img = [] \<or> img_Tag img = [] then (None, aps)
      else case createAndStartContainer cm ctxDone cfg uuid now img (configFor cm timestamp cfg img) (cp_docker aps) of
        (Inl e, d) \<Rightarrow> (Some e, aps\<lparr>cp_docker := d\<rparr>)
      | (Inr c, d) \<Rightarrow>
          (None, aps\<lparr>cp_docker := d, cp_heap := cp_heap aps @ [c\<lparr>pc_status := statusInService\<rparr>],
            cp_current := Some (Some (length (cp_heap aps)))\<rparr>))"

record creation_result =
  cr_PerformerId :: string
  cr_ResourceId :: string
  cr_ref :: nat
  cr_Endpoint :: string
  cr_Hostname :: string

definition createPerformer ::
  "'d container_manager \<Rightarrow> bool \<Rightarrow> string \<Rightarrow> time \<Rightarrow> nat \<Rightarrow> performer_image \<Rightarrow> 'd container_performer \<Rightarrow>
     (performer_error, creation_result) result \<times> 'd container_performer" where
  "createPerformer cm ctxDone uuid now timestamp img aps =
     (case cp_next aps of
        Some r \<Rightarrow> (Inl (NextExists (pc_performerID (cp_heap aps ! r))), aps)
      | None \<Rightarrow>
          (case createAndStartContainer cm ctxDone (cp_config aps) uuid now img (configFor cm timestamp (cp_config aps) img)
                  (cp_docker aps) of
             (Inl e, d) \<Rightarrow> (Inl e, aps\<lparr>cp_docker := d\<rparr>)
           | (Inr c, d) \<Rightarrow>
               (let r = length (cp_heap aps);
                    endpoint = (case getContainerEndpoint (pc_info c) internalContainerPort
                      (apc_PerformerNetworkName (cp_config aps)) of None \<Rightarrow> [] | Some e \<Rightarrow> e)
                in (Inr \<lparr>cr_PerformerId = pc_performerID c, cr_ResourceId = ci_ID (pc_info c), cr_ref = r,
                      cr_Endpoint = endpoint, cr_Hostname = ci_Hostname (pc_info c)\<rparr>,
                    aps\<lparr>cp_docker := d, cp_heap := cp_heap aps @ [c\<lparr>pc_status := statusStaged\<rparr>], cp_next := Some r\<rparr>))))"

definition shutdownContainer :: "'d container_manager \<Rightarrow> performer_container \<Rightarrow> 'd \<Rightarrow> string option \<times> 'd" where
  "shutdownContainer cm c d =
     (let d1 = cmStopLivenessMonitoring cm d (ci_ID (pc_info c));
          d2 = snd (cmStop cm d1 (ci_ID (pc_info c)))
      in cmRemove cm d2 (ci_ID (pc_info c)))"

text \<open>The slot is cleared before the container is shut down; a \<open>nil\<close> pointer in the current slot is an error.\<close>

definition performerRemove ::
  "'d container_manager \<Rightarrow> string \<Rightarrow> 'd container_performer \<Rightarrow> performer_error option \<times> 'd container_performer" where
  "performerRemove cm performerID aps =
     (case cp_current aps of
        Some None \<Rightarrow> (Some InvalidCurrent, aps)
      | cur \<Rightarrow>
          (let target =
             (case cur of
                Some (Some r) \<Rightarrow> if pc_performerID (cp_heap aps ! r) = performerID
                  then Some (r, aps\<lparr>cp_current := Some None\<rparr>) else None
              | _ \<Rightarrow> None);
             target' = (case target of Some x \<Rightarrow> Some x | None \<Rightarrow>
               (case cp_next aps of
                  Some r \<Rightarrow> if pc_performerID (cp_heap aps ! r) = performerID then Some (r, aps\<lparr>cp_next := None\<rparr>) else None
                | None \<Rightarrow> None))
           in case target' of
             None \<Rightarrow> (Some (PerformerNotFound performerID), aps)
           | Some (r, aps1) \<Rightarrow>
               (let aps2 = updContainer r (\<lambda>c. c\<lparr>pc_statusDone := True\<rparr>) aps1;
                    (e, d) = shutdownContainer cm (cp_heap aps2 ! r) (cp_docker aps2)
                in (map_option RemoveFailed e, aps2\<lparr>cp_docker := d\<rparr>))))"

text \<open>\<open>cp_drains\<close> holds the containers of the draining goroutines that were started and have not finished.\<close>

definition startDrainAndRemove :: "nat \<Rightarrow> 'd container_performer \<Rightarrow> 'd container_performer" where
  "startDrainAndRemove r aps =
     (if pc_performerID (cp_heap aps ! r) \<in> set (cp_draining aps) then aps
      else aps\<lparr>cp_draining := cp_draining aps @ [pc_performerID (cp_heap aps ! r)], cp_drains := cp_drains aps @ [r]\<rparr>)"

definition performerPromote :: "string \<Rightarrow> 'd container_performer \<Rightarrow> performer_error option \<times> 'd container_performer" where
  "performerPromote performerID aps =
     (if (case cp_current aps of Some (Some r) \<Rightarrow> pc_performerID (cp_heap aps ! r) = performerID | _ \<Rightarrow> False) then (None, aps)
      else case cp_next aps of
        None \<Rightarrow> (Some (NotInNextSlot performerID), aps)
      | Some r \<Rightarrow>
          if pc_performerID (cp_heap aps ! r) \<noteq> performerID then (Some (NotInNextSlot performerID), aps)
          else if \<not> ph_ContainerIsHealthy (pc_performerHealth (cp_heap aps ! r)) \<or>
                  \<not> ph_ApplicationIsHealthy (pc_performerHealth (cp_heap aps ! r))
          then (Some (CannotPromote performerID), aps)
          else
            (let aps1 = (case cp_current aps of
                Some (Some old) \<Rightarrow> startDrainAndRemove old aps
              | _ \<Rightarrow> aps)
             in (None, (updContainer r (\<lambda>c. c\<lparr>pc_status := statusInService\<rparr>) aps1)
                  \<lparr>cp_current := Some (Some r), cp_next := None\<rparr>)))"

section \<open>Running tasks\<close>

record performer_task =
  ptk_TaskID :: string
  ptk_Avs :: string
  ptk_Payload :: bytes
  ptk_Signature :: bytes
  ptk_AggregatorAddress :: string
  ptk_OperatorSetId :: u32
  ptk_ReferenceTimestamp :: u32
  ptk_TaskBlockNumber :: u64

record performer_task_result =
  ptr_TaskID :: string
  ptr_Result :: bytes

text \<open>The conversion \<open>string(b)\<close> on ASCII bytes.\<close>

definition bytesString :: "bytes \<Rightarrow> string" where
  "bytesString bs = map (\<lambda>b. char_of (unat b)) bs"

definition newTaskResultFromResultProto :: "bytes \<times> bytes \<Rightarrow> performer_task_result" where
  "newTaskResultFromResultProto res = \<lparr>ptr_TaskID = bytesString (fst res), ptr_Result = snd res\<rparr>"

definition getOrCreateTaskWaitGroup :: "string \<Rightarrow> 'd container_performer \<Rightarrow> 'd container_performer" where
  "getOrCreateTaskWaitGroup performerID aps =
     (if gm_get (cp_taskWaitGroups aps) performerID = None
      then aps\<lparr>cp_taskWaitGroups := gm_put (cp_taskWaitGroups aps) performerID 0\<rparr> else aps)"

definition cleanupTaskWaitGroup :: "string \<Rightarrow> 'd container_performer \<Rightarrow> 'd container_performer" where
  "cleanupTaskWaitGroup performerID aps = aps\<lparr>cp_taskWaitGroups := gm_del (cp_taskWaitGroups aps) performerID\<rparr>"

text \<open>\<open>waitForTaskCompletion\<close> returns when no task is counted for the performer.\<close>

definition tasksComplete :: "string \<Rightarrow> 'd container_performer \<Rightarrow> bool" where
  "tasksComplete performerID aps \<longleftrightarrow> gm_get (cp_taskWaitGroups aps) performerID \<in> {None, Some 0}"

definition addTask :: "string \<Rightarrow> 'd container_performer \<Rightarrow> 'd container_performer" where
  "addTask performerID aps = aps\<lparr>cp_taskWaitGroups := AList.map_entry performerID Suc (cp_taskWaitGroups aps)\<rparr>"

definition doneTask :: "string \<Rightarrow> 'd container_performer \<Rightarrow> 'd container_performer" where
  "doneTask performerID aps = aps\<lparr>cp_taskWaitGroups := AList.map_entry performerID (\<lambda>n. n - 1) (cp_taskWaitGroups aps)\<rparr>"

text \<open>
  \<open>execute\<close> is the performer's \<open>ExecuteTask\<close> call on the container's client.
\<close>

definition performerRunTask ::
  "(string \<Rightarrow> bytes \<Rightarrow> bytes \<Rightarrow> (string, bytes \<times> bytes) result) \<Rightarrow> performer_task \<Rightarrow> 'd container_performer \<Rightarrow>
     (performer_error, performer_task_result) result \<times> 'd container_performer" where
  "performerRunTask execute task aps =
     (case cp_current aps of
        Some (Some r) \<Rightarrow>
          (let c = cp_heap aps ! r;
               aps1 = addTask (pc_performerID c) (getOrCreateTaskWaitGroup (pc_performerID c) aps);
               aps2 = doneTask (pc_performerID c) aps1
           in case execute (pc_client c) (stringBytes (ptk_TaskID task)) (ptk_Payload task) of
                Inl e \<Rightarrow> (Inl (ExecuteFailed e), aps2)
              | Inr res \<Rightarrow> (Inr (newTaskResultFromResultProto res), aps2))
      | _ \<Rightarrow> (Inl NoCurrentContainer, aps))"

section \<open>Draining, shutdown and listing\<close>

text \<open>The goroutine of \<open>startDrainAndRemove\<close> once the tasks of the performer have finished.\<close>

definition drainAndRemove :: "'d container_manager \<Rightarrow> nat \<Rightarrow> 'd container_performer \<Rightarrow> 'd container_performer" where
  "drainAndRemove cm r aps =
     (let c = cp_heap aps ! r;
          d = snd (shutdownContainer cm c (cp_docker aps))
      in cleanupTaskWaitGroup (pc_performerID c)
           (aps\<lparr>cp_docker := d, cp_draining := filter (\<lambda>p. p \<noteq> pc_performerID c) (cp_draining aps),
              cp_drains := remove1 r (cp_drains aps)\<rparr>))"

definition shutdownSlot :: "'d container_manager \<Rightarrow> nat \<Rightarrow> 'd container_performer \<Rightarrow> string option \<times> 'd container_performer" where
  "shutdownSlot cm r aps =
     (let c = cp_heap aps ! r; (e, d) = shutdownContainer cm c (cp_docker aps)
      in (e, cleanupTaskWaitGroup (pc_performerID c) (aps\<lparr>cp_docker := d\<rparr>)))"

definition performerShutdown :: "'d container_manager \<Rightarrow> 'd container_performer \<Rightarrow> string list \<times> 'd container_performer" where
  "performerShutdown cm aps =
     (let aps0 = aps\<lparr>cp_draining := []\<rparr>;
          (errs1, aps1) = (case cp_current aps0 of
            Some (Some r) \<Rightarrow> (case shutdownSlot cm r aps0 of (e, a) \<Rightarrow>
              (case e of None \<Rightarrow> [] | Some m \<Rightarrow> [m], a\<lparr>cp_current := Some None\<rparr>))
          | _ \<Rightarrow> ([], aps0));
          (errs2, aps2) = (case cp_next aps1 of
            Some r \<Rightarrow> (case shutdownSlot cm r aps1 of (e, a) \<Rightarrow>
              (case e of None \<Rightarrow> [] | Some m \<Rightarrow> [m], a\<lparr>cp_next := None\<rparr>))
          | None \<Rightarrow> ([], aps1))
      in (errs1 @ errs2, aps2))"

definition convertPerformerContainer :: "string \<Rightarrow> performer_container \<Rightarrow> performer_metadata" where
  "convertPerformerContainer avsAddress c =
     \<lparr>pm_PerformerID = pc_performerID c, pm_AvsAddress = avsAddress, pm_ResourceID = ci_ID (pc_info c),
      pm_Status = pc_status c, pm_ArtifactRegistry = img_Repository (pc_image c), pm_ArtifactTag = img_Tag (pc_image c),
      pm_ArtifactDigest = img_Digest (pc_image c), pm_ContainerHealthy = ph_ContainerIsHealthy (pc_performerHealth c),
      pm_ApplicationHealthy = ph_ApplicationIsHealthy (pc_performerHealth c),
      pm_LastHealthCheck = ph_LastHealthCheck (pc_performerHealth c)\<rparr>"

text \<open>A \<open>nil\<close> pointer in the current slot ends the listing before the next container.\<close>

definition performerList :: "'d container_performer \<Rightarrow> performer_metadata list" where
  "performerList aps =
     (let conv = (\<lambda>r. convertPerformerContainer (apc_AvsAddress (cp_config aps)) (cp_heap aps ! r));
          next' = (case cp_next aps of None \<Rightarrow> [] | Some r \<Rightarrow> [conv r])
      in case cp_current aps of
        None \<Rightarrow> next'
      | Some None \<Rightarrow> []
      | Some (Some r) \<Rightarrow> conv r # next')"

section \<open>Health monitoring\<close>

definition maxConsecutiveApplicationHealthFailures :: nat where
  "maxConsecutiveApplicationHealthFailures = 3"

text \<open>A non-blocking send on the buffered status channel of capacity 10.\<close>

definition sendStatus :: "performer_status \<Rightarrow> string \<Rightarrow> performer_container \<Rightarrow> performer_container" where
  "sendStatus st msg c =
     (if length (pc_statusChan c) < 10
      then c\<lparr>pc_statusChan := pc_statusChan c @ [\<lparr>se_Status = st, se_PerformerID = pc_performerID c, se_Message = msg\<rparr>]\<rparr>
      else c)"

abbreviation updHealth :: "(performer_health \<Rightarrow> performer_health) \<Rightarrow> performer_container \<Rightarrow> performer_container" where
  "updHealth f c \<equiv> c\<lparr>pc_performerHealth := f (pc_performerHealth c)\<rparr>"

text \<open>One round of the loop of \<open>performPeriodicApplicationHealthChecks\<close>; \<open>ok\<close> is the health check's outcome.\<close>

definition checkContainer ::
  "'d container_manager \<Rightarrow> time \<Rightarrow> (nat \<Rightarrow> bool) \<Rightarrow> nat \<Rightarrow> 'd container_performer \<Rightarrow> 'd container_performer" where
  "checkContainer cm now ok r aps =
     (let c = updHealth (\<lambda>h. h\<lparr>ph_LastHealthCheck := now\<rparr>) (cp_heap aps ! r)
      in if ok r then
           updContainer r (\<lambda>_. sendStatus PerformerHealthy ''Container is healthy and ready''
             (updHealth (\<lambda>h. h\<lparr>ph_ApplicationIsHealthy := True, ph_ConsecutiveFailures := 0\<rparr>) c)) aps
         else
           (let failures = Suc (ph_ConsecutiveFailures (pc_performerHealth c))
            in if maxConsecutiveApplicationHealthFailures \<le> failures then
                 (updContainer r (\<lambda>_. sendStatus PerformerUnhealthy
                   (''Container unhealthy after '' @ dec failures @ '' consecutive health check failures'')
                   (updHealth (\<lambda>h. h\<lparr>ph_ApplicationIsHealthy := False, ph_ConsecutiveFailures := 0\<rparr>) c)) aps)
                   \<lparr>cp_docker := snd (cmTriggerRestart cm (cp_docker aps) (ci_ID (pc_info c))
                     (''application health check failed '' @ dec failures @ '' consecutive times''))\<rparr>
               else updContainer r (\<lambda>_.
                 updHealth (\<lambda>h. h\<lparr>ph_ApplicationIsHealthy := False, ph_ConsecutiveFailures := failures\<rparr>) c) aps))"

text \<open>
  The result is \<open>None\<close> when the current slot holds a \<open>nil\<close> pointer, on which
  \<open>currentContainer.performerHealth\<close> panics.
\<close>

definition performPeriodicApplicationHealthChecks ::
  "'d container_manager \<Rightarrow> time \<Rightarrow> (nat \<Rightarrow> bool) \<Rightarrow> 'd container_performer \<Rightarrow> 'd container_performer option" where
  "performPeriodicApplicationHealthChecks cm now ok aps =
     (let healthy = (\<lambda>r. ph_ContainerIsHealthy (pc_performerHealth (cp_heap aps ! r)));
          next' = (case cp_next aps of Some r \<Rightarrow> if healthy r then [r] else [] | None \<Rightarrow> [])
      in case cp_current aps of
        None \<Rightarrow> Some (fold (checkContainer cm now ok) next' aps)
      | Some None \<Rightarrow> None
      | Some (Some r) \<Rightarrow> Some (fold (checkContainer cm now ok) ((if healthy r then [r] else []) @ next') aps))"

section \<open>Container events\<close>

text \<open>
  \<open>ctx\<close> is the context of the monitor, which is the status context of the container itself, so
  recreating the container first ends the context it then creates the new container with.
\<close>

definition recreateContainer ::
  "'d container_manager \<Rightarrow> string \<Rightarrow> time \<Rightarrow> nat \<Rightarrow> nat \<Rightarrow> 'd container_performer \<Rightarrow> 'd container_performer" where
  "recreateContainer cm uuid now timestamp r aps =
     (let d0 = cmStopLivenessMonitoring cm (cp_docker aps) (ci_ID (pc_info (cp_heap aps ! r)));
          aps1 = (updContainer r (\<lambda>c. c\<lparr>pc_statusDone := True\<rparr>) aps)\<lparr>cp_docker := d0\<rparr>;
          c = cp_heap aps1 ! r;
          cfg = cp_config aps
      in case createAndStartContainer cm (pc_statusDone c) cfg uuid now (pc_image c)
                (configFor cm timestamp cfg (pc_image c)) d0 of
           (Inl e, d) \<Rightarrow> aps1\<lparr>cp_docker := d\<rparr>
         | (Inr c', d) \<Rightarrow>
             (updContainer r (\<lambda>c. c\<lparr>pc_info := pc_info c', pc_client := pc_client c',
                pc_performerHealth := pc_performerHealth c', pc_statusChan := pc_statusChan c',
                pc_statusDone := pc_statusDone c'\<rparr>) aps1)\<lparr>cp_docker := d\<rparr>)"

definition recreatePerformerClientForContainer ::
  "'d container_manager \<Rightarrow> nat \<Rightarrow> 'd container_performer \<Rightarrow> 'd container_performer" where
  "recreatePerformerClientForContainer cm r aps =
     (let c = cp_heap aps ! r
      in case cmInspect cm (pc_statusDone c) (cp_docker aps) (ci_ID (pc_info c)) of
           Inl e \<Rightarrow> aps
         | Inr info \<Rightarrow>
             (case getContainerEndpoint info internalContainerPort (apc_PerformerNetworkName (cp_config aps)) of
                None \<Rightarrow> aps
              | Some endpoint \<Rightarrow>
                  (case ev_NewAvsPerformerClient cm endpoint of
                     Some e \<Rightarrow> aps
                   | None \<Rightarrow> updContainer r (\<lambda>c. c\<lparr>pc_client := endpoint\<rparr>) aps)))"

definition markUnhealthy :: "performer_container \<Rightarrow> performer_container" where
  "markUnhealthy = updHealth (\<lambda>h. h\<lparr>ph_ContainerIsHealthy := False, ph_ApplicationIsHealthy := False\<rparr>)"

definition handleContainerEvent ::
  "'d container_manager \<Rightarrow> string \<Rightarrow> time \<Rightarrow> nat \<Rightarrow> container_event \<Rightarrow> nat \<Rightarrow> 'd container_performer \<Rightarrow> 'd container_performer" where
  "handleContainerEvent cm uuid now timestamp event r aps =
     (let unhealthy = updContainer r markUnhealthy aps;
          notify = (\<lambda>a. updContainer r (sendStatus PerformerUnhealthy ''Container is unhealthy'') a)
      in case ce_Type event of
           EventStarted \<Rightarrow> updContainer r (updHealth (\<lambda>h. h\<lparr>ph_ContainerIsHealthy := True\<rparr>)) aps
         | EventHealthy \<Rightarrow> updContainer r (updHealth (\<lambda>h. h\<lparr>ph_ContainerIsHealthy := True\<rparr>)) aps
         | EventRestarted \<Rightarrow> notify (recreatePerformerClientForContainer cm r
             (updContainer r (updHealth (\<lambda>h. h\<lparr>ph_ConsecutiveFailures := 0\<rparr>)) unhealthy))
         | EventRestartFailed \<Rightarrow> notify (if sublist ''recreation needed'' (ce_Message event)
             then recreateContainer cm uuid now timestamp r unhealthy else unhealthy)
         | EventStopped \<Rightarrow> notify aps
         | _ \<Rightarrow> notify unhealthy)"

section \<open>Deployment\<close>

text \<open>
  While \<open>Deploy\<close> waits, the monitor of the new container handles ticks of the health check and container
  events, and the waiting loop receives from the status channel until its context ends. The sequence of
  these steps is an argument.
\<close>

datatype wait_event =
    HealthTick time "nat \<Rightarrow> bool"
  | MonitorEvent container_event string time nat
  | ReceiveStatus
  | WaitDeadline
  | WaitCancelled

datatype wait_outcome = WaitHealthy | WaitError performer_error | WaitPending | WaitPanic

text \<open>\<open>waitForHealthy\<close> together with the monitor, for the container \<open>r\<close>.\<close>

fun waitForHealthy ::
  "'d container_manager \<Rightarrow> nat \<Rightarrow> wait_event list \<Rightarrow> 'd container_performer \<Rightarrow> wait_outcome \<times> 'd container_performer" where
  "waitForHealthy cm r [] aps = (WaitPending, aps)"
| "waitForHealthy cm r (HealthTick now ok # evs) aps =
     (case performPeriodicApplicationHealthChecks cm now ok aps of
        None \<Rightarrow> (WaitPanic, aps)
      | Some aps' \<Rightarrow> waitForHealthy cm r evs aps')"
| "waitForHealthy cm r (MonitorEvent event uuid now timestamp # evs) aps =
     waitForHealthy cm r evs (handleContainerEvent cm uuid now timestamp event r aps)"
| "waitForHealthy cm r (ReceiveStatus # evs) aps =
     (case pc_statusChan (cp_heap aps ! r) of
        [] \<Rightarrow> waitForHealthy cm r evs aps
      | st # rest \<Rightarrow>
          (let aps' = updContainer r (\<lambda>c. c\<lparr>pc_statusChan := rest\<rparr>) aps
           in if se_Status st = PerformerHealthy then (WaitHealthy, aps') else waitForHealthy cm r evs aps'))"
| "waitForHealthy cm r (WaitDeadline # evs) aps = (WaitError DeploymentTimeout, aps)"
| "waitForHealthy cm r (WaitCancelled # evs) aps = (WaitError DeploymentCancelled, aps)"

record deployment_result =
  dr_Id :: string
  dr_PerformerId :: string
  dr_ResourceId :: string
  dr_StartTime :: time
  dr_EndTime :: time
  dr_Message :: string
  dr_Endpoint :: string
  dr_Hostname :: string

text \<open>
  The end of \<open>Deploy\<close>, once \<open>waitForHealthy\<close> has returned. The deferred \<open>cancel\<close> of the deployment's
  context ends the status context of the container that was created under it; the deferred unlock frees
  the deployment lock.
\<close>

definition deployEnd :: "nat \<Rightarrow> 'd container_performer \<Rightarrow> 'd container_performer" where
  "deployEnd r aps = (updContainer r (\<lambda>c. c\<lparr>pc_statusDone := True\<rparr>) aps)\<lparr>cp_deploying := False\<rparr>"

definition deployFinish ::
  "'d container_manager \<Rightarrow> string \<Rightarrow> time \<Rightarrow> time \<Rightarrow> creation_result \<Rightarrow> performer_error option \<Rightarrow> 'd container_performer \<Rightarrow>
     (performer_error, deployment_result) result \<times> 'd container_performer" where
  "deployFinish cm deploymentId start now cr waited aps =
     (case waited of
        Some e \<Rightarrow> (Inl e, deployEnd (cr_ref cr) (snd (performerRemove cm (cr_PerformerId cr) aps)))
      | None \<Rightarrow>
          (case performerPromote (cr_PerformerId cr) aps of
             (Some e, aps1) \<Rightarrow> (Inl e, deployEnd (cr_ref cr) (snd (performerRemove cm (cr_PerformerId cr) aps1)))
           | (None, aps1) \<Rightarrow>
               (Inr \<lparr>dr_Id = deploymentId, dr_PerformerId = cr_PerformerId cr, dr_ResourceId = cr_ResourceId cr,
                  dr_StartTime = start, dr_EndTime = now, dr_Message = ''Deployment completed successfully'',
                  dr_Endpoint = cr_Endpoint cr, dr_Hostname = cr_Hostname cr\<rparr>, deployEnd (cr_ref cr) aps1)))"

datatype 'd deploy_outcome =
    DeployReturned "(performer_error, deployment_result) result" "'d container_performer"
  | DeployPending "'d container_performer"
  | DeployPanic "'d container_performer"

definition performerDeploy ::
  "'d container_manager \<Rightarrow> bool \<Rightarrow> string \<Rightarrow> string \<Rightarrow> time \<Rightarrow> nat \<Rightarrow> time \<Rightarrow> wait_event list \<Rightarrow> performer_image \<Rightarrow>
     'd container_performer \<Rightarrow> 'd deploy_outcome" where
  "performerDeploy cm ctxDone uuid uuid' start timestamp now evs img aps =
     (if cp_deploying aps then DeployReturned (Inl (DeploymentInProgress (apc_AvsAddress (cp_config aps)))) aps
      else let deploymentId = ''deployment-'' @ apc_AvsAddress (cp_config aps) @ ''-'' @ uuid
      in case createPerformer cm ctxDone uuid' start timestamp img (aps\<lparr>cp_deploying := True\<rparr>) of
           (Inl e, aps1) \<Rightarrow> DeployReturned (Inl e) (aps1\<lparr>cp_deploying := False\<rparr>)
         | (Inr cr, aps1) \<Rightarrow>
             (case waitForHealthy cm (cr_ref cr) evs aps1 of
                (WaitPending, aps2) \<Rightarrow> DeployPending aps2
              | (WaitPanic, aps2) \<Rightarrow> DeployPanic aps2
              | (WaitHealthy, aps2) \<Rightarrow> (case deployFinish cm deploymentId start now cr None aps2 of (res, aps3) \<Rightarrow> DeployReturned res aps3)
              | (WaitError e, aps2) \<Rightarrow> (case deployFinish cm deploymentId start now cr (Some e) aps2 of (res, aps3) \<Rightarrow> DeployReturned res aps3)))"

section \<open>Rehydration\<close>

definition rehydrationLivenessConfig :: "avs_performer_config \<Rightarrow> liveness_config" where
  "rehydrationLivenessConfig cfg = zeroLivenessConfig\<lparr>
     lc_HealthCheckConfig := zeroHealthCheckConfig\<lparr>hcc_Enabled := True,
       hcc_Interval := apc_ApplicationHealthCheckInterval cfg,
       hcc_FailureThreshold := int maxConsecutiveApplicationHealthFailures\<rparr>,
     lc_RestartPolicy := buildRestartPolicy (Some zeroRestartPolicy)\<rparr>"

definition rehydrateFromState ::
  "'d container_manager \<Rightarrow> bool \<Rightarrow> performer_state \<Rightarrow> 'd container_performer \<Rightarrow> performer_error option \<times> 'd container_performer" where
  "rehydrateFromState cm ctxDone state aps =
     (case cmAdoptContainer cm ctxDone (cp_docker aps) (pst_ResourceId state) (rehydrationLivenessConfig (cp_config aps)) of
        (Some e, d1) \<Rightarrow> (Some (AdoptFailed e), aps\<lparr>cp_docker := d1\<rparr>)
      | (None, d1) \<Rightarrow>
     (case cmInspect cm ctxDone d1 (pst_ResourceId state) of
        Inl e \<Rightarrow> (Some (InspectFailed e), aps\<lparr>cp_docker := d1\<rparr>)
      | Inr containerInfo \<Rightarrow>
     (case ev_NewAvsPerformerClient cm (pst_ContainerEndpoint state) of
        Some e \<Rightarrow> (Some (ClientFailed e), aps\<lparr>cp_docker := cmStopLivenessMonitoring cm d1 (pst_ResourceId state)\<rparr>)
      | None \<Rightarrow>
     (case cmStartLivenessMonitoring cm ctxDone d1 (pst_ResourceId state) (rehydrationLivenessConfig (cp_config aps)) of
        (Some e, d2) \<Rightarrow> (Some (LivenessFailed e), aps\<lparr>cp_docker := d2\<rparr>)
      | (None, d2) \<Rightarrow>
          (None, aps\<lparr>cp_docker := d2,
             cp_heap := cp_heap aps @ [\<lparr>pc_performerID = pst_PerformerId state, pc_info = containerInfo,
               pc_client = pst_ContainerEndpoint state,
               pc_performerHealth = \<lparr>ph_ContainerIsHealthy = pst_ContainerHealthy state,
                 ph_ApplicationIsHealthy = pst_ApplicationHealthy state, ph_ConsecutiveFailures = 0,
                 ph_LastHealthCheck = pst_LastHealthCheck state\<rparr>,
               pc_statusChan = [], pc_statusDone = ctxDone,
               pc_image = \<lparr>img_Repository = pst_ArtifactRegistry state, img_Tag = pst_ArtifactTag state,
                 img_Digest = pst_ArtifactDigest state,
                 img_Envs = map (\<lambda>r. \<lparr>pv_Name = ev_Name r, pv_Value = ev_Value r, pv_ValueFromEnv = ev_ValueFromEnv r,
                   pv_KubernetesEnv = None\<rparr>) (pst_EnvironmentVars state),
                 img_ServiceAccountName = []\<rparr>,
               pc_status = pst_Status state\<rparr>],
             cp_current := Some (Some (length (cp_heap aps))),
             cp_taskWaitGroups := gm_put (cp_taskWaitGroups aps) (pst_PerformerId state) 0\<rparr>)))))"

end
