(* ===== verification/Performer_Theorems.thy ===== *)
theory Performer_Theorems
  imports Container_Performer
begin

text \<open>
  Properties of the container performer: the slots stay consistent whatever operations run, a deployment
  takes effect completely or not at all, and a performer whose container was removed cannot be deployed
  again.
\<close>

section \<open>What the container manager promises\<close>

text \<open>
  \<open>containersOf\<close> are the containers the manager knows. \<open>Create\<close> adds a fresh one, unless it fails or its
  context is done; a removal that succeeds takes a container away; the other calls create nothing. Docker
  removes an auto-removed container when it stops, so they may lose containers. That removals succeed at
  all is a separate hypothesis, for the claims that need it.
\<close>

definition cm_ok :: "'d container_manager \<Rightarrow> ('d \<Rightarrow> string set) \<Rightarrow> bool" where
  "cm_ok cm containersOf \<longleftrightarrow>
     (\<forall>d cfg. case cmCreate cm False d cfg of
        (Inl _, d') \<Rightarrow> containersOf d' \<subseteq> containersOf d
      | (Inr info, d') \<Rightarrow> ci_ID info \<notin> containersOf d \<and> containersOf d' \<subseteq> insert (ci_ID info) (containersOf d)) \<and>
     (\<forall>d cfg. \<exists>e d'. cmCreate cm True d cfg = (Inl e, d') \<and> containersOf d' \<subseteq> containersOf d) \<and>
     (\<forall>b d i. containersOf (snd (cmStart cm b d i)) \<subseteq> containersOf d) \<and>
     (\<forall>b d i. containersOf (snd (cmWaitForRunning cm b d i)) \<subseteq> containersOf d) \<and>
     (\<forall>b d i info. cmInspect cm b d i = Inr info \<longrightarrow> ci_ID info = i) \<and>
     (\<forall>d i. containersOf (snd (cmStop cm d i)) \<subseteq> containersOf d) \<and>
     (\<forall>d i. containersOf (snd (cmRemove cm d i)) \<subseteq> containersOf d \<and>
        (fst (cmRemove cm d i) = None \<longrightarrow> i \<notin> containersOf (snd (cmRemove cm d i)))) \<and>
     (\<forall>b d i lc. containersOf (snd (cmStartLivenessMonitoring cm b d i lc)) \<subseteq> containersOf d) \<and>
     (\<forall>d i. containersOf (cmStopLivenessMonitoring cm d i) \<subseteq> containersOf d) \<and>
     (\<forall>d i reason. containersOf (snd (cmTriggerRestart cm d i reason)) \<subseteq> containersOf d)"

definition removals_succeed :: "'d container_manager \<Rightarrow> bool" where
  "removals_succeed cm \<longleftrightarrow> (\<forall>d i. fst (cmRemove cm d i) = None)"

lemma cm_okD:
  assumes "cm_ok cm containersOf"
  shows "cmCreate cm False d cfg = (Inl e, d') \<Longrightarrow> containersOf d' \<subseteq> containersOf d"
    and "cmCreate cm False d cfg = (Inr info, d') \<Longrightarrow>
      ci_ID info \<notin> containersOf d \<and> containersOf d' \<subseteq> insert (ci_ID info) (containersOf d)"
    and "\<exists>e d'. cmCreate cm True d cfg = (Inl e, d') \<and> containersOf d' \<subseteq> containersOf d"
    and "cmStart cm b d i = (x, d') \<Longrightarrow> containersOf d' \<subseteq> containersOf d"
    and "cmWaitForRunning cm b d i = (x, d') \<Longrightarrow> containersOf d' \<subseteq> containersOf d"
    and "cmInspect cm b d i = Inr info \<Longrightarrow> ci_ID info = i"
    and "cmStop cm d i = (x, d') \<Longrightarrow> containersOf d' \<subseteq> containersOf d"
    and "cmRemove cm d i = (x, d') \<Longrightarrow> containersOf d' \<subseteq> containersOf d \<and> (removals_succeed cm \<longrightarrow> i \<notin> containersOf d')"
    and "cmStartLivenessMonitoring cm b d i lc = (x, d') \<Longrightarrow> containersOf d' \<subseteq> containersOf d"
    and "containersOf (cmStopLivenessMonitoring cm d i) \<subseteq> containersOf d"
    and "cmTriggerRestart cm d i reason = (x, d') \<Longrightarrow> containersOf d' \<subseteq> containersOf d"
proof -
  note parts = assms [unfolded cm_ok_def]
  show "cmCreate cm False d cfg = (Inl e, d') \<Longrightarrow> containersOf d' \<subseteq> containersOf d"
    using parts [THEN conjunct1] by (metis (no_types, lifting) case_prod_conv sum.case(1))
  show "cmCreate cm False d cfg = (Inr info, d') \<Longrightarrow>
      ci_ID info \<notin> containersOf d \<and> containersOf d' \<subseteq> insert (ci_ID info) (containersOf d)"
    using parts [THEN conjunct1] by (metis (no_types, lifting) case_prod_conv sum.case(2))
  show "\<exists>e d'. cmCreate cm True d cfg = (Inl e, d') \<and> containersOf d' \<subseteq> containersOf d"
    using parts [THEN conjunct2, THEN conjunct1] by blast
  show "cmStart cm b d i = (x, d') \<Longrightarrow> containersOf d' \<subseteq> containersOf d" using parts by (metis snd_conv)
  show "cmWaitForRunning cm b d i = (x, d') \<Longrightarrow> containersOf d' \<subseteq> containersOf d" using parts by (metis snd_conv)
  show "cmInspect cm b d i = Inr info \<Longrightarrow> ci_ID info = i" using parts by metis
  show "cmStop cm d i = (x, d') \<Longrightarrow> containersOf d' \<subseteq> containersOf d" using parts by (metis snd_conv)
  show "cmRemove cm d i = (x, d') \<Longrightarrow> containersOf d' \<subseteq> containersOf d \<and> (removals_succeed cm \<longrightarrow> i \<notin> containersOf d')"
    using parts unfolding removals_succeed_def by (metis snd_conv)
  show "cmStartLivenessMonitoring cm b d i lc = (x, d') \<Longrightarrow> containersOf d' \<subseteq> containersOf d" using parts by (metis snd_conv)
  show "containersOf (cmStopLivenessMonitoring cm d i) \<subseteq> containersOf d" using parts by blast
  show "cmTriggerRestart cm d i reason = (x, d') \<Longrightarrow> containersOf d' \<subseteq> containersOf d" using parts by (metis snd_conv)
qed

lemma createAndStart_effect:
  assumes ok: "cm_ok cm containersOf"
    and "createAndStartContainer cm False cfg uuid now img cconf d = (r, d')"
  shows "(case r of
      Inl _ \<Rightarrow> removals_succeed cm \<longrightarrow> containersOf d' \<subseteq> containersOf d
    | Inr c \<Rightarrow> containersOf d' \<subseteq> insert (ci_ID (pc_info c)) (containersOf d) \<and> ci_ID (pc_info c) \<notin> containersOf d \<and>
        pc_performerID c = generatePerformerID cfg uuid \<and> pc_image c = img \<and> pc_statusChan c = [] \<and> \<not> pc_statusDone c)"
proof -
  note d = cm_okD [OF ok]
  obtain x d1 where create: "cmCreate cm False d cconf = (x, d1)" by fastforce
  show ?thesis
  proof (cases x)
    case (Inl e)
    with create assms(2) d(1) show ?thesis by (auto simp: createAndStartContainer_def)
  next
    case (Inr info)
    from d(2) [OF create [unfolded Inr]]
    have fresh: "ci_ID info \<notin> containersOf d" "containersOf d1 \<subseteq> insert (ci_ID info) (containersOf d)" by auto
    obtain s d2 where start: "cmStart cm False d1 (ci_ID info) = (s, d2)" by fastforce
    obtain w d3 where wait: "cmWaitForRunning cm False d2 (ci_ID info) = (w, d3)" by fastforce
    have sub: "containersOf d2 \<subseteq> insert (ci_ID info) (containersOf d)" "containersOf d3 \<subseteq> insert (ci_ID info) (containersOf d)"
      using d(4) [OF start] d(5) [OF wait] fresh(2) by blast+
    have clean: "removals_succeed cm \<longrightarrow> containersOf (cleanupFailedContainer cm d0 (ci_ID info)) \<subseteq> containersOf d"
      if "containersOf d0 \<subseteq> insert (ci_ID info) (containersOf d)" for d0
      using d(8) [of d0 "ci_ID info" "fst (cmRemove cm d0 (ci_ID info))" "snd (cmRemove cm d0 (ci_ID info))"] that
      by (auto simp: cleanupFailedContainer_def)
    have insp: "ci_ID info' = ci_ID info" if "cmInspect cm False d3 (ci_ID info) = Inr info'" for info'
      using d(6) that by blast
    obtain l d4 where live: "cmStartLivenessMonitoring cm False d3 (ci_ID info) newDefaultAvsPerformerLivenessConfig = (l, d4)" by fastforce
    have sub4: "containersOf d4 \<subseteq> insert (ci_ID info) (containersOf d)" using d(9) [OF live] sub(2) by blast
    note run = assms(2) [unfolded createAndStartContainer_def create Inr, simplified]
    show ?thesis
    proof (cases s; cases w)
      fix e assume "s = Some e"
      with run start clean [OF sub(1)] show ?thesis by auto
    next
      fix e assume "s = Some e"
      with run start clean [OF sub(1)] show ?thesis by auto
    next
      fix e assume "s = None" "w = Some e"
      with run start wait clean [OF sub(2)] show ?thesis by auto
    next
      assume "s = None" "w = None"
      note run = run start wait this
      show ?thesis
      proof (cases "cmInspect cm False d3 (ci_ID info)")
        case (Inl e)
        with run clean [OF sub(2)] show ?thesis by auto
      next
        case (Inr info')
        show ?thesis
          using run Inr live clean [OF sub(2)] clean [OF sub4] sub4 fresh(1) insp [OF Inr]
          by (cases l; cases "getContainerEndpoint info' internalContainerPort (cc_NetworkName cconf)";
              cases "ev_NewAvsPerformerClient cm (the (getContainerEndpoint info' internalContainerPort (cc_NetworkName cconf)))") auto
      qed
    qed
  qed
qed

section \<open>Monitoring leaves the slots alone\<close>

text \<open>
  What health checks and container events keep: everything but the health, the clients, the status
  channels and contexts of containers.
\<close>

definition core :: "performer_container \<Rightarrow> string \<times> string \<times> performer_image \<times> string" where
  "core c = (pc_performerID c, ci_ID (pc_info c), pc_image c, pc_status c)"

definition monitored :: "('d \<Rightarrow> string set) \<Rightarrow> 'd container_performer \<Rightarrow> 'd container_performer \<Rightarrow> bool" where
  "monitored containersOf aps aps' \<longleftrightarrow>
     cp_config aps' = cp_config aps \<and> cp_current aps' = cp_current aps \<and> cp_next aps' = cp_next aps \<and>
     cp_taskWaitGroups aps' = cp_taskWaitGroups aps \<and> cp_draining aps' = cp_draining aps \<and>
     cp_drains aps' = cp_drains aps \<and> cp_deploying aps' = cp_deploying aps \<and>
     map core (cp_heap aps') = map core (cp_heap aps) \<and> containersOf (cp_docker aps') \<subseteq> containersOf (cp_docker aps)"

lemma monitored_refl [simp]: "monitored f aps aps"
  by (simp add: monitored_def)

lemma monitored_trans: "monitored f a b \<Longrightarrow> monitored f b c \<Longrightarrow> monitored f a c"
  by (auto simp: monitored_def)

lemma monitored_upd:
  "(\<And>c. core (f c) = core c) \<Longrightarrow> monitored g aps (updContainer r f aps)"
  by (cases "r < length (cp_heap aps)") (simp_all add: monitored_def map_update list_update_same_conv list_update_beyond not_less)

lemma core_simps [simp]:
  "core (sendStatus st msg c) = core c" "core (markUnhealthy c) = core c"
  "core (c\<lparr>pc_performerHealth := h\<rparr>) = core c" "core (c\<lparr>pc_statusDone := b\<rparr>) = core c"
  "core (c\<lparr>pc_client := x\<rparr>) = core c" "core (c\<lparr>pc_statusChan := q\<rparr>) = core c"
  by (simp_all add: core_def sendStatus_def markUnhealthy_def)

lemma monitored_heap:
  assumes "monitored f aps aps'"
  shows "length (cp_heap aps') = length (cp_heap aps)"
    and "r < length (cp_heap aps) \<Longrightarrow> core (cp_heap aps' ! r) = core (cp_heap aps ! r)"
proof -
  from assms have m: "map core (cp_heap aps') = map core (cp_heap aps)" by (simp add: monitored_def)
  then show "length (cp_heap aps') = length (cp_heap aps)" by (rule map_eq_imp_length_eq)
  then show "core (cp_heap aps' ! r) = core (cp_heap aps ! r)" if "r < length (cp_heap aps)"
    using m that by (metis nth_map)
qed

lemma monitored_docker: "containersOf d \<subseteq> containersOf (cp_docker aps) \<Longrightarrow> monitored containersOf aps (aps\<lparr>cp_docker := d\<rparr>)"
  by (simp add: monitored_def)

lemma monitored_checkContainer:
  assumes "cm_ok cm containersOf"
  shows "monitored containersOf aps (checkContainer cm now ok r aps)"
proof -
  have core: "core (let c = updHealth (\<lambda>h. h\<lparr>ph_LastHealthCheck := now\<rparr>) (cp_heap aps ! r) in c) = core (cp_heap aps ! r)" by simp
  have upd: "monitored containersOf aps (aps\<lparr>cp_heap := (cp_heap aps)[r := c]\<rparr>)" if "core c = core (cp_heap aps ! r)" for c
    using monitored_upd [of "\<lambda>x. if core x = core c then c else x" containersOf aps r] that by simp
  have restart: "containersOf (snd (cmTriggerRestart cm d i reason)) \<subseteq> containersOf d" for d i reason
    using cm_okD(11) [OF assms] by (metis prod.collapse)
  show ?thesis
    using upd monitored_trans [OF upd monitored_docker] restart
    by (auto simp: checkContainer_def Let_def monitored_def)
qed

lemma monitored_healthChecks:
  assumes "cm_ok cm containersOf" "performPeriodicApplicationHealthChecks cm now ok aps = Some aps'"
  shows "monitored containersOf aps aps'"
proof -
  note check = monitored_checkContainer [OF assms(1)]
  have "monitored containersOf aps (checkContainer cm now ok r' (checkContainer cm now ok r aps))" for r r'
    by (rule monitored_trans [OF check check])
  with assms(2) check show ?thesis
    by (auto simp: performPeriodicApplicationHealthChecks_def Let_def split: option.splits if_splits)
qed

text \<open>
  Recreating a container fails whatever the manager does: the code ends the status context of the
  container before it uses the same context to create the replacement.
\<close>

lemma monitored_recreate:
  assumes ok: "cm_ok cm containersOf" and r: "r < length (cp_heap aps)"
  shows "monitored containersOf aps (recreateContainer cm uuid now timestamp r aps)"
proof -
  let ?d0 = "cmStopLivenessMonitoring cm (cp_docker aps) (ci_ID (pc_info (cp_heap aps ! r)))"
  let ?cconf = "configFor cm timestamp (cp_config aps) (pc_image (cp_heap aps ! r))"
  obtain e d where fail: "cmCreate cm True ?d0 ?cconf = (Inl e, d)" "containersOf d \<subseteq> containersOf ?d0"
    using cm_okD(3) [OF ok] by blast
  have "recreateContainer cm uuid now timestamp r aps = (updContainer r (\<lambda>c. c\<lparr>pc_statusDone := True\<rparr>) aps)\<lparr>cp_docker := d\<rparr>"
    using fail(1) r by (simp add: recreateContainer_def createAndStartContainer_def Let_def)
  moreover have "containersOf d \<subseteq> containersOf (cp_docker aps)" using fail(2) cm_okD(10) [OF ok] by blast
  ultimately show ?thesis
    using monitored_trans [OF monitored_upd [of "\<lambda>c. c\<lparr>pc_statusDone := True\<rparr>" containersOf aps r] monitored_docker] by simp
qed

lemma monitored_client: "monitored containersOf aps (recreatePerformerClientForContainer cm r aps)"
  using monitored_upd [of "\<lambda>c. c\<lparr>pc_client := x\<rparr>" containersOf aps r for x]
  by (auto simp: recreatePerformerClientForContainer_def Let_def split: sum.splits option.splits)

lemma monitored_event:
  assumes ok: "cm_ok cm containersOf" and r: "r < length (cp_heap aps)"
  shows "monitored containersOf aps (handleContainerEvent cm uuid now timestamp event r aps)"
proof -
  let ?un = "updContainer r markUnhealthy aps"
  have un: "monitored containersOf aps ?un" by (rule monitored_upd) simp
  have r': "r < length (cp_heap ?un)" using r by simp
  have notify: "monitored containersOf aps (updContainer r (sendStatus PerformerUnhealthy ''Container is unhealthy'') a)"
    if "monitored containersOf aps a" for a
    by (rule monitored_trans [OF that monitored_upd]) simp
  have h: "monitored containersOf a (updContainer r (updHealth f) a)" for f a by (rule monitored_upd) simp
  show ?thesis
    unfolding handleContainerEvent_def Let_def
    using notify [OF un] notify [OF monitored_refl] h [of aps]
      notify [OF monitored_trans [OF monitored_trans [OF un h] monitored_client]]
      notify [OF monitored_trans [OF un monitored_recreate [OF ok r']]]
    by (cases "ce_Type event"; cases "sublist ''recreation needed'' (ce_Message event)")
      (simp_all only: container_event_type.case if_True if_False simp_thms)
qed

lemma monitored_wait:
  assumes ok: "cm_ok cm containersOf" and "r < length (cp_heap aps)" "waitForHealthy cm r evs aps = (out, aps')"
  shows "monitored containersOf aps aps'"
  using assms(2,3)
proof (induction evs arbitrary: aps)
  case (Cons ev evs)
  have step: "monitored containersOf aps aps'" if "monitored containersOf aps a" "waitForHealthy cm r evs a = (out, aps')" for a
    using monitored_trans [OF that(1) Cons.IH [OF _ that(2)]] monitored_heap(1) [OF that(1)] Cons.prems(1) by simp
  show ?case
  proof (cases ev)
    case (HealthTick now okf)
    show ?thesis
    proof (cases "performPeriodicApplicationHealthChecks cm now okf aps")
      case (Some a)
      then show ?thesis using Cons.prems(2) HealthTick step [OF monitored_healthChecks [OF ok Some]] by simp
    qed (use Cons.prems HealthTick in simp)
  next
    case (MonitorEvent event uuid now timestamp)
    then show ?thesis using Cons.prems(2) step [OF monitored_event [OF ok Cons.prems(1)]] by simp
  next
    case ReceiveStatus
    have "monitored containersOf aps (updContainer r (\<lambda>c. c\<lparr>pc_statusChan := q\<rparr>) aps)" for q by (rule monitored_upd) simp
    then show ?thesis
      using Cons.prems(2) ReceiveStatus step step [OF monitored_refl] by (auto simp: Let_def split: list.splits if_splits)
  qed (use Cons.prems in auto)
qed simp

section \<open>Consistency of the slots\<close>

definition slots_ok :: "'d container_performer \<Rightarrow> bool" where
  "slots_ok aps \<longleftrightarrow>
     (\<forall>r. cp_current aps = Some (Some r) \<longrightarrow> r < length (cp_heap aps)) \<and>
     (\<forall>r. cp_next aps = Some r \<longrightarrow> r < length (cp_heap aps) \<and> pc_status (cp_heap aps ! r) = statusStaged \<and>
        cp_current aps \<noteq> Some (Some r)) \<and>
     (\<forall>r\<in>set (cp_drains aps). r < length (cp_heap aps) \<and> cp_current aps \<noteq> Some (Some r) \<and> cp_next aps \<noteq> Some r) \<and>
     (\<forall>p\<in>set (cp_draining aps). \<exists>r\<in>set (cp_drains aps). pc_performerID (cp_heap aps ! r) = p) \<and>
     distinct (map pc_performerID (cp_heap aps))"

lemma slots_ok_new [simp]: "slots_ok (newAvsContainerPerformer cfg d)"
  by (simp add: slots_ok_def newAvsContainerPerformer_def)

lemma coreD: "core c = core c' \<Longrightarrow> pc_performerID c = pc_performerID c' \<and> ci_ID (pc_info c) = ci_ID (pc_info c') \<and>
    pc_image c = pc_image c' \<and> pc_status c = pc_status c'"
  by (simp add: core_def)

lemma monitored_ids:
  assumes "monitored f aps aps'"
  shows "map pc_performerID (cp_heap aps') = map pc_performerID (cp_heap aps)"
    and "r < length (cp_heap aps) \<Longrightarrow> pc_performerID (cp_heap aps' ! r) = pc_performerID (cp_heap aps ! r)"
    and "r < length (cp_heap aps) \<Longrightarrow> ci_ID (pc_info (cp_heap aps' ! r)) = ci_ID (pc_info (cp_heap aps ! r))"
    and "r < length (cp_heap aps) \<Longrightarrow> pc_status (cp_heap aps' ! r) = pc_status (cp_heap aps ! r)"
    and "r < length (cp_heap aps) \<Longrightarrow> pc_image (cp_heap aps' ! r) = pc_image (cp_heap aps ! r)"
proof -
  from assms have "map core (cp_heap aps') = map core (cp_heap aps)" by (simp add: monitored_def)
  then have "map (fst \<circ> core) (cp_heap aps') = map (fst \<circ> core) (cp_heap aps)" by (simp flip: map_map)
  then show "map pc_performerID (cp_heap aps') = map pc_performerID (cp_heap aps)" by (simp add: core_def comp_def)
qed (use monitored_heap(2) [OF assms, of r] coreD in blast)+

lemma slots_ok_monitored: "monitored f aps aps' \<Longrightarrow> slots_ok aps \<Longrightarrow> slots_ok aps'"
  using monitored_ids [of f aps aps'] monitored_heap(1) [of f aps aps']
  unfolding slots_ok_def monitored_def by (simp add: Ball_def)

lemma slots_ok_append:
  assumes "slots_ok aps" "pc_performerID c \<notin> set (map pc_performerID (cp_heap aps))"
  shows "slots_ok (aps\<lparr>cp_heap := cp_heap aps @ [c]\<rparr>)"
  using assms unfolding slots_ok_def by (auto simp: nth_append)

lemma slots_ok_upd:
  assumes "slots_ok aps" "\<And>c. pc_performerID (f c) = pc_performerID c" "\<And>c. pc_status (f c) = pc_status c"
  shows "slots_ok (updContainer r f aps)"
proof (cases "r < length (cp_heap aps)")
  case True
  have id: "pc_performerID ((cp_heap aps)[r := f (cp_heap aps ! r)] ! i) = pc_performerID (cp_heap aps ! i)"
    and st: "pc_status ((cp_heap aps)[r := f (cp_heap aps ! r)] ! i) = pc_status (cp_heap aps ! i)"
    if "i < length (cp_heap aps)" for i
    using assms(2,3) that by (cases "i = r"; simp)+
  have "map pc_performerID ((cp_heap aps)[r := f (cp_heap aps ! r)]) = map pc_performerID (cp_heap aps)"
    using id by (intro nth_equalityI) auto
  with assms(1) id st show ?thesis unfolding slots_ok_def by (auto simp del: nth_list_update)
next
  case False
  with assms(1) show ?thesis by (simp add: list_update_beyond)
qed

lemma slots_ok_clear:
  "slots_ok aps \<Longrightarrow> slots_ok (aps\<lparr>cp_current := Some None\<rparr>)" "slots_ok aps \<Longrightarrow> slots_ok (aps\<lparr>cp_next := None\<rparr>)"
  "slots_ok aps \<Longrightarrow> slots_ok (aps\<lparr>cp_docker := d\<rparr>)" "slots_ok aps \<Longrightarrow> slots_ok (aps\<lparr>cp_deploying := b\<rparr>)"
  "slots_ok aps \<Longrightarrow> slots_ok (aps\<lparr>cp_taskWaitGroups := w\<rparr>)" "slots_ok aps \<Longrightarrow> slots_ok (aps\<lparr>cp_draining := []\<rparr>)"
  by (auto simp: slots_ok_def)

lemma performerRemove_cases:
  assumes "performerRemove cm pid aps = (e, aps')"
  obtains (unknown) "aps' = aps" "e \<noteq> None"
  | (removed) r x d aps1 where "aps1 = aps\<lparr>cp_current := Some None\<rparr> \<and> cp_current aps = Some (Some r) \<or>
        aps1 = aps\<lparr>cp_next := None\<rparr> \<and> cp_next aps = Some r \<and> cp_current aps \<noteq> Some None \<and>
          (\<forall>r'. cp_current aps = Some (Some r') \<longrightarrow> pc_performerID (cp_heap aps ! r') \<noteq> pid)"
      "pc_performerID (cp_heap aps ! r) = pid"
      "shutdownContainer cm (cp_heap (updContainer r (\<lambda>c. c\<lparr>pc_statusDone := True\<rparr>) aps) ! r) (cp_docker aps) = (x, d)"
      "e = map_option RemoveFailed x"
      "aps' = (updContainer r (\<lambda>c. c\<lparr>pc_statusDone := True\<rparr>) aps1)\<lparr>cp_docker := d\<rparr>"
proof -
  define sh where "sh = (\<lambda>r. shutdownContainer cm (cp_heap (updContainer r (\<lambda>c. c\<lparr>pc_statusDone := True\<rparr>) aps) ! r) (cp_docker aps))"
  define x where "x = (\<lambda>r. fst (sh r))"
  define d where "d = (\<lambda>r. snd (sh r))"
  have sd: "shutdownContainer cm (cp_heap (updContainer r (\<lambda>c. c\<lparr>pc_statusDone := True\<rparr>) aps) ! r) (cp_docker aps) = (x r, d r)" for r
    by (simp add: x_def d_def sh_def)
  show thesis
  proof (cases "\<exists>r. cp_current aps = Some (Some r) \<and> pc_performerID (cp_heap aps ! r) = pid")
    case True
    then obtain r where r: "cp_current aps = Some (Some r)" "pc_performerID (cp_heap aps ! r) = pid" by blast
    then show thesis
      using assms sd [of r] by (intro removed [of "aps\<lparr>cp_current := Some None\<rparr>" r "x r" "d r"]) (auto simp: performerRemove_def Let_def)
  next
    case False
    note nc = this
    show thesis
    proof (cases "cp_current aps \<noteq> Some None \<and> (\<exists>r. cp_next aps = Some r \<and> pc_performerID (cp_heap aps ! r) = pid)")
      case True
      then obtain r where r: "cp_next aps = Some r" "pc_performerID (cp_heap aps ! r) = pid" "cp_current aps \<noteq> Some None" by blast
      with nc show thesis
        using assms sd [of r]
        by (intro removed [of "aps\<lparr>cp_next := None\<rparr>" r "x r" "d r"])
          (auto simp: performerRemove_def Let_def split: option.splits)
    next
      case False
      with nc assms have "aps' = aps \<and> e \<noteq> None"
        by (auto simp: performerRemove_def Let_def split: option.splits if_splits)
      then show thesis using unknown by blast
    qed
  qed
qed

lemma slots_ok_remove: "slots_ok aps \<Longrightarrow> performerRemove cm pid aps = (e, aps') \<Longrightarrow> slots_ok aps'"
  by (erule performerRemove_cases) (auto intro!: slots_ok_clear slots_ok_upd)

lemma performerPromote_cases:
  assumes "performerPromote pid aps = (e, aps')"
  obtains (unchanged) "aps' = aps"
      "e = None \<longleftrightarrow> (\<exists>r. cp_current aps = Some (Some r) \<and> pc_performerID (cp_heap aps ! r) = pid)"
  | (promoted) r aps1 where "cp_next aps = Some r" "pc_performerID (cp_heap aps ! r) = pid" "e = None"
      "ph_ContainerIsHealthy (pc_performerHealth (cp_heap aps ! r))" "ph_ApplicationIsHealthy (pc_performerHealth (cp_heap aps ! r))"
      "aps1 = (case cp_current aps of Some (Some old) \<Rightarrow> startDrainAndRemove old aps | _ \<Rightarrow> aps)"
      "aps' = (updContainer r (\<lambda>c. c\<lparr>pc_status := statusInService\<rparr>) aps1)\<lparr>cp_current := Some (Some r), cp_next := None\<rparr>"
proof (cases "\<exists>r. cp_current aps = Some (Some r) \<and> pc_performerID (cp_heap aps ! r) = pid")
  case True
  with assms show thesis by (intro unchanged) (auto simp: performerPromote_def)
next
  case False
  then have nc: "\<not> (case cp_current aps of Some (Some r) \<Rightarrow> pc_performerID (cp_heap aps ! r) = pid | _ \<Rightarrow> False)"
    by (simp split: option.splits)
  show thesis
  proof (cases "\<exists>r. cp_next aps = Some r \<and> pc_performerID (cp_heap aps ! r) = pid \<and>
      ph_ContainerIsHealthy (pc_performerHealth (cp_heap aps ! r)) \<and> ph_ApplicationIsHealthy (pc_performerHealth (cp_heap aps ! r))")
    case True
    then obtain r where "cp_next aps = Some r" "pc_performerID (cp_heap aps ! r) = pid"
      "ph_ContainerIsHealthy (pc_performerHealth (cp_heap aps ! r))" "ph_ApplicationIsHealthy (pc_performerHealth (cp_heap aps ! r))" by blast
    with assms nc show thesis by (intro promoted [OF _ _ _ _ _ refl, of r]) (simp_all add: performerPromote_def Let_def)
  next
    case no: False
    with assms nc have "aps' = aps" "e \<noteq> None" by (cases "cp_next aps"; auto simp: performerPromote_def split: if_splits)+
    with False show thesis by (intro unchanged) auto
  qed
qed

lemma startDrain_simps [simp]:
  "cp_heap (startDrainAndRemove old aps) = cp_heap aps" "cp_docker (startDrainAndRemove old aps) = cp_docker aps"
  "cp_deploying (startDrainAndRemove old aps) = cp_deploying aps"
  "cp_taskWaitGroups (startDrainAndRemove old aps) = cp_taskWaitGroups aps"
  by (simp_all add: startDrainAndRemove_def)

text \<open>After promoting, the container that was replaced is being drained.\<close>

lemma startDrain_drains:
  assumes "slots_ok aps" "cp_current aps = Some (Some old)"
  shows "set (cp_drains (startDrainAndRemove old aps)) = insert old (set (cp_drains aps))"
    and "set (cp_draining (startDrainAndRemove old aps)) = insert (pc_performerID (cp_heap aps ! old)) (set (cp_draining aps))"
proof -
  have "pc_performerID (cp_heap aps ! old) \<notin> set (cp_draining aps)"
  proof
    assume "pc_performerID (cp_heap aps ! old) \<in> set (cp_draining aps)"
    then obtain r where "r \<in> set (cp_drains aps)" "pc_performerID (cp_heap aps ! r) = pc_performerID (cp_heap aps ! old)"
      using assms(1) unfolding slots_ok_def by blast
    moreover from this assms have "r < length (cp_heap aps)" "old < length (cp_heap aps)" "r \<noteq> old" unfolding slots_ok_def by blast+
    ultimately show False using assms(1) unfolding slots_ok_def distinct_conv_nth by (metis length_map nth_map)
  qed
  then show "set (cp_drains (startDrainAndRemove old aps)) = insert old (set (cp_drains aps))"
    and "set (cp_draining (startDrainAndRemove old aps)) = insert (pc_performerID (cp_heap aps ! old)) (set (cp_draining aps))"
    by (simp_all add: startDrainAndRemove_def)
qed

lemma drains_after_promotion:
  assumes "slots_ok aps" "aps1 = (case cp_current aps of Some (Some old) \<Rightarrow> startDrainAndRemove old aps | _ \<Rightarrow> aps)"
  shows "set (cp_drains aps1) = (case cp_current aps of Some (Some old) \<Rightarrow> insert old (set (cp_drains aps)) | _ \<Rightarrow> set (cp_drains aps))"
    and "set (cp_draining aps1) = (case cp_current aps of
      Some (Some old) \<Rightarrow> insert (pc_performerID (cp_heap aps ! old)) (set (cp_draining aps)) | _ \<Rightarrow> set (cp_draining aps))"
    and "cp_heap aps1 = cp_heap aps"
  using assms startDrain_drains [OF assms(1)] by (auto split: option.splits)

lemma slots_ok_promote:
  assumes ok: "slots_ok aps" and "performerPromote pid aps = (e, aps')"
  shows "slots_ok aps'"
  using assms(2)
proof (cases rule: performerPromote_cases)
  case (promoted r aps1)
  let ?f = "\<lambda>c. c\<lparr>pc_status := statusInService\<rparr>"
  from ok promoted(1) have r: "r < length (cp_heap aps)" "cp_current aps \<noteq> Some (Some r)" "r \<notin> set (cp_drains aps)"
    unfolding slots_ok_def by blast+
  note d = drains_after_promotion [OF ok promoted(6)]
  have id: "pc_performerID ((cp_heap aps)[r := ?f (cp_heap aps ! r)] ! i) = pc_performerID (cp_heap aps ! i)" for i
    by (cases "i = r"; cases "i < length (cp_heap aps)") (simp_all add: r)
  have ids: "map pc_performerID ((cp_heap aps)[r := ?f (cp_heap aps ! r)]) = map pc_performerID (cp_heap aps)"
    using id by (intro nth_equalityI) auto
  have drains: "\<forall>i\<in>set (cp_drains aps1). i < length (cp_heap aps) \<and> i \<noteq> r"
    using d(1) ok r unfolding slots_ok_def by (auto split: option.splits)
  have draining: "\<forall>p\<in>set (cp_draining aps1). \<exists>i\<in>set (cp_drains aps1). pc_performerID (cp_heap aps ! i) = p"
    using d(1,2) ok unfolding slots_ok_def by (cases "cp_current aps" rule: option.exhaust; cases "the (cp_current aps)") auto
  have "distinct (map pc_performerID (cp_heap aps))" using ok by (simp add: slots_ok_def)
  with drains draining r(1) show ?thesis
    unfolding promoted(7) slots_ok_def d(3) by (auto simp: ids id)
qed (use ok in simp)

lemma slots_ok_create:
  assumes "slots_ok aps" "generatePerformerID (cp_config aps) uuid \<notin> set (map pc_performerID (cp_heap aps))"
    and "createAndStartContainer cm ctxDone (cp_config aps) uuid now img cconf d0 = (Inr c, d)"
  shows "cp_next aps = None \<Longrightarrow> slots_ok (aps\<lparr>cp_docker := d, cp_heap := cp_heap aps @ [c\<lparr>pc_status := statusStaged\<rparr>],
      cp_next := Some (length (cp_heap aps))\<rparr>)"
    and "slots_ok (aps\<lparr>cp_docker := d, cp_heap := cp_heap aps @ [c\<lparr>pc_status := statusInService\<rparr>],
      cp_current := Some (Some (length (cp_heap aps)))\<rparr>)"
proof -
  from assms(3) have "pc_performerID c = generatePerformerID (cp_config aps) uuid"
    by (auto simp: createAndStartContainer_def split: sum.splits option.splits prod.splits)
  with assms(1,2) show "cp_next aps = None \<Longrightarrow> slots_ok (aps\<lparr>cp_docker := d, cp_heap := cp_heap aps @ [c\<lparr>pc_status := statusStaged\<rparr>],
      cp_next := Some (length (cp_heap aps))\<rparr>)"
    and "slots_ok (aps\<lparr>cp_docker := d, cp_heap := cp_heap aps @ [c\<lparr>pc_status := statusInService\<rparr>],
      cp_current := Some (Some (length (cp_heap aps)))\<rparr>)"
    unfolding slots_ok_def by (auto simp: nth_append)
qed

section \<open>Reachable states\<close>

text \<open>
  The operations of a performer, in any order. \<open>uuid\<close> gives fresh performer ids; a rehydrated performer
  has an id of its own; the draining goroutine of a container goes on once its tasks are complete.
\<close>

definition freshId :: "string \<Rightarrow> 'd container_performer \<Rightarrow> bool" where
  "freshId pid aps \<longleftrightarrow> pid \<notin> set (map pc_performerID (cp_heap aps))"

inductive performer_step :: "'d container_manager \<Rightarrow> 'd container_performer \<Rightarrow> 'd container_performer \<Rightarrow> bool" for cm where
  init: "freshId (generatePerformerID (cp_config aps) uuid) aps \<Longrightarrow>
    performerInitialize cm ctxDone uuid now timestamp aps = (e, aps') \<Longrightarrow> performer_step cm aps aps'"
| create: "freshId (generatePerformerID (cp_config aps) uuid) aps \<Longrightarrow>
    createPerformer cm ctxDone uuid now timestamp img aps = (res, aps') \<Longrightarrow> performer_step cm aps aps'"
| promote: "performerPromote pid aps = (e, aps') \<Longrightarrow> performer_step cm aps aps'"
| remove: "performerRemove cm pid aps = (e, aps') \<Longrightarrow> performer_step cm aps aps'"
| run: "performerRunTask execute task aps = (res', aps') \<Longrightarrow> performer_step cm aps aps'"
| tick: "performPeriodicApplicationHealthChecks cm now ok aps = Some aps' \<Longrightarrow> performer_step cm aps aps'"
| event: "r < length (cp_heap aps) \<Longrightarrow>
    performer_step cm aps (handleContainerEvent cm uuid now timestamp event r aps)"
| drain: "r \<in> set (cp_drains aps) \<Longrightarrow> tasksComplete (pc_performerID (cp_heap aps ! r)) aps \<Longrightarrow>
    performer_step cm aps (drainAndRemove cm r aps)"
| shutdown: "performerShutdown cm aps = (errs, aps') \<Longrightarrow> performer_step cm aps aps'"
| deploy: "freshId (generatePerformerID (cp_config aps) uuid') aps \<Longrightarrow>
    performerDeploy cm ctxDone uuid uuid' start timestamp now evs img aps \<in> {DeployReturned res'' aps', DeployPending aps'} \<Longrightarrow>
    performer_step cm aps aps'"
| rehydrate: "freshId (pst_PerformerId state) aps \<Longrightarrow>
    rehydrateFromState cm ctxDone state aps = (e, aps') \<Longrightarrow> performer_step cm aps aps'"

inductive_cases performer_stepE: "performer_step cm aps aps'"

lemma slots_ok_initialize:
  assumes "slots_ok aps" "freshId (generatePerformerID (cp_config aps) uuid) aps"
    and "performerInitialize cm ctxDone uuid now timestamp aps = (e, aps')"
  shows "slots_ok aps'"
  using assms(1,3) slots_ok_create(2) [OF assms(1) assms(2) [unfolded freshId_def]]
  by (auto simp: performerInitialize_def Let_def split: if_splits prod.splits sum.splits intro: slots_ok_clear)

lemma slots_ok_createPerformer:
  assumes "slots_ok aps" "freshId (generatePerformerID (cp_config aps) uuid) aps"
    and "createPerformer cm ctxDone uuid now timestamp img aps = (res, aps')"
  shows "slots_ok aps'"
  using assms(1,3) slots_ok_create(1) [OF assms(1) assms(2) [unfolded freshId_def]]
  by (auto simp: createPerformer_def Let_def split: option.splits prod.splits sum.splits intro: slots_ok_clear)

lemma createPerformer_ref:
  assumes "createPerformer cm ctxDone uuid now timestamp img aps = (Inr cr, aps')"
  shows "cr_ref cr = length (cp_heap aps) \<and> length (cp_heap aps') = Suc (length (cp_heap aps))"
  using assms by (auto simp: createPerformer_def Let_def split: option.splits prod.splits sum.splits)

lemma slots_ok_deployEnd: "slots_ok aps \<Longrightarrow> slots_ok (deployEnd r aps)"
  unfolding deployEnd_def by (intro slots_ok_clear slots_ok_upd) simp_all

lemma slots_ok_finish:
  assumes "slots_ok aps" "deployFinish cm did start now cr w aps = (res, aps')"
  shows "slots_ok aps'"
proof -
  obtain e aps1 where p: "performerPromote (cr_PerformerId cr) aps = (e, aps1)" by fastforce
  have rm: "slots_ok (deployEnd (cr_ref cr) (snd (performerRemove cm (cr_PerformerId cr) a)))" if "slots_ok a" for a
    using slots_ok_remove [OF that] by (metis prod.collapse slots_ok_deployEnd)
  have "aps' \<in> {deployEnd (cr_ref cr) (snd (performerRemove cm (cr_PerformerId cr) aps)),
      deployEnd (cr_ref cr) (snd (performerRemove cm (cr_PerformerId cr) aps1)), deployEnd (cr_ref cr) aps1}"
    using assms(2) p by (cases w; cases e) (auto simp: deployFinish_def)
  with rm [OF assms(1)] rm [OF slots_ok_promote [OF assms(1) p]] slots_ok_deployEnd [OF slots_ok_promote [OF assms(1) p]]
  show ?thesis by blast
qed

lemma slots_ok_deploy:
  assumes ok: "cm_ok cm containersOf" and inv: "slots_ok aps" and fresh: "freshId (generatePerformerID (cp_config aps) uuid') aps"
    and run: "performerDeploy cm ctxDone uuid uuid' start timestamp now evs img aps \<in> {DeployReturned res aps', DeployPending aps'}"
  shows "slots_ok aps'"
proof (cases "cp_deploying aps")
  case False
  obtain x aps1 where c: "createPerformer cm ctxDone uuid' start timestamp img (aps\<lparr>cp_deploying := True\<rparr>) = (x, aps1)" by fastforce
  have ok1: "slots_ok aps1"
    by (rule slots_ok_createPerformer [OF slots_ok_clear(4) [OF inv, of True] _ c]) (use fresh in \<open>simp add: freshId_def\<close>)
  show ?thesis
  proof (cases x)
    case (Inl e)
    with run c False slots_ok_clear(4) [OF ok1, of False] show ?thesis by (auto simp: performerDeploy_def)
  next
    case (Inr cr)
    obtain out aps2 where w: "waitForHealthy cm (cr_ref cr) evs aps1 = (out, aps2)" by fastforce
    from createPerformer_ref [OF c [unfolded Inr]] have "cr_ref cr < length (cp_heap aps1)" by simp
    from slots_ok_monitored [OF monitored_wait [OF ok this w] ok1] have ok2: "slots_ok aps2" .
    with run c Inr w False slots_ok_finish [OF ok2] show ?thesis
      by (cases out) (auto simp: performerDeploy_def split: prod.splits)
  qed
qed (use inv run in \<open>auto simp: performerDeploy_def\<close>)

lemma slots_ok_run: "slots_ok aps \<Longrightarrow> performerRunTask execute task aps = (res, aps') \<Longrightarrow> slots_ok aps'"
  by (auto simp: performerRunTask_def addTask_def doneTask_def getOrCreateTaskWaitGroup_def Let_def
      split: option.splits sum.splits if_splits intro!: slots_ok_clear)

lemma slots_ok_drain:
  assumes ok: "slots_ok aps" and r: "r \<in> set (cp_drains aps)"
  shows "slots_ok (drainAndRemove cm r aps)"
proof -
  let ?pid = "pc_performerID (cp_heap aps ! r)"
  have "\<exists>i\<in>set (remove1 r (cp_drains aps)). pc_performerID (cp_heap aps ! i) = p" if "p \<in> set (cp_draining aps)" "p \<noteq> ?pid" for p
  proof -
    from ok that(1) obtain i where i: "i \<in> set (cp_drains aps)" "pc_performerID (cp_heap aps ! i) = p" unfolding slots_ok_def by blast
    with that(2) have "i \<noteq> r" by blast
    with i show ?thesis by (auto simp: in_set_remove1)
  qed
  moreover have "set (remove1 r (cp_drains aps)) \<subseteq> set (cp_drains aps)" by (rule set_remove1_subset)
  ultimately show ?thesis
    using ok unfolding slots_ok_def drainAndRemove_def cleanupTaskWaitGroup_def Let_def by auto
qed

lemma slots_ok_shutdown:
  assumes "slots_ok aps" "performerShutdown cm aps = (errs, aps')"
  shows "slots_ok aps'"
proof -
  have slot: "slots_ok (snd (shutdownSlot cm r a))" if "slots_ok a" for r a
    using that by (auto simp: shutdownSlot_def cleanupTaskWaitGroup_def Let_def intro: slots_ok_clear split: prod.splits)
  define aps1 where "aps1 = (case cp_current aps of
    Some (Some r) \<Rightarrow> (snd (shutdownSlot cm r (aps\<lparr>cp_draining := []\<rparr>)))\<lparr>cp_current := Some None\<rparr> | _ \<Rightarrow> aps\<lparr>cp_draining := []\<rparr>)"
  have ok1: "slots_ok aps1"
    using slot [OF slots_ok_clear(6) [OF assms(1)]] slots_ok_clear(6) [OF assms(1)]
    by (auto simp: aps1_def split: option.splits intro: slots_ok_clear)
  have "aps' = (case cp_next aps1 of Some r \<Rightarrow> (snd (shutdownSlot cm r aps1))\<lparr>cp_next := None\<rparr> | None \<Rightarrow> aps1)"
    using assms(2) by (auto simp: performerShutdown_def aps1_def Let_def split: option.splits prod.splits)
  with slot [OF ok1] ok1 show ?thesis by (auto split: option.splits intro: slots_ok_clear)
qed

lemma slots_ok_rehydrate:
  assumes "slots_ok aps" "freshId (pst_PerformerId state) aps" "rehydrateFromState cm ctxDone state aps = (e, aps')"
  shows "slots_ok aps'"
proof (cases e)
  case (Some err)
  with assms(3) obtain d where "aps' = aps\<lparr>cp_docker := d\<rparr>"
    by (auto simp: rehydrateFromState_def split: prod.splits option.splits sum.splits)
  with assms(1) show ?thesis by (simp add: slots_ok_clear)
next
  case None
  have "\<exists>c. pc_performerID c = pst_PerformerId state \<and> cp_heap aps' = cp_heap aps @ [c]" "cp_current aps' = Some (Some (length (cp_heap aps)))"
    "cp_next aps' = cp_next aps" "cp_drains aps' = cp_drains aps" "cp_draining aps' = cp_draining aps"
    using assms(3) None by (auto simp: rehydrateFromState_def split: prod.splits option.splits sum.splits)
  with assms(1,2) show ?thesis unfolding slots_ok_def freshId_def by (auto simp: nth_append)
qed

lemma slots_ok_step:
  assumes "cm_ok cm containersOf" "performer_step cm aps aps'" "slots_ok aps"
  shows "slots_ok aps'"
  using assms(2,3)
proof (induction rule: performer_step.induct)
  case (init aps uuid ctxDone now timestamp e aps') then show ?case by (blast intro: slots_ok_initialize)
next
  case (create aps uuid ctxDone now timestamp img res aps') then show ?case by (blast intro: slots_ok_createPerformer)
next
  case (event r aps uuid now timestamp event) then show ?case by (blast intro: slots_ok_monitored monitored_event [OF assms(1)])
next
  case (tick now ok aps aps') then show ?case by (blast intro: slots_ok_monitored monitored_healthChecks [OF assms(1)])
next
  case (deploy aps uuid' ctxDone uuid start timestamp now evs img res'' aps') then show ?case by (blast intro: slots_ok_deploy [OF assms(1)])
qed (blast intro: slots_ok_promote slots_ok_remove slots_ok_run slots_ok_drain slots_ok_shutdown slots_ok_rehydrate)+

lemma reachable_slots_ok:
  assumes "cm_ok cm containersOf" "(performer_step cm)\<^sup>*\<^sup>* (newAvsContainerPerformer cfg d) aps"
  shows "slots_ok aps"
  using assms(2) by (induction rule: rtranclp_induct) (auto intro: slots_ok_step [OF assms(1)])


section \<open>Deployments\<close>

lemma shutdown_containers:
  assumes "cm_ok cm containersOf" "shutdownContainer cm c d = (x, d')"
  shows "removals_succeed cm \<longrightarrow> containersOf d' \<subseteq> containersOf d - {ci_ID (pc_info c)}"
proof -
  let ?i = "ci_ID (pc_info c)" and ?d1 = "cmStopLivenessMonitoring cm d (ci_ID (pc_info c))"
  obtain y d2 where stop: "cmStop cm ?d1 ?i = (y, d2)" by fastforce
  with assms(2) have "cmRemove cm d2 ?i = (x, d')" by (simp add: shutdownContainer_def Let_def)
  with cm_okD(8) [OF assms(1)] cm_okD(7) [OF assms(1) stop] cm_okD(10) [OF assms(1), of d ?i] show ?thesis by blast
qed

text \<open>A created container that fails to become healthy, or to be promoted, is removed again.\<close>

lemma deploy_rollback:
  assumes ok: "cm_ok cm containersOf" and inv: "slots_ok aps" and "cp_next aps = Some r" "pc_performerID (cp_heap aps ! r) = pid"
    and cur: "cp_current aps \<noteq> Some None" and "performerRemove cm pid aps = (e, aps')"
  shows "cp_current aps' = cp_current aps \<and> cp_next aps' = None \<and> cp_drains aps' = cp_drains aps \<and>
    (removals_succeed cm \<longrightarrow> containersOf (cp_docker aps') \<subseteq> containersOf (cp_docker aps) - {ci_ID (pc_info (cp_heap aps ! r))})"
proof -
  have nc: "pc_performerID (cp_heap aps ! r') \<noteq> pid" if "cp_current aps = Some (Some r')" for r'
    using inv assms(3,4) that unfolding slots_ok_def distinct_conv_nth by (metis length_map nth_map)
  have r: "r < length (cp_heap aps)" using inv assms(3) by (simp add: slots_ok_def)
  obtain x d where sd: "shutdownContainer cm (cp_heap (updContainer r (\<lambda>c. c\<lparr>pc_statusDone := True\<rparr>) aps) ! r) (cp_docker aps) = (x, d)"
    by fastforce
  have "aps' = (updContainer r (\<lambda>c. c\<lparr>pc_statusDone := True\<rparr>) (aps\<lparr>cp_next := None\<rparr>))\<lparr>cp_docker := d\<rparr>"
    using assms(3,4,6) cur nc sd by (auto simp: performerRemove_def Let_def split: option.splits)
  with shutdown_containers [OF ok sd] r show ?thesis by simp
qed

lemma deploy_created:
  assumes ok: "cm_ok cm containersOf" and inv: "slots_ok aps"
    and fresh: "freshId (generatePerformerID (cp_config aps) uuid) aps"
    and "createPerformer cm False uuid now timestamp img aps = (Inr cr, aps1)"
  obtains c where "cp_next aps = None" "cr_ref cr = length (cp_heap aps)" "cp_heap aps1 = cp_heap aps @ [c]"
    "cp_next aps1 = Some (cr_ref cr)" "cp_current aps1 = cp_current aps" "cp_drains aps1 = cp_drains aps"
    "cp_draining aps1 = cp_draining aps" "cp_deploying aps1 = cp_deploying aps"
    "pc_performerID c = cr_PerformerId cr" "pc_image c = img" "pc_statusChan c = []" "pc_status c = statusStaged"
    "ci_ID (pc_info c) \<notin> containersOf (cp_docker aps)"
    "containersOf (cp_docker aps1) \<subseteq> insert (ci_ID (pc_info c)) (containersOf (cp_docker aps))" "slots_ok aps1"
proof -
  from assms(4) obtain c d where "cp_next aps = None"
    and cs: "createAndStartContainer cm False (cp_config aps) uuid now img (configFor cm timestamp (cp_config aps) img) (cp_docker aps) = (Inr c, d)"
    by (auto simp: createPerformer_def Let_def split: option.splits prod.splits sum.splits)
  then show thesis
    using assms(4) createAndStart_effect [OF ok cs] slots_ok_createPerformer [OF inv fresh assms(4)]
    by (intro that [of "c\<lparr>pc_status := statusStaged\<rparr>"]) (auto simp: createPerformer_def Let_def)
qed

text \<open>A container in service: promoted, healthy, with the given performer id and image.\<close>

definition in_service :: "'d container_performer \<Rightarrow> nat \<Rightarrow> string \<Rightarrow> performer_image \<Rightarrow> bool" where
  "in_service aps r pid img \<longleftrightarrow> cp_current aps = Some (Some r) \<and> pc_performerID (cp_heap aps ! r) = pid \<and>
     pc_image (cp_heap aps ! r) = img \<and> pc_status (cp_heap aps ! r) = statusInService \<and>
     ph_ContainerIsHealthy (pc_performerHealth (cp_heap aps ! r)) \<and> ph_ApplicationIsHealthy (pc_performerHealth (cp_heap aps ! r))"

text \<open>The outcome of a deployment that returns, for a deployment lock that was free.\<close>

lemma deployFinish_effect:
  assumes ok: "cm_ok cm containersOf" and inv: "slots_ok aps" and cur: "cp_current aps \<noteq> Some None"
    and nxt: "cp_next aps = Some (cr_ref cr)" "pc_performerID (cp_heap aps ! cr_ref cr) = cr_PerformerId cr"
    and "deployFinish cm did start now cr w aps = (res, aps')"
  shows "(\<exists>e. res = Inl e \<and> cp_current aps' = cp_current aps \<and> cp_next aps' = None \<and> cp_drains aps' = cp_drains aps \<and>
      (removals_succeed cm \<longrightarrow> containersOf (cp_docker aps') \<subseteq> containersOf (cp_docker aps) - {ci_ID (pc_info (cp_heap aps ! cr_ref cr))})) \<or>
    (\<exists>dr. res = Inr dr \<and> dr_PerformerId dr = cr_PerformerId cr \<and> cp_next aps' = None \<and>
      in_service aps' (cr_ref cr) (cr_PerformerId cr) (pc_image (cp_heap aps ! cr_ref cr)) \<and>
      (\<forall>old. cp_current aps = Some (Some old) \<longrightarrow> old \<in> set (cp_drains aps')))"
proof -
  let ?r = "cr_ref cr" and ?pid = "cr_PerformerId cr"
  from inv nxt(1) have r: "?r < length (cp_heap aps)" by (simp add: slots_ok_def)
  have nc: "pc_performerID (cp_heap aps ! r') \<noteq> ?pid" if "cp_current aps = Some (Some r')" for r'
    using inv nxt that unfolding slots_ok_def distinct_conv_nth by (metis length_map nth_map)
  obtain e0 apsR where rm: "performerRemove cm ?pid aps = (e0, apsR)" by fastforce
  note rollback = deploy_rollback [OF ok inv nxt cur rm]
  obtain e aps1 where p: "performerPromote ?pid aps = (e, aps1)" by fastforce
  show ?thesis
  proof (cases "w = None \<and> e = None")
    case False
    then have "\<exists>e. res = Inl e \<and> aps' = deployEnd ?r apsR"
    proof (cases w)
      case None
      with False have "e \<noteq> None" by simp
      from p have "aps1 = aps" using \<open>e \<noteq> None\<close> by (cases rule: performerPromote_cases) simp_all
      with \<open>e \<noteq> None\<close> assms(6) None p rm show ?thesis by (auto simp: deployFinish_def)
    qed (use assms(6) rm in \<open>auto simp: deployFinish_def\<close>)
    with rollback show ?thesis by (auto simp: deployEnd_def)
  next
    case True
    from p True nxt(1) nc obtain aps0 where
      healthy: "ph_ContainerIsHealthy (pc_performerHealth (cp_heap aps ! ?r))" "ph_ApplicationIsHealthy (pc_performerHealth (cp_heap aps ! ?r))"
      and aps0: "aps0 = (case cp_current aps of Some (Some old) \<Rightarrow> startDrainAndRemove old aps | _ \<Rightarrow> aps)"
      and aps1: "aps1 = (updContainer ?r (\<lambda>c. c\<lparr>pc_status := statusInService\<rparr>) aps0)\<lparr>cp_current := Some (Some ?r), cp_next := None\<rparr>"
      by (cases rule: performerPromote_cases) auto
    note d = drains_after_promotion [OF inv aps0]
    have "\<exists>dr. res = Inr dr \<and> dr_PerformerId dr = ?pid \<and> aps' = deployEnd ?r aps1"
      using assms(6) True p by (auto simp: deployFinish_def)
    moreover have "\<forall>old. cp_current aps = Some (Some old) \<longrightarrow> old \<in> set (cp_drains aps0)" by (simp add: d(1))
    ultimately show ?thesis using r nxt(2) healthy True by (auto simp: deployEnd_def in_service_def aps1 d(3))
  qed
qed

text \<open>What a deployment does to the slots, from any consistent state.\<close>

lemma deploy_effect:
  assumes "cm_ok cm containersOf" "slots_ok aps" "cp_current aps \<noteq> Some None"
    and "freshId (generatePerformerID (cp_config aps) uuid') aps"
    and "performerDeploy cm False uuid uuid' start timestamp now evs img aps = DeployReturned res aps'"
  shows "case res of
      Inl e \<Rightarrow> cp_current aps' = cp_current aps \<and> cp_next aps' = cp_next aps \<and> cp_drains aps' = cp_drains aps \<and>
        (removals_succeed cm \<longrightarrow> containersOf (cp_docker aps') \<subseteq> containersOf (cp_docker aps))
    | Inr dr \<Rightarrow> cp_next aps' = None \<and> in_service aps' (length (cp_heap aps)) (dr_PerformerId dr) img \<and>
        (\<forall>old. cp_current aps = Some (Some old) \<longrightarrow> old \<in> set (cp_drains aps'))"
proof (cases "cp_deploying aps")
  case False
  let ?aps0 = "aps\<lparr>cp_deploying := True\<rparr>"
  note inv0 = slots_ok_clear(4) [OF assms(2), of True]
  obtain x aps1 where c: "createPerformer cm False uuid' start timestamp img ?aps0 = (x, aps1)" by fastforce
  show ?thesis
  proof (cases x)
    case (Inl e)
    have "cp_current aps1 = cp_current aps \<and> cp_next aps1 = cp_next aps \<and> cp_drains aps1 = cp_drains aps \<and>
        (removals_succeed cm \<longrightarrow> containersOf (cp_docker aps1) \<subseteq> containersOf (cp_docker aps))"
      using c Inl createAndStart_effect [OF assms(1), of "cp_config aps" uuid' start img "configFor cm timestamp (cp_config aps) img" "cp_docker aps"]
      by (auto simp: createPerformer_def Let_def split: option.splits prod.splits sum.splits)
    with assms(5) False c Inl show ?thesis by (auto simp: performerDeploy_def)
  next
    case (Inr cr)
    have "freshId (generatePerformerID (cp_config ?aps0) uuid') ?aps0" using assms(4) by (simp add: freshId_def)
    from deploy_created [OF assms(1) inv0 this c [unfolded Inr]] obtain k where
      k: "cp_next ?aps0 = None" "cr_ref cr = length (cp_heap ?aps0)" "cp_heap aps1 = cp_heap ?aps0 @ [k]"
      "cp_next aps1 = Some (cr_ref cr)" "cp_current aps1 = cp_current ?aps0" "cp_drains aps1 = cp_drains ?aps0"
      "pc_performerID k = cr_PerformerId cr" "pc_image k = img"
      "ci_ID (pc_info k) \<notin> containersOf (cp_docker ?aps0)"
      "containersOf (cp_docker aps1) \<subseteq> insert (ci_ID (pc_info k)) (containersOf (cp_docker ?aps0))" "slots_ok aps1" .
    obtain out aps2 where w: "waitForHealthy cm (cr_ref cr) evs aps1 = (out, aps2)" by fastforce
    have ref: "cr_ref cr < length (cp_heap aps1)" "cp_heap aps1 ! cr_ref cr = k" using k(2,3) by simp_all
    note m = monitored_wait [OF assms(1) ref(1) w]
    note inv2 = slots_ok_monitored [OF m k(11)]
    note ids = monitored_ids(2,3,5) [OF m ref(1), unfolded ref(2)]
    have s2: "cp_current aps2 = cp_current aps" "cp_next aps2 = Some (cr_ref cr)" "cp_drains aps2 = cp_drains aps"
      "containersOf (cp_docker aps2) \<subseteq> containersOf (cp_docker aps1)"
      using m k(4,5,6) by (simp_all add: monitored_def)
    from assms(5) False c Inr w obtain did wt where f: "deployFinish cm did start now cr wt aps2 = (res, aps')"
      by (cases out) (auto simp: performerDeploy_def Let_def split: prod.splits)
    have sub: "containersOf (cp_docker aps2) - {ci_ID (pc_info k)} \<subseteq> containersOf (cp_docker aps)" using s2(4) k(10) by auto
    from deployFinish_effect [OF assms(1) inv2 _ s2(2) _ f] s2(1) assms(3) ids(1) k(7)
    show ?thesis using s2(1-3) k(1,2,8) ids(2,3) by (auto dest!: order_trans [OF _ sub])
  qed
qed (use assms(5) in \<open>auto simp: performerDeploy_def\<close>)

text \<open>
  C14. A deployment takes effect completely or not at all. If it succeeds, its container was reported
  healthy and is now the one in service, with the requested image and the reported performer id, no
  container is waiting, and the container it replaced is being drained. If it fails, both slots are as
  before and, unless the removal of a container fails, no container is left behind. The performer is in any reachable state in which its current
  container has not been removed.
\<close>

theorem deployment_all_or_nothing:
  assumes "cm_ok cm containersOf" "(performer_step cm)\<^sup>*\<^sup>* (newAvsContainerPerformer cfg d) aps" "cp_current aps \<noteq> Some None"
    and "freshId (generatePerformerID (cp_config aps) uuid') aps"
    and "performerDeploy cm False uuid uuid' start timestamp now evs img aps = DeployReturned res aps'"
  shows "case res of
      Inl e \<Rightarrow> cp_current aps' = cp_current aps \<and> cp_next aps' = cp_next aps \<and> cp_drains aps' = cp_drains aps \<and>
        (removals_succeed cm \<longrightarrow> containersOf (cp_docker aps') \<subseteq> containersOf (cp_docker aps))
    | Inr dr \<Rightarrow> cp_next aps' = None \<and> in_service aps' (length (cp_heap aps)) (dr_PerformerId dr) img \<and>
        (\<forall>old. cp_current aps = Some (Some old) \<longrightarrow> old \<in> set (cp_drains aps'))"
  by (rule deploy_effect [OF assms(1) reachable_slots_ok [OF assms(1,2)] assms(3-5)])

section \<open>Deploying after a removal\<close>

definition no_healthy :: "performer_container \<Rightarrow> bool" where
  "no_healthy c \<longleftrightarrow> (\<forall>st\<in>set (pc_statusChan c). se_Status st \<noteq> PerformerHealthy)"

lemma no_healthy_simps [simp]:
  "no_healthy (c\<lparr>pc_performerHealth := h\<rparr>) = no_healthy c" "no_healthy (c\<lparr>pc_statusDone := b\<rparr>) = no_healthy c"
  "no_healthy (c\<lparr>pc_client := x\<rparr>) = no_healthy c" "no_healthy (markUnhealthy c) = no_healthy c"
  "no_healthy c \<Longrightarrow> no_healthy (sendStatus PerformerUnhealthy msg c)"
  by (auto simp: no_healthy_def markUnhealthy_def sendStatus_def)

lemma recreate_no_healthy:
  assumes ok: "cm_ok cm containersOf" and "r < length (cp_heap aps)" "no_healthy (cp_heap aps ! r)"
  shows "no_healthy (cp_heap (recreateContainer cm uuid now timestamp r aps) ! r)"
proof -
  let ?d0 = "cmStopLivenessMonitoring cm (cp_docker aps) (ci_ID (pc_info (cp_heap aps ! r)))"
  obtain e d where "cmCreate cm True ?d0 (configFor cm timestamp (cp_config aps) (pc_image (cp_heap aps ! r))) = (Inl e, d)"
    using cm_okD(3) [OF ok] by blast
  with assms(2,3) show ?thesis by (simp add: recreateContainer_def createAndStartContainer_def Let_def)
qed

lemma event_no_healthy:
  assumes ok: "cm_ok cm containersOf" and r: "r < length (cp_heap aps)" and "no_healthy (cp_heap aps ! r)"
  shows "no_healthy (cp_heap (handleContainerEvent cm uuid now timestamp event r aps) ! r)"
proof -
  let ?un = "updContainer r markUnhealthy aps"
  have un: "no_healthy (cp_heap ?un ! r)" "r < length (cp_heap ?un)" using r assms(3) by simp_all
  have notify: "no_healthy (cp_heap (updContainer r (sendStatus PerformerUnhealthy ''Container is unhealthy'') a) ! r)"
    if "no_healthy (cp_heap a ! r)" "length (cp_heap a) = length (cp_heap aps)" for a
    using that r by simp
  have client: "no_healthy (cp_heap (recreatePerformerClientForContainer cm r a) ! r) \<and>
      length (cp_heap (recreatePerformerClientForContainer cm r a)) = length (cp_heap a)"
    if "no_healthy (cp_heap a ! r)" "r < length (cp_heap a)" for a
    using that by (auto simp: recreatePerformerClientForContainer_def Let_def split: sum.splits option.splits)
  have rec: "no_healthy (cp_heap (recreateContainer cm uuid now timestamp r ?un) ! r)"
    "length (cp_heap (recreateContainer cm uuid now timestamp r ?un)) = length (cp_heap aps)"
    using recreate_no_healthy [OF ok un(2,1)] monitored_heap(1) [OF monitored_recreate [OF ok un(2)]] by simp_all
  have h: "no_healthy (cp_heap (updContainer r (updHealth f) a) ! r)" if "no_healthy (cp_heap a ! r)" "r < length (cp_heap a)" for f a
    using that by simp
  let ?send = "updContainer r (sendStatus PerformerUnhealthy ''Container is unhealthy'')"
  have n1: "no_healthy (cp_heap (?send ?un) ! r)" by (rule notify [OF un(1)]) simp
  have hr: "r < length (cp_heap (updContainer r (updHealth f) ?un))" for f using r by simp
  have n2: "no_healthy (cp_heap (?send (recreatePerformerClientForContainer cm r (updContainer r (updHealth f) ?un))) ! r)" for f
    by (rule notify) (use client [OF h [OF un, of f] hr [of f]] in simp_all)
  show ?thesis
    unfolding handleContainerEvent_def Let_def
    using n1 n2 notify [OF assms(3) refl] h [OF assms(3) r] notify [OF rec]
    by (cases "ce_Type event"; cases "sublist ''recreation needed'' (ce_Message event)")
      (simp_all only: container_event_type.case if_True if_False simp_thms)
qed

lemma wait_nil_current:
  assumes ok: "cm_ok cm containersOf"
    and "cp_current aps = Some None" "r < length (cp_heap aps)" "no_healthy (cp_heap aps ! r)"
    and "waitForHealthy cm r evs aps = (out, aps')"
  shows "out \<noteq> WaitHealthy"
  using assms(2-5)
proof (induction evs arbitrary: aps)
  case (Cons ev evs)
  show ?case
  proof (cases ev)
    case (HealthTick now okf)
    with Cons.prems show ?thesis by (simp add: performPeriodicApplicationHealthChecks_def Let_def)
  next
    case (MonitorEvent event uuid now timestamp)
    let ?a = "handleContainerEvent cm uuid now timestamp event r aps"
    note m = monitored_event [OF ok Cons.prems(2), of uuid now timestamp event]
    have "cp_current ?a = Some None" "r < length (cp_heap ?a)"
      using m monitored_heap(1) [OF m] Cons.prems(1,2) by (simp_all add: monitored_def)
    from Cons.IH [OF this event_no_healthy [OF ok Cons.prems(2,3)]] Cons.prems(4) MonitorEvent show ?thesis by simp
  next
    case ReceiveStatus
    show ?thesis
    proof (cases "pc_statusChan (cp_heap aps ! r)")
      case Nil
      with ReceiveStatus Cons show ?thesis by simp
    next
      case (Cons st rest)
      let ?a = "updContainer r (\<lambda>c. c\<lparr>pc_statusChan := rest\<rparr>) aps"
      have "se_Status st \<noteq> PerformerHealthy" "no_healthy (cp_heap ?a ! r)"
        using \<open>no_healthy (cp_heap aps ! r)\<close> \<open>r < length (cp_heap aps)\<close> Cons by (auto simp: no_healthy_def)
      with Cons.IH [of ?a] Cons.prems ReceiveStatus Cons show ?thesis by (auto simp: Let_def)
    qed
  qed (use Cons.prems in auto)
qed simp

text \<open>
  Once the performer in service has been removed, no deployment succeeds again, whatever events
  occur while it waits: the removal leaves a \<open>nil\<close> pointer in the current slot, and the health check of
  the new container, without which it never becomes healthy, panics on it.
\<close>

theorem removed_performer_never_redeployed:
  assumes "cm_ok cm containersOf" "(performer_step cm)\<^sup>*\<^sup>* (newAvsContainerPerformer cfg d) aps"
    and "cp_current aps = Some (Some r)" "pc_performerID (cp_heap aps ! r) = pid"
    and "performerRemove cm pid aps = (e, aps1)"
    and "freshId (generatePerformerID (cp_config aps1) uuid') aps1"
  shows "performPeriodicApplicationHealthChecks cm t okf aps1 = None \<and>
    performerDeploy cm False uuid uuid' start timestamp now evs img aps1 \<noteq> DeployReturned (Inr dr) aps2"
proof -
  note inv = reachable_slots_ok [OF assms(1,2)]
  have cur: "cp_current aps1 = Some None"
    using assms(3-5) by (auto simp: performerRemove_def Let_def split: prod.splits)
  have inv1: "slots_ok aps1" by (rule slots_ok_remove [OF inv assms(5)])
  have "performerDeploy cm False uuid uuid' start timestamp now evs img aps1 \<noteq> DeployReturned (Inr dr) aps2"
  proof (cases "cp_deploying aps1")
    case False
    let ?a = "aps1\<lparr>cp_deploying := True\<rparr>"
    obtain x aps3 where c: "createPerformer cm False uuid' start timestamp img ?a = (x, aps3)" by fastforce
    show ?thesis
    proof (cases x)
      case (Inr cr)
      have "freshId (generatePerformerID (cp_config ?a) uuid') ?a" using assms(6) by (simp add: freshId_def)
      from deploy_created [OF assms(1) slots_ok_clear(4) [OF inv1, of True] this c [unfolded Inr]] obtain k where
        k: "cr_ref cr = length (cp_heap ?a)" "cp_heap aps3 = cp_heap ?a @ [k]" "cp_current aps3 = cp_current ?a" "pc_statusChan k = []" .
      obtain out aps4 where w: "waitForHealthy cm (cr_ref cr) evs aps3 = (out, aps4)" by fastforce
      from wait_nil_current [OF assms(1) _ _ _ w] k cur have "out \<noteq> WaitHealthy" by (simp add: no_healthy_def)
      with w c Inr False show ?thesis
        by (cases out) (auto simp: performerDeploy_def Let_def deployFinish_def split: prod.splits)
    qed (use c False in \<open>simp add: performerDeploy_def Let_def\<close>)
  qed (simp add: performerDeploy_def)
  with cur show ?thesis by (simp add: performPeriodicApplicationHealthChecks_def Let_def)
qed

section \<open>Instances\<close>

text \<open>A container manager whose calls succeed; its state is the list of the numbers of its containers.\<close>

definition sample_manager :: "nat list container_manager" where
  "sample_manager = \<lparr>
     cmCreate = (\<lambda>b d cfg. if b then (Inl ''context canceled'', d)
       else let i = Suc (sum_list d) in (Inr \<lparr>ci_ID = dec i, ci_Hostname = cc_Hostname cfg, ci_Status = [], ci_Ports = [], ci_Networks = []\<rparr>, i # d)),
     cmStart = (\<lambda>b d i. (None, d)), cmWaitForRunning = (\<lambda>b d i. (None, d)),
     cmInspect = (\<lambda>b d i. Inr \<lparr>ci_ID = i, ci_Hostname = ''h'', ci_Status = [], ci_Ports = [], ci_Networks = []\<rparr>),
     cmStop = (\<lambda>d i. (None, d)), cmRemove = (\<lambda>d i. (None, filter (\<lambda>j. dec j \<noteq> i) d)),
     cmStartLivenessMonitoring = (\<lambda>b d i lc. (None, d)), cmStopLivenessMonitoring = (\<lambda>d i. d),
     cmTriggerRestart = (\<lambda>d i reason. (None, d)), cmAdoptContainer = (\<lambda>b d i lc. (None, d)),
     ev_Getenv = (\<lambda>n. []), ev_Sha256 = (\<lambda>bs. [0, 0, 0]), ev_NewAvsPerformerClient = (\<lambda>e. None)\<rparr>"

lemma sample_manager_ok: "cm_ok sample_manager (\<lambda>d. dec ` set d)"
proof -
  have "Suc (sum_list d) \<notin> set d" for d :: "nat list"
    using member_le_sum_list [of "Suc (sum_list d)" d] by auto
  then show ?thesis by (auto simp: cm_ok_def sample_manager_def Let_def)
qed

definition sample_perf_config :: avs_performer_config where
  "sample_perf_config = \<lparr>apc_AvsAddress = ''0xa'', apc_Image = emptyImage, apc_PerformerNetworkName = ''net'',
     apc_ApplicationHealthCheckInterval = 15 * second\<rparr>"

lemma sample_perf_interval [simp]:
  "apc_ApplicationHealthCheckInterval sample_perf_config = 15 * second"
  "sample_perf_config\<lparr>apc_ApplicationHealthCheckInterval := 15000000000\<rparr> = sample_perf_config"
  by (simp_all add: sample_perf_config_def)

definition sample_image :: performer_image where
  "sample_image = emptyImage\<lparr>img_Repository := ''r'', img_Tag := ''t''\<rparr>"

definition sample_deploy :: "wait_event list \<Rightarrow> nat list deploy_outcome" where
  "sample_deploy evs = performerDeploy sample_manager False ''u'' ''v'' 0 0 5 evs sample_image
     (newAvsContainerPerformer sample_perf_config [])"

definition sample_deployed :: "nat list container_performer" where
  "sample_deployed = (case sample_deploy [HealthTick 1 (\<lambda>_. True), ReceiveStatus] of DeployReturned r a \<Rightarrow> a | _ \<Rightarrow> newAvsContainerPerformer sample_perf_config [])"

lemmas sample_performer_defs = sample_deploy_def sample_manager_def sample_perf_config_def sample_image_def emptyImage_def
  newAvsContainerPerformer_def performerDeploy_def createPerformer_def createAndStartContainer_def configFor_def
  createDefaultContainerConfig_def getContainerEndpoint_def internalContainerPort_def generatePerformerID_def
  performPeriodicApplicationHealthChecks_def checkContainer_def sendStatus_def deployFinish_def deployEnd_def
  performerPromote_def Let_def

lemma sample_deploy_run:
  "\<exists>dr. sample_deploy [HealthTick 1 (\<lambda>_. True), ReceiveStatus] = DeployReturned (Inr dr) sample_deployed \<and> dr_PerformerId dr = ''performer-0xa-v''"
  "cp_current sample_deployed = Some (Some 0)" "map pc_performerID (cp_heap sample_deployed) = [''performer-0xa-v'']"
  "cp_config sample_deployed = sample_perf_config"
  by (simp_all add: sample_deployed_def sample_performer_defs)

lemma sample_fresh: "freshId (generatePerformerID sample_perf_config ''w'') sample_deployed"
  "freshId (generatePerformerID sample_perf_config ''v'') (newAvsContainerPerformer sample_perf_config [])"
  by (simp_all add: freshId_def generatePerformerID_def sample_perf_config_def sample_deploy_run(3) [unfolded list.map]
      newAvsContainerPerformer_def sample_deploy_run(3) flip: set_map)

lemma sample_reachable: "(performer_step sample_manager)\<^sup>*\<^sup>* (newAvsContainerPerformer sample_perf_config []) sample_deployed"
proof -
  from sample_deploy_run(1) obtain dr where
    "performerDeploy sample_manager False ''u'' ''v'' 0 0 5 [HealthTick 1 (\<lambda>_. True), ReceiveStatus] sample_image
       (newAvsContainerPerformer sample_perf_config []) = DeployReturned (Inr dr) sample_deployed" by (auto simp: sample_deploy_def)
  then have "performer_step sample_manager (newAvsContainerPerformer sample_perf_config []) sample_deployed"
    using sample_fresh(2) by (intro performer_step.deploy) (auto simp: newAvsContainerPerformer_def)
  then show ?thesis by blast
qed


theorem deployment_all_or_nothing_witness:
  "\<exists>dr. sample_deploy [HealthTick 1 (\<lambda>_. True), ReceiveStatus] = DeployReturned (Inr dr) sample_deployed \<and>
     in_service sample_deployed 0 (dr_PerformerId dr) sample_image"
proof -
  from sample_deploy_run(1) obtain dr where
    run: "sample_deploy [HealthTick 1 (\<lambda>_. True), ReceiveStatus] = DeployReturned (Inr dr) sample_deployed" by blast
  have new: "cp_current (newAvsContainerPerformer sample_perf_config ([] :: nat list)) \<noteq> Some None"
    "cp_heap (newAvsContainerPerformer sample_perf_config ([] :: nat list)) = []"
    "cp_config (newAvsContainerPerformer sample_perf_config ([] :: nat list)) = sample_perf_config"
    by (simp_all add: newAvsContainerPerformer_def)
  have "freshId (generatePerformerID (cp_config (newAvsContainerPerformer sample_perf_config ([] :: nat list))) ''v'')
      (newAvsContainerPerformer sample_perf_config ([] :: nat list))" using sample_fresh(2) new(3) by simp
  from deployment_all_or_nothing [OF sample_manager_ok rtranclp.rtrancl_refl new(1) this run [unfolded sample_deploy_def]] run new(2)
  show ?thesis by auto
qed

theorem removed_performer_never_redeployed_witness:
  "performPeriodicApplicationHealthChecks sample_manager 2 (\<lambda>_. True) (snd (performerRemove sample_manager ''performer-0xa-v'' sample_deployed)) = None \<and>
   (\<forall>evs dr aps2. performerDeploy sample_manager False ''x'' ''w'' 0 0 5 evs sample_image
      (snd (performerRemove sample_manager ''performer-0xa-v'' sample_deployed)) \<noteq> DeployReturned (Inr dr) aps2)"
proof -
  obtain e aps1 where rm: "performerRemove sample_manager ''performer-0xa-v'' sample_deployed = (e, aps1)" by fastforce
  have id: "pc_performerID (cp_heap sample_deployed ! 0) = ''performer-0xa-v''"
    using sample_deploy_run(3) by (cases "cp_heap sample_deployed") auto
  have "cp_config aps1 = sample_perf_config \<and> map pc_performerID (cp_heap aps1) = map pc_performerID (cp_heap sample_deployed)"
    using rm
  proof (cases rule: performerRemove_cases)
    case (removed r x d a)
    have "map pc_performerID ((cp_heap sample_deployed)[r := (cp_heap sample_deployed ! r)\<lparr>pc_statusDone := True\<rparr>]) =
        map pc_performerID (cp_heap sample_deployed)"
      by (cases "r < length (cp_heap sample_deployed)") (simp_all add: map_update list_update_same_conv list_update_beyond not_less)
    with removed(1,5) sample_deploy_run(4) show ?thesis by auto
  qed (simp add: sample_deploy_run)
  with sample_fresh(1) have "freshId (generatePerformerID (cp_config aps1) ''w'') aps1" by (simp add: freshId_def)
  from removed_performer_never_redeployed [OF sample_manager_ok sample_reachable sample_deploy_run(2) id rm this] rm
  show ?thesis by simp
qed

end
