(* ===== verification/Executor.thy ===== *)
theory Executor
  imports Container_Performer Task_Session
begin

text \<open>
  The executor, \<open>ponos/pkg/executor/executor.go\<close> and \<open>ponos/pkg/executor/handlers.go\<close>, with the in-memory
  signer (\<open>signer/inMemorySigner/inMemorySigner.go\<close>) and the task type of \<open>performerTask/performerTask.go\<close>.
  An executor receives a task from the aggregator, checks that it is addressed to it and signed by the
  AVS's aggregator, runs it on the AVS's performer, and signs the result. Its management API deploys,
  lists and removes performers and is protected by challenge tokens.

  The performers are behind the interface \<open>IAvsPerformer\<close>, here the record \<open>avs_performer_ops\<close> over a type
  \<open>'p\<close> of performers, with their constructors. The contract reads are those of \<open>Peering\<close>, and the store is
  an \<open>executor_store\<close>.
\<close>

section \<open>The in-memory signer\<close>

datatype ('b, 'e) private_key = BN254PrivateKey 'b | ECDSAPrivateKey 'e

record ('b, 'e) in_memory_signer =
  ims_privateKey :: "('b, 'e) private_key"
  ims_curveType :: curve_type

text \<open>The signing functions of the crypto libraries on private keys; \<open>None\<close> is an error.\<close>

record ('b, 'e) sign_lib =
  sl_BN254Sign :: "'b \<Rightarrow> bytes \<Rightarrow> bytes option"
  sl_BN254SignSolidityCompatible :: "'b \<Rightarrow> bytes \<Rightarrow> bytes option"
  sl_ECDSASign :: "'e \<Rightarrow> bytes \<Rightarrow> bytes option"

text \<open>A key of another type than the curve type says makes the type assertion panic.\<close>

datatype sign_outcome = Signed bytes | SignError | SignPanic

definition signOutcome :: "bytes option \<Rightarrow> sign_outcome" where
  "signOutcome r = (case r of None \<Rightarrow> SignError | Some sig \<Rightarrow> Signed sig)"

definition ims_SignMessage ::
  "eth_common \<Rightarrow> ('b, 'e) sign_lib \<Rightarrow> ('b, 'e) in_memory_signer \<Rightarrow> bytes \<Rightarrow> sign_outcome" where
  "ims_SignMessage eth sl ims data =
     (let hashedData = getKeccak256Digest eth data
      in if ims_curveType ims = CurveTypeBN254 then
           (case ims_privateKey ims of BN254PrivateKey pk \<Rightarrow> signOutcome (sl_BN254Sign sl pk hashedData) | _ \<Rightarrow> SignPanic)
         else if ims_curveType ims = CurveTypeECDSA then
           (case ims_privateKey ims of ECDSAPrivateKey pk \<Rightarrow> signOutcome (sl_ECDSASign sl pk hashedData) | _ \<Rightarrow> SignPanic)
         else SignError)"

definition ims_SignMessageForSolidity ::
  "eth_common \<Rightarrow> ('b, 'e) sign_lib \<Rightarrow> ('b, 'e) in_memory_signer \<Rightarrow> bytes \<Rightarrow> sign_outcome" where
  "ims_SignMessageForSolidity eth sl ims data =
     (let hashedData = (if length data = 32 then data else keccak256 eth data)
      in if ims_curveType ims = CurveTypeBN254 then
           (case ims_privateKey ims of BN254PrivateKey pk \<Rightarrow> signOutcome (sl_BN254SignSolidityCompatible sl pk hashedData) | _ \<Rightarrow> SignPanic)
         else if ims_curveType ims = CurveTypeECDSA then
           (case ims_privateKey ims of ECDSAPrivateKey pk \<Rightarrow> signOutcome (sl_ECDSASign sl pk hashedData) | _ \<Rightarrow> SignPanic)
         else SignError)"

text \<open>The interface \<open>ISigner\<close>, and the in-memory signer behind it.\<close>

record isigner =
  is_SignMessage :: "bytes \<Rightarrow> sign_outcome"
  is_SignMessageForSolidity :: "bytes \<Rightarrow> sign_outcome"

definition inMemorySigner :: "eth_common \<Rightarrow> ('b, 'e) sign_lib \<Rightarrow> ('b, 'e) in_memory_signer \<Rightarrow> isigner" where
  "inMemorySigner eth sl ims =
     \<lparr>is_SignMessage = ims_SignMessage eth sl ims, is_SignMessageForSolidity = ims_SignMessageForSolidity eth sl ims\<rparr>"

section \<open>State\<close>

record avs_performer_entry =
  ape_Image :: "(string \<times> string) option"
  ape_ProcessType :: string
  ape_AvsAddress :: string
  ape_Envs :: "performer_env list"
  ape_DeploymentMode :: string
  ape_Kubernetes :: "(string \<times> string) option"

record executor_config =
  xcf_OperatorAddress :: string
  xcf_PerformerNetworkName :: string
  xcf_AvsPerformers :: "avs_performer_entry list"
  xcf_Kubernetes :: bool
  xcf_AuthConfig :: "bool option"

record 'p avs_performer_ops =
  apNewDocker :: "avs_performer_config \<Rightarrow> (string, 'p) result"
  apNewKubernetes :: "avs_performer_config \<Rightarrow> string \<Rightarrow> (string, 'p) result"
  apInitialize :: "'p \<Rightarrow> string option \<times> 'p"
  apRunTask :: "'p \<Rightarrow> performer_task \<Rightarrow> (string, performer_task_result) result \<times> 'p"
  apDeploy :: "'p \<Rightarrow> performer_image \<Rightarrow> (string, deployment_result) result \<times> 'p"
  apRemovePerformer :: "'p \<Rightarrow> string \<Rightarrow> string option \<times> 'p"
  apListPerformers :: "'p \<Rightarrow> performer_metadata list"
  apShutdown :: "'p \<Rightarrow> string option \<times> 'p"
  apRehydrateFromState :: "'p \<Rightarrow> performer_state \<Rightarrow> string option \<times> 'p"

text \<open>
  The verifier of the management API. Enabling authentication without any signer gives a verifier whose
  signer is \<open>nil\<close>.
\<close>

datatype ex_auth = AuthOff | AuthNilSigner token_manager | AuthOn verifier

record ('s, 'p) executor =
  ex_config :: executor_config
  ex_avsPerformers :: "(string \<times> 'p) list"
  ex_ecdsaSigner :: "isigner option"
  ex_bn254Signer :: "isigner option"
  ex_inflightTasks :: "(string \<times> task_submission) list"
  ex_store :: 's
  ex_authVerifier :: ex_auth

text \<open>\<open>VerifyAuthentication\<close> signs with \<open>SignMessage\<close> of the chosen signer.\<close>

definition authSigner :: "isigner \<Rightarrow> signer" where
  "authSigner sg msg = (case is_SignMessage sg msg of Signed sig \<Rightarrow> Some sig | _ \<Rightarrow> None)"

definition newExecutor ::
  "executor_config \<Rightarrow> isigner option \<Rightarrow> isigner option \<Rightarrow> 's \<Rightarrow> ('s, 'p) executor" where
  "newExecutor cfg ecdsa bls store =
     (let tm = newChallengeTokenManager (xcf_OperatorAddress cfg) 300;
          auth = (if xcf_AuthConfig cfg = Some True then
              (case ecdsa of Some sg \<Rightarrow> AuthOn (newVerifier tm (authSigner sg))
               | None \<Rightarrow> (case bls of Some sg \<Rightarrow> AuthOn (newVerifier tm (authSigner sg)) | None \<Rightarrow> AuthNilSigner tm))
            else AuthOff)
      in \<lparr>ex_config = cfg, ex_avsPerformers = [], ex_ecdsaSigner = ecdsa, ex_bn254Signer = bls,
          ex_inflightTasks = [], ex_store = store, ex_authVerifier = auth\<rparr>)"

section \<open>Receiving tasks\<close>

definition newPerformerTaskFromTaskSubmissionProto :: "task_submission \<Rightarrow> performer_task" where
  "newPerformerTaskFromTaskSubmissionProto t =
     \<lparr>ptk_TaskID = sub_TaskId t, ptk_Avs = sub_AvsAddress t, ptk_Payload = sub_Payload t,
      ptk_Signature = sub_Signature t, ptk_AggregatorAddress = sub_AggregatorAddress t,
      ptk_OperatorSetId = sub_OperatorSetId t, ptk_ReferenceTimestamp = sub_ReferenceTimestamp t,
      ptk_TaskBlockNumber = sub_TaskBlockNumber t\<rparr>"

text \<open>\<open>UnmarshalText\<close> of \<open>common.Hash\<close> and \<open>common.Address\<close>: whether the text is accepted.\<close>

record hex_lib =
  hx_HashUnmarshalText :: "string \<Rightarrow> bool"
  hx_AddressUnmarshalText :: "string \<Rightarrow> bool"

datatype submit_error = InvalidTaskId | InvalidAddress | EmptySignature | ZeroTimestamp | EmptyAvsAddress
  | AlreadyProcessed | EmptyExecutorAddress | ExecutorMismatch | OperatorSetDetailsFailed | AvsConfigFailed
  | AggregatorSetFailed | UnsupportedAggregatorCurve | BadSignatureFormat | SignatureVerifyError
  | SignatureNotVerified | NoPerformer | RunTaskFailed string | CurveTypeReadFailed | TaskHashReadFailed
  | NoBN254Signer | NoECDSASigner | DigestReadFailed | UnsupportedResultCurve | ResultSignFailed
  | AuthSignFailed | SignerPanic

definition addressOk :: "hex_lib \<Rightarrow> string \<Rightarrow> bool" where
  "addressOk hx a \<longleftrightarrow> length a = 42 \<and> prefix ''0x'' a \<and> hx_AddressUnmarshalText hx a"

definition validateTaskSubmission :: "hex_lib \<Rightarrow> task_submission \<Rightarrow> submit_error option" where
  "validateTaskSubmission hx req =
     (if length (sub_TaskId req) \<noteq> 66 then Some InvalidTaskId
      else if \<not> prefix ''0x'' (sub_TaskId req) then Some InvalidTaskId
      else if \<not> hx_HashUnmarshalText hx (sub_TaskId req) then Some InvalidTaskId
      else if \<not> addressOk hx (sub_AggregatorAddress req) then Some InvalidAddress
      else if \<not> addressOk hx (sub_AvsAddress req) then Some InvalidAddress
      else if \<not> addressOk hx (sub_ExecutorAddress req) then Some InvalidAddress
      else if length (sub_Signature req) = 0 then Some EmptySignature
      else if sub_ReferenceTimestamp req = 0 then Some ZeroTimestamp
      else None)"

definition validateOperatorInSet ::
  "eth_common \<Rightarrow> ('k, 'g2s) chain_contracts \<Rightarrow> ('s, 'p) executor \<Rightarrow> task_submission \<Rightarrow> submit_error option" where
  "validateOperatorInSet eth ch e task =
     (case getOperatorSetDetailsForOperator eth ch (hexToAddress eth (xcf_OperatorAddress (ex_config e)))
             (sub_AvsAddress task) (sub_OperatorSetId task) (sub_TaskBlockNumber task) of
        None \<Rightarrow> Some OperatorSetDetailsFailed
      | Some opSet \<Rightarrow> None)"

text \<open>An unsupported version gives \<open>nil\<close>, the empty message.\<close>

definition constructTaskSubmissionMessage :: "eth_common \<Rightarrow> ('s, 'p) executor \<Rightarrow> task_submission \<Rightarrow> bytes" where
  "constructTaskSubmissionMessage eth e task =
     (case encodeTaskSubmissionMessageVersioned eth (sub_TaskId task) (sub_AvsAddress task)
             (xcf_OperatorAddress (ex_config e)) (sub_ReferenceTimestamp task) (sub_TaskBlockNumber task)
             (sub_OperatorSetId task) (sub_Payload task) (sub_Version task) of
        None \<Rightarrow> []
      | Some msg \<Rightarrow> msg)"

text \<open>
  The signature check of the two schemes, on the hash of the message. \<open>None\<close> for the outcome is an error
  of the library, also when the aggregator's key is not a BN254 key.
\<close>

definition validateTaskSignature ::
  "eth_common \<Rightarrow> ('pub, 'sig, 'g2, 'k) bn254_lib \<Rightarrow> 'esig ecdsa_lib \<Rightarrow> ('k, 'g2s) chain_contracts \<Rightarrow>
     ('s, 'p) executor \<Rightarrow> task_submission \<Rightarrow> submit_error option" where
  "validateTaskSignature eth lib elib ch e task =
     (case getAVSConfig eth ch (sub_AvsAddress task) (sub_TaskBlockNumber task) of
        None \<Rightarrow> Some AvsConfigFailed
      | Some (aggregatorOperatorSetId, _) \<Rightarrow>
     (case getOperatorSetDetailsForOperator eth ch (hexToAddress eth (sub_AggregatorAddress task)) (sub_AvsAddress task)
             aggregatorOperatorSetId (sub_TaskBlockNumber task) of
        None \<Rightarrow> Some AggregatorSetFailed
      | Some aggOpSet \<Rightarrow>
     (let messageHash = getKeccak256Digest eth (constructTaskSubmissionMessage eth e task)
      in case os_CurveType aggOpSet of
        CurveTypeBN254 \<Rightarrow>
          (case newSignatureFromBytes lib (sub_Signature task) of
             None \<Rightarrow> Some BadSignatureFormat
           | Some sig \<Rightarrow>
          (case Option.bind (Option.bind (wpk_PublicKey (os_WrappedPublicKey aggOpSet)) (asBN254PublicKey lib))
                  (\<lambda>pub. sigVerify lib sig pub messageHash) of
             None \<Rightarrow> Some SignatureVerifyError
           | Some verified \<Rightarrow> if verified then None else Some SignatureNotVerified))
      | CurveTypeECDSA \<Rightarrow>
          (case ec_newSignatureFromBytes elib (sub_Signature task) of
             None \<Rightarrow> Some BadSignatureFormat
           | Some sig \<Rightarrow>
          (case ec_newSignatureFromBytes elib (ec_sigBytes elib sig) of
             None \<Rightarrow> Some BadSignatureFormat
           | Some typedSig \<Rightarrow>
          (case ec_verifyWithAddress elib typedSig messageHash (wpk_ECDSAAddress (os_WrappedPublicKey aggOpSet)) of
             None \<Rightarrow> Some SignatureVerifyError
           | Some verified \<Rightarrow> if verified then None else Some SignatureNotVerified)))
      | _ \<Rightarrow> Some UnsupportedAggregatorCurve)))"

definition signResult ::
  "eth_common \<Rightarrow> ('k, 'g2s) chain_contracts \<Rightarrow> cert_caller \<Rightarrow> ('s, 'p) executor \<Rightarrow> performer_task \<Rightarrow>
     performer_task_result \<Rightarrow> (submit_error, bytes \<times> bytes) result" where
  "signResult eth ch cc e task res =
     (case getOperatorSetCurveType eth ch (ptk_Avs task) (ptk_OperatorSetId task) (ptk_TaskBlockNumber task) of
        None \<Rightarrow> Inl CurveTypeReadFailed
      | Some curveType \<Rightarrow>
     (let taskHash = copy32 (hexToHash eth (ptk_TaskID task))
      in case calculateTaskMessageHash cc taskHash (ptr_Result res) of
        None \<Rightarrow> Inl TaskHashReadFailed
      | Some outputDigestHash \<Rightarrow>
     (let toSign =
        (if curveType = CurveTypeBN254 then
           (case ex_bn254Signer e of
              None \<Rightarrow> Inl NoBN254Signer
            | Some sg \<Rightarrow>
                (case calculateBN254CertificateDigestBytes cc (ptk_ReferenceTimestamp task) outputDigestHash of
                   None \<Rightarrow> Inl DigestReadFailed | Some dig \<Rightarrow> Inr (sg, dig)))
         else if curveType = CurveTypeECDSA then
           (case ex_ecdsaSigner e of
              None \<Rightarrow> Inl NoECDSASigner
            | Some sg \<Rightarrow>
                (case calculateECDSACertificateDigestBytes cc (ptk_ReferenceTimestamp task) outputDigestHash of
                   None \<Rightarrow> Inl DigestReadFailed | Some dig \<Rightarrow> Inr (sg, dig)))
         else Inl UnsupportedResultCurve)
      in case toSign of
        Inl err \<Rightarrow> Inl err
      | Inr (signerToUse, digestToSign) \<Rightarrow>
     (case is_SignMessageForSolidity signerToUse digestToSign of
        SignPanic \<Rightarrow> Inl SignerPanic
      | SignError \<Rightarrow> Inl ResultSignFailed
      | Signed resultSig \<Rightarrow>
     (let authData = \<lparr>asd_TaskId = ptk_TaskID task, asd_AvsAddress = ptk_Avs task,
            asd_OperatorAddress = xcf_OperatorAddress (ex_config e), asd_OperatorSetId = ptk_OperatorSetId task,
            asd_ResultSigDigest = getKeccak256Digest eth resultSig\<rparr>
      in case is_SignMessage signerToUse (asd_toSigningBytes eth authData) of
        SignPanic \<Rightarrow> Inl SignerPanic
      | SignError \<Rightarrow> Inl AuthSignFailed
      | Signed authSig \<Rightarrow> Inr (resultSig, authSig))))))"

text \<open>
  A failing lookup of the processed tasks is only logged. The entry in \<open>inflightTasks\<close> lives while the task
  runs; the deferred \<open>Delete\<close> removes it on every path after that.
\<close>

definition handleReceivedTask ::
  "eth_common \<Rightarrow> ('pub, 'sig, 'g2, 'k) bn254_lib \<Rightarrow> 'esig ecdsa_lib \<Rightarrow> ('k, 'g2s) chain_contracts \<Rightarrow> cert_caller \<Rightarrow>
     's executor_store \<Rightarrow> 'p avs_performer_ops \<Rightarrow> time \<Rightarrow> task_submission \<Rightarrow> ('s, 'p) executor \<Rightarrow>
     (submit_error, task_result_proto) result \<times> ('s, 'p) executor" where
  "handleReceivedTask eth lib elib ch cc xops pops now task e =
     (let avsAddress = toLower (sub_AvsAddress task)
      in if avsAddress = [] then (Inl EmptyAvsAddress, e)
      else if xsIsTaskProcessed xops (ex_store e) (sub_TaskId task) = Inr True then (Inl AlreadyProcessed, e)
      else if sub_ExecutorAddress task = [] then (Inl EmptyExecutorAddress, e)
      else if \<not> equalFold (sub_ExecutorAddress task) (xcf_OperatorAddress (ex_config e)) then (Inl ExecutorMismatch, e)
      else case validateOperatorInSet eth ch e task of
        Some err \<Rightarrow> (Inl err, e)
      | None \<Rightarrow>
     (case validateTaskSignature eth lib elib ch e task of
        Some err \<Rightarrow> (Inl err, e)
      | None \<Rightarrow>
     (case gm_get (ex_avsPerformers e) avsAddress of
        None \<Rightarrow> (Inl NoPerformer, e)
      | Some perf \<Rightarrow>
     (let pt = newPerformerTaskFromTaskSubmissionProto task;
          (res, perf') = apRunTask pops perf pt;
          e1 = e\<lparr>ex_avsPerformers := gm_put (ex_avsPerformers e) avsAddress perf',
            ex_inflightTasks := gm_del (ex_inflightTasks e) (sub_TaskId task)\<rparr>
      in case res of
        Inl m \<Rightarrow> (Inl (RunTaskFailed m), e1)
      | Inr response \<Rightarrow>
     (case signResult eth ch cc e1 pt response of
        Inl err \<Rightarrow> (Inl err, e1)
      | Inr (resultSig, authSig) \<Rightarrow>
          (Inr \<lparr>trp_TaskId = ptr_TaskID response, trp_Output = ptr_Result response,
             trp_OperatorAddress = xcf_OperatorAddress (ex_config e), trp_ResultSignature = resultSig,
             trp_AuthSignature = authSig, trp_AvsAddress = avsAddress, trp_OperatorSetId = sub_OperatorSetId task\<rparr>,
           e1\<lparr>ex_store := snd (xsMarkTaskProcessed xops now (ex_store e1) (sub_TaskId task))\<rparr>))))))"

definition submitTask ::
  "eth_common \<Rightarrow> hex_lib \<Rightarrow> ('pub, 'sig, 'g2, 'k) bn254_lib \<Rightarrow> 'esig ecdsa_lib \<Rightarrow> ('k, 'g2s) chain_contracts \<Rightarrow> cert_caller \<Rightarrow>
     's executor_store \<Rightarrow> 'p avs_performer_ops \<Rightarrow> time \<Rightarrow> task_submission \<Rightarrow> ('s, 'p) executor \<Rightarrow>
     (submit_error, task_result_proto) result \<times> ('s, 'p) executor" where
  "submitTask eth hx lib elib ch cc xops pops now req e =
     (case validateTaskSubmission hx req of
        Some err \<Rightarrow> (Inl err, e)
      | None \<Rightarrow> handleReceivedTask eth lib elib ch cc xops pops now req e)"

section \<open>The management API\<close>

text \<open>
  The outcome of a request: a response, a gRPC status with its message, or a panic of the handler. gRPC
  does not send a response that comes with an error.
\<close>

datatype 'a mgmt = MgmtOk 'a | MgmtStatus grpc_code string | MgmtPanic

datatype auth_result = AuthAccepted | AuthRejected auth_error | AuthPanic

definition executorVerifyAuth ::
  "eth_common \<Rightarrow> time \<Rightarrow> auth_signature option \<Rightarrow> ('s, 'p) executor \<Rightarrow> auth_result \<times> ('s, 'p) executor" where
  "executorVerifyAuth eth now au e =
     (case ex_authVerifier e of
        AuthOff \<Rightarrow> (if au \<noteq> None then AuthRejected (Status Unimplemented) else AuthAccepted, e)
      | AuthOn v \<Rightarrow>
          (case verifyAuthentication eth now v (authOfPointer au) of
             (Some err, v') \<Rightarrow> (AuthRejected err, e\<lparr>ex_authVerifier := AuthOn v'\<rparr>)
           | (None, v') \<Rightarrow> (AuthAccepted, e\<lparr>ex_authVerifier := AuthOn v'\<rparr>))
      | AuthNilSigner tm \<Rightarrow>
          (case useChallengeToken now tm (as_ChallengeToken (the (authOfPointer au))) of
             (Some err, tm') \<Rightarrow> (AuthRejected (Status Unauthenticated), e\<lparr>ex_authVerifier := AuthNilSigner tm'\<rparr>)
           | (None, tm') \<Rightarrow> (AuthPanic, e\<lparr>ex_authVerifier := AuthNilSigner tm'\<rparr>)))"

text \<open>The start of every protected handler: authentication, then the request itself.\<close>

definition withAuth ::
  "eth_common \<Rightarrow> time \<Rightarrow> auth_signature option \<Rightarrow> (('s, 'p) executor \<Rightarrow> 'a mgmt \<times> ('s, 'p) executor) \<Rightarrow> ('s, 'p) executor \<Rightarrow>
     'a mgmt \<times> ('s, 'p) executor" where
  "withAuth eth now au f e =
     (case executorVerifyAuth eth now au e of
        (AuthPanic, e1) \<Rightarrow> (MgmtPanic, e1)
      | (AuthRejected err, e1) \<Rightarrow>
          (case handleAuthError (Some err) of
             Some (Status c) \<Rightarrow> (MgmtStatus c ''Authentication failed'', e1)
           | _ \<Rightarrow> f e1)
      | (AuthAccepted, e1) \<Rightarrow> f e1)"

section \<open>Performers of the executor\<close>

definition dockerConfig :: "string \<Rightarrow> string \<Rightarrow> avs_performer_config" where
  "dockerConfig avsAddress network =
     \<lparr>apc_AvsAddress = avsAddress, apc_Image = emptyImage, apc_PerformerNetworkName = network,
      apc_ApplicationHealthCheckInterval = 0\<rparr>"

definition createAvsPerformer ::
  "'p avs_performer_ops \<Rightarrow> ('s, 'p) executor \<Rightarrow> string \<Rightarrow> (string, 'p) result" where
  "createAvsPerformer pops e avsAddress =
     apNewDocker pops (dockerConfig avsAddress (xcf_PerformerNetworkName (ex_config e)))"

text \<open>
  \<open>LoadOrStore\<close>: a performer stored meanwhile by another request is used. The new one is then shut down and
  dropped, which changes nothing the executor holds.
\<close>

definition loadOrStorePerformer ::
  "string \<Rightarrow> 'p \<Rightarrow> ('s, 'p) executor \<Rightarrow> 'p \<times> ('s, 'p) executor" where
  "loadOrStorePerformer avsAddress newPerformer e =
     (case gm_get (ex_avsPerformers e) avsAddress of
        Some actual \<Rightarrow> (actual, e)
      | None \<Rightarrow> (newPerformer, e\<lparr>ex_avsPerformers := gm_put (ex_avsPerformers e) avsAddress newPerformer\<rparr>))"

definition getOrCreateAvsPerformer ::
  "'p avs_performer_ops \<Rightarrow> string \<Rightarrow> ('s, 'p) executor \<Rightarrow> (string, 'p) result \<times> ('s, 'p) executor" where
  "getOrCreateAvsPerformer pops avsAddress e =
     (case gm_get (ex_avsPerformers e) avsAddress of
        Some perf \<Rightarrow> (Inr perf, e)
      | None \<Rightarrow>
     (case createAvsPerformer pops e avsAddress of
        Inl err \<Rightarrow> (Inl err, e)
      | Inr newPerformer \<Rightarrow>
     (case apInitialize pops newPerformer of
        (Some err, _) \<Rightarrow> (Inl err, e)
      | (None, newPerformer') \<Rightarrow>
          (case loadOrStorePerformer avsAddress newPerformer' e of (perf, e1) \<Rightarrow> (Inr perf, e1)))))"

section \<open>Deployment\<close>

record env_value_from =
  evf_SecretKeyRef :: "(string \<times> string) option"
  evf_ConfigMapKeyRef :: "(string \<times> string) option"

text \<open>The request's variables; a Kubernetes source without \<open>valueFrom\<close> is \<open>Some None\<close>.\<close>

record performer_env_proto =
  pep_Name :: string
  pep_Value :: string
  pep_ValueFromEnv :: string
  pep_KubernetesEnv :: "env_value_from option option"

record deploy_request =
  dq_AvsAddress :: string
  dq_Digest :: string
  dq_RegistryUrl :: string
  dq_Env :: "performer_env_proto list"
  dq_ServiceAccountName :: "string option"
  dq_Auth :: "auth_signature option"

definition validateDeployArtifactRequest :: "deploy_request \<Rightarrow> string" where
  "validateDeployArtifactRequest req =
     (if dq_AvsAddress req = [] then ''AVS address is required''
      else if dq_Digest req = [] then ''Artifact digest is required''
      else if dq_RegistryUrl req = [] then ''Registry URL is required''
      else [])"

definition envOfProto :: "performer_env_proto \<Rightarrow> performer_env" where
  "envOfProto env =
     \<lparr>pv_Name = pep_Name env, pv_Value = pep_Value env, pv_ValueFromEnv = pep_ValueFromEnv env,
      pv_KubernetesEnv =
        (case pep_KubernetesEnv env of
           Some (Some vf) \<Rightarrow>
             (let secret = (case evf_SecretKeyRef vf of Some r \<Rightarrow> r | None \<Rightarrow> ([], []));
                  cmap = (case evf_ConfigMapKeyRef vf of Some r \<Rightarrow> r | None \<Rightarrow> ([], []))
              in Some \<lparr>ke_SecretName = fst secret, ke_SecretKey = snd secret,
                   ke_ConfigMapName = fst cmap, ke_ConfigMapKey = snd cmap\<rparr>)
         | _ \<Rightarrow> None)\<rparr>"

definition imageOfRequest :: "deploy_request \<Rightarrow> performer_image" where
  "imageOfRequest req =
     \<lparr>img_Repository = dq_RegistryUrl req, img_Tag = [], img_Digest = dq_Digest req,
      img_Envs = utilMap (dq_Env req) (\<lambda>env i. envOfProto env),
      img_ServiceAccountName =
        (case dq_ServiceAccountName req of Some n \<Rightarrow> if n \<noteq> [] then n else [] | None \<Rightarrow> [])\<rparr>"

definition deployErrorStatus :: "string \<Rightarrow> 'a mgmt" where
  "deployErrorStatus err =
     (if sublist ''deployment already in progress'' err then MgmtStatus AlreadyExists ''deployment already in progress''
      else if sublist ''deployment timeout'' err then MgmtStatus grpc_code.DeadlineExceeded ''deployment timeout''
      else MgmtStatus Internal err)"

definition deployedState :: "executor_config \<Rightarrow> string \<Rightarrow> deploy_request \<Rightarrow> deployment_result \<Rightarrow> performer_state" where
  "deployedState cfg avsAddress req res =
     \<lparr>pst_PerformerId = dr_PerformerId res, pst_AvsAddress = avsAddress, pst_ResourceId = dr_ResourceId res,
      pst_Status = ''running'', pst_ArtifactRegistry = dq_RegistryUrl req, pst_ArtifactDigest = dq_Digest req,
      pst_ArtifactTag = [], pst_DeploymentMode = ''docker'', pst_CreatedAt = dr_StartTime res,
      pst_LastHealthCheck = dr_EndTime res, pst_ContainerHealthy = True, pst_ApplicationHealthy = True,
      pst_NetworkName = xcf_PerformerNetworkName cfg, pst_ContainerEndpoint = dr_Endpoint res,
      pst_ContainerHostname = dr_Hostname res, pst_EnvironmentVars = []\<rparr>"

text \<open>A state that cannot be saved is only logged.\<close>

definition deployTo ::
  "'s executor_store \<Rightarrow> 'p avs_performer_ops \<Rightarrow> deploy_request \<Rightarrow> string \<Rightarrow> 'p \<Rightarrow> ('s, 'p) executor \<Rightarrow>
     (string \<times> string) mgmt \<times> ('s, 'p) executor" where
  "deployTo xops pops req avsAddress perf e =
     (case apDeploy pops perf (imageOfRequest req) of
        (res, perf') \<Rightarrow>
      (let e1 = e\<lparr>ex_avsPerformers := gm_put (ex_avsPerformers e) avsAddress perf'\<rparr>
       in case res of
            Inl err \<Rightarrow> (deployErrorStatus err, e1)
          | Inr dr \<Rightarrow>
              (MgmtOk (dr_Message dr, dr_Id dr),
               e1\<lparr>ex_store := snd (xsSavePerformerState xops (ex_store e1) (dr_PerformerId dr)
                     (Some (deployedState (ex_config e1) avsAddress req dr)))\<rparr>)))"

definition deployArtifact ::
  "eth_common \<Rightarrow> time \<Rightarrow> 's executor_store \<Rightarrow> 'p avs_performer_ops \<Rightarrow> deploy_request \<Rightarrow> ('s, 'p) executor \<Rightarrow>
     (string \<times> string) mgmt \<times> ('s, 'p) executor" where
  "deployArtifact eth now xops pops req =
     withAuth eth now (dq_Auth req) (\<lambda>e.
       let errMsg = validateDeployArtifactRequest req
       in if errMsg \<noteq> [] then (MgmtStatus InvalidArgument errMsg, e)
          else let avsAddress = toLower (dq_AvsAddress req)
          in case getOrCreateAvsPerformer pops avsAddress e of
               (Inl err, e1) \<Rightarrow> (MgmtStatus Internal err, e1)
             | (Inr perf, e1) \<Rightarrow> deployTo xops pops req avsAddress perf e1)"

section \<open>Listing and removal\<close>

text \<open>The health check's time is kept as such; the response holds its RFC 3339 text.\<close>

record performer_proto =
  pp_PerformerId :: string
  pp_AvsAddress :: string
  pp_Status :: string
  pp_ArtifactRegistry :: string
  pp_ArtifactTag :: string
  pp_ArtifactDigest :: string
  pp_ResourceHealthy :: bool
  pp_ApplicationHealthy :: bool
  pp_LastHealthCheck :: time
  pp_ContainerId :: string

definition performerInfoToProto :: "performer_metadata \<Rightarrow> performer_proto" where
  "performerInfoToProto info =
     \<lparr>pp_PerformerId = pm_PerformerID info, pp_AvsAddress = pm_AvsAddress info, pp_Status = pm_Status info,
      pp_ArtifactRegistry = pm_ArtifactRegistry info, pp_ArtifactTag = pm_ArtifactTag info,
      pp_ArtifactDigest = pm_ArtifactDigest info, pp_ResourceHealthy = pm_ContainerHealthy info,
      pp_ApplicationHealthy = pm_ApplicationHealthy info, pp_LastHealthCheck = pm_LastHealthCheck info,
      pp_ContainerId = pm_ResourceID info\<rparr>"

definition stateToProto :: "performer_state \<Rightarrow> performer_proto" where
  "stateToProto st =
     \<lparr>pp_PerformerId = pst_PerformerId st, pp_AvsAddress = pst_AvsAddress st, pp_Status = pst_Status st,
      pp_ArtifactRegistry = pst_ArtifactRegistry st, pp_ArtifactTag = pst_ArtifactTag st,
      pp_ArtifactDigest = pst_ArtifactDigest st, pp_ResourceHealthy = pst_ContainerHealthy st,
      pp_ApplicationHealthy = pst_ApplicationHealthy st, pp_LastHealthCheck = pst_LastHealthCheck st,
      pp_ContainerId = pst_ResourceId st\<rparr>"

fun addPersisted :: "string \<Rightarrow> performer_state list \<Rightarrow> performer_proto list \<Rightarrow> performer_proto list" where
  "addPersisted filterAddress [] allPerformers = allPerformers"
| "addPersisted filterAddress (state # states) allPerformers =
     addPersisted filterAddress states
       (if filterAddress \<noteq> [] \<and> \<not> equalFold filterAddress (pst_AvsAddress state) then allPerformers
        else if \<exists>perf\<in>set allPerformers. pp_PerformerId perf = pst_PerformerId state then allPerformers
        else allPerformers @ [stateToProto state])"

definition livePerformers :: "'p avs_performer_ops \<Rightarrow> string \<Rightarrow> ('s, 'p) executor \<Rightarrow> performer_proto list" where
  "livePerformers pops filterAddress e =
     concat (map (\<lambda>(avsAddress, perf).
       if filterAddress \<noteq> [] \<and> \<not> equalFold filterAddress avsAddress then []
       else map performerInfoToProto (apListPerformers pops perf)) (ex_avsPerformers e))"

definition listPerformers ::
  "eth_common \<Rightarrow> time \<Rightarrow> 's executor_store \<Rightarrow> 'p avs_performer_ops \<Rightarrow> string \<Rightarrow> auth_signature option \<Rightarrow> ('s, 'p) executor \<Rightarrow>
     performer_proto list mgmt \<times> ('s, 'p) executor" where
  "listPerformers eth now xops pops avs au =
     withAuth eth now au (\<lambda>e.
       let filterAddress = toLower avs;
           live = livePerformers pops filterAddress e
       in (MgmtOk (case xsListPerformerStates xops (ex_store e) of
                     Inl err \<Rightarrow> live
                   | Inr states \<Rightarrow> addPersisted filterAddress states live), e))"

fun findPerformerByID :: "'p avs_performer_ops \<Rightarrow> string \<Rightarrow> (string \<times> 'p) list \<Rightarrow> (string \<times> 'p) option" where
  "findPerformerByID pops performerID [] = None"
| "findPerformerByID pops performerID ((avsAddress, perf) # rest) =
     (if \<exists>info\<in>set (apListPerformers pops perf). pm_PerformerID info = performerID then Some (avsAddress, perf)
      else findPerformerByID pops performerID rest)"

definition validateRemovePerformerRequest :: "string \<Rightarrow> string option" where
  "validateRemovePerformerRequest performerId = (if performerId = [] then Some ''performer ID is required'' else None)"

definition removePerformer ::
  "eth_common \<Rightarrow> time \<Rightarrow> 's executor_store \<Rightarrow> 'p avs_performer_ops \<Rightarrow> string \<Rightarrow> auth_signature option \<Rightarrow> ('s, 'p) executor \<Rightarrow>
     string mgmt \<times> ('s, 'p) executor" where
  "removePerformer eth now xops pops performerId au =
     withAuth eth now au (\<lambda>e.
       case validateRemovePerformerRequest performerId of
         Some err \<Rightarrow> (MgmtStatus InvalidArgument err, e)
       | None \<Rightarrow>
      (case findPerformerByID pops performerId (ex_avsPerformers e) of
         None \<Rightarrow> (MgmtStatus NotFound (''performer with ID '' @ performerId @ '' not found''), e)
       | Some (avsAddress, perf) \<Rightarrow>
      (case apRemovePerformer pops perf performerId of
         (res, perf') \<Rightarrow>
        (let e1 = e\<lparr>ex_avsPerformers := gm_put (ex_avsPerformers e) avsAddress perf'\<rparr>
         in case res of
              Some err \<Rightarrow> (MgmtStatus Internal err, e1)
            | None \<Rightarrow>
                (MgmtOk (''Performer '' @ performerId @ '' removed successfully''),
                 e1\<lparr>ex_store := snd (xsDeletePerformerState xops (ex_store e1) performerId)\<rparr>)))))"

definition executorGetChallengeToken ::
  "eth_common \<Rightarrow> string \<Rightarrow> time \<Rightarrow> string \<Rightarrow> ('s, 'p) executor \<Rightarrow> (string \<times> time) mgmt \<times> ('s, 'p) executor" where
  "executorGetChallengeToken eth uuidStr now operatorAddress e =
     (if operatorAddress = [] then (MgmtStatus InvalidArgument ''operator address is required'', e)
      else if \<not> equalFold operatorAddress (xcf_OperatorAddress (ex_config e)) then
        (MgmtStatus PermissionDenied ''operator address mismatch'', e)
      else case ex_authVerifier e of
        AuthOff \<Rightarrow> (MgmtStatus Unimplemented ''authentication is not enabled'', e)
      | AuthOn v \<Rightarrow>
          (case verifierGenerate eth uuidStr now v operatorAddress of
             (Inl err, v') \<Rightarrow> (MgmtStatus Internal ''failed to generate challenge token'', e\<lparr>ex_authVerifier := AuthOn v'\<rparr>)
           | (Inr entry, v') \<Rightarrow> (MgmtOk (te_Token entry, te_ExpiresAt entry), e\<lparr>ex_authVerifier := AuthOn v'\<rparr>))
      | AuthNilSigner tm \<Rightarrow>
          (case generateChallengeToken eth uuidStr now tm operatorAddress of
             (Inl err, tm') \<Rightarrow> (MgmtStatus Internal ''failed to generate challenge token'', e\<lparr>ex_authVerifier := AuthNilSigner tm'\<rparr>)
           | (Inr entry, tm') \<Rightarrow> (MgmtOk (te_Token entry, te_ExpiresAt entry), e\<lparr>ex_authVerifier := AuthNilSigner tm'\<rparr>)))"

section \<open>Start and shutdown\<close>

text \<open>One step of the rehydration loop; every failure is logged and the loop goes on.\<close>

definition rehydrateOne ::
  "'s executor_store \<Rightarrow> 'p avs_performer_ops \<Rightarrow> performer_state \<Rightarrow> ('s, 'p) executor \<Rightarrow> ('s, 'p) executor" where
  "rehydrateOne xops pops state e =
     (let avsAddress = toLower (pst_AvsAddress state)
      in if gm_get (ex_avsPerformers e) avsAddress \<noteq> None then e
      else if pst_DeploymentMode state \<noteq> ''docker'' then e
      else case apNewDocker pops (dockerConfig avsAddress (pst_NetworkName state)) of
        Inl err \<Rightarrow> e
      | Inr perf \<Rightarrow>
     (case apInitialize pops perf of
        (Some err, _) \<Rightarrow> e
      | (None, perf1) \<Rightarrow>
     (case apRehydrateFromState pops perf1 state of
        (Some err, _) \<Rightarrow> e\<lparr>ex_store := snd (xsDeletePerformerState xops (ex_store e) (pst_PerformerId state))\<rparr>
      | (None, perf2) \<Rightarrow> e\<lparr>ex_avsPerformers := gm_put (ex_avsPerformers e) avsAddress perf2\<rparr>)))"

definition rehydratePerformersFromStorage ::
  "'s executor_store \<Rightarrow> 'p avs_performer_ops \<Rightarrow> ('s, 'p) executor \<Rightarrow> ex_store_err option \<times> ('s, 'p) executor" where
  "rehydratePerformersFromStorage xops pops e =
     (case xsListPerformerStates xops (ex_store e) of
        Inl err \<Rightarrow> (Some err, e)
      | Inr states \<Rightarrow> (None, fold (rehydrateOne xops pops) states e))"

definition createPerformerFor ::
  "'p avs_performer_ops \<Rightarrow> executor_config \<Rightarrow> avs_performer_entry \<Rightarrow> string \<Rightarrow> (string, 'p) result" where
  "createPerformerFor pops cfg avs avsAddress =
     (let deploymentMode = (if ape_DeploymentMode avs = [] then ''docker'' else ape_DeploymentMode avs)
      in if deploymentMode = ''docker'' then apNewDocker pops (dockerConfig avsAddress (xcf_PerformerNetworkName cfg))
      else if deploymentMode = ''kubernetes'' then
        (if \<not> xcf_Kubernetes cfg then Inl ''kubernetes configuration is required for kubernetes deployment mode''
         else apNewKubernetes pops (dockerConfig avsAddress [])
                (case ape_Kubernetes avs of Some (endpointOverride, _) \<Rightarrow> endpointOverride | None \<Rightarrow> []))
      else Inl (''unsupported deployment mode: '' @ deploymentMode))"

definition startupState :: "executor_config \<Rightarrow> avs_performer_entry \<Rightarrow> string \<Rightarrow> string \<times> string \<Rightarrow> deployment_result \<Rightarrow> performer_state" where
  "startupState cfg avs avsAddress img res =
     \<lparr>pst_PerformerId = dr_PerformerId res, pst_AvsAddress = avsAddress, pst_ResourceId = dr_ResourceId res,
      pst_Status = ''running'', pst_ArtifactRegistry = fst img, pst_ArtifactDigest = [],
      pst_ArtifactTag = snd img, pst_DeploymentMode = ape_DeploymentMode avs, pst_CreatedAt = dr_StartTime res,
      pst_LastHealthCheck = dr_EndTime res, pst_ContainerHealthy = True, pst_ApplicationHealthy = True,
      pst_NetworkName = xcf_PerformerNetworkName cfg, pst_ContainerEndpoint = dr_Endpoint res,
      pst_ContainerHostname = dr_Hostname res,
      pst_EnvironmentVars = map (\<lambda>env. \<lparr>ev_Name = pv_Name env, ev_Value = pv_Value env,
        ev_ValueFromEnv = pv_ValueFromEnv env\<rparr>) (ape_Envs avs)\<rparr>"

datatype init_result = InitOk | InitError string | InitPanic

text \<open>One AVS of the configuration. A configuration without image makes \<open>avs.Image.Repository\<close> panic.\<close>

definition initAvs ::
  "'s executor_store \<Rightarrow> 'p avs_performer_ops \<Rightarrow> avs_performer_entry \<Rightarrow> ('s, 'p) executor \<Rightarrow> init_result \<times> ('s, 'p) executor" where
  "initAvs xops pops avs e =
     (let avsAddress = toLower (ape_AvsAddress avs)
      in if gm_get (ex_avsPerformers e) avsAddress \<noteq> None then (InitOk, e)
      else if ape_ProcessType avs \<noteq> ''server'' then
        (InitError (''unsupported AVS performer process type: '' @ ape_ProcessType avs), e)
      else case createPerformerFor pops (ex_config e) avs avsAddress of
        Inl err \<Rightarrow> (InitError (''failed to create AVS performer for '' @ ape_ProcessType avs @ '': '' @ err), e)
      | Inr perf \<Rightarrow>
     (case apInitialize pops perf of
        (Some err, _) \<Rightarrow> (InitError err, e)
      | (None, perf1) \<Rightarrow>
     (case ape_Image avs of
        None \<Rightarrow> (InitPanic, e)
      | Some (repository, tag) \<Rightarrow>
     (case apDeploy pops perf1
             \<lparr>img_Repository = repository, img_Tag = tag, img_Digest = [], img_Envs = ape_Envs avs,
              img_ServiceAccountName = (case ape_Kubernetes avs of Some (_, n) \<Rightarrow> n | None \<Rightarrow> [])\<rparr> of
        (Inl err, _) \<Rightarrow> (InitError err, e)
      | (Inr res, perf2) \<Rightarrow>
          (InitOk, e\<lparr>ex_avsPerformers := gm_put (ex_avsPerformers e) avsAddress perf2,
             ex_store := snd (xsSavePerformerState xops (ex_store e) (dr_PerformerId res)
               (Some (startupState (ex_config e) avs avsAddress (repository, tag) res)))\<rparr>)))))"

fun initAll ::
  "'s executor_store \<Rightarrow> 'p avs_performer_ops \<Rightarrow> avs_performer_entry list \<Rightarrow> ('s, 'p) executor \<Rightarrow> init_result \<times> ('s, 'p) executor" where
  "initAll xops pops [] e = (InitOk, e)"
| "initAll xops pops (avs # avss) e =
     (case initAvs xops pops avs e of
        (InitOk, e1) \<Rightarrow> initAll xops pops avss e1
      | (err, e1) \<Rightarrow> (err, e1))"

text \<open>A failed rehydration is only logged; \<open>registerHandlers\<close> never fails.\<close>

definition executorInitialize ::
  "'s executor_store \<Rightarrow> 'p avs_performer_ops \<Rightarrow> ('s, 'p) executor \<Rightarrow> init_result \<times> ('s, 'p) executor" where
  "executorInitialize xops pops e =
     initAll xops pops (xcf_AvsPerformers (ex_config e)) (snd (rehydratePerformersFromStorage xops pops e))"

text \<open>The goroutine that waits for the end of the context.\<close>

definition executorShutdown :: "'p avs_performer_ops \<Rightarrow> ('s, 'p) executor \<Rightarrow> ('s, 'p) executor" where
  "executorShutdown pops e =
     e\<lparr>ex_avsPerformers := map (\<lambda>(avs, perf). (avs, snd (apShutdown pops perf))) (ex_avsPerformers e)\<rparr>"

end
