(* ===== verification/Executor_Theorems.thy ===== *)
theory Executor_Theorems
  imports Executor Session_Theorems
begin

text \<open>
  What the executor guarantees. The first part composes it with the aggregator's task session: a
  submission the session signs passes the executor's signature check, and the answer of an executor with
  an in-memory signer is a valid vote for the aggregator. The second part follows the executor through
  arbitrary sequences of requests and restarts: a processed task is never run again on the BadgerDB store,
  a deployed performer is back after a restart, and a request that fails authentication changes nothing.
\<close>

section \<open>Assumptions on the cryptographic libraries\<close>

text \<open>A signature made with a key parses and verifies against the matching public key.\<close>

definition bn254_signs :: "('pub, 'sig, 'g2, 'k) bn254_lib \<Rightarrow> ('b, 'e) sign_lib \<Rightarrow> 'b \<Rightarrow> 'pub \<Rightarrow> bool" where
  "bn254_signs lib sl sk pub \<longleftrightarrow>
     (\<forall>m sig. sl_BN254Sign sl sk m = Some sig \<longrightarrow>
        sig \<noteq> [] \<and> (\<exists>s. newSignatureFromBytes lib sig = Some s \<and> sigVerify lib s pub m = Some True)) \<and>
     (\<forall>m sig. sl_BN254SignSolidityCompatible sl sk m = Some sig \<longrightarrow>
        sig \<noteq> [] \<and> (\<exists>s. newSignatureFromBytes lib sig = Some s \<and> verifySolidityCompatible lib s pub m = Some True))"

definition ecdsa_signs :: "'sig ecdsa_lib \<Rightarrow> ('b, 'e) sign_lib \<Rightarrow> 'e \<Rightarrow> bytes \<Rightarrow> bool" where
  "ecdsa_signs lib sl sk addr \<longleftrightarrow>
     (\<forall>m sig. sl_ECDSASign sl sk m = Some sig \<longrightarrow>
        sig \<noteq> [] \<and> (\<exists>s. ec_newSignatureFromBytes lib sig = Some s \<and> ec_sigBytes lib s = sig \<and>
          ec_verifyWithAddress lib s m addr = Some True))"

text \<open>
  Hexadecimal addresses are read without regard to case. The contracts return a BN254 digest of 32 bytes
  and the encoded ECDSA certificate, which is longer than a hash.
\<close>

definition eth_caseless :: "eth_common \<Rightarrow> bool" where
  "eth_caseless eth \<longleftrightarrow> (\<forall>a. hexToAddress eth (toLower a) = hexToAddress eth a)"

definition digest_lengths :: "cert_caller \<Rightarrow> bool" where
  "digest_lengths cc \<longleftrightarrow>
     (\<forall>ts h d. calculateBN254CertificateDigestBytes cc ts h = Some d \<longrightarrow> length d = 32) \<and>
     (\<forall>ts h d. calculateECDSACertificateDigestBytes cc ts h = Some d \<longrightarrow> length d \<noteq> 32)"

text \<open>A performer answers with the id of the task it was given.\<close>

definition performer_echoes :: "'p avs_performer_ops \<Rightarrow> bool" where
  "performer_echoes pops \<longleftrightarrow>
     (\<forall>p t r p'. apRunTask pops p t = (Inr r, p') \<longrightarrow> ptr_TaskID r = ptk_TaskID t)"

definition bn254Signer :: "eth_common \<Rightarrow> ('b, 'e) sign_lib \<Rightarrow> 'b \<Rightarrow> isigner" where
  "bn254Signer eth sl sk = inMemorySigner eth sl \<lparr>ims_privateKey = BN254PrivateKey sk, ims_curveType = CurveTypeBN254\<rparr>"

definition ecdsaSigner :: "eth_common \<Rightarrow> ('b, 'e) sign_lib \<Rightarrow> 'e \<Rightarrow> isigner" where
  "ecdsaSigner eth sl sk = inMemorySigner eth sl \<lparr>ims_privateKey = ECDSAPrivateKey sk, ims_curveType = CurveTypeECDSA\<rparr>"

lemma copy32_id [simp]: "length b = 32 \<Longrightarrow> copy32 b = b"
  by (simp add: copy32_def)

lemma keccak_length: "eth_ok eth \<Longrightarrow> length (getKeccak256Digest eth b) = 32"
  by (simp add: eth_ok_def getKeccak256Digest_def)

lemma eth_caselessD: "eth_caseless eth \<Longrightarrow> equalFold a b \<Longrightarrow> hexToAddress eth a = hexToAddress eth b"
  unfolding eth_caseless_def equalFold_def by metis

text \<open>What a signature of an in-memory signer is worth.\<close>

lemma bn254Signer_Signed:
  assumes "bn254_signs lib sl sk pub"
  shows "is_SignMessage (bn254Signer eth sl sk) m = Signed sig \<Longrightarrow>
      sig \<noteq> [] \<and> (\<exists>s. newSignatureFromBytes lib sig = Some s \<and> sigVerify lib s pub (getKeccak256Digest eth m) = Some True)"
    and "is_SignMessageForSolidity (bn254Signer eth sl sk) m = Signed sig \<Longrightarrow> length m = 32 \<Longrightarrow>
      sig \<noteq> [] \<and> (\<exists>s. newSignatureFromBytes lib sig = Some s \<and> verifySolidityCompatible lib s pub m = Some True)"
  using assms
  by (auto simp: bn254Signer_def inMemorySigner_def ims_SignMessage_def ims_SignMessageForSolidity_def signOutcome_def
      bn254_signs_def Let_def split: option.splits)

lemma ecdsaSigner_Signed:
  assumes "ecdsa_signs lib sl sk addr"
  shows "is_SignMessage (ecdsaSigner eth sl sk) m = Signed sig \<Longrightarrow>
      sig \<noteq> [] \<and> (\<exists>s. ec_newSignatureFromBytes lib sig = Some s \<and> ec_sigBytes lib s = sig \<and>
        ec_verifyWithAddress lib s (getKeccak256Digest eth m) addr = Some True)"
    and "is_SignMessageForSolidity (ecdsaSigner eth sl sk) m = Signed sig \<Longrightarrow> length m \<noteq> 32 \<Longrightarrow>
      sig \<noteq> [] \<and> (\<exists>s. ec_newSignatureFromBytes lib sig = Some s \<and> ec_sigBytes lib s = sig \<and>
        ec_verifyWithAddress lib s (getKeccak256Digest eth m) addr = Some True)"
  using assms
  by (auto simp: ecdsaSigner_def inMemorySigner_def ims_SignMessage_def ims_SignMessageForSolidity_def signOutcome_def
      ecdsa_signs_def getKeccak256Digest_def Let_def split: option.splits)

section \<open>A task that was answered\<close>

lemma signResult_cong:
  "signResult eth ch cc (e\<lparr>ex_avsPerformers := ps, ex_inflightTasks := ts\<rparr>) = signResult eth ch cc e"
proof -
  have sel: "ex_config (e\<lparr>ex_avsPerformers := ps, ex_inflightTasks := ts\<rparr>) = ex_config e"
    "ex_bn254Signer (e\<lparr>ex_avsPerformers := ps, ex_inflightTasks := ts\<rparr>) = ex_bn254Signer e"
    "ex_ecdsaSigner (e\<lparr>ex_avsPerformers := ps, ex_inflightTasks := ts\<rparr>) = ex_ecdsaSigner e" by simp_all
  show ?thesis unfolding fun_eq_iff signResult_def sel by blast
qed

lemma handleReceivedTask_Inr:
  assumes "handleReceivedTask eth lib elib ch cc xops pops now task e = (Inr res, e')"
  obtains perf perf' response resultSig authSig where
    "xsIsTaskProcessed xops (ex_store e) (sub_TaskId task) \<noteq> Inr True"
    "equalFold (sub_ExecutorAddress task) (xcf_OperatorAddress (ex_config e))"
    "validateOperatorInSet eth ch e task = None" "validateTaskSignature eth lib elib ch e task = None"
    "gm_get (ex_avsPerformers e) (toLower (sub_AvsAddress task)) = Some perf"
    "apRunTask pops perf (newPerformerTaskFromTaskSubmissionProto task) = (Inr response, perf')"
    "signResult eth ch cc e (newPerformerTaskFromTaskSubmissionProto task) response = Inr (resultSig, authSig)"
    "res = \<lparr>trp_TaskId = ptr_TaskID response, trp_Output = ptr_Result response,
       trp_OperatorAddress = xcf_OperatorAddress (ex_config e), trp_ResultSignature = resultSig,
       trp_AuthSignature = authSig, trp_AvsAddress = toLower (sub_AvsAddress task), trp_OperatorSetId = sub_OperatorSetId task\<rparr>"
    "ex_store e' = snd (xsMarkTaskProcessed xops now (ex_store e) (sub_TaskId task))"
  using assms
  by (auto simp: handleReceivedTask_def signResult_cong Let_def split: if_splits option.splits prod.splits sum.splits)

lemma submitTask_Inr:
  "submitTask eth hx lib elib ch cc xops pops now task e = (Inr res, e') \<longleftrightarrow>
     validateTaskSubmission hx task = None \<and> handleReceivedTask eth lib elib ch cc xops pops now task e = (Inr res, e')"
  by (auto simp: submitTask_def split: option.splits)

lemma signResult_bn254:
  assumes "signResult eth ch cc e task res = Inr (resultSig, authSig)"
    and "getOperatorSetCurveType eth ch (ptk_Avs task) (ptk_OperatorSetId task) (ptk_TaskBlockNumber task) = Some CurveTypeBN254"
  obtains sg d dig where "ex_bn254Signer e = Some sg"
    "calculateTaskMessageHash cc (copy32 (hexToHash eth (ptk_TaskID task))) (ptr_Result res) = Some d"
    "calculateBN254CertificateDigestBytes cc (ptk_ReferenceTimestamp task) d = Some dig"
    "is_SignMessageForSolidity sg dig = Signed resultSig"
    "is_SignMessage sg (asd_toSigningBytes eth \<lparr>asd_TaskId = ptk_TaskID task, asd_AvsAddress = ptk_Avs task,
       asd_OperatorAddress = xcf_OperatorAddress (ex_config e), asd_OperatorSetId = ptk_OperatorSetId task,
       asd_ResultSigDigest = getKeccak256Digest eth resultSig\<rparr>) = Signed authSig"
  using assms by (auto simp: signResult_def Let_def split: option.splits sum.splits sign_outcome.splits)

lemma signResult_ecdsa:
  assumes "signResult eth ch cc e task res = Inr (resultSig, authSig)"
    and "getOperatorSetCurveType eth ch (ptk_Avs task) (ptk_OperatorSetId task) (ptk_TaskBlockNumber task) = Some CurveTypeECDSA"
  obtains sg d dig where "ex_ecdsaSigner e = Some sg"
    "calculateTaskMessageHash cc (copy32 (hexToHash eth (ptk_TaskID task))) (ptr_Result res) = Some d"
    "calculateECDSACertificateDigestBytes cc (ptk_ReferenceTimestamp task) d = Some dig"
    "is_SignMessageForSolidity sg dig = Signed resultSig"
    "is_SignMessage sg (asd_toSigningBytes eth \<lparr>asd_TaskId = ptk_TaskID task, asd_AvsAddress = ptk_Avs task,
       asd_OperatorAddress = xcf_OperatorAddress (ex_config e), asd_OperatorSetId = ptk_OperatorSetId task,
       asd_ResultSigDigest = getKeccak256Digest eth resultSig\<rparr>) = Signed authSig"
  using assms by (auto simp: signResult_def Let_def split: option.splits sum.splits sign_outcome.splits)


text \<open>The two signatures of a result, as the aggregator verifies them.\<close>

definition resultAuth :: "eth_common \<Rightarrow> ('s, 'p) executor \<Rightarrow> performer_task \<Rightarrow> bytes \<Rightarrow> auth_signature_data" where
  "resultAuth eth e task resultSig =
     \<lparr>asd_TaskId = ptk_TaskID task, asd_AvsAddress = ptk_Avs task,
      asd_OperatorAddress = xcf_OperatorAddress (ex_config e), asd_OperatorSetId = ptk_OperatorSetId task,
      asd_ResultSigDigest = getKeccak256Digest eth resultSig\<rparr>"

lemma signResult_bn254_verifies:
  assumes "signResult eth ch cc e task res = Inr (resultSig, authSig)"
    and "getOperatorSetCurveType eth ch (ptk_Avs task) (ptk_OperatorSetId task) (ptk_TaskBlockNumber task) = Some CurveTypeBN254"
    and "ex_bn254Signer e = Some (bn254Signer eth sl sk)" "bn254_signs lib sl sk pub" "digest_lengths cc"
  obtains d dig s s' where
    "calculateTaskMessageHash cc (copy32 (hexToHash eth (ptk_TaskID task))) (ptr_Result res) = Some d"
    "calculateBN254CertificateDigestBytes cc (ptk_ReferenceTimestamp task) d = Some dig" "length dig = 32"
    "resultSig \<noteq> []" "newSignatureFromBytes lib resultSig = Some s" "verifySolidityCompatible lib s pub dig = Some True"
    "authSig \<noteq> []" "newSignatureFromBytes lib authSig = Some s'"
    "sigVerify lib s' pub (getKeccak256Digest eth (asd_toSigningBytes eth (resultAuth eth e task resultSig))) = Some True"
  using assms(1,2)
proof (cases rule: signResult_bn254)
  case (1 sg d dig)
  have sg: "sg = bn254Signer eth sl sk" using 1(1) assms(3) by simp
  have len: "length dig = 32" using assms(5) 1(3) unfolding digest_lengths_def by blast
  from bn254Signer_Signed(2) [OF assms(4) 1(4) [unfolded sg] len] bn254Signer_Signed(1) [OF assms(4) 1(5) [unfolded sg]]
  show thesis using that [OF 1(2,3) len] by (auto simp: resultAuth_def)
qed

lemma signResult_ecdsa_verifies:
  assumes "signResult eth ch cc e task res = Inr (resultSig, authSig)"
    and "getOperatorSetCurveType eth ch (ptk_Avs task) (ptk_OperatorSetId task) (ptk_TaskBlockNumber task) = Some CurveTypeECDSA"
    and "ex_ecdsaSigner e = Some (ecdsaSigner eth sl sk)" "ecdsa_signs elib sl sk addr" "digest_lengths cc"
  obtains d dig s s' where
    "calculateTaskMessageHash cc (copy32 (hexToHash eth (ptk_TaskID task))) (ptr_Result res) = Some d"
    "calculateECDSACertificateDigestBytes cc (ptk_ReferenceTimestamp task) d = Some dig"
    "resultSig \<noteq> []" "ec_newSignatureFromBytes elib resultSig = Some s" "ec_sigBytes elib s = resultSig"
    "ec_verifyWithAddress elib s (getKeccak256Digest eth dig) addr = Some True"
    "authSig \<noteq> []" "ec_newSignatureFromBytes elib authSig = Some s'"
    "ec_verifyWithAddress elib s' (getKeccak256Digest eth (asd_toSigningBytes eth (resultAuth eth e task resultSig))) addr = Some True"
  using assms(1,2)
proof (cases rule: signResult_ecdsa)
  case (1 sg d dig)
  have sg: "sg = ecdsaSigner eth sl sk" using 1(1) assms(3) by simp
  have len: "length dig \<noteq> 32" using assms(5) 1(3) unfolding digest_lengths_def by blast
  from ecdsaSigner_Signed(2) [OF assms(4) 1(4) [unfolded sg] len] ecdsaSigner_Signed(1) [OF assms(4) 1(5) [unfolded sg]]
  show thesis using that [OF 1(2,3)] by (auto simp: resultAuth_def)
qed

section \<open>The executor and the task session\<close>

text \<open>The signer's key is the one registered in the operator set.\<close>

definition registered_signer ::
  "eth_common \<Rightarrow> ('pub, 'sig, 'g2, 'k) bn254_lib \<Rightarrow> 'esig ecdsa_lib \<Rightarrow> ('b, 'e) sign_lib \<Rightarrow> isigner \<Rightarrow> 'k operator_set \<Rightarrow> bool" where
  "registered_signer eth lib elib sl sg os \<longleftrightarrow>
     (os_CurveType os = CurveTypeBN254 \<and>
        (\<exists>sk k pub. sg = bn254Signer eth sl sk \<and> wpk_PublicKey (os_WrappedPublicKey os) = Some k \<and>
          asBN254PublicKey lib k = Some pub \<and> newPublicKeyFromBytes lib (keyBytes lib k) \<noteq> None \<and>
          bn254_signs lib sl sk pub)) \<or>
     (os_CurveType os = CurveTypeECDSA \<and>
        (\<exists>sk. sg = ecdsaSigner eth sl sk \<and> ecdsa_signs elib sl sk (wpk_ECDSAAddress (os_WrappedPublicKey os))))"

text \<open>The executor as the session sees it over the network.\<close>

definition executorAnswers ::
  "eth_common \<Rightarrow> hex_lib \<Rightarrow> ('pub, 'sig, 'g2, 'k) bn254_lib \<Rightarrow> 'esig ecdsa_lib \<Rightarrow> ('k, 'g2s) chain_contracts \<Rightarrow> cert_caller \<Rightarrow>
     's executor_store \<Rightarrow> 'p avs_performer_ops \<Rightarrow> time \<Rightarrow> ('s, 'p) executor \<Rightarrow> task_submission \<Rightarrow> task_result_proto option" where
  "executorAnswers eth hx lib elib ch cc xops pops now e req =
     (case fst (submitTask eth hx lib elib ch cc xops pops now req e) of Inr res \<Rightarrow> Some res | Inl _ \<Rightarrow> None)"

lemma executorAnswers_Some:
  assumes "executorAnswers eth hx lib elib ch cc xops pops now e req = Some res"
  shows "\<exists>e'. handleReceivedTask eth lib elib ch cc xops pops now req e = (Inr res, e')"
  using assms
  by (cases "submitTask eth hx lib elib ch cc xops pops now req e")
    (auto simp: executorAnswers_def submitTask_Inr split: sum.splits)

lemma encode_executor_cong:
  assumes "hexToAddress eth a = hexToAddress eth b"
  shows "encodeTaskSubmissionMessageVersioned eth tid avs a ts bn os pl v =
    encodeTaskSubmissionMessageVersioned eth tid avs b ts bn os pl v"
  using assms by (simp add: encodeTaskSubmissionMessageVersioned_def encodeTaskSubmissionMessage_def tss_toSigningBytes_def Let_def)

lemma submissionFor_simps [simp]:
  "sub_TaskId (submissionFor ts sig peer) = task_TaskId (ts_Task ts)"
  "sub_AggregatorAddress (submissionFor ts sig peer) = ts_aggregatorAddress ts"
  "sub_AvsAddress (submissionFor ts sig peer) = task_AVSAddress (ts_Task ts)"
  "sub_Payload (submissionFor ts sig peer) = task_Payload (ts_Task ts)"
  "sub_Signature (submissionFor ts sig peer) = sig"
  "sub_OperatorSetId (submissionFor ts sig peer) = task_OperatorSetId (ts_Task ts)"
  "sub_ReferenceTimestamp (submissionFor ts sig peer) = task_ReferenceTimestamp (ts_Task ts)"
  "sub_ExecutorAddress (submissionFor ts sig peer) = opi_OperatorAddress peer"
  "sub_TaskBlockNumber (submissionFor ts sig peer) = task_L1ReferenceBlockNumber (ts_Task ts)"
  "sub_Version (submissionFor ts sig peer) = task_Version (ts_Task ts)"
  by (simp_all add: submissionFor_def Let_def)

lemma performerTask_simps [simp]:
  "ptk_TaskID (newPerformerTaskFromTaskSubmissionProto t) = sub_TaskId t"
  "ptk_Avs (newPerformerTaskFromTaskSubmissionProto t) = sub_AvsAddress t"
  "ptk_OperatorSetId (newPerformerTaskFromTaskSubmissionProto t) = sub_OperatorSetId t"
  "ptk_ReferenceTimestamp (newPerformerTaskFromTaskSubmissionProto t) = sub_ReferenceTimestamp t"
  "ptk_TaskBlockNumber (newPerformerTaskFromTaskSubmissionProto t) = sub_TaskBlockNumber t"
  by (simp_all add: newPerformerTaskFromTaskSubmissionProto_def)

text \<open>
  C12. A submission made by a task session is authentic for the executor it is addressed to: the message
  the executor reconstructs with its own address is the one the aggregator signed, and the signature
  verifies against the aggregator's registered key, for BN254 and for ECDSA keys.
\<close>

theorem session_submission_authentic:
  assumes "en_SignMessage net = authSigner sg"
    and "generateSignatureForExecutor eth net (ts_Task ts) (opi_OperatorAddress peer) = Some sig"
    and "getAVSConfig eth ch (task_AVSAddress (ts_Task ts)) (task_L1ReferenceBlockNumber (ts_Task ts)) = Some (aggSet, execSets)"
    and "getOperatorSetDetailsForOperator eth ch (hexToAddress eth (ts_aggregatorAddress ts)) (task_AVSAddress (ts_Task ts))
      aggSet (task_L1ReferenceBlockNumber (ts_Task ts)) = Some aggOpSet"
    and "registered_signer eth lib elib sl sg aggOpSet" "eth_caseless eth"
    and "equalFold (opi_OperatorAddress peer) (xcf_OperatorAddress (ex_config e))"
  shows "validateTaskSignature eth lib elib ch e (submissionFor ts sig peer) = None"
proof -
  from assms(2) obtain msg where
    enc: "encodeTaskSubmissionMessageVersioned eth (task_TaskId (ts_Task ts)) (task_AVSAddress (ts_Task ts))
      (opi_OperatorAddress peer) (task_ReferenceTimestamp (ts_Task ts)) (task_L1ReferenceBlockNumber (ts_Task ts))
      (task_OperatorSetId (ts_Task ts)) (task_Payload (ts_Task ts)) (task_Version (ts_Task ts)) = Some msg"
    and sig: "is_SignMessage sg msg = Signed sig"
    by (auto simp: generateSignatureForExecutor_def assms(1) authSigner_def split: option.splits sign_outcome.splits)
  from enc have msg: "constructTaskSubmissionMessage eth e (submissionFor ts sig peer) = msg"
    by (simp add: constructTaskSubmissionMessage_def encode_executor_cong [OF eth_caselessD [OF assms(6,7), symmetric]])
  from assms(5) show ?thesis
    unfolding registered_signer_def
  proof (elim disjE conjE exE, goal_cases)
    case (1 sk k pub)
    with bn254Signer_Signed(1) [of lib sl sk pub eth msg sig] sig msg assms(3,4) show ?case
      by (auto simp: validateTaskSignature_def Let_def)
  next
    case (2 sk)
    with ecdsaSigner_Signed(1) [of elib sl sk "wpk_ECDSAAddress (os_WrappedPublicKey aggOpSet)" eth msg sig] sig msg assms(3,4)
    show ?case by (auto simp: validateTaskSignature_def Let_def)
  qed
qed


text \<open>The operator the session's aggregator finds for a peer.\<close>

definition sessionOperator :: "('k operator_set \<Rightarrow> 'key) \<Rightarrow> (string \<times> int list) list \<Rightarrow> 'k operator_peer_info \<Rightarrow> 'k operator_set \<Rightarrow> 'key operator" where
  "sessionOperator key weights peer os =
     \<lparr>op_Address = opi_OperatorAddress peer, op_PublicKey = key os, op_OperatorIndex = os_OperatorIndex os,
      op_Weights = (case gm_get weights (opi_OperatorAddress peer) of None \<Rightarrow> [] | Some w \<Rightarrow> w)\<rparr>"

lemma sessionOperators_find:
  assumes "sessionOperators key osid weights peers = Inr ops" "peer \<in> set peers" "getOperatorSet peer osid = Some os"
    and "\<forall>p\<in>set peers. equalFold (opi_OperatorAddress p) (opi_OperatorAddress peer) \<longrightarrow> p = peer"
    and "equalFold a (opi_OperatorAddress peer)"
  shows "find (\<lambda>op. equalFold (op_Address op) a) ops = Some (sessionOperator key weights peer os)"
  using assms
proof (induction peers arbitrary: ops)
  case (Cons p peers)
  show ?case
  proof (cases "p = peer")
    case True
    with Cons.prems show ?thesis by (auto simp: sessionOperator_def equalFold_def split: option.splits sum.splits)
  next
    case False
    with Cons.prems have "\<not> equalFold (opi_OperatorAddress p) a" by (auto simp: equalFold_def)
    with False Cons show ?thesis by (auto split: option.splits sum.splits)
  qed
qed simp

lemma newBN254TaskSession_Inr:
  assumes "newBN254TaskSession lib task agg pw tls = Inr ts"
  obtains ops where
    "sessionOperators (\<lambda>os. wpk_PublicKey (os_WrappedPublicKey os)) (task_OperatorSetId task) (pw_Weights pw) (pw_Operators pw) = Inr ops"
    "ts_Task ts = task" "bt_Operators (ts_taskAggregator ts) = ops" "bt_TaskId (ts_taskAggregator ts) = task_TaskId task"
    "bt_ReferenceTimestamp (ts_taskAggregator ts) = task_ReferenceTimestamp task"
    "bt_OperatorSetId (ts_taskAggregator ts) = task_OperatorSetId task"
  using assms
  by (auto simp: newBN254TaskSession_def newBN254TaskResultAggregator_def split: sum.splits if_splits)

lemma newECDSATaskSession_Inr:
  assumes "newECDSATaskSession task agg pw tls = Inr ts"
  obtains ops where
    "sessionOperators (\<lambda>os. wpk_ECDSAAddress (os_WrappedPublicKey os)) (task_OperatorSetId task) (pw_Weights pw) (pw_Operators pw) = Inr ops"
    "ts_Task ts = task" "et_Operators (ts_taskAggregator ts) = ops" "et_TaskId (ts_taskAggregator ts) = task_TaskId task"
    "et_ReferenceTimestamp (ts_taskAggregator ts) = task_ReferenceTimestamp task"
    "et_OperatorSetId (ts_taskAggregator ts) = task_OperatorSetId task"
  using assms
  by (auto simp: newECDSATaskSession_def newECDSATaskResultAggregator_def split: sum.splits if_splits)

text \<open>What the session has received from an executor, traced back to the executor's run.\<close>

lemma submitToPeer_answered:
  assumes "submitToPeer eth net ts peer = Some tr" "getOperatorSet peer (task_OperatorSetId (ts_Task ts)) = Some os"
    and "en_SubmitTask net (os_NetworkAddress os) = executorAnswers eth hx lib elib ch cc xops pops now e"
    and "performer_echoes pops"
  obtains sig perf perf' response resultSig authSig where
    "apRunTask pops perf (newPerformerTaskFromTaskSubmissionProto (submissionFor ts sig peer)) = (Inr response, perf')"
    "signResult eth ch cc e (newPerformerTaskFromTaskSubmissionProto (submissionFor ts sig peer)) response = Inr (resultSig, authSig)"
    "equalFold (xcf_OperatorAddress (ex_config e)) (opi_OperatorAddress peer)"
    "tr = \<lparr>tr_TaskId = task_TaskId (ts_Task ts), tr_AvsAddress = toLower (task_AVSAddress (ts_Task ts)),
       tr_OperatorSetId = task_OperatorSetId (ts_Task ts), tr_Output = ptr_Result response,
       tr_OperatorAddress = xcf_OperatorAddress (ex_config e), tr_ResultSignature = resultSig, tr_AuthSignature = authSig\<rparr>"
proof -
  from assms(1-3) obtain sig res where
    ans: "executorAnswers eth hx lib elib ch cc xops pops now e (submissionFor ts sig peer) = Some res"
    and fold: "equalFold (trp_OperatorAddress res) (opi_OperatorAddress peer)" and tr: "tr = taskResultFromTaskResultProto res"
    by (auto simp: submitToPeer_def getSocketForOperatorSet_def Let_def split: option.splits if_splits)
  from executorAnswers_Some [OF ans] obtain e' where
    "handleReceivedTask eth lib elib ch cc xops pops now (submissionFor ts sig peer) e = (Inr res, e')" by blast
  then show thesis
  proof (cases rule: handleReceivedTask_Inr)
    case (1 perf perf' response resultSig authSig)
    from 1(6) assms(4) have "ptr_TaskID response = task_TaskId (ts_Task ts)"
      unfolding performer_echoes_def by fastforce
    with 1(8) tr fold show thesis
      by (intro that [OF 1(6,7)]) (simp_all add: taskResultFromTaskResultProto_def)
  qed
qed

lemma resultAuth_caseless:
  assumes "eth_caseless eth"
  shows "asd_toSigningBytes eth (resultAuth eth e (newPerformerTaskFromTaskSubmissionProto (submissionFor ts sig peer)) resultSig) =
    asd_toSigningBytes eth \<lparr>asd_TaskId = task_TaskId (ts_Task ts), asd_AvsAddress = toLower (task_AVSAddress (ts_Task ts)),
      asd_OperatorAddress = xcf_OperatorAddress (ex_config e), asd_OperatorSetId = task_OperatorSetId (ts_Task ts),
      asd_ResultSigDigest = getKeccak256Digest eth resultSig\<rparr>"
  using assms by (simp add: resultAuth_def asd_toSigningBytes_def eth_caseless_def Let_def)

text \<open>
  C10. An executor's answer counts. When a BN254 task session receives an answer from an executor that
  reads the same contracts, holds the BN254 key registered for its operator, and whose performer echoes
  the task id, the answer passes every check of the session's aggregator: it is a valid response, worth
  the operator's stake weight, for the digest of the performer's output.
\<close>

theorem bn254_executor_answer_valid:
  assumes new: "newBN254TaskSession lib task agg pw tls = Inr ts"
    and peer: "peer \<in> set (pw_Operators pw)" "getOperatorSet peer (task_OperatorSetId task) = Some os"
      "\<forall>p\<in>set (pw_Operators pw). equalFold (opi_OperatorAddress p) (opi_OperatorAddress peer) \<longrightarrow> p = peer"
    and net: "en_SubmitTask net (os_NetworkAddress os) = executorAnswers eth hx lib elib ch cc xops pops now e"
    and signer: "ex_bn254Signer e = Some sg" "registered_signer eth lib elib sl sg os" "os_CurveType os = CurveTypeBN254"
    and curve: "getOperatorSetCurveType eth ch (task_AVSAddress task) (task_OperatorSetId task) (task_L1ReferenceBlockNumber task) =
      Some CurveTypeBN254"
    and env: "eth_ok eth" "eth_caseless eth" "digest_lengths cc" "performer_echoes pops"
    and answer: "submitToPeer eth net ts peer = Some tr"
  shows "\<exists>d. bn254_valid eth lib cc (ts_taskAggregator ts) tr
    (firstWeight (sessionOperator (\<lambda>os. wpk_PublicKey (os_WrappedPublicKey os)) (pw_Weights pw) peer os)) d"
proof -
  let ?op = "sessionOperator (\<lambda>os. wpk_PublicKey (os_WrappedPublicKey os)) (pw_Weights pw) peer os"
  from new obtain ops where st:
    "sessionOperators (\<lambda>os. wpk_PublicKey (os_WrappedPublicKey os)) (task_OperatorSetId task) (pw_Weights pw) (pw_Operators pw) = Inr ops"
    "ts_Task ts = task" "bt_Operators (ts_taskAggregator ts) = ops" "bt_TaskId (ts_taskAggregator ts) = task_TaskId task"
    "bt_ReferenceTimestamp (ts_taskAggregator ts) = task_ReferenceTimestamp task"
    "bt_OperatorSetId (ts_taskAggregator ts) = task_OperatorSetId task"
    by (rule newBN254TaskSession_Inr)
  from signer(2,3) obtain sk k pub where sg: "sg = bn254Signer eth sl sk" "wpk_PublicKey (os_WrappedPublicKey os) = Some k"
    "asBN254PublicKey lib k = Some pub" "newPublicKeyFromBytes lib (keyBytes lib k) \<noteq> None" and ok: "bn254_signs lib sl sk pub"
    unfolding registered_signer_def by auto
  have opset: "getOperatorSet peer (task_OperatorSetId (ts_Task ts)) = Some os" using st(2) peer(2) by simp
  from answer opset net env(4) show ?thesis
  proof (cases rule: submitToPeer_answered)
    case (1 sig perf perf' response resultSig authSig)
    note res = 1(3,4)
    let ?pt = "newPerformerTaskFromTaskSubmissionProto (submissionFor ts sig peer)"
    have "getOperatorSetCurveType eth ch (ptk_Avs ?pt) (ptk_OperatorSetId ?pt) (ptk_TaskBlockNumber ?pt) = Some CurveTypeBN254"
      using st(2) curve by simp
    from 1(2) this signer(1) [unfolded sg(1)] ok env(3) show ?thesis
    proof (cases rule: signResult_bn254_verifies)
      case (1 d dig s s')
      have find: "find (\<lambda>op. equalFold (op_Address op) (tr_OperatorAddress tr)) ops = Some ?op"
        using res by (intro sessionOperators_find [OF st(1) peer]) simp
      have "bn254_VerifyResponseSignature eth lib cc (ts_taskAggregator ts) tr ?op d = Inr s"
        using 1 sg(2,3) res unfolding resultAuth_caseless [OF env(2)]
        by (simp add: bn254_VerifyResponseSignature_def st sessionOperator_def Let_def keccak_length [OF env(1)])
      with find 1 sg(2,4) res show ?thesis
        by (intro exI [of _ d]) (simp add: bn254_valid_def st sessionOperator_def)
    qed
  qed
qed

text \<open>
  The same for ECDSA: the answer of an executor that holds the ECDSA key of its operator's signing
  address is a valid response for the session's aggregator. The result signature is made over the hash
  of the encoded certificate, which the aggregator recomputes.
\<close>

theorem ecdsa_executor_answer_valid:
  assumes new: "newECDSATaskSession task agg pw tls = Inr ts"
    and peer: "peer \<in> set (pw_Operators pw)" "getOperatorSet peer (task_OperatorSetId task) = Some os"
      "\<forall>p\<in>set (pw_Operators pw). equalFold (opi_OperatorAddress p) (opi_OperatorAddress peer) \<longrightarrow> p = peer"
    and net: "en_SubmitTask net (os_NetworkAddress os) = executorAnswers eth hx lib elib ch cc xops pops now e"
    and signer: "ex_ecdsaSigner e = Some sg" "registered_signer eth lib elib sl sg os" "os_CurveType os = CurveTypeECDSA"
    and curve: "getOperatorSetCurveType eth ch (task_AVSAddress task) (task_OperatorSetId task) (task_L1ReferenceBlockNumber task) =
      Some CurveTypeECDSA"
    and env: "eth_ok eth" "eth_caseless eth" "digest_lengths cc" "performer_echoes pops"
    and answer: "submitToPeer eth net ts peer = Some tr"
  shows "\<exists>d. ecdsa_valid eth elib cc (ts_taskAggregator ts) tr
    (firstWeight (sessionOperator (\<lambda>os. wpk_ECDSAAddress (os_WrappedPublicKey os)) (pw_Weights pw) peer os)) d"
proof -
  let ?op = "sessionOperator (\<lambda>os. wpk_ECDSAAddress (os_WrappedPublicKey os)) (pw_Weights pw) peer os"
  let ?addr = "wpk_ECDSAAddress (os_WrappedPublicKey os)"
  from new obtain ops where st:
    "sessionOperators (\<lambda>os. wpk_ECDSAAddress (os_WrappedPublicKey os)) (task_OperatorSetId task) (pw_Weights pw) (pw_Operators pw) = Inr ops"
    "ts_Task ts = task" "et_Operators (ts_taskAggregator ts) = ops" "et_TaskId (ts_taskAggregator ts) = task_TaskId task"
    "et_ReferenceTimestamp (ts_taskAggregator ts) = task_ReferenceTimestamp task"
    "et_OperatorSetId (ts_taskAggregator ts) = task_OperatorSetId task"
    by (rule newECDSATaskSession_Inr)
  from signer(2,3) obtain sk where sg: "sg = ecdsaSigner eth sl sk" and ok: "ecdsa_signs elib sl sk ?addr"
    unfolding registered_signer_def by auto
  have opset: "getOperatorSet peer (task_OperatorSetId (ts_Task ts)) = Some os" using st(2) peer(2) by simp
  from answer opset net env(4) show ?thesis
  proof (cases rule: submitToPeer_answered)
    case (1 sig perf perf' response resultSig authSig)
    note res = 1(3,4)
    let ?pt = "newPerformerTaskFromTaskSubmissionProto (submissionFor ts sig peer)"
    have "getOperatorSetCurveType eth ch (ptk_Avs ?pt) (ptk_OperatorSetId ?pt) (ptk_TaskBlockNumber ?pt) = Some CurveTypeECDSA"
      using st(2) curve by simp
    from 1(2) this signer(1) [unfolded sg] ok env(3) show ?thesis
    proof (cases rule: signResult_ecdsa_verifies)
      case (1 d dig s s')
      have find: "find (\<lambda>op. equalFold (op_Address op) (tr_OperatorAddress tr)) ops = Some ?op"
        using res by (intro sessionOperators_find [OF st(1) peer]) simp
      have "ecdsa_VerifyResponseSignature eth elib cc (ts_taskAggregator ts) tr ?op d = Inr s"
        using 1 res unfolding resultAuth_caseless [OF env(2)]
        by (simp add: ecdsa_VerifyResponseSignature_def st sessionOperator_def Let_def keccak_length [OF env(1)])
      with find 1 res show ?thesis
        by (intro exI [of _ d]) (simp add: ecdsa_valid_def st sessionOperator_def)
    qed
  qed
qed


section \<open>Sequences of requests and restarts\<close>

text \<open>
  Every entry point of the executor is a step, with the contracts read at that moment; a restart makes a
  new executor on the same store.
\<close>

inductive executor_step ::
  "eth_common \<Rightarrow> hex_lib \<Rightarrow> ('pub, 'sig, 'g2, 'k) bn254_lib \<Rightarrow> 'esig ecdsa_lib \<Rightarrow> cert_caller \<Rightarrow> ('k, 'g2s) chain_contracts set \<Rightarrow>
     's executor_store \<Rightarrow> 'p avs_performer_ops \<Rightarrow> ('s, 'p) executor \<Rightarrow> ('s, 'p) executor \<Rightarrow> bool"
  for eth hx lib elib cc chs xops pops where
  submit: "ch \<in> chs \<Longrightarrow> submitTask eth hx lib elib ch cc xops pops now req e = (r, e') \<Longrightarrow>
    executor_step eth hx lib elib cc chs xops pops e e'"
| deploy: "deployArtifact eth now xops pops dreq e = (r, e') \<Longrightarrow> executor_step eth hx lib elib cc chs xops pops e e'"
| listing: "listPerformers eth now xops pops avs au e = (r, e') \<Longrightarrow> executor_step eth hx lib elib cc chs xops pops e e'"
| remove: "removePerformer eth now xops pops pid au e = (r, e') \<Longrightarrow> executor_step eth hx lib elib cc chs xops pops e e'"
| token: "executorGetChallengeToken eth uuid now oper e = (r, e') \<Longrightarrow> executor_step eth hx lib elib cc chs xops pops e e'"
| initialize: "executorInitialize xops pops e = (r, e') \<Longrightarrow> executor_step eth hx lib elib cc chs xops pops e e'"
| shutdown: "executor_step eth hx lib elib cc chs xops pops e (executorShutdown pops e)"
| restart: "executor_step eth hx lib elib cc chs xops pops e (newExecutor cfg ecdsa bls (ex_store e))"

inductive_cases executor_stepE: "executor_step eth hx lib elib cc chs xops pops e e'"

text \<open>Authentication touches the verifier only.\<close>

lemma executorVerifyAuth_keeps:
  assumes "executorVerifyAuth eth now au e = (r, e')"
  obtains v where "e' = e\<lparr>ex_authVerifier := v\<rparr>"
proof (cases "ex_authVerifier e")
  case AuthOff
  with assms show thesis by (intro that [of "ex_authVerifier e"]) (simp add: executorVerifyAuth_def)
next
  case (AuthNilSigner tm)
  with assms that show thesis by (auto simp: executorVerifyAuth_def split: prod.splits option.splits)
next
  case (AuthOn v)
  with assms that show thesis by (auto simp: executorVerifyAuth_def split: prod.splits option.splits)
qed

lemma withAuth_cases:
  assumes "withAuth eth now au f e = (r, e')"
  obtains (accepted) v where "executorVerifyAuth eth now au e = (AuthAccepted, e\<lparr>ex_authVerifier := v\<rparr>)"
      "f (e\<lparr>ex_authVerifier := v\<rparr>) = (r, e')"
  | (refused) v c m where "e' = e\<lparr>ex_authVerifier := v\<rparr>" "r = MgmtStatus c m \<or> r = MgmtPanic"
      "fst (executorVerifyAuth eth now au e) \<noteq> AuthAccepted" "v = ex_authVerifier (snd (executorVerifyAuth eth now au e))"
proof -
  obtain a e1 where v: "executorVerifyAuth eth now au e = (a, e1)" by fastforce
  from executorVerifyAuth_keeps [OF v] obtain w where e1: "e1 = e\<lparr>ex_authVerifier := w\<rparr>" .
  show thesis
  proof (cases a)
    case AuthAccepted
    with assms v e1 show thesis by (intro accepted) (simp_all add: withAuth_def)
  next
    case (AuthRejected err)
    obtain c where "handleAuthError (Some err) = Some (Status c)" by (cases err) (auto simp: handleAuthError_def)
    with AuthRejected assms v e1 show thesis by (intro refused [of w c]) (auto simp: withAuth_def)
  next
    case AuthPanic
    with assms v e1 show thesis by (intro refused [of w]) (auto simp: withAuth_def)
  qed
qed

text \<open>What each entry point does to the store: nothing, or one of the store's own operations.\<close>

lemma getOrCreate_store:
  "getOrCreateAvsPerformer pops avs e = (r, e') \<Longrightarrow> ex_store e' = ex_store e"
  by (auto simp: getOrCreateAvsPerformer_def loadOrStorePerformer_def split: option.splits sum.splits prod.splits)

lemma submitTask_store:
  assumes "submitTask eth hx lib elib ch cc xops pops now req e = (r, e')"
  shows "ex_store e' = ex_store e \<or> ex_store e' = snd (xsMarkTaskProcessed xops now (ex_store e) (sub_TaskId req))"
  using assms
  by (auto simp: submitTask_def handleReceivedTask_def Let_def split: option.splits if_splits prod.splits sum.splits)

lemma deployTo_store:
  assumes "deployTo xops pops req avs perf e = (r, e')"
  shows "ex_store e' = ex_store e \<or> (\<exists>st. ex_store e' = snd (xsSavePerformerState xops (ex_store e) (pst_PerformerId st) (Some st)))"
proof -
  have "pst_PerformerId (deployedState cfg avs req dr) = dr_PerformerId dr" for cfg dr by (simp add: deployedState_def)
  with assms show ?thesis by (auto simp: deployTo_def Let_def split: prod.splits sum.splits) metis
qed

lemma deployArtifact_store:
  assumes "deployArtifact eth now xops pops req e = (r, e')"
  shows "ex_store e' = ex_store e \<or> (\<exists>st. ex_store e' = snd (xsSavePerformerState xops (ex_store e) (pst_PerformerId st) (Some st)))"
  using assms unfolding deployArtifact_def
proof (cases rule: withAuth_cases)
  case (accepted v)
  then show ?thesis
    by (auto simp: Let_def getOrCreate_store split: if_splits prod.splits sum.splits dest!: deployTo_store)
qed simp

lemma removePerformer_store:
  assumes "removePerformer eth now xops pops pid au e = (r, e')"
  shows "ex_store e' = ex_store e \<or> ex_store e' = snd (xsDeletePerformerState xops (ex_store e) pid)"
  using assms unfolding removePerformer_def
proof (cases rule: withAuth_cases)
  case (accepted v)
  then show ?thesis by (auto simp: Let_def split: option.splits prod.splits)
qed simp

lemma listPerformers_store:
  assumes "listPerformers eth now xops pops avs au e = (r, e')"
  shows "ex_store e' = ex_store e"
  using assms unfolding listPerformers_def by (cases rule: withAuth_cases) (auto simp: Let_def)

lemma getChallengeToken_store:
  "executorGetChallengeToken eth uuid now oper e = (r, e') \<Longrightarrow> ex_store e' = ex_store e"
  by (auto simp: executorGetChallengeToken_def split: if_splits ex_auth.splits prod.splits sum.splits)

lemma rehydrateOne_store:
  "ex_store (rehydrateOne xops pops state e) = ex_store e \<or>
   ex_store (rehydrateOne xops pops state e) = snd (xsDeletePerformerState xops (ex_store e) (pst_PerformerId state))"
  by (auto simp: rehydrateOne_def Let_def split: sum.splits prod.splits option.splits)

lemma initAvs_store:
  assumes "initAvs xops pops avs e = (r, e')"
  shows "ex_store e' = ex_store e \<or> (\<exists>st. ex_store e' = snd (xsSavePerformerState xops (ex_store e) (pst_PerformerId st) (Some st)))"
proof -
  have "pst_PerformerId (startupState cfg a b c dr) = dr_PerformerId dr" for cfg a b c dr by (simp add: startupState_def)
  with assms show ?thesis
    by (auto simp: initAvs_def Let_def split: if_splits sum.splits prod.splits option.splits) metis+
qed


section \<open>The store under a running executor\<close>

context performer_store
begin

text \<open>The store is usable and remembers at least the tasks \<open>T\<close>.\<close>

lemma save_keeps:
  assumes "invar s \<and> \<not> is_closed s \<and> T \<subseteq> processedOf s"
    and "s' = s \<or> (\<exists>st. s' = snd (xsSavePerformerState ops s (pst_PerformerId st) (Some st)))"
  shows "invar s' \<and> \<not> is_closed s' \<and> T \<subseteq> processedOf s'"
  using assms(2)
proof (elim disjE exE)
  fix st assume "s' = snd (xsSavePerformerState ops s (pst_PerformerId st) (Some st))"
  then obtain err where "xsSavePerformerState ops s (pst_PerformerId st) (Some st) = (err, s')"
    by (cases "xsSavePerformerState ops s (pst_PerformerId st) (Some st)") simp
  from savePerformer_keeps [OF _ _ refl this] assms(1) show ?thesis by simp
qed (use assms(1) in simp)

lemma delete_keeps:
  assumes "invar s \<and> \<not> is_closed s \<and> T \<subseteq> processedOf s" "s' = s \<or> s' = snd (xsDeletePerformerState ops s pid)"
  shows "invar s' \<and> \<not> is_closed s' \<and> T \<subseteq> processedOf s'"
proof (cases "performersOf s pid = None")
  case True
  with deletePerformer_missing assms show ?thesis by auto
next
  case False
  with deletePerformer [of s pid] assms show ?thesis by auto
qed

lemma mark_keeps:
  assumes "invar s \<and> \<not> is_closed s \<and> T \<subseteq> processedOf s" "s' = s \<or> s' = snd (xsMarkTaskProcessed ops now s tid)"
  shows "invar s' \<and> \<not> is_closed s' \<and> T \<subseteq> processedOf s'"
proof -
  obtain err s1 where m: "xsMarkTaskProcessed ops now s tid = (err, s1)" by fastforce
  with markProcessed [OF _ _ m] assms show ?thesis by auto
qed

lemma rehydrate_keeps:
  assumes "invar (ex_store e) \<and> \<not> is_closed (ex_store e) \<and> T \<subseteq> processedOf (ex_store e)"
  shows "invar (ex_store (fold (rehydrateOne ops pops) states e)) \<and>
    \<not> is_closed (ex_store (fold (rehydrateOne ops pops) states e)) \<and>
    T \<subseteq> processedOf (ex_store (fold (rehydrateOne ops pops) states e))"
  using assms
proof (induction states arbitrary: e)
  case (Cons st states)
  from Cons.IH [OF delete_keeps [OF Cons.prems rehydrateOne_store]] show ?case by simp
qed simp

lemma initAll_keeps:
  assumes "initAll ops pops avss e = (r, e')"
    and "invar (ex_store e) \<and> \<not> is_closed (ex_store e) \<and> T \<subseteq> processedOf (ex_store e)"
  shows "invar (ex_store e') \<and> \<not> is_closed (ex_store e') \<and> T \<subseteq> processedOf (ex_store e')"
  using assms
proof (induction avss arbitrary: e)
  case (Cons avs avss)
  obtain r1 e1 where i: "initAvs ops pops avs e = (r1, e1)" by fastforce
  note k = save_keeps [OF Cons.prems(2) initAvs_store [OF i]]
  from Cons.prems(1) i Cons.IH [OF _ k] k show ?case by (auto split: init_result.splits)
qed simp

lemma executor_step_keeps:
  assumes "executor_step eth hx lib elib cc chs ops pops e e'"
    and "invar (ex_store e) \<and> \<not> is_closed (ex_store e) \<and> T \<subseteq> processedOf (ex_store e)"
  shows "invar (ex_store e') \<and> \<not> is_closed (ex_store e') \<and> T \<subseteq> processedOf (ex_store e')"
  using assms(1)
proof (cases rule: executor_step.cases)
  case (submit ch now req r)
  from mark_keeps [OF assms(2) submitTask_store [OF submit(2)]] show ?thesis .
next
  case (deploy now dreq r)
  from save_keeps [OF assms(2) deployArtifact_store [OF deploy]] show ?thesis .
next
  case (listing now avs au r)
  from listPerformers_store [OF listing] assms(2) show ?thesis by simp
next
  case (remove now pid au r)
  from delete_keeps [OF assms(2) removePerformer_store [OF remove]] show ?thesis .
next
  case (token uuid now oper r)
  from getChallengeToken_store [OF token] assms(2) show ?thesis by simp
next
  case (initialize r)
  have "invar (ex_store (snd (rehydratePerformersFromStorage ops pops e))) \<and>
    \<not> is_closed (ex_store (snd (rehydratePerformersFromStorage ops pops e))) \<and>
    T \<subseteq> processedOf (ex_store (snd (rehydratePerformersFromStorage ops pops e)))"
    using assms(2) rehydrate_keeps [OF assms(2)] by (simp add: rehydratePerformersFromStorage_def split: sum.splits)
  from initAll_keeps [OF initialize [unfolded executorInitialize_def] this] show ?thesis .
next
  case shutdown
  with assms(2) show ?thesis by (simp add: executorShutdown_def)
next
  case (restart cfg ecdsa bls)
  with assms(2) show ?thesis by (simp add: newExecutor_def Let_def)
qed

lemma executor_steps_keep:
  assumes "(executor_step eth hx lib elib cc chs ops pops)\<^sup>*\<^sup>* e e'"
    and "invar (ex_store e) \<and> \<not> is_closed (ex_store e) \<and> T \<subseteq> processedOf (ex_store e)"
  shows "invar (ex_store e') \<and> \<not> is_closed (ex_store e') \<and> T \<subseteq> processedOf (ex_store e')"
  using assms(1)
proof (induction rule: rtranclp_induct)
  case (step e1 e2)
  from executor_step_keeps [OF step(2,3)] show ?case .
qed (rule assms(2))

lemma processed_refused:
  assumes "invar (ex_store e)" "\<not> is_closed (ex_store e)" "sub_TaskId req \<in> processedOf (ex_store e)"
  shows "\<exists>err. submitTask eth hx lib elib ch cc ops pops now req e = (Inl err, e)"
  using isProcessed [OF assms(1,2), of "sub_TaskId req"] assms(3)
  by (auto simp: submitTask_def handleReceivedTask_def Let_def split: option.splits)

end

context replay_log
begin

lemma answered_never_rerun:
  assumes "invar (ex_store e)" "\<not> is_closed (ex_store e)" "json_time_ok now"
    and "submitTask eth hx lib elib ch cc ops pops now req e = (Inr res, e1)"
    and "(executor_step eth hx lib elib cc chs ops pops)\<^sup>*\<^sup>* e1 e2" "sub_TaskId req' = sub_TaskId req"
  shows "\<exists>err. submitTask eth hx lib elib ch' cc ops pops now' req' e2 = (Inl err, e2)"
proof -
  have "sub_TaskId req \<noteq> []" and h: "handleReceivedTask eth lib elib ch cc ops pops now req e = (Inr res, e1)"
    using assms(4) by (auto simp: submitTask_Inr validateTaskSubmission_def split: if_splits)
  obtain err s1 where m: "xsMarkTaskProcessed ops now (ex_store e) (sub_TaskId req) = (err, s1)" by fastforce
  from h m have "ex_store e1 = s1" by (cases rule: handleReceivedTask_Inr) simp
  with remembers [OF assms(1,2) \<open>sub_TaskId req \<noteq> []\<close> assms(3) m] markProcessed [OF assms(1,2) m]
  have "invar (ex_store e1) \<and> \<not> is_closed (ex_store e1) \<and> {sub_TaskId req} \<subseteq> processedOf (ex_store e1)" by simp
  from executor_steps_keep [OF assms(5) this] assms(6) show ?thesis by (intro processed_refused) simp_all
qed

end



section \<open>Deployments and restarts\<close>

text \<open>
  A deployment reports a performer id and times that JSON can hold; \<open>rehydratable\<close> says that the container
  of a saved performer can be adopted.
\<close>

definition deploy_results_ok :: "'p avs_performer_ops \<Rightarrow> bool" where
  "deploy_results_ok pops \<longleftrightarrow> (\<forall>p img dr p'. apDeploy pops p img = (Inr dr, p') \<longrightarrow>
     dr_PerformerId dr \<noteq> [] \<and> json_time_ok (dr_StartTime dr) \<and> json_time_ok (dr_EndTime dr))"

definition rehydratable :: "'p avs_performer_ops \<Rightarrow> performer_state \<Rightarrow> bool" where
  "rehydratable pops st \<longleftrightarrow> pst_DeploymentMode st = ''docker'' \<and>
     (\<exists>p p1 p2. apNewDocker pops (dockerConfig (toLower (pst_AvsAddress st)) (pst_NetworkName st)) = Inr p \<and>
        apInitialize pops p = (None, p1) \<and> apRehydrateFromState pops p1 st = (None, p2))"

definition served :: "('s, 'p) executor \<Rightarrow> string set" where
  "served e = dom (gm_get (ex_avsPerformers e))"

lemma rehydrateOne_served:
  "served e \<subseteq> served (rehydrateOne xops pops st e)"
  "rehydratable pops st \<Longrightarrow> toLower (pst_AvsAddress st) \<in> served (rehydrateOne xops pops st e)"
  by (auto simp: rehydrateOne_def rehydratable_def served_def Let_def split: sum.splits prod.splits option.splits)

lemma rehydrate_fold_mono: "served e \<subseteq> served (fold (rehydrateOne xops pops) sts e)"
proof (induction sts arbitrary: e)
  case (Cons st sts)
  from rehydrateOne_served(1) Cons.IH show ?case by fastforce
qed simp

lemma rehydrate_fold_served:
  assumes "st \<in> set sts" "rehydratable pops st"
  shows "toLower (pst_AvsAddress st) \<in> served (fold (rehydrateOne xops pops) sts e)"
  using assms(1)
proof (induction sts arbitrary: e)
  case (Cons s sts)
  with rehydrateOne_served(2) [OF assms(2)] rehydrate_fold_mono show ?case by fastforce
qed simp

lemma initAvs_served: "initAvs xops pops avs e = (r, e') \<Longrightarrow> served e \<subseteq> served e'"
  by (auto simp: initAvs_def served_def Let_def split: if_splits sum.splits prod.splits option.splits)

lemma initAll_served: "initAll xops pops avss e = (r, e') \<Longrightarrow> served e \<subseteq> served e'"
proof (induction avss arbitrary: e)
  case (Cons avs avss)
  obtain r1 e1 where i: "initAvs xops pops avs e = (r1, e1)" by fastforce
  from Cons.prems i Cons.IH initAvs_served [OF i] show ?case by (auto split: init_result.splits)
qed simp

lemma deployArtifact_Ok:
  assumes "deployArtifact eth now xops pops req e = (MgmtOk r, e')"
  obtains perf dr perf' where "apDeploy pops perf (imageOfRequest req) = (Inr dr, perf')"
    "ex_store e' = snd (xsSavePerformerState xops (ex_store e) (dr_PerformerId dr)
       (Some (deployedState (ex_config e) (toLower (dq_AvsAddress req)) req dr)))"
  using assms unfolding deployArtifact_def
proof (cases rule: withAuth_cases)
  case (accepted v)
  then obtain perf e1 where g: "getOrCreateAvsPerformer pops (toLower (dq_AvsAddress req)) (e\<lparr>ex_authVerifier := v\<rparr>) = (Inr perf, e1)"
    and d: "deployTo xops pops req (toLower (dq_AvsAddress req)) perf e1 = (MgmtOk r, e')"
    by (auto simp: Let_def split: if_splits prod.splits sum.splits)
  from g have "ex_store e1 = ex_store e" "ex_config e1 = ex_config e"
    by (auto simp: getOrCreateAvsPerformer_def loadOrStorePerformer_def split: option.splits sum.splits prod.splits)
  with d that [of perf] show thesis
    by (auto simp: deployTo_def deployErrorStatus_def Let_def split: prod.splits sum.splits if_splits)
qed simp

context performer_store
begin

lemma deployed_is_saved:
  assumes "invar (ex_store e)" "\<not> is_closed (ex_store e)" "deploy_results_ok pops"
    and "deployArtifact eth now ops pops req e = (MgmtOk r, e')"
  shows "\<exists>st. pst_AvsAddress st = toLower (dq_AvsAddress req) \<and> pst_ArtifactRegistry st = dq_RegistryUrl req \<and>
    pst_ArtifactDigest st = dq_Digest req \<and> pst_DeploymentMode st = ''docker'' \<and>
    xsGetPerformerState ops (ex_store e') (pst_PerformerId st) = Inr st \<and>
    (\<exists>sts. xsListPerformerStates ops (ex_store e') = Inr sts \<and> st \<in> set sts)"
  using assms(4)
proof (cases rule: deployArtifact_Ok)
  case (1 perf dr perf')
  let ?st = "deployedState (ex_config e) (toLower (dq_AvsAddress req)) req dr"
  from assms(3) 1(1) have pid: "dr_PerformerId dr \<noteq> []" "persistable ?st"
    unfolding deploy_results_ok_def by (auto simp: persistable_def deployedState_def)
  have "pst_PerformerId ?st = dr_PerformerId dr" by (simp add: deployedState_def)
  from savePerformer [OF assms(1,2) pid(1) this pid(2)] 1(2) obtain s' where
    s': "ex_store e' = s'" "invar s'" "\<not> is_closed s'" "performersOf s' (dr_PerformerId dr) = Some ?st" by auto
  from listPerformers [OF s'(2,3)] s'(4) obtain sts where "xsListPerformerStates ops s' = Inr sts" "?st \<in> set sts"
    by (auto simp: ran_def)
  with s' getPerformer [OF s'(2,3), of "dr_PerformerId dr"] show ?thesis
    by (intro exI [of _ ?st]) (auto simp: deployedState_def)
qed

end



section \<open>Authentication\<close>

text \<open>A request is authentic when its token was issued, is unused and not expired, and carries the signer's signature.\<close>

definition authentic :: "eth_common \<Rightarrow> time \<Rightarrow> verifier \<Rightarrow> auth_signature option \<Rightarrow> bool" where
  "authentic eth now v au \<longleftrightarrow>
     (case authOfPointer au of
        None \<Rightarrow> False
      | Some a \<Rightarrow>
          (case gm_get (ctm_tokens (v_tokenManager v)) (as_ChallengeToken a) of
             None \<Rightarrow> False
           | Some entry \<Rightarrow> \<not> te_Used entry \<and> now \<le> te_ExpiresAt entry \<and>
               v_signer v (constructSignedMessage eth (as_ChallengeToken a)) = Some (as_Signature a)))"

lemma executorVerifyAuth_authentic:
  assumes "ex_authVerifier e = AuthOn v" "executorVerifyAuth eth now au e = (AuthAccepted, e')"
  shows "authentic eth now v au"
  using assms
  by (auto simp: executorVerifyAuth_def verifyAuthentication_def useChallengeToken_def authentic_def authOfPointer_def
      bytesEqual_iff Let_def split: prod.splits option.splits if_splits)

lemma withAuth_unauthentic:
  assumes "ex_authVerifier e = AuthOn v" "\<not> authentic eth now v au" "withAuth eth now au f e = (r, e')"
  shows "(\<exists>c m. r = MgmtStatus c m) \<and> (\<exists>v'. e' = e\<lparr>ex_authVerifier := v'\<rparr>)"
proof -
  obtain a e1 where v: "executorVerifyAuth eth now au e = (a, e1)" by fastforce
  from executorVerifyAuth_authentic [OF assms(1)] assms(2) v have "a \<noteq> AuthAccepted" by blast
  moreover from v assms(1) have "a \<noteq> AuthPanic" by (auto simp: executorVerifyAuth_def split: prod.splits option.splits)
  ultimately obtain err where a: "a = AuthRejected err" by (cases a) auto
  obtain c where "handleAuthError (Some err) = Some (Status c)" by (cases err) (auto simp: handleAuthError_def)
  with assms(3) v a executorVerifyAuth_keeps [OF v] show ?thesis by (auto simp: withAuth_def)
qed

text \<open>
  With authentication enabled, a management request whose token was not issued, is used or expired, or
  whose signature is not the operator's, has no effect: deployment, listing and removal all answer with an
  error status, and performers, running tasks, store and configuration stay as they were.
\<close>

theorem management_requires_authentication:
  assumes "ex_authVerifier e = AuthOn v" "\<not> authentic eth now v au"
  shows "(deployArtifact eth now xops pops (req\<lparr>dq_Auth := au\<rparr>) e = (r, e') \<longrightarrow>
      (\<exists>c m. r = MgmtStatus c m) \<and> (\<exists>v'. e' = e\<lparr>ex_authVerifier := v'\<rparr>)) \<and>
    (removePerformer eth now xops pops pid au e = (r2, e') \<longrightarrow>
      (\<exists>c m. r2 = MgmtStatus c m) \<and> (\<exists>v'. e' = e\<lparr>ex_authVerifier := v'\<rparr>)) \<and>
    (listPerformers eth now xops pops avs au e = (r3, e') \<longrightarrow>
      (\<exists>c m. r3 = MgmtStatus c m) \<and> (\<exists>v'. e' = e\<lparr>ex_authVerifier := v'\<rparr>))"
  unfolding deployArtifact_def removePerformer_def listPerformers_def
  by (intro conjI impI) (auto dest: withAuth_unauthentic [OF assms])

text \<open>
  A submission with a version the encoder does not know is not bound to its content. The executor then
  verifies the signature over the empty message, so one signature of the aggregator over the empty message
  authenticates every such task, whatever its id, payload, operator set or executor.
\<close>

theorem unsupported_version_not_bound:
  assumes "sub_Version t \<noteq> taskMessageVersionV1" "sub_Version t' \<noteq> taskMessageVersionV1"
    and "sub_AvsAddress t' = sub_AvsAddress t" "sub_TaskBlockNumber t' = sub_TaskBlockNumber t"
    and "sub_AggregatorAddress t' = sub_AggregatorAddress t" "sub_Signature t' = sub_Signature t"
  shows "validateTaskSignature eth lib elib ch e t' = validateTaskSignature eth lib elib ch e' t"
proof -
  have nil: "constructTaskSubmissionMessage eth e t' = []" "constructTaskSubmissionMessage eth e' t = []"
    using assms(1,2) by (simp_all add: constructTaskSubmissionMessage_def encodeTaskSubmissionMessageVersioned_def)
  show ?thesis unfolding validateTaskSignature_def nil assms(3-6) ..
qed

end
