(* ===== verification/Executor_Witnesses.thy ===== *)
theory Executor_Witnesses
  imports Executor_Theorems
begin

text \<open>
  Closed instances of the executor's theorems: numbers as keys, a signature is the number of its key, and
  contracts that register key 5 for every operator. Two aggregators and executors exist, one per curve.
\<close>

section \<open>A concrete environment\<close>

definition wit_sign :: "(nat, nat) sign_lib" where
  "wit_sign = \<lparr>sl_BN254Sign = (\<lambda>sk m. Some [word_of_nat sk]), sl_BN254SignSolidityCompatible = (\<lambda>sk m. Some [word_of_nat sk]),
     sl_ECDSASign = (\<lambda>sk m. Some [word_of_nat sk])\<rparr>"

definition wit_eth :: eth_common where
  "wit_eth = sample_eth\<lparr>hexToAddress := fixedBytes 20 \<circ> toLower\<rparr>"

definition wit_cc :: cert_caller where
  "wit_cc = \<lparr>calculateTaskMessageHash = (\<lambda>h out. Some (copy32 out)),
     calculateBN254CertificateDigestBytes = (\<lambda>ts d. Some (copy32 d)),
     calculateECDSACertificateDigestBytes = (\<lambda>ts d. Some (0 # copy32 d))\<rparr>"

text \<open>The contracts, for a curve type of the key registrar.\<close>

definition wit_chain :: "curve_type \<Rightarrow> (nat, unit) chain_contracts" where
  "wit_chain curve = \<lparr>am_GetAVSRegistrar = (\<lambda>_ _. Some [1]), am_GetMembers = (\<lambda>_ _ _. Some []),
     reg_GetOperatorSocket = (\<lambda>_ _ _. Some ''s''), reg_GetAvsConfig = (\<lambda>_ _. Some (0, [1])),
     kr_GetOperatorSetCurveType = (\<lambda>_ _ _. Some (if curve = CurveTypeBN254 then 2 else 1)), kr_GetBN254Key = (\<lambda>_ _ _ _. Some ((1, 1), ())),
     kr_GetECDSAAddress = (\<lambda>_ _ _ _. Some [5]), newPublicKeyFromSolidity = (\<lambda>_ _. Some 5)\<rparr>"

definition wit_hex :: hex_lib where
  "wit_hex = \<lparr>hx_HashUnmarshalText = (\<lambda>_. True), hx_AddressUnmarshalText = (\<lambda>_. True)\<rparr>"

definition wit_taskId :: string where
  "wit_taskId = ''0x'' @ replicate 64 (CHR ''1'')"

definition wit_addr :: "char \<Rightarrow> string" where
  "wit_addr c = ''0x'' @ replicate 40 c"

definition wit_deployed :: deployment_result where
  "wit_deployed = \<lparr>dr_Id = ''d'', dr_PerformerId = ''p'', dr_ResourceId = ''c'', dr_StartTime = 1, dr_EndTime = 2,
     dr_Message = ''ok'', dr_Endpoint = ''h:1'', dr_Hostname = ''h''\<rparr>"

definition wit_performers :: "unit avs_performer_ops" where
  "wit_performers = \<lparr>apNewDocker = (\<lambda>_. Inr ()), apNewKubernetes = (\<lambda>_ _. Inr ()), apInitialize = (\<lambda>_. (None, ())),
     apRunTask = (\<lambda>_ t. (Inr \<lparr>ptr_TaskID = ptk_TaskID t, ptr_Result = [7]\<rparr>, ())),
     apDeploy = (\<lambda>_ _. (Inr wit_deployed, ())), apRemovePerformer = (\<lambda>_ _. (None, ())), apListPerformers = (\<lambda>_. []),
     apShutdown = (\<lambda>_. (None, ())), apRehydrateFromState = (\<lambda>_ _. (None, ()))\<rparr>"

definition wit_config :: executor_config where
  "wit_config = \<lparr>xcf_OperatorAddress = wit_addr (CHR ''b''), xcf_PerformerNetworkName = [], xcf_AvsPerformers = [],
     xcf_Kubernetes = False, xcf_AuthConfig = Some True\<rparr>"

definition wit_executor :: "'s \<Rightarrow> ('s, unit) executor" where
  "wit_executor s = (newExecutor wit_config (Some (ecdsaSigner wit_eth wit_sign 5)) (Some (bn254Signer wit_eth wit_sign 5)) s)
     \<lparr>ex_avsPerformers := [(wit_addr (CHR ''a''), ())]\<rparr>"

definition wit_task :: task where
  "wit_task = \<lparr>task_TaskId = wit_taskId, task_AVSAddress = wit_addr (CHR ''a''), task_OperatorSetId = 1, task_CallbackAddr = [],
     task_DeadlineUnixSeconds = None, task_ThresholdBips = 6000, task_Payload = [], task_ChainId = 1, task_SourceBlockNumber = 1,
     task_L1ReferenceBlockNumber = 1, task_ReferenceTimestamp = 9, task_BlockHash = [], task_Version = 1, task_Context = None\<rparr>"

definition wit_opset :: "curve_type \<Rightarrow> nat operator_set" where
  "wit_opset curve = \<lparr>os_OperatorSetID = 1, os_OperatorIndex = 0,
     os_WrappedPublicKey = \<lparr>wpk_PublicKey = Some 5, wpk_ECDSAAddress = [5]\<rparr>, os_NetworkAddress = ''s'', os_CurveType = curve\<rparr>"

definition wit_peer :: "curve_type \<Rightarrow> nat operator_peer_info" where
  "wit_peer curve = \<lparr>opi_OperatorAddress = wit_addr (CHR ''b''), opi_OperatorSets = [wit_opset curve]\<rparr>"

definition wit_weights :: "curve_type \<Rightarrow> nat peer_weight" where
  "wit_weights curve = \<lparr>pw_ChainId = 1, pw_OperatorSetId = 1, pw_RootReferenceTimestamp = 9,
     pw_Weights = [(wit_addr (CHR ''b''), [60])], pw_Operators = [wit_peer curve],
     pw_CurveType = curve, pw_OperatorInfoTreeRoot = [], pw_OperatorInfos = []\<rparr>"

definition wit_net :: "isigner \<Rightarrow> (task_submission \<Rightarrow> task_result_proto option) \<Rightarrow> executor_net" where
  "wit_net sg answers = \<lparr>en_NewExecutorClient = (\<lambda>_ _. True), en_SubmitTask = (\<lambda>_. answers), en_SignMessage = authSigner sg\<rparr>"

lemmas wit_defs = wit_sign_def wit_cc_def wit_hex_def wit_deployed_def wit_performers_def wit_config_def
  wit_task_def wit_opset_def wit_peer_def wit_weights_def wit_net_def

lemma wit_strings [simp]:
  "length wit_taskId = 66" "prefix ''0x'' wit_taskId" "wit_taskId \<noteq> []"
  "length (wit_addr c) = 42" "prefix ''0x'' (wit_addr c)" "wit_addr c \<noteq> []"
  "toLower (wit_addr (CHR ''a'')) = wit_addr (CHR ''a'')" "toLower (wit_addr (CHR ''b'')) = wit_addr (CHR ''b'')"
  by (simp_all add: wit_taskId_def wit_addr_def toLower_def lower_char_def map_replicate_const)

lemma wit_eth_ok: "eth_ok wit_eth" "eth_caseless wit_eth"
  by (auto simp: wit_eth_def eth_ok_def eth_caseless_def sample_eth_def fixedBytes_def min_def)

lemma wit_signs: "bn254_signs sample_bn254 wit_sign 5 5" "ecdsa_signs sample_ecdsa wit_sign 5 [5]"
  by (simp_all add: bn254_signs_def ecdsa_signs_def wit_sign_def sample_bn254_def sample_ecdsa_def)

lemma wit_lengths: "digest_lengths wit_cc" "performer_echoes wit_performers" "deploy_results_ok wit_performers"
  by (auto simp: digest_lengths_def performer_echoes_def deploy_results_ok_def wit_defs copy32_def json_time_ok_def)

lemma wit_registered:
  "registered_signer wit_eth sample_bn254 sample_ecdsa wit_sign (bn254Signer wit_eth wit_sign 5) (wit_opset CurveTypeBN254)"
  "registered_signer wit_eth sample_bn254 sample_ecdsa wit_sign (ecdsaSigner wit_eth wit_sign 5) (wit_opset CurveTypeECDSA)"
  using wit_signs by (auto simp: registered_signer_def wit_opset_def sample_bn254_def)

text \<open>The reads of the contracts.\<close>

lemma wit_reads:
  "getAVSConfig wit_eth (wit_chain n) avs bn = Some (0, [1])"
  "getOperatorSetCurveType wit_eth (wit_chain n) avs i bn =
     Some (if n = CurveTypeBN254 then CurveTypeBN254 else CurveTypeECDSA)"
  "getOperatorSetDetailsForOperator wit_eth (wit_chain CurveTypeBN254) a avs i bn =
     Some \<lparr>os_OperatorSetID = i, os_OperatorIndex = 0,
       os_WrappedPublicKey = \<lparr>wpk_PublicKey = Some 5, wpk_ECDSAAddress = replicate 20 0\<rparr>, os_NetworkAddress = ''s'',
       os_CurveType = CurveTypeBN254\<rparr>"
  by (simp_all add: getAVSConfig_def getOperatorSetCurveType_def getOperatorSetDetailsForOperator_def wit_chain_def
      convertSolidityEnumToCurveType_def Let_def)

lemma wit_reads_ecdsa:
  "getOperatorSetDetailsForOperator wit_eth (wit_chain CurveTypeECDSA) a avs i bn =
     Some \<lparr>os_OperatorSetID = i, os_OperatorIndex = 0, os_WrappedPublicKey = \<lparr>wpk_PublicKey = None, wpk_ECDSAAddress = [5]\<rparr>,
       os_NetworkAddress = ''s'', os_CurveType = CurveTypeECDSA\<rparr>"
  by (simp add: getOperatorSetDetailsForOperator_def wit_chain_def convertSolidityEnumToCurveType_def Let_def
      Cons_replicate_eq)

text \<open>A submission with the aggregator's signature, and the executor's answer to it.\<close>

definition wit_submission :: task_submission where
  "wit_submission = \<lparr>sub_TaskId = wit_taskId, sub_AggregatorAddress = wit_addr (CHR ''c''), sub_AvsAddress = wit_addr (CHR ''a''),
     sub_Payload = [], sub_Signature = [5], sub_OperatorSetId = 1, sub_ReferenceTimestamp = 9,
     sub_ExecutorAddress = wit_addr (CHR ''b''), sub_TaskBlockNumber = 1, sub_Version = 1\<rparr>"

definition wit_answer :: task_result_proto where
  "wit_answer = \<lparr>trp_TaskId = wit_taskId, trp_Output = [7], trp_OperatorAddress = wit_addr (CHR ''b''),
     trp_ResultSignature = [5], trp_AuthSignature = [5], trp_AvsAddress = wit_addr (CHR ''a''), trp_OperatorSetId = 1\<rparr>"

lemmas wit_signer_defs = bn254Signer_def ecdsaSigner_def inMemorySigner_def ims_SignMessage_def ims_SignMessageForSolidity_def
  signOutcome_def

lemma wit_valid: "validateTaskSubmission wit_hex wit_submission = None"
  by (simp add: validateTaskSubmission_def addressOk_def wit_submission_def wit_hex_def)

lemma wit_sign_bn254:
  "signResult wit_eth (wit_chain CurveTypeBN254) wit_cc (wit_executor s) (newPerformerTaskFromTaskSubmissionProto wit_submission)
     \<lparr>ptr_TaskID = wit_taskId, ptr_Result = [7]\<rparr> = Inr ([5], [5])"
  by (simp add: signResult_def wit_reads convertSolidityEnumToCurveType_def wit_cc_def wit_executor_def newExecutor_def
      wit_signer_defs wit_sign_def Let_def)

lemma wit_sign_ecdsa:
  "signResult wit_eth (wit_chain CurveTypeECDSA) wit_cc (wit_executor s) (newPerformerTaskFromTaskSubmissionProto wit_submission)
     \<lparr>ptr_TaskID = wit_taskId, ptr_Result = [7]\<rparr> = Inr ([5], [5])"
  by (simp add: signResult_def wit_reads convertSolidityEnumToCurveType_def wit_cc_def wit_executor_def newExecutor_def
      wit_signer_defs wit_sign_def Let_def)

lemma wit_authentic:
  "validateTaskSignature wit_eth sample_bn254 sample_ecdsa (wit_chain CurveTypeBN254) e wit_submission = None"
  "validateTaskSignature wit_eth sample_bn254 sample_ecdsa (wit_chain CurveTypeECDSA) e wit_submission = None"
  by (simp_all add: validateTaskSignature_def wit_reads wit_reads_ecdsa sample_bn254_def sample_ecdsa_def wit_submission_def Let_def)

lemma wit_handled:
  assumes "n = CurveTypeECDSA \<or> n = CurveTypeBN254" "xsIsTaskProcessed xops s wit_taskId \<noteq> Inr True"
  shows "submitTask wit_eth wit_hex sample_bn254 sample_ecdsa (wit_chain n) wit_cc xops wit_performers now wit_submission (wit_executor s) =
    (Inr wit_answer, wit_executor (snd (xsMarkTaskProcessed xops now s wit_taskId)))"
proof -
  have inset: "validateOperatorInSet wit_eth (wit_chain n) (wit_executor s) wit_submission = None"
    using assms(1) by (auto simp: validateOperatorInSet_def wit_reads wit_reads_ecdsa)
  have sig: "validateTaskSignature wit_eth sample_bn254 sample_ecdsa (wit_chain n) (wit_executor s) wit_submission = None"
    using assms(1) wit_authentic by auto
  have res: "signResult wit_eth (wit_chain n) wit_cc (wit_executor s) (newPerformerTaskFromTaskSubmissionProto wit_submission)
     \<lparr>ptr_TaskID = wit_taskId, ptr_Result = [7]\<rparr> = Inr ([5], [5])"
    using assms(1) wit_sign_bn254 wit_sign_ecdsa by auto
  have ex: "ex_store (wit_executor s) = s" "xcf_OperatorAddress (ex_config (wit_executor s)) = wit_addr (CHR ''b'')"
    "ex_avsPerformers (wit_executor s) = [(wit_addr (CHR ''a''), ())]" "ex_inflightTasks (wit_executor s) = []"
    "(wit_executor s)\<lparr>ex_avsPerformers := [(wit_addr (CHR ''a''), ())], ex_inflightTasks := [], ex_store := s'\<rparr> = wit_executor s'"
    for s' by (simp_all add: wit_executor_def newExecutor_def wit_config_def Let_def)
  have sub: "sub_TaskId wit_submission = wit_taskId" "sub_AvsAddress wit_submission = wit_addr (CHR ''a'')"
    "sub_ExecutorAddress wit_submission = wit_addr (CHR ''b'')" "sub_OperatorSetId wit_submission = 1"
    by (simp_all add: wit_submission_def)
  show ?thesis
    using assms(2) inset sig res
    by (simp add: submitTask_def wit_valid handleReceivedTask_def sub ex wit_performers_def equalFold_def signResult_cong Let_def wit_answer_def)
qed


section \<open>Sessions with an executor\<close>

definition wit_session :: "(nat, unit) task_session" where
  "wit_session = \<lparr>ts_Task = wit_task, ts_operatorPeersWeight = wit_weights CurveTypeBN254, ts_taskAggregator = (),
     ts_aggregatorAddress = wit_addr (CHR ''c''), ts_tlsEnabled = False\<rparr>"

lemma wit_submissionFor:
  assumes "ts_Task ts = wit_task" "ts_aggregatorAddress ts = wit_addr (CHR ''c'')"
  shows "submissionFor ts [5] (wit_peer curve) = wit_submission"
  using assms by (simp add: submissionFor_def wit_submission_def wit_task_def wit_peer_def)

lemma wit_generated:
  assumes "sg = bn254Signer wit_eth wit_sign 5 \<or> sg = ecdsaSigner wit_eth wit_sign 5"
  shows "generateSignatureForExecutor wit_eth (wit_net sg answers) wit_task a = Some [5]"
  using assms
  by (auto simp: generateSignatureForExecutor_def encodeTaskSubmissionMessageVersioned_def taskMessageVersionV1_def wit_task_def
      wit_net_def authSigner_def wit_signer_defs wit_sign_def)

lemma wit_registered_bn254:
  "registered_signer wit_eth sample_bn254 sample_ecdsa wit_sign (bn254Signer wit_eth wit_sign 5)
     \<lparr>os_OperatorSetID = i, os_OperatorIndex = 0, os_WrappedPublicKey = \<lparr>wpk_PublicKey = Some 5, wpk_ECDSAAddress = a\<rparr>,
      os_NetworkAddress = sock, os_CurveType = CurveTypeBN254\<rparr>"
  using wit_signs by (auto simp: registered_signer_def sample_bn254_def)

theorem session_submission_authentic_witness:
  "validateTaskSignature wit_eth sample_bn254 sample_ecdsa (wit_chain CurveTypeBN254) (wit_executor ())
     (submissionFor wit_session [5] (wit_peer CurveTypeBN254)) = None"
proof -
  let ?net = "wit_net (bn254Signer wit_eth wit_sign 5) (\<lambda>_. None)"
  have "en_SignMessage ?net = authSigner (bn254Signer wit_eth wit_sign 5)" by (simp add: wit_net_def)
  moreover have "generateSignatureForExecutor wit_eth ?net (ts_Task wit_session) (opi_OperatorAddress (wit_peer CurveTypeBN254)) = Some [5]"
    by (simp add: wit_session_def wit_generated)
  moreover have "equalFold (opi_OperatorAddress (wit_peer CurveTypeBN254)) (xcf_OperatorAddress (ex_config (wit_executor ())))"
    by (simp add: wit_executor_def newExecutor_def wit_config_def wit_peer_def Let_def)
  ultimately show ?thesis
    by (rule session_submission_authentic [OF _ _ wit_reads(1) wit_reads(3) wit_registered_bn254 wit_eth_ok(2)])
qed

abbreviation wit_answers :: "curve_type \<Rightarrow> task_submission \<Rightarrow> task_result_proto option" where
  "wit_answers curve \<equiv> executorAnswers wit_eth wit_hex sample_bn254 sample_ecdsa (wit_chain curve) wit_cc mx_ops wit_performers 3
     (wit_executor newInMemoryExecutorStore)"

lemma wit_submitted:
  assumes "ts_Task ts = wit_task" "ts_aggregatorAddress ts = wit_addr (CHR ''c'')" "curve = CurveTypeECDSA \<or> curve = CurveTypeBN254"
  shows "\<exists>tr. submitToPeer wit_eth (wit_net (bn254Signer wit_eth wit_sign 5) (wit_answers curve)) ts (wit_peer curve) = Some tr"
proof -
  have "xsIsTaskProcessed mx_ops newInMemoryExecutorStore wit_taskId \<noteq> Inr True"
    by (simp add: mx_ops_def mx_IsTaskProcessed_def newInMemoryExecutorStore_def)
  from wit_handled [OF assms(3) this]
  have "wit_answers curve wit_submission = Some wit_answer" by (simp add: executorAnswers_def)
  moreover have "getSocketForOperatorSet (wit_peer curve) 1 = Some ''s''"
    by (simp add: getSocketForOperatorSet_def getOperatorSet_def wit_peer_def wit_opset_def)
  moreover have "task_OperatorSetId wit_task = 1" "opi_OperatorAddress (wit_peer curve) = wit_addr (CHR ''b'')"
    by (simp_all add: wit_task_def wit_peer_def)
  moreover have "en_NewExecutorClient (wit_net sg answers) s tls" "en_SubmitTask (wit_net sg answers) s = answers" for sg answers s tls
    by (simp_all add: wit_net_def)
  ultimately show ?thesis
    using wit_submissionFor [OF assms(1,2), of curve]
    by (simp add: submitToPeer_def assms(1) wit_generated wit_answer_def equalFold_def taskResultFromTaskResultProto_def
        maximumTaskResponseSize_def)
qed

lemma wit_find: "getOperatorSet (wit_peer curve) (task_OperatorSetId wit_task) = Some (wit_opset curve)"
  by (simp add: getOperatorSet_def wit_peer_def wit_opset_def wit_task_def)

lemma wit_peer_unique:
  "wit_peer curve \<in> set (pw_Operators (wit_weights curve))"
  "\<forall>p\<in>set (pw_Operators (wit_weights curve)). equalFold (opi_OperatorAddress p) (opi_OperatorAddress (wit_peer curve)) \<longrightarrow> p = wit_peer curve"
  by (simp_all add: wit_weights_def)

lemma wit_curve: "os_CurveType (wit_opset curve) = curve"
  by (simp add: wit_opset_def)

lemma wit_answering:
  "en_SubmitTask (wit_net sg (wit_answers curve)) (os_NetworkAddress (wit_opset curve)) = wit_answers curve"
  by (simp add: wit_net_def)

lemma wit_signers:
  "ex_bn254Signer (wit_executor s) = Some (bn254Signer wit_eth wit_sign 5)"
  "ex_ecdsaSigner (wit_executor s) = Some (ecdsaSigner wit_eth wit_sign 5)"
  by (simp_all add: wit_executor_def newExecutor_def Let_def)

theorem bn254_executor_answer_valid_witness:
  "\<exists>ts tr d. newBN254TaskSession sample_bn254 wit_task (wit_addr (CHR ''c'')) (wit_weights CurveTypeBN254) False = Inr ts \<and>
     submitToPeer wit_eth (wit_net (bn254Signer wit_eth wit_sign 5) (wit_answers CurveTypeBN254)) ts (wit_peer CurveTypeBN254) = Some tr \<and>
     bn254_valid wit_eth sample_bn254 wit_cc (ts_taskAggregator ts) tr 60 d"
proof -
  obtain ts where new: "newBN254TaskSession sample_bn254 wit_task (wit_addr (CHR ''c'')) (wit_weights CurveTypeBN254) False = Inr ts"
    and ts: "ts_Task ts = wit_task" "ts_aggregatorAddress ts = wit_addr (CHR ''c'')"
    by (auto simp: newBN254TaskSession_def newBN254TaskResultAggregator_def aggregatePublicKeys_def utilMap_def getOperatorSet_def
        sample_bn254_def wit_defs)
  from wit_submitted [OF ts, of CurveTypeBN254] obtain tr where
    tr: "submitToPeer wit_eth (wit_net (bn254Signer wit_eth wit_sign 5) (wit_answers CurveTypeBN254)) ts (wit_peer CurveTypeBN254) = Some tr"
    by auto
  have "getOperatorSetCurveType wit_eth (wit_chain CurveTypeBN254) a i b = Some CurveTypeBN254" for a i b by (simp add: wit_reads)
  from bn254_executor_answer_valid [OF new wit_peer_unique(1) wit_find wit_peer_unique(2) wit_answering wit_signers(1)
      wit_registered(1) wit_curve this wit_eth_ok wit_lengths(1,2) tr] new tr
  show ?thesis by (auto simp: sessionOperator_def firstWeight_def wit_weights_def wit_peer_def)
qed

theorem ecdsa_executor_answer_valid_witness:
  "\<exists>ts tr d. newECDSATaskSession wit_task (wit_addr (CHR ''c'')) (wit_weights CurveTypeECDSA) False = Inr ts \<and>
     submitToPeer wit_eth (wit_net (bn254Signer wit_eth wit_sign 5) (wit_answers CurveTypeECDSA)) ts (wit_peer CurveTypeECDSA) = Some tr \<and>
     ecdsa_valid wit_eth sample_ecdsa wit_cc (ts_taskAggregator ts) tr 60 d"
proof -
  obtain ts :: "(nat, nat ecdsa_aggregator) task_session"
    where new: "newECDSATaskSession wit_task (wit_addr (CHR ''c'')) (wit_weights CurveTypeECDSA) False = Inr ts"
    and ts: "ts_Task ts = wit_task" "ts_aggregatorAddress ts = wit_addr (CHR ''c'')"
    by (auto simp: newECDSATaskSession_def newECDSATaskResultAggregator_def utilMap_def getOperatorSet_def wit_defs)
  from wit_submitted [OF ts, of CurveTypeECDSA] obtain tr where
    tr: "submitToPeer wit_eth (wit_net (bn254Signer wit_eth wit_sign 5) (wit_answers CurveTypeECDSA)) ts (wit_peer CurveTypeECDSA) = Some tr"
    by auto
  have "getOperatorSetCurveType wit_eth (wit_chain CurveTypeECDSA) a i b = Some CurveTypeECDSA" for a i b by (simp add: wit_reads)
  from ecdsa_executor_answer_valid [OF new wit_peer_unique(1) wit_find wit_peer_unique(2) wit_answering wit_signers(2)
      wit_registered(2) wit_curve this wit_eth_ok wit_lengths(1,2) tr] new tr
  show ?thesis by (auto simp: sessionOperator_def firstWeight_def wit_weights_def wit_peer_def)
qed


section \<open>Requests and restarts\<close>

definition wit_store :: "((string \<times> xkv_value) list) badger_executor_store" where
  "wit_store = \<lparr>bx_db = [], bx_closed = False\<rparr>"

lemma wit_store_ok: "bx_invar map_of wit_store" "\<not> bx_closed wit_store"
  by (simp_all add: bx_invar_def wit_store_def)

lemma wit_executor_store [simp]: "ex_store (wit_executor s) = s"
  by (simp add: wit_executor_def newExecutor_def Let_def)

lemma wit_fresh: "xsIsTaskProcessed (bx_ops kv_alist) wit_store wit_taskId \<noteq> Inr True"
  by (simp add: bx_ops_def bx_IsTaskProcessed_def wit_store_def kv_alist_def)


definition wit_deploy :: deploy_request where
  "wit_deploy = \<lparr>dq_AvsAddress = wit_addr (CHR ''a''), dq_Digest = ''sha'', dq_RegistryUrl = ''reg'', dq_Env = [],
     dq_ServiceAccountName = None, dq_Auth = None\<rparr>"

definition wit_open :: "'s \<Rightarrow> ('s, unit) executor" where
  "wit_open s = (wit_executor s)\<lparr>ex_authVerifier := AuthOff\<rparr>"

lemma wit_deploys:
  "\<exists>e1. deployArtifact wit_eth 3 (bx_ops kv_alist) wit_performers wit_deploy (wit_open wit_store) = (MgmtOk (''ok'', ''d''), e1)"
  by (simp add: deployArtifact_def withAuth_def executorVerifyAuth_def wit_open_def validateDeployArtifactRequest_def wit_deploy_def
      getOrCreateAvsPerformer_def wit_executor_def newExecutor_def deployTo_def wit_performers_def wit_deployed_def Let_def)


theorem management_requires_authentication_witness:
  "\<exists>c m. fst (listPerformers wit_eth 3 mx_ops wit_performers [] None (wit_executor newInMemoryExecutorStore)) = MgmtStatus c m"
proof -
  let ?v = "newVerifier (newChallengeTokenManager (wit_addr (CHR ''b'')) 300) (authSigner (ecdsaSigner wit_eth wit_sign 5))"
  have "ex_authVerifier (wit_executor newInMemoryExecutorStore) = AuthOn ?v"
    by (simp add: wit_executor_def newExecutor_def wit_config_def Let_def)
  moreover have "\<not> authentic wit_eth 3 ?v None"
    by (simp add: authentic_def authOfPointer_def newVerifier_def newChallengeTokenManager_def)
  ultimately show ?thesis
    using management_requires_authentication [of "wit_executor newInMemoryExecutorStore" ?v wit_eth 3 None mx_ops wit_performers]
    by (metis prod.collapse)
qed

theorem unsupported_version_not_bound_witness:
  "validateTaskSignature wit_eth sample_bn254 sample_ecdsa (wit_chain CurveTypeBN254) (wit_executor ())
     (wit_submission\<lparr>sub_Version := 2, sub_Payload := [9]\<rparr>) =
   validateTaskSignature wit_eth sample_bn254 sample_ecdsa (wit_chain CurveTypeBN254) (wit_executor ()) (wit_submission\<lparr>sub_Version := 2\<rparr>)"
  by (rule unsupported_version_not_bound) (simp_all add: taskMessageVersionV1_def)

end
