(* ===== verification/Certificate_Submission.thy ===== *)
theory Certificate_Submission
  imports Aggregation_BN254 Aggregation_ECDSA Operator_Manager
begin

text \<open>
  Submitting a certificate, \<open>ponos/pkg/contractCaller/caller/caller.go\<close>: the Merkle proofs of the
  non-signers, the certificate the task mailbox receives, the retries, the verification call that repeats
  the construction, and the reads of the operator table. The contract bindings, the Merkle tree library
  (\<open>merkletree\<close>), the ABI packer and the curve points are parameters; the mailbox may answer differently at
  every attempt.
\<close>

section \<open>Parameters\<close>

record ('sig, 'g2, 'tree) cert_lib =
  cl_G1PrecompileFormat :: "'sig \<Rightarrow> bytes option"
  cl_G2PrecompileFormat :: "'g2 \<Rightarrow> bytes option"
  cl_PackOperatorInfo :: "int \<Rightarrow> int \<Rightarrow> int list \<Rightarrow> bytes option"
  cl_NewTree :: "bytes list \<Rightarrow> 'tree option"
  cl_Root :: "'tree \<Rightarrow> bytes"
  cl_GenerateProofWithIndex :: "'tree \<Rightarrow> nat \<Rightarrow> bytes list option"

record bn254_witness =
  bw_OperatorIndex :: u32
  bw_OperatorInfoProof :: bytes
  bw_OperatorInfo :: bn254_operator_info

record bn254_cert =
  bnc_ReferenceTimestamp :: u32
  bnc_MessageHash :: bytes
  bnc_Signature :: "int \<times> int"
  bnc_Apk :: "(int \<times> int) \<times> (int \<times> int)"
  bnc_NonSignerWitnesses :: "bn254_witness list"

record ecdsa_cert =
  ecc_ReferenceTimestamp :: u32
  ecc_MessageHash :: bytes
  ecc_Sig :: bytes

text \<open>
  The task mailbox and the transaction signer at one attempt: whether the transaction options can be
  built, the encodings of a certificate, the transaction for a result and its receipt.
\<close>

record ('tx, 'receipt) mailbox =
  mb_BuildTransactionOpts :: bool
  mb_GetBN254CertificateBytes :: "bn254_cert \<Rightarrow> bytes option"
  mb_GetECDSACertificateBytes :: "ecdsa_cert \<Rightarrow> bytes option"
  mb_SubmitResult :: "bytes \<Rightarrow> bytes \<Rightarrow> bytes \<Rightarrow> 'tx option"
  mb_SignAndSendTransaction :: "'tx \<Rightarrow> 'receipt option"

datatype merkle_error = LeafFailed nat | TreeFailed | RootMismatch | ProofFailed u32

datatype submit_failure = TransactionOptsFailed | TaskIdLength nat | SignatureSubgroup | PublicKeySubgroup
  | NoOperatorInfos | EmptyTreeRoot | ProofsFailed merkle_error | NonSignerOutOfRange u32 | MissingProof u32
  | CertificateBytesFailed | CreateTransactionFailed | SendFailed | FinalSignatureFailed agg_error | VerifierCallFailed | SlicePanic

section \<open>Merkle proofs\<close>

definition operatorInfoLeafSalt :: byte where
  "operatorInfoLeafSalt = 0x75"

definition encodeOperatorInfoLeaf :: "('sig, 'g2, 'tree) cert_lib \<Rightarrow> int \<Rightarrow> int \<Rightarrow> int list \<Rightarrow> bytes option" where
  "encodeOperatorInfoLeaf cl pubkeyX pubkeyY weights =
     (case cl_PackOperatorInfo cl pubkeyX pubkeyY weights of
        None \<Rightarrow> None
      | Some encoded \<Rightarrow> Some (operatorInfoLeafSalt # encoded))"

abbreviation infoLeaf :: "('sig, 'g2, 'tree) cert_lib \<Rightarrow> bn254_operator_info \<Rightarrow> bytes option" where
  "infoLeaf cl info \<equiv> encodeOperatorInfoLeaf cl (boi_PubkeyX info) (boi_PubkeyY info) (boi_Weights info)"

fun encodeLeaves :: "('sig, 'g2, 'tree) cert_lib \<Rightarrow> nat \<Rightarrow> bn254_operator_info list \<Rightarrow> (nat, bytes list) result" where
  "encodeLeaves cl i [] = Inr []"
| "encodeLeaves cl i (info # infos) =
     (case infoLeaf cl info of
        None \<Rightarrow> Inl i
      | Some encodedLeaf \<Rightarrow>
          (case encodeLeaves cl (Suc i) infos of Inl e \<Rightarrow> Inl e | Inr leaves \<Rightarrow> Inr (encodedLeaf # leaves)))"

definition flattenProofHashes :: "bytes list \<Rightarrow> bytes" where
  "flattenProofHashes hashes = (if length hashes = 0 then [] else concat hashes)"

fun collectProofs ::
  "('sig, 'g2, 'tree) cert_lib \<Rightarrow> 'tree \<Rightarrow> (u32 \<times> bytes) list \<Rightarrow> (u32 \<times> bytes) list \<Rightarrow> (u32, (u32 \<times> bytes) list) result" where
  "collectProofs cl tree [] proofs = Inr proofs"
| "collectProofs cl tree ((index, key) # nss) proofs =
     (case cl_GenerateProofWithIndex cl tree (unat index) of
        None \<Rightarrow> Inl index
      | Some hashes \<Rightarrow> collectProofs cl tree nss (gm_put proofs index (flattenProofHashes hashes)))"

definition generateOperatorMerkleProofs ::
  "('sig, 'g2, 'tree) cert_lib \<Rightarrow> (u32 \<times> bytes) list \<Rightarrow> bytes \<Rightarrow> bn254_operator_info list \<Rightarrow>
     (merkle_error, (u32 \<times> bytes) list) result" where
  "generateOperatorMerkleProofs cl nonSignerOperators operatorInfoTreeRoot allOperators =
     (case encodeLeaves cl 0 allOperators of
        Inl i \<Rightarrow> Inl (LeafFailed i)
      | Inr leaves \<Rightarrow>
     (case cl_NewTree cl leaves of
        None \<Rightarrow> Inl TreeFailed
      | Some tree \<Rightarrow>
          if cl_Root cl tree \<noteq> operatorInfoTreeRoot then Inl RootMismatch
          else (case collectProofs cl tree nonSignerOperators [] of
             Inl index \<Rightarrow> Inl (ProofFailed index)
           | Inr proofs \<Rightarrow> Inr proofs)))"

section \<open>The BN254 certificate\<close>

text \<open>\<open>new(big.Int).SetBytes(b[i:j])\<close>; slicing beyond the end panics, which is \<open>None\<close>.\<close>

definition sliceInt :: "nat \<Rightarrow> nat \<Rightarrow> bytes \<Rightarrow> int option" where
  "sliceInt i j b = (if j \<le> length b then Some (int (be_nat (take (j - i) (drop i b)))) else None)"

definition pointOfBytes :: "bytes \<Rightarrow> (int \<times> int) option" where
  "pointOfBytes b =
     (case (sliceInt 0 32 b, sliceInt 32 64 b) of (Some x, Some y) \<Rightarrow> Some (x, y) | _ \<Rightarrow> None)"

definition g2OfBytes :: "bytes \<Rightarrow> ((int \<times> int) \<times> (int \<times> int)) option" where
  "g2OfBytes b =
     (case (sliceInt 0 32 b, sliceInt 32 64 b, sliceInt 64 96 b, sliceInt 96 128 b) of
        (Some x0, Some x1, Some y0, Some y1) \<Rightarrow> Some ((x0, x1), (y0, y1))
      | _ \<Rightarrow> None)"

text \<open>
  The witnesses of \<open>SubmitBN254TaskResult\<close>: the public key comes from the non-signer, the weights from the
  entry of \<open>SortedOperatorsByIndex\<close> at the position of the operator's index.
\<close>

fun submitWitnesses ::
  "(u32 \<times> bytes \<times> int list) list \<Rightarrow> (u32 \<times> bytes) list \<Rightarrow> (u32 \<times> bytes) list \<Rightarrow> (submit_failure, bn254_witness list) result" where
  "submitWitnesses byIndex proofs [] = Inr []"
| "submitWitnesses byIndex proofs ((index, key) # nss) =
     (if unat index \<ge> length byIndex then Inl (NonSignerOutOfRange index)
      else case pointOfBytes key of
        None \<Rightarrow> Inl SlicePanic
      | Some (x, y) \<Rightarrow>
     (case gm_get proofs index of
        None \<Rightarrow> Inl (MissingProof index)
      | Some proof \<Rightarrow>
          (case submitWitnesses byIndex proofs nss of
             Inl e \<Rightarrow> Inl e
           | Inr ws \<Rightarrow>
               Inr (\<lparr>bw_OperatorIndex = index, bw_OperatorInfoProof = proof,
                  bw_OperatorInfo = \<lparr>boi_PubkeyX = x, boi_PubkeyY = y, boi_Weights = snd (snd (byIndex ! unat index))\<rparr>\<rparr> # ws))))"

definition makeCert :: "u32 \<Rightarrow> bytes \<Rightarrow> bytes \<Rightarrow> bytes \<Rightarrow> bn254_witness list \<Rightarrow> (submit_failure, bn254_cert) result" where
  "makeCert referenceTimestamp digest g1Bytes g2Bytes witnesses =
     (case (pointOfBytes g1Bytes, g2OfBytes g2Bytes) of
        (Some sig, Some apk) \<Rightarrow>
          Inr \<lparr>bnc_ReferenceTimestamp = referenceTimestamp, bnc_MessageHash = digest, bnc_Signature = sig, bnc_Apk = apk,
               bnc_NonSignerWitnesses = witnesses\<rparr>
      | _ \<Rightarrow> Inl SlicePanic)"

definition submitCert ::
  "('sig, 'g2, 'tree) cert_lib \<Rightarrow> ('sig, 'g2) bn254_params \<Rightarrow> bn254_operator_info list \<Rightarrow> u32 \<Rightarrow> bytes \<Rightarrow>
     (submit_failure, bn254_cert) result" where
  "submitCert cl params operatorInfos referenceTimestamp operatorInfoTreeRoot =
     (case cl_G1PrecompileFormat cl (bp_SignersSignature params) of
        None \<Rightarrow> Inl SignatureSubgroup
      | Some g1Bytes \<Rightarrow>
     (case cl_G2PrecompileFormat cl (bp_SignersPublicKey params) of
        None \<Rightarrow> Inl PublicKeySubgroup
      | Some g2Bytes \<Rightarrow>
          if operatorInfos = [] then Inl NoOperatorInfos
          else if operatorInfoTreeRoot = replicate 32 0 then Inl EmptyTreeRoot
          else (case generateOperatorMerkleProofs cl (bp_NonSignerOperators params) operatorInfoTreeRoot operatorInfos of
             Inl e \<Rightarrow> Inl (ProofsFailed e)
           | Inr proofs \<Rightarrow>
          (case submitWitnesses (bp_SortedOperatorsByIndex params) proofs (bp_NonSignerOperators params) of
             Inl e \<Rightarrow> Inl e
           | Inr witnesses \<Rightarrow> makeCert referenceTimestamp (bp_TaskResponseDigest params) g1Bytes g2Bytes witnesses))))"

definition sendResult ::
  "('tx, 'receipt) mailbox \<Rightarrow> bytes \<Rightarrow> bytes option \<Rightarrow> bytes \<Rightarrow> (submit_failure, 'receipt) result" where
  "sendResult mb taskId certBytes taskResponse =
     (case certBytes of
        None \<Rightarrow> Inl CertificateBytesFailed
      | Some cert \<Rightarrow>
     (case mb_SubmitResult mb taskId cert taskResponse of
        None \<Rightarrow> Inl CreateTransactionFailed
      | Some tx \<Rightarrow> (case mb_SignAndSendTransaction mb tx of None \<Rightarrow> Inl SendFailed | Some receipt \<Rightarrow> Inr receipt)))"

definition submitBN254TaskResult ::
  "('sig, 'g2, 'tree) cert_lib \<Rightarrow> ('tx, 'receipt) mailbox \<Rightarrow> ('sig, 'g2) bn254_params \<Rightarrow> bn254_operator_info list \<Rightarrow> u32 \<Rightarrow>
     bytes \<Rightarrow> (submit_failure, 'receipt) result" where
  "submitBN254TaskResult cl mb params operatorInfos referenceTimestamp operatorInfoTreeRoot =
     (if \<not> mb_BuildTransactionOpts mb then Inl TransactionOptsFailed
      else if length (bp_TaskId params) \<noteq> 32 then Inl (TaskIdLength (length (bp_TaskId params)))
      else case submitCert cl params operatorInfos referenceTimestamp operatorInfoTreeRoot of
        Inl e \<Rightarrow> Inl e
      | Inr cert \<Rightarrow> sendResult mb (bp_TaskId params) (mb_GetBN254CertificateBytes mb cert) (bp_TaskResponse params))"

section \<open>The ECDSA certificate\<close>

text \<open>\<open>GetFinalECDSASignature\<close> repeats the method of the certificate; addresses have 20 bytes.\<close>

definition getFinalECDSASignature :: "(bytes \<times> bytes) list \<Rightarrow> agg_error + bytes" where
  "getFinalECDSASignature signatures =
     (if length signatures = 0 then Inl NoCertificateSignatures
      else concatSignatures signatures (sort (map fst signatures)) [])"

definition submitECDSATaskResult ::
  "('tx, 'receipt) mailbox \<Rightarrow> ecdsa_params \<Rightarrow> u32 \<Rightarrow> (submit_failure, 'receipt) result" where
  "submitECDSATaskResult mb params referenceTimestamp =
     (if \<not> mb_BuildTransactionOpts mb then Inl TransactionOptsFailed
      else if length (ep_TaskId params) \<noteq> 32 then Inl (TaskIdLength (length (ep_TaskId params)))
      else case getFinalECDSASignature (ep_SignersSignatures params) of
        Inl e \<Rightarrow> Inl (FinalSignatureFailed e)
      | Inr finalSig \<Rightarrow>
          sendResult mb (ep_TaskId params)
            (mb_GetECDSACertificateBytes mb \<lparr>ecc_ReferenceTimestamp = referenceTimestamp,
               ecc_MessageHash = ep_TaskResponseDigest params, ecc_Sig = finalSig\<rparr>) (ep_TaskResponse params))"

section \<open>Retries\<close>

text \<open>The loop of the two \<open>Retryable\<close> methods over the results of the attempts; it sleeps between them.\<close>

definition backoffs :: "nat list" where
  "backoffs = [1, 3, 5, 10, 20]"

fun retryLoop :: "nat \<Rightarrow> nat list \<Rightarrow> (nat \<Rightarrow> (submit_failure, 'r) result) \<Rightarrow> (submit_failure option, 'r) result" where
  "retryLoop i [] attempt = Inl None"
| "retryLoop i (backoff # rest) attempt =
     (case attempt i of
        Inr res \<Rightarrow> Inr res
      | Inl err \<Rightarrow> if i = length backoffs - 1 then Inl (Some err) else retryLoop (Suc i) rest attempt)"

definition submitBN254TaskResultRetryable ::
  "('sig, 'g2, 'tree) cert_lib \<Rightarrow> (nat \<Rightarrow> ('tx, 'receipt) mailbox) \<Rightarrow> ('sig, 'g2) bn254_params \<Rightarrow> bn254_operator_info list \<Rightarrow>
     u32 \<Rightarrow> bytes \<Rightarrow> (submit_failure option, 'receipt) result" where
  "submitBN254TaskResultRetryable cl mbs params operatorInfos referenceTimestamp operatorInfoTreeRoot =
     retryLoop 0 backoffs (\<lambda>i. submitBN254TaskResult cl (mbs i) params operatorInfos referenceTimestamp operatorInfoTreeRoot)"

definition submitECDSATaskResultRetryable ::
  "(nat \<Rightarrow> ('tx, 'receipt) mailbox) \<Rightarrow> ecdsa_params \<Rightarrow> u32 \<Rightarrow> (submit_failure option, 'receipt) result" where
  "submitECDSATaskResultRetryable mbs params referenceTimestamp =
     retryLoop 0 backoffs (\<lambda>i. submitECDSATaskResult (mbs i) params referenceTimestamp)"

section \<open>The verification call\<close>

fun verifyWitnesses ::
  "bn254_operator_info list \<Rightarrow> (u32 \<times> bytes) list \<Rightarrow> (u32 \<times> bytes) list \<Rightarrow> (submit_failure, bn254_witness list) result" where
  "verifyWitnesses allOperators proofs [] = Inr []"
| "verifyWitnesses allOperators proofs ((index, key) # nss) =
     (if unat index \<ge> length allOperators then Inl (NonSignerOutOfRange index)
      else case gm_get proofs index of
        None \<Rightarrow> Inl (MissingProof index)
      | Some proof \<Rightarrow>
          (case verifyWitnesses allOperators proofs nss of
             Inl e \<Rightarrow> Inl e
           | Inr ws \<Rightarrow> Inr (\<lparr>bw_OperatorIndex = index, bw_OperatorInfoProof = proof,
                bw_OperatorInfo = allOperators ! unat index\<rparr> # ws)))"

definition verifyCert ::
  "('sig, 'g2, 'tree) cert_lib \<Rightarrow> ('sig, 'g2) bn254_params \<Rightarrow> bn254_operator_info list \<Rightarrow> u32 \<Rightarrow> bytes \<Rightarrow>
     (submit_failure, bn254_cert) result" where
  "verifyCert cl params operatorInfos referenceTimestamp operatorInfoTreeRoot =
     (case cl_G1PrecompileFormat cl (bp_SignersSignature params) of
        None \<Rightarrow> Inl SignatureSubgroup
      | Some g1Bytes \<Rightarrow>
     (case cl_G2PrecompileFormat cl (bp_SignersPublicKey params) of
        None \<Rightarrow> Inl PublicKeySubgroup
      | Some g2Bytes \<Rightarrow>
          if operatorInfos = [] then Inl NoOperatorInfos
          else (case generateOperatorMerkleProofs cl (bp_NonSignerOperators params) operatorInfoTreeRoot operatorInfos of
             Inl e \<Rightarrow> Inl (ProofsFailed e)
           | Inr proofs \<Rightarrow>
          (case verifyWitnesses operatorInfos proofs (bp_NonSignerOperators params) of
             Inl e \<Rightarrow> Inl e
           | Inr witnesses \<Rightarrow> makeCert referenceTimestamp (bp_TaskResponseDigest params) g1Bytes g2Bytes witnesses))))"

text \<open>The verifier contract: the simulated call, the transaction and its receipt.\<close>

record ('tx, 'receipt) verifier_contract =
  vc_GetTransactOpts :: bool
  vc_CallContract :: "bytes \<Rightarrow> u32 \<Rightarrow> bn254_cert \<Rightarrow> u16 \<Rightarrow> bool option"
  vc_VerifyCertificateProportion :: "bytes \<Rightarrow> u32 \<Rightarrow> bn254_cert \<Rightarrow> u16 \<Rightarrow> 'tx option"
  vc_SignAndSendTransaction :: "'tx \<Rightarrow> 'receipt option"

definition verifyBN254Certificate ::
  "('sig, 'g2, 'tree) cert_lib \<Rightarrow> ('tx, 'receipt) verifier_contract \<Rightarrow> bytes \<Rightarrow> u32 \<Rightarrow> ('sig, 'g2) bn254_params \<Rightarrow>
     bn254_operator_info list \<Rightarrow> u32 \<Rightarrow> bytes \<Rightarrow> u16 \<Rightarrow> (submit_failure, bool) result" where
  "verifyBN254Certificate cl vc avs operatorSetId params operatorInfos referenceTimestamp operatorInfoTreeRoot threshold =
     (case verifyCert cl params operatorInfos referenceTimestamp operatorInfoTreeRoot of
        Inl e \<Rightarrow> Inl e
      | Inr cert \<Rightarrow>
          if \<not> vc_GetTransactOpts vc then Inl TransactionOptsFailed
          else (case vc_CallContract vc avs operatorSetId cert threshold of
             None \<Rightarrow> Inl VerifierCallFailed
           | Some verified \<Rightarrow>
               if \<not> verified then Inr False
               else (case vc_VerifyCertificateProportion vc avs operatorSetId cert threshold of
                  None \<Rightarrow> Inl CreateTransactionFailed
                | Some tx \<Rightarrow>
                    (case vc_SignAndSendTransaction vc tx of None \<Rightarrow> Inl SendFailed | Some receipt \<Rightarrow> Inr verified))))"

section \<open>Reading the operator table\<close>

text \<open>The bindings behind the reads; \<open>None\<close> is an error.\<close>

record table_bindings =
  tb_GetOperatorTableCalculator :: "int \<Rightarrow> bytes \<Rightarrow> u32 \<Rightarrow> bytes option"
  tb_GetOperatorInfos :: "bytes \<Rightarrow> int \<Rightarrow> bytes \<Rightarrow> u32 \<Rightarrow> bn254_operator_info list option"
  tb_GetOperatorSetWeights :: "bytes \<Rightarrow> int \<Rightarrow> bytes \<Rightarrow> u32 \<Rightarrow> (bytes list \<times> int list list) option"
  tb_GetSupportedChains :: "int option \<Rightarrow> (int list \<times> bytes list) option"
  tb_GetLatestReferenceTimestamp :: "bytes \<Rightarrow> int \<Rightarrow> u32 option"
  tb_GetReferenceBlockNumberByTimestamp :: "bytes \<Rightarrow> int \<Rightarrow> u32 \<Rightarrow> u32 option"
  tb_GetOperatorInfoTreeRoot :: "int \<Rightarrow> bytes \<Rightarrow> u32 \<Rightarrow> u32 \<Rightarrow> bytes option"

definition getSupportedChainsForMultichain :: "table_bindings \<Rightarrow> u64 \<Rightarrow> (int list \<times> bytes list) option" where
  "getSupportedChainsForMultichain tb referenceBlockNumber =
     tb_GetSupportedChains tb (if referenceBlockNumber > 0 then Some (int referenceBlockNumber) else None)"

definition getOperatorInfos :: "table_bindings \<Rightarrow> bytes \<Rightarrow> u32 \<Rightarrow> u64 \<Rightarrow> bn254_operator_info list option" where
  "getOperatorInfos tb avsAddress opSetId referenceBlockNumber =
     (case tb_GetOperatorTableCalculator tb (int referenceBlockNumber) avsAddress opSetId of
        None \<Rightarrow> None
      | Some otc \<Rightarrow> tb_GetOperatorInfos tb otc (int referenceBlockNumber) avsAddress opSetId)"

definition getOperatorInfoTreeRoot :: "table_bindings \<Rightarrow> bytes \<Rightarrow> u32 \<Rightarrow> u64 \<Rightarrow> u32 \<Rightarrow> bytes option" where
  "getOperatorInfoTreeRoot tb avsAddress opSetId taskBlockNumber referenceTimestamp =
     tb_GetOperatorInfoTreeRoot tb (int taskBlockNumber) avsAddress opSetId referenceTimestamp"

definition getTableUpdaterReferenceTimeAndBlock :: "table_bindings \<Rightarrow> bytes \<Rightarrow> u64 \<Rightarrow> latest_reference option" where
  "getTableUpdaterReferenceTimeAndBlock tb tableUpdaterAddr taskBlockNumber =
     (case tb_GetLatestReferenceTimestamp tb tableUpdaterAddr (int taskBlockNumber) of
        None \<Rightarrow> None
      | Some ts \<Rightarrow>
     (case tb_GetReferenceBlockNumberByTimestamp tb tableUpdaterAddr (int taskBlockNumber) ts of
        None \<Rightarrow> None
      | Some bn \<Rightarrow> Some \<lparr>lr_Timestamp = ts, lr_BlockNumber = bn\<rparr>))"

text \<open>
  The search of the table updater: the first address for the chain, where an address of zeros does not
  count and a later one replaces it. An address list shorter than the list of chains panics.
\<close>

datatype table_error = CalculatorFailed | WeightsFailed | ChainsFailed | NoTableUpdaterFor chain_id | ReferenceFailed
  | UpdaterIndexPanic

fun findTableUpdater ::
  "chain_id \<Rightarrow> int list \<Rightarrow> bytes list \<Rightarrow> bytes \<Rightarrow> (nat \<times> bytes) list \<Rightarrow> (bytes \<times> (nat \<times> bytes) list) option" where
  "findTableUpdater chainId [] addrs found updaters = Some (found, updaters)"
| "findTableUpdater chainId (cid # cids) [] found updaters = None"
| "findTableUpdater chainId (cid # cids) (addr # addrs) found updaters =
     (let cid64 = nat (cid mod 2 ^ 64)
      in findTableUpdater chainId cids addrs
           (if found = replicate 20 0 \<and> cid64 = chainId then addr else found) (gm_put updaters cid64 addr))"

definition getOperatorTableDataForOperatorSet ::
  "table_bindings \<Rightarrow> bytes \<Rightarrow> u32 \<Rightarrow> chain_id \<Rightarrow> u64 \<Rightarrow> (table_error, bytes list \<times> int list list \<times> latest_reference \<times> (nat \<times> bytes) list) result" where
  "getOperatorTableDataForOperatorSet tb avsAddress operatorSetId chainId atBlockNumber =
     (case tb_GetOperatorTableCalculator tb (int atBlockNumber) avsAddress operatorSetId of
        None \<Rightarrow> Inl CalculatorFailed
      | Some otcAddr \<Rightarrow>
     (case tb_GetOperatorSetWeights tb otcAddr (int atBlockNumber) avsAddress operatorSetId of
        None \<Rightarrow> Inl WeightsFailed
      | Some (operators, weights) \<Rightarrow>
     (case getSupportedChainsForMultichain tb atBlockNumber of
        None \<Rightarrow> Inl ChainsFailed
      | Some (chainIds, tableUpdaterAddresses) \<Rightarrow>
     (case findTableUpdater chainId chainIds tableUpdaterAddresses (replicate 20 0) [] of
        None \<Rightarrow> Inl UpdaterIndexPanic
      | Some (tableUpdaterAddr, updaters) \<Rightarrow>
          if tableUpdaterAddr = replicate 20 0 then Inl (NoTableUpdaterFor chainId)
          else (case getTableUpdaterReferenceTimeAndBlock tb tableUpdaterAddr atBlockNumber of
             None \<Rightarrow> Inl ReferenceFailed
           | Some lr \<Rightarrow> Inr (operators, weights, lr, updaters))))))"

section \<open>Properties\<close>

text \<open>
  \<open>verify root leaf index proof\<close> is the contract's inclusion check; the tree library's proofs pass it for
  the leaf at the index.
\<close>

definition merkle_ok :: "('sig, 'g2, 'tree) cert_lib \<Rightarrow> (bytes \<Rightarrow> bytes \<Rightarrow> nat \<Rightarrow> bytes \<Rightarrow> bool) \<Rightarrow> bool" where
  "merkle_ok cl verify \<longleftrightarrow> (\<forall>leaves tree i hashes. cl_NewTree cl leaves = Some tree \<longrightarrow> i < length leaves \<longrightarrow>
     cl_GenerateProofWithIndex cl tree i = Some hashes \<longrightarrow> verify (cl_Root cl tree) (leaves ! i) i (concat hashes))"

text \<open>The keys and weights of the session's operators are those of the operator table at their index.\<close>

definition table_consistent :: "('sig, 'g2) bn254_params \<Rightarrow> bn254_operator_info list \<Rightarrow> bool" where
  "table_consistent params infos \<longleftrightarrow> length (bp_SortedOperatorsByIndex params) = length infos \<and>
     (\<forall>(index, key)\<in>set (bp_NonSignerOperators params). unat index < length infos \<longrightarrow>
        pointOfBytes key = Some (boi_PubkeyX (infos ! unat index), boi_PubkeyY (infos ! unat index)) \<and>
        snd (snd (bp_SortedOperatorsByIndex params ! unat index)) = boi_Weights (infos ! unat index))"

lemma flattenProofHashes_concat: "flattenProofHashes hs = concat hs"
  by (simp add: flattenProofHashes_def)

lemma encodeLeaves_nth:
  assumes "encodeLeaves cl i infos = Inr leaves"
  shows "length leaves = length infos \<and> (\<forall>j<length infos. infoLeaf cl (infos ! j) = Some (leaves ! j))"
  using assms
proof (induction infos arbitrary: i leaves)
  case (Cons info infos)
  then obtain l ls where "infoLeaf cl info = Some l" "encodeLeaves cl (Suc i) infos = Inr ls" "leaves = l # ls"
    by (auto split: option.splits sum.splits)
  with Cons.IH [of "Suc i" ls] show ?case by (auto simp: less_Suc_eq_0_disj nth_Cons')
qed simp

lemma collectProofs_keys:
  assumes "collectProofs cl tree nss proofs = Inr proofs'"
    and "\<forall>index p. gm_get proofs index = Some p \<longrightarrow> (\<exists>hs. cl_GenerateProofWithIndex cl tree (unat index) = Some hs \<and> p = concat hs)"
  shows "\<forall>index p. gm_get proofs' index = Some p \<longrightarrow> (\<exists>hs. cl_GenerateProofWithIndex cl tree (unat index) = Some hs \<and> p = concat hs)"
  using assms
proof (induction cl tree nss proofs rule: collectProofs.induct)
  case (2 cl tree index key nss proofs)
  from "2.prems"(1) obtain hs where hs: "cl_GenerateProofWithIndex cl tree (unat index) = Some hs"
    "collectProofs cl tree nss (gm_put proofs index (flattenProofHashes hs)) = Inr proofs'" by (auto split: option.splits)
  have "\<forall>i p. gm_get (gm_put proofs index (flattenProofHashes hs)) i = Some p \<longrightarrow>
      (\<exists>hs. cl_GenerateProofWithIndex cl tree (unat i) = Some hs \<and> p = concat hs)"
  proof (intro allI impI)
    fix i p
    assume p: "gm_get (gm_put proofs index (flattenProofHashes hs)) i = Some p"
    show "\<exists>hs. cl_GenerateProofWithIndex cl tree (unat i) = Some hs \<and> p = concat hs"
    proof (cases "i = index")
      case True
      with p hs(1) show ?thesis by (simp add: flattenProofHashes_concat)
    next
      case False
      with p "2.prems"(2) show ?thesis by simp
    qed
  qed
  from "2.IH" [OF hs this] show ?case .
qed simp

lemma proofs_verify:
  assumes "generateOperatorMerkleProofs cl nss root infos = Inr proofs" "merkle_ok cl verify"
    and "gm_get proofs index = Some proof" "unat index < length infos" "infoLeaf cl (infos ! unat index) = Some leaf"
  shows "verify root leaf (unat index) proof"
proof -
  from assms(1) obtain leaves tree where l: "encodeLeaves cl 0 infos = Inr leaves" "cl_NewTree cl leaves = Some tree"
    "cl_Root cl tree = root" "collectProofs cl tree nss [] = Inr proofs"
    by (auto simp: generateOperatorMerkleProofs_def split: sum.splits option.splits if_splits)
  from collectProofs_keys [OF l(4)] assms(3) obtain hs where
    "cl_GenerateProofWithIndex cl tree (unat index) = Some hs" "proof = concat hs" by auto
  with encodeLeaves_nth [OF l(1)] assms(2,4,5) l(2,3) show ?thesis unfolding merkle_ok_def by fastforce
qed

lemma submitWitnesses_same:
  assumes "length byIndex = length infos"
    and "\<forall>(index, key)\<in>set nss. unat index < length infos \<longrightarrow>
        pointOfBytes key = Some (boi_PubkeyX (infos ! unat index), boi_PubkeyY (infos ! unat index)) \<and>
        snd (snd (byIndex ! unat index)) = boi_Weights (infos ! unat index)"
  shows "submitWitnesses byIndex proofs nss = verifyWitnesses infos proofs nss"
  using assms
proof (induction nss)
  case (Cons ns nss)
  obtain index key where "ns = (index, key)" by fastforce
  with Cons show ?case by (auto split: option.splits sum.splits)
qed simp

lemma verifyWitnesses_contents:
  assumes "verifyWitnesses infos proofs nss = Inr ws"
  shows "map bw_OperatorIndex ws = map fst nss \<and>
    (\<forall>w\<in>set ws. unat (bw_OperatorIndex w) < length infos \<and> bw_OperatorInfo w = infos ! unat (bw_OperatorIndex w) \<and>
       gm_get proofs (bw_OperatorIndex w) = Some (bw_OperatorInfoProof w))"
  using assms
proof (induction nss arbitrary: ws)
  case (Cons ns nss)
  obtain index key where "ns = (index, key)" by fastforce
  with Cons show ?case by (auto split: option.splits sum.splits if_splits)
qed simp

definition witness_ok :: "('sig, 'g2, 'tree) cert_lib \<Rightarrow> (bytes \<Rightarrow> bytes \<Rightarrow> nat \<Rightarrow> bytes \<Rightarrow> bool) \<Rightarrow> bytes \<Rightarrow> bn254_witness \<Rightarrow> bool" where
  "witness_ok cl verify root w \<longleftrightarrow>
     (case infoLeaf cl (bw_OperatorInfo w) of
        None \<Rightarrow> False
      | Some leaf \<Rightarrow> verify root leaf (unat (bw_OperatorIndex w)) (bw_OperatorInfoProof w))"

lemma verifyWitnesses_ok:
  assumes proofs: "generateOperatorMerkleProofs cl nss root infos = Inr proofs" and "merkle_ok cl verify"
    and ws: "verifyWitnesses infos proofs nss = Inr ws" and "w \<in> set ws"
  shows "witness_ok cl verify root w"
proof -
  from proofs obtain leaves where leaves: "encodeLeaves cl 0 infos = Inr leaves"
    by (auto simp: generateOperatorMerkleProofs_def split: sum.splits)
  from verifyWitnesses_contents [OF ws] assms(4) have w: "unat (bw_OperatorIndex w) < length infos"
    "bw_OperatorInfo w = infos ! unat (bw_OperatorIndex w)"
    "gm_get proofs (bw_OperatorIndex w) = Some (bw_OperatorInfoProof w)" by blast+
  with encodeLeaves_nth [OF leaves] have "infoLeaf cl (bw_OperatorInfo w) = Some (leaves ! unat (bw_OperatorIndex w))"
    by simp
  with proofs_verify [OF proofs assms(2) w(3,1)] w(2) show ?thesis by (simp add: witness_ok_def)
qed

lemma submitCert_contents:
  assumes "submitCert cl params infos ts root = Inr cert"
  obtains proofs where "generateOperatorMerkleProofs cl (bp_NonSignerOperators params) root infos = Inr proofs"
    "submitWitnesses (bp_SortedOperatorsByIndex params) proofs (bp_NonSignerOperators params) = Inr (bnc_NonSignerWitnesses cert)"
    "bnc_ReferenceTimestamp cert = ts" "bnc_MessageHash cert = bp_TaskResponseDigest params"
  using assms
  by (auto simp: submitCert_def makeCert_def split: option.splits sum.splits if_splits)

lemma submit_sends_cert:
  assumes "submitBN254TaskResult cl mb params infos ts root = Inr receipt"
  obtains cert certBytes tx where "submitCert cl params infos ts root = Inr cert"
    "mb_GetBN254CertificateBytes mb cert = Some certBytes" "length (bp_TaskId params) = 32"
    "mb_SubmitResult mb (bp_TaskId params) certBytes (bp_TaskResponse params) = Some tx"
    "mb_SignAndSendTransaction mb tx = Some receipt"
  using assms
  by (auto simp: submitBN254TaskResult_def sendResult_def split: option.splits sum.splits if_splits)

lemma submitWitnesses_consistent:
  assumes "table_consistent params infos"
  shows "submitWitnesses (bp_SortedOperatorsByIndex params) proofs (bp_NonSignerOperators params) =
    verifyWitnesses infos proofs (bp_NonSignerOperators params)"
  using assms by (intro submitWitnesses_same) (auto simp: table_consistent_def)

text \<open>
  C19. A BN254 result that the mailbox accepted carried a certificate for the reference timestamp and the
  response digest of the session, encoded by the mailbox and sent with the task's id and response. The
  certificate has one witness per non-signer, in the order of the non-signers, and every witness passes
  the contract's inclusion check against the operator tree root of the reference timestamp. The session's
  operators have to be those of the operator table, in its order.
\<close>

theorem submitted_certificate_verifies:
  assumes "submitBN254TaskResult cl mb params infos ts root = Inr receipt"
    and "table_consistent params infos" and "merkle_ok cl verify"
  shows "\<exists>cert certBytes tx. mb_GetBN254CertificateBytes mb cert = Some certBytes \<and>
    mb_SubmitResult mb (bp_TaskId params) certBytes (bp_TaskResponse params) = Some tx \<and>
    mb_SignAndSendTransaction mb tx = Some receipt \<and>
    bnc_ReferenceTimestamp cert = ts \<and> bnc_MessageHash cert = bp_TaskResponseDigest params \<and>
    map bw_OperatorIndex (bnc_NonSignerWitnesses cert) = map fst (bp_NonSignerOperators params) \<and>
    (\<forall>w\<in>set (bnc_NonSignerWitnesses cert). witness_ok cl verify root w)"
proof -
  from assms(1) obtain cert certBytes tx where c: "submitCert cl params infos ts root = Inr cert"
    "mb_GetBN254CertificateBytes mb cert = Some certBytes"
    "mb_SubmitResult mb (bp_TaskId params) certBytes (bp_TaskResponse params) = Some tx"
    "mb_SignAndSendTransaction mb tx = Some receipt" by (rule submit_sends_cert)
  from c(1) obtain proofs where p: "generateOperatorMerkleProofs cl (bp_NonSignerOperators params) root infos = Inr proofs"
    "submitWitnesses (bp_SortedOperatorsByIndex params) proofs (bp_NonSignerOperators params) = Inr (bnc_NonSignerWitnesses cert)"
    "bnc_ReferenceTimestamp cert = ts" "bnc_MessageHash cert = bp_TaskResponseDigest params" by (rule submitCert_contents)
  from p(2) submitWitnesses_consistent [OF assms(2)]
  have v: "verifyWitnesses infos proofs (bp_NonSignerOperators params) = Inr (bnc_NonSignerWitnesses cert)" by simp
  from verifyWitnesses_contents [OF v] verifyWitnesses_ok [OF p(1) assms(3) v] c p(3,4) show ?thesis by blast
qed


section \<open>The outcome of the retries\<close>

lemma retryLoop_outcome:
  assumes "i + length bs = length backoffs" "bs \<noteq> []"
  shows "\<exists>k. i \<le> k \<and> k < length backoffs \<and> (\<forall>j. i \<le> j \<longrightarrow> j < k \<longrightarrow> isl (attempt j)) \<and>
    retryLoop i bs attempt = map_sum Some id (attempt k) \<and> (isl (attempt k) \<longrightarrow> k = length backoffs - 1)"
  using assms
proof (induction i bs attempt rule: retryLoop.induct)
  case (2 i backoff rest attempt)
  show ?case
  proof (cases "\<exists>err. attempt i = Inl err \<and> i \<noteq> length backoffs - 1")
    case False
    with "2.prems" show ?thesis by (intro exI [of _ i]) (auto split: sum.splits)
  next
    case True
    then obtain err where err: "attempt i = Inl err" "i \<noteq> length backoffs - 1" by blast
    with "2.prems" have "Suc i + length rest = length backoffs" "rest \<noteq> []" by auto
    from "2.IH" [OF err this] obtain k where k: "Suc i \<le> k" "k < length backoffs"
      "\<forall>j. Suc i \<le> j \<longrightarrow> j < k \<longrightarrow> isl (attempt j)" "retryLoop (Suc i) rest attempt = map_sum Some id (attempt k)"
      "isl (attempt k) \<longrightarrow> k = length backoffs - 1" by blast
    from k(3) err(1) have "\<forall>j. i \<le> j \<longrightarrow> j < k \<longrightarrow> isl (attempt j)"
      by (metis Suc_leI isl_def le_neq_implies_less)
    with k err show ?thesis by (intro exI [of _ k]) (simp add: Suc_le_eq less_imp_le id_def)
  qed
qed simp

lemmas retry_from_start = retryLoop_outcome [of 0 backoffs]


section \<open>Concrete inputs\<close>

text \<open>A table of two operators of which the second did not sign; a tree whose proofs are the leaves.\<close>

definition ex_cl :: "(unit, unit, bytes list) cert_lib" where
  "ex_cl = \<lparr>cl_G1PrecompileFormat = (\<lambda>_. Some (replicate 64 1)), cl_G2PrecompileFormat = (\<lambda>_. Some (replicate 128 1)),
     cl_PackOperatorInfo = (\<lambda>x y ws. Some (be_bytes 32 (nat x) @ be_bytes 32 (nat y))), cl_NewTree = Some, cl_Root = concat,
     cl_GenerateProofWithIndex = (\<lambda>tree i. if i < length tree then Some [tree ! i] else None)\<rparr>"

definition ex_table :: "bn254_operator_info list" where
  "ex_table = [\<lparr>boi_PubkeyX = 1, boi_PubkeyY = 2, boi_Weights = [10]\<rparr>, \<lparr>boi_PubkeyX = 3, boi_PubkeyY = 4, boi_Weights = [20]\<rparr>]"

definition ex_params :: "(unit, unit) bn254_params" where
  "ex_params = \<lparr>bp_TaskId = replicate 32 7, bp_TaskResponse = [5], bp_TaskResponseDigest = [6], bp_SignersSignature = (),
     bp_SignersPublicKey = (), bp_NonSignerOperators = [(1, be_bytes 32 3 @ be_bytes 32 4)],
     bp_SortedOperatorsByIndex = [(0, be_bytes 32 1 @ be_bytes 32 2, [10]), (1, be_bytes 32 3 @ be_bytes 32 4, [20])]\<rparr>"

definition ex_root :: bytes where
  "ex_root = operatorInfoLeafSalt # be_bytes 32 1 @ be_bytes 32 2 @ operatorInfoLeafSalt # be_bytes 32 3 @ be_bytes 32 4"

definition ex_mb :: "(bytes, bytes) mailbox" where
  "ex_mb = \<lparr>mb_BuildTransactionOpts = True, mb_GetBN254CertificateBytes = (\<lambda>c. Some (bnc_MessageHash c)),
     mb_GetECDSACertificateBytes = (\<lambda>c. Some (ecc_Sig c)), mb_SubmitResult = (\<lambda>i c r. Some (c @ r)),
     mb_SignAndSendTransaction = (\<lambda>tx. Some tx)\<rparr>"

definition ex_inclusion :: "bytes \<Rightarrow> bytes \<Rightarrow> nat \<Rightarrow> bytes \<Rightarrow> bool" where
  "ex_inclusion root leaf i proof \<longleftrightarrow> proof = leaf"

lemmas ex_defs = ex_cl_def ex_table_def ex_params_def ex_root_def ex_mb_def

lemma ex_length_be_bytes: "length (be_bytes 32 v) = 32"
  by (simp add: be_bytes_def)

lemma ex_point: "v < 100 \<Longrightarrow> w < 100 \<Longrightarrow> pointOfBytes (be_bytes 32 v @ be_bytes 32 w) = Some (int v, int w)"
  by (simp add: pointOfBytes_def sliceInt_def ex_length_be_bytes)

lemma ex_merkle_ok: "merkle_ok ex_cl ex_inclusion"
  by (auto simp: merkle_ok_def ex_cl_def ex_inclusion_def)

lemma ex_table_consistent: "table_consistent ex_params ex_table"
  by (simp add: table_consistent_def ex_params_def ex_table_def ex_point)

lemma ex_root_nonempty: "ex_root \<noteq> replicate 32 0"
proof -
  have "hd ex_root \<noteq> hd (replicate 32 0)" by (simp add: ex_root_def operatorInfoLeafSalt_def)
  then show ?thesis by metis
qed

lemma ex_proofs:
  "generateOperatorMerkleProofs ex_cl (bp_NonSignerOperators ex_params) ex_root ex_table =
     Inr [(1, operatorInfoLeafSalt # be_bytes 32 3 @ be_bytes 32 4)]"
  by (simp add: generateOperatorMerkleProofs_def ex_defs encodeOperatorInfoLeaf_def flattenProofHashes_def)

lemma ex_witnesses:
  "submitWitnesses (bp_SortedOperatorsByIndex ex_params) [(1, proof)] (bp_NonSignerOperators ex_params) =
     Inr [\<lparr>bw_OperatorIndex = 1, bw_OperatorInfoProof = proof, bw_OperatorInfo = ex_table ! 1\<rparr>]"
  by (simp add: ex_params_def ex_table_def ex_point)

lemma ex_fields:
  "cl_G1PrecompileFormat ex_cl s = Some (replicate 64 1)" "cl_G2PrecompileFormat ex_cl g = Some (replicate 128 1)"
  "ex_table \<noteq> []" "length (bp_TaskId ex_params) = 32" "bp_TaskResponse ex_params = [5]" "bp_TaskResponseDigest ex_params = [6]"
  by (simp_all add: ex_cl_def ex_table_def ex_params_def)

lemma ex_makeCert:
  "\<exists>sig apk. makeCert ts d (replicate 64 1) (replicate 128 1) ws =
     Inr \<lparr>bnc_ReferenceTimestamp = ts, bnc_MessageHash = d, bnc_Signature = sig, bnc_Apk = apk, bnc_NonSignerWitnesses = ws\<rparr>"
  by (simp add: makeCert_def pointOfBytes_def g2OfBytes_def sliceInt_def)

lemma ex_submitCert:
  "\<exists>sig apk ws. submitCert ex_cl ex_params ex_table 9 ex_root =
     Inr \<lparr>bnc_ReferenceTimestamp = 9, bnc_MessageHash = [6], bnc_Signature = sig, bnc_Apk = apk, bnc_NonSignerWitnesses = ws\<rparr>"
  using ex_makeCert [of 9 "[6]"] ex_root_nonempty
  by (simp add: submitCert_def ex_proofs ex_witnesses ex_fields) blast

lemma ex_submits: "submitBN254TaskResult ex_cl ex_mb ex_params ex_table 9 ex_root = Inr [6, 5]"
  using ex_submitCert by (auto simp: submitBN254TaskResult_def sendResult_def ex_fields ex_mb_def)

theorem submitted_certificate_verifies_witness:
  "\<exists>cert certBytes tx. mb_GetBN254CertificateBytes ex_mb cert = Some certBytes \<and>
    mb_SubmitResult ex_mb (bp_TaskId ex_params) certBytes (bp_TaskResponse ex_params) = Some tx \<and>
    mb_SignAndSendTransaction ex_mb tx = Some [6, 5] \<and>
    bnc_ReferenceTimestamp cert = 9 \<and> bnc_MessageHash cert = bp_TaskResponseDigest ex_params \<and>
    map bw_OperatorIndex (bnc_NonSignerWitnesses cert) = map fst (bp_NonSignerOperators ex_params) \<and>
    (\<forall>w\<in>set (bnc_NonSignerWitnesses cert). witness_ok ex_cl ex_inclusion ex_root w)"
  by (rule submitted_certificate_verifies [OF ex_submits ex_table_consistent ex_merkle_ok])


text \<open>A mailbox that answers at the third attempt.\<close>

definition ex_mbs :: "nat \<Rightarrow> (bytes, bytes) mailbox" where
  "ex_mbs i = (if i < 2 then ex_mb\<lparr>mb_BuildTransactionOpts := False\<rparr> else ex_mb)"

lemma ex_attempt:
  "submitBN254TaskResult ex_cl (ex_mbs i) ex_params ex_table 9 ex_root = (if i < 2 then Inl TransactionOptsFailed else Inr [6, 5])"
proof (cases "i < 2")
  case True
  then show ?thesis by (simp add: ex_mbs_def submitBN254TaskResult_def)
next
  case False
  then show ?thesis by (simp add: ex_mbs_def ex_submits)
qed


section \<open>Where the two certificates differ\<close>

text \<open>
  \<open>SortedOperatorsByIndex\<close> lists the operators of the session, which need not be all of the table. With the
  first operator of the table missing from the session, the position of a non-signer is no longer its index:
  the submission fails although the certificate over the operator table exists.
\<close>

theorem partial_session_not_submitted:
  defines "params \<equiv> ex_params\<lparr>bp_SortedOperatorsByIndex := [(1, be_bytes 32 3 @ be_bytes 32 4, [20])]\<rparr>"
  shows "submitCert ex_cl params ex_table 9 ex_root = Inl (NonSignerOutOfRange 1)"
    "\<exists>cert. verifyCert ex_cl params ex_table 9 ex_root = Inr cert"
proof -
  have f: "bp_NonSignerOperators params = bp_NonSignerOperators ex_params" "bp_TaskResponseDigest params = [6]"
    by (simp_all add: params_def ex_fields)
  have "submitWitnesses (bp_SortedOperatorsByIndex params) proofs (bp_NonSignerOperators ex_params) =
      Inl (NonSignerOutOfRange 1)" for proofs by (simp add: params_def ex_params_def)
  then show "submitCert ex_cl params ex_table 9 ex_root = Inl (NonSignerOutOfRange 1)"
    using ex_root_nonempty by (simp add: submitCert_def f ex_proofs ex_fields)
  have "verifyWitnesses ex_table [(1, p)] (bp_NonSignerOperators ex_params) =
      Inr [\<lparr>bw_OperatorIndex = 1, bw_OperatorInfoProof = p, bw_OperatorInfo = ex_table ! 1\<rparr>]" for p
    by (simp add: ex_params_def ex_table_def)
  with ex_makeCert show "\<exists>cert. verifyCert ex_cl params ex_table 9 ex_root = Inr cert"
    by (simp add: verifyCert_def f ex_proofs ex_fields) blast
qed

end
