(* ===== verification/Kubernetes_Manager.thy ===== *)
theory Kubernetes_Manager
  imports Container_Performer
begin

text \<open>
  Performers as Kubernetes custom resources, \<open>ponos/pkg/kubernetesManager\<close>: the configuration and its
  validation (\<open>config.go\<close>), the request and resource types (\<open>types.go\<close>, \<open>crd.go\<close>) and the operations on the
  Performer resources (\<open>crd.go\<close>). The executor and the operator
  (\<open>hourglass-operator/api/v1alpha1/performerTypes.go\<close>) declare the same resource twice; the API server
  stores one document, which is one record here.

  The API server is a parameter, the record \<open>kube_api\<close> over a type \<open>'c\<close> of cluster states. The flag of a call
  says whether the context it is made under has ended.
\<close>

section \<open>Resources\<close>

record key_selector =
  ks_Name :: string
  ks_Key :: string

record k8s_env_value_from =
  kevf_SecretKeyRef :: "key_selector option"
  kevf_ConfigMapKeyRef :: "key_selector option"

record env_var_source =
  evs_Name :: string
  evs_ValueFrom :: "k8s_env_value_from option"

record toleration_config =
  tol_Key :: string
  tol_Operator :: string
  tol_Value :: string
  tol_Effect :: string

record scheduling_config =
  sch_NodeSelector :: "(string \<times> string) list"
  sch_Tolerations :: "toleration_config list"
  sch_Affinity :: "string option"
  sch_RuntimeClass :: "string option"
  sch_PriorityClassName :: "string option"

record hardware_requirements =
  hw_GPUType :: string
  hw_GPUCount :: int
  hw_TEERequired :: bool
  hw_TEEType :: string
  hw_CustomLabels :: "(string \<times> string) list"

text \<open>\<open>nil\<close> maps are \<open>None\<close>; \<open>resource.Quantity\<close> values are kept as the text they print as.\<close>

record resource_requirements =
  rr_Requests :: "(string \<times> string) list option"
  rr_Limits :: "(string \<times> string) list option"

record performer_config_crd =
  pcf_GRPCPort :: int
  pcf_Environment :: "(string \<times> string) list"
  pcf_EnvironmentFrom :: "env_var_source list"
  pcf_Args :: "string list"
  pcf_Command :: "string list"
  pcf_ServiceAccountName :: string

record performer_spec =
  psp_AVSAddress :: string
  psp_Image :: string
  psp_ImagePullPolicy :: string
  psp_Version :: string
  psp_Config :: performer_config_crd
  psp_Resources :: resource_requirements
  psp_Scheduling :: "scheduling_config option"
  psp_HardwareRequirements :: "hardware_requirements option"
  psp_ImagePullSecrets :: "string list"

record performer_status_crd =
  psc_Phase :: string
  psc_Ready :: bool
  psc_PodName :: string
  psc_ServiceName :: string
  psc_GRPCEndpoint :: string
  psc_Conditions :: "string list"
  psc_ReadyTime :: "time option"

record performer_crd =
  crd_Name :: string
  crd_Namespace :: string
  crd_Labels :: "(string \<times> string) list"
  crd_Finalizers :: "string list"
  crd_DeletionTimestamp :: "time option"
  crd_CreationTimestamp :: time
  crd_Spec :: performer_spec
  crd_Status :: performer_status_crd

section \<open>The API server\<close>

datatype api_error = NotFound | Conflict | ContextEnded | OtherError string

datatype pod_phase = PodPending | PodRunning | PodSucceeded | PodFailed | PodUnknown

record env_var =
  env_Name :: string
  env_Value :: string
  env_ValueFrom :: "k8s_env_value_from option"

record probe =
  prb_Port :: int
  prb_InitialDelaySeconds :: nat
  prb_PeriodSeconds :: nat
  prb_TimeoutSeconds :: nat
  prb_FailureThreshold :: nat

record pod_container =
  pct_Name :: string
  pct_Image :: string
  pct_ImagePullPolicy :: string
  pct_Command :: "string list"
  pct_Args :: "string list"
  pct_Ports :: "(string \<times> int) list"
  pct_Env :: "env_var list"
  pct_Resources :: resource_requirements
  pct_LivenessProbe :: probe
  pct_ReadinessProbe :: probe

record pod_spec =
  pds_Containers :: "pod_container list"
  pds_ImagePullSecrets :: "string list"
  pds_ServiceAccountName :: string
  pds_NodeSelector :: "(string \<times> string) list"
  pds_Affinity :: "string option"
  pds_Tolerations :: "toleration_config list"
  pds_RuntimeClassName :: "string option"

record pod =
  pod_Name :: string
  pod_Namespace :: string
  pod_Labels :: "(string \<times> string) list"
  pod_Owner :: "string option"
  pod_Spec :: pod_spec
  pod_Phase :: pod_phase
  pod_CreationTimestamp :: time
  pod_Conditions :: "(string \<times> string) list"

record service =
  svc_Name :: string
  svc_Namespace :: string
  svc_Owner :: "string option"
  svc_Selector :: "(string \<times> string) list"
  svc_Ports :: "(string \<times> int \<times> string) list"

text \<open>
  Objects are addressed by namespace and name. \<open>kaCreateOrUpdateService\<close> is the controller library's
  \<open>CreateOrUpdate\<close>, given the new object and the function that fills it in. \<open>ka_ParseQuantity\<close> is \<open>resource.MustParse\<close>, which panics where it is \<open>None\<close>;
  the two \<open>SetControllerReference\<close> functions of the controller library give \<open>None\<close> for an object that another
  controller owns.
\<close>

record 'c kube_api =
  kaGetPerformer :: "bool \<Rightarrow> 'c \<Rightarrow> string \<Rightarrow> string \<Rightarrow> (api_error, performer_crd) result"
  kaListPerformers :: "bool \<Rightarrow> 'c \<Rightarrow> string \<Rightarrow> (api_error, performer_crd list) result"
  kaCreatePerformer :: "bool \<Rightarrow> 'c \<Rightarrow> performer_crd \<Rightarrow> api_error option \<times> 'c"
  kaUpdatePerformer :: "bool \<Rightarrow> 'c \<Rightarrow> performer_crd \<Rightarrow> api_error option \<times> 'c"
  kaDeletePerformer :: "bool \<Rightarrow> 'c \<Rightarrow> string \<Rightarrow> string \<Rightarrow> api_error option \<times> 'c"
  kaUpdateStatus :: "'c \<Rightarrow> performer_crd \<Rightarrow> api_error option \<times> 'c"
  kaGetPod :: "'c \<Rightarrow> string \<Rightarrow> string \<Rightarrow> (api_error, pod) result"
  kaCreatePod :: "'c \<Rightarrow> pod \<Rightarrow> api_error option \<times> 'c"
  kaDeletePod :: "'c \<Rightarrow> pod \<Rightarrow> api_error option \<times> 'c"
  kaGetService :: "'c \<Rightarrow> string \<Rightarrow> string \<Rightarrow> (api_error, service) result"
  kaCreateOrUpdateService :: "'c \<Rightarrow> service \<Rightarrow> (service \<Rightarrow> service option) \<Rightarrow> api_error option \<times> 'c"
  ka_SetControllerReferencePod :: "performer_crd \<Rightarrow> pod \<Rightarrow> pod option"
  ka_SetControllerReferenceService :: "performer_crd \<Rightarrow> service \<Rightarrow> service option"
  ka_ParseQuantity :: "string \<Rightarrow> string option"

section \<open>Configuration\<close>

record k8s_config =
  kcf_Namespace :: string
  kcf_KubeconfigPath :: string
  kcf_OperatorNamespace :: string
  kcf_CRDGroup :: string
  kcf_CRDVersion :: string
  kcf_ConnectionTimeout :: int
  kcf_RetryAttempts :: int
  kcf_RetryBackoff :: int

definition newDefaultConfig :: k8s_config where
  "newDefaultConfig =
     \<lparr>kcf_Namespace = ''default'', kcf_KubeconfigPath = [], kcf_OperatorNamespace = ''hourglass-system'',
      kcf_CRDGroup = ''hourglass.eigenlayer.io'', kcf_CRDVersion = ''v1alpha1'', kcf_ConnectionTimeout = 30,
      kcf_RetryAttempts = 3, kcf_RetryBackoff = 5\<rparr>"

datatype config_error = EmptyNamespace | EmptyOperatorNamespace | EmptyCRDGroup | EmptyCRDVersion
  | NonPositiveTimeout | NegativeRetryAttempts | NegativeRetryBackoff

definition validateConfig :: "k8s_config \<Rightarrow> config_error option" where
  "validateConfig c =
     (if kcf_Namespace c = [] then Some EmptyNamespace
      else if kcf_OperatorNamespace c = [] then Some EmptyOperatorNamespace
      else if kcf_CRDGroup c = [] then Some EmptyCRDGroup
      else if kcf_CRDVersion c = [] then Some EmptyCRDVersion
      else if kcf_ConnectionTimeout c \<le> 0 then Some NonPositiveTimeout
      else if kcf_RetryAttempts c < 0 then Some NegativeRetryAttempts
      else if kcf_RetryBackoff c < 0 then Some NegativeRetryBackoff
      else None)"

definition applyDefaults :: "k8s_config \<Rightarrow> k8s_config" where
  "applyDefaults c =
     (let d = newDefaultConfig; s = (\<lambda>x y. if x = [] then y else x); n = (\<lambda>x y. if x = (0::int) then y else x)
      in c\<lparr>kcf_Namespace := s (kcf_Namespace c) (kcf_Namespace d),
          kcf_OperatorNamespace := s (kcf_OperatorNamespace c) (kcf_OperatorNamespace d),
          kcf_CRDGroup := s (kcf_CRDGroup c) (kcf_CRDGroup d),
          kcf_CRDVersion := s (kcf_CRDVersion c) (kcf_CRDVersion d),
          kcf_ConnectionTimeout := n (kcf_ConnectionTimeout c) (kcf_ConnectionTimeout d),
          kcf_RetryAttempts := n (kcf_RetryAttempts c) (kcf_RetryAttempts d),
          kcf_RetryBackoff := n (kcf_RetryBackoff c) (kcf_RetryBackoff d)\<rparr>)"

section \<open>Requests\<close>

record create_performer_request =
  cpr_Name :: string
  cpr_AVSAddress :: string
  cpr_Image :: string
  cpr_ImagePullPolicy :: string
  cpr_ImageTag :: string
  cpr_ImageDigest :: string
  cpr_GRPCPort :: int
  cpr_Environment :: "(string \<times> string) list"
  cpr_EnvironmentFrom :: "env_var_source list"
  cpr_Resources :: "resource_requirements option"
  cpr_Scheduling :: "scheduling_config option"
  cpr_HardwareRequirements :: "hardware_requirements option"
  cpr_ServiceAccountName :: string

record update_performer_request =
  upr_PerformerID :: string
  upr_Image :: string
  upr_ImageTag :: string
  upr_Status :: string

record k8s_performer_status =
  kps_Phase :: string
  kps_PodName :: string
  kps_ServiceName :: string
  kps_GRPCEndpoint :: string
  kps_Ready :: bool
  kps_Message :: string

record performer_info =
  pin_PerformerID :: string
  pin_AVSAddress :: string
  pin_Image :: string
  pin_Version :: string
  pin_Status :: k8s_performer_status
  pin_CreatedAt :: time
  pin_UpdatedAt :: time

record create_performer_response =
  cresp_PerformerID :: string
  cresp_Endpoint :: string
  cresp_Status :: k8s_performer_status

datatype request_error = EmptyName | EmptyAVSAddress | EmptyImage | BadGRPCPort int | EmptyResource string
  | NegativeGPUCount | NoGPUType | NoTEEType | EmptyPerformerID | NoUpdateField

datatype crd_error = InvalidRequest request_error | ApiFailed api_error | QuantityPanic

text \<open>The loops over the maps stop at the first empty value; which one it is depends on the iteration order.\<close>

definition validateResourceValue :: "string \<Rightarrow> string \<Rightarrow> request_error option" where
  "validateResourceValue key value = (if value = [] then Some (EmptyResource key) else None)"

fun firstError :: "('a \<Rightarrow> 'e option) \<Rightarrow> 'a list \<Rightarrow> 'e option" where
  "firstError f [] = None"
| "firstError f (x # xs) = (case f x of Some e \<Rightarrow> Some e | None \<Rightarrow> firstError f xs)"

definition goMap :: "'a list option \<Rightarrow> 'a list" where
  "goMap m = (case m of None \<Rightarrow> [] | Some xs \<Rightarrow> xs)"

definition validateResourceRequirements :: "resource_requirements \<Rightarrow> request_error option" where
  "validateResourceRequirements resources =
     firstError (\<lambda>(key, value). validateResourceValue key value) (goMap (rr_Requests resources) @ goMap (rr_Limits resources))"

definition validateHardwareRequirements :: "hardware_requirements \<Rightarrow> request_error option" where
  "validateHardwareRequirements hw =
     (if hw_GPUCount hw < 0 then Some NegativeGPUCount
      else if 0 < hw_GPUCount hw \<and> hw_GPUType hw = [] then Some NoGPUType
      else if hw_TEERequired hw \<and> hw_TEEType hw = [] then Some NoTEEType
      else None)"

definition validateCreatePerformerRequest :: "create_performer_request \<Rightarrow> request_error option" where
  "validateCreatePerformerRequest req =
     (if cpr_Name req = [] then Some EmptyName
      else if cpr_AVSAddress req = [] then Some EmptyAVSAddress
      else if cpr_Image req = [] then Some EmptyImage
      else if cpr_GRPCPort req \<le> 0 \<or> 65535 < cpr_GRPCPort req then Some (BadGRPCPort (cpr_GRPCPort req))
      else case (case cpr_Resources req of None \<Rightarrow> None | Some r \<Rightarrow> validateResourceRequirements r) of
        Some e \<Rightarrow> Some e
      | None \<Rightarrow> (case cpr_HardwareRequirements req of None \<Rightarrow> None | Some hw \<Rightarrow> validateHardwareRequirements hw))"

definition validateUpdatePerformerRequest :: "update_performer_request \<Rightarrow> request_error option" where
  "validateUpdatePerformerRequest req =
     (if upr_PerformerID req = [] then Some EmptyPerformerID
      else if upr_Image req = [] \<and> upr_ImageTag req = [] \<and> upr_Status req = [] then Some NoUpdateField
      else None)"

section \<open>Operations\<close>

record crd_operations =
  co_namespace :: string
  co_config :: k8s_config

definition newCRDOperations :: "k8s_config \<Rightarrow> crd_operations" where
  "newCRDOperations cfg = \<lparr>co_namespace = kcf_Namespace cfg, co_config = cfg\<rparr>"

fun parseQuantities :: "'c kube_api \<Rightarrow> (string \<times> string) list \<Rightarrow> (string \<times> string) list \<Rightarrow> (string \<times> string) list option" where
  "parseQuantities ka [] acc = Some acc"
| "parseQuantities ka ((key, value) # kvs) acc =
     (case ka_ParseQuantity ka value of None \<Rightarrow> None | Some q \<Rightarrow> parseQuantities ka kvs (gm_put acc key q))"

definition convertResourceRequirements :: "'c kube_api \<Rightarrow> resource_requirements \<Rightarrow> resource_requirements option" where
  "convertResourceRequirements ka req =
     (let conv = (\<lambda>m. case m of None \<Rightarrow> Some None | Some kvs \<Rightarrow> map_option Some (parseQuantities ka kvs []))
      in case (conv (rr_Requests req), conv (rr_Limits req)) of
           (Some requests, Some limits) \<Rightarrow> Some \<lparr>rr_Requests = requests, rr_Limits = limits\<rparr>
         | _ \<Rightarrow> None)"

definition emptyStatus :: performer_status_crd where
  "emptyStatus = \<lparr>psc_Phase = [], psc_Ready = False, psc_PodName = [], psc_ServiceName = [], psc_GRPCEndpoint = [],
     psc_Conditions = [], psc_ReadyTime = None\<rparr>"

definition emptyResources :: resource_requirements where
  "emptyResources = \<lparr>rr_Requests = None, rr_Limits = None\<rparr>"

text \<open>\<open>fmt.Sprintf("%d", port)\<close>, for an \<open>int32\<close>.\<close>

definition portString :: "int \<Rightarrow> string" where
  "portString p = (if p < 0 then ''-'' @ dec (nat (- p)) else dec (nat p))"

definition crdFor :: "crd_operations \<Rightarrow> create_performer_request \<Rightarrow> resource_requirements \<Rightarrow> performer_crd" where
  "crdFor c req resources =
     \<lparr>crd_Name = cpr_Name req, crd_Namespace = co_namespace c,
      crd_Labels = [(''app'', ''hourglass-performer''), (''hourglass.eigenlayer.io/avs'', cpr_AVSAddress req),
        (''hourglass.eigenlayer.io/performer'', cpr_Name req)],
      crd_Finalizers = [], crd_DeletionTimestamp = None, crd_CreationTimestamp = 0,
      crd_Spec = \<lparr>psp_AVSAddress = cpr_AVSAddress req, psp_Image = cpr_Image req,
        psp_ImagePullPolicy = cpr_ImagePullPolicy req, psp_Version = cpr_ImageTag req,
        psp_Config = \<lparr>pcf_GRPCPort = cpr_GRPCPort req, pcf_Environment = cpr_Environment req,
          pcf_EnvironmentFrom = cpr_EnvironmentFrom req, pcf_Args = [], pcf_Command = [],
          pcf_ServiceAccountName = cpr_ServiceAccountName req\<rparr>,
        psp_Resources = resources, psp_Scheduling = cpr_Scheduling req,
        psp_HardwareRequirements = cpr_HardwareRequirements req, psp_ImagePullSecrets = []\<rparr>,
      crd_Status = emptyStatus\<rparr>"

definition expectedEndpoint :: "crd_operations \<Rightarrow> create_performer_request \<Rightarrow> string" where
  "expectedEndpoint c req =
     ''performer-'' @ cpr_Name req @ ''.'' @ co_namespace c @ ''.svc.cluster.local:'' @ portString (cpr_GRPCPort req)"

definition crd_CreatePerformer ::
  "'c kube_api \<Rightarrow> crd_operations \<Rightarrow> bool \<Rightarrow> create_performer_request \<Rightarrow> 'c \<Rightarrow>
     (crd_error, create_performer_response) result \<times> 'c" where
  "crd_CreatePerformer ka c ended req d =
     (case validateCreatePerformerRequest req of
        Some e \<Rightarrow> (Inl (InvalidRequest e), d)
      | None \<Rightarrow>
     (case (case cpr_Resources req of None \<Rightarrow> Some emptyResources | Some r \<Rightarrow> convertResourceRequirements ka r) of
        None \<Rightarrow> (Inl QuantityPanic, d)
      | Some resources \<Rightarrow>
     (case kaCreatePerformer ka ended d (crdFor c req resources) of
        (Some e, d') \<Rightarrow> (Inl (ApiFailed e), d')
      | (None, d') \<Rightarrow>
          (let endpoint = expectedEndpoint c req
           in (Inr \<lparr>cresp_PerformerID = cpr_Name req, cresp_Endpoint = endpoint,
                cresp_Status = \<lparr>kps_Phase = statusStaged, kps_PodName = [], kps_ServiceName = ''performer-'' @ cpr_Name req,
                  kps_GRPCEndpoint = endpoint, kps_Ready = False,
                  kps_Message = ''Performer CRD created, waiting for operator to provision resources''\<rparr>\<rparr>, d')))))"

definition crd_GetPerformer :: "'c kube_api \<Rightarrow> crd_operations \<Rightarrow> bool \<Rightarrow> string \<Rightarrow> 'c \<Rightarrow> (crd_error, performer_crd) result" where
  "crd_GetPerformer ka c ended name d =
     (case kaGetPerformer ka ended d (co_namespace c) name of Inl e \<Rightarrow> Inl (ApiFailed e) | Inr p \<Rightarrow> Inr p)"

text \<open>The \<open>Status\<close> of the request is validated but never written.\<close>

definition crd_UpdatePerformer ::
  "'c kube_api \<Rightarrow> crd_operations \<Rightarrow> bool \<Rightarrow> update_performer_request \<Rightarrow> 'c \<Rightarrow> crd_error option \<times> 'c" where
  "crd_UpdatePerformer ka c ended req d =
     (case validateUpdatePerformerRequest req of
        Some e \<Rightarrow> (Some (InvalidRequest e), d)
      | None \<Rightarrow>
     (case crd_GetPerformer ka c ended (upr_PerformerID req) d of
        Inl e \<Rightarrow> (Some e, d)
      | Inr p \<Rightarrow>
          (let spec = crd_Spec p;
               spec1 = (if upr_Image req \<noteq> [] then spec\<lparr>psp_Image := upr_Image req\<rparr> else spec);
               spec2 = (if upr_ImageTag req \<noteq> [] then spec1\<lparr>psp_Version := upr_ImageTag req\<rparr> else spec1)
           in case kaUpdatePerformer ka ended d (p\<lparr>crd_Spec := spec2\<rparr>) of
                (Some e, d') \<Rightarrow> (Some (ApiFailed e), d')
              | (None, d') \<Rightarrow> (None, d'))))"

definition crd_DeletePerformer :: "'c kube_api \<Rightarrow> crd_operations \<Rightarrow> bool \<Rightarrow> string \<Rightarrow> 'c \<Rightarrow> crd_error option \<times> 'c" where
  "crd_DeletePerformer ka c ended name d =
     (case kaDeletePerformer ka ended d (co_namespace c) name of
        (Some e, d') \<Rightarrow> (Some (ApiFailed e), d')
      | (None, d') \<Rightarrow> (None, d'))"

definition extractConditionMessage :: "string list \<Rightarrow> string" where
  "extractConditionMessage conditions = (if length conditions = 0 then [] else conditions ! (length conditions - 1))"

definition statusOf :: "performer_crd \<Rightarrow> k8s_performer_status" where
  "statusOf p =
     \<lparr>kps_Phase = psc_Phase (crd_Status p), kps_PodName = psc_PodName (crd_Status p),
      kps_ServiceName = psc_ServiceName (crd_Status p), kps_GRPCEndpoint = psc_GRPCEndpoint (crd_Status p),
      kps_Ready = psc_Ready (crd_Status p), kps_Message = extractConditionMessage (psc_Conditions (crd_Status p))\<rparr>"

definition crd_ListPerformers :: "'c kube_api \<Rightarrow> crd_operations \<Rightarrow> bool \<Rightarrow> 'c \<Rightarrow> (crd_error, performer_info list) result" where
  "crd_ListPerformers ka c ended d =
     (case kaListPerformers ka ended d (co_namespace c) of
        Inl e \<Rightarrow> Inl (ApiFailed e)
      | Inr items \<Rightarrow> Inr (map (\<lambda>p. \<lparr>pin_PerformerID = crd_Name p, pin_AVSAddress = psp_AVSAddress (crd_Spec p),
          pin_Image = psp_Image (crd_Spec p), pin_Version = psp_Version (crd_Spec p), pin_Status = statusOf p,
          pin_CreatedAt = crd_CreationTimestamp p, pin_UpdatedAt = crd_CreationTimestamp p\<rparr>) items))"

definition crd_GetPerformerStatus ::
  "'c kube_api \<Rightarrow> crd_operations \<Rightarrow> bool \<Rightarrow> string \<Rightarrow> 'c \<Rightarrow> (crd_error, k8s_performer_status) result" where
  "crd_GetPerformerStatus ka c ended name d =
     (case crd_GetPerformer ka c ended name d of Inl e \<Rightarrow> Inl e | Inr p \<Rightarrow> Inr (statusOf p))"

section \<open>Lemmas\<close>

lemma validateConfig_default: "validateConfig newDefaultConfig = None"
  by (simp add: validateConfig_def newDefaultConfig_def)

lemma applyDefaults_idem: "applyDefaults (applyDefaults c) = applyDefaults c"
  by (simp add: applyDefaults_def newDefaultConfig_def Let_def)

lemma applyDefaults_fields:
  "kcf_Namespace (applyDefaults c) \<noteq> []" "kcf_OperatorNamespace (applyDefaults c) \<noteq> []"
  "kcf_CRDGroup (applyDefaults c) \<noteq> []" "kcf_CRDVersion (applyDefaults c) \<noteq> []"
  "0 < kcf_ConnectionTimeout (applyDefaults c) \<longleftrightarrow> 0 \<le> kcf_ConnectionTimeout c"
  "0 \<le> kcf_RetryAttempts (applyDefaults c) \<longleftrightarrow> 0 \<le> kcf_RetryAttempts c"
  "0 \<le> kcf_RetryBackoff (applyDefaults c) \<longleftrightarrow> 0 \<le> kcf_RetryBackoff c"
  by (simp_all add: applyDefaults_def newDefaultConfig_def Let_def less_le)

text \<open>Defaults repair every missing field; only negative numbers remain invalid.\<close>

lemma applyDefaults_valid:
  "validateConfig (applyDefaults c) = None \<longleftrightarrow>
     0 \<le> kcf_ConnectionTimeout c \<and> 0 \<le> kcf_RetryAttempts c \<and> 0 \<le> kcf_RetryBackoff c"
  using applyDefaults_fields [of c] unfolding validateConfig_def by (auto split: if_splits)

lemma crd_CreatePerformer_Inr:
  assumes "crd_CreatePerformer ka c ended req d = (Inr resp, d')"
  obtains resources where "validateCreatePerformerRequest req = None"
    "kaCreatePerformer ka ended d (crdFor c req resources) = (None, d')"
    "cresp_PerformerID resp = cpr_Name req" "cresp_Endpoint resp = expectedEndpoint c req"
proof -
  from assms have v: "validateCreatePerformerRequest req = None"
    by (simp add: crd_CreatePerformer_def split: option.splits)
  then obtain resources where r:
    "(case cpr_Resources req of None \<Rightarrow> Some emptyResources | Some r \<Rightarrow> convertResourceRequirements ka r) = Some resources"
    using assms by (cases "case cpr_Resources req of None \<Rightarrow> Some emptyResources | Some r \<Rightarrow> convertResourceRequirements ka r")
      (simp_all add: crd_CreatePerformer_def)
  obtain e d1 where w: "kaCreatePerformer ka ended d (crdFor c req resources) = (e, d1)" by fastforce
  from assms v r w have "e = None" by (cases e) (simp_all add: crd_CreatePerformer_def)
  with assms v r w show thesis by (intro that [of resources]) (auto simp: crd_CreatePerformer_def Let_def)
qed

end
