(* ===== verification/Performer_Operator.thy ===== *)
theory Performer_Operator
  imports Kubernetes_Manager
begin

text \<open>
  The Kubernetes operator, \<open>hourglass-operator/internal/controller/performerController.go\<close>: the reconciler
  that keeps a pod and a service for every Performer resource and reports the pod's state in the
  resource's status. The cluster changes between the reconciler's calls; where the code sleeps and
  retries, the change is an argument.
\<close>

section \<open>Names and labels\<close>

definition getPodName :: "performer_crd \<Rightarrow> string" where
  "getPodName p = ''performer-'' @ crd_Name p"

definition getServiceName :: "performer_crd \<Rightarrow> string" where
  "getServiceName p = ''performer-'' @ crd_Name p"

definition sanitizeLabel :: "string \<Rightarrow> string" where
  "sanitizeLabel value = take 63 (map (\<lambda>c. if c = CHR ''_'' then CHR ''-'' else c) (toLower value))"

definition performerFinalizer :: string where
  "performerFinalizer = ''hourglass.eigenlayer.io/performer-finalizer''"

abbreviation performerLabel :: string where
  "performerLabel \<equiv> ''hourglass.eigenlayer.io/performer''"

section \<open>The pod\<close>

definition grpcPortOf :: "performer_crd \<Rightarrow> int" where
  "grpcPortOf p = (if pcf_GRPCPort (psp_Config (crd_Spec p)) \<noteq> 0 then pcf_GRPCPort (psp_Config (crd_Spec p)) else 8080)"

definition applyHardwareRequirements :: "resource_requirements \<Rightarrow> hardware_requirements \<Rightarrow> resource_requirements" where
  "applyHardwareRequirements r hw =
     (let limits = goMap (rr_Limits r); requests = goMap (rr_Requests r)
      in if 0 < hw_GPUCount hw then
           (let gpuResource = (if hw_GPUType hw \<noteq> [] then ''nvidia.com/'' @ hw_GPUType hw else ''nvidia.com/gpu'');
                gpuQuantity = portString (hw_GPUCount hw)
            in \<lparr>rr_Requests = Some (gm_put requests gpuResource gpuQuantity),
                rr_Limits = Some (gm_put limits gpuResource gpuQuantity)\<rparr>)
         else \<lparr>rr_Requests = Some requests, rr_Limits = Some limits\<rparr>)"

definition containerEnv :: "performer_config_crd \<Rightarrow> env_var list" where
  "containerEnv cfg =
     map (\<lambda>(key, value). \<lparr>env_Name = key, env_Value = value, env_ValueFrom = None\<rparr>) (pcf_Environment cfg) @
     map (\<lambda>src. \<lparr>env_Name = evs_Name src, env_Value = [], env_ValueFrom = evs_ValueFrom src\<rparr>) (pcf_EnvironmentFrom cfg)"

definition buildPodSpec :: "performer_crd \<Rightarrow> pod" where
  "buildPodSpec p =
     (let spec = crd_Spec p; cfg = psp_Config spec; grpcPort = grpcPortOf p;
          container = \<lparr>pct_Name = ''performer'', pct_Image = psp_Image spec, pct_ImagePullPolicy = psp_ImagePullPolicy spec,
            pct_Command = pcf_Command cfg, pct_Args = pcf_Args cfg, pct_Ports = [(''grpc'', grpcPort)],
            pct_Env = containerEnv cfg,
            pct_Resources = (case psp_HardwareRequirements spec of
               None \<Rightarrow> psp_Resources spec
             | Some hw \<Rightarrow> applyHardwareRequirements (psp_Resources spec) hw),
            pct_LivenessProbe = \<lparr>prb_Port = grpcPort, prb_InitialDelaySeconds = 30, prb_PeriodSeconds = 10,
              prb_TimeoutSeconds = 5, prb_FailureThreshold = 3\<rparr>,
            pct_ReadinessProbe = \<lparr>prb_Port = grpcPort, prb_InitialDelaySeconds = 5, prb_PeriodSeconds = 15,
              prb_TimeoutSeconds = 1, prb_FailureThreshold = 3\<rparr>\<rparr>;
          podSpec = \<lparr>pds_Containers = [container], pds_ImagePullSecrets = psp_ImagePullSecrets spec,
            pds_ServiceAccountName = pcf_ServiceAccountName cfg,
            pds_NodeSelector = (case psp_Scheduling spec of None \<Rightarrow> [] | Some s \<Rightarrow> sch_NodeSelector s),
            pds_Affinity = (case psp_Scheduling spec of None \<Rightarrow> None | Some s \<Rightarrow> sch_Affinity s),
            pds_Tolerations = (case psp_Scheduling spec of None \<Rightarrow> [] | Some s \<Rightarrow> sch_Tolerations s),
            pds_RuntimeClassName = (case psp_Scheduling spec of None \<Rightarrow> None | Some s \<Rightarrow> sch_RuntimeClass s)\<rparr>
      in \<lparr>pod_Name = getPodName p, pod_Namespace = crd_Namespace p,
          pod_Labels = [(''app'', ''hourglass-performer''), (performerLabel, crd_Name p),
            (''hourglass.eigenlayer.io/avs'', sanitizeLabel (psp_AVSAddress spec))],
          pod_Owner = None, pod_Spec = podSpec, pod_Phase = PodPending, pod_CreationTimestamp = 0, pod_Conditions = []\<rparr>)"

definition shouldRecreatePod :: "time \<Rightarrow> pod \<Rightarrow> performer_crd \<Rightarrow> bool" where
  "shouldRecreatePod now existingPod p =
     (if pod_Phase existingPod = PodFailed then True
      else if pod_Phase existingPod = PodPending \<and> 300 < now - pod_CreationTimestamp existingPod then True
      else case pds_Containers (pod_Spec existingPod) of
        [] \<Rightarrow> False
      | container # _ \<Rightarrow> pct_Image container \<noteq> psp_Image (crd_Spec p))"

datatype reconcile_error = ApiCall api_error | ControllerReference | StatusRetries

definition reconcilePod :: "'c kube_api \<Rightarrow> time \<Rightarrow> performer_crd \<Rightarrow> 'c \<Rightarrow> reconcile_error option \<times> 'c" where
  "reconcilePod ka now p c =
     (case kaGetPod ka c (crd_Namespace p) (getPodName p) of
        Inr existingPod \<Rightarrow>
          if shouldRecreatePod now existingPod p
          then (case kaDeletePod ka c existingPod of (e, c') \<Rightarrow> (map_option ApiCall e, c'))
          else (None, c)
      | Inl NotFound \<Rightarrow>
          (case ka_SetControllerReferencePod ka p (buildPodSpec p) of
             None \<Rightarrow> (Some ControllerReference, c)
           | Some newPod \<Rightarrow> (case kaCreatePod ka c newPod of (e, c') \<Rightarrow> (map_option ApiCall e, c')))
      | Inl e \<Rightarrow> (Some (ApiCall e), c))"

section \<open>The service\<close>

definition blankService :: "performer_crd \<Rightarrow> service" where
  "blankService p = \<lparr>svc_Name = getServiceName p, svc_Namespace = crd_Namespace p, svc_Owner = None, svc_Selector = [], svc_Ports = []\<rparr>"

definition fillService :: "'c kube_api \<Rightarrow> performer_crd \<Rightarrow> service \<Rightarrow> service option" where
  "fillService ka p s =
     ka_SetControllerReferenceService ka p
       (s\<lparr>svc_Selector := [(performerLabel, crd_Name p)], svc_Ports := [(''grpc'', grpcPortOf p, ''grpc'')]\<rparr>)"

definition reconcileService :: "'c kube_api \<Rightarrow> performer_crd \<Rightarrow> 'c \<Rightarrow> reconcile_error option \<times> 'c" where
  "reconcileService ka p c =
     (case kaCreateOrUpdateService ka c (blankService p) (fillService ka p) of (e, c') \<Rightarrow> (map_option ApiCall e, c'))"

section \<open>The status\<close>

definition phaseString :: "pod_phase \<Rightarrow> string" where
  "phaseString ph = (case ph of PodPending \<Rightarrow> ''Pending'' | PodRunning \<Rightarrow> ''Running'' | PodSucceeded \<Rightarrow> ''Succeeded''
     | PodFailed \<Rightarrow> ''Failed'' | PodUnknown \<Rightarrow> ''Unknown'')"

definition podReady :: "pod \<Rightarrow> bool" where
  "podReady pd \<longleftrightarrow> pod_Phase pd = PodRunning \<and> (''Ready'', ''True'') \<in> set (pod_Conditions pd)"

text \<open>The part of the status that the pod determines. Without a pod, \<open>Ready\<close> keeps the value it had.\<close>

definition observePod :: "time \<Rightarrow> string \<Rightarrow> pod option \<Rightarrow> performer_status_crd \<Rightarrow> performer_status_crd" where
  "observePod now podName pd st =
     (case pd of
        None \<Rightarrow> st\<lparr>psc_Phase := ''Pending'', psc_PodName := []\<rparr>
      | Some pd \<Rightarrow> st\<lparr>psc_PodName := podName, psc_Phase := phaseString (pod_Phase pd), psc_Ready := podReady pd,
          psc_ReadyTime := (if podReady pd \<and> psc_ReadyTime st = None then Some now else psc_ReadyTime st)\<rparr>)"

definition observedStatus :: "time \<Rightarrow> pod option \<Rightarrow> performer_crd \<Rightarrow> performer_status_crd" where
  "observedStatus now pd p = (observePod now (getPodName p) pd (crd_Status p))
     \<lparr>psc_ServiceName := getServiceName p,
      psc_GRPCEndpoint := getServiceName p @ ''.'' @ crd_Namespace p @ ''.svc.cluster.local''\<rparr>"

definition maxStatusRetries :: nat where
  "maxStatusRetries = 3"

function updateStatusLoop ::
  "'c kube_api \<Rightarrow> time \<Rightarrow> (nat \<Rightarrow> 'c \<Rightarrow> 'c) \<Rightarrow> performer_crd \<Rightarrow> nat \<Rightarrow> 'c \<Rightarrow> reconcile_error option \<times> 'c" where
  "updateStatusLoop ka now slept p i c =
     (if maxStatusRetries \<le> i then (Some StatusRetries, c)
      else case kaGetPerformer ka False c (crd_Namespace p) (crd_Name p) of
        Inl e \<Rightarrow> (Some (ApiCall e), c)
      | Inr latest \<Rightarrow>
     (case (case kaGetPod ka c (crd_Namespace latest) (getPodName latest) of
              Inr pd \<Rightarrow> Inr (Some pd) | Inl NotFound \<Rightarrow> Inr None | Inl e \<Rightarrow> Inl e) of
        Inl e \<Rightarrow> (Some (ApiCall e), c)
      | Inr pd \<Rightarrow>
     (case kaUpdateStatus ka c (latest\<lparr>crd_Status := observedStatus now pd latest\<rparr>) of
        (None, c') \<Rightarrow> (None, c')
      | (Some e, c') \<Rightarrow>
          if e = Conflict \<and> i < maxStatusRetries - 1 then updateStatusLoop ka now slept p (Suc i) (slept i c')
          else (Some (ApiCall e), c'))))"
  by pat_completeness auto
termination
  by (relation "measure (\<lambda>(ka, now, slept, p, i, c). maxStatusRetries - i)") auto

declare updateStatusLoop.simps [simp del]

definition updateStatus ::
  "'c kube_api \<Rightarrow> time \<Rightarrow> (nat \<Rightarrow> 'c \<Rightarrow> 'c) \<Rightarrow> performer_crd \<Rightarrow> 'c \<Rightarrow> reconcile_error option \<times> 'c" where
  "updateStatus ka now slept p c = updateStatusLoop ka now slept p 0 c"

section \<open>Reconciliation\<close>

definition handleDeletion :: "'c kube_api \<Rightarrow> performer_crd \<Rightarrow> 'c \<Rightarrow> (reconcile_error, nat option) result \<times> 'c" where
  "handleDeletion ka p c =
     (case kaUpdatePerformer ka False c (p\<lparr>crd_Finalizers := filter (\<lambda>f. f \<noteq> performerFinalizer) (crd_Finalizers p)\<rparr>) of
        (Some e, c') \<Rightarrow> (Inl (ApiCall e), c')
      | (None, c') \<Rightarrow> (Inr None, c'))"

definition addFinalizer :: "'c kube_api \<Rightarrow> performer_crd \<Rightarrow> 'c \<Rightarrow> (reconcile_error, performer_crd) result \<times> 'c" where
  "addFinalizer ka p c =
     (if performerFinalizer \<in> set (crd_Finalizers p) then (Inr p, c)
      else let p' = p\<lparr>crd_Finalizers := crd_Finalizers p @ [performerFinalizer]\<rparr>
      in case kaUpdatePerformer ka False c p' of
           (Some e, c') \<Rightarrow> (Inl (ApiCall e), c')
         | (None, c') \<Rightarrow> (Inr p', c'))"

text \<open>The value of a successful reconciliation is the delay after which it is repeated, in seconds.\<close>

definition reconcile ::
  "'c kube_api \<Rightarrow> time \<Rightarrow> (nat \<Rightarrow> 'c \<Rightarrow> 'c) \<Rightarrow> string \<Rightarrow> string \<Rightarrow> 'c \<Rightarrow> (reconcile_error, nat option) result \<times> 'c" where
  "reconcile ka now slept ns name c =
     (case kaGetPerformer ka False c ns name of
        Inl NotFound \<Rightarrow> (Inr None, c)
      | Inl e \<Rightarrow> (Inl (ApiCall e), c)
      | Inr performer \<Rightarrow>
          if crd_DeletionTimestamp performer \<noteq> None then handleDeletion ka performer c
          else case addFinalizer ka performer c of
            (Inl e, c1) \<Rightarrow> (Inl e, c1)
          | (Inr p, c1) \<Rightarrow>
         (case reconcilePod ka now p c1 of
            (Some e, c2) \<Rightarrow> (Inl e, c2)
          | (None, c2) \<Rightarrow>
         (case reconcileService ka p c2 of
            (Some e, c3) \<Rightarrow> (Inl e, c3)
          | (None, c3) \<Rightarrow>
         (case updateStatus ka now slept p c3 of
            (Some e, c4) \<Rightarrow> (Inl e, c4)
          | (None, c4) \<Rightarrow> (Inr (Some 120), c4)))))"

end
