(* ===== verification/Operator_Theorems.thy ===== *)
theory Operator_Theorems
  imports Performer_Operator
begin

text \<open>
  What the operator does for a Performer resource, and that the address at which the executor looks for a
  performer is the one the operator provides. The behaviour of the API server that this rests on is the
  predicate \<open>kube_ok\<close>: a successful write is seen by the next read, the status subresource changes nothing but
  the status, a deleted pod may stay visible until it has terminated, and a write leaves all other objects
  alone.
\<close>

section \<open>The API server\<close>

definition podsSame :: "'c kube_api \<Rightarrow> 'c \<Rightarrow> 'c \<Rightarrow> bool" where
  "podsSame ka c c' \<longleftrightarrow> (\<forall>ns n. kaGetPod ka c' ns n = kaGetPod ka c ns n)"

definition servicesSame :: "'c kube_api \<Rightarrow> 'c \<Rightarrow> 'c \<Rightarrow> bool" where
  "servicesSame ka c c' \<longleftrightarrow> (\<forall>ns n. kaGetService ka c' ns n = kaGetService ka c ns n)"

definition performersSame :: "'c kube_api \<Rightarrow> 'c \<Rightarrow> 'c \<Rightarrow> bool" where
  "performersSame ka c c' \<longleftrightarrow> (\<forall>ns n. kaGetPerformer ka False c' ns n = kaGetPerformer ka False c ns n)"

text \<open>The server may fill in further fields of a created pod, but keeps those that were set.\<close>

definition podLike :: "pod \<Rightarrow> pod \<Rightarrow> bool" where
  "podLike pd pd' \<longleftrightarrow> pod_Name pd' = pod_Name pd \<and> pod_Namespace pd' = pod_Namespace pd \<and>
     pod_Labels pd' = pod_Labels pd \<and> pod_Owner pd' = pod_Owner pd \<and>
     map pct_Image (pds_Containers (pod_Spec pd')) = map pct_Image (pds_Containers (pod_Spec pd)) \<and>
     map pct_Ports (pds_Containers (pod_Spec pd')) = map pct_Ports (pds_Containers (pod_Spec pd))"

definition performer_writes_ok :: "'c kube_api \<Rightarrow> bool" where
  "performer_writes_ok ka \<longleftrightarrow>
     (\<forall>c p c'. kaCreatePerformer ka False c p = (None, c') \<longrightarrow>
        (\<exists>t. kaGetPerformer ka False c' (crd_Namespace p) (crd_Name p) = Inr (p\<lparr>crd_CreationTimestamp := t\<rparr>)) \<and>
        podsSame ka c c' \<and> servicesSame ka c c') \<and>
     (\<forall>c p c'. kaUpdatePerformer ka False c p = (None, c') \<longrightarrow> crd_DeletionTimestamp p = None \<longrightarrow>
        kaGetPerformer ka False c' (crd_Namespace p) (crd_Name p) = Inr p \<and> podsSame ka c c' \<and> servicesSame ka c c') \<and>
     (\<forall>c p c'. kaUpdateStatus ka c p = (None, c') \<longrightarrow>
        (\<forall>q. kaGetPerformer ka False c (crd_Namespace p) (crd_Name p) = Inr q \<longrightarrow>
           kaGetPerformer ka False c' (crd_Namespace p) (crd_Name p) = Inr (q\<lparr>crd_Status := crd_Status p\<rparr>)) \<and>
        podsSame ka c c' \<and> servicesSame ka c c') \<and>
     (\<forall>c p c'. kaUpdateStatus ka c p = (Some Conflict, c') \<longrightarrow>
        performersSame ka c c' \<and> podsSame ka c c' \<and> servicesSame ka c c') \<and>
     (\<forall>c ns n p. kaGetPerformer ka False c ns n = Inr p \<longrightarrow> crd_Namespace p = ns \<and> crd_Name p = n)"

definition pod_writes_ok :: "'c kube_api \<Rightarrow> bool" where
  "pod_writes_ok ka \<longleftrightarrow>
     (\<forall>c pd c'. kaCreatePod ka c pd = (None, c') \<longrightarrow>
        (\<exists>pd'. kaGetPod ka c' (pod_Namespace pd) (pod_Name pd) = Inr pd' \<and> podLike pd pd') \<and>
        performersSame ka c c' \<and> servicesSame ka c c') \<and>
     (\<forall>c pd c'. kaDeletePod ka c pd = (None, c') \<longrightarrow>
        (kaGetPod ka c' (pod_Namespace pd) (pod_Name pd) = Inl NotFound \<or>
         kaGetPod ka c' (pod_Namespace pd) (pod_Name pd) = kaGetPod ka c (pod_Namespace pd) (pod_Name pd)) \<and>
        performersSame ka c c' \<and> servicesSame ka c c') \<and>
     (\<forall>c ns n pd. kaGetPod ka c ns n = Inr pd \<longrightarrow> pod_Namespace pd = ns \<and> pod_Name pd = n)"

definition service_writes_ok :: "'c kube_api \<Rightarrow> bool" where
  "service_writes_ok ka \<longleftrightarrow>
     (\<forall>c s f c'. kaCreateOrUpdateService ka c s f = (None, c') \<longrightarrow>
        (\<exists>old s'. (kaGetService ka c (svc_Namespace s) (svc_Name s) = Inr old \<or> old = s) \<and> f old = Some s' \<and>
           kaGetService ka c' (svc_Namespace s) (svc_Name s) = Inr s') \<and>
        (\<forall>ns n. (ns, n) \<noteq> (svc_Namespace s, svc_Name s) \<longrightarrow> kaGetService ka c' ns n = kaGetService ka c ns n) \<and>
        podsSame ka c c' \<and> performersSame ka c c') \<and>
     (\<forall>c ns n s. kaGetService ka c ns n = Inr s \<longrightarrow> svc_Namespace s = ns \<and> svc_Name s = n)"

definition owner_refs_ok :: "'c kube_api \<Rightarrow> bool" where
  "owner_refs_ok ka \<longleftrightarrow>
     (\<forall>p pd pd'. ka_SetControllerReferencePod ka p pd = Some pd' \<longrightarrow> pd' = pd\<lparr>pod_Owner := Some (crd_Name p)\<rparr>) \<and>
     (\<forall>p s s'. ka_SetControllerReferenceService ka p s = Some s' \<longrightarrow> s' = s\<lparr>svc_Owner := Some (crd_Name p)\<rparr>)"

definition kube_ok :: "'c kube_api \<Rightarrow> bool" where
  "kube_ok ka \<longleftrightarrow> performer_writes_ok ka \<and> pod_writes_ok ka \<and> service_writes_ok ka \<and> owner_refs_ok ka"

text \<open>
  What a reader sees of a Performer resource apart from its status. While the reconciler sleeps between
  attempts to write a status, others may write the status, but leave the rest alone.
\<close>

abbreviation unstatus :: "performer_crd \<Rightarrow> performer_crd" where
  "unstatus p \<equiv> p\<lparr>crd_Status := emptyStatus\<rparr>"

definition quiet :: "'c kube_api \<Rightarrow> (nat \<Rightarrow> 'c \<Rightarrow> 'c) \<Rightarrow> bool" where
  "quiet ka slept \<longleftrightarrow> (\<forall>i c. podsSame ka c (slept i c) \<and> servicesSame ka c (slept i c) \<and>
     (\<forall>ns n p. kaGetPerformer ka False c ns n = Inr p \<longrightarrow>
        (\<exists>p'. kaGetPerformer ka False (slept i c) ns n = Inr p' \<and> unstatus p' = unstatus p)))"

lemma performer_named:
  assumes "kube_ok ka" "kaGetPerformer ka False c ns n = Inr p"
  shows "crd_Namespace p = ns" "crd_Name p = n"
  using assms unfolding kube_ok_def performer_writes_ok_def by blast+

lemma performer_created:
  assumes "kube_ok ka" "kaCreatePerformer ka False c p = (None, c')"
  shows "\<exists>t. kaGetPerformer ka False c' (crd_Namespace p) (crd_Name p) = Inr (p\<lparr>crd_CreationTimestamp := t\<rparr>)"
    "podsSame ka c c'" "servicesSame ka c c'"
  using assms unfolding kube_ok_def performer_writes_ok_def by blast+

lemma performer_updated:
  assumes "kube_ok ka" "kaUpdatePerformer ka False c p = (None, c')" "crd_DeletionTimestamp p = None"
  shows "kaGetPerformer ka False c' (crd_Namespace p) (crd_Name p) = Inr p" "podsSame ka c c'" "servicesSame ka c c'"
  using assms unfolding kube_ok_def performer_writes_ok_def by blast+

lemma status_written:
  assumes "kube_ok ka" "kaUpdateStatus ka c p = (None, c')"
  shows "kaGetPerformer ka False c (crd_Namespace p) (crd_Name p) = Inr q \<Longrightarrow>
      kaGetPerformer ka False c' (crd_Namespace p) (crd_Name p) = Inr (q\<lparr>crd_Status := crd_Status p\<rparr>)"
    "podsSame ka c c'" "servicesSame ka c c'"
  using assms unfolding kube_ok_def performer_writes_ok_def by blast+

lemma status_conflict:
  assumes "kube_ok ka" "kaUpdateStatus ka c p = (Some Conflict, c')"
  shows "performersSame ka c c'" "podsSame ka c c'" "servicesSame ka c c'"
  using assms unfolding kube_ok_def performer_writes_ok_def by blast+

lemma pod_created:
  assumes "kube_ok ka" "kaCreatePod ka c pd = (None, c')"
  shows "\<exists>pd'. kaGetPod ka c' (pod_Namespace pd) (pod_Name pd) = Inr pd' \<and> podLike pd pd'"
    "performersSame ka c c'" "servicesSame ka c c'"
  using assms unfolding kube_ok_def pod_writes_ok_def by blast+

lemma pod_deleted:
  assumes "kube_ok ka" "kaDeletePod ka c pd = (None, c')" "kaGetPod ka c ns n = Inr pd"
  shows "kaGetPod ka c' ns n \<in> {Inl NotFound, Inr pd}" "performersSame ka c c'" "servicesSame ka c c'"
proof -
  from assms(1,3) have "pod_Namespace pd = ns" "pod_Name pd = n" unfolding kube_ok_def pod_writes_ok_def by blast+
  with assms show "kaGetPod ka c' ns n \<in> {Inl NotFound, Inr pd}" "performersSame ka c c'" "servicesSame ka c c'"
    unfolding kube_ok_def pod_writes_ok_def by (metis insertI1 insertI2)+
qed

lemma service_written:
  assumes "kube_ok ka" "kaCreateOrUpdateService ka c s f = (None, c')"
  obtains old s' where "kaGetService ka c (svc_Namespace s) (svc_Name s) = Inr old \<or> old = s" "f old = Some s'"
    "kaGetService ka c' (svc_Namespace s) (svc_Name s) = Inr s'" "podsSame ka c c'" "performersSame ka c c'"
    "\<forall>ns n. (ns, n) \<noteq> (svc_Namespace s, svc_Name s) \<longrightarrow> kaGetService ka c' ns n = kaGetService ka c ns n"
proof -
  from assms(1) have "service_writes_ok ka" by (simp add: kube_ok_def)
  note law = this [unfolded service_writes_ok_def, THEN conjunct1, rule_format, OF assms(2)]
  note * = law [THEN conjunct1] and ** = law [THEN conjunct2]
  from * obtain old s' where "kaGetService ka c (svc_Namespace s) (svc_Name s) = Inr old \<or> old = s" "f old = Some s'"
    "kaGetService ka c' (svc_Namespace s) (svc_Name s) = Inr s'" by blast
  moreover from ** have "podsSame ka c c'" "performersSame ka c c'"
    "\<forall>ns n. (ns, n) \<noteq> (svc_Namespace s, svc_Name s) \<longrightarrow> kaGetService ka c' ns n = kaGetService ka c ns n" by simp_all
  ultimately show thesis by (rule that)
qed

lemma service_named:
  assumes "kube_ok ka" "kaGetService ka c ns n = Inr s"
  shows "svc_Namespace s = ns" "svc_Name s = n"
  using assms unfolding kube_ok_def service_writes_ok_def by blast+

lemma owner_refs:
  assumes "kube_ok ka"
  shows "ka_SetControllerReferencePod ka p pd = Some pd' \<Longrightarrow> pd' = pd\<lparr>pod_Owner := Some (crd_Name p)\<rparr>"
    "ka_SetControllerReferenceService ka p s = Some s' \<Longrightarrow> s' = s\<lparr>svc_Owner := Some (crd_Name p)\<rparr>"
  using assms unfolding kube_ok_def owner_refs_ok_def by blast+

section \<open>The steps of a reconciliation\<close>

text \<open>What the pod and the service are built from is in the name, the namespace and the specification.\<close>

lemma unstatus_fields:
  assumes "unstatus p = unstatus q"
  shows "crd_Name p = crd_Name q" "crd_Namespace p = crd_Namespace q" "crd_Spec p = crd_Spec q"
    "crd_Finalizers p = crd_Finalizers q" "crd_DeletionTimestamp p = crd_DeletionTimestamp q"
  using arg_cong [OF assms, of crd_Name] arg_cong [OF assms, of crd_Namespace] arg_cong [OF assms, of crd_Spec]
    arg_cong [OF assms, of crd_Finalizers] arg_cong [OF assms, of crd_DeletionTimestamp] by simp_all

lemma updateStatusLoop_ok:
  assumes "updateStatusLoop ka now slept p i c = (None, c')" "kube_ok ka" "quiet ka slept"
    and "kaGetPerformer ka False c (crd_Namespace p) (crd_Name p) = Inr p0"
  shows "podsSame ka c c' \<and> servicesSame ka c c' \<and>
    (\<exists>latest pd. unstatus latest = unstatus p0 \<and> ((\<forall>i c. performersSame ka c (slept i c)) \<longrightarrow> latest = p0) \<and>
       kaGetPerformer ka False c' (crd_Namespace p) (crd_Name p) = Inr (latest\<lparr>crd_Status := observedStatus now pd latest\<rparr>) \<and>
       (case pd of None \<Rightarrow> kaGetPod ka c (crd_Namespace p) (getPodName p) = Inl NotFound
        | Some x \<Rightarrow> kaGetPod ka c (crd_Namespace p) (getPodName p) = Inr x))"
  using assms
proof (induction ka now slept p i c arbitrary: p0 rule: updateStatusLoop.induct)
  case (1 ka now slept p i c)
  have i: "\<not> maxStatusRetries \<le> i" using "1.prems"(1) by (auto simp: updateStatusLoop.simps)
  have names: "crd_Namespace p0 = crd_Namespace p" "crd_Name p0 = crd_Name p"
    by (rule performer_named [OF "1.prems"(2,4)])+
  then have pn: "getPodName p0 = getPodName p" by (simp add: getPodName_def)
  define pd where "pd = (case kaGetPod ka c (crd_Namespace p0) (getPodName p0) of
      Inr pd \<Rightarrow> Inr (Some pd) | Inl NotFound \<Rightarrow> Inr None | Inl e \<Rightarrow> Inl e)"
  from "1.prems"(1,4) i obtain pd' where pd': "pd = Inr pd'"
    by (cases pd) (auto simp: updateStatusLoop.simps [of ka now slept p i c] pd_def)
  then have seen: "case pd' of None \<Rightarrow> kaGetPod ka c (crd_Namespace p) (getPodName p) = Inl NotFound
      | Some x \<Rightarrow> kaGetPod ka c (crd_Namespace p) (getPodName p) = Inr x"
    unfolding pd_def pn names by (auto split: sum.splits api_error.splits)
  obtain e c1 where w: "kaUpdateStatus ka c (p0\<lparr>crd_Status := observedStatus now pd' p0\<rparr>) = (e, c1)" by fastforce
  show ?case
  proof (cases e)
    case None
    with "1.prems" i pd' w have "c' = c1"
      by (simp add: updateStatusLoop.simps [of ka now slept p i c] pd_def)
    moreover from status_written [OF "1.prems"(2) w [unfolded None]] "1.prems"(4) names
    have "kaGetPerformer ka False c1 (crd_Namespace p) (crd_Name p) = Inr (p0\<lparr>crd_Status := observedStatus now pd' p0\<rparr>)"
      "podsSame ka c c1" "servicesSame ka c c1" by simp_all
    ultimately show ?thesis using seen by blast
  next
    case (Some err)
    with "1.prems"(1,4) i pd' w have err: "err = Conflict" "i < maxStatusRetries - 1"
      "updateStatusLoop ka now slept p (Suc i) (slept i c1) = (None, c')"
      by (auto simp: updateStatusLoop.simps [of ka now slept p i c] pd_def split: if_splits)
    note s1 = status_conflict [OF "1.prems"(2) w [unfolded Some err(1)]]
    from "1.prems"(3) have q: "podsSame ka c1 (slept i c1)" "servicesSame ka c1 (slept i c1)"
      by (auto simp: quiet_def)
    from s1(1) "1.prems"(4) have "kaGetPerformer ka False c1 (crd_Namespace p) (crd_Name p) = Inr p0"
      by (simp add: performersSame_def)
    with "1.prems"(3) obtain p1 where p1: "kaGetPerformer ka False (slept i c1) (crd_Namespace p) (crd_Name p) = Inr p1"
      "unstatus p1 = unstatus p0" unfolding quiet_def by blast
    have same: "p1 = p0" if "\<forall>i c. performersSame ka c (slept i c)"
      using that p1(1) \<open>kaGetPerformer ka False c1 (crd_Namespace p) (crd_Name p) = Inr p0\<close> by (simp add: performersSame_def)
    from w Some have w': "(Some err, c1) = kaUpdateStatus ka c (p0\<lparr>crd_Status := observedStatus now pd' p0\<rparr>)" by simp
    note IH = "1.IH" [OF i "1.prems"(4) pd' [unfolded pd_def] w' refl conjI [OF err(1,2)] err(3) "1.prems"(2,3) p1(1)]
    from s1(2) q(1) have pods: "kaGetPod ka (slept i c1) ns n = kaGetPod ka c ns n" for ns n by (simp add: podsSame_def)
    from s1(3) q(2) have svcs: "kaGetService ka (slept i c1) ns n = kaGetService ka c ns n" for ns n by (simp add: servicesSame_def)
    from IH [unfolded pods svcs podsSame_def servicesSame_def p1(2)] same show ?thesis
      unfolding podsSame_def servicesSame_def by blast
  qed
qed

text \<open>The pod after \<open>reconcilePod\<close>, for each state it may find.\<close>

definition podOutcome :: "time \<Rightarrow> performer_crd \<Rightarrow> (api_error, pod) result \<Rightarrow> (api_error, pod) result \<Rightarrow> bool" where
  "podOutcome now p before after \<longleftrightarrow>
     (case before of
        Inl NotFound \<Rightarrow> (\<exists>pd. after = Inr pd \<and> podLike ((buildPodSpec p)\<lparr>pod_Owner := Some (crd_Name p)\<rparr>) pd)
      | Inl e \<Rightarrow> False
      | Inr pd \<Rightarrow> if shouldRecreatePod now pd p then after \<in> {Inl NotFound, Inr pd} else after = Inr pd)"

definition desiredService :: "performer_crd \<Rightarrow> service" where
  "desiredService p = \<lparr>svc_Name = getServiceName p, svc_Namespace = crd_Namespace p, svc_Owner = Some (crd_Name p),
     svc_Selector = [(performerLabel, crd_Name p)], svc_Ports = [(''grpc'', grpcPortOf p, ''grpc'')]\<rparr>"

lemma pod_names [simp]: "pod_Namespace (buildPodSpec p) = crd_Namespace p" "pod_Name (buildPodSpec p) = getPodName p"
  by (simp_all add: buildPodSpec_def Let_def)

lemma reconcilePod_ok:
  assumes "reconcilePod ka now p c = (None, c')" "kube_ok ka"
  shows "podOutcome now p (kaGetPod ka c (crd_Namespace p) (getPodName p)) (kaGetPod ka c' (crd_Namespace p) (getPodName p))"
    "performersSame ka c c'" "servicesSame ka c c'"
proof -
  let ?goal = "podOutcome now p (kaGetPod ka c (crd_Namespace p) (getPodName p)) (kaGetPod ka c' (crd_Namespace p) (getPodName p)) \<and>
    performersSame ka c c' \<and> servicesSame ka c c'"
  have ?goal
  proof (cases "kaGetPod ka c (crd_Namespace p) (getPodName p)")
    case (Inl e)
    with assms(1) have "e = NotFound" by (cases e) (auto simp: reconcilePod_def)
    moreover obtain newPod where "ka_SetControllerReferencePod ka p (buildPodSpec p) = Some newPod"
      using assms(1) Inl \<open>e = NotFound\<close> by (auto simp: reconcilePod_def split: option.splits)
    moreover have "newPod = (buildPodSpec p)\<lparr>pod_Owner := Some (crd_Name p)\<rparr>"
      by (rule owner_refs(1) [OF assms(2) calculation(2)])
    ultimately have "kaCreatePod ka c newPod = (None, c')" "pod_Namespace newPod = crd_Namespace p" "pod_Name newPod = getPodName p"
      using assms(1) Inl by (auto simp: reconcilePod_def split: prod.splits)
    with pod_created [OF assms(2) this(1)] \<open>newPod = _\<close> Inl \<open>e = NotFound\<close> show ?thesis by (simp add: podOutcome_def)
  next
    case (Inr pd)
    show ?thesis
    proof (cases "shouldRecreatePod now pd p")
      case True
      with Inr assms(1) have "kaDeletePod ka c pd = (None, c')" by (auto simp: reconcilePod_def split: prod.splits)
      from pod_deleted [OF assms(2) this Inr] True Inr show ?thesis by (simp add: podOutcome_def)
    next
      case False
      with Inr assms(1) show ?thesis by (simp add: reconcilePod_def podOutcome_def performersSame_def servicesSame_def)
    qed
  qed
  then show "podOutcome now p (kaGetPod ka c (crd_Namespace p) (getPodName p)) (kaGetPod ka c' (crd_Namespace p) (getPodName p))"
    "performersSame ka c c'" "servicesSame ka c c'" by simp_all
qed

lemma reconcileService_ok:
  assumes "reconcileService ka p c = (None, c')" "kube_ok ka"
  shows "kaGetService ka c' (crd_Namespace p) (getServiceName p) = Inr (desiredService p)"
    "podsSame ka c c'" "performersSame ka c c'"
    "(ns, n) \<noteq> (crd_Namespace p, getServiceName p) \<Longrightarrow> kaGetService ka c' ns n = kaGetService ka c ns n"
proof -
  from assms(1) have w: "kaCreateOrUpdateService ka c (blankService p) (fillService ka p) = (None, c')"
    by (auto simp: reconcileService_def split: prod.splits)
  have b: "svc_Namespace (blankService p) = crd_Namespace p" "svc_Name (blankService p) = getServiceName p"
    by (simp_all add: blankService_def)
  obtain old s' where
    o: "kaGetService ka c (crd_Namespace p) (getServiceName p) = Inr old \<or> old = blankService p" "fillService ka p old = Some s'"
    "kaGetService ka c' (crd_Namespace p) (getServiceName p) = Inr s'" "podsSame ka c c'" "performersSame ka c c'"
    and rest: "\<forall>ns n. (ns, n) \<noteq> (crd_Namespace p, getServiceName p) \<longrightarrow> kaGetService ka c' ns n = kaGetService ka c ns n"
    by (rule service_written [OF assms(2) w, unfolded b])
  from owner_refs(2) [OF assms(2) o(2) [unfolded fillService_def]]
  have "s' = old\<lparr>svc_Owner := Some (crd_Name p), svc_Selector := [(performerLabel, crd_Name p)],
      svc_Ports := [(''grpc'', grpcPortOf p, ''grpc'')]\<rparr>" by simp
  moreover have "svc_Name old = getServiceName p" "svc_Namespace old = crd_Namespace p"
    using o(1) b service_named [OF assms(2)] by auto
  ultimately have "s' = desiredService p" by (simp add: desiredService_def)
  with o show "kaGetService ka c' (crd_Namespace p) (getServiceName p) = Inr (desiredService p)"
    "podsSame ka c c'" "performersSame ka c c'" by simp_all
  show "(ns, n) \<noteq> (crd_Namespace p, getServiceName p) \<Longrightarrow> kaGetService ka c' ns n = kaGetService ka c ns n"
    by (rule rest [rule_format])
qed

lemma addFinalizer_ok:
  assumes "addFinalizer ka p c = (Inr p', c')" "kube_ok ka" "crd_DeletionTimestamp p = None"
    and "kaGetPerformer ka False c (crd_Namespace p) (crd_Name p) = Inr p"
  shows "kaGetPerformer ka False c' (crd_Namespace p) (crd_Name p) = Inr p'" "performerFinalizer \<in> set (crd_Finalizers p')"
    "p' = p\<lparr>crd_Finalizers := crd_Finalizers p'\<rparr>" "podsSame ka c c'" "servicesSame ka c c'"
proof -
  let ?q = "p\<lparr>crd_Finalizers := crd_Finalizers p @ [performerFinalizer]\<rparr>"
  consider (has) "performerFinalizer \<in> set (crd_Finalizers p)" "p' = p" "c' = c"
    | (new) "kaUpdatePerformer ka False c ?q = (None, c')" "p' = ?q"
  proof (cases "performerFinalizer \<in> set (crd_Finalizers p)")
    case True
    with assms(1) have "p' = p" "c' = c" by (simp_all add: addFinalizer_def)
    with True show thesis by (rule has)
  next
    case False
    obtain e c1 where w: "kaUpdatePerformer ka False c ?q = (e, c1)" by fastforce
    with False assms(1) have "e = None" by (cases e) (simp_all add: addFinalizer_def)
    with False assms(1) w have "kaUpdatePerformer ka False c ?q = (None, c')" "p' = ?q" by (simp_all add: addFinalizer_def)
    then show thesis by (rule new)
  qed
  then have "kaGetPerformer ka False c' (crd_Namespace p) (crd_Name p) = Inr p' \<and> performerFinalizer \<in> set (crd_Finalizers p') \<and>
    p' = p\<lparr>crd_Finalizers := crd_Finalizers p'\<rparr> \<and> podsSame ka c c' \<and> servicesSame ka c c'"
  proof cases
    case has
    with assms(4) show ?thesis by (simp add: podsSame_def servicesSame_def)
  next
    case new
    with performer_updated [OF assms(2) new(1)] assms(3) show ?thesis by simp
  qed
  then show "kaGetPerformer ka False c' (crd_Namespace p) (crd_Name p) = Inr p'" "performerFinalizer \<in> set (crd_Finalizers p')"
    "p' = p\<lparr>crd_Finalizers := crd_Finalizers p'\<rparr>" "podsSame ka c c'" "servicesSame ka c c'" by blast+
qed

section \<open>What a reconciliation achieves\<close>

lemma reconcile_stages:
  assumes "reconcile ka now slept ns name c = (Inr r, c')" "kaGetPerformer ka False c ns name = Inr p"
    and "crd_DeletionTimestamp p = None"
  obtains p' c1 c2 c3 where "addFinalizer ka p c = (Inr p', c1)" "reconcilePod ka now p' c1 = (None, c2)"
    "reconcileService ka p' c2 = (None, c3)" "updateStatusLoop ka now slept p' 0 c3 = (None, c')" "r = Some 120"
proof -
  obtain a c1 where a: "addFinalizer ka p c = (a, c1)" by fastforce
  with assms obtain p' where p': "a = Inr p'" by (cases a) (simp_all add: reconcile_def)
  obtain b c2 where b: "reconcilePod ka now p' c1 = (b, c2)" by fastforce
  with assms a p' have "b = None" by (cases b) (simp_all add: reconcile_def)
  obtain s c3 where s: "reconcileService ka p' c2 = (s, c3)" by fastforce
  with assms a p' b \<open>b = None\<close> have "s = None" by (cases s) (simp_all add: reconcile_def)
  obtain u c4 where u: "updateStatus ka now slept p' c3 = (u, c4)" by fastforce
  with assms a p' b \<open>b = None\<close> s \<open>s = None\<close> have "u = None" "c4 = c'" "r = Some 120"
    by (cases u; simp add: reconcile_def)+
  with a p' b \<open>b = None\<close> s \<open>s = None\<close> u show thesis by (intro that) (simp_all add: updateStatus_def)
qed

lemma podOutcome_cong:
  assumes "crd_Name p = crd_Name q" "crd_Namespace p = crd_Namespace q" "crd_Spec p = crd_Spec q"
  shows "podOutcome now p = podOutcome now q" "getPodName p = getPodName q" "getServiceName p = getServiceName q"
    "desiredService p = desiredService q"
proof -
  from assms have "buildPodSpec p = buildPodSpec q"
    unfolding buildPodSpec_def Let_def grpcPortOf_def getPodName_def by (simp only:)
  moreover from assms have "shouldRecreatePod now pd p = shouldRecreatePod now pd q" for pd
    by (simp only: shouldRecreatePod_def)
  ultimately show "podOutcome now p = podOutcome now q"
    using assms(1) by (intro ext) (simp only: podOutcome_def)
  from assms show "getPodName p = getPodName q" "getServiceName p = getServiceName q" "desiredService p = desiredService q"
    by (simp_all add: getPodName_def getServiceName_def desiredService_def grpcPortOf_def)
qed

lemma reconcile_effect:
  assumes "reconcile ka now slept ns name c = (Inr r, c')" "kube_ok ka" "quiet ka slept"
    and get: "kaGetPerformer ka False c ns name = Inr p" and "crd_DeletionTimestamp p = None"
  obtains q pd where "r = Some 120"
    "podOutcome now p (kaGetPod ka c ns (getPodName p)) (kaGetPod ka c' ns (getPodName p))"
    "kaGetService ka c' ns (getServiceName p) = Inr (desiredService p)"
    "kaGetPerformer ka False c' ns name = Inr (q\<lparr>crd_Status := observedStatus now pd q\<rparr>)"
    "unstatus q = unstatus (p\<lparr>crd_Finalizers := crd_Finalizers q\<rparr>)" "performerFinalizer \<in> set (crd_Finalizers q)"
    "(\<forall>i c. performersSame ka c (slept i c)) \<longrightarrow> crd_Status q = crd_Status p"
    "case pd of None \<Rightarrow> kaGetPod ka c' ns (getPodName p) = Inl NotFound | Some x \<Rightarrow> kaGetPod ka c' ns (getPodName p) = Inr x"
proof -
  note n = performer_named [OF assms(2) get]
  from reconcile_stages [OF assms(1) get assms(5)] obtain p' c1 c2 c3 where st:
    "addFinalizer ka p c = (Inr p', c1)" "reconcilePod ka now p' c1 = (None, c2)"
    "reconcileService ka p' c2 = (None, c3)" "updateStatusLoop ka now slept p' 0 c3 = (None, c')" "r = Some 120" .
  note f = addFinalizer_ok [OF st(1) assms(2,5), unfolded n, OF get]
  have p': "crd_Name p' = crd_Name p" "crd_Namespace p' = crd_Namespace p" "crd_Spec p' = crd_Spec p"
    using arg_cong [OF f(3), of crd_Name] arg_cong [OF f(3), of crd_Namespace] arg_cong [OF f(3), of crd_Spec] by simp_all
  note cong = podOutcome_cong [OF p']
  note pod = reconcilePod_ok [OF st(2) assms(2), unfolded cong p' n]
  note svc = reconcileService_ok [OF st(3) assms(2), unfolded cong p' n]
  from f(1) pod(2) svc(3) have "kaGetPerformer ka False c3 ns name = Inr p'" by (simp add: performersSame_def)
  from updateStatusLoop_ok [OF st(4) assms(2,3), unfolded cong p' n, OF this]
  obtain latest pd where same: "(\<forall>i c. performersSame ka c (slept i c)) \<longrightarrow> latest = p'"
    and l: "podsSame ka c3 c'" "servicesSame ka c3 c'" "unstatus latest = unstatus p'"
    "kaGetPerformer ka False c' ns name = Inr (latest\<lparr>crd_Status := observedStatus now pd latest\<rparr>)"
    "case pd of None \<Rightarrow> kaGetPod ka c3 ns (getPodName p) = Inl NotFound | Some x \<Rightarrow> kaGetPod ka c3 ns (getPodName p) = Inr x"
    by blast
  have pods: "kaGetPod ka c1 ns m = kaGetPod ka c ns m" "kaGetPod ka c' ns m = kaGetPod ka c3 ns m"
    "kaGetPod ka c3 ns m = kaGetPod ka c2 ns m" for m
    using f(4) l(1) svc(2) by (simp_all add: podsSame_def)
  have fin: "crd_Finalizers latest = crd_Finalizers p'" by (rule unstatus_fields(4) [OF l(3)])
  show thesis
  proof (rule that [of pd latest])
    show "podOutcome now p (kaGetPod ka c ns (getPodName p)) (kaGetPod ka c' ns (getPodName p))"
      using pod(1) by (simp only: pods)
    show "kaGetService ka c' ns (getServiceName p) = Inr (desiredService p)"
      using svc(1) l(2) by (simp add: servicesSame_def)
    show "unstatus latest = unstatus (p\<lparr>crd_Finalizers := crd_Finalizers latest\<rparr>)"
      unfolding fin l(3) by (subst f(3)) simp
    show "performerFinalizer \<in> set (crd_Finalizers latest)" using f(2) fin by simp
    show "(\<forall>i c. performersSame ka c (slept i c)) \<longrightarrow> crd_Status latest = crd_Status p"
      using same arg_cong [OF f(3), of crd_Status] by simp
    show "case pd of None \<Rightarrow> kaGetPod ka c' ns (getPodName p) = Inl NotFound | Some x \<Rightarrow> kaGetPod ka c' ns (getPodName p) = Inr x"
      using l(5) by (simp only: pods(2))
  qed (use st(5) l(4) in simp_all)
qed

text \<open>
  C22. The executor and the operator agree on where a performer is. After the executor has created the
  resource of a new performer and the operator has reconciled it, there is a pod that runs the requested
  image and listens on the requested port, a service whose selector matches the pod's labels, and the
  address the executor was given is the cluster address of that service at that port.
\<close>

theorem operator_serves_created_performer:
  assumes "crd_CreatePerformer ka co False req d = (Inr resp, c1)"
    and "reconcile ka now slept (co_namespace co) (cpr_Name req) c1 = (Inr r, c2)" "kube_ok ka" "quiet ka slept"
    and "kaGetPod ka d (co_namespace co) (''performer-'' @ cpr_Name req) = Inl NotFound"
  shows "\<exists>pd s.
    kaGetPod ka c2 (co_namespace co) (''performer-'' @ cpr_Name req) = Inr pd \<and>
    map pct_Image (pds_Containers (pod_Spec pd)) = [cpr_Image req] \<and>
    map pct_Ports (pds_Containers (pod_Spec pd)) = [[(''grpc'', cpr_GRPCPort req)]] \<and>
    kaGetService ka c2 (co_namespace co) (svc_Name s) = Inr s \<and>
    set (svc_Selector s) \<subseteq> set (pod_Labels pd) \<and> svc_Ports s = [(''grpc'', cpr_GRPCPort req, ''grpc'')] \<and>
    cresp_Endpoint resp = svc_Name s @ ''.'' @ co_namespace co @ ''.svc.cluster.local:'' @ portString (cpr_GRPCPort req)"
proof -
  from crd_CreatePerformer_Inr [OF assms(1)] obtain resources where w: "validateCreatePerformerRequest req = None"
    "kaCreatePerformer ka False d (crdFor co req resources) = (None, c1)" "cresp_Endpoint resp = expectedEndpoint co req" by blast
  let ?p = "crdFor co req resources"
  have n: "crd_Namespace ?p = co_namespace co" "crd_Name ?p = cpr_Name req" by (simp_all add: crdFor_def)
  from performer_created [OF assms(3) w(2), unfolded n] obtain t where
    g: "kaGetPerformer ka False c1 (co_namespace co) (cpr_Name req) = Inr (?p\<lparr>crd_CreationTimestamp := t\<rparr>)"
    and "podsSame ka d c1" by blast
  let ?q = "?p\<lparr>crd_CreationTimestamp := t\<rparr>"
  have q: "crd_Name ?q = cpr_Name req" "crd_Namespace ?q = co_namespace co" "psp_Image (crd_Spec ?q) = cpr_Image req"
    "grpcPortOf ?q = cpr_GRPCPort req" "crd_DeletionTimestamp ?q = None"
    using w(1) by (auto simp: crdFor_def grpcPortOf_def validateCreatePerformerRequest_def split: if_splits)
  then have pn: "getPodName ?q = ''performer-'' @ cpr_Name req" "getServiceName ?q = ''performer-'' @ cpr_Name req"
    by (simp_all only: getPodName_def getServiceName_def)
  from reconcile_effect [OF assms(2-4) g q(5)]
  have e: "podOutcome now ?q (kaGetPod ka c1 (co_namespace co) (getPodName ?q)) (kaGetPod ka c2 (co_namespace co) (getPodName ?q))"
    "kaGetService ka c2 (co_namespace co) (getServiceName ?q) = Inr (desiredService ?q)" by metis+
  have "kaGetPod ka c1 (co_namespace co) (getPodName ?q) = Inl NotFound"
    using \<open>podsSame ka d c1\<close> assms(5) pn(1) by (simp add: podsSame_def)
  with e(1) obtain pd where pd: "kaGetPod ka c2 (co_namespace co) (getPodName ?q) = Inr pd"
    "podLike ((buildPodSpec ?q)\<lparr>pod_Owner := Some (crd_Name ?q)\<rparr>) pd" by (auto simp: podOutcome_def)
  then have "map pct_Image (pds_Containers (pod_Spec pd)) = [cpr_Image req]"
    "map pct_Ports (pds_Containers (pod_Spec pd)) = [[(''grpc'', cpr_GRPCPort req)]]"
    "(performerLabel, cpr_Name req) \<in> set (pod_Labels pd)"
    using q(1,3,4) by (simp_all add: podLike_def buildPodSpec_def Let_def)
  moreover have "svc_Name (desiredService ?q) = ''performer-'' @ cpr_Name req"
    "svc_Selector (desiredService ?q) = [(performerLabel, cpr_Name req)]"
    "svc_Ports (desiredService ?q) = [(''grpc'', cpr_GRPCPort req, ''grpc'')]"
    using pn(2) q(1,4) by (simp_all add: desiredService_def)
  moreover have "cresp_Endpoint resp = ''performer-'' @ cpr_Name req @ ''.'' @ co_namespace co @ ''.svc.cluster.local:'' @
      portString (cpr_GRPCPort req)"
    using w(3) by (simp add: expectedEndpoint_def)
  ultimately show ?thesis using pd(1) e(2) pn by (intro exI [of _ pd] exI [of _ "desiredService ?q"]) simp
qed

text \<open>The pod of a performer runs its image and does not have to be replaced.\<close>

definition podServes :: "'c kube_api \<Rightarrow> time \<Rightarrow> performer_crd \<Rightarrow> 'c \<Rightarrow> bool" where
  "podServes ka now p c \<longleftrightarrow>
     (case kaGetPod ka c (crd_Namespace p) (getPodName p) of
        Inl e \<Rightarrow> False
      | Inr pd \<Rightarrow> \<not> shouldRecreatePod now pd p \<and> map pct_Image (pds_Containers (pod_Spec pd)) = [psp_Image (crd_Spec p)])"

text \<open>
  A changed image is rolled out. When the pod of a performer runs another image than its specification
  says, a successful reconciliation asks for the pod's deletion, without ever having two pods of the performer; and
  once the pod has terminated, the next successful reconciliation creates a pod with the image of the
  specification. Every further successful reconciliation leaves a pod that serves, and the service, as they are.
\<close>

theorem image_change_rolled_out:
  assumes "kube_ok ka" "quiet ka slept"
    and "kaGetPerformer ka False c0 ns name = Inr p" "crd_DeletionTimestamp p = None"
    and "kaGetPod ka c0 ns (getPodName p) = Inr old" "map pct_Image (pds_Containers (pod_Spec old)) \<noteq> []"
      "hd (map pct_Image (pds_Containers (pod_Spec old))) \<noteq> psp_Image (crd_Spec p)"
    and "reconcile ka t0 slept ns name c0 = (Inr r0, c1)"
    and "kaGetPerformer ka False c1' ns name = Inr p1" "crd_DeletionTimestamp p1 = None" "crd_Spec p1 = crd_Spec p"
      "kaGetPod ka c1' ns (getPodName p) = Inl NotFound"
    and "reconcile ka t1 slept ns name c1' = (Inr r1, c2)"
  shows "kaGetPod ka c1 ns (getPodName p) \<in> {Inl NotFound, Inr old} \<and>
    (\<exists>pd. kaGetPod ka c2 ns (getPodName p) = Inr pd \<and>
       map pct_Image (pds_Containers (pod_Spec pd)) = [psp_Image (crd_Spec p)] \<and>
       (\<forall>t r c3. podServes ka t p c2 \<longrightarrow> reconcile ka t slept ns name c2 = (Inr r, c3) \<longrightarrow>
          kaGetPod ka c3 ns (getPodName p) = Inr pd \<and>
          kaGetService ka c3 ns (getServiceName p) = kaGetService ka c2 ns (getServiceName p)))"
proof -
  from assms(6,7) have "shouldRecreatePod t0 old p"
    by (cases "pds_Containers (pod_Spec old)") (simp_all add: shouldRecreatePod_def)
  moreover from reconcile_effect [OF assms(8,1,2,3,4)]
  have "podOutcome t0 p (kaGetPod ka c0 ns (getPodName p)) (kaGetPod ka c1 ns (getPodName p))" by metis
  ultimately have first: "kaGetPod ka c1 ns (getPodName p) \<in> {Inl NotFound, Inr old}"
    using assms(5) by (simp add: podOutcome_def)
  note n = performer_named [OF assms(1,3)]
  have p1: "crd_Name p1 = crd_Name p" "crd_Namespace p1 = crd_Namespace p"
    using performer_named [OF assms(1,9)] n by simp_all
  note cong = podOutcome_cong [OF p1 assms(11)]
  obtain q pd' where e: "podOutcome t1 p (kaGetPod ka c1' ns (getPodName p)) (kaGetPod ka c2 ns (getPodName p))"
    "kaGetService ka c2 ns (getServiceName p) = Inr (desiredService p)"
    "kaGetPerformer ka False c2 ns name = Inr (q\<lparr>crd_Status := observedStatus t1 pd' q\<rparr>)"
    "unstatus q = unstatus (p1\<lparr>crd_Finalizers := crd_Finalizers q\<rparr>)"
    by (rule reconcile_effect [OF assms(13,1,2,9,10), unfolded cong]) blast
  from e(1) assms(12) obtain pd where pd: "kaGetPod ka c2 ns (getPodName p) = Inr pd"
    "podLike ((buildPodSpec p)\<lparr>pod_Owner := Some (crd_Name p)\<rparr>) pd" by (auto simp: podOutcome_def)
  then have im: "map pct_Image (pds_Containers (pod_Spec pd)) = [psp_Image (crd_Spec p)]"
    by (simp add: podLike_def buildPodSpec_def Let_def)
  let ?q = "q\<lparr>crd_Status := observedStatus t1 pd' q\<rparr>"
  have q: "crd_Name ?q = crd_Name p" "crd_Namespace ?q = crd_Namespace p" "crd_Spec ?q = crd_Spec p" "crd_DeletionTimestamp ?q = None"
    using unstatus_fields [OF e(4)] p1 assms(10,11) by simp_all
  note cong2 = podOutcome_cong [OF q(1-3)]
  have keep: "kaGetPod ka c3 ns (getPodName p) = Inr pd \<and>
      kaGetService ka c3 ns (getServiceName p) = kaGetService ka c2 ns (getServiceName p)"
    if s: "podServes ka t p c2" and r: "reconcile ka t slept ns name c2 = (Inr r, c3)" for t r c3
  proof -
    from s pd(1) n have "\<not> shouldRecreatePod t pd p" by (simp add: podServes_def)
    moreover have "podOutcome t p (kaGetPod ka c2 ns (getPodName p)) (kaGetPod ka c3 ns (getPodName p))"
      "kaGetService ka c3 ns (getServiceName p) = Inr (desiredService p)"
      by (rule reconcile_effect [OF r assms(1,2) e(3) q(4), unfolded cong2], blast)+
    ultimately show ?thesis using pd(1) e(2) by (simp add: podOutcome_def)
  qed
  show ?thesis
    by (intro conjI exI [of _ pd] allI impI) (fact first pd(1) im | (rule keep [THEN conjunct1] keep [THEN conjunct2], assumption+))+
qed

text \<open>
  Removing a failed pod does not take back the readiness of its performer: when the pod is gone by the
  time the status is written, the resource says \<open>Pending\<close> and still \<open>Ready\<close>, because the status keeps the old
  value of \<open>Ready\<close> in the branch where there is no pod.
\<close>

theorem failed_pod_stays_ready:
  assumes "kube_ok ka" "quiet ka slept" "\<forall>i c. performersSame ka c (slept i c)"
    and "kaGetPerformer ka False c ns name = Inr p" "crd_DeletionTimestamp p = None" "psc_Ready (crd_Status p)"
    and "reconcile ka now slept ns name c = (Inr r, c')" "kaGetPod ka c' ns (getPodName p) = Inl NotFound"
  shows "\<exists>p'. kaGetPerformer ka False c' ns name = Inr p' \<and> psc_Phase (crd_Status p') = ''Pending'' \<and>
    psc_PodName (crd_Status p') = [] \<and> psc_Ready (crd_Status p')"
proof -
  obtain q pd where e: "kaGetPerformer ka False c' ns name = Inr (q\<lparr>crd_Status := observedStatus now pd q\<rparr>)"
    "(\<forall>i c. performersSame ka c (slept i c)) \<longrightarrow> crd_Status q = crd_Status p"
    "case pd of None \<Rightarrow> kaGetPod ka c' ns (getPodName p) = Inl NotFound | Some x \<Rightarrow> kaGetPod ka c' ns (getPodName p) = Inr x"
    by (rule reconcile_effect [OF assms(7,1,2,4,5)]) blast
  from e(3) assms(8) have "pd = None" by (cases pd) simp_all
  with e(1,2) assms(3,6) show ?thesis by (simp add: observedStatus_def observePod_def)
qed

section \<open>Labels\<close>

lemma sanitizeLabel_length: "length (sanitizeLabel s) \<le> 63"
  by (simp add: sanitizeLabel_def)

lemma sanitizeLabel_no_underscore: "CHR ''_'' \<notin> set (sanitizeLabel s)"
  by (auto simp: sanitizeLabel_def dest!: in_set_takeD)

end
