(* ===== verification/Kubernetes_Performer.thy ===== *)
theory Kubernetes_Performer
  imports Kubernetes_Manager
begin

text \<open>
  The performer of one AVS on Kubernetes,
  \<open>ponos/pkg/executor/avsPerformer/avsKubernetesPerformer/kubernetesPerformer.go\<close>, the second implementation
  of \<open>IAvsPerformer\<close>. As in \<open>Container_Performer\<close> there is a slot for the performer in service and one for
  the next; \<open>currentPerformer\<close> is an \<open>atomic.Value\<close> that holds nothing (\<open>None\<close>), a \<open>nil\<close> pointer
  (\<open>Some None\<close>) or a performer. Every task is counted at the performer it runs on, and a replaced performer is
  deleted once its tasks have ended.

  A context is the time at which it ends, if it ends. The loops that wait for a performer are given the
  ticks and the changes of the cluster in between. A task takes part in two steps, its start and its
  end, and so does the goroutine that drains a performer. A \<open>nil\<close> dereference and a negative wait group
  counter are errors of their own, \<open>NilPerformer\<close> and \<open>NegativeWaitGroup\<close>; the process ends there.
\<close>

section \<open>State\<close>

record k8s_avs_config = avs_performer_config +
  kac_EndpointOverride :: string

datatype lifecycle_state = PerformerStateActive | PerformerStateDraining | PerformerStateShutdown

record performer_resource =
  pr_performerID :: string
  pr_avsAddress :: string
  pr_image :: performer_image
  pr_status :: string
  pr_endpoint :: string
  pr_createdAt :: time

text \<open>\<open>kp_taskStates\<close> holds the wait group counter and the lifecycle state, \<open>kp_conns\<close> the performers whose gRPC
  connection is open, \<open>kp_drains\<close> the performers whose drain has started and not ended.\<close>

record 'c k8s_performer =
  kp_config :: k8s_avs_config
  kp_crd :: crd_operations
  kp_current :: "performer_resource option option"
  kp_next :: "performer_resource option"
  kp_taskStates :: "(string \<times> (int \<times> lifecycle_state)) list"
  kp_drains :: "string list"
  kp_conns :: "string list"
  kp_deploying :: bool
  kp_cluster :: 'c

datatype k8s_error = K8sConfig config_error | K8sClient string | CrdFailed crd_error | NotReady string | ConnectionFailed string
  | NextPerformerExists string | NotInNext string | NoSuchPerformer string | NoCurrent | NoClient
  | NoLongerAccepting string | TaskFailed string | K8sDeploymentInProgress string
  | NilPerformer | NegativeWaitGroup

section \<open>Contexts\<close>

type_synonym kctx = "time option"

definition ctxEnded :: "kctx \<Rightarrow> time \<Rightarrow> bool" where
  "ctxEnded ctx now = (case ctx of None \<Rightarrow> False | Some t \<Rightarrow> t \<le> now)"

definition withTimeout :: "kctx \<Rightarrow> time \<Rightarrow> int \<Rightarrow> kctx" where
  "withTimeout ctx now d = Some (case ctx of None \<Rightarrow> now + d | Some t \<Rightarrow> min t (now + d))"

definition defaultDeploymentTimeout :: int where
  "defaultDeploymentTimeout = 300"

definition defaultRunningWaitTimeout :: int where
  "defaultRunningWaitTimeout = 300"

definition defaultGRPCPort :: int where
  "defaultGRPCPort = 8080"

section \<open>Construction\<close>

text \<open>\<open>rest\<close> is the error of building the Kubernetes clients, if there is one.\<close>

definition newAvsKubernetesPerformer ::
  "k8s_avs_config \<Rightarrow> k8s_config \<Rightarrow> string option \<Rightarrow> 'c \<Rightarrow> (k8s_error, 'c k8s_performer) result" where
  "newAvsKubernetesPerformer cfg kubernetesConfig rest c =
     (let kc = applyDefaults kubernetesConfig
      in case validateConfig kc of
           Some e \<Rightarrow> Inl (K8sConfig e)
         | None \<Rightarrow>
             (case rest of
                Some e \<Rightarrow> Inl (K8sClient e)
              | None \<Rightarrow> Inr \<lparr>kp_config = cfg, kp_crd = newCRDOperations kc, kp_current = None, kp_next = None,
                  kp_taskStates = [], kp_drains = [], kp_conns = [], kp_deploying = False, kp_cluster = c\<rparr>))"

section \<open>Creating a performer\<close>

text \<open>\<open>uuid\<close> is the text of \<open>uuid.New()\<close>, \<open>sha\<close> the hash function of \<open>HashAvsAddress\<close>.\<close>

definition k8s_generatePerformerID :: "'d container_manager \<Rightarrow> k8s_avs_config \<Rightarrow> string \<Rightarrow> string" where
  "k8s_generatePerformerID cm cfg uuid =
     ''performer-'' @ hashAvsAddress cm (apc_AvsAddress cfg) @ ''-'' @ take 8 (filter (\<lambda>c. c \<noteq> CHR ''-'') uuid)"

fun buildEnvironment ::
  "performer_env list \<Rightarrow> (string \<times> string) list \<Rightarrow> env_var_source list \<Rightarrow> (string \<times> string) list \<times> env_var_source list" where
  "buildEnvironment [] envMap sources = (envMap, sources)"
| "buildEnvironment (env # envs) envMap sources =
     (if pv_Value env = [] \<and> pv_ValueFromEnv env = [] \<and> pv_KubernetesEnv env = None then buildEnvironment envs envMap sources
      else case pv_KubernetesEnv env of
        Some ke \<Rightarrow>
          if ke_SecretName ke \<noteq> [] then
            buildEnvironment envs envMap (sources @ [\<lparr>evs_Name = pv_Name env, evs_ValueFrom = Some \<lparr>
              kevf_SecretKeyRef = Some \<lparr>ks_Name = ke_SecretName ke, ks_Key = ke_SecretKey ke\<rparr>, kevf_ConfigMapKeyRef = None\<rparr>\<rparr>])
          else if ke_ConfigMapName ke \<noteq> [] then
            buildEnvironment envs envMap (sources @ [\<lparr>evs_Name = pv_Name env, evs_ValueFrom = Some \<lparr>
              kevf_SecretKeyRef = None, kevf_ConfigMapKeyRef = Some \<lparr>ks_Name = ke_ConfigMapName ke, ks_Key = ke_ConfigMapKey ke\<rparr>\<rparr>\<rparr>])
          else if pv_Value env \<noteq> [] then buildEnvironment envs (gm_put envMap (pv_Name env) (pv_Value env)) sources
          else buildEnvironment envs envMap sources
      | None \<Rightarrow>
          if pv_Value env \<noteq> [] then buildEnvironment envs (gm_put envMap (pv_Name env) (pv_Value env)) sources
          else buildEnvironment envs envMap sources)"

definition buildEnvironmentFromImage ::
  "k8s_avs_config \<Rightarrow> performer_image \<Rightarrow> (string \<times> string) list \<times> env_var_source list" where
  "buildEnvironmentFromImage cfg img =
     buildEnvironment (img_Envs img)
       (gm_put (gm_put [] ''AVS_ADDRESS'' (apc_AvsAddress cfg)) ''GRPC_PORT'' (portString defaultGRPCPort)) []"

definition createRequestFor :: "k8s_avs_config \<Rightarrow> string \<Rightarrow> performer_image \<Rightarrow> create_performer_request" where
  "createRequestFor cfg performerID img =
     (case buildEnvironmentFromImage cfg img of (envMap, sources) \<Rightarrow>
        \<lparr>cpr_Name = performerID, cpr_AVSAddress = apc_AvsAddress cfg, cpr_Image = img_Repository img @ '':'' @ img_Tag img,
         cpr_ImagePullPolicy = ''Never'', cpr_ImageTag = img_Tag img, cpr_ImageDigest = img_Digest img,
         cpr_GRPCPort = defaultGRPCPort, cpr_Environment = envMap, cpr_EnvironmentFrom = sources, cpr_Resources = None,
         cpr_Scheduling = None, cpr_HardwareRequirements = None, cpr_ServiceAccountName = img_ServiceAccountName img\<rparr>)"

text \<open>
  \<open>WaitTick now f\<close> is a tick of the poll at time \<open>now\<close>, \<open>WaitDone now f\<close> the case in which the context is found to have
  ended, which can only be taken when it has; \<open>f\<close> is how the cluster has changed since. \<open>None\<close>: still waiting.
\<close>

datatype 'c ready_event = WaitTick time "'c \<Rightarrow> 'c" | WaitDone time "'c \<Rightarrow> 'c"

fun waitLoop ::
  "'c kube_api \<Rightarrow> crd_operations \<Rightarrow> kctx \<Rightarrow> string \<Rightarrow> 'c ready_event list \<Rightarrow> 'c \<Rightarrow> (bool \<times> time \<times> 'c) option" where
  "waitLoop ka co ctx performerID [] c = None"
| "waitLoop ka co ctx performerID (WaitDone now f # evs) c =
     (if ctxEnded ctx now then Some (False, now, f c) else waitLoop ka co ctx performerID evs (f c))"
| "waitLoop ka co ctx performerID (WaitTick now f # evs) c =
     (case crd_GetPerformerStatus ka co (ctxEnded ctx now) performerID (f c) of
        Inl e \<Rightarrow> waitLoop ka co ctx performerID evs (f c)
      | Inr status \<Rightarrow>
          if kps_Ready status then Some (True, now, f c) else waitLoop ka co ctx performerID evs (f c))"

text \<open>The result is whether the performer became ready, with the time and the cluster at which the wait ended.\<close>

definition waitForPerformerReady ::
  "'c kube_api \<Rightarrow> crd_operations \<Rightarrow> kctx \<Rightarrow> time \<Rightarrow> string \<Rightarrow> 'c ready_event list \<Rightarrow> 'c \<Rightarrow> (bool \<times> time \<times> 'c) option" where
  "waitForPerformerReady ka co ctx now performerID evs c =
     waitLoop ka co (withTimeout ctx now defaultRunningWaitTimeout) performerID evs c"

text \<open>
  The environment of the gRPC clients: \<open>dial url tls\<close> is the error of \<open>NewGrpcClientWithRetry\<close>, if any. The
  connection is made with TLS.
\<close>

definition createPerformerResource ::
  "'c kube_api \<Rightarrow> (string \<Rightarrow> bool \<Rightarrow> string option) \<Rightarrow> k8s_avs_config \<Rightarrow> crd_operations \<Rightarrow> kctx \<Rightarrow> time \<Rightarrow> string \<Rightarrow> performer_image \<Rightarrow>
     'c ready_event list \<Rightarrow> 'c \<Rightarrow> ((k8s_error, performer_resource) result \<times> time \<times> 'c) option" where
  "createPerformerResource ka dial cfg co ctx now performerID img evs c =
     (case crd_CreatePerformer ka co (ctxEnded ctx now) (createRequestFor cfg performerID img) c of
        (Inl e, c1) \<Rightarrow> Some (Inl (CrdFailed e), now, c1)
      | (Inr createResponse, c1) \<Rightarrow>
     (case waitForPerformerReady ka co ctx now performerID evs c1 of
        None \<Rightarrow> None
      | Some (False, t, c2) \<Rightarrow>
          (case crd_DeletePerformer ka co (ctxEnded ctx t) performerID c2 of
             (e, c3) \<Rightarrow> Some (Inl (NotReady performerID), t, c3))
      | Some (True, t, c2) \<Rightarrow>
          (let endpoint = (if kac_EndpointOverride cfg \<noteq> [] then kac_EndpointOverride cfg else cresp_Endpoint createResponse)
           in case dial endpoint True of
                Some e \<Rightarrow> Some (Inl (ConnectionFailed e), t, c2)
              | None \<Rightarrow> Some (Inr \<lparr>pr_performerID = performerID, pr_avsAddress = apc_AvsAddress cfg, pr_image = img,
                  pr_status = statusStaged, pr_endpoint = endpoint, pr_createdAt = t\<rparr>, t, c2))))"

definition k8s_Initialize ::
  "'c kube_api \<Rightarrow> (string \<Rightarrow> bool \<Rightarrow> string option) \<Rightarrow> kctx \<Rightarrow> time \<Rightarrow> string \<Rightarrow> 'c ready_event list \<Rightarrow> 'c k8s_performer \<Rightarrow>
     (k8s_error option \<times> 'c k8s_performer) option" where
  "k8s_Initialize ka dial ctx now performerID evs akp =
     (let img = apc_Image (kp_config akp)
      in if img_Repository img = [] \<or> img_Tag img = [] then Some (None, akp)
      else case createPerformerResource ka dial (kp_config akp) (kp_crd akp) ctx now performerID img evs (kp_cluster akp) of
        None \<Rightarrow> None
      | Some (Inl e, t, c) \<Rightarrow> Some (Some e, akp\<lparr>kp_cluster := c\<rparr>)
      | Some (Inr pr, t, c) \<Rightarrow> Some (None, akp\<lparr>kp_cluster := c, kp_conns := pr_performerID pr # kp_conns akp,
          kp_current := Some (Some (pr\<lparr>pr_status := statusInService\<rparr>))\<rparr>))"

text \<open>The value of a successful creation is the performer's id and the time.\<close>

definition k8s_CreatePerformer ::
  "'c kube_api \<Rightarrow> (string \<Rightarrow> bool \<Rightarrow> string option) \<Rightarrow> kctx \<Rightarrow> time \<Rightarrow> string \<Rightarrow> performer_image \<Rightarrow> 'c ready_event list \<Rightarrow> 'c k8s_performer \<Rightarrow>
     ((k8s_error, string) result \<times> time \<times> 'c k8s_performer) option" where
  "k8s_CreatePerformer ka dial ctx now performerID img evs akp =
     (case kp_next akp of
        Some n \<Rightarrow> Some (Inl (NextPerformerExists (pr_performerID n)), now, akp)
      | None \<Rightarrow>
          (case createPerformerResource ka dial (kp_config akp) (kp_crd akp) ctx now performerID img evs (kp_cluster akp) of
             None \<Rightarrow> None
           | Some (Inl e, t, c) \<Rightarrow> Some (Inl e, t, akp\<lparr>kp_cluster := c\<rparr>)
           | Some (Inr pr, t, c) \<Rightarrow>
               Some (Inr (pr_performerID pr), t, akp\<lparr>kp_cluster := c, kp_conns := pr_performerID pr # kp_conns akp,
                 kp_next := Some (pr\<lparr>pr_status := statusStaged\<rparr>)\<rparr>)))"

section \<open>Tasks\<close>

definition tryAddTask :: "string \<Rightarrow> 'c k8s_performer \<Rightarrow> bool \<times> 'c k8s_performer" where
  "tryAddTask performerID akp =
     (let (state, akp1) =
        (case gm_get (kp_taskStates akp) performerID of
           None \<Rightarrow> ((0, PerformerStateActive), akp\<lparr>kp_taskStates := gm_put (kp_taskStates akp) performerID (0, PerformerStateActive)\<rparr>)
         | Some s \<Rightarrow> (s, akp))
      in if snd state \<noteq> PerformerStateActive then (False, akp1)
         else (True, akp1\<lparr>kp_taskStates := gm_put (kp_taskStates akp1) performerID (fst state + 1, snd state)\<rparr>))"

text \<open>\<open>waitGroup.Done()\<close> panics when the counter drops below zero.\<close>

definition taskCompleted :: "string \<Rightarrow> 'c k8s_performer \<Rightarrow> k8s_error option \<times> 'c k8s_performer" where
  "taskCompleted performerID akp =
     (case gm_get (kp_taskStates akp) performerID of
        None \<Rightarrow> (None, akp)
      | Some (n, s) \<Rightarrow>
          if n \<le> 0 then (Some NegativeWaitGroup, akp)
          else (None, akp\<lparr>kp_taskStates := gm_put (kp_taskStates akp) performerID (n - 1, s)\<rparr>))"

text \<open>The first half of \<open>waitForTaskCompletion\<close>; the wait is over when \<open>tasksDone\<close>.\<close>

definition markDraining :: "string \<Rightarrow> 'c k8s_performer \<Rightarrow> 'c k8s_performer" where
  "markDraining performerID akp =
     (case gm_get (kp_taskStates akp) performerID of
        None \<Rightarrow> akp
      | Some (n, s) \<Rightarrow>
          if s \<noteq> PerformerStateShutdown
          then akp\<lparr>kp_taskStates := gm_put (kp_taskStates akp) performerID (n, PerformerStateDraining)\<rparr> else akp)"

definition tasksDone :: "string \<Rightarrow> 'c k8s_performer \<Rightarrow> bool" where
  "tasksDone performerID akp = (case gm_get (kp_taskStates akp) performerID of None \<Rightarrow> True | Some (n, s) \<Rightarrow> n = 0)"

definition k8s_cleanupTaskWaitGroup :: "string \<Rightarrow> 'c k8s_performer \<Rightarrow> 'c k8s_performer" where
  "k8s_cleanupTaskWaitGroup performerID akp =
     (case gm_get (kp_taskStates akp) performerID of
        None \<Rightarrow> akp
      | Some (n, s) \<Rightarrow> akp\<lparr>kp_taskStates := gm_put (kp_taskStates akp) performerID (n, PerformerStateShutdown)\<rparr>)"

text \<open>\<open>RunTask\<close> up to the remote call, which gives the performer that runs the task.\<close>

definition k8s_RunTask :: "'c k8s_performer \<Rightarrow> (k8s_error, performer_resource) result \<times> 'c k8s_performer" where
  "k8s_RunTask akp =
     (case kp_current akp of
        None \<Rightarrow> (Inl NoCurrent, akp)
      | Some None \<Rightarrow> (Inl NoClient, akp)
      | Some (Some pr) \<Rightarrow>
          (case tryAddTask (pr_performerID pr) akp of
             (False, akp1) \<Rightarrow> (Inl (NoLongerAccepting (pr_performerID pr)), akp1)
           | (True, akp1) \<Rightarrow> (Inr pr, akp1)))"

text \<open>The answer of the remote call and the deferred \<open>taskCompleted\<close>.\<close>

definition k8s_RunTaskReturn ::
  "string \<Rightarrow> (string, bytes \<times> bytes) result \<Rightarrow> 'c k8s_performer \<Rightarrow> (k8s_error, performer_task_result) result \<times> 'c k8s_performer" where
  "k8s_RunTaskReturn performerID answer akp =
     (case taskCompleted performerID akp of
        (Some e, akp1) \<Rightarrow> (Inl e, akp1)
      | (None, akp1) \<Rightarrow>
          ((case answer of Inl e \<Rightarrow> Inl (TaskFailed e) | Inr res \<Rightarrow> Inr (newTaskResultFromResultProto res)), akp1))"

section \<open>Promotion, draining and removal\<close>

definition k8s_startDrainAndRemove :: "performer_resource \<Rightarrow> 'c k8s_performer \<Rightarrow> 'c k8s_performer" where
  "k8s_startDrainAndRemove pr akp =
     (let performerID = pr_performerID pr
      in case gm_get (kp_taskStates akp) performerID of
           None \<Rightarrow> akp\<lparr>kp_taskStates := gm_put (kp_taskStates akp) performerID (0, PerformerStateDraining), kp_drains := kp_drains akp @ [performerID]\<rparr>
         | Some (n, s) \<Rightarrow>
             if s = PerformerStateDraining \<or> s = PerformerStateShutdown then akp
             else akp\<lparr>kp_taskStates := gm_put (kp_taskStates akp) performerID (n, PerformerStateDraining), kp_drains := kp_drains akp @ [performerID]\<rparr>)"

text \<open>The goroutine of the drain after its wait, which is only over when the performer's tasks are done.\<close>

definition finishDrain :: "'c kube_api \<Rightarrow> string \<Rightarrow> 'c k8s_performer \<Rightarrow> 'c k8s_performer" where
  "finishDrain ka performerID akp =
     (let akp1 = akp\<lparr>kp_drains := remove1 performerID (kp_drains akp), kp_conns := removeAll performerID (kp_conns akp),
            kp_cluster := snd (crd_DeletePerformer ka (kp_crd akp) False performerID (kp_cluster akp))\<rparr>
      in k8s_cleanupTaskWaitGroup performerID akp1)"

definition k8s_PromotePerformer :: "string \<Rightarrow> 'c k8s_performer \<Rightarrow> k8s_error option \<times> 'c k8s_performer" where
  "k8s_PromotePerformer performerID akp =
     (case kp_current akp of
        Some None \<Rightarrow> (Some NilPerformer, akp)
      | cur \<Rightarrow>
          if (case cur of Some (Some pr) \<Rightarrow> pr_performerID pr = performerID | _ \<Rightarrow> False) then (None, akp)
          else case kp_next akp of
            None \<Rightarrow> (Some (NotInNext performerID), akp)
          | Some nxt \<Rightarrow>
              if pr_performerID nxt \<noteq> performerID then (Some (NotInNext performerID), akp)
              else (let akp1 = (case cur of Some (Some old) \<Rightarrow> k8s_startDrainAndRemove old akp | _ \<Rightarrow> akp)
                    in (None, akp1\<lparr>kp_current := Some (Some (nxt\<lparr>pr_status := statusInService\<rparr>)), kp_next := None\<rparr>)))"

definition k8s_RemovePerformer ::
  "'c kube_api \<Rightarrow> bool \<Rightarrow> string \<Rightarrow> 'c k8s_performer \<Rightarrow> k8s_error option \<times> 'c k8s_performer" where
  "k8s_RemovePerformer ka ended performerID akp =
     (case kp_current akp of
        Some None \<Rightarrow> (Some NilPerformer, akp)
      | cur \<Rightarrow>
          (let found =
             (case cur of
                Some (Some pr) \<Rightarrow> if pr_performerID pr = performerID then Some (akp\<lparr>kp_current := Some None\<rparr>) else None
              | _ \<Rightarrow> None);
               found2 =
             (case found of
                Some a \<Rightarrow> Some a
              | None \<Rightarrow> (case kp_next akp of
                  Some nxt \<Rightarrow> if pr_performerID nxt = performerID then Some (akp\<lparr>kp_next := None\<rparr>) else None
                | None \<Rightarrow> None))
           in case found2 of
                None \<Rightarrow> (Some (NoSuchPerformer performerID), akp)
              | Some akp1 \<Rightarrow>
                  (let akp2 = akp1\<lparr>kp_conns := removeAll performerID (kp_conns akp1)\<rparr>
                   in case crd_DeletePerformer ka (kp_crd akp2) ended performerID (kp_cluster akp2) of
                        (e, c) \<Rightarrow> (map_option CrdFailed e, akp2\<lparr>kp_cluster := c\<rparr>))))"

section \<open>Deployment\<close>

record k8s_deployment_result =
  kdr_Id :: string
  kdr_PerformerId :: string
  kdr_Image :: performer_image
  kdr_Message :: string

text \<open>
  The performer is awaited twice, in \<open>CreatePerformer\<close> and in \<open>Deploy\<close>; \<open>evs\<close> and \<open>evs'\<close> are the events of the two
  waits. Removal after a failure runs under a context of its own.
\<close>

definition deployCleanup ::
  "'c kube_api \<Rightarrow> string \<Rightarrow> k8s_error \<Rightarrow> 'c k8s_performer \<Rightarrow> (k8s_error, k8s_deployment_result) result \<times> 'c k8s_performer" where
  "deployCleanup ka performerID err akp =
     (case k8s_RemovePerformer ka False performerID akp of
        (e, akp1) \<Rightarrow> (Inl (if e = Some NilPerformer then NilPerformer else err), akp1\<lparr>kp_deploying := False\<rparr>))"

definition k8s_Deploy ::
  "'c kube_api \<Rightarrow> (string \<Rightarrow> bool \<Rightarrow> string option) \<Rightarrow> kctx \<Rightarrow> time \<Rightarrow> string \<Rightarrow> string \<Rightarrow> performer_image \<Rightarrow>
     'c ready_event list \<Rightarrow> 'c ready_event list \<Rightarrow> 'c k8s_performer \<Rightarrow>
     ((k8s_error, k8s_deployment_result) result \<times> 'c k8s_performer) option" where
  "k8s_Deploy ka dial ctx now uuid performerID img evs evs' akp =
     (if kp_deploying akp then Some (Inl (K8sDeploymentInProgress (apc_AvsAddress (kp_config akp))), akp)
      else
     (let deploymentID = ''k8s-deployment-'' @ apc_AvsAddress (kp_config akp) @ ''-'' @ uuid;
          deploymentCtx = withTimeout ctx now defaultDeploymentTimeout
      in case k8s_CreatePerformer ka dial deploymentCtx now performerID img evs (akp\<lparr>kp_deploying := True\<rparr>) of
           None \<Rightarrow> None
         | Some (Inl e, t, akp1) \<Rightarrow> Some (Inl e, akp1\<lparr>kp_deploying := False\<rparr>)
         | Some (Inr pid, t, akp1) \<Rightarrow>
        (case waitForPerformerReady ka (kp_crd akp1) deploymentCtx t pid evs' (kp_cluster akp1) of
           None \<Rightarrow> None
         | Some (False, t2, c2) \<Rightarrow> Some (deployCleanup ka pid (NotReady pid) (akp1\<lparr>kp_cluster := c2\<rparr>))
         | Some (True, t2, c2) \<Rightarrow>
             (case k8s_PromotePerformer pid (akp1\<lparr>kp_cluster := c2\<rparr>) of
                (Some NilPerformer, akp2) \<Rightarrow> Some (Inl NilPerformer, akp2)
              | (Some e, akp2) \<Rightarrow> Some (deployCleanup ka pid e akp2)
              | (None, akp2) \<Rightarrow>
                  Some (Inr \<lparr>kdr_Id = deploymentID, kdr_PerformerId = pid, kdr_Image = img,
                     kdr_Message = ''Kubernetes deployment completed successfully''\<rparr>, akp2\<lparr>kp_deploying := False\<rparr>)))))"

section \<open>Listing and shutdown\<close>

definition convertPerformerResource :: "time \<Rightarrow> performer_resource \<Rightarrow> performer_metadata" where
  "convertPerformerResource now pr =
     \<lparr>pm_PerformerID = pr_performerID pr, pm_AvsAddress = pr_avsAddress pr, pm_ResourceID = pr_performerID pr,
      pm_Status = pr_status pr, pm_ArtifactRegistry = img_Repository (pr_image pr), pm_ArtifactTag = img_Tag (pr_image pr),
      pm_ArtifactDigest = img_Digest (pr_image pr), pm_ContainerHealthy = True, pm_ApplicationHealthy = True,
      pm_LastHealthCheck = now\<rparr>"

definition k8s_ListPerformers :: "time \<Rightarrow> 'c k8s_performer \<Rightarrow> (k8s_error, performer_metadata list) result" where
  "k8s_ListPerformers now akp =
     (let nxt = (case kp_next akp of None \<Rightarrow> [] | Some pr \<Rightarrow> [convertPerformerResource now pr])
      in case kp_current akp of
           None \<Rightarrow> Inr nxt
         | Some None \<Rightarrow> Inl NilPerformer
         | Some (Some pr) \<Rightarrow> Inr (convertPerformerResource now pr # nxt))"

text \<open>
  \<open>Shutdown\<close> first marks and forgets every task state (\<open>k8s_ShutdownBegin\<close>); from then on tasks may come and go until
  it removes the performers. \<open>k8s_shutdownSlot\<close> is its work for one slot: it returns the error of the deletion.
\<close>

definition k8s_ShutdownBegin :: "'c k8s_performer \<Rightarrow> 'c k8s_performer" where
  "k8s_ShutdownBegin akp = akp\<lparr>kp_taskStates := []\<rparr>"

definition k8s_shutdownSlot :: "'c kube_api \<Rightarrow> string \<Rightarrow> 'c k8s_performer \<Rightarrow> crd_error list \<times> 'c k8s_performer" where
  "k8s_shutdownSlot ka performerID akp =
     (let akp1 = markDraining performerID (akp\<lparr>kp_conns := removeAll performerID (kp_conns akp)\<rparr>)
      in case crd_DeletePerformer ka (kp_crd akp1) False performerID (kp_cluster akp1) of
           (e, c) \<Rightarrow> ((case e of None \<Rightarrow> [] | Some x \<Rightarrow> [x]), k8s_cleanupTaskWaitGroup performerID (akp1\<lparr>kp_cluster := c\<rparr>)))"

definition k8s_ShutdownEnd :: "'c kube_api \<Rightarrow> 'c k8s_performer \<Rightarrow> (k8s_error, crd_error list) result \<times> 'c k8s_performer" where
  "k8s_ShutdownEnd ka akp =
     (case kp_current akp of
        Some None \<Rightarrow> (Inl NilPerformer, akp)
      | cur \<Rightarrow>
          (let (errs, akp1) = (case cur of
                 Some (Some pr) \<Rightarrow> (case k8s_shutdownSlot ka (pr_performerID pr) akp of (es, a) \<Rightarrow> (es, a\<lparr>kp_current := Some None\<rparr>))
               | _ \<Rightarrow> ([], akp));
               (errs', akp2) = (case kp_next akp1 of
                 Some pr \<Rightarrow> (case k8s_shutdownSlot ka (pr_performerID pr) akp1 of (es, a) \<Rightarrow> (es, a\<lparr>kp_next := None\<rparr>))
               | None \<Rightarrow> ([], akp1))
           in (Inr (errs @ errs'), akp2)))"

end
