(* ===== verification/Kubernetes_Theorems.thy ===== *)
theory Kubernetes_Theorems
  imports Kubernetes_Performer
begin

text \<open>
  Properties of the Kubernetes performer: what a deployment leaves in the slots, that draining waits for the
  tasks of a replaced performer, and where the code deviates from what it means to do.
\<close>

section \<open>Runs\<close>

text \<open>
  A run interleaves the operations with tasks. \<open>RunTask\<close> reads the current performer and then asks whether it
  accepts the task, two steps between which others may happen: \<open>loaded\<close> are the performers of tasks between the two,
  \<open>running\<close> those of the tasks that were accepted and have not returned. The cluster changes at any time. All
  operations but \<open>Shutdown\<close> take part.
\<close>

record 'c k8s_run =
  kr_akp :: "'c k8s_performer"
  kr_loaded :: "string list"
  kr_running :: "string list"

inductive k8s_step :: "'c kube_api \<Rightarrow> 'c k8s_run \<Rightarrow> 'c k8s_run \<Rightarrow> bool" for ka where
  Load: "kp_current (kr_akp st) = Some (Some pr) \<Longrightarrow>
    k8s_step ka st (st\<lparr>kr_loaded := pr_performerID pr # kr_loaded st\<rparr>)"
| Accept: "pid \<in> set (kr_loaded st) \<Longrightarrow> tryAddTask pid (kr_akp st) = (True, akp') \<Longrightarrow>
    k8s_step ka st (st\<lparr>kr_akp := akp', kr_loaded := remove1 pid (kr_loaded st), kr_running := pid # kr_running st\<rparr>)"
| Refuse: "pid \<in> set (kr_loaded st) \<Longrightarrow> tryAddTask pid (kr_akp st) = (False, akp') \<Longrightarrow>
    k8s_step ka st (st\<lparr>kr_akp := akp', kr_loaded := remove1 pid (kr_loaded st)\<rparr>)"
| Return: "pid \<in> set (kr_running st) \<Longrightarrow> taskCompleted pid (kr_akp st) = (None, akp') \<Longrightarrow>
    k8s_step ka st (st\<lparr>kr_akp := akp', kr_running := remove1 pid (kr_running st)\<rparr>)"
| Create: "k8s_CreatePerformer ka dial ctx now pid img evs (kr_akp st) = Some (res, t, akp') \<Longrightarrow>
    k8s_step ka st (st\<lparr>kr_akp := akp'\<rparr>)"
| Promote: "k8s_PromotePerformer pid (kr_akp st) = (e, akp') \<Longrightarrow> k8s_step ka st (st\<lparr>kr_akp := akp'\<rparr>)"
| Remove: "k8s_RemovePerformer ka ended pid (kr_akp st) = (e, akp') \<Longrightarrow> k8s_step ka st (st\<lparr>kr_akp := akp'\<rparr>)"
| Initialize: "k8s_Initialize ka dial ctx now pid evs (kr_akp st) = Some (e, akp') \<Longrightarrow> k8s_step ka st (st\<lparr>kr_akp := akp'\<rparr>)"
| Deploy: "k8s_Deploy ka dial ctx now uuid pid img evs evs' (kr_akp st) = Some (dres, akp') \<Longrightarrow> k8s_step ka st (st\<lparr>kr_akp := akp'\<rparr>)"
| Drained: "pid \<in> set (kp_drains (kr_akp st)) \<Longrightarrow> tasksDone pid (kr_akp st) \<Longrightarrow>
    k8s_step ka st (st\<lparr>kr_akp := finishDrain ka pid (kr_akp st)\<rparr>)"
| Others: "k8s_step ka st (st\<lparr>kr_akp := (kr_akp st)\<lparr>kp_cluster := f (kp_cluster (kr_akp st))\<rparr>\<rparr>)"

definition k8s_init :: "'c k8s_performer \<Rightarrow> 'c k8s_run" where
  "k8s_init akp = \<lparr>kr_akp = akp, kr_loaded = [], kr_running = []\<rparr>"

abbreviation k8s_reach :: "'c kube_api \<Rightarrow> 'c k8s_run \<Rightarrow> 'c k8s_run \<Rightarrow> bool" where
  "k8s_reach ka \<equiv> (k8s_step ka)\<^sup>*\<^sup>*"

section \<open>The counters\<close>

definition taskCount :: "'c k8s_performer \<Rightarrow> string \<Rightarrow> int" where
  "taskCount akp pid = (case gm_get (kp_taskStates akp) pid of None \<Rightarrow> 0 | Some (n, s) \<Rightarrow> n)"

definition lifecycle :: "'c k8s_performer \<Rightarrow> string \<Rightarrow> lifecycle_state option" where
  "lifecycle akp pid = map_option snd (gm_get (kp_taskStates akp) pid)"

lemma taskCount_update [simp]:
  "taskCount (akp\<lparr>kp_cluster := c\<rparr>) = taskCount akp" "taskCount (akp\<lparr>kp_next := n\<rparr>) = taskCount akp"
  "taskCount (akp\<lparr>kp_current := u\<rparr>) = taskCount akp" "taskCount (akp\<lparr>kp_conns := ks\<rparr>) = taskCount akp"
  "taskCount (akp\<lparr>kp_drains := d\<rparr>) = taskCount akp" "taskCount (akp\<lparr>kp_deploying := b\<rparr>) = taskCount akp"
  "taskCount (akp\<lparr>kp_taskStates := gm_put m k (v, s)\<rparr>) = (taskCount (akp\<lparr>kp_taskStates := m\<rparr>))(k := v)"
  by (auto simp: taskCount_def fun_eq_iff)

lemma lifecycle_update [simp]:
  "lifecycle (akp\<lparr>kp_cluster := c\<rparr>) = lifecycle akp" "lifecycle (akp\<lparr>kp_next := n\<rparr>) = lifecycle akp"
  "lifecycle (akp\<lparr>kp_current := u\<rparr>) = lifecycle akp" "lifecycle (akp\<lparr>kp_conns := ks\<rparr>) = lifecycle akp"
  "lifecycle (akp\<lparr>kp_drains := d\<rparr>) = lifecycle akp" "lifecycle (akp\<lparr>kp_deploying := b\<rparr>) = lifecycle akp"
  "lifecycle (akp\<lparr>kp_taskStates := gm_put m k (v, s)\<rparr>) = (lifecycle (akp\<lparr>kp_taskStates := m\<rparr>))(k \<mapsto> s)"
  by (auto simp: lifecycle_def fun_eq_iff)

lemma same_taskStates [simp]: "akp\<lparr>kp_taskStates := kp_taskStates akp\<rparr> = akp"
  by simp

lemma counters_put:
  assumes "gm_get (kp_taskStates akp) pid = x"
  shows "taskCount (akp\<lparr>kp_taskStates := gm_put (kp_taskStates akp) pid (n, s)\<rparr>) = (taskCount akp)(pid := n)"
    "lifecycle (akp\<lparr>kp_taskStates := gm_put (kp_taskStates akp) pid (n, s)\<rparr>) = (lifecycle akp)(pid \<mapsto> s)"
  by (auto simp: taskCount_def lifecycle_def fun_eq_iff)

lemma tryAddTask_cases:
  obtains (added) "tryAddTask pid akp = (True, akp\<lparr>kp_taskStates := gm_put (kp_taskStates akp) pid (taskCount akp pid + 1, PerformerStateActive)\<rparr>)"
      "lifecycle akp pid \<in> {None, Some PerformerStateActive}"
    | (refused) "tryAddTask pid akp = (False, akp)" "lifecycle akp pid \<in> {Some PerformerStateDraining, Some PerformerStateShutdown}"
proof (cases "gm_get (kp_taskStates akp) pid")
  case None
  then show thesis by (intro added) (simp_all add: tryAddTask_def taskCount_def lifecycle_def)
next
  case (Some x)
  then show thesis
    by (cases x; cases "snd x") (auto intro: added refused simp: tryAddTask_def taskCount_def lifecycle_def)
qed

lemma taskCompleted_cases:
  obtains (absent) "taskCompleted pid akp = (None, akp)" "lifecycle akp pid = None"
    | (negative) "taskCompleted pid akp = (Some NegativeWaitGroup, akp)" "taskCount akp pid \<le> 0" "lifecycle akp pid \<noteq> None"
    | (counted) s where "taskCompleted pid akp = (None, akp\<lparr>kp_taskStates := gm_put (kp_taskStates akp) pid (taskCount akp pid - 1, s)\<rparr>)"
      "lifecycle akp pid = Some s" "0 < taskCount akp pid"
proof (cases "gm_get (kp_taskStates akp) pid")
  case None
  then show thesis by (intro absent) (simp_all add: taskCompleted_def lifecycle_def)
next
  case (Some x)
  then show thesis
    by (cases x; cases "fst x \<le> 0") (auto intro: negative counted simp: taskCompleted_def taskCount_def lifecycle_def)
qed

lemma create_counters:
  assumes "k8s_CreatePerformer ka dial ctx now pid img evs akp = Some (res, t, akp')"
  shows "kp_taskStates akp' = kp_taskStates akp" "kp_drains akp' = kp_drains akp" "kp_current akp' = kp_current akp"
    "kp_config akp' = kp_config akp" "kp_crd akp' = kp_crd akp" "kp_deploying akp' = kp_deploying akp"
  using assms by (auto simp: k8s_CreatePerformer_def split: option.splits prod.splits sum.splits)

lemma remove_counters:
  assumes "k8s_RemovePerformer ka ended pid akp = (e, akp')"
  shows "kp_taskStates akp' = kp_taskStates akp" "kp_drains akp' = kp_drains akp" "kp_deploying akp' = kp_deploying akp"
  using assms by (auto simp: k8s_RemovePerformer_def Let_def split: option.splits prod.splits if_splits)

text \<open>Promotion changes the counters only by starting the drain of the performer it replaces.\<close>

lemma startDrain_cases:
  obtains (started) "lifecycle akp (pr_performerID pr) \<in> {None, Some PerformerStateActive}"
      "k8s_startDrainAndRemove pr akp = akp\<lparr>kp_taskStates := gm_put (kp_taskStates akp) (pr_performerID pr)
         (taskCount akp (pr_performerID pr), PerformerStateDraining), kp_drains := kp_drains akp @ [pr_performerID pr]\<rparr>"
    | (already) "lifecycle akp (pr_performerID pr) \<in> {Some PerformerStateDraining, Some PerformerStateShutdown}"
      "k8s_startDrainAndRemove pr akp = akp"
proof (cases "gm_get (kp_taskStates akp) (pr_performerID pr)")
  case None
  then show thesis by (intro started) (simp_all add: k8s_startDrainAndRemove_def taskCount_def lifecycle_def Let_def)
next
  case (Some x)
  then show thesis
    by (cases x; cases "snd x") (auto intro: started already simp: k8s_startDrainAndRemove_def taskCount_def lifecycle_def Let_def)
qed

lemma promote_cases:
  assumes "k8s_PromotePerformer pid akp = (e, akp')"
  obtains (same) "akp' = akp"
    | (first) nxt where "kp_next akp = Some nxt" "pr_performerID nxt = pid" "kp_current akp = None" "e = None"
      "akp' = akp\<lparr>kp_current := Some (Some (nxt\<lparr>pr_status := statusInService\<rparr>)), kp_next := None\<rparr>"
    | (replaced) nxt old where "kp_next akp = Some nxt" "pr_performerID nxt = pid" "kp_current akp = Some (Some old)"
      "pr_performerID old \<noteq> pid" "e = None"
      "akp' = (k8s_startDrainAndRemove old akp)\<lparr>kp_current := Some (Some (nxt\<lparr>pr_status := statusInService\<rparr>)), kp_next := None\<rparr>"
  using assms by (auto simp: k8s_PromotePerformer_def Let_def split: option.splits if_splits)

text \<open>What the operations on performers keep of the counters.\<close>

definition keepsCounters :: "'c k8s_performer \<Rightarrow> 'c k8s_performer \<Rightarrow> bool" where
  "keepsCounters akp akp' \<longleftrightarrow> taskCount akp' = taskCount akp \<and>
     (\<forall>pid\<in>set (kp_drains akp'). pid \<in> set (kp_drains akp) \<or> lifecycle akp' pid \<noteq> None) \<and>
     (\<forall>pid. lifecycle akp pid \<noteq> None \<longrightarrow> lifecycle akp' pid \<noteq> None) \<and>
     (\<forall>pid. lifecycle akp pid = Some PerformerStateShutdown \<longrightarrow> lifecycle akp' pid = Some PerformerStateShutdown)"

lemma counters_cong:
  assumes "kp_taskStates akp' = kp_taskStates akp"
  shows "taskCount akp' = taskCount akp" "lifecycle akp' = lifecycle akp"
  using assms by (simp_all add: taskCount_def lifecycle_def fun_eq_iff)

lemma keepsCounters_same:
  assumes "kp_taskStates akp' = kp_taskStates akp" "kp_drains akp' = kp_drains akp"
  shows "keepsCounters akp akp'"
  using assms counters_cong [OF assms(1)] by (simp add: keepsCounters_def)

lemma keepsCounters_trans: "keepsCounters a b \<Longrightarrow> keepsCounters b c \<Longrightarrow> keepsCounters a c"
  unfolding keepsCounters_def by metis

lemma create_keeps: "k8s_CreatePerformer ka dial ctx now pid img evs akp = Some (res, t, akp') \<Longrightarrow> keepsCounters akp akp'"
  by (rule keepsCounters_same) (use create_counters in \<open>metis+\<close>)

lemma remove_keeps: "k8s_RemovePerformer ka ended pid akp = (e, akp') \<Longrightarrow> keepsCounters akp akp'"
  by (rule keepsCounters_same) (use remove_counters in \<open>metis+\<close>)

lemma initialize_keeps: "k8s_Initialize ka dial ctx now pid evs akp = Some (e, akp') \<Longrightarrow> keepsCounters akp akp'"
  by (rule keepsCounters_same) (auto simp: k8s_Initialize_def Let_def split: if_splits option.splits prod.splits sum.splits)

lemma promote_keeps:
  assumes "k8s_PromotePerformer pid akp = (e, akp')"
  shows "keepsCounters akp akp'"
  using assms
proof (cases rule: promote_cases)
  case (replaced nxt old)
  show ?thesis
    by (cases rule: startDrain_cases [of akp old])
      (use replaced in \<open>auto simp: keepsCounters_def counters_put [OF refl]\<close>)
qed (simp_all add: keepsCounters_same)

lemma deploy_keeps:
  assumes "k8s_Deploy ka dial ctx now uuid pid img evs evs' akp = Some (res, akp')"
  shows "keepsCounters akp akp'"
proof (cases "kp_deploying akp")
  case True
  with assms show ?thesis by (auto simp: k8s_Deploy_def keepsCounters_same)
next
  case False
  let ?ctx = "withTimeout ctx now defaultDeploymentTimeout"
  obtain x t akp1 where cr: "k8s_CreatePerformer ka dial ?ctx now pid img evs (akp\<lparr>kp_deploying := True\<rparr>) = Some (x, t, akp1)"
    using assms False by (cases "k8s_CreatePerformer ka dial ?ctx now pid img evs (akp\<lparr>kp_deploying := True\<rparr>)")
      (auto simp: k8s_Deploy_def Let_def)
  have first: "keepsCounters akp (akp1\<lparr>kp_cluster := c\<rparr>)" "keepsCounters akp (akp1\<lparr>kp_deploying := b\<rparr>)" for c b
    by (rule keepsCounters_same; use create_counters [OF cr] in simp)+
  have idle: "keepsCounters a (a\<lparr>kp_deploying := b\<rparr>)" for a :: "'a k8s_performer" and b by (rule keepsCounters_same) simp_all
  have cleanup: "keepsCounters a a'" if "deployCleanup ka y err a = (r, a')" for y err r a a'
    using that keepsCounters_trans [OF remove_keeps idle] by (auto simp: deployCleanup_def split: prod.splits)
  show ?thesis
  proof (cases x)
    case (Inl e)
    with assms False cr first show ?thesis by (auto simp: k8s_Deploy_def Let_def)
  next
    case (Inr y)
    obtain ready t2 c2 where w: "waitForPerformerReady ka (kp_crd akp1) ?ctx t y evs' (kp_cluster akp1) = Some (ready, t2, c2)"
      using assms False cr Inr
      by (cases "waitForPerformerReady ka (kp_crd akp1) ?ctx t y evs' (kp_cluster akp1)") (auto simp: k8s_Deploy_def Let_def)
    obtain e a where pm: "k8s_PromotePerformer y (akp1\<lparr>kp_cluster := c2\<rparr>) = (e, a)" by fastforce
    have promoted: "keepsCounters akp a" by (rule keepsCounters_trans [OF first(1) promote_keeps [OF pm]])
    obtain r b where cl: "deployCleanup ka y (NotReady y) (akp1\<lparr>kp_cluster := c2\<rparr>) = (r, b)" by fastforce
    have ends: "keepsCounters akp akp'" if "deployCleanup ka y err a = (res, akp')" for err
      by (rule keepsCounters_trans [OF promoted cleanup [OF that]])
    have "keepsCounters akp b" "keepsCounters akp (a\<lparr>kp_deploying := False\<rparr>)"
      using keepsCounters_trans [OF first(1) cleanup [OF cl]] keepsCounters_trans [OF promoted idle] by blast+
    with assms False cr Inr w pm cl promoted ends show ?thesis
      by (auto simp: k8s_Deploy_def Let_def split: bool.splits option.splits k8s_error.splits)
  qed
qed

lemma finishDrain_counters:
  "taskCount (finishDrain ka pid akp) = taskCount akp"
  "lifecycle (finishDrain ka pid akp) = (if lifecycle akp pid = None then lifecycle akp else (lifecycle akp)(pid \<mapsto> PerformerStateShutdown))"
  "kp_drains (finishDrain ka pid akp) = remove1 pid (kp_drains akp)"
  by (auto simp: finishDrain_def k8s_cleanupTaskWaitGroup_def taskCount_def lifecycle_def fun_eq_iff Let_def split: option.splits)

text \<open>
  The counter of a performer is the number of its running tasks, a draining performer has a state, and only
  performers with a state have tasks.
\<close>

definition counters_ok :: "'c k8s_run \<Rightarrow> bool" where
  "counters_ok st \<longleftrightarrow>
     (\<forall>pid. taskCount (kr_akp st) pid = int (count_list (kr_running st) pid)) \<and>
     (\<forall>pid\<in>set (kp_drains (kr_akp st)). lifecycle (kr_akp st) pid \<noteq> None)"

lemma count_list_remove1: "x \<in> set xs \<Longrightarrow> int (count_list (remove1 x xs) y) = int (count_list xs y) - (if y = x then 1 else 0)"
  by (induction xs) (auto simp: count_list_0_iff)

lemma count_list_pos: "0 < count_list xs x \<longleftrightarrow> x \<in> set xs"
  by (metis count_list_0_iff neq0_conv)

lemma running_has_state:
  assumes "counters_ok st" "pid \<in> set (kr_running st)"
  shows "0 < taskCount (kr_akp st) pid" "lifecycle (kr_akp st) pid \<noteq> None"
proof -
  show "0 < taskCount (kr_akp st) pid" using assms count_list_pos [of "kr_running st" pid] by (simp add: counters_ok_def)
  then show "lifecycle (kr_akp st) pid \<noteq> None"
    by (cases "gm_get (kp_taskStates (kr_akp st)) pid") (simp_all add: taskCount_def lifecycle_def)
qed

lemma keepsCounters_ok:
  assumes "keepsCounters (kr_akp st) akp'" "counters_ok st"
  shows "counters_ok (st\<lparr>kr_akp := akp'\<rparr>) \<and> (\<forall>pid. lifecycle (kr_akp st) pid = Some PerformerStateShutdown \<longrightarrow>
    lifecycle akp' pid = Some PerformerStateShutdown)"
  using assms unfolding counters_ok_def keepsCounters_def by auto

lemma counters_ok_step:
  assumes "k8s_step ka st st'" "counters_ok st"
  shows "counters_ok st' \<and> (\<forall>pid. lifecycle (kr_akp st) pid = Some PerformerStateShutdown \<longrightarrow>
    lifecycle (kr_akp st') pid = Some PerformerStateShutdown \<and> count_list (kr_running st') pid \<le> count_list (kr_running st) pid)"
  using assms
proof (cases rule: k8s_step.cases)
  case (Accept pid akp')
  show ?thesis
  proof (cases rule: tryAddTask_cases [of pid "kr_akp st"])
    case added
    with Accept assms(2) show ?thesis by (auto simp: counters_ok_def counters_put [OF refl])
  qed (use Accept in simp)
next
  case (Refuse pid akp')
  show ?thesis
    by (cases rule: tryAddTask_cases [of pid "kr_akp st"]) (use Refuse assms(2) in \<open>simp_all add: counters_ok_def\<close>)
next
  case (Return pid akp')
  have r: "0 < taskCount (kr_akp st) pid" "lifecycle (kr_akp st) pid \<noteq> None"
    using running_has_state [OF assms(2)] Return by simp_all
  show ?thesis
  proof (cases rule: taskCompleted_cases [of pid "kr_akp st"])
    case (counted s)
    with Return assms(2) count_list_remove1 [of pid "kr_running st"] show ?thesis
      by (auto simp: counters_ok_def counters_put [OF refl])
  qed (use r in simp_all)
next
  case (Create pid dial ctx now img evs res t akp')
  with keepsCounters_ok [OF create_keeps assms(2)] show ?thesis by simp
next
  case (Promote pid e akp')
  with keepsCounters_ok [OF promote_keeps assms(2)] show ?thesis by simp
next
  case (Remove ended pid e akp')
  with keepsCounters_ok [OF remove_keeps assms(2)] show ?thesis by simp
next
  case (Initialize dial ctx now pid evs e akp')
  with keepsCounters_ok [OF initialize_keeps assms(2)] show ?thesis by simp
next
  case (Deploy dial ctx now uuid pid img evs evs' dres akp')
  with keepsCounters_ok [OF deploy_keeps assms(2)] show ?thesis by simp
next
  case (Drained pid)
  with assms(2) show ?thesis
    by (auto simp: counters_ok_def finishDrain_counters dest: notin_set_remove1 set_remove1_subset [THEN subsetD])
qed (auto simp: counters_ok_def)

lemma counters_ok_reach:
  assumes "k8s_reach ka st st'" "counters_ok st"
  shows "counters_ok st' \<and> (\<forall>pid. lifecycle (kr_akp st) pid = Some PerformerStateShutdown \<longrightarrow>
    lifecycle (kr_akp st') pid = Some PerformerStateShutdown \<and> count_list (kr_running st') pid \<le> count_list (kr_running st) pid)"
  using assms
proof (induction rule: rtranclp_induct)
  case (step st' st'')
  note before = step.IH [OF step.prems]
  note after = counters_ok_step [OF step.hyps(2) before [THEN conjunct1]]
  show ?case
  proof (intro conjI allI impI)
    show "counters_ok st''" using after by blast
    fix pid
    assume "lifecycle (kr_akp st) pid = Some PerformerStateShutdown"
    with before have b: "lifecycle (kr_akp st') pid = Some PerformerStateShutdown"
      "count_list (kr_running st') pid \<le> count_list (kr_running st) pid" by simp_all
    with after show "lifecycle (kr_akp st'') pid = Some PerformerStateShutdown" by simp
    from after b(1) have "count_list (kr_running st'') pid \<le> count_list (kr_running st') pid" by simp
    with b(2) show "count_list (kr_running st'') pid \<le> count_list (kr_running st) pid" by simp
  qed
qed simp

lemma counters_ok_init: "newAvsKubernetesPerformer cfg kc rest c = Inr akp \<Longrightarrow> counters_ok (k8s_init akp)"
  by (auto simp: newAvsKubernetesPerformer_def counters_ok_def k8s_init_def taskCount_def Let_def split: option.splits)

section \<open>Draining\<close>


text \<open>
  \<open>Shutdown\<close> forgets the wait groups before it waits for them. When it begins while a task runs, the performer in
  service still accepts another task, on a new wait group; the first task's return counts against that group, and the
  second task's return drives it below zero, which panics.
\<close>

theorem k8s_shutdown_breaks_task_counting:
  assumes "kp_current akp = Some (Some pr)"
  shows "\<exists>akp1 akp2. k8s_RunTask (k8s_ShutdownBegin akp) = (Inr pr, akp1) \<and>
    taskCompleted (pr_performerID pr) akp1 = (None, akp2) \<and>
    fst (k8s_RunTaskReturn (pr_performerID pr) answer akp2) = Inl NegativeWaitGroup"
  using assms
  by (simp add: k8s_RunTask_def k8s_ShutdownBegin_def tryAddTask_def taskCompleted_def k8s_RunTaskReturn_def)

section \<open>Deployments\<close>

text \<open>The performer that a successful \<open>CreatePerformer\<close> puts into the next slot.\<close>

lemma create_success:
  assumes "k8s_CreatePerformer ka dial ctx now pid img evs akp = Some (Inr x, t, akp')"
  obtains nxt where "x = pid" "kp_next akp = None" "kp_next akp' = Some nxt" "pr_performerID nxt = pid" "pr_image nxt = img"
    "pr_status nxt = statusStaged" "pid \<in> set (kp_conns akp')"
proof -
  from assms have none: "kp_next akp = None" by (auto simp: k8s_CreatePerformer_def split: option.splits)
  with assms obtain pr c where pr: "createPerformerResource ka dial (kp_config akp) (kp_crd akp) ctx now pid img evs (kp_cluster akp) =
      Some (Inr pr, t, c)" "x = pr_performerID pr"
    "akp' = akp\<lparr>kp_cluster := c, kp_conns := pr_performerID pr # kp_conns akp, kp_next := Some (pr\<lparr>pr_status := statusStaged\<rparr>)\<rparr>"
    by (auto simp: k8s_CreatePerformer_def split: option.splits prod.splits sum.splits)
  then have "pr_performerID pr = pid" "pr_image pr = img"
    by (auto simp: createPerformerResource_def Let_def split: prod.splits sum.splits option.splits bool.splits)
  with pr none show thesis by (intro that [of "pr\<lparr>pr_status := statusStaged\<rparr>"]) simp_all
qed

lemma create_failure:
  assumes "k8s_CreatePerformer ka dial ctx now pid img evs akp = Some (Inl e, t, akp')"
  shows "kp_next akp' = kp_next akp" "kp_conns akp' = kp_conns akp"
  using assms by (auto simp: k8s_CreatePerformer_def split: option.splits prod.splits sum.splits)

lemma remove_next:
  assumes "k8s_RemovePerformer ka ended pid akp = (e, akp')" "kp_next akp = Some nxt" "pr_performerID nxt = pid"
    and "kp_current akp \<noteq> Some None" "\<And>pr. kp_current akp = Some (Some pr) \<Longrightarrow> pr_performerID pr \<noteq> pid"
  shows "kp_current akp' = kp_current akp" "kp_next akp' = None" "e \<noteq> Some NilPerformer"
  using assms by (auto simp: k8s_RemovePerformer_def Let_def split: option.splits prod.splits)

definition deployedOutcome :: "performer_image \<Rightarrow> string \<Rightarrow> 'c k8s_performer \<Rightarrow> 'c k8s_performer \<Rightarrow> bool" where
  "deployedOutcome img pid akp akp' \<longleftrightarrow> kp_next akp' = None \<and>
     (\<exists>new. kp_current akp' = Some (Some new) \<and> pr_performerID new = pid \<and> pr_image new = img \<and> pr_status new = statusInService) \<and>
     (\<forall>old. kp_current akp = Some (Some old) \<longrightarrow>
        lifecycle akp' (pr_performerID old) \<in> {Some PerformerStateDraining, Some PerformerStateShutdown} \<and>
        (lifecycle akp (pr_performerID old) \<in> {None, Some PerformerStateActive} \<longrightarrow> pr_performerID old \<in> set (kp_drains akp')))"

lemma promoted_outcome:
  assumes "k8s_PromotePerformer pid akp = (e, akp')" "kp_next akp = Some nxt" "pr_performerID nxt = pid"
    and "kp_current akp \<noteq> Some None" "\<And>pr. kp_current akp = Some (Some pr) \<Longrightarrow> pr_performerID pr \<noteq> pid"
  shows "e = None \<and> deployedOutcome (pr_image nxt) pid akp akp'"
proof (cases "kp_current akp")
  case None
  with assms show ?thesis by (auto simp: k8s_PromotePerformer_def deployedOutcome_def)
next
  case (Some cur)
  with assms(4) obtain old where old: "kp_current akp = Some (Some old)" by (cases cur) auto
  with assms(1-3) assms(5) [OF old] have a: "e = None"
    "akp' = (k8s_startDrainAndRemove old akp)\<lparr>kp_current := Some (Some (nxt\<lparr>pr_status := statusInService\<rparr>)), kp_next := None\<rparr>"
    by (simp_all add: k8s_PromotePerformer_def)
  have "lifecycle (k8s_startDrainAndRemove old akp) (pr_performerID old) \<in> {Some PerformerStateDraining, Some PerformerStateShutdown} \<and>
    (lifecycle akp (pr_performerID old) \<in> {None, Some PerformerStateActive} \<longrightarrow> pr_performerID old \<in> set (kp_drains (k8s_startDrainAndRemove old akp)))"
    by (cases rule: startDrain_cases [of akp old]) (auto simp: counters_put [OF refl])
  with a old assms(3) show ?thesis by (simp add: deployedOutcome_def)
qed

text \<open>What a deployment does to the slots.\<close>

lemma k8s_deploy_effect:
  assumes "k8s_Deploy ka dial ctx now uuid pid img evs evs' akp = Some (res, akp')"
    and "kp_current akp \<noteq> Some None" "\<forall>pr. kp_current akp = Some (Some pr) \<longrightarrow> pr_performerID pr \<noteq> pid"
  shows "case res of
     Inr d \<Rightarrow> kdr_PerformerId d = pid \<and> deployedOutcome img pid akp akp'
   | Inl e \<Rightarrow> e \<noteq> NilPerformer \<and> kp_current akp' = kp_current akp \<and> kp_next akp' = kp_next akp"
proof (cases "kp_deploying akp")
  case True
  with assms(1) show ?thesis by (auto simp: k8s_Deploy_def)
next
  case False
  let ?ctx = "withTimeout ctx now defaultDeploymentTimeout"
  obtain x t akp1 where cr: "k8s_CreatePerformer ka dial ?ctx now pid img evs (akp\<lparr>kp_deploying := True\<rparr>) = Some (x, t, akp1)"
    using assms(1) False by (cases "k8s_CreatePerformer ka dial ?ctx now pid img evs (akp\<lparr>kp_deploying := True\<rparr>)")
      (auto simp: k8s_Deploy_def Let_def)
  note same = create_counters [OF cr, simplified]
  show ?thesis
  proof (cases x)
    case (Inl e)
    have "e \<noteq> NilPerformer" using cr Inl
      by (auto simp: k8s_CreatePerformer_def createPerformerResource_def Let_def split: option.splits prod.splits sum.splits bool.splits)
    with Inl cr False assms(1) same(3) create_failure [OF cr [unfolded Inl]] show ?thesis
      by (auto simp: k8s_Deploy_def Let_def)
  next
    case (Inr y)
    from create_success [OF cr [unfolded Inr]] obtain nxt where nxt: "y = pid" "kp_next akp = None" "kp_next akp1 = Some nxt"
      "pr_performerID nxt = pid" "pr_image nxt = img" by auto
    obtain ready t2 c2 where w: "waitForPerformerReady ka (kp_crd akp1) ?ctx t pid evs' (kp_cluster akp1) = Some (ready, t2, c2)"
      using assms(1) False cr Inr nxt(1)
      by (cases "waitForPerformerReady ka (kp_crd akp1) ?ctx t pid evs' (kp_cluster akp1)") (auto simp: k8s_Deploy_def Let_def)
    let ?a = "akp1\<lparr>kp_cluster := c2\<rparr>"
    show ?thesis
    proof (cases ready)
      case False
      obtain e a where rm: "k8s_RemovePerformer ka False pid ?a = (e, a)" by fastforce
      from remove_next [OF rm] nxt(3,4) same(3) assms(2,3) have "kp_current a = kp_current akp" "kp_next a = None" "e \<noteq> Some NilPerformer"
        by auto
      with assms(1) \<open>\<not> kp_deploying akp\<close> cr Inr nxt(1,2) w False rm show ?thesis
        by (auto simp: k8s_Deploy_def Let_def deployCleanup_def)
    next
      case True
      obtain e a where pm: "k8s_PromotePerformer pid ?a = (e, a)" by fastforce
      have "lifecycle ?a = lifecycle akp" using counters_cong(2) [of ?a akp] same(1) by simp
      with promoted_outcome [OF pm] nxt(3-5) same(3) assms(2,3)
      have prom: "e = None" "deployedOutcome img pid akp (a\<lparr>kp_deploying := False\<rparr>)"
        by (auto simp: deployedOutcome_def)
      with assms(1) \<open>\<not> kp_deploying akp\<close> cr Inr nxt(1) w True pm prom show ?thesis by (auto simp: k8s_Deploy_def Let_def)
    qed
  qed
qed

text \<open>
  A Kubernetes deployment replaces the performer in service or leaves both slots as they were. On success
  the new performer, with the deployed image, is in service, the next slot is free, and the performer it
  replaced accepts no more tasks and is being drained. On failure, both slots hold what they held before.
  The performer must not have been removed by hand before.
\<close>

theorem k8s_deployment_all_or_nothing:
  assumes "k8s_Deploy ka dial ctx now uuid pid img evs evs' akp = Some (res, akp')"
    and "kp_current akp \<noteq> Some None" "\<forall>pr. kp_current akp = Some (Some pr) \<longrightarrow> pr_performerID pr \<noteq> pid"
  shows "case res of
     Inr d \<Rightarrow> kdr_PerformerId d = pid \<and> deployedOutcome img pid akp akp'
   | Inl e \<Rightarrow> e \<noteq> NilPerformer \<and> kp_current akp' = kp_current akp \<and> kp_next akp' = kp_next akp"
  by (rule k8s_deploy_effect [OF assms])

section \<open>Where deployments go wrong\<close>

text \<open>The events of a wait keep a property of the cluster.\<close>

fun eventFun :: "'c ready_event \<Rightarrow> 'c \<Rightarrow> 'c" where
  "eventFun (WaitTick t f) = f"
| "eventFun (WaitDone t f) = f"

lemma waitLoop_keeps:
  assumes "waitLoop ka co ctx pid evs c = Some (ready, t, c')" "P c" "\<And>ev c. ev \<in> set evs \<Longrightarrow> P c \<Longrightarrow> P (eventFun ev c)"
  shows "P c' \<and> (\<not> ready \<longrightarrow> ctxEnded ctx t)"
  using assms
  by (induction ka co ctx pid evs c rule: waitLoop.induct) (fastforce split: if_splits sum.splits)+

lemma withTimeout_inner: "ctxEnded (withTimeout (withTimeout ctx now d) now d) t \<longleftrightarrow> ctxEnded (withTimeout ctx now d) t"
  by (simp add: ctxEnded_def withTimeout_def split: option.splits)

text \<open>
  A deployment whose performer does not become ready in time leaves the Performer resource in the
  cluster, for the operator to keep running. The wait ends with the deployment's own deadline, and the
  resource is deleted under that same, ended context; the API client does not perform calls under an ended
  context.
\<close>

theorem k8s_timeout_leaks_resource:
  assumes "k8s_Deploy ka dial ctx now uuid pid img evs evs' akp = Some (Inl (NotReady pid), akp')" "kp_next akp = None"
    and "k8s_CreatePerformer ka dial (withTimeout ctx now defaultDeploymentTimeout) now pid img evs (akp\<lparr>kp_deploying := True\<rparr>) =
      Some (Inl (NotReady pid), t, akp1)"
    and "\<forall>c ns n. kaDeletePerformer ka True c ns n = (Some ContextEnded, c)"
    and "\<forall>c c' p. kaCreatePerformer ka False c p = (None, c') \<longrightarrow> kaGetPerformer ka False c' (crd_Namespace p) (crd_Name p) \<noteq> Inl NotFound"
      "\<forall>c p. fst (kaCreatePerformer ka True c p) \<noteq> None"
    and "\<forall>ev\<in>set evs. \<forall>c. kaGetPerformer ka False c (co_namespace (kp_crd akp)) pid \<noteq> Inl NotFound \<longrightarrow>
      kaGetPerformer ka False (eventFun ev c) (co_namespace (kp_crd akp)) pid \<noteq> Inl NotFound"
  shows "kaGetPerformer ka False (kp_cluster akp') (co_namespace (kp_crd akp)) pid \<noteq> Inl NotFound \<and>
    kp_current akp' = kp_current akp \<and> kp_next akp' = None"
proof -
  let ?ctx = "withTimeout ctx now defaultDeploymentTimeout"
  let ?there = "\<lambda>c. kaGetPerformer ka False c (co_namespace (kp_crd akp)) pid \<noteq> Inl NotFound"
  from assms(2,3) obtain c where r: "createPerformerResource ka dial (kp_config akp) (kp_crd akp) ?ctx now pid img evs (kp_cluster akp) =
      Some (Inl (NotReady pid), t, c)" "akp1 = akp\<lparr>kp_deploying := True, kp_cluster := c\<rparr>"
    by (auto simp: k8s_CreatePerformer_def split: option.splits prod.splits sum.splits)
  then obtain resp c1 c2 e where s: "crd_CreatePerformer ka (kp_crd akp) (ctxEnded ?ctx now) (createRequestFor (kp_config akp) pid img) (kp_cluster akp) = (Inr resp, c1)"
    "waitForPerformerReady ka (kp_crd akp) ?ctx now pid evs c1 = Some (False, t, c2)"
    "crd_DeletePerformer ka (kp_crd akp) (ctxEnded ?ctx t) pid c2 = (e, c)"
    by (auto simp: createPerformerResource_def Let_def split: prod.splits sum.splits option.splits bool.splits)
  from crd_CreatePerformer_Inr [OF s(1)] obtain resources where w:
    "kaCreatePerformer ka (ctxEnded ?ctx now) (kp_cluster akp) (crdFor (kp_crd akp) (createRequestFor (kp_config akp) pid img) resources) = (None, c1)"
    by blast
  with assms(6) have live: "\<not> ctxEnded ?ctx now" by (metis fst_conv)
  have "crd_Namespace (crdFor (kp_crd akp) (createRequestFor (kp_config akp) pid img) resources) = co_namespace (kp_crd akp)"
    "crd_Name (crdFor (kp_crd akp) (createRequestFor (kp_config akp) pid img) resources) = pid"
    by (simp_all add: crdFor_def createRequestFor_def split: prod.splits)
  with w live assms(5) have "?there c1" by (metis (full_types))
  from waitLoop_keeps [of ka "kp_crd akp" _ pid evs c1 False t c2 ?there, OF s(2) [unfolded waitForPerformerReady_def] this]
  have "?there c2" "ctxEnded (withTimeout ?ctx now defaultRunningWaitTimeout) t" using assms(7) by auto
  then have "ctxEnded ?ctx t"
    using withTimeout_inner [of ctx now defaultDeploymentTimeout t]
    by (simp add: defaultDeploymentTimeout_def defaultRunningWaitTimeout_def)
  with s(3) assms(4) have "c = c2" by (simp add: crd_DeletePerformer_def)
  moreover from assms(1,3) have "akp' = akp1\<lparr>kp_deploying := False\<rparr>" by (auto simp: k8s_Deploy_def Let_def split: if_splits)
  ultimately show ?thesis using \<open>?there c2\<close> r(2) assms(2) by simp
qed

text \<open>
  Removing the performer in service makes the Kubernetes performer unusable. The removal stores a \<open>nil\<close>
  pointer in the current slot, which promotion, removal, listing and shutdown dereference: each of them then panics,
  and no later deployment can succeed.
\<close>

theorem k8s_removed_current_unusable:
  assumes "kp_current akp = Some (Some pr)" "k8s_RemovePerformer ka ended (pr_performerID pr) akp = (e, akp1)"
  shows "fst (k8s_PromotePerformer pid akp1) = Some NilPerformer \<and> fst (k8s_RemovePerformer ka ended' pid akp1) = Some NilPerformer \<and>
    k8s_ListPerformers now akp1 = Inl NilPerformer \<and> fst (k8s_ShutdownEnd ka akp1) = Inl NilPerformer \<and>
    (\<forall>d akp2. k8s_Deploy ka dial ctx now uuid pid img evs evs' akp1 \<noteq> Some (Inr d, akp2))"
proof -
  from assms have nil: "kp_current akp1 = Some None"
    by (auto simp: k8s_RemovePerformer_def Let_def split: prod.splits)
  moreover have "k8s_Deploy ka dial ctx now uuid pid img evs evs' akp1 \<noteq> Some (Inr d, akp2)" for d akp2
  proof
    assume d: "k8s_Deploy ka dial ctx now uuid pid img evs evs' akp1 = Some (Inr d, akp2)"
    then obtain x t a where a: "k8s_CreatePerformer ka dial (withTimeout ctx now defaultDeploymentTimeout) now pid img evs
        (akp1\<lparr>kp_deploying := True\<rparr>) = Some (x, t, a)" "\<not> kp_deploying akp1"
      by (auto simp: k8s_Deploy_def Let_def split: if_splits option.splits)
    from create_counters(3) [OF a(1)] nil have "kp_current a = Some None" by simp
    then have "fst (k8s_PromotePerformer y (a\<lparr>kp_cluster := c\<rparr>)) = Some NilPerformer" for y c
      by (simp add: k8s_PromotePerformer_def)
    with d a show False
      by (auto simp: k8s_Deploy_def Let_def deployCleanup_def k8s_PromotePerformer_def \<open>kp_current a = Some None\<close>
          split: sum.splits option.splits prod.splits bool.splits)
  qed
  ultimately show ?thesis
    by (simp add: k8s_PromotePerformer_def k8s_RemovePerformer_def k8s_ListPerformers_def k8s_ShutdownEnd_def)
qed

end
