(* ===== verification/Performer_Interface.thy ===== *)
theory Performer_Interface
  imports Performer_Theorems Kubernetes_Theorems
begin

text \<open>
  The contract of \<open>IAvsPerformer\<close> (\<open>ponos/pkg/executor/avsPerformer/avsPerformer.go\<close>) as far as deployments go, and
  its two implementations. Abstractly a performer is the deployment that it serves, if any: a deployment that succeeds
  replaces it, and nothing else that happens between deployments changes it.
\<close>

section \<open>The contract\<close>

text \<open>
  The history of a run lists the deployments that returned, each with its image and, if it succeeded, the id of its performer.
\<close>

type_synonym deployment_log = "(performer_image \<times> string option) list"

fun lastDeployed :: "deployment_log \<Rightarrow> (string \<times> performer_image) option \<Rightarrow> (string \<times> performer_image) option" where
  "lastDeployed [] served = served"
| "lastDeployed ((img, Some pid) # hist) served = lastDeployed hist (Some (pid, img))"
| "lastDeployed ((img, None) # hist) served = lastDeployed hist served"

lemma lastDeployed_append: "lastDeployed (hist @ hist') served = lastDeployed hist' (lastDeployed hist served)"
  by (induction hist served rule: lastDeployed.induct) simp_all

inductive deployment_run ::
  "('p \<Rightarrow> performer_image \<Rightarrow> string option \<Rightarrow> 'p \<Rightarrow> bool) \<Rightarrow> ('p \<Rightarrow> 'p \<Rightarrow> bool) \<Rightarrow> 'p \<Rightarrow> deployment_log \<Rightarrow> 'p \<Rightarrow> bool"
  for deploys background p where
  Start: "deployment_run deploys background p [] p"
| Deployed: "deployment_run deploys background p hist q \<Longrightarrow> deploys q img r q' \<Longrightarrow> deployment_run deploys background p (hist @ [(img, r)]) q'"
| Background: "deployment_run deploys background p hist q \<Longrightarrow> background q q' \<Longrightarrow> deployment_run deploys background p hist q'"

locale avs_performer =
  fixes deploys :: "'p \<Rightarrow> performer_image \<Rightarrow> string option \<Rightarrow> 'p \<Rightarrow> bool"
    and background :: "'p \<Rightarrow> 'p \<Rightarrow> bool"
    and live :: "'p \<Rightarrow> bool"
    and serving :: "'p \<Rightarrow> (string \<times> performer_image) option"
  assumes deploy_live: "live p \<Longrightarrow> deploys p img r p' \<Longrightarrow> live p'"
    and deploy_succeeds: "live p \<Longrightarrow> deploys p img (Some pid) p' \<Longrightarrow> serving p' = Some (pid, img)"
    and deploy_fails: "live p \<Longrightarrow> deploys p img None p' \<Longrightarrow> serving p' = serving p"
    and background_live: "live p \<Longrightarrow> background p p' \<Longrightarrow> live p'"
    and background_serving: "live p \<Longrightarrow> background p p' \<Longrightarrow> serving p' = serving p"
begin

lemma run_serves:
  assumes "deployment_run deploys background p hist q" "live p"
  shows "live q \<and> serving q = lastDeployed hist (serving p)"
  using assms
proof (induction rule: deployment_run.induct)
  case (Deployed hist q img r q')
  then have q: "live q" "serving q = lastDeployed hist (serving p)" by blast+
  with Deployed.hyps show ?case
    by (cases r) (auto simp: lastDeployed_append deploy_fails deploy_succeeds dest: deploy_live)
next
  case (Background hist q q')
  then show ?case using background_live background_serving by metis
qed simp

end

section \<open>The container performer\<close>

definition container_serving :: "'d container_performer \<Rightarrow> (string \<times> performer_image) option" where
  "container_serving aps = (case cp_current aps of
     Some (Some r) \<Rightarrow> Some (pc_performerID (cp_heap aps ! r), pc_image (cp_heap aps ! r)) | _ \<Rightarrow> None)"

definition container_live :: "'d container_performer \<Rightarrow> bool" where
  "container_live aps \<longleftrightarrow> slots_ok aps \<and> cp_current aps \<noteq> Some None"

inductive container_deploys :: "'d container_manager \<Rightarrow> 'd container_performer \<Rightarrow> performer_image \<Rightarrow> string option \<Rightarrow> 'd container_performer \<Rightarrow> bool"
  for cm where
  Returned: "freshId (generatePerformerID (cp_config aps) uuid') aps \<Longrightarrow>
    performerDeploy cm False uuid uuid' start timestamp now evs img aps = DeployReturned res aps' \<Longrightarrow>
    r = (case res of Inl e \<Rightarrow> None | Inr dr \<Rightarrow> Some (dr_PerformerId dr)) \<Longrightarrow> container_deploys cm aps img r aps'"

text \<open>Tasks, health checks, container events and drains.\<close>

inductive container_background :: "'d container_manager \<Rightarrow> 'd container_performer \<Rightarrow> 'd container_performer \<Rightarrow> bool" for cm where
  Run: "performerRunTask execute task aps = (res, aps') \<Longrightarrow> container_background cm aps aps'"
| Tick: "performPeriodicApplicationHealthChecks cm now ok aps = Some aps' \<Longrightarrow> container_background cm aps aps'"
| Event: "r < length (cp_heap aps) \<Longrightarrow> container_background cm aps (handleContainerEvent cm uuid now timestamp event r aps)"
| Drain: "r \<in> set (cp_drains aps) \<Longrightarrow> tasksComplete (pc_performerID (cp_heap aps ! r)) aps \<Longrightarrow>
    container_background cm aps (drainAndRemove cm r aps)"

lemma container_monitored:
  assumes "monitored f aps aps'" "container_live aps"
  shows "container_live aps' \<and> container_serving aps' = container_serving aps"
proof -
  have cur: "cp_current aps' = cp_current aps" using assms(1) by (simp add: monitored_def)
  have "r < length (cp_heap aps)" if "cp_current aps = Some (Some r)" for r
    using assms(2) that by (simp add: container_live_def slots_ok_def)
  with monitored_ids(2,5) [OF assms(1)] cur slots_ok_monitored [OF assms(1)] assms(2) show ?thesis
    by (auto simp: container_live_def container_serving_def split: option.splits)
qed

lemma container_background_keeps:
  assumes "cm_ok cm containersOf" "container_background cm aps aps'" "container_live aps"
  shows "container_live aps' \<and> container_serving aps' = container_serving aps"
  using assms(2)
proof cases
  case (Run execute task res)
  have "cp_current aps' = cp_current aps" "cp_heap aps' = cp_heap aps"
    using Run by (auto simp: performerRunTask_def addTask_def doneTask_def getOrCreateTaskWaitGroup_def Let_def
        split: option.splits sum.splits if_splits)
  with slots_ok_run [OF _ Run] assms(3) show ?thesis by (auto simp: container_live_def container_serving_def split: option.splits)
next
  case (Tick now ok)
  show ?thesis by (rule container_monitored [OF monitored_healthChecks [OF assms(1) Tick] assms(3)])
next
  case (Event r uuid now timestamp event)
  show ?thesis unfolding Event(1) by (rule container_monitored [OF monitored_event [OF assms(1) Event(2)] assms(3)])
next
  case (Drain r)
  have "cp_current aps' = cp_current aps" "cp_heap aps' = cp_heap aps"
    using Drain(1) by (simp_all add: drainAndRemove_def cleanupTaskWaitGroup_def Let_def)
  with slots_ok_drain [OF _ Drain(2)] Drain(1) assms(3) show ?thesis
    by (auto simp: container_live_def container_serving_def split: option.splits)
qed

text \<open>No operation of a deployment changes the id or the image of a container that exists.\<close>

abbreviation heapIds :: "'d container_performer \<Rightarrow> (string \<times> performer_image) list" where
  "heapIds aps \<equiv> map (\<lambda>c. (pc_performerID c, pc_image c)) (cp_heap aps)"

lemma heapIds_upd:
  assumes "\<And>c. (pc_performerID (f c), pc_image (f c)) = (pc_performerID c, pc_image c)"
  shows "heapIds (updContainer r f aps) = heapIds aps"
  using assms by (cases "r < length (cp_heap aps)")
    (simp_all add: map_update list_update_same_conv list_update_beyond not_less)

lemma heapIds_monitored:
  assumes "monitored f aps aps'"
  shows "heapIds aps' = heapIds aps"
  using monitored_heap(1) [OF assms] monitored_ids(2,5) [OF assms] by (simp add: list_eq_iff_nth_eq)

lemma heapIds_remove: "heapIds (snd (performerRemove cm pid aps)) = heapIds aps"
proof (cases "performerRemove cm pid aps")
  case (Pair e aps')
  then show ?thesis
  proof (cases rule: performerRemove_cases)
    case (removed r x d aps1)
    then have "heapIds aps1 = heapIds aps" by auto
    with removed(5) heapIds_upd [where f = "\<lambda>c. c\<lparr>pc_statusDone := True\<rparr>" and r = r and aps = aps1] Pair show ?thesis by simp
  qed (use Pair in simp)
qed

lemma heapIds_promote:
  assumes "performerPromote pid aps = (e, aps')"
  shows "heapIds aps' = heapIds aps"
  using assms
proof (cases rule: performerPromote_cases)
  case (promoted r aps1)
  have "heapIds aps1 = heapIds aps" unfolding promoted(6) by (simp split: option.splits)
  with promoted(7) heapIds_upd [where f = "\<lambda>c. c\<lparr>pc_status := statusInService\<rparr>" and r = r and aps = aps1] show ?thesis by simp
qed simp

lemma heapIds_end: "heapIds (deployEnd r aps) = heapIds aps"
  using heapIds_upd [where f = "\<lambda>c. c\<lparr>pc_statusDone := True\<rparr>" and r = r and aps = aps] by (simp add: deployEnd_def)

lemma heapIds_finish:
  assumes "deployFinish cm did start now cr w aps = (res, aps')"
  shows "heapIds aps' = heapIds aps"
proof -
  obtain e aps1 where p: "performerPromote (cr_PerformerId cr) aps = (e, aps1)" by fastforce
  with assms heapIds_promote [OF p] show ?thesis
    by (cases w; cases e) (auto simp: deployFinish_def heapIds_end heapIds_remove)
qed

lemma heapIds_deploy:
  assumes "cm_ok cm containersOf" "performerDeploy cm False uuid uuid' start timestamp now evs img aps = DeployReturned res aps'"
  shows "\<exists>new. heapIds aps' = heapIds aps @ new"
proof (cases "cp_deploying aps")
  case False
  obtain x aps1 where c: "createPerformer cm False uuid' start timestamp img (aps\<lparr>cp_deploying := True\<rparr>) = (x, aps1)" by fastforce
  then obtain new where new: "heapIds aps1 = heapIds aps @ new"
    by (auto simp: createPerformer_def Let_def split: option.splits prod.splits sum.splits)
  show ?thesis
  proof (cases x)
    case (Inl e)
    with assms(2) False c new show ?thesis by (auto simp: performerDeploy_def)
  next
    case (Inr cr)
    obtain out aps2 where w: "waitForHealthy cm (cr_ref cr) evs aps1 = (out, aps2)" by fastforce
    from createPerformer_ref [OF c [unfolded Inr]] have "cr_ref cr < length (cp_heap aps1)" by simp
    from heapIds_monitored [OF monitored_wait [OF assms(1) this w]] have "heapIds aps2 = heapIds aps @ new" using new by simp
    moreover from assms(2) False c Inr w obtain did wt where "deployFinish cm did start now cr wt aps2 = (res, aps')"
      by (cases out) (auto simp: performerDeploy_def Let_def split: prod.splits)
    ultimately show ?thesis using heapIds_finish by metis
  qed
qed (use assms(2) in \<open>auto simp: performerDeploy_def\<close>)

lemma container_serving_heap:
  assumes "heapIds aps' = heapIds aps @ new" "cp_current aps' = cp_current aps" "slots_ok aps"
  shows "container_serving aps' = container_serving aps"
proof (cases "cp_current aps")
  case (Some cur)
  show ?thesis
  proof (cases cur)
    case (Some r)
    with \<open>cp_current aps = Some cur\<close> assms(3) have r: "r < length (cp_heap aps)" by (simp add: slots_ok_def)
    moreover from arg_cong [OF assms(1), of length] have "length (cp_heap aps) \<le> length (cp_heap aps')" by simp
    ultimately have "(heapIds aps' ! r) = heapIds aps ! r" unfolding assms(1) by (simp add: nth_append)
    with r \<open>length (cp_heap aps) \<le> length (cp_heap aps')\<close> assms(2) \<open>cp_current aps = Some cur\<close> Some
    show ?thesis by (simp add: container_serving_def)
  qed (use Some assms(2) in \<open>simp add: container_serving_def\<close>)
qed (use assms(2) in \<open>simp add: container_serving_def\<close>)

lemma container_deploys_effect:
  assumes "cm_ok cm containersOf" "container_deploys cm aps img r aps'" "container_live aps"
  shows "container_live aps' \<and> container_serving aps' = (case r of None \<Rightarrow> container_serving aps | Some pid \<Rightarrow> Some (pid, img))"
  using assms(2)
proof cases
  case (Returned uuid' uuid start timestamp now evs res)
  from assms(3) have live: "slots_ok aps" "cp_current aps \<noteq> Some None" by (simp_all add: container_live_def)
  note effect = deploy_effect [OF assms(1) live Returned(1,2)]
  have ok: "slots_ok aps'"
    using slots_ok_deploy [OF assms(1) live(1) Returned(1), of False uuid start timestamp now evs img res aps'] Returned(2) by simp
  show ?thesis
  proof (cases res)
    case (Inl e)
    with effect have cur: "cp_current aps' = cp_current aps" by simp
    obtain new where "heapIds aps' = heapIds aps @ new" using heapIds_deploy [OF assms(1) Returned(2)] by blast
    from container_serving_heap [OF this cur live(1)] Inl ok cur live(2) Returned(3) show ?thesis by (simp add: container_live_def)
  next
    case (Inr dr)
    with effect ok Returned(3) show ?thesis by (auto simp: container_live_def container_serving_def in_service_def)
  qed
qed

lemma container_contract:
  assumes "cm_ok cm containersOf"
  shows "avs_performer (container_deploys cm) (container_background cm) container_live container_serving"
  using container_deploys_effect [OF assms] container_background_keeps [OF assms] by unfold_locales fastforce+

interpretation sample_container: avs_performer "container_deploys sample_manager" "container_background sample_manager"
  container_live container_serving
  by (rule container_contract [OF sample_manager_ok])

section \<open>The Kubernetes performer\<close>

definition k8s_serving :: "'c k8s_performer \<Rightarrow> (string \<times> performer_image) option" where
  "k8s_serving akp = (case kp_current akp of Some (Some pr) \<Rightarrow> Some (pr_performerID pr, pr_image pr) | _ \<Rightarrow> None)"

definition k8s_live :: "'c k8s_performer \<Rightarrow> bool" where
  "k8s_live akp \<longleftrightarrow> kp_current akp \<noteq> Some None"

text \<open>Every deployment has a new performer id, which ends in a random number.\<close>

inductive k8s_deploys :: "'c kube_api \<Rightarrow> 'c k8s_performer \<Rightarrow> performer_image \<Rightarrow> string option \<Rightarrow> 'c k8s_performer \<Rightarrow> bool" for ka where
  Returned: "\<forall>pr. kp_current akp = Some (Some pr) \<longrightarrow> pr_performerID pr \<noteq> pid \<Longrightarrow>
    k8s_Deploy ka dial ctx now uuid pid img evs evs' akp = Some (res, akp') \<Longrightarrow>
    r = (case res of Inl e \<Rightarrow> None | Inr d \<Rightarrow> Some (kdr_PerformerId d)) \<Longrightarrow> k8s_deploys ka akp img r akp'"

text \<open>Tasks, drains and changes of the cluster.\<close>

inductive k8s_background :: "'c kube_api \<Rightarrow> 'c k8s_performer \<Rightarrow> 'c k8s_performer \<Rightarrow> bool" for ka where
  Run: "k8s_RunTask akp = (res, akp') \<Longrightarrow> k8s_background ka akp akp'"
| Return: "k8s_RunTaskReturn pid answer akp = (res', akp') \<Longrightarrow> k8s_background ka akp akp'"
| Drain: "pid \<in> set (kp_drains akp) \<Longrightarrow> tasksDone pid akp \<Longrightarrow> k8s_background ka akp (finishDrain ka pid akp)"
| Cluster: "k8s_background ka akp (akp\<lparr>kp_cluster := c\<rparr>)"

lemma k8s_background_current: "k8s_background ka akp akp' \<Longrightarrow> kp_current akp' = kp_current akp"
proof (induction rule: k8s_background.induct)
  case (Run akp res akp')
  then show ?case by (auto simp: k8s_RunTask_def tryAddTask_def Let_def split: option.splits prod.splits bool.splits if_splits)
next
  case (Return pid answer akp res' akp')
  then show ?case by (auto simp: k8s_RunTaskReturn_def taskCompleted_def split: option.splits prod.splits if_splits)
next
  case (Drain pid akp)
  show ?case by (simp add: finishDrain_def k8s_cleanupTaskWaitGroup_def Let_def split: option.splits prod.splits)
qed simp

interpretation kubernetes: avs_performer "k8s_deploys ka" "k8s_background ka" k8s_live k8s_serving for ka
proof (unfold_locales, goal_cases)
  case (1 p img r p')
  from 1(2,1) show ?case
  proof cases
    case (Returned pid dial ctx now uuid evs evs' res)
    with k8s_deploy_effect [OF Returned(2)] 1(1) show ?thesis
      by (auto simp: k8s_live_def deployedOutcome_def split: sum.splits)
  qed
next
  case (2 p img pid' p')
  from 2(2) show ?case
  proof cases
    case (Returned pid dial ctx now uuid evs evs' res)
    with k8s_deploy_effect [OF Returned(2)] 2(1) show ?thesis
      by (auto simp: k8s_live_def k8s_serving_def deployedOutcome_def split: sum.splits)
  qed
next
  case (3 p img p')
  from 3(2) show ?case
  proof cases
    case (Returned pid dial ctx now uuid evs evs' res)
    with k8s_deploy_effect [OF Returned(2)] 3(1) show ?thesis
      by (auto simp: k8s_live_def k8s_serving_def split: sum.splits)
  qed
qed (simp_all add: k8s_background_current k8s_live_def k8s_serving_def)

section \<open>The refinement\<close>

text \<open>
  C24. Both performers implement the same deployment slot. From a new container performer and from a new
  Kubernetes performer, after any sequence of deployments that return, successfully or not, with tasks, health checks,
  container events, drains and changes of the cluster in between, the performer in service is the one of
  the last deployment that succeeded, with its image, and there is none when none succeeded.
\<close>

theorem last_deployment_serves:
  assumes "cm_ok cm containersOf"
    and "deployment_run (container_deploys cm) (container_background cm) (newAvsContainerPerformer cfg d) hist aps"
    and "newAvsKubernetesPerformer cfg' kc rest c = Inr akp" "deployment_run (k8s_deploys ka) (k8s_background ka) akp hist' akp'"
  shows "container_serving aps = lastDeployed hist None \<and> k8s_serving akp' = lastDeployed hist' None"
proof -
  have "container_live (newAvsContainerPerformer cfg d)" "container_serving (newAvsContainerPerformer cfg d) = None"
    by (simp_all add: container_live_def container_serving_def newAvsContainerPerformer_def slots_ok_def)
  moreover have "k8s_live akp" "k8s_serving akp = None"
    using assms(3) by (auto simp: newAvsKubernetesPerformer_def k8s_live_def k8s_serving_def Let_def split: option.splits)
  ultimately show ?thesis
    using avs_performer.run_serves [OF container_contract [OF assms(1)] assms(2)] kubernetes.run_serves [OF assms(4)] by simp
qed

end
