(* ===== verification/Kubernetes_Witnesses.thy ===== *)
theory Kubernetes_Witnesses
  imports Operator_Theorems Performer_Interface
begin

text \<open>
  Closed instances of the theorems on Kubernetes: an API server that keeps its objects in three association lists, deletes
  at once, creates running pods, and refuses calls under an ended context.
\<close>

section \<open>An API server\<close>

record wit_cluster =
  wc_performers :: "((string \<times> string) \<times> performer_crd) list"
  wc_pods :: "((string \<times> string) \<times> pod) list"
  wc_services :: "((string \<times> string) \<times> service) list"

definition wit_get :: "((string \<times> string) \<times> 'a) list \<Rightarrow> ('a \<Rightarrow> string \<times> string) \<Rightarrow> string \<Rightarrow> string \<Rightarrow> (api_error, 'a) result" where
  "wit_get m key ns n = (case gm_get m (ns, n) of Some x \<Rightarrow> if key x = (ns, n) then Inr x else Inl NotFound | None \<Rightarrow> Inl NotFound)"

abbreviation crdKey :: "performer_crd \<Rightarrow> string \<times> string" where
  "crdKey p \<equiv> (crd_Namespace p, crd_Name p)"

abbreviation podKey :: "pod \<Rightarrow> string \<times> string" where
  "podKey p \<equiv> (pod_Namespace p, pod_Name p)"

abbreviation serviceKey :: "service \<Rightarrow> string \<times> string" where
  "serviceKey s \<equiv> (svc_Namespace s, svc_Name s)"

definition wit_getPerformer :: "bool \<Rightarrow> wit_cluster \<Rightarrow> string \<Rightarrow> string \<Rightarrow> (api_error, performer_crd) result" where
  "wit_getPerformer ended c ns n = (if ended then Inl ContextEnded else wit_get (wc_performers c) crdKey ns n)"

definition wit_putPerformer :: "bool \<Rightarrow> wit_cluster \<Rightarrow> performer_crd \<Rightarrow> api_error option \<times> wit_cluster" where
  "wit_putPerformer ended c p =
     (if ended then (Some ContextEnded, c) else (None, c\<lparr>wc_performers := gm_put (wc_performers c) (crdKey p) p\<rparr>))"

definition wit_deletePerformer :: "bool \<Rightarrow> wit_cluster \<Rightarrow> string \<Rightarrow> string \<Rightarrow> api_error option \<times> wit_cluster" where
  "wit_deletePerformer ended c ns n =
     (if ended then (Some ContextEnded, c) else (None, c\<lparr>wc_performers := gm_del (wc_performers c) (ns, n)\<rparr>))"

definition wit_updateStatus :: "wit_cluster \<Rightarrow> performer_crd \<Rightarrow> api_error option \<times> wit_cluster" where
  "wit_updateStatus c p =
     (None, c\<lparr>wc_performers := AList.map_entry (crdKey p) (crd_Status_update (\<lambda>_. crd_Status p)) (wc_performers c)\<rparr>)"

definition wit_createPod :: "wit_cluster \<Rightarrow> pod \<Rightarrow> api_error option \<times> wit_cluster" where
  "wit_createPod c pd = (None, c\<lparr>wc_pods := gm_put (wc_pods c) (podKey pd) (pd\<lparr>pod_Phase := PodRunning\<rparr>)\<rparr>)"

definition wit_deletePod :: "wit_cluster \<Rightarrow> pod \<Rightarrow> api_error option \<times> wit_cluster" where
  "wit_deletePod c pd = (None, c\<lparr>wc_pods := gm_del (wc_pods c) (podKey pd)\<rparr>)"

definition wit_createOrUpdate :: "wit_cluster \<Rightarrow> service \<Rightarrow> (service \<Rightarrow> service option) \<Rightarrow> api_error option \<times> wit_cluster" where
  "wit_createOrUpdate c s f =
     (let old = (case wit_get (wc_services c) serviceKey (svc_Namespace s) (svc_Name s) of Inr x \<Rightarrow> x | Inl e \<Rightarrow> s)
      in case f old of
           Some s' \<Rightarrow> if serviceKey s' = serviceKey s then (None, c\<lparr>wc_services := gm_put (wc_services c) (serviceKey s) s'\<rparr>)
             else (Some Conflict, c)
         | None \<Rightarrow> (Some Conflict, c))"

definition wit_api :: "wit_cluster kube_api" where
  "wit_api = \<lparr>kaGetPerformer = wit_getPerformer, kaListPerformers = (\<lambda>ended c ns. Inr []),
     kaCreatePerformer = wit_putPerformer, kaUpdatePerformer = wit_putPerformer, kaDeletePerformer = wit_deletePerformer,
     kaUpdateStatus = wit_updateStatus, kaGetPod = (\<lambda>c. wit_get (wc_pods c) podKey), kaCreatePod = wit_createPod,
     kaDeletePod = wit_deletePod, kaGetService = (\<lambda>c. wit_get (wc_services c) serviceKey),
     kaCreateOrUpdateService = wit_createOrUpdate,
     ka_SetControllerReferencePod = (\<lambda>p pd. Some (pd\<lparr>pod_Owner := Some (crd_Name p)\<rparr>)),
     ka_SetControllerReferenceService = (\<lambda>p s. Some (s\<lparr>svc_Owner := Some (crd_Name p)\<rparr>)), ka_ParseQuantity = Some\<rparr>"

lemma wit_api_fields [simp]:
  "kaGetPerformer wit_api = wit_getPerformer" "kaCreatePerformer wit_api = wit_putPerformer"
  "kaUpdatePerformer wit_api = wit_putPerformer" "kaDeletePerformer wit_api = wit_deletePerformer"
  "kaUpdateStatus wit_api = wit_updateStatus" "kaGetPod wit_api = (\<lambda>c. wit_get (wc_pods c) podKey)"
  "kaCreatePod wit_api = wit_createPod" "kaDeletePod wit_api = wit_deletePod"
  "kaGetService wit_api = (\<lambda>c. wit_get (wc_services c) serviceKey)" "kaCreateOrUpdateService wit_api = wit_createOrUpdate"
  "ka_SetControllerReferencePod wit_api p pd = Some (pd\<lparr>pod_Owner := Some (crd_Name p)\<rparr>)"
  "ka_SetControllerReferenceService wit_api p s = Some (s\<lparr>svc_Owner := Some (crd_Name p)\<rparr>)"
  by (simp_all add: wit_api_def)

lemmas wit_same = podsSame_def servicesSame_def performersSame_def wit_get_def wit_getPerformer_def

lemma wit_performer_writes: "performer_writes_ok wit_api"
  unfolding performer_writes_ok_def
proof (intro conjI allI impI, goal_cases)
  case (1 c p c') then show ?case by (intro exI [of _ "crd_CreationTimestamp p"]) (auto simp: wit_putPerformer_def wit_same)
qed (auto simp: wit_putPerformer_def wit_updateStatus_def wit_same split: option.splits if_splits)

lemma wit_pod_writes: "pod_writes_ok wit_api"
  unfolding pod_writes_ok_def
proof (intro conjI allI impI, goal_cases)
  case (1 c pd c') then show ?case
    by (intro exI [of _ "pd\<lparr>pod_Phase := PodRunning\<rparr>"]) (auto simp: wit_createPod_def podLike_def wit_same)
qed (auto simp: wit_createPod_def wit_deletePod_def wit_same split: option.splits if_splits)

lemma wit_service_writes: "service_writes_ok wit_api"
  unfolding service_writes_ok_def
proof (intro conjI allI impI, goal_cases)
  case (1 c s f c')
  define old where "old = (case wit_get (wc_services c) serviceKey (svc_Namespace s) (svc_Name s) of Inr x \<Rightarrow> x | Inl e \<Rightarrow> s)"
  from 1 obtain s' where s': "f old = Some s'" "serviceKey s' = serviceKey s"
    "c' = c\<lparr>wc_services := gm_put (wc_services c) (serviceKey s) s'\<rparr>"
    by (auto simp: wit_createOrUpdate_def Let_def old_def [symmetric] split: option.splits if_splits)
  moreover have "wit_get (wc_services c) serviceKey (svc_Namespace s) (svc_Name s) = Inr old \<or> old = s"
    by (auto simp: old_def split: sum.splits)
  ultimately show ?case by (intro exI [of _ old] exI [of _ s']) (simp add: wit_get_def)
qed (auto simp: wit_createOrUpdate_def wit_same Let_def split: option.splits if_splits)

lemma wit_kube_ok: "kube_ok wit_api"
  using wit_performer_writes wit_pod_writes wit_service_writes by (simp add: kube_ok_def owner_refs_ok_def)

lemma wit_quiet: "quiet wit_api (\<lambda>_ c. c)"
  by (simp add: quiet_def podsSame_def servicesSame_def)

section \<open>The operator\<close>

definition wit_co :: crd_operations where
  "wit_co = newCRDOperations newDefaultConfig"

definition wit_request :: create_performer_request where
  "wit_request = \<lparr>cpr_Name = ''p'', cpr_AVSAddress = ''0xa'', cpr_Image = ''img:v1'', cpr_ImagePullPolicy = ''Never'', cpr_ImageTag = ''v1'',
     cpr_ImageDigest = [], cpr_GRPCPort = 8080, cpr_Environment = [], cpr_EnvironmentFrom = [], cpr_Resources = None,
     cpr_Scheduling = None, cpr_HardwareRequirements = None, cpr_ServiceAccountName = []\<rparr>"

definition wit_empty :: wit_cluster where
  "wit_empty = \<lparr>wc_performers = [], wc_pods = [], wc_services = []\<rparr>"

abbreviation wit_asleep :: "nat \<Rightarrow> wit_cluster \<Rightarrow> wit_cluster" where
  "wit_asleep \<equiv> \<lambda>_ c. c"

abbreviation wit_reconcile :: "time \<Rightarrow> wit_cluster \<Rightarrow> (reconcile_error, nat option) result \<times> wit_cluster" where
  "wit_reconcile t c \<equiv> reconcile wit_api t wit_asleep ''default'' ''p'' c"

lemmas wit_ops = wit_getPerformer_def wit_get_def wit_putPerformer_def wit_updateStatus_def wit_createPod_def wit_deletePod_def
  wit_createOrUpdate_def wit_empty_def

definition wit_crd :: "string \<Rightarrow> performer_crd" where
  "wit_crd tag = (let p = crdFor wit_co wit_request emptyResources
     in p\<lparr>crd_Spec := (crd_Spec p)\<lparr>psp_Image := ''img:'' @ tag, psp_Version := tag\<rparr>\<rparr>)"

lemma wit_crd_fields [simp]:
  "crd_Name (wit_crd tag) = ''p''" "crd_Namespace (wit_crd tag) = ''default''" "psp_Image (crd_Spec (wit_crd tag)) = ''img:'' @ tag"
  "crd_DeletionTimestamp (wit_crd tag) = None" "crd_Finalizers (wit_crd tag) = []"
  by (simp_all add: wit_crd_def crdFor_def wit_co_def newCRDOperations_def newDefaultConfig_def wit_request_def)

text \<open>The service of the performer, and a cluster that holds it.\<close>

definition wit_service :: service where
  "wit_service = the (fillService wit_api (wit_crd ''v1'') (blankService (wit_crd ''v1'')))"

definition wit_with :: "performer_crd \<Rightarrow> pod option \<Rightarrow> bool \<Rightarrow> wit_cluster" where
  "wit_with p pd svc = \<lparr>wc_performers = [((''default'', ''p''), p)],
     wc_pods = (case pd of None \<Rightarrow> [] | Some pd \<Rightarrow> [((''default'', ''performer-p''), pd)]),
     wc_services = (if svc then [((''default'', ''performer-p''), wit_service)] else [])\<rparr>"

lemma wit_created:
  "\<exists>resp. crd_CreatePerformer wit_api wit_co False wit_request wit_empty = (Inr resp, wit_with (wit_crd ''v1'') None False)"
proof -
  have "validateCreatePerformerRequest wit_request = None"
    by (simp add: validateCreatePerformerRequest_def wit_request_def)
  moreover have "cpr_Resources wit_request = None" by (simp add: wit_request_def)
  moreover have "crdFor wit_co wit_request emptyResources = wit_crd ''v1''"
    by (simp add: wit_crd_def crdFor_def wit_request_def Let_def)
  ultimately show ?thesis
    by (simp add: crd_CreatePerformer_def wit_putPerformer_def wit_with_def wit_empty_def Let_def)
qed

definition wit_ok :: "performer_crd \<Rightarrow> bool" where
  "wit_ok p \<longleftrightarrow> crd_Name p = ''p'' \<and> crd_Namespace p = ''default'' \<and> crd_DeletionTimestamp p = None \<and>
     crd_Finalizers p \<in> {[], [performerFinalizer]} \<and> grpcPortOf p = 8080"

definition wit_next_pod :: "time \<Rightarrow> performer_crd \<Rightarrow> pod option \<Rightarrow> pod option" where
  "wit_next_pod t p pd =
     (case pd of None \<Rightarrow> Some ((buildPodSpec p)\<lparr>pod_Owner := Some ''p'', pod_Phase := PodRunning\<rparr>)
      | Some x \<Rightarrow> if shouldRecreatePod t x p then None else Some x)"

lemma wit_keys:
  assumes "wit_ok p"
  shows "getPodName p = ''performer-p''" "getServiceName p = ''performer-p''" "pod_Name (buildPodSpec p) = ''performer-p''"
    "pod_Namespace (buildPodSpec p) = ''default''"
  using assms by (simp_all add: wit_ok_def getPodName_def getServiceName_def buildPodSpec_def Let_def)

lemma wit_addFinalizer:
  assumes "wit_ok p"
  shows "addFinalizer wit_api p (wit_with p pd svc) =
    (Inr (p\<lparr>crd_Finalizers := [performerFinalizer]\<rparr>), wit_with (p\<lparr>crd_Finalizers := [performerFinalizer]\<rparr>) pd svc)"
  using assms by (cases p) (auto simp: wit_ok_def addFinalizer_def wit_putPerformer_def wit_with_def Let_def)

lemma wit_reconcilePod:
  assumes "wit_ok p" "\<forall>x. pd = Some x \<longrightarrow> podKey x = (''default'', ''performer-p'')"
  shows "reconcilePod wit_api t p (wit_with p pd svc) = (None, wit_with p (wit_next_pod t p pd) svc)"
proof -
  have n: "crd_Name p = ''p''" "crd_Namespace p = ''default''" using assms(1) by (simp_all add: wit_ok_def)
  show ?thesis
    by (cases pd) (use assms(2) in \<open>auto simp: reconcilePod_def wit_get_def wit_with_def wit_next_pod_def wit_createPod_def
        wit_deletePod_def wit_keys [OF assms(1)] n\<close>)
qed

lemma wit_service_eq:
  assumes "wit_ok p" "s = wit_service \<or> s = blankService p"
  shows "fillService wit_api p s = Some wit_service"
proof -
  have w: "wit_service = \<lparr>svc_Name = ''performer-p'', svc_Namespace = ''default'', svc_Owner = Some ''p'',
      svc_Selector = [(performerLabel, ''p'')], svc_Ports = [(''grpc'', 8080, ''grpc'')]\<rparr>"
    by (simp add: wit_service_def fillService_def blankService_def getServiceName_def grpcPortOf_def wit_crd_def crdFor_def
        wit_co_def newCRDOperations_def newDefaultConfig_def wit_request_def)
  have "crd_Name p = ''p''" "crd_Namespace p = ''default''" "grpcPortOf p = 8080" using assms(1) by (simp_all add: wit_ok_def)
  with assms(2) show ?thesis by (elim disjE) (simp_all add: fillService_def blankService_def getServiceName_def w)
qed

lemma wit_service_key: "svc_Namespace wit_service = ''default''" "svc_Name wit_service = ''performer-p''"
  by (simp_all add: wit_service_def fillService_def blankService_def getServiceName_def)

lemma wit_reconcileService:
  assumes "wit_ok p"
  shows "reconcileService wit_api p (wit_with p pd svc) = (None, wit_with p pd True)"
proof -
  have n: "svc_Name (blankService p) = ''performer-p''" "svc_Namespace (blankService p) = ''default''"
    using assms by (simp_all add: wit_ok_def blankService_def getServiceName_def)
  show ?thesis
    by (simp add: reconcileService_def wit_createOrUpdate_def wit_get_def wit_with_def Let_def n wit_service_key
        wit_service_eq [OF assms])
qed

lemma wit_updateStatus_step:
  assumes "wit_ok p" "\<forall>x. pd = Some x \<longrightarrow> podKey x = (''default'', ''performer-p'')"
  shows "updateStatus wit_api t wit_asleep p (wit_with p pd svc) =
    (None, wit_with (p\<lparr>crd_Status := observedStatus t pd p\<rparr>) pd svc)"
proof -
  have n: "crd_Name p = ''p''" "crd_Namespace p = ''default''" using assms(1) by (simp_all add: wit_ok_def)
  show ?thesis
    by (cases pd) (use assms(2) in \<open>auto simp: updateStatus_def updateStatusLoop.simps maxStatusRetries_def wit_getPerformer_def wit_get_def wit_with_def
        wit_updateStatus_def wit_keys [OF assms(1)] n\<close>)
qed

lemma wit_ok_status:
  assumes "wit_ok p"
  shows "wit_ok (p\<lparr>crd_Status := st\<rparr>)" "wit_ok (p\<lparr>crd_Finalizers := [performerFinalizer]\<rparr>)"
  using assms by (simp_all add: wit_ok_def grpcPortOf_def split: if_splits)

lemma wit_reconcile:
  assumes "wit_ok p" "\<forall>x. pd = Some x \<longrightarrow> podKey x = (''default'', ''performer-p'')"
    and "p1 = p\<lparr>crd_Finalizers := [performerFinalizer]\<rparr>" "pd1 = wit_next_pod t p1 pd"
  shows "reconcile wit_api t wit_asleep ''default'' ''p'' (wit_with p pd svc) =
    (Inr (Some 120), wit_with (p1\<lparr>crd_Status := observedStatus t pd1 p1\<rparr>) pd1 True)"
proof -
  have ok: "wit_ok p1" using wit_ok_status(2) [OF assms(1)] assms(3) by simp
  have g: "wit_getPerformer False (wit_with p pd svc) ''default'' ''p'' = Inr p" "crd_DeletionTimestamp p = None"
    using assms(1) by (simp_all add: wit_getPerformer_def wit_get_def wit_with_def wit_ok_def)
  have pd1: "\<forall>x. pd1 = Some x \<longrightarrow> podKey x = (''default'', ''performer-p'')"
    using assms(2,4) wit_keys [OF ok] by (auto simp: wit_next_pod_def split: option.splits if_splits)
  show ?thesis
    using wit_addFinalizer [OF assms(1), of pd svc] wit_reconcilePod [OF ok assms(2), of t svc]
      wit_reconcileService [OF ok, of pd1 svc] wit_updateStatus_step [OF ok pd1, of t True] assms(3,4) g
    by (simp add: reconcile_def)
qed

lemma wit_crd_ok: "wit_ok (wit_crd tag)"
  by (simp add: wit_ok_def grpcPortOf_def)
    (simp add: wit_crd_def crdFor_def wit_request_def Let_def)

text \<open>A performer with a finalizer, a status and its pod.\<close>

definition wit_kept :: "performer_status_crd \<Rightarrow> string \<Rightarrow> performer_crd" where
  "wit_kept st tag = (wit_crd tag)\<lparr>crd_Finalizers := [performerFinalizer], crd_Status := st\<rparr>"

definition wit_pod :: "string \<Rightarrow> pod_phase \<Rightarrow> pod" where
  "wit_pod tag ph = (buildPodSpec (wit_crd tag))\<lparr>pod_Owner := Some ''p'', pod_Phase := ph\<rparr>"

lemma wit_kept_ok: "wit_ok (wit_kept st tag)"
  using wit_crd_ok [of tag] by (simp add: wit_kept_def wit_ok_def grpcPortOf_def split: if_splits)

lemma wit_pod_fields:
  "podKey (wit_pod tag ph) = (''default'', ''performer-p'')" "pod_Phase (wit_pod tag ph) = ph"
  "map pct_Image (pds_Containers (pod_Spec (wit_pod tag ph))) = [''img:'' @ tag]"
  using wit_keys [OF wit_crd_ok] by (simp_all add: wit_pod_def) (simp add: buildPodSpec_def Let_def)

lemma wit_recreate: "shouldRecreatePod t (wit_pod old ph) (wit_kept st new) \<longleftrightarrow>
    ph = PodFailed \<or> ph = PodPending \<and> 300 < t - pod_CreationTimestamp (wit_pod old ph) \<or> old \<noteq> new"
  using wit_pod_fields [of old ph] by (auto simp: shouldRecreatePod_def wit_kept_def split: list.splits)

lemma wit_kept_again: "(wit_kept st tag)\<lparr>crd_Finalizers := [performerFinalizer]\<rparr> = wit_kept st tag"
  "(wit_kept st tag)\<lparr>crd_Status := st'\<rparr> = wit_kept st' tag"
  by (simp_all add: wit_kept_def)

lemma wit_cluster_reads:
  "wit_ok p \<Longrightarrow> kaGetPerformer wit_api False (wit_with p pd svc) ''default'' ''p'' = Inr p"
  "kaGetPod wit_api (wit_with p None svc) ''default'' ''performer-p'' = Inl NotFound"
  "podKey x = (''default'', ''performer-p'') \<Longrightarrow> kaGetPod wit_api (wit_with p (Some x) svc) ''default'' ''performer-p'' = Inr x"
  by (auto simp: wit_getPerformer_def wit_get_def wit_with_def wit_ok_def)

definition wit_served :: wit_cluster where
  "wit_served = snd (reconcile wit_api 0 wit_asleep ''default'' ''p'' (wit_with (wit_crd ''v1'') None False))"

theorem operator_serves_created_performer_witness:
  "\<exists>pd s. kaGetPod wit_api wit_served ''default'' ''performer-p'' = Inr pd \<and>
    map pct_Image (pds_Containers (pod_Spec pd)) = [''img:v1''] \<and>
    kaGetService wit_api wit_served ''default'' (svc_Name s) = Inr s \<and> set (svc_Selector s) \<subseteq> set (pod_Labels pd)"
proof -
  have req: "cpr_Name wit_request = ''p''" "co_namespace wit_co = ''default''" "cpr_Image wit_request = ''img:v1''"
    "''performer-'' @ ''p'' = ''performer-p''"
    by (simp_all add: wit_request_def wit_co_def newCRDOperations_def newDefaultConfig_def)
  obtain resp where c: "crd_CreatePerformer wit_api wit_co False wit_request wit_empty = (Inr resp, wit_with (wit_crd ''v1'') None False)"
    using wit_created by blast
  have r: "reconcile wit_api 0 wit_asleep (co_namespace wit_co) (cpr_Name wit_request) (wit_with (wit_crd ''v1'') None False) =
      (Inr (Some 120), wit_served)"
    using wit_reconcile [where pd = None and t = 0 and svc = False, OF wit_crd_ok _ refl refl] by (simp add: req wit_served_def)
  have "kaGetPod wit_api wit_empty (co_namespace wit_co) (''performer-'' @ cpr_Name wit_request) = Inl NotFound"
    by (simp add: wit_get_def wit_empty_def)
  from operator_serves_created_performer [OF c r wit_kube_ok wit_quiet this] obtain pd s where
    "kaGetPod wit_api wit_served ''default'' ''performer-p'' = Inr pd" "map pct_Image (pds_Containers (pod_Spec pd)) = [''img:v1'']"
    "kaGetService wit_api wit_served ''default'' (svc_Name s) = Inr s" "set (svc_Selector s) \<subseteq> set (pod_Labels pd)"
    unfolding req by (elim exE conjE) (rule that)
  then show ?thesis by (intro exI conjI)
qed

text \<open>A new image: the first reconciliation deletes the pod, the second one creates it anew.\<close>

abbreviation wit_old_pod :: pod where
  "wit_old_pod \<equiv> wit_pod ''v1'' PodRunning"

definition wit_rolled :: wit_cluster where
  "wit_rolled = snd (reconcile wit_api 20 wit_asleep ''default'' ''p''
     (snd (reconcile wit_api 10 wit_asleep ''default'' ''p'' (wit_with (wit_kept emptyStatus ''v2'') (Some wit_old_pod) True))))"

theorem image_change_rolled_out_witness:
  "\<exists>pd. kaGetPod wit_api wit_rolled ''default'' ''performer-p'' = Inr pd \<and>
    map pct_Image (pds_Containers (pod_Spec pd)) = [psp_Image (crd_Spec (wit_kept emptyStatus ''v2''))]"
proof -
  let ?p = "wit_kept emptyStatus ''v2''"
  let ?c0 = "wit_with ?p (Some wit_old_pod) True"
  let ?p1 = "wit_kept (observedStatus 10 None ?p) ''v2''"
  let ?c1 = "wit_with ?p1 None True"
  have old: "\<forall>x. Some wit_old_pod = Some x \<longrightarrow> podKey x = (''default'', ''performer-p'')" using wit_pod_fields(1) by simp
  have "wit_next_pod 10 ?p (Some wit_old_pod) = None" by (simp add: wit_next_pod_def wit_recreate)
  then have r0: "reconcile wit_api 10 wit_asleep ''default'' ''p'' ?c0 = (Inr (Some 120), ?c1)"
    using wit_reconcile [where t = 10 and svc = True, OF wit_kept_ok old refl refl] by (simp add: wit_kept_again)
  have r1: "reconcile wit_api 20 wit_asleep ''default'' ''p'' ?c1 = (Inr (Some 120), wit_rolled)"
    using wit_reconcile [where pd = None and t = 20 and svc = True, OF wit_kept_ok _ refl refl] by (simp add: wit_rolled_def r0)
  have name: "getPodName ?p = ''performer-p''" using wit_keys [OF wit_kept_ok] by simp
  have spec: "crd_Spec ?p1 = crd_Spec ?p" "crd_DeletionTimestamp ?p = None" "crd_DeletionTimestamp ?p1 = None"
    by (simp_all add: wit_kept_def)
  have img: "map pct_Image (pds_Containers (pod_Spec wit_old_pod)) \<noteq> []"
    "hd (map pct_Image (pds_Containers (pod_Spec wit_old_pod))) \<noteq> psp_Image (crd_Spec ?p)"
    unfolding wit_pod_fields by (simp_all add: wit_kept_def)
  have pod0: "kaGetPod wit_api ?c0 ''default'' (getPodName ?p) = Inr wit_old_pod"
    unfolding name by (rule wit_cluster_reads(3)) (rule wit_pod_fields)
  have pod1: "kaGetPod wit_api ?c1 ''default'' (getPodName ?p) = Inl NotFound" unfolding name by (rule wit_cluster_reads(2))
  show ?thesis
    using image_change_rolled_out [OF wit_kube_ok wit_quiet wit_cluster_reads(1) [OF wit_kept_ok] spec(2) pod0 img r0
        wit_cluster_reads(1) [OF wit_kept_ok] spec(3,1) pod1 r1]
    unfolding name by (elim conjE exE) (intro exI conjI)
qed

theorem failed_pod_stays_ready_witness:
  "\<exists>c' p'. kaGetPerformer wit_api False c' ''default'' ''p'' = Inr p' \<and> psc_PodName (crd_Status p') = [] \<and> psc_Ready (crd_Status p')"
proof -
  let ?p = "wit_kept (emptyStatus\<lparr>psc_Ready := True\<rparr>) ''v1''"
  let ?pd = "wit_pod ''v1'' PodFailed"
  let ?p1 = "wit_kept (observedStatus 10 None ?p) ''v1''"
  have pd: "\<forall>x. Some ?pd = Some x \<longrightarrow> podKey x = (''default'', ''performer-p'')" using wit_pod_fields(1) by simp
  have "wit_next_pod 10 ?p (Some ?pd) = None" by (simp add: wit_next_pod_def wit_recreate)
  then have r: "reconcile wit_api 10 wit_asleep ''default'' ''p'' (wit_with ?p (Some ?pd) True) = (Inr (Some 120), wit_with ?p1 None True)"
    using wit_reconcile [where t = 10 and svc = True, OF wit_kept_ok pd refl refl] by (simp add: wit_kept_again)
  have f: "crd_DeletionTimestamp ?p = None" "psc_Ready (crd_Status ?p)" by (simp_all add: wit_kept_def)
  have none: "kaGetPod wit_api (wit_with ?p1 None True) ''default'' (getPodName ?p) = Inl NotFound"
    unfolding wit_keys(1) [OF wit_kept_ok] by (rule wit_cluster_reads(2))
  have "\<forall>i c. performersSame wit_api c (wit_asleep i c)" by (simp add: performersSame_def)
  from failed_pod_stays_ready [OF wit_kube_ok wit_quiet this wit_cluster_reads(1) [OF wit_kept_ok] f r none] show ?thesis by blast
qed

section \<open>The Kubernetes performer\<close>

definition wit_cfg :: k8s_avs_config where
  "wit_cfg = \<lparr>apc_AvsAddress = ''0xa'', apc_Image = emptyImage, apc_PerformerNetworkName = [], apc_ApplicationHealthCheckInterval = 0, kac_EndpointOverride = []\<rparr>"

definition wit_image :: performer_image where
  "wit_image = emptyImage\<lparr>img_Repository := ''img'', img_Tag := ''v1''\<rparr>"

abbreviation wit_dial :: "string \<Rightarrow> bool \<Rightarrow> string option" where
  "wit_dial \<equiv> \<lambda>_ _. None"

definition wit_akp :: "wit_cluster k8s_performer" where
  "wit_akp = \<lparr>kp_config = wit_cfg, kp_crd = wit_co, kp_current = None, kp_next = None,
     kp_taskStates = [], kp_drains = [], kp_conns = [], kp_deploying = False, kp_cluster = wit_empty\<rparr>"

lemma wit_akp_new: "newAvsKubernetesPerformer wit_cfg newDefaultConfig None wit_empty = Inr wit_akp"
proof -
  have "applyDefaults newDefaultConfig = newDefaultConfig" by (simp add: applyDefaults_def newDefaultConfig_def)
  then show ?thesis by (simp add: newAvsKubernetesPerformer_def validateConfig_default wit_akp_def wit_co_def)
qed

text \<open>The operator reports the performer \<open>pid\<close> as ready.\<close>

definition wit_ready :: "string \<Rightarrow> wit_cluster \<Rightarrow> wit_cluster" where
  "wit_ready pid c = c\<lparr>wc_performers := AList.map_entry (''default'', pid) (crd_Status_update (psc_Ready_update (\<lambda>_. True))) (wc_performers c)\<rparr>"

lemma wit_co_fields: "co_namespace wit_co = ''default''"
  by (simp add: wit_co_def newCRDOperations_def newDefaultConfig_def)

definition wit_req_for :: "string \<Rightarrow> performer_crd" where
  "wit_req_for pid = crdFor wit_co (createRequestFor wit_cfg pid wit_image) emptyResources"

lemma wit_crd_create:
  assumes "pid \<noteq> []"
  shows "\<exists>resp. crd_CreatePerformer wit_api wit_co False (createRequestFor wit_cfg pid wit_image) c =
    (Inr resp, c\<lparr>wc_performers := gm_put (wc_performers c) (''default'', pid) (wit_req_for pid)\<rparr>)"
proof -
  have req: "validateCreatePerformerRequest (createRequestFor wit_cfg pid wit_image) = None"
    "cpr_Resources (createRequestFor wit_cfg pid wit_image) = None"
    using assms by (simp_all add: createRequestFor_def validateCreatePerformerRequest_def wit_cfg_def wit_image_def
        defaultGRPCPort_def split: prod.splits)
  have "crdKey (wit_req_for pid) = (''default'', pid)"
    by (simp add: wit_req_for_def crdFor_def createRequestFor_def wit_co_fields split: prod.splits)
  with req show ?thesis by (simp add: crd_CreatePerformer_def wit_putPerformer_def wit_req_for_def [symmetric] Let_def)
qed

definition wit_up :: "string \<Rightarrow> wit_cluster \<Rightarrow> wit_cluster" where
  "wit_up pid c = wit_ready pid (c\<lparr>wc_performers := gm_put (wc_performers c) (''default'', pid) (wit_req_for pid)\<rparr>)"

lemma wit_up_ready:
  "\<exists>st. crd_GetPerformerStatus wit_api wit_co False pid (wit_up pid c) = Inr st \<and> kps_Ready st"
proof -
  have "crdKey (wit_req_for pid) = (''default'', pid)"
    by (simp add: wit_req_for_def crdFor_def createRequestFor_def wit_co_fields split: prod.splits)
  then show ?thesis
    by (simp add: crd_GetPerformerStatus_def crd_GetPerformer_def wit_co_fields wit_getPerformer_def wit_get_def wit_up_def wit_ready_def
        statusOf_def)
qed

lemma wit_resource:
  assumes "pid \<noteq> []" "0 \<le> now" "now < 300"
  shows "\<exists>pr. createPerformerResource wit_api wit_dial wit_cfg wit_co (Some 300) 0 pid wit_image [WaitTick now (wit_ready pid)] c =
      Some (Inr pr, now, wit_up pid c) \<and> pr_performerID pr = pid \<and> pr_image pr = wit_image"
proof -
  obtain resp where r: "crd_CreatePerformer wit_api wit_co False (createRequestFor wit_cfg pid wit_image) c =
    (Inr resp, c\<lparr>wc_performers := gm_put (wc_performers c) (''default'', pid) (wit_req_for pid)\<rparr>)"
    using wit_crd_create [OF assms(1)] by blast
  obtain st where "crd_GetPerformerStatus wit_api wit_co False pid (wit_up pid c) = Inr st" "kps_Ready st"
    using wit_up_ready by blast
  with r assms(2,3) show ?thesis
    by (simp add: createPerformerResource_def waitForPerformerReady_def ctxEnded_def withTimeout_def defaultRunningWaitTimeout_def
        wit_up_def Let_def)
qed

text \<open>A deployment of \<open>pid\<close> that succeeds.\<close>

abbreviation wit_deploy :: "string \<Rightarrow> wit_cluster k8s_performer \<Rightarrow> ((k8s_error, k8s_deployment_result) result \<times> wit_cluster k8s_performer) option" where
  "wit_deploy pid akp \<equiv> k8s_Deploy wit_api wit_dial None 0 ''u'' pid wit_image [WaitTick 1 (wit_ready pid)] [WaitTick 2 id] akp"

lemma wit_deploy_ok:
  assumes "pid \<noteq> []" "kp_config akp = wit_cfg" "kp_crd akp = wit_co" "\<not> kp_deploying akp" "kp_next akp = None"
    and "kp_current akp \<noteq> Some None" "\<forall>pr. kp_current akp = Some (Some pr) \<longrightarrow> pr_performerID pr \<noteq> pid"
  shows "\<exists>d akp'. wit_deploy pid akp = Some (Inr d, akp') \<and> kp_config akp' = wit_cfg \<and> kp_crd akp' = wit_co \<and> \<not> kp_deploying akp' \<and>
    kp_next akp' = None \<and> (\<exists>new. kp_current akp' = Some (Some new) \<and> pr_performerID new = pid) \<and>
    (kp_current akp = None \<longrightarrow> kp_taskStates akp' = kp_taskStates akp) \<and>
    (\<forall>old n. kp_current akp = Some (Some old) \<longrightarrow> gm_get (kp_taskStates akp) (pr_performerID old) = Some (n, PerformerStateActive) \<longrightarrow>
       pr_performerID old \<in> set (kp_drains akp'))"
proof -
  obtain pr where r: "createPerformerResource wit_api wit_dial wit_cfg wit_co (Some 300) 0 pid wit_image [WaitTick 1 (wit_ready pid)] (kp_cluster akp) =
      Some (Inr pr, 1, wit_up pid (kp_cluster akp))" "pr_performerID pr = pid"
    using wit_resource [OF assms(1), of 1 "kp_cluster akp"] by auto
  obtain st where st: "crd_GetPerformerStatus wit_api wit_co False pid (wit_up pid (kp_cluster akp)) = Inr st" "kps_Ready st"
    using wit_up_ready by blast
  have c: "k8s_CreatePerformer wit_api wit_dial (Some 300) 0 pid wit_image [WaitTick 1 (wit_ready pid)] (akp\<lparr>kp_deploying := True\<rparr>) =
    Some (Inr pid, 1, akp\<lparr>kp_deploying := True, kp_cluster := wit_up pid (kp_cluster akp), kp_conns := pid # kp_conns akp,
      kp_next := Some (pr\<lparr>pr_status := statusStaged\<rparr>)\<rparr>)"
    using r assms by (simp add: k8s_CreatePerformer_def)
  have w: "waitForPerformerReady wit_api wit_co (Some 300) 1 pid [WaitTick 2 id] (wit_up pid (kp_cluster akp)) =
      Some (True, 2, wit_up pid (kp_cluster akp))"
    using st by (simp add: waitForPerformerReady_def ctxEnded_def withTimeout_def defaultRunningWaitTimeout_def)
  have same: "kp_config (k8s_startDrainAndRemove old a) = kp_config a" "kp_crd (k8s_startDrainAndRemove old a) = kp_crd a"
    for old and a :: "wit_cluster k8s_performer"
    by (simp_all add: k8s_startDrainAndRemove_def Let_def split: option.splits prod.splits)
  have drains: "pr_performerID old \<in> set (kp_drains (k8s_startDrainAndRemove old a))"
    if "map_option snd (gm_get (kp_taskStates a) (pr_performerID old)) = Some PerformerStateActive" for old and a :: "wit_cluster k8s_performer"
    using that by (auto simp: k8s_startDrainAndRemove_def Let_def split: option.splits)
  show ?thesis
    using assms r(2) by (cases "kp_current akp")
      (auto simp: drains same k8s_Deploy_def withTimeout_def defaultDeploymentTimeout_def c w k8s_PromotePerformer_def Let_def)
qed

theorem k8s_deployment_all_or_nothing_witness:
  "\<exists>d akp'. wit_deploy ''p1'' wit_akp = Some (Inr d, akp') \<and> deployedOutcome wit_image ''p1'' wit_akp akp'"
proof -
  obtain d akp' where w: "wit_deploy ''p1'' wit_akp = Some (Inr d, akp')"
    using wit_deploy_ok [of "''p1''" wit_akp] by (auto simp: wit_akp_def)
  from k8s_deployment_all_or_nothing [OF w] have "deployedOutcome wit_image ''p1'' wit_akp akp'" by (simp add: wit_akp_def)
  with w show ?thesis by (intro exI conjI)
qed

text \<open>A task starts on the first performer, which is then replaced by a second one.\<close>

definition wit_gone :: "wit_cluster k8s_run \<Rightarrow> bool" where
  "wit_gone st \<longleftrightarrow> kr_running st = [''p1''] \<and> ''p1'' \<in> set (kp_drains (kr_akp st))"

lemma wit_run: "\<exists>st. k8s_reach wit_api (k8s_init wit_akp) st \<and> wit_gone st"
proof -
  obtain d a1 new where d1: "wit_deploy ''p1'' wit_akp = Some (Inr d, a1)" "kp_config a1 = wit_cfg" "kp_crd a1 = wit_co" "\<not> kp_deploying a1"
    "kp_next a1 = None" "kp_current a1 = Some (Some new)" "pr_performerID new = ''p1''" "kp_taskStates a1 = []"
    using wit_deploy_ok [of "''p1''" wit_akp] by (auto simp: wit_akp_def)
  define a2 where "a2 = a1\<lparr>kp_taskStates := [(''p1'', 1, PerformerStateActive)]\<rparr>"
  obtain d' a3 where d3: "wit_deploy ''p2'' a2 = Some (Inr d', a3)" "''p1'' \<in> set (kp_drains a3)"
    using wit_deploy_ok [of "''p2''" a2] d1 by (auto simp: a2_def)
  let ?s0 = "k8s_init wit_akp"
  let ?s1 = "?s0\<lparr>kr_akp := a1\<rparr>"
  let ?s2 = "?s1\<lparr>kr_loaded := [''p1'']\<rparr>"
  let ?s3 = "?s2\<lparr>kr_akp := a2, kr_loaded := [], kr_running := [''p1'']\<rparr>"
  have "k8s_step wit_api ?s0 ?s1" by (rule k8s_step.Deploy) (use d1(1) in \<open>simp add: k8s_init_def\<close>)
  moreover have "k8s_step wit_api ?s1 ?s2"
    using k8s_step.Load [of ?s1 new wit_api] d1 by (simp add: k8s_init_def)
  moreover have "k8s_step wit_api ?s2 ?s3"
    using k8s_step.Accept [of "''p1''" ?s2 a2 wit_api] d1 by (simp add: k8s_init_def tryAddTask_def a2_def)
  moreover have "k8s_step wit_api ?s3 (?s3\<lparr>kr_akp := a3\<rparr>)" by (rule k8s_step.Deploy) (use d3(1) in simp)
  ultimately have "k8s_reach wit_api ?s0 (?s3\<lparr>kr_akp := a3\<rparr>)" by (meson converse_rtranclp_into_rtranclp rtranclp.rtrancl_refl)
  moreover have "wit_gone (?s3\<lparr>kr_akp := a3\<rparr>)" using d3(2) by (simp add: wit_gone_def)
  ultimately show ?thesis by (intro exI conjI)
qed


definition wit_serving :: "wit_cluster k8s_performer" where
  "wit_serving = wit_akp\<lparr>kp_current := Some (Some \<lparr>pr_performerID = ''p1'', pr_avsAddress = ''0xa'', pr_image = wit_image,
     pr_status = statusInService, pr_endpoint = [], pr_createdAt = 0\<rparr>), kp_taskStates := [(''p1'', 1, PerformerStateActive)]\<rparr>"

theorem k8s_shutdown_breaks_task_counting_witness:
  "\<exists>pr akp1 akp2. k8s_RunTask (k8s_ShutdownBegin wit_serving) = (Inr pr, akp1) \<and> taskCompleted ''p1'' akp1 = (None, akp2) \<and>
    fst (k8s_RunTaskReturn ''p1'' (Inr ([], [])) akp2) = Inl NegativeWaitGroup"
proof -
  obtain pr where pr: "kp_current wit_serving = Some (Some pr)" "pr_performerID pr = ''p1''" by (simp add: wit_serving_def)
  from k8s_shutdown_breaks_task_counting [OF pr(1), of "Inr ([], [])"] obtain akp1 akp2 where
    "k8s_RunTask (k8s_ShutdownBegin wit_serving) = (Inr pr, akp1)" "taskCompleted ''p1'' akp1 = (None, akp2)"
    "fst (k8s_RunTaskReturn ''p1'' (Inr ([], [])) akp2) = Inl NegativeWaitGroup"
    unfolding pr(2) by (elim exE conjE) (rule that)
  then show ?thesis by (intro exI conjI)
qed

text \<open>The performer never becomes ready, and the wait ends with the deployment's deadline.\<close>

definition wit_timed_out :: "wit_cluster k8s_performer" where
  "wit_timed_out = wit_akp\<lparr>kp_cluster := wit_empty\<lparr>wc_performers := [((''default'', ''p1''), wit_req_for ''p1'')]\<rparr>\<rparr>"

lemma wit_timeout:
  "k8s_CreatePerformer wit_api wit_dial (Some 300) 0 ''p1'' wit_image [WaitDone 300 id] (wit_akp\<lparr>kp_deploying := True\<rparr>) =
    Some (Inl (NotReady ''p1''), 300, wit_timed_out\<lparr>kp_deploying := True\<rparr>)"
proof -
  obtain resp where "crd_CreatePerformer wit_api wit_co False (createRequestFor wit_cfg ''p1'' wit_image) wit_empty =
    (Inr resp, wit_empty\<lparr>wc_performers := gm_put (wc_performers wit_empty) (''default'', ''p1'') (wit_req_for ''p1'')\<rparr>)"
    using wit_crd_create [of "''p1''" wit_empty] by auto
  then show ?thesis
    by (simp add: k8s_CreatePerformer_def createPerformerResource_def waitForPerformerReady_def ctxEnded_def withTimeout_def
        defaultRunningWaitTimeout_def crd_DeletePerformer_def wit_deletePerformer_def wit_akp_def wit_timed_out_def wit_empty_def)
qed

theorem k8s_timeout_leaks_resource_witness:
  "kaGetPerformer wit_api False (kp_cluster wit_timed_out) ''default'' ''p1'' \<noteq> Inl NotFound \<and> kp_next wit_timed_out = None"
proof -
  have ctx: "withTimeout None 0 defaultDeploymentTimeout = Some 300" by (simp add: withTimeout_def defaultDeploymentTimeout_def)
  have "k8s_Deploy wit_api wit_dial None 0 ''u'' ''p1'' wit_image [WaitDone 300 id] [] wit_akp =
      Some (Inl (NotReady ''p1''), wit_timed_out)"
    using wit_timeout by (simp add: k8s_Deploy_def ctx Let_def) (simp add: wit_akp_def wit_timed_out_def)
  note * = k8s_timeout_leaks_resource [OF this]
  have co: "co_namespace (kp_crd wit_akp) = ''default''" by (simp add: wit_akp_def wit_co_fields)
  have "kaGetPerformer wit_api False (kp_cluster wit_timed_out) (co_namespace (kp_crd wit_akp)) ''p1'' \<noteq> Inl NotFound \<and>
      kp_current wit_timed_out = kp_current wit_akp \<and> kp_next wit_timed_out = None"
  proof (rule *)
    show "kp_next wit_akp = None" by (simp add: wit_akp_def)
    show "k8s_CreatePerformer wit_api wit_dial (withTimeout None 0 defaultDeploymentTimeout) 0 ''p1'' wit_image [WaitDone 300 id]
        (wit_akp\<lparr>kp_deploying := True\<rparr>) = Some (Inl (NotReady ''p1''), 300, wit_timed_out\<lparr>kp_deploying := True\<rparr>)"
      unfolding ctx by (rule wit_timeout)
  qed (auto simp: wit_deletePerformer_def wit_putPerformer_def wit_getPerformer_def wit_get_def)
  then show ?thesis unfolding co by (elim conjE) (intro conjI)
qed

theorem k8s_removed_current_unusable_witness:
  "\<exists>akp1. k8s_RemovePerformer wit_api False ''p1'' wit_serving = (None, akp1) \<and> k8s_ListPerformers 0 akp1 = Inl NilPerformer \<and>
    (\<forall>d akp2. wit_deploy ''p2'' akp1 \<noteq> Some (Inr d, akp2))"
proof -
  obtain pr where pr: "kp_current wit_serving = Some (Some pr)" "pr_performerID pr = ''p1''" by (simp add: wit_serving_def)
  obtain akp1 where r: "k8s_RemovePerformer wit_api False (pr_performerID pr) wit_serving = (None, akp1)"
    using pr by (simp add: k8s_RemovePerformer_def crd_DeletePerformer_def wit_deletePerformer_def Let_def)
  note * = k8s_removed_current_unusable [OF pr(1) r]
  have "k8s_ListPerformers 0 akp1 = Inl NilPerformer" by (rule * [THEN conjunct2, THEN conjunct2, THEN conjunct1])
  moreover have "\<forall>d akp2. wit_deploy ''p2'' akp1 \<noteq> Some (Inr d, akp2)"
    by (rule * [THEN conjunct2, THEN conjunct2, THEN conjunct2, THEN conjunct2])
  ultimately show ?thesis using r unfolding pr(2) by (intro exI conjI)
qed

section \<open>Both performers\<close>

theorem last_deployment_serves_witness:
  "\<exists>dr d akp'. sample_deploy [HealthTick 1 (\<lambda>_. True), ReceiveStatus] = DeployReturned (Inr dr) sample_deployed \<and>
    container_serving sample_deployed = Some (dr_PerformerId dr, sample_image) \<and>
    wit_deploy ''p1'' wit_akp = Some (Inr d, akp') \<and> k8s_serving akp' = Some (''p1'', wit_image)"
proof -
  let ?new = "newAvsContainerPerformer sample_perf_config ([] :: nat list)"
  from sample_deploy_run(1) obtain dr where
    run: "sample_deploy [HealthTick 1 (\<lambda>_. True), ReceiveStatus] = DeployReturned (Inr dr) sample_deployed" by blast
  have "freshId (generatePerformerID (cp_config ?new) ''v'') ?new" using sample_fresh(2) by (simp add: newAvsContainerPerformer_def)
  from container_deploys.Returned [OF this run [unfolded sample_deploy_def] refl]
  have "container_deploys sample_manager ?new sample_image (Some (dr_PerformerId dr)) sample_deployed" by simp
  from deployment_run.Deployed [where deploys = "container_deploys sample_manager", OF deployment_run.Start this]
  have c: "deployment_run (container_deploys sample_manager) (container_background sample_manager) ?new
      [(sample_image, Some (dr_PerformerId dr))] sample_deployed" by simp
  obtain d akp' where w: "wit_deploy ''p1'' wit_akp = Some (Inr d, akp')"
    using wit_deploy_ok [of "''p1''" wit_akp] by (auto simp: wit_akp_def)
  have fresh: "\<forall>pr. kp_current wit_akp = Some (Some pr) \<longrightarrow> pr_performerID pr \<noteq> ''p1''" "kp_current wit_akp \<noteq> Some None"
    by (simp_all add: wit_akp_def)
  from k8s_deploy_effect [OF w fresh(2,1)] have "kdr_PerformerId d = ''p1''" by simp
  with k8s_deploys.Returned [OF fresh(1) w refl] have "k8s_deploys wit_api wit_akp wit_image (Some ''p1'') akp'" by simp
  from deployment_run.Deployed [where deploys = "k8s_deploys wit_api", OF deployment_run.Start this]
  have k: "deployment_run (k8s_deploys wit_api) (k8s_background wit_api) wit_akp [(wit_image, Some ''p1'')] akp'" by simp
  from last_deployment_serves [OF sample_manager_ok c wit_akp_new k] have
    "container_serving sample_deployed = Some (dr_PerformerId dr, sample_image)" "k8s_serving akp' = Some (''p1'', wit_image)" by simp_all
  with run w show ?thesis by (intro exI conjI)
qed

end
