(* ===== verification/Grpc_Client.thy ===== *)
theory Grpc_Client
  imports Complex_Main Executor Aggregator
begin

text \<open>
  The gRPC clients, \<open>ponos/pkg/clients\<close>: the transport credentials and the retrying interceptor of
  \<open>grpcRetry.go\<close>, its connection manager, and the clients of the management APIs that authenticate every
  request (\<open>executorClient/authenticatedClient.go\<close>, \<open>aggregatorClient/authenticatedClient.go\<close>). A call is a
  function on the state of the server; the answer of an attempt, the end of the caller's context and the state of a
  connection come from outside. \<open>time.Duration\<close> values are rational numbers of seconds, without the
  truncation to nanoseconds of the backoff; the products with the multiplier 2 that the code uses are exact.
\<close>

section \<open>Connections\<close>

record retry_config =
  rcf_MaxRetries :: int
  rcf_InitialDelay :: rat
  rcf_MaxDelay :: rat
  rcf_BackoffMultiplier :: rat
  rcf_ConnectionTimeout :: rat

definition defaultRetryConfig :: retry_config where
  "defaultRetryConfig = \<lparr>rcf_MaxRetries = 5, rcf_InitialDelay = 1, rcf_MaxDelay = 30, rcf_BackoffMultiplier = 2,
     rcf_ConnectionTimeout = 10\<rparr>"

datatype transport_creds = InsecureCreds | TLSCreds

definition transportCreds :: "string \<Rightarrow> bool \<Rightarrow> transport_creds" where
  "transportCreds url tlsEnabled =
     (if sublist ''localhost:'' url \<or> sublist ''127.0.0.1:'' url \<or> \<not> tlsEnabled then InsecureCreds else TLSCreds)"

record grpc_conn =
  gcn_url :: string
  gcn_creds :: transport_creds
  gcn_config :: retry_config

text \<open>\<open>newClient\<close> is \<open>grpc.NewClient\<close>: an error, or a connection to the address.\<close>

definition newGrpcClientWithRetry ::
  "(string \<Rightarrow> string option) \<Rightarrow> string \<Rightarrow> bool \<Rightarrow> retry_config option \<Rightarrow> (string, grpc_conn) result" where
  "newGrpcClientWithRetry newClient url tlsEnabled retryConfig =
     (let config = (case retryConfig of None \<Rightarrow> defaultRetryConfig | Some c \<Rightarrow> c)
      in case newClient url of
           Some e \<Rightarrow> Inl e
         | None \<Rightarrow> Inr \<lparr>gcn_url = url, gcn_creds = transportCreds url tlsEnabled, gcn_config = config\<rparr>)"

section \<open>Retries\<close>

text \<open>An error of a call: its gRPC status code and its text.\<close>

record grpc_error =
  ger_Code :: nat
  ger_Text :: string

definition retryableTexts :: "string list" where
  "retryableTexts = [''connection refused'', ''connection reset'', ''connection timeout'', ''no such host'', ''network is unreachable'']"

definition isRetryableError :: "grpc_error \<Rightarrow> bool" where
  "isRetryableError err \<longleftrightarrow> ger_Code err \<in> {14, 4, 8, 13} \<or> list_ex (\<lambda>t. sublist t (ger_Text err)) retryableTexts"

datatype retry_error = CallFailed grpc_error | ContextDone grpc_error | AttemptsExhausted "grpc_error option"

definition nextDelay :: "retry_config \<Rightarrow> rat \<Rightarrow> rat" where
  "nextDelay config delay = min (delay * rcf_BackoffMultiplier config) (rcf_MaxDelay config)"

text \<open>
  The loop of the interceptor from one attempt on. \<open>invoke i\<close> is the call of attempt \<open>i\<close>, \<open>ctxErr i\<close> the error of the
  caller's context after it. The result comes with the number of calls made and the time slept.
\<close>

function retryAttempts ::
  "retry_config \<Rightarrow> (nat \<Rightarrow> 's \<Rightarrow> (grpc_error, 'r) result \<times> 's) \<Rightarrow> (nat \<Rightarrow> grpc_error option) \<Rightarrow> nat \<Rightarrow> rat \<Rightarrow> grpc_error option \<Rightarrow> 's \<Rightarrow>
     (retry_error, 'r) result \<times> nat \<times> rat \<times> 's" where
  "retryAttempts config invoke ctxErr attempt delay lastErr s =
     (if rcf_MaxRetries config < int attempt then (Inl (AttemptsExhausted lastErr), 0, 0, s)
      else case invoke attempt s of
        (Inr reply, s') \<Rightarrow> (Inr reply, 1, 0, s')
      | (Inl err, s') \<Rightarrow>
          if \<not> isRetryableError err then (Inl (CallFailed err), 1, 0, s')
          else if int attempt = rcf_MaxRetries config then (Inl (AttemptsExhausted (Some err)), 1, 0, s')
          else case ctxErr attempt of
            Some e \<Rightarrow> (Inl (ContextDone e), 1, 0, s')
          | None \<Rightarrow>
              (case retryAttempts config invoke ctxErr (Suc attempt) (nextDelay config delay) (Some err) s' of
                 (res, calls, slept, s'') \<Rightarrow> (res, Suc calls, delay + slept, s'')))"
  by pat_completeness auto
termination
  by (relation "measure (\<lambda>(config, invoke, ctxErr, attempt, delay, lastErr, s). nat (rcf_MaxRetries config + 1 - int attempt))") auto

declare retryAttempts.simps [simp del]

definition retryUnaryInterceptor ::
  "retry_config \<Rightarrow> (nat \<Rightarrow> 's \<Rightarrow> (grpc_error, 'r) result \<times> 's) \<Rightarrow> (nat \<Rightarrow> grpc_error option) \<Rightarrow> 's \<Rightarrow>
     (retry_error, 'r) result \<times> nat \<times> rat \<times> 's" where
  "retryUnaryInterceptor config invoke ctxErr s = retryAttempts config invoke ctxErr 0 (rcf_InitialDelay config) None s"

section \<open>The connection manager\<close>

datatype connectivity_state = ConnIdle | ConnConnecting | ConnReady | ConnTransientFailure | ConnShutdown

record connection_manager =
  cmg_url :: string
  cmg_insecureConn :: bool
  cmg_retryConfig :: retry_config
  cmg_conn :: "grpc_conn option"
  cmg_lastHealthy :: time
  cmg_unhealthyCount :: nat

definition newConnectionManager :: "string \<Rightarrow> bool \<Rightarrow> retry_config option \<Rightarrow> time \<Rightarrow> connection_manager" where
  "newConnectionManager url insecureConn retryConfig now =
     \<lparr>cmg_url = url, cmg_insecureConn = insecureConn,
      cmg_retryConfig = (case retryConfig of None \<Rightarrow> defaultRetryConfig | Some c \<Rightarrow> c),
      cmg_conn = None, cmg_lastHealthy = now, cmg_unhealthyCount = 0\<rparr>"

definition testConnection :: "connectivity_state option \<Rightarrow> bool" where
  "testConnection state \<longleftrightarrow> state = Some ConnReady"

definition isConnectionHealthy :: "connectivity_state \<Rightarrow> time \<Rightarrow> connection_manager \<Rightarrow> bool \<times> connection_manager" where
  "isConnectionHealthy state now cm =
     (if cmg_conn cm = None then (False, cm)
      else if state = ConnReady \<or> state = ConnIdle then (True, cm\<lparr>cmg_lastHealthy := now, cmg_unhealthyCount := 0\<rparr>)
      else (False, cm\<lparr>cmg_unhealthyCount := Suc (cmg_unhealthyCount cm)\<rparr>))"

definition getConnection ::
  "(string \<Rightarrow> string option) \<Rightarrow> connectivity_state \<Rightarrow> time \<Rightarrow> connection_manager \<Rightarrow> (string, grpc_conn) result \<times> connection_manager" where
  "getConnection newClient state now cm =
     (case (cmg_conn cm, isConnectionHealthy state now cm) of
        (Some conn, (True, cm1)) \<Rightarrow> (Inr conn, cm1)
      | (_, (_, cm1)) \<Rightarrow>
          (case newGrpcClientWithRetry newClient (cmg_url cm1) (cmg_insecureConn cm1) (Some (cmg_retryConfig cm1)) of
             Inl e \<Rightarrow> (Inl e, cm1\<lparr>cmg_unhealthyCount := Suc (cmg_unhealthyCount cm1)\<rparr>)
           | Inr conn \<Rightarrow> (Inr conn, cm1\<lparr>cmg_conn := Some conn, cmg_lastHealthy := now, cmg_unhealthyCount := 0\<rparr>)))"

definition isCircuitOpen :: "time \<Rightarrow> connection_manager \<Rightarrow> bool" where
  "isCircuitOpen now cm \<longleftrightarrow> 5 < cmg_unhealthyCount cm \<and> 60 < now - cmg_lastHealthy cm"

definition closeConnectionManager :: "connection_manager \<Rightarrow> connection_manager" where
  "closeConnectionManager cm = cm\<lparr>cmg_conn := None\<rparr>"

section \<open>Authenticated clients\<close>

record auth_client =
  acl_address :: string
  acl_signer :: signer

datatype client_error = ChallengeFailed grpc_code | ChallengePanic | SignFailed

definition executorAuthSignature ::
  "eth_common \<Rightarrow> string \<Rightarrow> time \<Rightarrow> auth_client \<Rightarrow> ('s, 'p) executor \<Rightarrow> (client_error, auth_signature) result \<times> ('s, 'p) executor" where
  "executorAuthSignature eth uuidStr now cl e =
     (case executorGetChallengeToken eth uuidStr now (acl_address cl) e of
        (MgmtStatus code msg, e1) \<Rightarrow> (Inl (ChallengeFailed code), e1)
      | (MgmtPanic, e1) \<Rightarrow> (Inl ChallengePanic, e1)
      | (MgmtOk (token, expires), e1) \<Rightarrow>
          (case acl_signer cl (constructSignedMessage eth token) of
             None \<Rightarrow> (Inl SignFailed, e1)
           | Some signature \<Rightarrow> (Inr \<lparr>as_ChallengeToken = token, as_Signature = signature\<rparr>, e1)))"

text \<open>The three protected requests differ in the request they send once it is signed.\<close>

definition authenticatedCall ::
  "eth_common \<Rightarrow> string \<Rightarrow> time \<Rightarrow> auth_client \<Rightarrow> (auth_signature \<Rightarrow> ('s, 'p) executor \<Rightarrow> 'a mgmt \<times> ('s, 'p) executor) \<Rightarrow>
     ('s, 'p) executor \<Rightarrow> (client_error, 'a mgmt) result \<times> ('s, 'p) executor" where
  "authenticatedCall eth uuidStr now cl request e =
     (case executorAuthSignature eth uuidStr now cl e of
        (Inl err, e1) \<Rightarrow> (Inl err, e1)
      | (Inr au, e1) \<Rightarrow> (case request au e1 of (res, e2) \<Rightarrow> (Inr res, e2)))"

definition aggregatorAuthSignature ::
  "eth_common \<Rightarrow> string \<Rightarrow> time \<Rightarrow> auth_client \<Rightarrow> ('s, 'k) aggregator \<Rightarrow> (client_error, auth_signature) result \<times> ('s, 'k) aggregator" where
  "aggregatorAuthSignature eth uuidStr now cl a =
     (case rpc_GetChallengeToken eth uuidStr now (acl_address cl) a of
        (Inl code, a1) \<Rightarrow> (Inl (ChallengeFailed code), a1)
      | (Inr (token, expires), a1) \<Rightarrow>
          (case acl_signer cl (constructSignedMessage eth token) of
             None \<Rightarrow> (Inl SignFailed, a1)
           | Some signature \<Rightarrow> (Inr \<lparr>as_ChallengeToken = token, as_Signature = signature\<rparr>, a1)))"

definition authenticatedDeRegisterAvs ::
  "eth_common \<Rightarrow> string \<Rightarrow> time \<Rightarrow> time \<Rightarrow> auth_client \<Rightarrow> string \<Rightarrow> ('s, 'k) aggregator \<Rightarrow>
     (client_error, rpc_result) result \<times> ('s, 'k) aggregator" where
  "authenticatedDeRegisterAvs eth uuidStr now now' cl avsAddress a =
     (case aggregatorAuthSignature eth uuidStr now cl a of
        (Inl err, a1) \<Rightarrow> (Inl err, a1)
      | (Inr au, a1) \<Rightarrow> (case rpc_DeRegisterAvs eth now' avsAddress (Some au) a1 of (res, a2) \<Rightarrow> (Inr res, a2)))"

definition authenticatedRegisterAvs ::
  "eth_common \<Rightarrow> string \<Rightarrow> time \<Rightarrow> 's aggregator_store \<Rightarrow> poller_env \<Rightarrow> (chain_id \<Rightarrow> eth_client) \<Rightarrow> auth_client \<Rightarrow> register_request \<Rightarrow>
     ('s, 'k) aggregator \<Rightarrow> (client_error, rpc_result) result \<times> ('s, 'k) aggregator" where
  "authenticatedRegisterAvs eth uuidStr now sops env clients cl req a =
     (case aggregatorAuthSignature eth uuidStr now cl a of
        (Inl err, a1) \<Rightarrow> (Inl err, a1)
      | (Inr au, a1) \<Rightarrow> (case rpc_RegisterAvs eth sops env clients (req\<lparr>rq_Auth := Some au\<rparr>) a1 of (res, a2) \<Rightarrow> (Inr res, a2)))"

end
