(* ===== verification/Client_Theorems.thy ===== *)
theory Client_Theorems
  imports Grpc_Client Executor_Theorems
begin

text \<open>
  The clients together with the servers they call: what a retried call returns, that an authenticated request is
  accepted by the service it is meant for, and what becomes of a task whose answer was lost.
\<close>

section \<open>The interceptor\<close>

text \<open>The result of a call through the interceptor, when attempt \<open>i\<close> in the server's state \<open>t\<close> is its last.\<close>

definition lastCall ::
  "retry_config \<Rightarrow> (nat \<Rightarrow> 's \<Rightarrow> (grpc_error, 'r) result \<times> 's) \<Rightarrow> (nat \<Rightarrow> grpc_error option) \<Rightarrow> nat \<Rightarrow> 's \<Rightarrow>
     (retry_error, 'r) result \<Rightarrow> 's \<Rightarrow> bool" where
  "lastCall config invoke ctxErr i t res s' \<longleftrightarrow> s' = snd (invoke i t) \<and>
     (case fst (invoke i t) of
        Inr reply \<Rightarrow> res = Inr reply
      | Inl err \<Rightarrow>
          if \<not> isRetryableError err then res = Inl (CallFailed err)
          else if int i = rcf_MaxRetries config then res = Inl (AttemptsExhausted (Some err))
          else (\<exists>e. ctxErr i = Some e \<and> res = Inl (ContextDone e)))"

lemma retryAttempts_cases:
  assumes "int attempt \<le> rcf_MaxRetries config"
    and "retryAttempts config invoke ctxErr attempt delay lastErr s = (res, calls, slept, s')"
  obtains (last) "calls = 1" "slept = 0" "lastCall config invoke ctxErr attempt s res s'"
    | (again) err t calls1 slept1 where "invoke attempt s = (Inl err, t)" "isRetryableError err" "int attempt < rcf_MaxRetries config"
      "ctxErr attempt = None"
      "retryAttempts config invoke ctxErr (Suc attempt) (nextDelay config delay) (Some err) t = (res, calls1, slept1, s')"
      "calls = Suc calls1" "slept = delay + slept1"
proof (cases "\<exists>err. fst (invoke attempt s) = Inl err \<and> isRetryableError err \<and> int attempt \<noteq> rcf_MaxRetries config \<and> ctxErr attempt = None")
  case True
  then obtain err t where err: "invoke attempt s = (Inl err, t)" "isRetryableError err" "int attempt \<noteq> rcf_MaxRetries config" "ctxErr attempt = None"
    by (cases "invoke attempt s") auto
  obtain res1 calls1 slept1 s1 where rec:
    "retryAttempts config invoke ctxErr (Suc attempt) (nextDelay config delay) (Some err) t = (res1, calls1, slept1, s1)" by (metis prod_cases4)
  with err assms have "res = res1" "calls = Suc calls1" "slept = delay + slept1" "s' = s1"
    by (auto simp: retryAttempts.simps [of config invoke ctxErr attempt])
  with err rec assms(1) show thesis by (intro again) auto
next
  case False
  with assms show thesis
    by (intro last) (auto simp: retryAttempts.simps [of config invoke ctxErr attempt] lastCall_def split: prod.splits sum.splits if_splits option.splits)
qed

lemma retryAttempts_outcome:
  assumes "int attempt \<le> rcf_MaxRetries config" "0 \<le> delay" "0 \<le> rcf_MaxDelay config" "0 \<le> rcf_BackoffMultiplier config"
    and "retryAttempts config invoke ctxErr attempt delay lastErr s = (res, calls, slept, s')"
  shows "0 < calls \<and> int (attempt + calls) \<le> rcf_MaxRetries config + 1 \<and>
    slept \<le> of_nat (calls - 1) * max delay (rcf_MaxDelay config) \<and>
    (\<exists>t. lastCall config invoke ctxErr (attempt + calls - 1) t res s')"
  using assms
proof (induction config invoke ctxErr attempt delay lastErr s arbitrary: res calls slept s' rule: retryAttempts.induct)
  case (1 config invoke ctxErr attempt delay lastErr s)
  from "1.prems"(1,5) show ?case
  proof (cases rule: retryAttempts_cases)
    case last
    with "1.prems"(1) show ?thesis by (auto intro: exI [of _ s])
  next
    case (again err t calls1 slept1)
    let ?d = "nextDelay config delay"
    have d: "0 \<le> ?d" "?d \<le> rcf_MaxDelay config" using "1.prems"(2-4) by (simp_all add: nextDelay_def)
    have IH: "0 < calls1 \<and> int (Suc attempt + calls1) \<le> rcf_MaxRetries config + 1 \<and>
      slept1 \<le> of_nat (calls1 - 1) * max ?d (rcf_MaxDelay config) \<and>
      (\<exists>t. lastCall config invoke ctxErr (Suc attempt + calls1 - 1) t res s')"
      by (rule "1.IH" [OF _ again(1) [symmetric] refl _ _ again(4)]) (use "1.prems"(1,3,4) again d(1) in auto)
    let ?m = "max delay (rcf_MaxDelay config)"
    have "max ?d (rcf_MaxDelay config) \<le> ?m" using d(2) by simp
    then have "of_nat (calls1 - 1) * max ?d (rcf_MaxDelay config) \<le> of_nat (calls1 - 1) * ?m" by (intro mult_left_mono) simp_all
    with IH have "slept1 \<le> of_nat (calls1 - 1) * ?m" by linarith
    then have "delay + slept1 \<le> of_nat calls1 * ?m" using IH by (cases calls1) (auto simp: algebra_simps)
    with IH show ?thesis by (simp add: again(6,7))
  qed
qed

text \<open>
  A call through the retrying interceptor always returns. It makes at least one and at most \<open>MaxRetries + 1\<close>
  calls; the result is the reply or the error of the last call, a retryable error is only returned when the
  attempts are used up or the caller's context has ended, and each pause is at most \<open>MaxDelay\<close>, or the initial delay if
  that is longer.
\<close>

theorem interceptor_returns_last_call:
  assumes "retryUnaryInterceptor config invoke ctxErr s = (res, calls, slept, s')"
    and "0 \<le> rcf_MaxRetries config" "0 \<le> rcf_InitialDelay config" "0 \<le> rcf_MaxDelay config" "0 \<le> rcf_BackoffMultiplier config"
  shows "0 < calls \<and> int calls \<le> rcf_MaxRetries config + 1 \<and>
    slept \<le> of_nat (calls - 1) * max (rcf_InitialDelay config) (rcf_MaxDelay config) \<and>
    (\<exists>t. lastCall config invoke ctxErr (calls - 1) t res s')"
  using retryAttempts_outcome [of 0 config "rcf_InitialDelay config" invoke ctxErr None s res calls slept s'] assms
  unfolding retryUnaryInterceptor_def by auto

section \<open>Authenticated requests\<close>

text \<open>
  C25. The authenticated client and the executor fit together. When the client signs with the executor's own key
  and names its operator, and the executor receives the request before the token expires, the request passes
  authentication and the handler runs on the executor with only its tokens changed. The same signature sent again, as the interceptor does
  when it repeats a request, is refused.
\<close>

theorem authenticated_request_accepted:
  assumes "ex_authVerifier e = AuthOn v" "acl_signer cl = v_signer v"
    and "acl_address cl \<noteq> []" "equalFold (acl_address cl) (xcf_OperatorAddress (ex_config e))"
      "equalFold (acl_address cl) (ctm_authorizedEntity (v_tokenManager v))"
    and "v_signer v (constructSignedMessage eth (tokenOf eth uuidStr)) = Some sig"
    and "now' \<le> now + ctm_expiration (v_tokenManager v)"
  shows "\<exists>au e1 v'. executorAuthSignature eth uuidStr now cl e = (Inr au, e1) \<and>
    authenticatedCall eth uuidStr now cl (\<lambda>au. withAuth eth now' (Some au) f) e =
      (Inr (fst (f (e\<lparr>ex_authVerifier := AuthOn v'\<rparr>))), snd (f (e\<lparr>ex_authVerifier := AuthOn v'\<rparr>))) \<and>
    withAuth eth now'' (Some au) g (e\<lparr>ex_authVerifier := AuthOn v'\<rparr>) =
      (MgmtStatus Unauthenticated ''Authentication failed'', e\<lparr>ex_authVerifier := AuthOn v'\<rparr>)"
proof -
  let ?t = "tokenOf eth uuidStr" and ?tm = "v_tokenManager v"
  let ?entry = "\<lparr>te_Token = ?t, te_CreatedAt = now, te_ExpiresAt = now + ctm_expiration ?tm, te_Used = False\<rparr>"
  let ?v1 = "v\<lparr>v_tokenManager := ?tm\<lparr>ctm_tokens := gm_put (ctm_tokens ?tm) ?t ?entry\<rparr>\<rparr>"
  let ?v2 = "v\<lparr>v_tokenManager := ?tm\<lparr>ctm_tokens := AList.map_entry ?t (te_Used_update (\<lambda>_. True)) (gm_put (ctm_tokens ?tm) ?t ?entry)\<rparr>\<rparr>"
  let ?au = "\<lparr>as_ChallengeToken = ?t, as_Signature = sig\<rparr>"
  have token: "executorAuthSignature eth uuidStr now cl e = (Inr ?au, e\<lparr>ex_authVerifier := AuthOn ?v1\<rparr>)"
    using assms by (simp add: executorAuthSignature_def executorGetChallengeToken_def verifierGenerate_def generateChallengeToken_def Let_def)
  have used: "verifyAuthentication eth now' ?v1 (Some ?au) = (None, ?v2)"
    using assms(6,7) by (simp add: verifyAuthentication_def useChallengeToken_def bytesEqual_iff Let_def)
  have again: "verifyAuthentication eth now'' ?v2 (Some ?au) = (Some (Status Unauthenticated), ?v2)"
    by (simp add: verifyAuthentication_def useChallengeToken_def map_of_map_entry)
  from used have "withAuth eth now' (Some ?au) f (e\<lparr>ex_authVerifier := AuthOn ?v1\<rparr>) = f (e\<lparr>ex_authVerifier := AuthOn ?v2\<rparr>)"
    by (simp add: withAuth_def executorVerifyAuth_def authOfPointer_def)
  with token have "authenticatedCall eth uuidStr now cl (\<lambda>au. withAuth eth now' (Some au) f) e =
      (Inr (fst (f (e\<lparr>ex_authVerifier := AuthOn ?v2\<rparr>))), snd (f (e\<lparr>ex_authVerifier := AuthOn ?v2\<rparr>)))"
    by (simp add: authenticatedCall_def split: prod.split)
  moreover from again have "withAuth eth now'' (Some ?au) g (e\<lparr>ex_authVerifier := AuthOn ?v2\<rparr>) =
      (MgmtStatus Unauthenticated ''Authentication failed'', e\<lparr>ex_authVerifier := AuthOn ?v2\<rparr>)"
    by (simp add: withAuth_def executorVerifyAuth_def authOfPointer_def handleAuthError_def)
  ultimately show ?thesis using token by blast
qed

section \<open>Lost answers\<close>

text \<open>
  An attempt to submit a task: the executor handles it, and the answer of attempt \<open>i\<close> may not arrive before the
  attempt's own deadline (\<open>late i\<close>), which the client sees as \<open>DEADLINE_EXCEEDED\<close>. \<open>wire\<close> is how gRPC transmits an error of the
  handler.
\<close>

definition submitAttempt ::
  "eth_common \<Rightarrow> hex_lib \<Rightarrow> ('pub, 'sig, 'g2, 'k) bn254_lib \<Rightarrow> 'esig ecdsa_lib \<Rightarrow> ('k, 'g2s) chain_contracts \<Rightarrow> cert_caller \<Rightarrow>
     's executor_store \<Rightarrow> 'p avs_performer_ops \<Rightarrow> (nat \<Rightarrow> time) \<Rightarrow> (submit_error \<Rightarrow> grpc_error) \<Rightarrow> (nat \<Rightarrow> bool) \<Rightarrow> task_submission \<Rightarrow>
     nat \<Rightarrow> ('s, 'p) executor \<Rightarrow> (grpc_error, task_result_proto) result \<times> ('s, 'p) executor" where
  "submitAttempt eth hx lib elib ch cc xops pops now wire late req i e =
     (case submitTask eth hx lib elib ch cc xops pops (now i) req e of
        (Inl err, e') \<Rightarrow> (Inl (wire err), e')
      | (Inr res, e') \<Rightarrow>
          (if late i then Inl \<lparr>ger_Code = 4, ger_Text = ''context deadline exceeded''\<rparr> else Inr res, e'))"

context replay_log
begin

lemma answered_refused:
  assumes "invar (ex_store e)" "\<not> is_closed (ex_store e)" "json_time_ok now"
    and "submitTask eth hx lib elib ch cc ops pops now req e = (Inr res, e1)"
  shows "submitTask eth hx lib elib ch cc ops pops now' req e1 = (Inl AlreadyProcessed, e1)"
proof -
  have v: "sub_TaskId req \<noteq> []" "validateTaskSubmission hx req = None"
    and h: "handleReceivedTask eth lib elib ch cc ops pops now req e = (Inr res, e1)"
    using assms(4) by (auto simp: submitTask_Inr validateTaskSubmission_def split: if_splits)
  obtain err s1 where m: "xsMarkTaskProcessed ops now (ex_store e) (sub_TaskId req) = (err, s1)" by fastforce
  from h m have "ex_store e1 = s1" by (cases rule: handleReceivedTask_Inr) simp
  with remembers [OF assms(1,2) v(1) assms(3) m] markProcessed [OF assms(1,2) m]
  have "xsIsTaskProcessed ops (ex_store e1) (sub_TaskId req) = Inr True" by (simp add: isProcessed)
  moreover have "toLower (sub_AvsAddress req) \<noteq> []" using h by (auto simp: handleReceivedTask_def Let_def)
  ultimately show ?thesis using v(2) by (simp add: submitTask_def handleReceivedTask_def Let_def)
qed

end

text \<open>
  An answer that comes too late is lost for good. When the executor has answered a task but its answer
  did not arrive before the deadline of the attempt, the interceptor submits the task again, the executor
  refuses it as already processed, and the client reports that error: the session never gets the
  executor's signed result, however many retries are configured. The deadline is \<open>ConnectionTimeout\<close>, which
  bounds the whole call and with it the run of the task.
\<close>

theorem late_answer_lost:
  assumes "kv_ok kv view" "bx_invar view (ex_store e)" "\<not> bx_closed (ex_store e)" "json_time_ok (now 0)"
    and "submitTask eth hx lib elib ch cc (bx_ops kv) pops (now 0) req e = (Inr res, e1)"
    and "late 0" "ctxErr 0 = None" "0 < rcf_MaxRetries config" "\<not> isRetryableError (wire AlreadyProcessed)"
  shows "retryUnaryInterceptor config (submitAttempt eth hx lib elib ch cc (bx_ops kv) pops now wire late req) ctxErr e =
    (Inl (CallFailed (wire AlreadyProcessed)), 2, rcf_InitialDelay config, e1)"
proof -
  let ?call = "submitAttempt eth hx lib elib ch cc (bx_ops kv) pops now wire late req"
  let ?err = "\<lparr>ger_Code = 4, ger_Text = ''context deadline exceeded''\<rparr>"
  have first: "?call 0 e = (Inl ?err, e1)" using assms(5,6) by (simp add: submitAttempt_def)
  have second: "?call (Suc 0) e1 = (Inl (wire AlreadyProcessed), e1)"
    using replay_log.answered_refused [OF bx_replay_log [OF assms(1)] assms(2-5)] by (simp add: submitAttempt_def)
  have "isRetryableError ?err" by (simp add: isRetryableError_def)
  with first second assms(7-9) show ?thesis
    by (simp add: retryUnaryInterceptor_def retryAttempts.simps [of config ?call ctxErr 0]
        retryAttempts.simps [of config ?call ctxErr "Suc 0"])
qed

section \<open>Transport\<close>

text \<open>
  The connection manager passes its \<open>insecureConn\<close> as \<open>tlsEnabled\<close>: an insecure connection to another host is made with
  TLS, and a secure one without.
\<close>

theorem insecure_flag_inverted:
  assumes "cmg_conn cm = None" "newClient (cmg_url cm) = None" "\<not> sublist ''localhost:'' (cmg_url cm)" "\<not> sublist ''127.0.0.1:'' (cmg_url cm)"
  shows "\<exists>conn cm'. getConnection newClient state now cm = (Inr conn, cm') \<and> cmg_conn cm' = Some conn \<and>
    gcn_creds conn = (if cmg_insecureConn cm then TLSCreds else InsecureCreds)"
  using assms by (simp add: getConnection_def isConnectionHealthy_def newGrpcClientWithRetry_def transportCreds_def)

text \<open>A connection manager that hands out a connection is not broken: its circuit is closed.\<close>

lemma connected_circuit_closed:
  assumes "getConnection newClient state now cm = (Inr conn, cm')"
  shows "\<not> isCircuitOpen now' cm' \<and> cmg_conn cm' = Some conn"
  using assms
  by (auto simp: getConnection_def isConnectionHealthy_def isCircuitOpen_def split: option.splits prod.splits if_splits sum.splits bool.splits)

end
