(* ===== verification/Client_Witnesses.thy ===== *)
theory Client_Witnesses
  imports Client_Theorems Executor_Witnesses
begin

text \<open>Closed instances of the theorems on the clients, in the environment of \<open>Executor_Witnesses\<close>.\<close>

text \<open>A server that is unavailable twice and then answers.\<close>

definition wit_flaky :: "nat \<Rightarrow> nat \<Rightarrow> (grpc_error, string) result \<times> nat" where
  "wit_flaky i n = (if i < 2 then Inl \<lparr>ger_Code = 14, ger_Text = []\<rparr> else Inr ''ok'', Suc n)"

lemma wit_flaky_run: "retryUnaryInterceptor defaultRetryConfig wit_flaky (\<lambda>_. None) 0 = (Inr ''ok'', 3, 3, 3)"
proof -
  have "isRetryableError \<lparr>ger_Code = 14, ger_Text = []\<rparr>" by (simp add: isRetryableError_def)
  then show ?thesis
    by (simp add: retryUnaryInterceptor_def retryAttempts.simps defaultRetryConfig_def wit_flaky_def nextDelay_def eval_nat_numeral)
qed

theorem interceptor_returns_last_call_witness:
  "retryUnaryInterceptor defaultRetryConfig wit_flaky (\<lambda>_. None) 0 = (Inr ''ok'', 3, 3, 3) \<and>
   (\<exists>t. lastCall defaultRetryConfig wit_flaky (\<lambda>_. None) 2 t (Inr ''ok'') 3)"
  using interceptor_returns_last_call [OF wit_flaky_run] wit_flaky_run by (simp add: defaultRetryConfig_def)

definition wit_client :: auth_client where
  "wit_client = \<lparr>acl_address = wit_addr (CHR ''b''), acl_signer = authSigner (ecdsaSigner wit_eth wit_sign 5)\<rparr>"

theorem authenticated_request_accepted_witness:
  "fst (authenticatedCall wit_eth ''u'' 3 wit_client (\<lambda>au. withAuth wit_eth 4 (Some au) (\<lambda>e. (MgmtOk (7::nat), e)))
     (wit_executor newInMemoryExecutorStore)) = Inr (MgmtOk 7)"
proof -
  let ?v = "newVerifier (newChallengeTokenManager (wit_addr (CHR ''b'')) 300) (authSigner (ecdsaSigner wit_eth wit_sign 5))"
  have v: "ex_authVerifier (wit_executor newInMemoryExecutorStore) = AuthOn ?v"
    "xcf_OperatorAddress (ex_config (wit_executor newInMemoryExecutorStore)) = wit_addr (CHR ''b'')"
    by (simp_all add: wit_executor_def newExecutor_def wit_config_def Let_def)
  have "\<exists>sig. v_signer ?v (constructSignedMessage wit_eth (tokenOf wit_eth ''u'')) = Some sig"
    by (simp add: newVerifier_def authSigner_def ecdsaSigner_def inMemorySigner_def ims_SignMessage_def wit_sign_def signOutcome_def)
  then obtain sig where "v_signer ?v (constructSignedMessage wit_eth (tokenOf wit_eth ''u'')) = Some sig" ..
  from authenticated_request_accepted [OF v(1), of wit_client wit_eth "''u''" sig 4 3 "\<lambda>e. (MgmtOk (7::nat), e)" 5
      "\<lambda>e. (MgmtOk (7::nat), e)"] this v(2)
  show ?thesis
    by (auto simp: wit_client_def newVerifier_def newChallengeTokenManager_def wit_addr_def)
qed

definition wit_wire :: "submit_error \<Rightarrow> grpc_error" where
  "wit_wire err = \<lparr>ger_Code = 2, ger_Text = ''failed to handle received task''\<rparr>"

lemma wit_wire_final: "\<not> isRetryableError (wit_wire err)"
  unfolding isRetryableError_def wit_wire_def retryableTexts_def by code_simp

text \<open>The first answer of the executor is late; the client ends with the refusal of the second submission.\<close>

theorem late_answer_lost_witness:
  "\<exists>e1. retryUnaryInterceptor defaultRetryConfig (submitAttempt wit_eth wit_hex sample_bn254 sample_ecdsa (wit_chain CurveTypeBN254) wit_cc
       (bx_ops kv_alist) wit_performers (\<lambda>i. 3) wit_wire (\<lambda>i. i = 0) wit_submission) (\<lambda>_. None) (wit_executor wit_store) =
     (Inl (CallFailed (wit_wire AlreadyProcessed)), 2, 1, e1)"
proof -
  have curve: "CurveTypeBN254 = CurveTypeECDSA \<or> CurveTypeBN254 = CurveTypeBN254" by simp
  note first = wit_handled [OF curve wit_fresh, of 3]
  from late_answer_lost [OF kv_alist_ok _ _ _ first, of "\<lambda>i. i = 0" "\<lambda>_. None" defaultRetryConfig wit_wire] wit_store_ok
  show ?thesis by (simp add: json_time_ok_def defaultRetryConfig_def wit_wire_final)
qed

end
