(* ===== verification/Docker_Manager.thy ===== *)
theory Docker_Manager
  imports Container_Performer
begin

text \<open>
  The Docker container manager, \<open>ponos/pkg/containerManager/dockerManager.go\<close>. The Docker daemon is a
  parameter, the client record \<open>docker_client\<close> over a daemon state \<open>'k\<close>; every call that takes a context
  has a flag that says whether the context is done. Text attached by \<open>errors.Wrap\<close> is part of the error
  strings, since the code searches errors for \<open>No such container\<close>.

  Monitors are shared between the map, their goroutines and callers that hold a pointer, so they live in a
  heap, \<open>dm_monitors\<close>, and the map holds references; so do the health checks. An event channel is its
  buffer of ten events with a flag that it is closed. A send on a closed channel panics, which ends the
  process: \<open>dm_crashed\<close>. \<open>dm_closing\<close> holds the goroutines that will close a channel in ten milliseconds.

  \<open>attempt_ctx\<close> describes the context of a goroutine at the points where it is consulted: whether it is
  done there, and which case a \<open>select\<close> takes when both its context and the send are ready.
\<close>

section \<open>The Docker client\<close>

record docker_create =
  dcr_Hostname :: string
  dcr_Image :: string
  dcr_Env :: "string list"
  dcr_WorkingDir :: string
  dcr_ExposedPorts :: "string list"
  dcr_User :: string
  dcr_AutoRemove :: bool
  dcr_PortBindings :: "(string \<times> (string \<times> string) list) list"
  dcr_Privileged :: bool
  dcr_ReadonlyRootfs :: bool
  dcr_Memory :: int
  dcr_CPUShares :: int
  dcr_RestartPolicy :: string
  dcr_Endpoints :: "string list"
  dcr_Name :: string

text \<open>The times are \<open>None\<close> when their text is not an RFC 3339 time.\<close>

record docker_inspect =
  dj_ID :: string
  dj_Hostname :: string
  dj_Status :: string
  dj_Ports :: "(string \<times> string list) list"
  dj_Networks :: "string list"
  dj_ExitCode :: int
  dj_StartedAt :: "time option"
  dj_FinishedAt :: "time option"
  dj_OOMKilled :: bool
  dj_Error :: string
  dj_Restarting :: bool

text \<open>
  \<open>ImagePull\<close> answers an error or the outcome of reading its response to the end; \<open>ContainerStats\<close> an error
  or the decoded body. \<open>dk_second\<close> is what the daemon does in a second.
\<close>

record 'k docker_client =
  dk_ImageList :: "bool \<Rightarrow> 'k \<Rightarrow> (string, string list list) result"
  dk_ImagePull :: "bool \<Rightarrow> 'k \<Rightarrow> string \<Rightarrow> (string, string option) result \<times> 'k"
  dk_NetworkList :: "bool \<Rightarrow> 'k \<Rightarrow> (string, string list) result"
  dk_NetworkCreate :: "bool \<Rightarrow> 'k \<Rightarrow> string \<Rightarrow> string option \<times> 'k"
  dk_NetworkRemove :: "bool \<Rightarrow> 'k \<Rightarrow> string \<Rightarrow> string option \<times> 'k"
  dk_ContainerCreate :: "bool \<Rightarrow> 'k \<Rightarrow> docker_create \<Rightarrow> (string, string) result \<times> 'k"
  dk_ContainerStart :: "bool \<Rightarrow> 'k \<Rightarrow> string \<Rightarrow> string option \<times> 'k"
  dk_ContainerStop :: "bool \<Rightarrow> 'k \<Rightarrow> string \<Rightarrow> int \<Rightarrow> string option \<times> 'k"
  dk_ContainerRemove :: "bool \<Rightarrow> 'k \<Rightarrow> string \<Rightarrow> bool \<Rightarrow> string option \<times> 'k"
  dk_ContainerInspect :: "bool \<Rightarrow> 'k \<Rightarrow> string \<Rightarrow> (string, docker_inspect) result"
  dk_ContainerRestart :: "bool \<Rightarrow> 'k \<Rightarrow> string \<Rightarrow> int \<Rightarrow> string option \<times> 'k"
  dk_ContainerStats :: "bool \<Rightarrow> 'k \<Rightarrow> string \<Rightarrow> (string, (string, (string \<times> json) list) result) result"
  dk_Close :: "'k \<Rightarrow> string option \<times> 'k"
  dk_second :: "'k \<Rightarrow> 'k"

section \<open>Text\<close>

text \<open>\<open>errors.Wrap(err, msg)\<close>, \<open>%d\<close> of an \<open>int\<close>, and \<open>%.1f\<close>, which rounds ties to even.\<close>

definition errorsWrap :: "string \<Rightarrow> string \<Rightarrow> string" where
  "errorsWrap msg err = msg @ '': '' @ err"

definition decInt :: "int \<Rightarrow> string" where
  "decInt i = (if i < 0 then ''-'' @ dec (nat (- i)) else dec (nat i))"

definition roundHalfEven :: "float64 \<Rightarrow> int" where
  "roundHalfEven x =
     (let n = floor x; f = x - of_int n
      in if f < 1 / 2 then n else if 1 / 2 < f then n + 1 else if even n then n else n + 1)"

definition formatOneDecimal :: "float64 \<Rightarrow> string" where
  "formatOneDecimal x =
     (let n = nat (roundHalfEven (\<bar>x\<bar> * 10))
      in (if x < 0 then ''-'' else []) @ dec (n div 10) @ ''.'' @ dec (n mod 10))"

text \<open>\<open>strconv.Atoi\<close>: an optional sign and decimal digits, within the range of a 64-bit integer.\<close>

definition strconvAtoi :: "string \<Rightarrow> int option" where
  "strconvAtoi s =
     (let (neg, ds) = (case s of
          c # t \<Rightarrow> if c = CHR ''-'' then (True, t) else if c = CHR ''+'' then (False, t) else (False, s)
        | [] \<Rightarrow> (False, s));
          n = int (undec ds); v = (if neg then - n else n)
      in if ds \<noteq> [] \<and> (\<forall>c\<in>set ds. 48 \<le> (of_char c :: nat) \<and> (of_char c :: nat) \<le> 57) \<and> - (2 ^ 63) \<le> v \<and> v < 2 ^ 63
         then Some v else None)"

definition noSuchContainer :: "string \<Rightarrow> bool" where
  "noSuchContainer err \<longleftrightarrow> sublist ''No such container'' err"

section \<open>State\<close>

record health_check =
  hk_containerID :: string
  hk_config :: health_check_config
  hk_cancelled :: bool
  hk_failures :: int
  hk_chan :: "bool list"
  hk_closed :: bool

text \<open>\<open>mon_failures\<close> is the counter of the monitor's liveness goroutine.\<close>

record container_monitor =
  mon_containerID :: string
  mon_config :: liveness_config
  mon_restartCount :: nat
  mon_lastRestart :: time
  mon_eventChan :: "container_event list"
  mon_closed :: bool
  mon_cancelled :: bool
  mon_restartPolicy :: restart_policy
  mon_failures :: int

record 'k docker_manager =
  dm_config :: container_manager_config
  dm_healthChecks :: "(string \<times> nat) list"
  dm_hcHeap :: "health_check list"
  dm_livenessMonitors :: "(string \<times> nat) list"
  dm_monitors :: "container_monitor list"
  dm_closing :: "nat list"
  dm_crashed :: bool
  dm_daemon :: 'k

definition newDockerContainerManager ::
  "string option \<Rightarrow> container_manager_config option \<Rightarrow> 'k \<Rightarrow> (string, 'k docker_manager) result" where
  "newDockerContainerManager clientErr cfg k =
     (case clientErr of
        Some e \<Rightarrow> Inl (errorsWrap ''failed to create Docker client'' e)
      | None \<Rightarrow>
     (case cfg of
        None \<Rightarrow> Inl ''config is required''
      | Some config \<Rightarrow>
          (let hc = (case cmc_HealthCheckConfig config of
                 None \<Rightarrow> defaultHealthCheckConfig defaultStartTimeout | Some h \<Rightarrow> h);
               lc = (case cmc_LivenessConfig config of None \<Rightarrow> livenessConfigWith hc | Some l \<Rightarrow> l)
           in Inr \<lparr>dm_config = config\<lparr>cmc_StartTimeout := orDefault (cmc_StartTimeout config) defaultStartTimeout,
                  cmc_StopTimeout := orDefault (cmc_StopTimeout config) defaultStopTimeout,
                  cmc_HealthCheckConfig := Some hc, cmc_LivenessConfig := Some lc\<rparr>,
                dm_healthChecks = [], dm_hcHeap = [], dm_livenessMonitors = [], dm_monitors = [], dm_closing = [],
                dm_crashed = False, dm_daemon = k\<rparr>)))"

abbreviation updMonitor :: "nat \<Rightarrow> (container_monitor \<Rightarrow> container_monitor) \<Rightarrow> 'k docker_manager \<Rightarrow> 'k docker_manager" where
  "updMonitor r f s \<equiv> s\<lparr>dm_monitors := (dm_monitors s)[r := f (dm_monitors s ! r)]\<rparr>"

abbreviation updHealthCheck :: "nat \<Rightarrow> (health_check \<Rightarrow> health_check) \<Rightarrow> 'k docker_manager \<Rightarrow> 'k docker_manager" where
  "updHealthCheck r f s \<equiv> s\<lparr>dm_hcHeap := (dm_hcHeap s)[r := f (dm_hcHeap s ! r)]\<rparr>"

text \<open>The whole seconds of a duration, \<open>int(timeout.Seconds())\<close>.\<close>

definition wholeSeconds :: "duration \<Rightarrow> int" where
  "wholeSeconds t = truncFloat (of_int t / of_int second)"

section \<open>Creating and starting containers\<close>

definition ensureImageExists :: "'k docker_client \<Rightarrow> bool \<Rightarrow> string \<Rightarrow> 'k \<Rightarrow> string option \<times> 'k" where
  "ensureImageExists dk ctxDone imageName k =
     (case dk_ImageList dk ctxDone k of
        Inl e \<Rightarrow> (Some (errorsWrap ''failed to list images'' e), k)
      | Inr images \<Rightarrow>
          if list_ex (\<lambda>tags. list_ex (\<lambda>tag. tag = imageName) tags) images then (None, k)
          else case dk_ImagePull dk ctxDone k imageName of
            (Inl e, k1) \<Rightarrow> (Some (errorsWrap ''failed to pull image'' e), k1)
          | (Inr (Some e), k1) \<Rightarrow> (Some (errorsWrap ''failed to read pull response'' e), k1)
          | (Inr None, k1) \<Rightarrow> (None, k1))"

definition createNetworkIfNotExists :: "'k docker_client \<Rightarrow> bool \<Rightarrow> string \<Rightarrow> 'k \<Rightarrow> string option \<times> 'k" where
  "createNetworkIfNotExists dk ctxDone networkName k =
     (case dk_NetworkList dk ctxDone k of
        Inl e \<Rightarrow> (Some (errorsWrap ''failed to list networks'' e), k)
      | Inr networks \<Rightarrow>
          if networkName \<in> set networks then (None, k)
          else case dk_NetworkCreate dk ctxDone k networkName of
            (Some e, k1) \<Rightarrow> (Some (errorsWrap ''failed to create network'' e), k1)
          | (None, k1) \<Rightarrow> (None, k1))"

definition removeNetwork :: "'k docker_client \<Rightarrow> bool \<Rightarrow> string \<Rightarrow> 'k \<Rightarrow> string option \<times> 'k" where
  "removeNetwork dk ctxDone networkName k =
     (case dk_NetworkRemove dk ctxDone k networkName of
        (Some e, k1) \<Rightarrow> (Some (errorsWrap ''failed to remove network'' e), k1)
      | (None, k1) \<Rightarrow> (None, k1))"

definition createRequest :: "container_config \<Rightarrow> docker_create" where
  "createRequest config =
     \<lparr>dcr_Hostname = cc_Hostname config, dcr_Image = cc_Image config, dcr_Env = cc_Env config,
      dcr_WorkingDir = cc_WorkingDir config, dcr_ExposedPorts = cc_ExposedPorts config, dcr_User = cc_User config,
      dcr_AutoRemove = cc_AutoRemove config, dcr_PortBindings = cc_PortBindings config,
      dcr_Privileged = cc_Privileged config, dcr_ReadonlyRootfs = cc_ReadOnly config,
      dcr_Memory = (if cc_MemoryLimit config > 0 then cc_MemoryLimit config else 0),
      dcr_CPUShares = (if cc_CPUShares config > 0 then cc_CPUShares config else 0),
      dcr_RestartPolicy = cc_RestartPolicy config,
      dcr_Endpoints = (if cc_NetworkName config \<noteq> [] then [cc_NetworkName config] else []),
      dcr_Name = cc_Hostname config\<rparr>"

definition dcm_Create ::
  "'k docker_client \<Rightarrow> bool \<Rightarrow> container_config \<Rightarrow> 'k \<Rightarrow> (string, container_info) result \<times> 'k" where
  "dcm_Create dk ctxDone config k =
     (case ensureImageExists dk ctxDone (cc_Image config) k of
        (Some e, k1) \<Rightarrow> (Inl (errorsWrap ''failed to ensure image exists'' e), k1)
      | (None, k1) \<Rightarrow>
     (case (if cc_NetworkName config \<noteq> [] then createNetworkIfNotExists dk ctxDone (cc_NetworkName config) k1 else (None, k1)) of
        (Some e, k2) \<Rightarrow> (Inl (errorsWrap ''failed to create network'' e), k2)
      | (None, k2) \<Rightarrow>
     (case dk_ContainerCreate dk ctxDone k2 (createRequest config) of
        (Inl e, k3) \<Rightarrow> (Inl (errorsWrap ''failed to create container'' e), k3)
      | (Inr cid, k3) \<Rightarrow>
          (Inr \<lparr>ci_ID = cid, ci_Hostname = cc_Hostname config, ci_Status = ''created'', ci_Ports = [], ci_Networks = []\<rparr>, k3))))"

definition dcm_Start :: "'k docker_client \<Rightarrow> bool \<Rightarrow> string \<Rightarrow> 'k \<Rightarrow> string option \<times> 'k" where
  "dcm_Start dk ctxDone containerID k =
     (case dk_ContainerStart dk ctxDone k containerID of
        (Some e, k1) \<Rightarrow> (Some (errorsWrap ''failed to start container'' e), k1)
      | (None, k1) \<Rightarrow> (None, k1))"

definition dcm_Inspect :: "'k docker_client \<Rightarrow> bool \<Rightarrow> string \<Rightarrow> 'k \<Rightarrow> (string, container_info) result" where
  "dcm_Inspect dk ctxDone containerID k =
     (case dk_ContainerInspect dk ctxDone k containerID of
        Inl e \<Rightarrow> Inl (errorsWrap ''failed to inspect container'' e)
      | Inr j \<Rightarrow> Inr \<lparr>ci_ID = dj_ID j, ci_Hostname = dj_Hostname j, ci_Status = dj_Status j,
                    ci_Ports = dj_Ports j, ci_Networks = dj_Networks j\<rparr>)"

definition isRunning :: "'k docker_client \<Rightarrow> bool \<Rightarrow> string \<Rightarrow> 'k \<Rightarrow> (string, bool) result" where
  "isRunning dk ctxDone containerID k =
     (case dcm_Inspect dk ctxDone containerID k of
        Inl e \<Rightarrow> Inl e
      | Inr info \<Rightarrow> Inr (ci_Status info = ''running''))"

definition customNetwork :: "string \<Rightarrow> bool" where
  "customNetwork networkName \<longleftrightarrow> networkName \<noteq> ''bridge'' \<and> networkName \<noteq> ''host'' \<and> networkName \<noteq> ''none''"

text \<open>
  One round of the loop of \<open>WaitForRunning\<close> at a tick: \<open>Some\<close> the value the function returns, or \<open>None\<close>
  when it goes on waiting. The loop gets \<open>n\<close> ticks, a second apart, before its context is done.
\<close>

definition waitTick :: "'k docker_client \<Rightarrow> string \<Rightarrow> 'k \<Rightarrow> string option option" where
  "waitTick dk containerID k =
     (case isRunning dk False containerID k of
        Inl e \<Rightarrow> Some (Some (errorsWrap ''failed to check container status'' e))
      | Inr False \<Rightarrow> None
      | Inr True \<Rightarrow>
          (case dcm_Inspect dk False containerID k of
             Inl e \<Rightarrow> Some (Some (errorsWrap ''failed to inspect container'' e))
           | Inr info \<Rightarrow>
               if list_ex customNetwork (ci_Networks info) \<or> ci_Ports info \<noteq> [] then Some None else None))"

fun waitForRunning :: "'k docker_client \<Rightarrow> nat \<Rightarrow> string \<Rightarrow> 'k \<Rightarrow> string option \<times> 'k" where
  "waitForRunning dk 0 containerID k = (Some ''timeout waiting for container to be running'', k)"
| "waitForRunning dk (Suc n) containerID k =
     (let k1 = dk_second dk k
      in case waitTick dk containerID k1 of
           Some res \<Rightarrow> (res, k1)
         | None \<Rightarrow> waitForRunning dk n containerID k1)"

text \<open>The ticks a timeout leaves; a tick at the deadline itself loses the race.\<close>

definition waitTicks :: "container_manager_config \<Rightarrow> duration \<Rightarrow> nat" where
  "waitTicks config timeout = nat ((orDefault timeout (cmc_StartTimeout config) - 1) div second)"


section \<open>Health checks\<close>

definition stopHealthCheck :: "string \<Rightarrow> 'k docker_manager \<Rightarrow> 'k docker_manager" where
  "stopHealthCheck containerID s =
     (case gm_get (dm_healthChecks s) containerID of
        None \<Rightarrow> s
      | Some h \<Rightarrow> (updHealthCheck h (\<lambda>c. c\<lparr>hk_cancelled := True\<rparr>) s)
          \<lparr>dm_healthChecks := gm_del (dm_healthChecks s) containerID\<rparr>)"

text \<open>The result is the channel of the health check, by its place in the heap, or no channel.\<close>

definition startHealthCheck ::
  "string \<Rightarrow> health_check_config option \<Rightarrow> 'k docker_manager \<Rightarrow> nat option \<times> 'k docker_manager" where
  "startHealthCheck containerID cfg s =
     (let dflt = the (cmc_HealthCheckConfig (dm_config s));
          config = (case cfg of
             None \<Rightarrow> dflt
           | Some c \<Rightarrow> c\<lparr>hcc_Interval := orDefault (hcc_Interval c) (hcc_Interval dflt),
               hcc_FailureThreshold := orDefault (hcc_FailureThreshold c) (hcc_FailureThreshold dflt),
               hcc_Timeout := orDefault (hcc_Timeout c) (hcc_Timeout dflt)\<rparr>)
      in if \<not> hcc_Enabled config then (None, s)
      else let s1 = (case gm_get (dm_healthChecks s) containerID of
                       None \<Rightarrow> s | Some h \<Rightarrow> updHealthCheck h (\<lambda>c. c\<lparr>hk_cancelled := True\<rparr>) s);
               h = length (dm_hcHeap s1)
           in (Some h, s1\<lparr>dm_hcHeap := dm_hcHeap s1 @ [\<lparr>hk_containerID = containerID, hk_config = config,
                  hk_cancelled = False, hk_failures = 0, hk_chan = [], hk_closed = False\<rparr>],
                dm_healthChecks := gm_put (dm_healthChecks s1) containerID h\<rparr>))"

text \<open>A non-blocking send on the health channel, which holds one value.\<close>

definition sendHealth :: "bool \<Rightarrow> health_check \<Rightarrow> health_check" where
  "sendHealth v h = (if hk_chan h = [] then h\<lparr>hk_chan := [v]\<rparr> else h)"

text \<open>A tick of the health check goroutine.\<close>

definition healthCheckTick :: "'k docker_client \<Rightarrow> bool \<Rightarrow> nat \<Rightarrow> 'k docker_manager \<Rightarrow> 'k docker_manager" where
  "healthCheckTick dk ctxDone h s =
     (let c = dm_hcHeap s ! h
      in case isRunning dk ctxDone (hk_containerID c) (dm_daemon s) of
           Inr True \<Rightarrow> updHealthCheck h (\<lambda>c. sendHealth True (c\<lparr>hk_failures := 0\<rparr>)) s
         | _ \<Rightarrow>
             if hcc_FailureThreshold (hk_config c) \<le> hk_failures c + 1
             then updHealthCheck h (\<lambda>c. (sendHealth False c)\<lparr>hk_failures := 0\<rparr>) s
             else updHealthCheck h (\<lambda>c. c\<lparr>hk_failures := hk_failures c + 1\<rparr>) s)"

text \<open>The goroutine closes its channel when its context is done.\<close>

definition healthCheckDone :: "nat \<Rightarrow> 'k docker_manager \<Rightarrow> 'k docker_manager" where
  "healthCheckDone h s = updHealthCheck h (\<lambda>c. c\<lparr>hk_closed := True\<rparr>) s"

section \<open>Stopping and removing containers\<close>

definition dcm_Stop ::
  "'k docker_client \<Rightarrow> bool \<Rightarrow> string \<Rightarrow> duration \<Rightarrow> 'k docker_manager \<Rightarrow> string option \<times> 'k docker_manager" where
  "dcm_Stop dk ctxDone containerID timeout s =
     (let s1 = stopHealthCheck containerID s;
          t = orDefault timeout (cmc_StopTimeout (dm_config s))
      in case dk_ContainerStop dk ctxDone (dm_daemon s1) containerID (wholeSeconds t) of
           (Some e, k) \<Rightarrow> (Some (errorsWrap ''failed to stop container'' e), s1\<lparr>dm_daemon := k\<rparr>)
         | (None, k) \<Rightarrow> (None, s1\<lparr>dm_daemon := k\<rparr>))"

text \<open>A removal in progress and a container that is gone already count as success.\<close>

definition dcm_Remove :: "'k docker_client \<Rightarrow> bool \<Rightarrow> string \<Rightarrow> bool \<Rightarrow> 'k \<Rightarrow> string option \<times> 'k" where
  "dcm_Remove dk ctxDone containerID force k =
     (case dk_ContainerRemove dk ctxDone k containerID force of
        (Some e, k1) \<Rightarrow>
          if sublist ''removal of container'' e \<and> sublist ''is already in progress'' e then (None, k1)
          else if noSuchContainer e then (None, k1)
          else (Some (errorsWrap ''failed to remove container'' e), k1)
      | (None, k1) \<Rightarrow> (None, k1))"

section \<open>Events\<close>

record attempt_ctx =
  ax_done :: "nat \<Rightarrow> bool"
  ax_pick :: "nat \<Rightarrow> bool"
  ax_err :: string

text \<open>The events the manager makes, without the timestamp.\<close>

definition eventFor :: "container_monitor \<Rightarrow> container_event_type \<Rightarrow> string \<Rightarrow> container_event" where
  "eventFor m t msg = \<lparr>ce_ContainerID = mon_containerID m, ce_Type = t, ce_State = zeroContainerState, ce_Message = msg\<rparr>"

text \<open>\<open>select { case eventChan <- event: default: }\<close>; the buffer holds ten events.\<close>

definition sendEvent :: "nat \<Rightarrow> container_event \<Rightarrow> 'k docker_manager \<Rightarrow> 'k docker_manager" where
  "sendEvent r event s =
     (let m = dm_monitors s ! r
      in if mon_closed m then s\<lparr>dm_crashed := True\<rparr>
         else if length (mon_eventChan m) < 10 then updMonitor r (\<lambda>m. m\<lparr>mon_eventChan := mon_eventChan m @ [event]\<rparr>) s
         else s)"

text \<open>
  The same with \<open>case <-ctx.Done(): return\<close>. When the context is done and the send is ready too, which a
  send on a closed channel is, either case may be taken. The flag says that the function returns.
\<close>

definition selectSend :: "bool \<Rightarrow> bool \<Rightarrow> nat \<Rightarrow> container_event \<Rightarrow> 'k docker_manager \<Rightarrow> bool \<times> 'k docker_manager" where
  "selectSend pickDone ctxDone r event s =
     (let m = dm_monitors s ! r; ready = (mon_closed m \<or> length (mon_eventChan m) < 10)
      in if ctxDone \<and> (pickDone \<or> \<not> ready) then (True, s) else (False, sendEvent r event s))"

section \<open>Restarting a container\<close>

text \<open>The count is kept in the monitor the map has for the container at that moment.\<close>

definition restartContainer ::
  "'k docker_client \<Rightarrow> bool \<Rightarrow> time \<Rightarrow> string \<Rightarrow> duration \<Rightarrow> 'k docker_manager \<Rightarrow> string option \<times> 'k docker_manager" where
  "restartContainer dk ctxDone now containerID timeout s =
     (let t = orDefault timeout (cmc_StopTimeout (dm_config s))
      in case dk_ContainerRestart dk ctxDone (dm_daemon s) containerID (wholeSeconds t) of
           (Some e, k) \<Rightarrow> (Some (errorsWrap ''failed to restart container'' e), s\<lparr>dm_daemon := k\<rparr>)
         | (None, k) \<Rightarrow>
             (let s1 = s\<lparr>dm_daemon := k\<rparr>
              in (None, case gm_get (dm_livenessMonitors s1) containerID of
                    None \<Rightarrow> s1
                  | Some r \<Rightarrow> updMonitor r (\<lambda>m. m\<lparr>mon_restartCount := mon_restartCount m + 1, mon_lastRestart := now\<rparr>) s1)))"

definition restartLimitReached :: "container_monitor \<Rightarrow> bool" where
  "restartLimitReached m \<longleftrightarrow> rp_MaxRestarts (mon_restartPolicy m) > 0 \<and>
     int (mon_restartCount m) \<ge> rp_MaxRestarts (mon_restartPolicy m)"

definition attemptsText :: "container_monitor \<Rightarrow> nat \<Rightarrow> string" where
  "attemptsText m n = dec n @ ''/'' @ decInt (rp_MaxRestarts (mon_restartPolicy m))"

definition restartingEvent :: "container_monitor \<Rightarrow> string \<Rightarrow> container_event" where
  "restartingEvent m reason = eventFor m EventRestarting
     (''Restarting container (attempt '' @ attemptsText m (mon_restartCount m + 1) @ ''): '' @ reason)"

definition restartedEvent :: "container_monitor \<Rightarrow> container_event" where
  "restartedEvent m = eventFor m EventRestarted
     (''Container restarted successfully (attempt '' @ dec (mon_restartCount m) @ '')'')"

text \<open>
  \<open>attemptRestart\<close> in the parts between which other goroutines run: the refusal at the limit, the event
  before the restart, which follows the delay, and the event that reports its outcome. The points of the
  context are 0 the delay, 1 the event before, 2 the restart and 3 the event after.
\<close>

definition attemptDenied :: "nat \<Rightarrow> string \<Rightarrow> 'k docker_manager \<Rightarrow> string option \<times> 'k docker_manager" where
  "attemptDenied r reason s =
     (let m = dm_monitors s ! r; n = attemptsText m (mon_restartCount m)
      in (Some (''restart limit reached: '' @ n),
          sendEvent r (eventFor m EventRestartFailed (''Restart limit reached ('' @ n @ ''): '' @ reason)) s))"

definition attemptNotify :: "attempt_ctx \<Rightarrow> nat \<Rightarrow> string \<Rightarrow> 'k docker_manager \<Rightarrow> bool \<times> 'k docker_manager" where
  "attemptNotify ax r reason s =
     (let m = dm_monitors s ! r
      in selectSend (ax_pick ax 1) (ax_done ax 1) r (restartingEvent m reason) s)"

definition attemptRun ::
  "'k docker_client \<Rightarrow> attempt_ctx \<Rightarrow> time \<Rightarrow> nat \<Rightarrow> 'k docker_manager \<Rightarrow> string option \<times> 'k docker_manager" where
  "attemptRun dk ax now r s =
     restartContainer dk (ax_done ax 2) now (mon_containerID (dm_monitors s ! r)) (cmc_StopTimeout (dm_config s)) s"

definition attemptReport ::
  "attempt_ctx \<Rightarrow> nat \<Rightarrow> string option \<Rightarrow> 'k docker_manager \<Rightarrow> string option \<times> 'k docker_manager" where
  "attemptReport ax r outcome s =
     (let m = dm_monitors s ! r;
          (event, res) = (case outcome of
             None \<Rightarrow> (restartedEvent m, None)
           | Some err \<Rightarrow>
               if noSuchContainer err
               then (eventFor m EventRestartFailed (''Container recreation needed but not implemented (attempt '' @
                       dec (mon_restartCount m + 1) @ ''): '' @ err), None)
               else (eventFor m EventRestartFailed (''Restart failed (attempt '' @
                       dec (mon_restartCount m + 1) @ ''): '' @ err), Some err))
      in case selectSend (ax_pick ax 3) (ax_done ax 3) r event s of
           (True, s1) \<Rightarrow> (Some (ax_err ax), s1)
         | (False, s1) \<Rightarrow> (res, s1))"

definition attemptRestart ::
  "'k docker_client \<Rightarrow> attempt_ctx \<Rightarrow> time \<Rightarrow> nat \<Rightarrow> string \<Rightarrow> 'k docker_manager \<Rightarrow> string option \<times> 'k docker_manager" where
  "attemptRestart dk ax now r reason s =
     (let m = dm_monitors s ! r
      in if restartLimitReached m then attemptDenied r reason s
         else if calculateRestartDelay (mon_restartPolicy m) (mon_restartCount m) > 0 \<and> ax_done ax 0 then (Some (ax_err ax), s)
         else case attemptNotify ax r reason s of
           (True, s1) \<Rightarrow> (Some (ax_err ax), s1)
         | (False, s1) \<Rightarrow>
             if dm_crashed s1 then (None, s1)
             else case attemptRun dk ax now r s1 of (outcome, s2) \<Rightarrow> attemptReport ax r outcome s2)"


section \<open>Liveness monitors\<close>

text \<open>\<open>close(ch)\<close> panics on a closed channel.\<close>

definition closeEventChan :: "nat \<Rightarrow> 'k docker_manager \<Rightarrow> 'k docker_manager" where
  "closeEventChan r s =
     (if mon_closed (dm_monitors s ! r) then s\<lparr>dm_crashed := True\<rparr> else updMonitor r (\<lambda>m. m\<lparr>mon_closed := True\<rparr>) s)"

definition cancelMonitor :: "nat \<Rightarrow> 'k docker_manager \<Rightarrow> 'k docker_manager" where
  "cancelMonitor r s = updMonitor r (\<lambda>m. m\<lparr>mon_cancelled := True\<rparr>) s"

definition mergedLivenessConfig :: "liveness_config option \<Rightarrow> liveness_config \<Rightarrow> liveness_config" where
  "mergedLivenessConfig cfg dflt =
     (case cfg of
        None \<Rightarrow> dflt
      | Some c \<Rightarrow>
          (let hc = lc_HealthCheckConfig c; dhc = lc_HealthCheckConfig dflt
           in c\<lparr>lc_HealthCheckConfig := hc\<lparr>hcc_Interval := orDefault (hcc_Interval hc) (hcc_Interval dhc),
                  hcc_FailureThreshold := orDefault (hcc_FailureThreshold hc) (hcc_FailureThreshold dhc)\<rparr>,
                lc_ResourceCheckInterval := orDefault (lc_ResourceCheckInterval c) (lc_ResourceCheckInterval dflt)\<rparr>))"

text \<open>
  A monitor that exists for the container is cancelled and its channel closed at once. The result is the
  new monitor, whose event channel the function returns.
\<close>

definition startLivenessMonitoring ::
  "string \<Rightarrow> liveness_config option \<Rightarrow> 'k docker_manager \<Rightarrow> nat \<times> 'k docker_manager" where
  "startLivenessMonitoring containerID cfg s =
     (let config = mergedLivenessConfig cfg (the (cmc_LivenessConfig (dm_config s)));
          s1 = (case gm_get (dm_livenessMonitors s) containerID of
                  None \<Rightarrow> s | Some r \<Rightarrow> closeEventChan r (cancelMonitor r s));
          r = length (dm_monitors s1)
      in (r, s1\<lparr>dm_monitors := dm_monitors s1 @ [\<lparr>mon_containerID = containerID, mon_config = config,
               mon_restartCount = 0, mon_lastRestart = 0, mon_eventChan = [], mon_closed = False, mon_cancelled = False,
               mon_restartPolicy = lc_RestartPolicy config, mon_failures = 0\<rparr>],
             dm_livenessMonitors := gm_put (dm_livenessMonitors s1) containerID r\<rparr>))"

definition stopLivenessMonitoring :: "string \<Rightarrow> 'k docker_manager \<Rightarrow> 'k docker_manager" where
  "stopLivenessMonitoring containerID s =
     (case gm_get (dm_livenessMonitors s) containerID of
        None \<Rightarrow> s
      | Some r \<Rightarrow> (cancelMonitor r s)\<lparr>dm_livenessMonitors := gm_del (dm_livenessMonitors s) containerID,
                     dm_closing := dm_closing s @ [r]\<rparr>)"

text \<open>The closing goroutine of a stopped monitor, after its ten milliseconds.\<close>

definition closeStopped :: "nat \<Rightarrow> 'k docker_manager \<Rightarrow> 'k docker_manager" where
  "closeStopped r s = closeEventChan r (s\<lparr>dm_closing := remove1 r (dm_closing s)\<rparr>)"

definition dcm_Shutdown :: "'k docker_client \<Rightarrow> 'k docker_manager \<Rightarrow> string option \<times> 'k docker_manager" where
  "dcm_Shutdown dk s =
     (let s1 = (fold (\<lambda>(_, h). updHealthCheck h (\<lambda>c. c\<lparr>hk_cancelled := True\<rparr>)) (dm_healthChecks s) s)\<lparr>dm_healthChecks := []\<rparr>;
          s2 = (fold (\<lambda>(_, r). cancelMonitor r) (dm_livenessMonitors s1) s1)
                 \<lparr>dm_closing := dm_closing s1 @ map snd (dm_livenessMonitors s1), dm_livenessMonitors := []\<rparr>
      in case dk_Close dk (dm_daemon s2) of
           (Some e, k) \<Rightarrow> (Some (errorsWrap ''failed to close Docker client'' e), s2\<lparr>dm_daemon := k\<rparr>)
         | (None, k) \<Rightarrow> (None, s2\<lparr>dm_daemon := k\<rparr>))"

definition setRestartPolicy :: "string \<Rightarrow> restart_policy \<Rightarrow> 'k docker_manager \<Rightarrow> string option \<times> 'k docker_manager" where
  "setRestartPolicy containerID policy s =
     (case gm_get (dm_livenessMonitors s) containerID of
        None \<Rightarrow> (Some (''no liveness monitor found for container '' @ containerID), s)
      | Some r \<Rightarrow> (None, updMonitor r (\<lambda>m. m\<lparr>mon_restartPolicy := policy\<rparr>) s))"

text \<open>
  \<open>TriggerRestart\<close>. The monitor is looked up under the lock; sending the event and the attempt run
  without it, under a context of their own.
\<close>

definition triggerLookup :: "string \<Rightarrow> 'k docker_manager \<Rightarrow> (string, nat) result" where
  "triggerLookup containerID s =
     (case gm_get (dm_livenessMonitors s) containerID of
        None \<Rightarrow> Inl (''no liveness monitor found for container '' @ containerID)
      | Some r \<Rightarrow> if \<not> rp_Enabled (mon_restartPolicy (dm_monitors s ! r))
          then Inl (''restart policy is disabled for container '' @ containerID) else Inr r)"

definition triggerNotify :: "nat \<Rightarrow> string \<Rightarrow> 'k docker_manager \<Rightarrow> 'k docker_manager" where
  "triggerNotify r reason s =
     sendEvent r (eventFor (dm_monitors s ! r) EventUnhealthy (''Manual restart triggered: '' @ reason)) s"

definition triggerRestart ::
  "'k docker_client \<Rightarrow> attempt_ctx \<Rightarrow> time \<Rightarrow> string \<Rightarrow> string \<Rightarrow> 'k docker_manager \<Rightarrow> string option \<times> 'k docker_manager" where
  "triggerRestart dk ax now containerID reason s =
     (case triggerLookup containerID s of
        Inl e \<Rightarrow> (Some e, s)
      | Inr r \<Rightarrow>
          (let s1 = triggerNotify r reason s
           in if dm_crashed s1 then (None, s1) else attemptRestart dk ax now r reason s1))"

definition getContainerState ::
  "'k docker_client \<Rightarrow> bool \<Rightarrow> time \<Rightarrow> string \<Rightarrow> 'k docker_manager \<Rightarrow> (string, container_state) result" where
  "getContainerState dk ctxDone now containerID s =
     (case dk_ContainerInspect dk ctxDone (dm_daemon s) containerID of
        Inl e \<Rightarrow> Inl (errorsWrap ''failed to inspect container'' e)
      | Inr j \<Rightarrow> Inr \<lparr>cst_Status = dj_Status j, cst_ExitCode = dj_ExitCode j,
          cst_StartedAt = (case dj_StartedAt j of None \<Rightarrow> now | Some t \<Rightarrow> t),
          cst_FinishedAt = dj_FinishedAt j,
          cst_RestartCount = (case gm_get (dm_livenessMonitors s) containerID of
            None \<Rightarrow> 0 | Some r \<Rightarrow> mon_restartCount (dm_monitors s ! r)),
          cst_OOMKilled = dj_OOMKilled j, cst_Error = dj_Error j, cst_Restarting = dj_Restarting j\<rparr>)"

text \<open>The result is the new monitor, if one was started.\<close>

definition adoptContainer ::
  "'k docker_client \<Rightarrow> bool \<Rightarrow> string \<Rightarrow> liveness_config option \<Rightarrow> 'k docker_manager \<Rightarrow> string option \<times> 'k docker_manager" where
  "adoptContainer dk ctxDone containerID livenessConfig s =
     (case dk_ContainerInspect dk ctxDone (dm_daemon s) containerID of
        Inl e \<Rightarrow> (Some (if noSuchContainer e then errorsWrap ''container does not exist'' e
                       else errorsWrap ''failed to inspect container for adoption'' e), s)
      | Inr j \<Rightarrow>
          if dj_Status j \<noteq> ''running'' then
            (Some (''container '' @ containerID @ '' is not running (status: '' @ dj_Status j @ ''), cannot adopt''), s)
          else case livenessConfig of
            None \<Rightarrow> (None, s)
          | Some c \<Rightarrow> (None, snd (startLivenessMonitoring containerID (Some c) s)))"

section \<open>The goroutines of a monitor\<close>

text \<open>
  A tick of \<open>monitorContainerLiveness\<close> up to the restart: \<open>Some\<close> the reason when an attempt follows. The
  counter is reset after the attempt; nobody else reads it. Point 4 of the context is the status check,
  point 5 the event of a recovery.
\<close>

definition livenessCheck ::
  "'k docker_client \<Rightarrow> attempt_ctx \<Rightarrow> nat \<Rightarrow> 'k docker_manager \<Rightarrow> string option \<times> 'k docker_manager" where
  "livenessCheck dk ax r s =
     (let m = dm_monitors s ! r;
          threshold = hcc_FailureThreshold (lc_HealthCheckConfig (mon_config m));
          failed = (\<lambda>failures.
            if threshold \<le> failures then
              (let s1 = sendEvent r (eventFor m EventUnhealthy (''Health check failed '' @ decInt failures @ '' times'')) s;
                   s2 = updMonitor r (\<lambda>m. m\<lparr>mon_failures := 0\<rparr>) s1
               in (if rp_Enabled (mon_restartPolicy m) \<and> rp_RestartOnUnhealthy (mon_restartPolicy m) \<and> \<not> dm_crashed s1
                   then Some ''health check failures'' else None, s2))
            else (None, updMonitor r (\<lambda>m. m\<lparr>mon_failures := failures\<rparr>) s))
      in case isRunning dk (ax_done ax 4) (mon_containerID m) (dm_daemon s) of
           Inl err \<Rightarrow> failed (if noSuchContainer err then threshold else mon_failures m + 1)
         | Inr False \<Rightarrow> failed (mon_failures m + 1)
         | Inr True \<Rightarrow>
             (let s1 = (if mon_failures m > 0
                then snd (selectSend (ax_pick ax 5) (ax_done ax 5) r (eventFor m EventHealthy ''Container health recovered'') s) else s)
              in (None, updMonitor r (\<lambda>m. m\<lparr>mon_failures := 0\<rparr>) s1)))"

definition livenessTick ::
  "'k docker_client \<Rightarrow> attempt_ctx \<Rightarrow> time \<Rightarrow> nat \<Rightarrow> 'k docker_manager \<Rightarrow> 'k docker_manager" where
  "livenessTick dk ax now r s =
     (case livenessCheck dk ax r s of
        (None, s1) \<Rightarrow> s1
      | (Some reason, s1) \<Rightarrow> snd (attemptRestart dk ax now r reason s1))"

text \<open>Reading numbers out of the generic maps that \<open>json\<close> decodes to.\<close>

definition numberField :: "(string \<times> json) list \<Rightarrow> string \<Rightarrow> int" where
  "numberField obj key = (case jsonField obj key of JNumber x \<Rightarrow> truncFloat x | _ \<Rightarrow> 0)"

definition blkioBytes :: "string \<Rightarrow> json \<Rightarrow> int" where
  "blkioBytes op v =
     (case asObject v of
        Some m \<Rightarrow> if jsonField m ''op'' = JString op then numberField m ''value'' else 0
      | None \<Rightarrow> 0)"

definition usageOf :: "(string \<times> json) list \<Rightarrow> resource_usage" where
  "usageOf stat =
     (let mem = (case jsonField stat ''memory_stats'' of JObject m \<Rightarrow> m | _ \<Rightarrow> []);
          nets = (case jsonField stat ''networks'' of JObject ns \<Rightarrow> map (\<lambda>(_, v). case asObject v of Some m \<Rightarrow> m | None \<Rightarrow> []) ns | _ \<Rightarrow> []);
          blkio = (case jsonField stat ''blkio_stats'' of
             JObject b \<Rightarrow> (case jsonField b ''io_service_bytes_recursive'' of JArray vs \<Rightarrow> vs | _ \<Rightarrow> []) | _ \<Rightarrow> []);
          usage = numberField mem ''usage'';
          limit = numberField mem ''limit''
      in \<lparr>ru_CPUPercent = 0, ru_MemoryUsage = usage, ru_MemoryLimit = limit,
          ru_MemoryPercent = (if limit > 0 then of_int usage / of_int limit * 100 else 0),
          ru_NetworkRx = sum_list (map (\<lambda>m. numberField m ''rx_bytes'') nets),
          ru_NetworkTx = sum_list (map (\<lambda>m. numberField m ''tx_bytes'') nets),
          ru_DiskRead = sum_list (map (blkioBytes ''Read'') blkio),
          ru_DiskWrite = sum_list (map (blkioBytes ''Write'') blkio)\<rparr>)"

definition getResourceUsage :: "'k docker_client \<Rightarrow> bool \<Rightarrow> string \<Rightarrow> 'k \<Rightarrow> (string, resource_usage) result" where
  "getResourceUsage dk ctxDone containerID k =
     (case dk_ContainerStats dk ctxDone k containerID of
        Inl e \<Rightarrow> Inl (errorsWrap ''failed to get container stats'' e)
      | Inr (Inl e) \<Rightarrow> Inl (errorsWrap ''failed to decode container stats'' e)
      | Inr (Inr stat) \<Rightarrow> Inr (usageOf stat))"

text \<open>What both thresholds do when exceeded. Points 6 and 7 of the context are the events and the statistics.\<close>

definition thresholdRestart ::
  "'k docker_client \<Rightarrow> attempt_ctx \<Rightarrow> time \<Rightarrow> nat \<Rightarrow> string \<Rightarrow> 'k docker_manager \<Rightarrow> bool \<times> 'k docker_manager" where
  "thresholdRestart dk ax now r text s =
     (if \<not> rp_Enabled (mon_restartPolicy (dm_monitors s ! r)) then (False, s)
      else case selectSend (ax_pick ax 6) (ax_done ax 6) r (eventFor (dm_monitors s ! r) EventUnhealthy text) s of
        (True, s1) \<Rightarrow> (True, s1)
      | (False, s1) \<Rightarrow> if dm_crashed s1 then (False, s1) else (False, snd (attemptRestart dk ax now r text s1)))"

definition exceededText :: "string \<Rightarrow> float64 \<Rightarrow> float64 \<Rightarrow> string" where
  "exceededText what usage threshold =
     what @ '' usage '' @ formatOneDecimal usage @ ''% exceeded threshold '' @ formatOneDecimal threshold @ ''%''"

definition resourceTick ::
  "'k docker_client \<Rightarrow> attempt_ctx \<Rightarrow> time \<Rightarrow> nat \<Rightarrow> 'k docker_manager \<Rightarrow> 'k docker_manager" where
  "resourceTick dk ax now r s =
     (case getResourceUsage dk (ax_done ax 7) (mon_containerID (dm_monitors s ! r)) (dm_daemon s) of
        Inl e \<Rightarrow> s
      | Inr usage \<Rightarrow>
          (let t = lc_ResourceThresholds (mon_config (dm_monitors s ! r));
               (returned, s1) = (if rt_RestartOnCPU t \<and> ru_CPUPercent usage > rt_CPUThreshold t
                 then thresholdRestart dk ax now r (exceededText ''CPU'' (ru_CPUPercent usage) (rt_CPUThreshold t)) s
                 else (False, s))
           in if returned \<or> dm_crashed s1 then s1
              else if rt_RestartOnMemory t \<and> ru_MemoryPercent usage > rt_MemoryThreshold t
              then snd (thresholdRestart dk ax now r (exceededText ''Memory'' (ru_MemoryPercent usage) (rt_MemoryThreshold t)) s1)
              else s1))"

section \<open>Docker events\<close>

datatype docker_action = ActionDie | ActionOOM | ActionHealthStatusHealthy | ActionOther

record docker_event =
  de_Action :: docker_action
  de_Attributes :: "(string \<times> string) list"

definition exitCodeOf :: "docker_event \<Rightarrow> int" where
  "exitCodeOf ev =
     (case gm_get (de_Attributes ev) ''exitCode'' of
        None \<Rightarrow> 0
      | Some t \<Rightarrow> (case strconvAtoi t of None \<Rightarrow> 0 | Some n \<Rightarrow> n))"

definition isOOM :: "docker_event \<Rightarrow> bool" where
  "isOOM ev \<longleftrightarrow> gm_get (de_Attributes ev) ''oomKilled'' = Some ''true''"

text \<open>The handler up to the restart: \<open>Some\<close> the reason when an attempt follows.\<close>

definition dockerEventCheck :: "nat \<Rightarrow> docker_event \<Rightarrow> 'k docker_manager \<Rightarrow> string option \<times> 'k docker_manager" where
  "dockerEventCheck r ev s =
     (let m = dm_monitors s ! r; state = zeroContainerState\<lparr>cst_RestartCount := mon_restartCount m\<rparr>
      in case de_Action ev of
           ActionDie \<Rightarrow>
             (let exitCode = exitCodeOf ev; oom = isOOM ev;
                  (t, msg) = (if oom then (EventOOMKilled, ''Container was killed due to OOM'')
                    else if exitCode \<noteq> 0 then (EventCrashed, ''Container crashed with exit code '' @ decInt exitCode)
                    else (EventStopped, ''Container stopped normally''));
                  s1 = sendEvent r ((eventFor m t msg)\<lparr>ce_State := state\<lparr>cst_ExitCode := exitCode, cst_OOMKilled := oom\<rparr>\<rparr>) s;
                  policy = mon_restartPolicy m
              in (if \<not> rp_Enabled policy \<or> dm_crashed s1 then None
                  else if oom \<and> rp_RestartOnOOM policy then Some ''OOM kill detected''
                  else if exitCode \<noteq> 0 \<and> rp_RestartOnCrash policy
                  then Some (''crash detected (exit code '' @ decInt exitCode @ '')'')
                  else None, s1))
         | ActionOOM \<Rightarrow> (None, sendEvent r ((eventFor m EventOOMKilled ''Container received OOM signal'')
               \<lparr>ce_State := state\<lparr>cst_OOMKilled := True\<rparr>\<rparr>) s)
         | ActionHealthStatusHealthy \<Rightarrow> (None, sendEvent r ((eventFor m EventHealthy ''Container received healthy signal'')
               \<lparr>ce_State := zeroContainerState\<lparr>cst_Status := ''healthy''\<rparr>\<rparr>) s)
         | ActionOther \<Rightarrow> (None, s))"

definition handleDockerEvent ::
  "'k docker_client \<Rightarrow> attempt_ctx \<Rightarrow> time \<Rightarrow> nat \<Rightarrow> docker_event \<Rightarrow> 'k docker_manager \<Rightarrow> 'k docker_manager" where
  "handleDockerEvent dk ax now r ev s =
     (case dockerEventCheck r ev s of
        (None, s1) \<Rightarrow> s1
      | (Some reason, s1) \<Rightarrow> snd (attemptRestart dk ax now r reason s1))"

text \<open>
  \<open>monitorDockerEvents\<close> on what its streams deliver until its context is done. After an error it asks
  for new streams, so an error changes nothing here.
\<close>

datatype stream_item = StreamError string | StreamEvent docker_event attempt_ctx time

fun monitorDockerEvents :: "'k docker_client \<Rightarrow> nat \<Rightarrow> stream_item list \<Rightarrow> 'k docker_manager \<Rightarrow> 'k docker_manager" where
  "monitorDockerEvents dk r [] s = s"
| "monitorDockerEvents dk r (StreamError e # items) s = monitorDockerEvents dk r items s"
| "monitorDockerEvents dk r (StreamEvent ev ax now # items) s =
     (let s1 = handleDockerEvent dk ax now r ev s
      in if dm_crashed s1 then s1 else monitorDockerEvents dk r items s1)"

section \<open>The manager behind the performer's interface\<close>

text \<open>
  \<open>DockerContainerManager\<close> as the container manager of the container performer, with the timeouts and
  contexts the performer passes: 30 seconds to be running and 10 to stop, and contexts of their own for
  cleaning up. \<open>ax\<close> and \<open>now\<close> describe the restart a trigger makes.
\<close>

definition dockerManager ::
  "'k docker_client \<Rightarrow> attempt_ctx \<Rightarrow> time \<Rightarrow> (string \<Rightarrow> string) \<Rightarrow> (bytes \<Rightarrow> bytes) \<Rightarrow> (string \<Rightarrow> string option) \<Rightarrow>
     'k docker_manager container_manager" where
  "dockerManager dk ax now getenv sha256 newClient =
     (let on = (\<lambda>f s. case f (dm_daemon s) of (x, k) \<Rightarrow> (x, s\<lparr>dm_daemon := k\<rparr>));
          on' = (\<lambda>f s. case f (dm_daemon s) of (x, k) \<Rightarrow> (x, s\<lparr>dm_daemon := k\<rparr>))
      in \<lparr>cmCreate = (\<lambda>ctxDone s config. on' (dcm_Create dk ctxDone config) s),
          cmStart = (\<lambda>ctxDone s i. on (dcm_Start dk ctxDone i) s),
          cmWaitForRunning = (\<lambda>ctxDone s i. on (waitForRunning dk (if ctxDone then 0 else waitTicks (dm_config s) (30 * second)) i) s),
          cmInspect = (\<lambda>ctxDone s i. dcm_Inspect dk ctxDone i (dm_daemon s)),
          cmStop = (\<lambda>s i. dcm_Stop dk False i (10 * second) s),
          cmRemove = (\<lambda>s i. on (dcm_Remove dk False i True) s),
          cmStartLivenessMonitoring = (\<lambda>ctxDone s i config. (None, snd (startLivenessMonitoring i (Some config) s))),
          cmStopLivenessMonitoring = (\<lambda>s i. stopLivenessMonitoring i s),
          cmTriggerRestart = (\<lambda>s i reason. triggerRestart dk ax now i reason s),
          cmAdoptContainer = (\<lambda>ctxDone s i config. adoptContainer dk ctxDone i (Some config) s),
          ev_Getenv = getenv, ev_Sha256 = sha256, ev_NewAvsPerformerClient = newClient\<rparr>)"

end
