(* ===== verification/Docker_Restart.thy ===== *)
theory Docker_Restart
  imports Docker_Manager
begin

text \<open>
  The restart manager and the event manager, \<open>ponos/pkg/containerManager/restartManager.go\<close> and
  \<open>eventManager.go\<close>: the restart logic of the Docker manager factored out, with the restart itself as an
  argument. The result is that it makes the same decisions: on an enabled policy and a context that is not
  done, both restart the same containers after the same delay and send events of the same kinds.
\<close>

section \<open>The event manager\<close>

definition em_SendEvent :: "bool \<Rightarrow> bool \<Rightarrow> nat \<Rightarrow> container_event \<Rightarrow> 'k docker_manager \<Rightarrow> 'k docker_manager" where
  "em_SendEvent pickDone ctxDone r event s = snd (selectSend pickDone ctxDone r event s)"

definition em_SendEventNonBlocking :: "nat \<Rightarrow> container_event \<Rightarrow> 'k docker_manager \<Rightarrow> bool \<times> 'k docker_manager" where
  "em_SendEventNonBlocking r event s =
     (length (mon_eventChan (dm_monitors s ! r)) < 10 \<and> \<not> mon_closed (dm_monitors s ! r), sendEvent r event s)"

section \<open>The restart manager\<close>

record restart_decision =
  rd_ShouldRestart :: bool
  rd_Reason :: string
  rd_Delay :: duration

definition rm_ShouldRestart :: "container_monitor \<Rightarrow> string \<Rightarrow> restart_decision" where
  "rm_ShouldRestart m reason =
     (if \<not> rp_Enabled (mon_restartPolicy m)
      then \<lparr>rd_ShouldRestart = False, rd_Reason = ''restart policy disabled'', rd_Delay = 0\<rparr>
      else if restartLimitReached m
      then \<lparr>rd_ShouldRestart = False,
            rd_Reason = ''restart limit reached ('' @ attemptsText m (mon_restartCount m) @ '')'', rd_Delay = 0\<rparr>
      else \<lparr>rd_ShouldRestart = True, rd_Reason = reason,
            rd_Delay = calculateRestartDelay (mon_restartPolicy m) (mon_restartCount m)\<rparr>)"

definition rm_handleRestartError ::
  "attempt_ctx \<Rightarrow> nat \<Rightarrow> string \<Rightarrow> 'k docker_manager \<Rightarrow> string option \<times> 'k docker_manager" where
  "rm_handleRestartError ax r err s =
     (let m = dm_monitors s ! r
      in if noSuchContainer err
         then (None, em_SendEvent (ax_pick ax 3) (ax_done ax 3) r (eventFor m EventRestartFailed
                (''Container recreation needed (attempt '' @ dec (mon_restartCount m + 1) @ ''): '' @ err)) s)
         else (Some err, em_SendEvent (ax_pick ax 3) (ax_done ax 3) r (eventFor m EventRestartFailed
                (''Restart failed (attempt '' @ dec (mon_restartCount m + 1) @ ''): '' @ err)) s))"

text \<open>Point 8 of the context is the event that denies a restart.\<close>

definition rm_AttemptRestart ::
  "(bool \<Rightarrow> string \<Rightarrow> duration \<Rightarrow> 'k docker_manager \<Rightarrow> string option \<times> 'k docker_manager) \<Rightarrow> attempt_ctx \<Rightarrow> nat \<Rightarrow> string \<Rightarrow>
     'k docker_manager \<Rightarrow> string option \<times> 'k docker_manager" where
  "rm_AttemptRestart restartFunc ax r reason s =
     (let m = dm_monitors s ! r; decision = rm_ShouldRestart m reason
      in if \<not> rd_ShouldRestart decision then
           (Some (''restart denied: '' @ rd_Reason decision),
            em_SendEvent (ax_pick ax 8) (ax_done ax 8) r (eventFor m EventRestartFailed (''Restart denied: '' @ rd_Reason decision)) s)
         else if rd_Delay decision > 0 \<and> ax_done ax 0 then (Some (ax_err ax), s)
         else let s1 = em_SendEvent (ax_pick ax 1) (ax_done ax 1) r (restartingEvent m reason) s
              in if dm_crashed s1 then (None, s1)
                 else case restartFunc (ax_done ax 2) (mon_containerID m) defaultStopTimeout s1 of
                   (Some err, s2) \<Rightarrow> rm_handleRestartError ax r err s2
                 | (None, s2) \<Rightarrow>
                     (None, em_SendEvent (ax_pick ax 3) (ax_done ax 3) r (restartedEvent (dm_monitors s2 ! r)) s2))"

section \<open>Both make the same decisions\<close>

text \<open>The manager up to the wording of events.\<close>

definition unworded :: "'k docker_manager \<Rightarrow> 'k docker_manager" where
  "unworded s = s\<lparr>dm_monitors := map (\<lambda>m. m\<lparr>mon_eventChan := map (\<lambda>e. e\<lparr>ce_Message := []\<rparr>) (mon_eventChan m)\<rparr>) (dm_monitors s)\<rparr>"

lemma unworded_sendEvent:
  assumes "ce_ContainerID e = ce_ContainerID e'" "ce_Type e = ce_Type e'" "ce_State e = ce_State e'"
  shows "unworded (sendEvent r e s) = unworded (sendEvent r e' s)"
proof -
  have "e\<lparr>ce_Message := []\<rparr> = e'\<lparr>ce_Message := []\<rparr>" using assms by (cases e; cases e') simp
  then show ?thesis by (simp add: sendEvent_def unworded_def Let_def map_update)
qed

lemma unworded_event [intro]:
  "unworded (sendEvent r (eventFor m t msg) s) = unworded (sendEvent r (eventFor m t msg') s)"
  by (rule unworded_sendEvent) (simp_all add: eventFor_def)

lemma selectSend_live [simp]: "selectSend p False r e s = (False, sendEvent r e s)"
  by (simp add: selectSend_def Let_def)

text \<open>
  The restart manager is equivalent to the restart logic built into the Docker manager: on a monitor
  whose policy is enabled, under a context that is not done and the default stop timeout, both fail in the same cases and
  leave the same manager up to the wording of the events they send: the same calls to the daemon, the same
  restart counts, the same kinds of events on the same channels, and the same crashes.
\<close>

theorem restart_manager_equivalent:
  assumes "rp_Enabled (mon_restartPolicy (dm_monitors s ! r))" "\<forall>p. \<not> ax_done ax p"
    and "cmc_StopTimeout (dm_config s) = defaultStopTimeout"
  shows "(fst (rm_AttemptRestart (\<lambda>done. restartContainer dk done now) ax r reason s) = None) =
      (fst (attemptRestart dk ax now r reason s) = None) \<and>
    unworded (snd (rm_AttemptRestart (\<lambda>done. restartContainer dk done now) ax r reason s)) =
      unworded (snd (attemptRestart dk ax now r reason s))"
proof -
  let ?m = "dm_monitors s ! r"
  obtain s1 where notify: "attemptNotify ax r reason s = (False, s1)"
    using assms(2) by (simp add: attemptNotify_def Let_def)
  obtain outcome s2 where run: "attemptRun dk ax now r s1 = (outcome, s2)" by fastforce
  have cid: "mon_containerID (dm_monitors s1 ! r) = mon_containerID ?m"
    using assms(2) notify by (cases "r < length (dm_monitors s)")
      (auto simp: attemptNotify_def Let_def sendEvent_def list_update_beyond not_less)
  have cfg: "cmc_StopTimeout (dm_config s1) = defaultStopTimeout"
    using assms(2,3) notify by (auto simp: attemptNotify_def Let_def sendEvent_def)
  have run': "restartContainer dk False now (mon_containerID ?m) defaultStopTimeout s1 = (outcome, s2)"
    using run assms(2) cid cfg by (simp add: attemptRun_def)
  have notified: "em_SendEvent (ax_pick ax 1) (ax_done ax 1) r (restartingEvent ?m reason) s = s1"
    using notify by (simp add: em_SendEvent_def attemptNotify_def Let_def)
  consider "restartLimitReached ?m" | "\<not> restartLimitReached ?m" "dm_crashed s1"
    | "\<not> restartLimitReached ?m" "\<not> dm_crashed s1" by blast
  then show ?thesis
  proof cases
    case 1
    have "unworded (em_SendEvent p False r (eventFor ?m EventRestartFailed msg) s) = unworded (snd (attemptDenied r reason s))" for p msg
      by (simp add: em_SendEvent_def attemptDenied_def Let_def) (rule unworded_event)
    moreover have "fst (attemptDenied r reason s) \<noteq> None" by (simp add: attemptDenied_def Let_def)
    ultimately show ?thesis using 1 assms(1,2)
      by (simp add: rm_AttemptRestart_def attemptRestart_def rm_ShouldRestart_def Let_def)
  next
    case 2
    then show ?thesis using assms(1,2) notify notified
      by (simp add: rm_AttemptRestart_def attemptRestart_def rm_ShouldRestart_def Let_def)
  next
    case 3
    have "(fst (case outcome of Some err \<Rightarrow> rm_handleRestartError ax r err s2 | None \<Rightarrow>
          (None, em_SendEvent (ax_pick ax 3) False r (restartedEvent (dm_monitors s2 ! r)) s2)) = None) =
        (fst (attemptReport ax r outcome s2) = None) \<and>
      unworded (snd (case outcome of Some err \<Rightarrow> rm_handleRestartError ax r err s2 | None \<Rightarrow>
          (None, em_SendEvent (ax_pick ax 3) False r (restartedEvent (dm_monitors s2 ! r)) s2))) =
        unworded (snd (attemptReport ax r outcome s2))"
      using assms(2) by (auto simp: attemptReport_def rm_handleRestartError_def em_SendEvent_def Let_def split: option.splits)
    with 3 show ?thesis using assms(1,2) notify notified run run'
      by (cases outcome) (simp_all add: rm_AttemptRestart_def attemptRestart_def rm_ShouldRestart_def Let_def)
  qed
qed

end
