(* ===== verification/Docker_Theorems.thy ===== *)
theory Docker_Theorems
  imports Docker_Restart Performer_Theorems
begin

text \<open>
  Properties of the Docker container manager: that it keeps the contract the container performer relies
  on, what a restart does, that sequential restarts respect their limit and a container that stopped is
  restarted, that a channel is never closed twice and which sends can crash the process, and what a
  rehydrated performer is left with.
\<close>

section \<open>The daemon and the contract of a container manager\<close>

text \<open>
  What the Docker daemon documents. \<open>containersOf\<close> are the containers that exist and are not being removed,
  by their full ids. A call under a context that is done fails; creating a container gives it a new id;
  images and networks have no effect on containers; inspecting answers for the container asked for; a
  removal that succeeds, is already in progress or finds no such container leaves none.
\<close>

definition docker_ok :: "'k docker_client \<Rightarrow> ('k \<Rightarrow> string set) \<Rightarrow> bool" where
  "docker_ok dk containersOf \<longleftrightarrow>
     (\<forall>k. \<exists>e. dk_ImageList dk True k = Inl e) \<and>
     (\<forall>k req. case dk_ContainerCreate dk False k req of
        (Inl _, k') \<Rightarrow> containersOf k' \<subseteq> containersOf k
      | (Inr cid, k') \<Rightarrow> cid \<notin> containersOf k \<and> containersOf k' \<subseteq> insert cid (containersOf k)) \<and>
     (\<forall>b k i. containersOf (snd (dk_ImagePull dk b k i)) = containersOf k) \<and>
     (\<forall>b k n. containersOf (snd (dk_NetworkCreate dk b k n)) = containersOf k) \<and>
     (\<forall>b k i. containersOf (snd (dk_ContainerStart dk b k i)) \<subseteq> containersOf k) \<and>
     (\<forall>b k i t. containersOf (snd (dk_ContainerStop dk b k i t)) \<subseteq> containersOf k) \<and>
     (\<forall>b k i t. containersOf (snd (dk_ContainerRestart dk b k i t)) \<subseteq> containersOf k) \<and>
     (\<forall>k. containersOf (dk_second dk k) \<subseteq> containersOf k) \<and>
     (\<forall>b k i j. dk_ContainerInspect dk b k i = Inr j \<longrightarrow> dj_ID j = i) \<and>
     (\<forall>b k i f. case dk_ContainerRemove dk b k i f of (res, k') \<Rightarrow> containersOf k' \<subseteq> containersOf k \<and>
        (case res of None \<Rightarrow> i \<notin> containersOf k'
         | Some e \<Rightarrow> (sublist ''removal of container'' e \<and> sublist ''is already in progress'' e) \<or> noSuchContainer e \<longrightarrow>
             i \<notin> containersOf k'))"

lemma docker_okD:
  assumes "docker_ok dk containersOf"
  shows "\<exists>e. dk_ImageList dk True k = Inl e"
    and "dk_ContainerCreate dk False k req = (Inl e, k') \<Longrightarrow> containersOf k' \<subseteq> containersOf k"
    and "dk_ContainerCreate dk False k req = (Inr cid, k') \<Longrightarrow>
      cid \<notin> containersOf k \<and> containersOf k' \<subseteq> insert cid (containersOf k)"
    and "dk_ImagePull dk b k i = (x, k') \<Longrightarrow> containersOf k' = containersOf k"
    and "dk_NetworkCreate dk b k i = (y, k') \<Longrightarrow> containersOf k' = containersOf k"
    and "dk_ContainerStart dk b k i = (y, k') \<Longrightarrow> containersOf k' \<subseteq> containersOf k"
    and "dk_ContainerStop dk b k i t = (y, k') \<Longrightarrow> containersOf k' \<subseteq> containersOf k"
    and "dk_ContainerRestart dk b k i t = (y, k') \<Longrightarrow> containersOf k' \<subseteq> containersOf k"
    and "containersOf (dk_second dk k) \<subseteq> containersOf k"
    and "dk_ContainerInspect dk b k i = Inr j \<Longrightarrow> dj_ID j = i"
    and "dk_ContainerRemove dk b k i f = (y, k') \<Longrightarrow> containersOf k' \<subseteq> containersOf k \<and>
      ((case y of None \<Rightarrow> True | Some e \<Rightarrow>
         (sublist ''removal of container'' e \<and> sublist ''is already in progress'' e) \<or> noSuchContainer e) \<longrightarrow> i \<notin> containersOf k')"
proof -
  note parts = assms [unfolded docker_ok_def]
  have remove: "case dk_ContainerRemove dk b k i f of (res, k') \<Rightarrow> containersOf k' \<subseteq> containersOf k \<and>
      (case res of None \<Rightarrow> i \<notin> containersOf k'
       | Some e \<Rightarrow> (sublist ''removal of container'' e \<and> sublist ''is already in progress'' e) \<or> noSuchContainer e \<longrightarrow> i \<notin> containersOf k')"
    using parts by (elim conjE) (erule allE)+
  have create: "case dk_ContainerCreate dk False k req of (Inl _, k') \<Rightarrow> containersOf k' \<subseteq> containersOf k
      | (Inr cid, k') \<Rightarrow> cid \<notin> containersOf k \<and> containersOf k' \<subseteq> insert cid (containersOf k)" for k req
    using parts by (elim conjE) (erule allE)+
  show "\<exists>e. dk_ImageList dk True k = Inl e" using parts by (elim conjE) (erule allE)
  show "dk_ContainerCreate dk False k req = (Inl e, k') \<Longrightarrow> containersOf k' \<subseteq> containersOf k"
    using create [of k req] by simp
  show "dk_ContainerCreate dk False k req = (Inr cid, k') \<Longrightarrow> cid \<notin> containersOf k \<and> containersOf k' \<subseteq> insert cid (containersOf k)"
    using create [of k req] by simp
  show "dk_ImagePull dk b k i = (x, k') \<Longrightarrow> containersOf k' = containersOf k" using parts by (metis snd_conv)
  show "dk_NetworkCreate dk b k i = (y, k') \<Longrightarrow> containersOf k' = containersOf k" using parts by (metis snd_conv)
  show "dk_ContainerStart dk b k i = (y, k') \<Longrightarrow> containersOf k' \<subseteq> containersOf k" using parts by (metis snd_conv)
  show "dk_ContainerStop dk b k i t = (y, k') \<Longrightarrow> containersOf k' \<subseteq> containersOf k" using parts by (metis snd_conv)
  show "dk_ContainerRestart dk b k i t = (y, k') \<Longrightarrow> containersOf k' \<subseteq> containersOf k" using parts by (metis snd_conv)
  show "containersOf (dk_second dk k) \<subseteq> containersOf k" using parts by (elim conjE) (erule allE)
  show "dk_ContainerInspect dk b k i = Inr j \<Longrightarrow> dj_ID j = i" using parts by metis
  show "dk_ContainerRemove dk b k i f = (y, k') \<Longrightarrow> containersOf k' \<subseteq> containersOf k \<and>
      ((case y of None \<Rightarrow> True | Some e \<Rightarrow>
         (sublist ''removal of container'' e \<and> sublist ''is already in progress'' e) \<or> noSuchContainer e) \<longrightarrow> i \<notin> containersOf k')"
    using remove by (cases y) simp_all
qed

lemma ensureImage_keeps:
  "docker_ok dk containersOf \<Longrightarrow> ensureImageExists dk b img k = (x, k') \<Longrightarrow> containersOf k' = containersOf k"
  using docker_okD(4) [of dk containersOf b k img]
  by (auto simp: ensureImageExists_def split: sum.splits if_splits prod.splits option.splits)

lemma createNetwork_keeps:
  "docker_ok dk containersOf \<Longrightarrow> createNetworkIfNotExists dk b n k = (x, k') \<Longrightarrow> containersOf k' = containersOf k"
  using docker_okD(5) [of dk containersOf b k n]
  by (auto simp: createNetworkIfNotExists_def split: sum.splits if_splits prod.splits option.splits)

lemma create_done: "docker_ok dk containersOf \<Longrightarrow> \<exists>e. dcm_Create dk True cfg k = (Inl e, k)"
  using docker_okD(1) [of dk containersOf k] by (auto simp: dcm_Create_def ensureImageExists_def)

lemma create_effect:
  assumes ok: "docker_ok dk containersOf" and "dcm_Create dk False cfg k = (x, k')"
  shows "case x of Inl _ \<Rightarrow> containersOf k' \<subseteq> containersOf k
    | Inr info \<Rightarrow> ci_ID info \<notin> containersOf k \<and> containersOf k' \<subseteq> insert (ci_ID info) (containersOf k)"
proof -
  obtain e1 k1 where 1: "ensureImageExists dk False (cc_Image cfg) k = (e1, k1)" by fastforce
  define net where "net = (if cc_NetworkName cfg \<noteq> [] then createNetworkIfNotExists dk False (cc_NetworkName cfg) k1 else (None, k1))"
  obtain e2 k2 where 2: "net = (e2, k2)" by fastforce
  obtain y k3 where 3: "dk_ContainerCreate dk False k2 (createRequest cfg) = (y, k3)" by fastforce
  have k1: "containersOf k1 = containersOf k" by (rule ensureImage_keeps [OF ok 1])
  have k2: "containersOf k2 = containersOf k"
    using 2 k1 createNetwork_keeps [OF ok] by (auto simp: net_def split: if_splits)
  note run = assms(2) [unfolded dcm_Create_def 1 prod.case, folded net_def, unfolded 2 prod.case 3]
  show ?thesis
    using run k1 k2 3 docker_okD(2,3) [OF ok, of k2 "createRequest cfg"]
    by (cases e1; cases e2; cases y) auto
qed

lemma wait_sub: "docker_ok dk containersOf \<Longrightarrow> waitForRunning dk n i k = (x, k') \<Longrightarrow> containersOf k' \<subseteq> containersOf k"
proof (induction n arbitrary: k)
  case (Suc n)
  show ?case
  proof (cases "waitTick dk i (dk_second dk k)")
    case None
    with Suc.IH [OF Suc.prems(1), of "dk_second dk k"] Suc.prems docker_okD(9) [OF Suc.prems(1), of k] show ?thesis by auto
  qed (use Suc.prems docker_okD(9) [OF Suc.prems(1), of k] in auto)
qed simp

lemma remove_effect:
  assumes "docker_ok dk containersOf" "dcm_Remove dk b i f k = (x, k')"
  shows "containersOf k' \<subseteq> containersOf k \<and> (x = None \<longrightarrow> i \<notin> containersOf k')"
proof -
  obtain y where y: "dk_ContainerRemove dk b k i f = (y, k')"
    using assms(2) by (auto simp: dcm_Remove_def split: prod.splits option.splits if_splits)
  with assms(2) docker_okD(11) [OF assms(1) y] show ?thesis
    by (cases y) (auto simp: dcm_Remove_def split: if_splits)
qed


section \<open>What sending an event changes\<close>

text \<open>
  A send changes nothing but the buffer of one channel, or crashes the process. \<open>nochan\<close> is a monitor
  without its buffer.
\<close>

definition nochan :: "container_monitor \<Rightarrow> container_monitor" where
  "nochan m = m\<lparr>mon_eventChan := []\<rparr>"

definition quiet :: "'k docker_manager \<Rightarrow> 'k docker_manager \<Rightarrow> bool" where
  "quiet s s' \<longleftrightarrow> dm_config s' = dm_config s \<and> dm_healthChecks s' = dm_healthChecks s \<and> dm_hcHeap s' = dm_hcHeap s \<and>
     dm_livenessMonitors s' = dm_livenessMonitors s \<and> dm_closing s' = dm_closing s \<and> dm_daemon s' = dm_daemon s \<and>
     map nochan (dm_monitors s') = map nochan (dm_monitors s)"

lemma quiet_refl [simp]: "quiet s s"
  by (simp add: quiet_def)

lemma quiet_trans: "quiet a b \<Longrightarrow> quiet b c \<Longrightarrow> quiet a c"
  by (simp add: quiet_def)

lemma quiet_sendEvent [simp, intro]: "quiet s (sendEvent r e s)"
  by (cases "r < length (dm_monitors s)")
    (auto simp: quiet_def sendEvent_def Let_def map_update nochan_def list_update_beyond not_less list_update_same_conv)

lemma quiet_selectSend: "selectSend p d r e s = (b, s') \<Longrightarrow> quiet s s'"
  by (auto simp: selectSend_def Let_def split: if_splits)

lemma quiet_snd_selectSend [simp, intro]: "quiet s (snd (selectSend p d r e s))"
  using quiet_selectSend by (metis prod.collapse)

lemma quiet_fields:
  assumes "quiet s s'"
  shows "dm_config s' = dm_config s" "dm_daemon s' = dm_daemon s" "dm_livenessMonitors s' = dm_livenessMonitors s"
    "dm_closing s' = dm_closing s" "length (dm_monitors s') = length (dm_monitors s)"
proof -
  show "dm_config s' = dm_config s" "dm_daemon s' = dm_daemon s" "dm_livenessMonitors s' = dm_livenessMonitors s"
    "dm_closing s' = dm_closing s" using assms by (simp_all add: quiet_def)
  show "length (dm_monitors s') = length (dm_monitors s)"
    using assms map_eq_imp_length_eq unfolding quiet_def by blast
qed

lemma quiet_monitor:
  assumes "quiet s s'" "r < length (dm_monitors s)"
  shows "mon_containerID (dm_monitors s' ! r) = mon_containerID (dm_monitors s ! r)"
    "mon_config (dm_monitors s' ! r) = mon_config (dm_monitors s ! r)"
    "mon_restartCount (dm_monitors s' ! r) = mon_restartCount (dm_monitors s ! r)"
    "mon_closed (dm_monitors s' ! r) = mon_closed (dm_monitors s ! r)"
    "mon_cancelled (dm_monitors s' ! r) = mon_cancelled (dm_monitors s ! r)"
    "mon_restartPolicy (dm_monitors s' ! r) = mon_restartPolicy (dm_monitors s ! r)"
    "mon_failures (dm_monitors s' ! r) = mon_failures (dm_monitors s ! r)"
proof -
  from assms have "nochan (dm_monitors s' ! r) = nochan (dm_monitors s ! r)"
    unfolding quiet_def by (metis length_map nth_map)
  then show "mon_containerID (dm_monitors s' ! r) = mon_containerID (dm_monitors s ! r)"
    "mon_config (dm_monitors s' ! r) = mon_config (dm_monitors s ! r)"
    "mon_restartCount (dm_monitors s' ! r) = mon_restartCount (dm_monitors s ! r)"
    "mon_closed (dm_monitors s' ! r) = mon_closed (dm_monitors s ! r)"
    "mon_cancelled (dm_monitors s' ! r) = mon_cancelled (dm_monitors s ! r)"
    "mon_restartPolicy (dm_monitors s' ! r) = mon_restartPolicy (dm_monitors s ! r)"
    "mon_failures (dm_monitors s' ! r) = mon_failures (dm_monitors s ! r)"
    unfolding nochan_def by (cases "dm_monitors s' ! r", cases "dm_monitors s ! r", simp)+
qed

lemma sendEvent_crash: "dm_crashed (sendEvent r e s) \<longleftrightarrow> dm_crashed s \<or> mon_closed (dm_monitors s ! r)"
  by (simp add: sendEvent_def Let_def)

lemma selectSend_crash: "dm_crashed (snd (selectSend p d r e s)) \<Longrightarrow> dm_crashed s \<or> mon_closed (dm_monitors s ! r)"
  by (auto simp: selectSend_def Let_def sendEvent_crash split: if_splits)

section \<open>What a restart does to the daemon\<close>

lemma restartContainer_daemon:
  "\<exists>y. dk_ContainerRestart dk b (dm_daemon s) cid (wholeSeconds (orDefault t (cmc_StopTimeout (dm_config s)))) =
     (y, dm_daemon (snd (restartContainer dk b now cid t s)))"
  by (auto simp: restartContainer_def Let_def split: prod.splits option.splits)

lemma attemptRestart_daemon:
  "dm_daemon (snd (attemptRestart dk ax now r reason s)) = dm_daemon s \<or>
   (\<exists>b cid t y. dk_ContainerRestart dk b (dm_daemon s) cid t = (y, dm_daemon (snd (attemptRestart dk ax now r reason s))))"
proof (cases "attemptNotify ax r reason s")
  case (Pair ret s1)
  then have q: "quiet s s1" using quiet_selectSend unfolding attemptNotify_def Let_def by blast
  obtain outcome s2 where run: "attemptRun dk ax now r s1 = (outcome, s2)" by fastforce
  have "\<exists>b cid t y. dk_ContainerRestart dk b (dm_daemon s) cid t = (y, dm_daemon s2)"
    using restartContainer_daemon [of dk "ax_done ax 2" s1] run quiet_fields(1,2) [OF q] unfolding attemptRun_def by (metis snd_conv)
  moreover have "dm_daemon (snd (attemptReport ax r outcome s2)) = dm_daemon s2"
    using quiet_selectSend quiet_fields(2)
    by (auto simp: attemptReport_def Let_def split: option.splits prod.splits if_splits bool.splits) blast+
  moreover have "dm_daemon (snd (attemptDenied r reason s)) = dm_daemon s"
    using quiet_fields(2) [OF quiet_sendEvent] by (simp add: attemptDenied_def Let_def)
  ultimately show ?thesis
    using Pair run quiet_fields(2) [OF q] by (auto simp: attemptRestart_def Let_def split: bool.splits)
qed

lemma triggerRestart_daemon:
  "dm_daemon (snd (triggerRestart dk ax now cid reason s)) = dm_daemon s \<or>
   (\<exists>b i t y. dk_ContainerRestart dk b (dm_daemon s) i t = (y, dm_daemon (snd (triggerRestart dk ax now cid reason s))))"
proof -
  have "dm_daemon (triggerNotify r reason s) = dm_daemon s" for r
    using quiet_fields(2) [OF quiet_sendEvent] by (simp add: triggerNotify_def)
  then show ?thesis
    using attemptRestart_daemon [of dk ax now _ reason "triggerNotify _ reason s"]
    by (auto simp: triggerRestart_def Let_def split: sum.splits)
qed

lemma start_stop_daemon [simp]:
  "dm_daemon (snd (startLivenessMonitoring cid cfg s)) = dm_daemon s"
  "dm_daemon (stopLivenessMonitoring cid s) = dm_daemon s"
  "dm_daemon (stopHealthCheck cid s) = dm_daemon s"
  by (simp_all add: startLivenessMonitoring_def stopLivenessMonitoring_def stopHealthCheck_def cancelMonitor_def
      closeEventChan_def Let_def split: option.splits)

text \<open>
  C15. The Docker manager keeps the contract of a container manager on which the results about the container
  performer rest, on a daemon that does what it documents: creating adds one container with a new id or
  none, nothing is created under a context that is done, a removal reported as successful leaves no such
  container, and starting, stopping, waiting, monitoring and restarting create none. If the daemon also
  carries out every removal, no removal of the manager fails.
\<close>

theorem docker_manager_keeps_contract:
  assumes "docker_ok dk containersOf"
  shows "cm_ok (dockerManager dk ax now getenv sha256 newClient) (\<lambda>s. containersOf (dm_daemon s)) \<and>
    ((\<forall>k i. fst (dk_ContainerRemove dk False k i True) = None) \<longrightarrow>
      removals_succeed (dockerManager dk ax now getenv sha256 newClient))"
proof -
  let ?cm = "dockerManager dk ax now getenv sha256 newClient"
  note defs = dockerManager_def Let_def
  note d = docker_okD [OF assms]
  have start: "containersOf (dm_daemon (snd (cmStart ?cm b s i))) \<subseteq> containersOf (dm_daemon s)" for b s i
    using d(6) by (auto simp: defs dcm_Start_def split: prod.splits option.splits)
  have wait: "containersOf (dm_daemon (snd (cmWaitForRunning ?cm b s i))) \<subseteq> containersOf (dm_daemon s)" for b s i
    using wait_sub [OF assms] by (auto simp: defs split: prod.splits)
  have stop: "containersOf (dm_daemon (snd (cmStop ?cm s i))) \<subseteq> containersOf (dm_daemon s)" for s i
    using d(7) start_stop_daemon(3) by (auto simp: defs dcm_Stop_def split: prod.splits option.splits)
  have insp: "cmInspect ?cm b s i = Inr info \<Longrightarrow> ci_ID info = i" for b s i info
    using d(10) by (auto simp: defs dcm_Inspect_def split: sum.splits)
  have remove: "containersOf (dm_daemon (snd (cmRemove ?cm s i))) \<subseteq> containersOf (dm_daemon s) \<and>
      (fst (cmRemove ?cm s i) = None \<longrightarrow> i \<notin> containersOf (dm_daemon (snd (cmRemove ?cm s i))))" for s i
    using remove_effect [OF assms, of False i True "dm_daemon s"] by (auto simp: defs split: prod.splits)
  have trigger: "containersOf (dm_daemon (snd (cmTriggerRestart ?cm s i reason))) \<subseteq> containersOf (dm_daemon s)" for s i reason
    using triggerRestart_daemon [of dk ax now i reason s] d(8) by (fastforce simp: defs)
  have create: "case cmCreate ?cm False s cfg of
      (Inl _, s') \<Rightarrow> containersOf (dm_daemon s') \<subseteq> containersOf (dm_daemon s)
    | (Inr info, s') \<Rightarrow> ci_ID info \<notin> containersOf (dm_daemon s) \<and>
        containersOf (dm_daemon s') \<subseteq> insert (ci_ID info) (containersOf (dm_daemon s))" for s cfg
    using create_effect [OF assms, of cfg "dm_daemon s"] by (auto simp: defs split: prod.splits sum.splits)
  have ended: "\<exists>e s'. cmCreate ?cm True s cfg = (Inl e, s') \<and> containersOf (dm_daemon s') \<subseteq> containersOf (dm_daemon s)" for s cfg
    using create_done [OF assms, of cfg "dm_daemon s"] by (auto simp: defs)
  have "cm_ok ?cm (\<lambda>s. containersOf (dm_daemon s))"
    unfolding cm_ok_def using create ended start wait insp stop remove trigger by (simp add: defs)
  moreover have "removals_succeed ?cm" if "\<forall>k i. fst (dk_ContainerRemove dk False k i True) = None"
    using that by (auto simp: removals_succeed_def defs dcm_Remove_def split: prod.splits option.splits) (metis fst_conv option.distinct(1))+
  ultimately show ?thesis by blast
qed


section \<open>The outcome of a restart\<close>

text \<open>The monitor \<open>r\<close> watches the container: it is the one in the map, and its channel is open.\<close>

definition watches :: "'k docker_manager \<Rightarrow> nat \<Rightarrow> string \<Rightarrow> bool" where
  "watches s r cid \<longleftrightarrow> r < length (dm_monitors s) \<and> gm_get (dm_livenessMonitors s) cid = Some r \<and>
     mon_containerID (dm_monitors s ! r) = cid \<and> \<not> mon_closed (dm_monitors s ! r) \<and> \<not> dm_crashed s"

definition stopSeconds :: "'k docker_manager \<Rightarrow> int" where
  "stopSeconds s = wholeSeconds (cmc_StopTimeout (dm_config s))"

lemma watches_quiet: "watches s r cid \<Longrightarrow> quiet s s' \<Longrightarrow> \<not> dm_crashed s' \<Longrightarrow> watches s' r cid"
  using quiet_fields(3,5) [of s s'] quiet_monitor [of s s' r] by (simp add: watches_def)

lemma sendEvent_open:
  assumes "watches s r cid" "length (mon_eventChan (dm_monitors s ! r)) < 10"
  shows "watches (sendEvent r e s) r cid"
    "mon_eventChan (dm_monitors (sendEvent r e s) ! r) = mon_eventChan (dm_monitors s ! r) @ [e]"
proof -
  show "watches (sendEvent r e s) r cid"
    using watches_quiet [OF assms(1) quiet_sendEvent] assms(1) by (simp add: sendEvent_crash watches_def)
  show "mon_eventChan (dm_monitors (sendEvent r e s) ! r) = mon_eventChan (dm_monitors s ! r) @ [e]"
    using assms by (simp add: sendEvent_def watches_def Let_def)
qed

lemma restartContainer_watched:
  assumes "watches s r cid" "dk_ContainerRestart dk b (dm_daemon s) cid (stopSeconds s) = (res, k)"
  obtains s' where "restartContainer dk b now cid (cmc_StopTimeout (dm_config s)) s =
      (map_option (errorsWrap ''failed to restart container'') res, s')"
    "dm_daemon s' = k" "watches s' r cid" "mon_eventChan (dm_monitors s' ! r) = mon_eventChan (dm_monitors s ! r)"
    "mon_restartPolicy (dm_monitors s' ! r) = mon_restartPolicy (dm_monitors s ! r)"
    "mon_failures (dm_monitors s' ! r) = mon_failures (dm_monitors s ! r)"
    "mon_restartCount (dm_monitors s' ! r) = (if res = None then Suc (mon_restartCount (dm_monitors s ! r)) else mon_restartCount (dm_monitors s ! r))"
  using assms
  by (intro that [of "case res of None \<Rightarrow> updMonitor r (\<lambda>m. m\<lparr>mon_restartCount := mon_restartCount m + 1, mon_lastRestart := now\<rparr>) (s\<lparr>dm_daemon := k\<rparr>)
      | Some e \<Rightarrow> s\<lparr>dm_daemon := k\<rparr>"])
    (auto simp: restartContainer_def stopSeconds_def watches_def Let_def split: option.splits)

lemma eventFor_type [simp]:
  "ce_Type (eventFor m t msg) = t" "ce_Type (restartingEvent m reason) = EventRestarting" "ce_Type (restartedEvent m) = EventRestarted"
  by (simp_all add: eventFor_def restartingEvent_def restartedEvent_def)

text \<open>An attempt that is not refused, under a context that stays open and with room for its events.\<close>

lemma attempt_outcome:
  assumes w: "watches s r cid" and live: "\<forall>p. \<not> ax_done ax p" and "\<not> restartLimitReached (dm_monitors s ! r)"
    and room: "length (mon_eventChan (dm_monitors s ! r)) \<le> 8"
    and res: "dk_ContainerRestart dk False (dm_daemon s) cid (stopSeconds s) = (res, k)"
  obtains s' where "attemptRestart dk ax now r reason s =
      (case res of None \<Rightarrow> None | Some e \<Rightarrow> let err = errorsWrap ''failed to restart container'' e in
         if noSuchContainer err then None else Some err, s')"
    "dm_daemon s' = k" "watches s' r cid"
    "map ce_Type (mon_eventChan (dm_monitors s' ! r)) = map ce_Type (mon_eventChan (dm_monitors s ! r)) @
       [EventRestarting, if res = None then EventRestarted else EventRestartFailed]"
    "mon_restartCount (dm_monitors s' ! r) = (if res = None then Suc (mon_restartCount (dm_monitors s ! r)) else mon_restartCount (dm_monitors s ! r))"
    "mon_failures (dm_monitors s' ! r) = mon_failures (dm_monitors s ! r)"
proof -
  have r: "r < length (dm_monitors s)" and cid: "mon_containerID (dm_monitors s ! r) = cid" using w by (simp_all add: watches_def)
  define s1 where "s1 = sendEvent r (restartingEvent (dm_monitors s ! r) reason) s"
  have n: "attemptNotify ax r reason s = (False, s1)" using live by (simp add: attemptNotify_def s1_def Let_def)
  have w1: "watches s1 r cid" and c1: "mon_eventChan (dm_monitors s1 ! r) = mon_eventChan (dm_monitors s ! r) @ [restartingEvent (dm_monitors s ! r) reason]"
    using sendEvent_open [OF w] room by (simp_all add: s1_def)
  have q1: "quiet s s1" by (simp add: s1_def)
  note f1 = quiet_fields [OF q1] note m1 = quiet_monitor [OF q1 r]
  have res1: "dk_ContainerRestart dk False (dm_daemon s1) cid (stopSeconds s1) = (res, k)"
    using res f1(1,2) by (simp add: stopSeconds_def)
  obtain s2 where s2: "restartContainer dk False now cid (cmc_StopTimeout (dm_config s1)) s1 =
      (map_option (errorsWrap ''failed to restart container'') res, s2)"
    "dm_daemon s2 = k" "watches s2 r cid" "mon_eventChan (dm_monitors s2 ! r) = mon_eventChan (dm_monitors s1 ! r)"
    "mon_failures (dm_monitors s2 ! r) = mon_failures (dm_monitors s1 ! r)"
    "mon_restartCount (dm_monitors s2 ! r) = (if res = None then Suc (mon_restartCount (dm_monitors s1 ! r)) else mon_restartCount (dm_monitors s1 ! r))"
    by (rule restartContainer_watched [OF w1 res1])
  have run: "attemptRun dk ax now r s1 = (map_option (errorsWrap ''failed to restart container'') res, s2)"
    using s2(1) live m1(1) cid by (simp add: attemptRun_def)
  have room2: "length (mon_eventChan (dm_monitors s2 ! r)) < 10" using s2(4) c1 room by simp
  define ev where "ev = (case res of None \<Rightarrow> restartedEvent (dm_monitors s2 ! r) | Some e \<Rightarrow>
     eventFor (dm_monitors s2 ! r) EventRestartFailed ((if noSuchContainer (errorsWrap ''failed to restart container'' e)
       then ''Container recreation needed but not implemented (attempt '' else ''Restart failed (attempt '') @
       dec (mon_restartCount (dm_monitors s2 ! r) + 1) @ ''): '' @ errorsWrap ''failed to restart container'' e))"
  define s3 where "s3 = sendEvent r ev s2"
  have rep: "attemptReport ax r (map_option (errorsWrap ''failed to restart container'') res) s2 =
      (case res of None \<Rightarrow> None | Some e \<Rightarrow> let err = errorsWrap ''failed to restart container'' e in
         if noSuchContainer err then None else Some err, s3)"
    using live by (cases res) (simp_all add: attemptReport_def s3_def ev_def Let_def)
  have t: "ce_Type ev = (if res = None then EventRestarted else EventRestartFailed)" by (cases res) (simp_all add: ev_def)
  have q3: "quiet s2 s3" by (simp add: s3_def)
  have r2: "r < length (dm_monitors s2)" using s2(3) by (simp add: watches_def)
  note m3 = quiet_monitor [OF q3 r2]
  show thesis
  proof (rule that [of s3])
    show "attemptRestart dk ax now r reason s =
        (case res of None \<Rightarrow> None | Some e \<Rightarrow> let err = errorsWrap ''failed to restart container'' e in
           if noSuchContainer err then None else Some err, s3)"
      using assms(3) live n w1 run rep by (simp add: attemptRestart_def Let_def watches_def)
    show "dm_daemon s3 = k" using quiet_fields(2) [OF q3] s2(2) by simp
    show "watches s3 r cid" using sendEvent_open(1) [OF s2(3) room2] by (simp add: s3_def)
    show "map ce_Type (mon_eventChan (dm_monitors s3 ! r)) = map ce_Type (mon_eventChan (dm_monitors s ! r)) @
        [EventRestarting, if res = None then EventRestarted else EventRestartFailed]"
      using sendEvent_open(2) [OF s2(3) room2, of ev] s2(4) c1 t by (simp add: s3_def)
    show "mon_restartCount (dm_monitors s3 ! r) = (if res = None then Suc (mon_restartCount (dm_monitors s ! r)) else mon_restartCount (dm_monitors s ! r))"
      using m3(3) s2(6) m1(3) by simp
    show "mon_failures (dm_monitors s3 ! r) = mon_failures (dm_monitors s ! r)" using m3(7) s2(5) m1(7) by simp
  qed
qed


section \<open>A stopped container is restarted\<close>

lemma livenessCheck_below:
  assumes "isRunning dk (ax_done ax 4) (mon_containerID (dm_monitors s ! r)) (dm_daemon s) = Inr False"
    and "mon_failures (dm_monitors s ! r) + 1 < hcc_FailureThreshold (lc_HealthCheckConfig (mon_config (dm_monitors s ! r)))"
  shows "livenessTick dk ax now r s = updMonitor r (\<lambda>m. m\<lparr>mon_failures := mon_failures m + 1\<rparr>) s"
  using assms by (simp add: livenessTick_def livenessCheck_def Let_def)

text \<open>The monitor after \<open>j\<close> failed checks, below the threshold.\<close>

lemma liveness_counts:
  assumes "r < length (dm_monitors s)" "\<forall>p. \<not> ax_done ax p"
    and "isRunning dk False (mon_containerID (dm_monitors s ! r)) (dm_daemon s) = Inr False"
    and "mon_failures (dm_monitors s ! r) + int j < hcc_FailureThreshold (lc_HealthCheckConfig (mon_config (dm_monitors s ! r)))"
  shows "(livenessTick dk ax now r ^^ j) s = updMonitor r (\<lambda>m. m\<lparr>mon_failures := mon_failures m + int j\<rparr>) s"
  using assms(4)
proof (induction j)
  case (Suc j)
  then have "(livenessTick dk ax now r ^^ j) s = updMonitor r (\<lambda>m. m\<lparr>mon_failures := mon_failures m + int j\<rparr>) s" by simp
  with livenessCheck_below [of dk ax "updMonitor r (\<lambda>m. m\<lparr>mon_failures := mon_failures m + int j\<rparr>) s" r] Suc.prems assms
  show ?case by (simp add: algebra_simps)
qed simp

text \<open>
  C16. A container that is not running is restarted once the failure threshold is reached, and not before.
  Take a monitor that watches the container, with an enabled policy that restarts on failed health checks,
  room in its event channel and restarts left. As long as the daemon reports the container as not running,
  the first checks only count; the check that reaches the threshold makes the daemon restart the container,
  counts the restart, reports that the container is unhealthy, being restarted and restarted, in this
  order, and starts counting failures afresh.
\<close>

theorem stopped_container_restarted:
  assumes "watches s r cid" "\<forall>p. \<not> ax_done ax p" "\<not> restartLimitReached (dm_monitors s ! r)"
    and "rp_Enabled (mon_restartPolicy (dm_monitors s ! r))" "rp_RestartOnUnhealthy (mon_restartPolicy (dm_monitors s ! r))"
    and "hcc_FailureThreshold (lc_HealthCheckConfig (mon_config (dm_monitors s ! r))) = int (Suc n)"
    and "mon_failures (dm_monitors s ! r) = 0" "length (mon_eventChan (dm_monitors s ! r)) \<le> 7"
    and "isRunning dk False cid (dm_daemon s) = Inr False"
    and "dk_ContainerRestart dk False (dm_daemon s) cid (stopSeconds s) = (None, k)"
  shows "(\<forall>j\<le>n. dm_daemon ((livenessTick dk ax now r ^^ j) s) = dm_daemon s) \<and>
    (let s' = (livenessTick dk ax now r ^^ Suc n) s; m = dm_monitors s ! r; m' = dm_monitors s' ! r
     in dm_daemon s' = k \<and> watches s' r cid \<and> mon_restartCount m' = Suc (mon_restartCount m) \<and> mon_failures m' = 0 \<and>
       map ce_Type (mon_eventChan m') = map ce_Type (mon_eventChan m) @ [EventUnhealthy, EventRestarting, EventRestarted])"
proof -
  have r: "r < length (dm_monitors s)" and cid: "mon_containerID (dm_monitors s ! r) = cid"
    and nc: "\<not> mon_closed (dm_monitors s ! r)" "\<not> dm_crashed s" using assms(1) by (simp_all add: watches_def)
  have below: "(livenessTick dk ax now r ^^ j) s = updMonitor r (\<lambda>m. m\<lparr>mon_failures := int j\<rparr>) s" if "j \<le> n" for j
    using liveness_counts [OF r assms(2), of dk j now] assms(6,7,9) cid that by simp
  let ?sn = "updMonitor r (\<lambda>m. m\<lparr>mon_failures := int n\<rparr>) s"
  let ?m = "(dm_monitors s ! r)\<lparr>mon_failures := int n\<rparr>"
  let ?ev = "eventFor ?m EventUnhealthy (''Health check failed '' @ decInt (int n + 1) @ '' times'')"
  define su where "su = sendEvent r ?ev ?sn"
  define s0 where "s0 = updMonitor r (\<lambda>m. m\<lparr>mon_failures := 0\<rparr>) su"
  have wn: "watches ?sn r cid" using assms(1) by (simp add: watches_def)
  have room: "length (mon_eventChan (dm_monitors ?sn ! r)) < 10" using assms(8) r by simp
  note o = sendEvent_open [OF wn room, of ?ev, folded su_def]
  have q: "quiet ?sn su" by (simp add: su_def)
  note f = quiet_fields [OF q] and m = quiet_monitor [OF q, of r]
  have r0: "r < length (dm_monitors su)" using f(5) r by simp
  have w0: "watches s0 r cid" using o(1) by (simp add: s0_def watches_def)
  have c0: "mon_eventChan (dm_monitors s0 ! r) = mon_eventChan (dm_monitors s ! r) @ [?ev]" using o(2) r r0 by (simp add: s0_def)
  have count: "mon_restartCount (dm_monitors s0 ! r) = mon_restartCount (dm_monitors s ! r)"
    "mon_restartPolicy (dm_monitors s0 ! r) = mon_restartPolicy (dm_monitors s ! r)" "mon_failures (dm_monitors s0 ! r) = 0"
    using m r r0 by (simp_all add: s0_def)
  have dae: "dm_daemon s0 = dm_daemon s" "dm_config s0 = dm_config s" using f(1,2) by (simp_all add: s0_def)
  have check: "livenessCheck dk ax r ?sn = (Some ''health check failures'', s0)"
    using assms(2,4,5,6,9) cid r o(1) unfolding s0_def su_def
    by (simp add: livenessCheck_def Let_def watches_def)
  obtain s' where s': "attemptRestart dk ax now r ''health check failures'' s0 = (None, s')"
    "dm_daemon s' = k" "watches s' r cid"
    "map ce_Type (mon_eventChan (dm_monitors s' ! r)) = map ce_Type (mon_eventChan (dm_monitors s0 ! r)) @ [EventRestarting, EventRestarted]"
    "mon_restartCount (dm_monitors s' ! r) = Suc (mon_restartCount (dm_monitors s0 ! r))"
    "mon_failures (dm_monitors s' ! r) = mon_failures (dm_monitors s0 ! r)"
    by (rule attempt_outcome [OF w0 assms(2), of dk None k now "''health check failures''"])
      (use assms(3,8,10) c0 count dae in \<open>simp_all add: restartLimitReached_def stopSeconds_def\<close>)
  have "(livenessTick dk ax now r ^^ Suc n) s = s'"
    using below [of n] check s'(1) by (simp add: livenessTick_def)
  moreover have "\<forall>j\<le>n. dm_daemon ((livenessTick dk ax now r ^^ j) s) = dm_daemon s" using below by simp
  ultimately show ?thesis using s'(2-6) c0 count by (simp add: Let_def del: funpow.simps)
qed

section \<open>The restart limit\<close>

lemma attemptReport_send:
  "\<exists>event. snd (attemptReport ax r outcome s) = snd (selectSend (ax_pick ax 3) (ax_done ax 3) r event s)"
proof -
  obtain event res where "(case outcome of None \<Rightarrow> (restartedEvent (dm_monitors s ! r), None)
      | Some err \<Rightarrow> if noSuchContainer err
          then (eventFor (dm_monitors s ! r) EventRestartFailed (''Container recreation needed but not implemented (attempt '' @
                  dec (mon_restartCount (dm_monitors s ! r) + 1) @ ''): '' @ err), None)
          else (eventFor (dm_monitors s ! r) EventRestartFailed (''Restart failed (attempt '' @
                  dec (mon_restartCount (dm_monitors s ! r) + 1) @ ''): '' @ err), Some err)) = (event, res :: string option)"
    by fastforce
  then have "snd (attemptReport ax r outcome s) = snd (selectSend (ax_pick ax 3) (ax_done ax 3) r event s)"
    unfolding attemptReport_def Let_def by (simp split: prod.splits bool.splits)
  then show ?thesis by blast
qed

lemma attemptReport_quiet: "quiet s (snd (attemptReport ax r outcome s))"
  using attemptReport_send [of ax r outcome s] by auto

text \<open>Any attempt, whatever its context does, makes at most one restart, and none at the limit.\<close>

lemma attempt_count:
  assumes "r < length (dm_monitors s)" "gm_get (dm_livenessMonitors s) cid = Some r" "mon_containerID (dm_monitors s ! r) = cid"
    and "attemptRestart dk ax now r reason s = (e, s')"
  shows "r < length (dm_monitors s') \<and> gm_get (dm_livenessMonitors s') cid = Some r \<and> mon_containerID (dm_monitors s' ! r) = cid \<and>
    mon_restartPolicy (dm_monitors s' ! r) = mon_restartPolicy (dm_monitors s ! r) \<and>
    (if restartLimitReached (dm_monitors s ! r)
     then e \<noteq> None \<and> dm_daemon s' = dm_daemon s \<and> mon_restartCount (dm_monitors s' ! r) = mon_restartCount (dm_monitors s ! r)
     else mon_restartCount (dm_monitors s' ! r) \<le> Suc (mon_restartCount (dm_monitors s ! r)))"
proof -
  have settled: ?thesis if "quiet s s'" "restartLimitReached (dm_monitors s ! r) \<longrightarrow> e \<noteq> None"
    using quiet_fields [OF that(1)] quiet_monitor [OF that(1) assms(1)] assms(1-3) that(2) by simp
  show ?thesis
  proof (cases "restartLimitReached (dm_monitors s ! r)")
    case True
    with assms(4) have "e \<noteq> None" "quiet s s'" by (auto simp: attemptRestart_def attemptDenied_def Let_def)
    then show ?thesis using settled by blast
  next
    case False
    obtain ret s1 where n: "attemptNotify ax r reason s = (ret, s1)" by fastforce
    then have q1: "quiet s s1" using quiet_selectSend unfolding attemptNotify_def Let_def by blast
    show ?thesis
    proof (cases "s' = s \<or> s' = s1")
      case True
      then show ?thesis using settled q1 False by auto
    next
      case neither: False
      obtain outcome s2 where run: "attemptRun dk ax now r s1 = (outcome, s2)" by fastforce
      have s': "s' = snd (attemptReport ax r outcome s2)"
        using assms(4) False n run neither by (auto simp: attemptRestart_def Let_def split: if_splits bool.splits)
      have q3: "quiet s2 s'" unfolding s' by (rule attemptReport_quiet)
      note f1 = quiet_fields [OF q1] and m1 = quiet_monitor [OF q1 assms(1)]
      have two: "dm_livenessMonitors s2 = dm_livenessMonitors s1 \<and> r < length (dm_monitors s2) \<and>
          mon_containerID (dm_monitors s2 ! r) = cid \<and> mon_restartPolicy (dm_monitors s2 ! r) = mon_restartPolicy (dm_monitors s1 ! r) \<and>
          mon_restartCount (dm_monitors s2 ! r) \<le> Suc (mon_restartCount (dm_monitors s1 ! r))"
        using run m1(1) f1(3,5) assms(1-3)
        by (auto simp: attemptRun_def restartContainer_def Let_def split: prod.splits option.splits)
      then show ?thesis
        using quiet_fields [OF q3] quiet_monitor [OF q3, of r] f1 m1 False assms(2) by simp
    qed
  qed
qed

text \<open>Attempts one after the other, each with its context, time and reason.\<close>

fun attemptAll :: "'k docker_client \<Rightarrow> nat \<Rightarrow> (attempt_ctx \<times> time \<times> string) list \<Rightarrow> 'k docker_manager \<Rightarrow> 'k docker_manager" where
  "attemptAll dk r [] s = s"
| "attemptAll dk r ((ax, now, reason) # as) s = attemptAll dk r as (snd (attemptRestart dk ax now r reason s))"


text \<open>
  Attempts that overlap do not: the limit is checked before the delay, and the count grows after it.
\<close>

lemma overlapping_restarts_exceed_limit:
  assumes w: "watches s r cid" and live: "\<forall>p. \<not> ax_done ax p"
    and last: "int (mon_restartCount (dm_monitors s ! r)) + 1 = rp_MaxRestarts (mon_restartPolicy (dm_monitors s ! r))"
    and works: "\<And>k t. fst (dk_ContainerRestart dk False k cid t) = None"
    and s1_def: "s1 = snd (attemptNotify ax r reason s)" and s2_def: "s2 = snd (attemptNotify ax r reason' s1)"
    and s3_def: "s3 = snd (attemptRun dk ax now r s2)" and s4_def: "s4 = snd (attemptRun dk ax now r s3)"
  shows "\<not> restartLimitReached (dm_monitors s ! r) \<and> \<not> restartLimitReached (dm_monitors s1 ! r) \<and>
    int (mon_restartCount (dm_monitors s4 ! r)) = rp_MaxRestarts (mon_restartPolicy (dm_monitors s ! r)) + 1"
proof -
  have r: "r < length (dm_monitors s)" using w by (simp add: watches_def)
  have nocrash: "\<not> dm_crashed (snd (attemptNotify ax r rs t)) \<and> quiet t (snd (attemptNotify ax r rs t))" if "watches t r cid" for rs t
    using that live by (auto simp: attemptNotify_def Let_def sendEvent_crash watches_def)
  have w1: "watches s1 r cid" and q1: "quiet s s1" using nocrash [OF w] watches_quiet [OF w] by (auto simp: s1_def)
  have w2: "watches s2 r cid" and q2: "quiet s1 s2" using nocrash [OF w1] watches_quiet [OF w1] by (auto simp: s2_def)
  note m1 = quiet_monitor [OF q1 r] and m2 = quiet_monitor [OF quiet_trans [OF q1 q2] r]
  have run: "watches (snd (attemptRun dk ax now r t)) r cid \<and>
      mon_restartCount (dm_monitors (snd (attemptRun dk ax now r t)) ! r) = Suc (mon_restartCount (dm_monitors t ! r))"
    if wt: "watches t r cid" for t
  proof -
    obtain k where "dk_ContainerRestart dk False (dm_daemon t) cid (stopSeconds t) = (None, k)"
      using works by (metis prod.collapse)
    then obtain t' where t': "restartContainer dk False now cid (cmc_StopTimeout (dm_config t)) t = (None, t')" "watches t' r cid"
      "mon_restartCount (dm_monitors t' ! r) = Suc (mon_restartCount (dm_monitors t ! r))"
      by (rule restartContainer_watched [OF wt]) simp
    moreover have "mon_containerID (dm_monitors t ! r) = cid" using wt by (simp add: watches_def)
    ultimately have "snd (attemptRun dk ax now r t) = t'" using live by (simp add: attemptRun_def)
    with t'(2,3) show ?thesis by simp
  qed
  have "mon_restartCount (dm_monitors s4 ! r) = mon_restartCount (dm_monitors s ! r) + 2"
    using run [OF w2] run m2(3) by (simp add: s3_def s4_def)
  then show ?thesis using last m1(3,6) by (simp add: restartLimitReached_def)
qed

end
