(* ===== verification/Docker_Concurrency.thy ===== *)
theory Docker_Concurrency
  imports Docker_Theorems
begin

text \<open>
  The goroutines of the Docker manager. A step of \<open>docker_step\<close> is an operation of the manager, one
  iteration of a monitoring goroutine, or one part of a restart attempt; attempts in progress are part of
  the state, because an attempt waits out its delay without the manager's lock. The results: every
  container has at most one live monitor, no channel is closed twice, and the only crash there is comes
  from a goroutine or a caller that still sends to a monitor that was stopped, which a restart triggered
  by the performer does.
\<close>

section \<open>Steps\<close>

datatype attempt_stage = AtTrigger | AtCheck | AtDelay | AtRestart | AtReport "string option"

text \<open>An attempt: its monitor, its reason, whether \<open>TriggerRestart\<close> makes it, and how far it is.\<close>

type_synonym attempt = "nat \<times> string \<times> bool \<times> attempt_stage"

text \<open>
  A monitor's goroutines run under its context; \<open>TriggerRestart\<close> has a context of its own, which ends after
  30 seconds. A context may also end for other reasons.
\<close>

definition ctx_of :: "bool \<Rightarrow> container_monitor \<Rightarrow> attempt_ctx \<Rightarrow> bool" where
  "ctx_of triggered m ax \<longleftrightarrow> (\<not> triggered \<and> mon_cancelled m \<longrightarrow> (\<forall>p. ax_done ax p))"

text \<open>The label is the monitor whose goroutine or attempt takes the step, or none for an operation of the manager.\<close>

inductive docker_step ::
  "'k docker_client \<Rightarrow> nat option \<Rightarrow> 'k docker_manager \<times> attempt list \<Rightarrow> 'k docker_manager \<times> attempt list \<Rightarrow> bool" for dk where
  start: "\<not> dm_crashed s \<Longrightarrow> docker_step dk None (s, P) (snd (startLivenessMonitoring cid cfg s), P)"
| adopt: "\<not> dm_crashed s \<Longrightarrow> docker_step dk None (s, P) (snd (adoptContainer dk b cid cfg s), P)"
| stop: "\<not> dm_crashed s \<Longrightarrow> docker_step dk None (s, P) (stopLivenessMonitoring cid s, P)"
| closing: "\<not> dm_crashed s \<Longrightarrow> r \<in> set (dm_closing s) \<Longrightarrow> docker_step dk None (s, P) (closeStopped r s, P)"
| shutdown: "\<not> dm_crashed s \<Longrightarrow> docker_step dk None (s, P) (snd (dcm_Shutdown dk s), P)"
| policy: "\<not> dm_crashed s \<Longrightarrow> docker_step dk None (s, P) (snd (setRestartPolicy cid pol s), P)"
| restart: "\<not> dm_crashed s \<Longrightarrow> docker_step dk None (s, P) (snd (restartContainer dk b now cid t s), P)"
| receive: "\<not> dm_crashed s \<Longrightarrow> r < length (dm_monitors s) \<Longrightarrow>
    docker_step dk None (s, P) (updMonitor r (\<lambda>m. m\<lparr>mon_eventChan := tl (mon_eventChan m)\<rparr>) s, P)"
| daemon: "\<not> dm_crashed s \<Longrightarrow> docker_step dk None (s, P) (s\<lparr>dm_daemon := k\<rparr>, P)"
| health: "\<not> dm_crashed s \<Longrightarrow> docker_step dk None (s, P) (s\<lparr>dm_healthChecks := hs, dm_hcHeap := hh\<rparr>, P)"
| trigger: "\<not> dm_crashed s \<Longrightarrow> triggerLookup cid s = Inr r \<Longrightarrow>
    docker_step dk None (s, P) (s, (r, reason, True, AtTrigger) # P)"
| notify: "\<not> dm_crashed s \<Longrightarrow> (r, reason, b, AtTrigger) \<in> set P \<Longrightarrow>
    docker_step dk (Some r) (s, P) (triggerNotify r reason s, (r, reason, b, AtCheck) # remove1 (r, reason, b, AtTrigger) P)"
| tick: "\<not> dm_crashed s \<Longrightarrow> r < length (dm_monitors s) \<Longrightarrow> ctx_of False (dm_monitors s ! r) ax \<Longrightarrow> livenessCheck dk ax r s = (res, s') \<Longrightarrow>
    docker_step dk (Some r) (s, P) (s', case res of None \<Rightarrow> P | Some reason \<Rightarrow> (r, reason, False, AtCheck) # P)"
| event: "\<not> dm_crashed s \<Longrightarrow> r < length (dm_monitors s) \<Longrightarrow> dockerEventCheck r ev s = (res, s') \<Longrightarrow>
    docker_step dk (Some r) (s, P) (s', case res of None \<Rightarrow> P | Some reason \<Rightarrow> (r, reason, False, AtCheck) # P)"
| resource: "\<not> dm_crashed s \<Longrightarrow> r < length (dm_monitors s) \<Longrightarrow> rp_Enabled (mon_restartPolicy (dm_monitors s ! r)) \<Longrightarrow> ctx_of False (dm_monitors s ! r) ax \<Longrightarrow>
    selectSend (ax_pick ax 6) (ax_done ax 6) r (eventFor (dm_monitors s ! r) EventUnhealthy msg) s = (ret, s') \<Longrightarrow>
    docker_step dk (Some r) (s, P) (s', if ret then P else (r, msg, False, AtCheck) # P)"
| refused: "\<not> dm_crashed s \<Longrightarrow> (r, reason, b, AtCheck) \<in> set P \<Longrightarrow> restartLimitReached (dm_monitors s ! r) \<Longrightarrow>
    docker_step dk (Some r) (s, P) (snd (attemptDenied r reason s), remove1 (r, reason, b, AtCheck) P)"
| allowed: "\<not> dm_crashed s \<Longrightarrow> (r, reason, b, AtCheck) \<in> set P \<Longrightarrow> \<not> restartLimitReached (dm_monitors s ! r) \<Longrightarrow>
    docker_step dk (Some r) (s, P) (s, (r, reason, b, AtDelay) # remove1 (r, reason, b, AtCheck) P)"
| cancelled: "\<not> dm_crashed s \<Longrightarrow> (r, reason, b, AtDelay) \<in> set P \<Longrightarrow>
    docker_step dk (Some r) (s, P) (s, remove1 (r, reason, b, AtDelay) P)"
| delayed: "\<not> dm_crashed s \<Longrightarrow> (r, reason, b, AtDelay) \<in> set P \<Longrightarrow> ctx_of b (dm_monitors s ! r) ax \<Longrightarrow>
    attemptNotify ax r reason s = (ret, s') \<Longrightarrow>
    docker_step dk (Some r) (s, P) (s', (if ret then [] else [(r, reason, b, AtRestart)]) @ remove1 (r, reason, b, AtDelay) P)"
| run: "\<not> dm_crashed s \<Longrightarrow> (r, reason, b, AtRestart) \<in> set P \<Longrightarrow> ctx_of b (dm_monitors s ! r) ax \<Longrightarrow>
    attemptRun dk ax now r s = (outcome, s') \<Longrightarrow>
    docker_step dk (Some r) (s, P) (s', (r, reason, b, AtReport outcome) # remove1 (r, reason, b, AtRestart) P)"
| report: "\<not> dm_crashed s \<Longrightarrow> (r, reason, b, AtReport outcome) \<in> set P \<Longrightarrow> ctx_of b (dm_monitors s ! r) ax \<Longrightarrow>
    attemptReport ax r outcome s = (e, s') \<Longrightarrow>
    docker_step dk (Some r) (s, P) (s', remove1 (r, reason, b, AtReport outcome) P)"

section \<open>The invariant of the monitors\<close>

definition monitors_ok :: "'k docker_manager \<Rightarrow> bool" where
  "monitors_ok s \<longleftrightarrow> gm_wf (dm_livenessMonitors s) \<and>
     (\<forall>cid r. gm_get (dm_livenessMonitors s) cid = Some r \<longrightarrow>
        r < length (dm_monitors s) \<and> mon_containerID (dm_monitors s ! r) = cid \<and> \<not> mon_cancelled (dm_monitors s ! r)) \<and>
     (\<forall>r<length (dm_monitors s). \<not> mon_cancelled (dm_monitors s ! r) \<longrightarrow>
        gm_get (dm_livenessMonitors s) (mon_containerID (dm_monitors s ! r)) = Some r) \<and>
     (\<forall>r<length (dm_monitors s). mon_closed (dm_monitors s ! r) \<longrightarrow> mon_cancelled (dm_monitors s ! r)) \<and>
     distinct (dm_closing s) \<and>
     (\<forall>r\<in>set (dm_closing s). r < length (dm_monitors s) \<and> mon_cancelled (dm_monitors s ! r) \<and> \<not> mon_closed (dm_monitors s ! r))"

definition signature :: "container_monitor \<Rightarrow> string \<times> bool \<times> bool" where
  "signature m = (mon_containerID m, mon_closed m, mon_cancelled m)"

text \<open>A step that leaves the lifecycle of every monitor alone, and crashes only on the closed channel of \<open>r\<close>.\<close>

definition calm :: "'k docker_manager \<Rightarrow> 'k docker_manager \<Rightarrow> bool" where
  "calm s s' \<longleftrightarrow> dm_livenessMonitors s' = dm_livenessMonitors s \<and> dm_closing s' = dm_closing s \<and>
     map signature (dm_monitors s') = map signature (dm_monitors s)"

definition touches :: "nat \<Rightarrow> 'k docker_manager \<Rightarrow> 'k docker_manager \<Rightarrow> bool" where
  "touches r s s' \<longleftrightarrow> calm s s' \<and> (dm_crashed s' \<longrightarrow> dm_crashed s \<or> mon_closed (dm_monitors s ! r))"

lemma calm_refl [simp]: "calm s s"
  by (simp add: calm_def)

lemma calm_trans: "calm a b \<Longrightarrow> calm b c \<Longrightarrow> calm a c"
  by (simp add: calm_def)

lemma calm_length: "calm s s' \<Longrightarrow> length (dm_monitors s') = length (dm_monitors s)"
  unfolding calm_def using map_eq_imp_length_eq by blast

lemma calm_signature: "calm s s' \<Longrightarrow> r < length (dm_monitors s) \<Longrightarrow> signature (dm_monitors s' ! r) = signature (dm_monitors s ! r)"
  unfolding calm_def by (metis length_map nth_map)

lemma calm_fields:
  assumes "calm s s'" "r < length (dm_monitors s)"
  shows "mon_containerID (dm_monitors s' ! r) = mon_containerID (dm_monitors s ! r)"
    "mon_closed (dm_monitors s' ! r) = mon_closed (dm_monitors s ! r)"
    "mon_cancelled (dm_monitors s' ! r) = mon_cancelled (dm_monitors s ! r)"
  using calm_signature [OF assms] by (simp_all add: signature_def)

lemma monitors_ok_calm: "monitors_ok s \<Longrightarrow> calm s s' \<Longrightarrow> monitors_ok s'"
  using calm_length [of s s'] calm_fields [of s s'] by (auto simp: monitors_ok_def calm_def)

lemma quiet_calm: "quiet s s' \<Longrightarrow> calm s s'"
proof -
  assume q: "quiet s s'"
  have "map signature ms = map signature (map nochan ms)" for ms by (simp add: signature_def nochan_def)
  then have "map signature (dm_monitors s') = map signature (dm_monitors s)" using q unfolding quiet_def by metis
  with q show ?thesis by (simp add: calm_def quiet_def)
qed

lemma calm_upd: "(\<And>m. signature (f m) = signature m) \<Longrightarrow> calm s (updMonitor r f s)"
  by (cases "r < length (dm_monitors s)") (simp_all add: calm_def map_update list_update_same_conv list_update_beyond not_less)

lemma touches_refl [simp]: "touches r s s"
  by (simp add: touches_def)

lemma touches_trans: "touches r a b \<Longrightarrow> touches r b c \<Longrightarrow> r < length (dm_monitors a) \<Longrightarrow> touches r a c"
  using calm_fields(2) [of a b r] by (auto simp: touches_def intro: calm_trans)

lemma touches_upd: "(\<And>m. signature (f m) = signature m) \<Longrightarrow> touches r s (updMonitor r' f s)"
  by (simp add: touches_def calm_upd)

lemma touches_sendEvent [simp]: "touches r s (sendEvent r e s)"
  by (simp add: touches_def quiet_calm sendEvent_crash)

lemma touches_selectSend [simp]: "touches r s (snd (selectSend p d r e s))"
  unfolding touches_def using quiet_calm [OF quiet_snd_selectSend] selectSend_crash by blast

lemma signature_simps [simp]:
  "signature (m\<lparr>mon_failures := f\<rparr>) = signature m" "signature (m\<lparr>mon_restartPolicy := p\<rparr>) = signature m"
  "signature (m\<lparr>mon_eventChan := c\<rparr>) = signature m" "signature (m\<lparr>mon_restartCount := n, mon_lastRestart := t\<rparr>) = signature m"
  by (simp_all add: signature_def)

lemma calm_restart: "calm s (snd (restartContainer dk b now cid t s)) \<and> (dm_crashed (snd (restartContainer dk b now cid t s)) = dm_crashed s)"
proof -
  have "calm (s\<lparr>dm_daemon := k\<rparr>) (updMonitor r (\<lambda>m. m\<lparr>mon_restartCount := mon_restartCount m + 1, mon_lastRestart := now\<rparr>) (s\<lparr>dm_daemon := k\<rparr>))" for r k
    by (rule calm_upd) simp
  moreover have "calm s (s\<lparr>dm_daemon := k\<rparr>)" for k by (simp add: calm_def)
  ultimately show ?thesis
    by (auto simp: restartContainer_def Let_def split: prod.splits option.splits intro: calm_trans)
qed

lemma touches_parts:
  "touches r s (triggerNotify r reason s)" "touches r s (snd (attemptDenied r reason s))"
  "touches r s (snd (attemptNotify ax r reason s))" "touches r s (snd (attemptRun dk ax now r s))"
  "touches r s (snd (attemptReport ax r outcome s))" "touches r s (snd (dockerEventCheck r ev s))"
proof -
  show "touches r s (triggerNotify r reason s)" by (simp add: triggerNotify_def)
  show "touches r s (snd (attemptDenied r reason s))" by (simp add: attemptDenied_def Let_def)
  show "touches r s (snd (attemptNotify ax r reason s))" by (simp add: attemptNotify_def Let_def)
  show "touches r s (snd (attemptRun dk ax now r s))" 
    unfolding attemptRun_def touches_def using calm_restart by blast
  show "touches r s (snd (dockerEventCheck r ev s))"
    by (cases "de_Action ev") (simp_all add: dockerEventCheck_def Let_def split: prod.splits)
  show "touches r s (snd (attemptReport ax r outcome s))" using attemptReport_send [of ax r outcome s] by auto
qed

lemma touches_livenessCheck:
  assumes "r < length (dm_monitors s)"
  shows "touches r s (snd (livenessCheck dk ax r s))"
proof -
  have zero: "touches r s (updMonitor r (\<lambda>m. m\<lparr>mon_failures := f\<rparr>) t)" if "touches r s t" for t f
    using touches_trans [OF that touches_upd assms] by simp
  show ?thesis
    unfolding livenessCheck_def Let_def
    by (auto split: sum.splits bool.splits intro!: zero)
qed


lemma monitors_okD:
  assumes "monitors_ok s"
  shows "gm_get (dm_livenessMonitors s) cid = Some r \<Longrightarrow>
      r < length (dm_monitors s) \<and> mon_containerID (dm_monitors s ! r) = cid \<and> \<not> mon_cancelled (dm_monitors s ! r) \<and>
      \<not> mon_closed (dm_monitors s ! r) \<and> r \<notin> set (dm_closing s)"
    and "r < length (dm_monitors s) \<Longrightarrow> \<not> mon_cancelled (dm_monitors s ! r) \<Longrightarrow>
      gm_get (dm_livenessMonitors s) (mon_containerID (dm_monitors s ! r)) = Some r"
    and "r < length (dm_monitors s) \<Longrightarrow> mon_closed (dm_monitors s ! r) \<Longrightarrow> mon_cancelled (dm_monitors s ! r)"
    and "r \<in> set (dm_closing s) \<Longrightarrow> r < length (dm_monitors s) \<and> mon_cancelled (dm_monitors s ! r) \<and> \<not> mon_closed (dm_monitors s ! r)"
  using assms unfolding monitors_ok_def by blast+

text \<open>Taking a monitor out of the map: it is cancelled, and its channel is closed now or later.\<close>

lemma monitors_ok_retire:
  assumes ok: "monitors_ok s" and r: "gm_get (dm_livenessMonitors s) cid = Some r"
  shows "monitors_ok (stopLivenessMonitoring cid s)"
    and "monitors_ok ((closeEventChan r (cancelMonitor r s))\<lparr>dm_livenessMonitors := gm_del (dm_livenessMonitors s) cid\<rparr>)"
    and "dm_crashed (closeEventChan r (cancelMonitor r s)) = dm_crashed s"
proof -
  note in_map = monitors_okD(1) [OF ok r]
  have other: "r' \<noteq> r" if "gm_get (dm_livenessMonitors s) cid' = Some r'" "cid' \<noteq> cid" for cid' r'
    using monitors_okD(1) [OF ok that(1)] in_map that(2) by auto
  have only: "mon_cancelled (dm_monitors s ! r')" if "r' < length (dm_monitors s)" "mon_containerID (dm_monitors s ! r') = cid" "r' \<noteq> r" for r'
    using monitors_okD(2) [OF ok that(1)] that(2,3) r by auto
  have wf: "gm_wf (dm_livenessMonitors s)" "distinct (dm_closing s)" using ok by (simp_all add: monitors_ok_def)
  show "monitors_ok (stopLivenessMonitoring cid s)"
    using r in_map other only wf monitors_okD [OF ok]
    by (auto simp: stopLivenessMonitoring_def cancelMonitor_def monitors_ok_def nth_list_update)
  show "monitors_ok ((closeEventChan r (cancelMonitor r s))\<lparr>dm_livenessMonitors := gm_del (dm_livenessMonitors s) cid\<rparr>)"
    using r in_map other only wf monitors_okD [OF ok]
    by (auto simp: closeEventChan_def cancelMonitor_def monitors_ok_def nth_list_update)
  show "dm_crashed (closeEventChan r (cancelMonitor r s)) = dm_crashed s"
    using in_map by (simp add: closeEventChan_def cancelMonitor_def)
qed

lemma monitors_ok_add:
  assumes "monitors_ok s" "gm_get (dm_livenessMonitors s) cid = None" "mon_containerID m = cid" "\<not> mon_cancelled m" "\<not> mon_closed m"
  shows "monitors_ok (s\<lparr>dm_monitors := dm_monitors s @ [m], dm_livenessMonitors := gm_put (dm_livenessMonitors s) cid (length (dm_monitors s))\<rparr>)"
  unfolding monitors_ok_def
proof (intro conjI allI ballI impI)
  let ?s = "s\<lparr>dm_monitors := dm_monitors s @ [m], dm_livenessMonitors := gm_put (dm_livenessMonitors s) cid (length (dm_monitors s))\<rparr>"
  note ok = monitors_okD [OF assms(1)]
  have wf: "gm_wf (dm_livenessMonitors s)" "distinct (dm_closing s)" using assms(1) by (simp_all add: monitors_ok_def)
  then show "gm_wf (dm_livenessMonitors ?s)" "distinct (dm_closing ?s)" by simp_all
  show "r < length (dm_monitors ?s)" "mon_containerID (dm_monitors ?s ! r) = c" "\<not> mon_cancelled (dm_monitors ?s ! r)"
    if "gm_get (dm_livenessMonitors ?s) c = Some r" for c r
    using that assms(3,4) ok(1) [of c r] by (auto simp: nth_append split: if_splits)
  show "gm_get (dm_livenessMonitors ?s) (mon_containerID (dm_monitors ?s ! r)) = Some r"
    if "r < length (dm_monitors ?s)" "\<not> mon_cancelled (dm_monitors ?s ! r)" for r
    using that assms(2,3) ok(2) [of r] by (auto simp: nth_append less_Suc_eq split: if_splits)
  show "mon_cancelled (dm_monitors ?s ! r)" if "r < length (dm_monitors ?s)" "mon_closed (dm_monitors ?s ! r)" for r
    using that assms(5) ok(3) [of r] by (auto simp: nth_append less_Suc_eq split: if_splits)
  show "r < length (dm_monitors ?s)" "mon_cancelled (dm_monitors ?s ! r)" "\<not> mon_closed (dm_monitors ?s ! r)"
    if "r \<in> set (dm_closing ?s)" for r
    using that ok(4) [of r] by (auto simp: nth_append)
qed

lemma monitors_ok_map:
  "monitors_ok s \<Longrightarrow> gm_get ms = gm_get (dm_livenessMonitors s) \<Longrightarrow> gm_wf ms \<Longrightarrow> monitors_ok (s\<lparr>dm_livenessMonitors := ms\<rparr>)"
  by (simp add: monitors_ok_def)

lemma monitors_ok_start:
  assumes ok: "monitors_ok s"
  shows "monitors_ok (snd (startLivenessMonitoring cid cfg s)) \<and> dm_crashed (snd (startLivenessMonitoring cid cfg s)) = dm_crashed s"
proof -
  define s1 where "s1 = (case gm_get (dm_livenessMonitors s) cid of None \<Rightarrow> s | Some r \<Rightarrow> closeEventChan r (cancelMonitor r s))"
  have same: "dm_livenessMonitors s1 = dm_livenessMonitors s"
    by (simp add: s1_def closeEventChan_def cancelMonitor_def split: option.splits)
  have ok1: "monitors_ok (s1\<lparr>dm_livenessMonitors := gm_del (dm_livenessMonitors s) cid\<rparr>)" and crash: "dm_crashed s1 = dm_crashed s"
  proof -
    have "monitors_ok (s\<lparr>dm_livenessMonitors := gm_del (dm_livenessMonitors s) cid\<rparr>)" if "gm_get (dm_livenessMonitors s) cid = None"
      by (rule monitors_ok_map [OF ok]) (use that ok in \<open>auto simp: fun_eq_iff monitors_ok_def\<close>)
    then show "monitors_ok (s1\<lparr>dm_livenessMonitors := gm_del (dm_livenessMonitors s) cid\<rparr>)" "dm_crashed s1 = dm_crashed s"
      using monitors_ok_retire(2,3) [OF ok] by (cases "gm_get (dm_livenessMonitors s) cid"; simp add: s1_def)+
  qed
  have wf: "gm_wf (dm_livenessMonitors s)" using ok by (simp add: monitors_ok_def)
  define m where "m = \<lparr>mon_containerID = cid, mon_config = mergedLivenessConfig cfg (the (cmc_LivenessConfig (dm_config s))),
     mon_restartCount = 0, mon_lastRestart = 0, mon_eventChan = [], mon_closed = False, mon_cancelled = False,
     mon_restartPolicy = lc_RestartPolicy (mergedLivenessConfig cfg (the (cmc_LivenessConfig (dm_config s)))), mon_failures = 0\<rparr>"
  have start: "snd (startLivenessMonitoring cid cfg s) = s1\<lparr>dm_monitors := dm_monitors s1 @ [m],
      dm_livenessMonitors := gm_put (dm_livenessMonitors s1) cid (length (dm_monitors s1))\<rparr>"
    by (simp add: startLivenessMonitoring_def Let_def s1_def m_def)
  from monitors_ok_add [OF ok1, of cid m]
  have "monitors_ok (s1\<lparr>dm_monitors := dm_monitors s1 @ [m],
      dm_livenessMonitors := gm_put (gm_del (dm_livenessMonitors s) cid) cid (length (dm_monitors s1))\<rparr>)"
    by (simp add: m_def)
  moreover have "gm_get (gm_put (dm_livenessMonitors s) cid n) = gm_get (gm_put (gm_del (dm_livenessMonitors s) cid) cid n)" for n
    by (simp add: fun_eq_iff)
  ultimately show ?thesis
    using monitors_ok_map [of "s1\<lparr>dm_monitors := dm_monitors s1 @ [m],
      dm_livenessMonitors := gm_put (gm_del (dm_livenessMonitors s) cid) cid (length (dm_monitors s1))\<rparr>"
      "gm_put (dm_livenessMonitors s) cid (length (dm_monitors s1))"] start same wf crash by simp
qed

lemma monitors_ok_stop:
  assumes "monitors_ok s"
  shows "monitors_ok (stopLivenessMonitoring cid s) \<and> dm_crashed (stopLivenessMonitoring cid s) = dm_crashed s"
proof (cases "gm_get (dm_livenessMonitors s) cid")
  case (Some r)
  with monitors_ok_retire(1) [OF assms Some] show ?thesis by (simp add: stopLivenessMonitoring_def cancelMonitor_def)
qed (simp add: stopLivenessMonitoring_def assms)

lemma monitors_ok_closing:
  assumes "monitors_ok s" "r \<in> set (dm_closing s)"
  shows "monitors_ok (closeStopped r s) \<and> dm_crashed (closeStopped r s) = dm_crashed s"
proof -
  have "distinct (dm_closing s)" using assms(1) by (simp add: monitors_ok_def)
  then show ?thesis
    using monitors_okD [OF assms(1)] monitors_okD(4) [OF assms] assms(1)
    by (auto simp: closeStopped_def closeEventChan_def monitors_ok_def nth_list_update)
qed

text \<open>Shutting down retires every monitor of the map, in any order.\<close>

lemma cancelMonitor_fields:
  "dm_monitors (cancelMonitor r s) = (dm_monitors s)[r := (dm_monitors s ! r)\<lparr>mon_cancelled := True\<rparr>]"
  "dm_closing (cancelMonitor r s) = dm_closing s" "dm_crashed (cancelMonitor r s) = dm_crashed s"
  "dm_livenessMonitors (cancelMonitor r s) = dm_livenessMonitors s"
  by (simp_all add: cancelMonitor_def)

lemma nth_updated: "j < length xs \<Longrightarrow> xs[i := x] ! j = (if i = j then x else xs ! j)"
  by (cases "i = j") simp_all

lemma cancel_all:
  "dm_monitors (fold (\<lambda>(_, r). cancelMonitor r) ms s) =
     map (\<lambda>i. if i \<in> snd ` set ms then (dm_monitors s ! i)\<lparr>mon_cancelled := True\<rparr> else dm_monitors s ! i) [0..<length (dm_monitors s)] \<and>
   dm_closing (fold (\<lambda>(_, r). cancelMonitor r) ms s) = dm_closing s \<and> dm_crashed (fold (\<lambda>(_, r). cancelMonitor r) ms s) = dm_crashed s \<and>
   dm_livenessMonitors (fold (\<lambda>(_, r). cancelMonitor r) ms s) = dm_livenessMonitors s"
proof (induction ms arbitrary: s)
  case Nil
  then show ?case by (simp add: map_nth)
next
  case (Cons a ms)
  obtain c r where a: "a = (c, r)" by fastforce
  show ?case
    using Cons [of "cancelMonitor r s"] a
    by (auto simp: cancelMonitor_fields nth_updated intro!: nth_equalityI)
qed

lemma monitors_ok_shutdown:
  assumes ok: "monitors_ok s"
  shows "monitors_ok (snd (dcm_Shutdown dk s)) \<and> dm_crashed (snd (dcm_Shutdown dk s)) = dm_crashed s \<and>
    length (dm_monitors (snd (dcm_Shutdown dk s))) = length (dm_monitors s)"
proof -
  let ?ms = "dm_livenessMonitors s"
  define s1 where "s1 = (fold (\<lambda>(_, h). updHealthCheck h (\<lambda>c. c\<lparr>hk_cancelled := True\<rparr>)) (dm_healthChecks s) s)\<lparr>dm_healthChecks := []\<rparr>"
  have hc: "dm_monitors (fold (\<lambda>(_, h). updHealthCheck h (\<lambda>c. c\<lparr>hk_cancelled := True\<rparr>)) hs t) = dm_monitors t \<and>
      dm_livenessMonitors (fold (\<lambda>(_, h). updHealthCheck h (\<lambda>c. c\<lparr>hk_cancelled := True\<rparr>)) hs t) = dm_livenessMonitors t \<and>
      dm_closing (fold (\<lambda>(_, h). updHealthCheck h (\<lambda>c. c\<lparr>hk_cancelled := True\<rparr>)) hs t) = dm_closing t \<and>
      dm_crashed (fold (\<lambda>(_, h). updHealthCheck h (\<lambda>c. c\<lparr>hk_cancelled := True\<rparr>)) hs t) = dm_crashed t" for hs and t :: "'a docker_manager"
    by (induction hs arbitrary: t) (simp_all split: prod.split)
  have s1: "dm_monitors s1 = dm_monitors s" "dm_livenessMonitors s1 = ?ms" "dm_closing s1 = dm_closing s" "dm_crashed s1 = dm_crashed s"
    using hc [of "dm_healthChecks s" s] by (simp_all add: s1_def)
  define s2 where "s2 = (fold (\<lambda>(_, r). cancelMonitor r) (dm_livenessMonitors s1) s1)
     \<lparr>dm_closing := dm_closing s1 @ map snd (dm_livenessMonitors s1), dm_livenessMonitors := []\<rparr>"
  have m2: "dm_monitors s2 = map (\<lambda>i. if i \<in> snd ` set ?ms then (dm_monitors s ! i)\<lparr>mon_cancelled := True\<rparr> else dm_monitors s ! i) [0..<length (dm_monitors s)]"
    using cancel_all [of ?ms s1] s1 by (simp add: s2_def)
  have c2: "dm_closing s2 = dm_closing s @ map snd ?ms" "dm_livenessMonitors s2 = []" "dm_crashed s2 = dm_crashed s"
    using cancel_all [of ?ms s1] s1 by (simp_all add: s2_def)
  have wf: "gm_wf ?ms" "distinct (dm_closing s)" using ok by (simp_all add: monitors_ok_def)
  have mem: "r < length (dm_monitors s) \<and> \<not> mon_closed (dm_monitors s ! r) \<and> r \<notin> set (dm_closing s)" if "r \<in> snd ` set ?ms" for r
    using that gm_values_iff [OF wf(1)] monitors_okD(1) [OF ok] by blast
  have id: "mon_containerID (dm_monitors s ! snd z) = fst z" if "z \<in> set ?ms" for z
    using monitors_okD(1) [OF ok, of "fst z" "snd z"] gm_mem_iff [OF wf(1), of "fst z" "snd z"] that by simp
  have inj: "inj_on snd (set ?ms)" by (rule inj_onI) (metis id prod_eqI)
  have dist: "distinct (map snd ?ms)"
    using inj wf(1) by (simp add: distinct_map gm_wf_def)
  have live: "r \<in> snd ` set ?ms" if "r < length (dm_monitors s)" "\<not> mon_cancelled (dm_monitors s ! r)" for r
    using monitors_okD(2) [OF ok that] gm_values_iff [OF wf(1)] by blast
  have "monitors_ok s2"
    unfolding monitors_ok_def
  proof (intro conjI allI ballI impI)
    have len: "length (dm_monitors s2) = length (dm_monitors s)" by (simp add: m2)
    have nth: "dm_monitors s2 ! r = (if r \<in> snd ` set ?ms then (dm_monitors s ! r)\<lparr>mon_cancelled := True\<rparr> else dm_monitors s ! r)"
      if "r < length (dm_monitors s)" for r using that by (simp add: m2)
    show "gm_wf (dm_livenessMonitors s2)" by (simp add: c2)
    show "distinct (dm_closing s2)" using wf(2) dist mem by (auto simp: c2(1))
    show "r < length (dm_monitors s2)" "mon_containerID (dm_monitors s2 ! r) = cid" "\<not> mon_cancelled (dm_monitors s2 ! r)"
      if "gm_get (dm_livenessMonitors s2) cid = Some r" for cid r using that by (simp_all add: c2)
    show "gm_get (dm_livenessMonitors s2) (mon_containerID (dm_monitors s2 ! r)) = Some r"
      if "r < length (dm_monitors s2)" "\<not> mon_cancelled (dm_monitors s2 ! r)" for r
      using that live [of r] by (simp add: len nth split: if_splits)
    show "mon_cancelled (dm_monitors s2 ! r)" if "r < length (dm_monitors s2)" "mon_closed (dm_monitors s2 ! r)" for r
      using that monitors_okD(3) [OF ok, of r] by (simp add: len nth split: if_splits)
    have closing: "r < length (dm_monitors s) \<and> mon_cancelled (dm_monitors s2 ! r) \<and> \<not> mon_closed (dm_monitors s2 ! r)"
      if "r \<in> set (dm_closing s2)" for r
    proof (cases "r \<in> snd ` set ?ms")
      case True
      then show ?thesis using mem [OF True] by (simp add: nth)
    next
      case False
      with that have "r \<in> set (dm_closing s)" by (auto simp: c2(1))
      from monitors_okD(4) [OF ok this] False show ?thesis by (simp add: nth)
    qed
    then show "r < length (dm_monitors s2)" "mon_cancelled (dm_monitors s2 ! r)" "\<not> mon_closed (dm_monitors s2 ! r)"
      if "r \<in> set (dm_closing s2)" for r using that len by simp_all
  qed
  moreover have "\<exists>k. snd (dcm_Shutdown dk s) = s2\<lparr>dm_daemon := k\<rparr>"
    by (auto simp: dcm_Shutdown_def Let_def s1_def s2_def split: prod.splits option.splits)
  moreover have "length (dm_monitors s2) = length (dm_monitors s)" by (simp add: m2)
  ultimately show ?thesis using c2(3) by (auto simp: monitors_ok_def)
qed


section \<open>Every step keeps the invariant\<close>

definition sys_ok :: "'k docker_manager \<times> attempt list \<Rightarrow> bool" where
  "sys_ok x \<longleftrightarrow> monitors_ok (fst x) \<and> (\<forall>a\<in>set (snd x). fst a < length (dm_monitors (fst x)))"

lemma length_start: "length (dm_monitors s) \<le> length (dm_monitors (snd (startLivenessMonitoring cid cfg s)))"
  by (simp add: startLivenessMonitoring_def Let_def closeEventChan_def cancelMonitor_def split: option.splits)

text \<open>What the steps of the manager itself do: they keep the invariant, and do not crash.\<close>

lemma manager_step:
  assumes "docker_step dk None (s, P) (s', P')" "monitors_ok s"
  shows "monitors_ok s' \<and> \<not> dm_crashed s' \<and> length (dm_monitors s) \<le> length (dm_monitors s') \<and>
    (\<forall>a\<in>set P'. a \<in> set P \<or> fst a < length (dm_monitors s))"
  using assms(1)
proof cases
  case (start cid cfg)
  then show ?thesis using monitors_ok_start [OF assms(2), of cid cfg] length_start [of s cid cfg] by simp
next
  case (adopt b cid cfg)
  have "snd (adoptContainer dk b cid cfg s) = s \<or> (\<exists>c. snd (adoptContainer dk b cid cfg s) = snd (startLivenessMonitoring cid (Some c) s))"
    by (auto simp: adoptContainer_def split: sum.splits option.splits)
  then show ?thesis using adopt assms(2) monitors_ok_start [OF assms(2), of cid] length_start [of s cid] by auto
next
  case (stop cid)
  then show ?thesis using monitors_ok_stop [OF assms(2), of cid] by (simp add: stopLivenessMonitoring_def cancelMonitor_def split: option.splits)
next
  case (closing r)
  then show ?thesis using monitors_ok_closing [OF assms(2), of r] by (simp add: closeStopped_def closeEventChan_def)
next
  case shutdown
  then show ?thesis using monitors_ok_shutdown [OF assms(2), of dk] by simp
next
  case (policy cid pol)
  have "calm s (snd (setRestartPolicy cid pol s)) \<and> dm_crashed (snd (setRestartPolicy cid pol s)) = dm_crashed s"
    using calm_upd [of "\<lambda>m. m\<lparr>mon_restartPolicy := pol\<rparr>" s] by (auto simp: setRestartPolicy_def split: option.splits)
  then show ?thesis using policy monitors_ok_calm [OF assms(2)] calm_length by fastforce
next
  case (restart b now cid t)
  then show ?thesis using calm_restart [of s dk b now cid t] monitors_ok_calm [OF assms(2)] calm_length by fastforce
next
  case (receive r)
  have "calm s (updMonitor r (\<lambda>m. m\<lparr>mon_eventChan := tl (mon_eventChan m)\<rparr>) s)" by (rule calm_upd) simp
  then show ?thesis using receive monitors_ok_calm [OF assms(2)] by simp
next
  case (daemon k)
  then show ?thesis using monitors_ok_calm [OF assms(2), of s'] by (simp add: calm_def)
next
  case (health hs hh)
  then show ?thesis using monitors_ok_calm [OF assms(2), of s'] by (simp add: calm_def)
next
  case (trigger cid r reason)
  then have "gm_get (dm_livenessMonitors s) cid = Some r" by (auto simp: triggerLookup_def split: option.splits if_splits)
  then show ?thesis using trigger assms(2) monitors_okD(1) [OF assms(2)] by auto
qed

text \<open>What the steps of goroutines and attempts do: they leave every monitor's lifecycle alone.\<close>

lemma goroutine_step:
  assumes "docker_step dk (Some r) (s, P) (s', P')" "\<forall>a\<in>set P. fst a < length (dm_monitors s)"
  shows "touches r s s' \<and> \<not> dm_crashed s \<and> r < length (dm_monitors s) \<and> (\<forall>a\<in>set P'. a \<in> set P \<or> fst a = r)"
  using assms(1)
proof cases
  case (notify reason b)
  then show ?thesis using assms(2) touches_parts(1) notin_set_remove1 by fastforce
next
  case (tick ax res)
  then show ?thesis using touches_livenessCheck [of r s dk ax] by (auto split: option.splits)
next
  case (event ev res)
  then show ?thesis using touches_parts(6) [of r s ev] by (auto split: option.splits)
next
  case (resource ax msg ret)
  then show ?thesis using touches_selectSend by (metis (no_types, lifting) fst_conv set_ConsD snd_conv)
next
  case (refused reason b)
  then show ?thesis using assms(2) touches_parts(2) notin_set_remove1 by fastforce
next
  case (allowed reason b)
  then show ?thesis using assms(2) notin_set_remove1 by fastforce
next
  case (cancelled reason b)
  then show ?thesis using assms(2) notin_set_remove1 by fastforce
next
  case (delayed reason b ax ret)
  then show ?thesis using assms(2) touches_parts(3) [of r s ax reason] notin_set_remove1 by (fastforce split: if_splits)
next
  case (run reason b ax now outcome)
  then show ?thesis using assms(2) touches_parts(4) [of r s dk ax now] notin_set_remove1 by fastforce
next
  case (report reason b outcome ax e)
  then show ?thesis using assms(2) touches_parts(5) [of r s ax outcome] notin_set_remove1 by fastforce
qed

lemma sys_ok_step:
  assumes "docker_step dk l x y" "sys_ok x"
  shows "sys_ok y"
proof -
  obtain s P s' P' where xy: "x = (s, P)" "y = (s', P')" by fastforce
  have ok: "monitors_ok s" "\<forall>a\<in>set P. fst a < length (dm_monitors s)" using assms(2) xy by (simp_all add: sys_ok_def)
  show ?thesis
  proof (cases l)
    case None
    with manager_step [OF _ ok(1), of dk P s' P'] assms(1) xy ok(2) show ?thesis
      unfolding sys_ok_def by (metis fst_conv order_less_le_trans snd_conv)
  next
    case (Some r)
    with goroutine_step [OF _ ok(2), of dk r s' P'] assms(1) xy
    have "calm s s'" "r < length (dm_monitors s)" "\<forall>a\<in>set P'. a \<in> set P \<or> fst a = r" by (auto simp: touches_def)
    with ok xy monitors_ok_calm [OF ok(1)] calm_length [of s s'] show ?thesis by (auto simp: sys_ok_def)
  qed
qed

lemma sys_ok_reachable:
  assumes "newDockerContainerManager None (Some cfg) k = Inr s0" "(\<lambda>x y. \<exists>l. docker_step dk l x y)\<^sup>*\<^sup>* (s0, []) x"
  shows "sys_ok x"
  using assms(2)
proof (induction rule: rtranclp_induct)
  case base
  then show ?case using assms(1) by (auto simp: sys_ok_def monitors_ok_def newDockerContainerManager_def Let_def)
qed (use sys_ok_step in blast)


text \<open>
  C39. A restart that the performer triggered crashes the process when its container's monitoring is stopped
  while it waits out its delay. The attempt runs under a context of its own, so stopping the monitor does
  not end it; the channel is closed ten milliseconds later, and the attempt then sends to it. Whatever the
  state, these steps are possible, and unless the attempt's own 30 seconds are over its next step crashes.
\<close>

theorem stop_during_triggered_restart_crashes:
  assumes "newDockerContainerManager None (Some cfg) k = Inr s0"
    and "(\<lambda>x y. \<exists>l. docker_step dk l x y)\<^sup>*\<^sup>* (s0, []) (s, P)" "\<not> dm_crashed s"
    and "(r, reason, True, AtDelay) \<in> set P" "gm_get (dm_livenessMonitors s) cid = Some r"
  shows "let s1 = stopLivenessMonitoring cid s; s2 = closeStopped r s1
    in docker_step dk None (s, P) (s1, P) \<and> docker_step dk None (s1, P) (s2, P) \<and>
      (\<forall>ax. \<not> ax_done ax 1 \<longrightarrow> (\<exists>s3 P'. docker_step dk (Some r) (s2, P) (s3, P') \<and> attemptNotify ax r reason s2 = (False, s3) \<and> dm_crashed s3))"
proof -
  define s1 where "s1 = stopLivenessMonitoring cid s"
  define s2 where "s2 = closeStopped r s1"
  have ok: "monitors_ok s" using sys_ok_reachable [OF assms(1,2)] by (simp add: sys_ok_def)
  have m: "r < length (dm_monitors s)" "\<not> mon_closed (dm_monitors s ! r)" using monitors_okD(1) [OF ok assms(5)] by blast+
  have s1: "s1 = (cancelMonitor r s)\<lparr>dm_livenessMonitors := gm_del (dm_livenessMonitors s) cid, dm_closing := dm_closing s @ [r]\<rparr>"
    using assms(5) by (simp add: s1_def stopLivenessMonitoring_def)
  have steps: "docker_step dk None (s, P) (s1, P)" "docker_step dk None (s1, P) (s2, P)"
  proof -
    show "docker_step dk None (s, P) (s1, P)" unfolding s1_def by (rule docker_step.stop [OF assms(3)])
    have "\<not> dm_crashed s1" "r \<in> set (dm_closing s1)" using assms(3) s1 by (simp_all add: cancelMonitor_def)
    then show "docker_step dk None (s1, P) (s2, P)" unfolding s2_def by (rule docker_step.closing)
  qed
  have closed: "mon_closed (dm_monitors s2 ! r)" "\<not> dm_crashed s2"
    using m assms(3) by (simp_all add: s2_def s1 closeStopped_def closeEventChan_def cancelMonitor_def)
  have "\<exists>s3 P'. docker_step dk (Some r) (s2, P) (s3, P') \<and> attemptNotify ax r reason s2 = (False, s3) \<and> dm_crashed s3" if "\<not> ax_done ax 1" for ax
  proof -
    let ?s3 = "sendEvent r (restartingEvent (dm_monitors s2 ! r) reason) s2"
    have n: "attemptNotify ax r reason s2 = (False, ?s3)" using that by (simp add: attemptNotify_def selectSend_def Let_def)
    have "docker_step dk (Some r) (s2, P) (?s3, (if False then [] else [(r, reason, True, AtRestart)]) @ remove1 (r, reason, True, AtDelay) P)"
      by (rule docker_step.delayed [OF closed(2) assms(4) _ n]) (simp add: ctx_of_def)
    with n closed(1) show ?thesis by (auto simp: sendEvent_crash)
  qed
  with steps show ?thesis by (simp add: Let_def s1_def [symmetric] s2_def [symmetric])
qed

end
