(* ===== verification/Docker_Performer.thy ===== *)
theory Docker_Performer
  imports Docker_Concurrency
begin

text \<open>
  The container performer on the Docker manager: what a performer that was restored from the executor's
  store is left with. Instances of the results about the Docker manager follow, on a small daemon.
\<close>

section \<open>Monitors whose policy is disabled\<close>

definition disabled :: "'k docker_manager \<Rightarrow> nat \<Rightarrow> string \<Rightarrow> bool" where
  "disabled s r cid \<longleftrightarrow> r < length (dm_monitors s) \<and> gm_get (dm_livenessMonitors s) cid = Some r \<and>
     \<not> rp_Enabled (mon_restartPolicy (dm_monitors s ! r))"

lemma disabled_quiet: "disabled s r cid \<Longrightarrow> quiet s s' \<Longrightarrow> disabled s' r cid \<and> dm_daemon s' = dm_daemon s"
  using quiet_fields [of s s'] quiet_monitor(6) [of s s' r] by (simp add: disabled_def)

text \<open>What can happen to the monitored container: a liveness or resource check, a Docker event, a restart the performer asks for.\<close>

datatype monitor_action =
    LivenessCheck attempt_ctx time
  | ResourceCheck attempt_ctx time
  | DockerEvent attempt_ctx time docker_event
  | Triggered attempt_ctx time string

fun monitorAction :: "'k docker_client \<Rightarrow> nat \<Rightarrow> string \<Rightarrow> monitor_action \<Rightarrow> 'k docker_manager \<Rightarrow> 'k docker_manager" where
  "monitorAction dk r cid (LivenessCheck ax now) s = livenessTick dk ax now r s"
| "monitorAction dk r cid (ResourceCheck ax now) s = resourceTick dk ax now r s"
| "monitorAction dk r cid (DockerEvent ax now ev) s = handleDockerEvent dk ax now r ev s"
| "monitorAction dk r cid (Triggered ax now reason) s = snd (triggerRestart dk ax now cid reason s)"

lemma livenessTick_disabled:
  assumes d: "disabled s r cid"
  shows "disabled (livenessTick dk ax now r s) r cid \<and> dm_daemon (livenessTick dk ax now r s) = dm_daemon s"
proof -
  define Q where "Q t \<longleftrightarrow> disabled t r cid \<and> dm_daemon t = dm_daemon s" for t
  have upd: "Q (updMonitor r (\<lambda>m. m\<lparr>mon_failures := f\<rparr>) t)" if "quiet s t" for f t
    using disabled_quiet [OF d that] by (simp add: disabled_def Q_def)
  have off: "\<not> rp_Enabled (mon_restartPolicy (dm_monitors s ! r))" using d by (simp add: disabled_def)
  then have "fst (livenessCheck dk ax r s) = None" by (simp add: livenessCheck_def Let_def split: sum.splits bool.splits)
  moreover have "Q (snd (livenessCheck dk ax r s))"
    unfolding livenessCheck_def Let_def by (auto split: sum.splits bool.splits intro!: upd)
  moreover obtain res s1 where "livenessCheck dk ax r s = (res, s1)" by fastforce
  ultimately show ?thesis by (simp add: livenessTick_def Q_def)
qed

lemma handleDockerEvent_disabled:
  assumes d: "disabled s r cid"
  shows "disabled (handleDockerEvent dk ax now r ev s) r cid \<and> dm_daemon (handleDockerEvent dk ax now r ev s) = dm_daemon s"
proof -
  have off: "\<not> rp_Enabled (mon_restartPolicy (dm_monitors s ! r))" using d by (simp add: disabled_def)
  have "fst (dockerEventCheck r ev s) = None \<and> quiet s (snd (dockerEventCheck r ev s))"
    using off by (cases "de_Action ev") (simp_all add: dockerEventCheck_def Let_def split: prod.splits)
  moreover obtain res s1 where "dockerEventCheck r ev s = (res, s1)" by fastforce
  ultimately show ?thesis using disabled_quiet [OF d, of s1] by (simp add: handleDockerEvent_def)
qed

lemma resourceTick_disabled: "disabled s r cid \<Longrightarrow> resourceTick dk ax now r s = s"
  by (auto simp: resourceTick_def thresholdRestart_def disabled_def Let_def split: sum.splits)

lemma triggerRestart_disabled:
  "disabled s r cid \<Longrightarrow> triggerRestart dk ax now cid reason s = (Some (''restart policy is disabled for container '' @ cid), s)"
  by (simp add: triggerRestart_def triggerLookup_def disabled_def)

lemma monitorAction_disabled:
  assumes "disabled s r cid"
  shows "disabled (monitorAction dk r cid a s) r cid \<and> dm_daemon (monitorAction dk r cid a s) = dm_daemon s"
  using assms livenessTick_disabled [OF assms] handleDockerEvent_disabled [OF assms] resourceTick_disabled [OF assms]
    triggerRestart_disabled [OF assms] by (cases a) simp_all

lemma monitorActions_disabled:
  "disabled s r cid \<Longrightarrow> disabled (fold (monitorAction dk r cid) as s) r cid \<and> dm_daemon (fold (monitorAction dk r cid) as s) = dm_daemon s"
  using monitorAction_disabled by (induction as arbitrary: s) fastforce+

section \<open>A restored performer is never restarted\<close>

lemma start_monitor:
  obtains r where "gm_get (dm_livenessMonitors (snd (startLivenessMonitoring cid cfg s))) cid = Some r"
    "r < length (dm_monitors (snd (startLivenessMonitoring cid cfg s)))"
    "mon_restartPolicy (dm_monitors (snd (startLivenessMonitoring cid cfg s)) ! r) =
       lc_RestartPolicy (mergedLivenessConfig cfg (the (cmc_LivenessConfig (dm_config s))))"
  by (rule that [of "fst (startLivenessMonitoring cid cfg s)"]) (simp_all add: startLivenessMonitoring_def Let_def)

lemma rehydration_policy: "\<not> rp_Enabled (lc_RestartPolicy (mergedLivenessConfig (Some (rehydrationLivenessConfig cfg)) dflt))"
  by (simp add: mergedLivenessConfig_def rehydrationLivenessConfig_def buildRestartPolicy_def zeroRestartPolicy_def Let_def)

text \<open>
  A performer that the executor restores after a restart of its own is never restarted again. The
  liveness configuration of \<open>RehydrateFromState\<close> takes its restart policy from the builder, which does not
  enable it. Whatever then happens to the container, crashes, out-of-memory kills, failed health checks,
  exceeded thresholds, restarts the performer asks for, in any order and number, the daemon is never asked
  to restart it; and the performer's own requests fail.
\<close>

theorem rehydrated_performer_never_restarted:
  assumes "rehydrateFromState (dockerManager dk ax now getenv sha256 newClient) ctxDone state aps = (None, aps')"
  shows "\<exists>r. gm_get (dm_livenessMonitors (cp_docker aps')) (pst_ResourceId state) = Some r \<and>
    (\<forall>as. let s = fold (monitorAction dk r (pst_ResourceId state)) as (cp_docker aps')
      in dm_daemon s = dm_daemon (cp_docker aps') \<and>
        (\<forall>ax now reason. triggerRestart dk ax now (pst_ResourceId state) reason s =
           (Some (''restart policy is disabled for container '' @ pst_ResourceId state), s)))"
proof -
  let ?cid = "pst_ResourceId state" and ?cfg = "Some (rehydrationLivenessConfig (cp_config aps))"
  obtain d1 where d: "cp_docker aps' = snd (startLivenessMonitoring ?cid ?cfg d1)"
    using assms by (auto simp: rehydrateFromState_def dockerManager_def Let_def split: prod.splits option.splits sum.splits)
  obtain r where r: "gm_get (dm_livenessMonitors (cp_docker aps')) ?cid = Some r" "r < length (dm_monitors (cp_docker aps'))"
    "mon_restartPolicy (dm_monitors (cp_docker aps') ! r) = lc_RestartPolicy (mergedLivenessConfig ?cfg (the (cmc_LivenessConfig (dm_config d1))))"
    unfolding d by (rule start_monitor [of ?cid ?cfg d1])
  then have "disabled (cp_docker aps') r ?cid" using rehydration_policy by (simp add: disabled_def)
  note stays = monitorActions_disabled [OF this]
  show ?thesis
    unfolding Let_def using r(1) stays [THEN conjunct2] triggerRestart_disabled [OF stays [THEN conjunct1]]
    by (intro exI [of _ r] conjI allI)
qed

end
