(* ===== verification/Docker_Witnesses.thy ===== *)
theory Docker_Witnesses
  imports Docker_Performer
begin

text \<open>
  Instances of the results about the Docker manager, on a daemon whose state lists its containers with
  their status and whose calls succeed.
\<close>

definition setDaemonStatus :: "string \<Rightarrow> string \<Rightarrow> (string \<times> string) list \<Rightarrow> (string \<times> string) list" where
  "setDaemonStatus i st k = map (\<lambda>(c, x). (c, if c = i then st else x)) k"

definition sample_docker :: "(string \<times> string) list docker_client" where
  "sample_docker = \<lparr>
     dk_ImageList = (\<lambda>b k. if b then Inl ''context canceled'' else Inr [[''r:t'']]),
     dk_ImagePull = (\<lambda>b k i. (Inr None, k)),
     dk_NetworkList = (\<lambda>b k. Inr [''net'']), dk_NetworkCreate = (\<lambda>b k n. (None, k)), dk_NetworkRemove = (\<lambda>b k n. (None, k)),
     dk_ContainerCreate = (\<lambda>b k req. let i = replicate (Suc (sum_list (map (\<lambda>x. length (fst x)) k))) CHR ''c'' in (Inr i, (i, ''created'') # k)),
     dk_ContainerStart = (\<lambda>b k i. (None, setDaemonStatus i ''running'' k)),
     dk_ContainerStop = (\<lambda>b k i t. (None, setDaemonStatus i ''exited'' k)),
     dk_ContainerRemove = (\<lambda>b k i f. (None, filter (\<lambda>x. fst x \<noteq> i) k)),
     dk_ContainerInspect = (\<lambda>b k i. case map_of k i of None \<Rightarrow> Inl ''No such container''
       | Some st \<Rightarrow> Inr \<lparr>dj_ID = i, dj_Hostname = ''h'', dj_Status = st, dj_Ports = [], dj_Networks = [''net''], dj_ExitCode = 0,
           dj_StartedAt = None, dj_FinishedAt = None, dj_OOMKilled = False, dj_Error = [], dj_Restarting = False\<rparr>),
     dk_ContainerRestart = (\<lambda>b k i t. (None, setDaemonStatus i ''running'' k)),
     dk_ContainerStats = (\<lambda>b k i. Inr (Inr [])), dk_Close = (\<lambda>k. (None, k)), dk_second = (\<lambda>k. k)\<rparr>"

lemma fst_setDaemonStatus [simp]: "fst ` set (setDaemonStatus i st k) = fst ` set k"
  by (force simp: setDaemonStatus_def)

lemma sample_docker_ok: "docker_ok sample_docker (\<lambda>k. fst ` set k)"
proof -
  have "replicate (Suc (sum_list (map (\<lambda>x. length (fst x)) k))) CHR ''c'' \<notin> fst ` set k" for k :: "(string \<times> string) list"
  proof
    assume "replicate (Suc (sum_list (map (\<lambda>x. length (fst x)) k))) CHR ''c'' \<in> fst ` set k"
    then have "Suc (sum_list (map (\<lambda>x. length (fst x)) k)) \<in> set (map (\<lambda>x. length (fst x)) k)"
      by (force simp: image_iff dest: arg_cong [of _ _ length])
    from member_le_sum_list [OF this] show False by simp
  qed
  then show ?thesis by (auto simp: docker_ok_def sample_docker_def Let_def split: option.splits)
qed

definition live_ctx :: attempt_ctx where
  "live_ctx = \<lparr>ax_done = (\<lambda>_. False), ax_pick = (\<lambda>_. False), ax_err = ''context canceled''\<rparr>"

abbreviation sample_cm :: "(string \<times> string) list docker_manager container_manager" where
  "sample_cm \<equiv> dockerManager sample_docker live_ctx 0 (\<lambda>_. []) (\<lambda>_. []) (\<lambda>_. None)"

lemma docker_manager_keeps_contract_witness:
  "cm_ok sample_cm (\<lambda>s. fst ` set (dm_daemon s)) \<and> removals_succeed sample_cm"
proof -
  have "\<forall>k i. fst (dk_ContainerRemove sample_docker False k i True) = None" by (simp add: sample_docker_def)
  with docker_manager_keeps_contract [OF sample_docker_ok, of live_ctx 0 "\<lambda>_. []" "\<lambda>_. []" "\<lambda>_. None"] show ?thesis by blast
qed

section \<open>A monitored container\<close>

definition sample_new :: "string \<Rightarrow> (string \<times> string) list docker_manager" where
  "sample_new status = \<lparr>dm_config = defaultContainerManagerConfig, dm_healthChecks = [], dm_hcHeap = [], dm_livenessMonitors = [],
     dm_monitors = [], dm_closing = [], dm_crashed = False, dm_daemon = [(''c'', status)]\<rparr>"

definition sample_monitor :: container_monitor where
  "sample_monitor = \<lparr>mon_containerID = ''c'', mon_config = newDefaultAvsPerformerLivenessConfig, mon_restartCount = 0, mon_lastRestart = 0,
     mon_eventChan = [], mon_closed = False, mon_cancelled = False, mon_restartPolicy = defaultRestartPolicy, mon_failures = 0\<rparr>"

definition sample_watched :: "string \<Rightarrow> (string \<times> string) list docker_manager" where
  "sample_watched status = (sample_new status)\<lparr>dm_livenessMonitors := [(''c'', 0)], dm_monitors := [sample_monitor]\<rparr>"

lemma sample_new_made: "newDockerContainerManager None (Some defaultContainerManagerConfig) [(''c'', status)] = Inr (sample_new status)"
  by (simp add: newDockerContainerManager_def sample_new_def Let_def defaultContainerManagerConfig_def zeroContainerManagerConfig_def)

lemma sample_started: "snd (startLivenessMonitoring ''c'' (Some newDefaultAvsPerformerLivenessConfig) (sample_new status)) = sample_watched status"
  by (simp add: startLivenessMonitoring_def sample_watched_def sample_new_def sample_monitor_def Let_def mergedLivenessConfig_def
      newDefaultAvsPerformerLivenessConfig_def livenessConfigWith_def defaultHealthCheckConfig_def)

lemma sample_watches [simp]: "watches (sample_watched status) 0 ''c''"
  by (simp add: watches_def sample_watched_def sample_new_def sample_monitor_def)

lemma sample_watched_fields [simp]:
  "dm_monitors (sample_watched status) = [sample_monitor]" "dm_livenessMonitors (sample_watched status) = [(''c'', 0)]"
  "dm_daemon (sample_watched status) = [(''c'', status)]" "dm_config (sample_watched status) = defaultContainerManagerConfig"
  "\<not> dm_crashed (sample_watched status)" "\<not> dm_crashed (sample_new status)"
  by (simp_all add: sample_watched_def sample_new_def)

lemma sample_monitor_fields [simp]:
  "mon_containerID sample_monitor = ''c''" "mon_restartCount sample_monitor = 0" "mon_eventChan sample_monitor = []"
  "mon_restartPolicy sample_monitor = defaultRestartPolicy" "mon_failures sample_monitor = 0"
  "\<not> restartLimitReached sample_monitor"
  "hcc_FailureThreshold (lc_HealthCheckConfig (mon_config sample_monitor)) = 3"
  by (simp_all add: sample_monitor_def restartLimitReached_def defaultRestartPolicy_def newDefaultAvsPerformerLivenessConfig_def
      livenessConfigWith_def defaultHealthCheckConfig_def)

lemma live_ctx_open [simp]: "\<not> ax_done live_ctx p" "ax_pick live_ctx p = False"
  by (simp_all add: live_ctx_def)

lemma restart_manager_equivalent_witness:
  "unworded (snd (rm_AttemptRestart (\<lambda>done. restartContainer sample_docker done 7) live_ctx 0 ''test'' (sample_watched ''exited''))) =
   unworded (snd (attemptRestart sample_docker live_ctx 7 0 ''test'' (sample_watched ''exited'')))"
  using restart_manager_equivalent [of "sample_watched ''exited''" 0 live_ctx sample_docker 7 "''test''"]
  by (simp add: defaultRestartPolicy_def defaultContainerManagerConfig_def)

lemma stopped_container_restarted_witness:
  "dm_daemon ((livenessTick sample_docker live_ctx 7 0 ^^ 2) (sample_watched ''exited'')) = [(''c'', ''exited'')] \<and>
   dm_daemon ((livenessTick sample_docker live_ctx 7 0 ^^ 3) (sample_watched ''exited'')) = [(''c'', ''running'')]"
proof -
  have run: "isRunning sample_docker False ''c'' (dm_daemon (sample_watched ''exited'')) = Inr False"
    by (simp add: isRunning_def dcm_Inspect_def sample_docker_def)
  have res: "dk_ContainerRestart sample_docker False (dm_daemon (sample_watched ''exited'')) ''c'' (stopSeconds (sample_watched ''exited'')) =
      (None, [(''c'', ''running'')])" by (simp add: sample_docker_def setDaemonStatus_def)
  have pol: "rp_Enabled (mon_restartPolicy (dm_monitors (sample_watched ''exited'') ! 0))"
    "rp_RestartOnUnhealthy (mon_restartPolicy (dm_monitors (sample_watched ''exited'') ! 0))" by (simp_all add: defaultRestartPolicy_def)
  from stopped_container_restarted [OF sample_watches, of live_ctx _ 2 sample_docker "[(''c'', ''running'')]" 7, OF _ _ pol _ _ _ run res]
  show ?thesis by (simp add: Let_def numeral_3_eq_3 del: funpow.simps)
qed


section \<open>Stopping during a triggered restart\<close>

lemma sample_trigger: "triggerLookup ''c'' (sample_watched status) = Inr 0"
  by (simp add: triggerLookup_def defaultRestartPolicy_def)

definition sample_delayed :: "(string \<times> string) list docker_manager" where
  "sample_delayed = triggerNotify 0 ''test'' (sample_watched ''running'')"

lemma sample_delayed_fields: "quiet (sample_watched ''running'') sample_delayed" "\<not> dm_crashed sample_delayed"
  "dm_livenessMonitors sample_delayed = [(''c'', 0)]" "mon_restartCount (dm_monitors sample_delayed ! 0) = 0"
  "mon_restartPolicy (dm_monitors sample_delayed ! 0) = defaultRestartPolicy"
proof -
  show q: "quiet (sample_watched ''running'') sample_delayed" by (simp add: sample_delayed_def triggerNotify_def)
  show "\<not> dm_crashed sample_delayed" by (simp add: sample_delayed_def triggerNotify_def sendEvent_crash sample_monitor_def)
  show "dm_livenessMonitors sample_delayed = [(''c'', 0)]" using quiet_fields(3) [OF q] by simp
  show "mon_restartCount (dm_monitors sample_delayed ! 0) = 0" "mon_restartPolicy (dm_monitors sample_delayed ! 0) = defaultRestartPolicy"
    using quiet_monitor(3,6) [OF q, of 0] by simp_all
qed

abbreviation docker_reaches where
  "docker_reaches \<equiv> (\<lambda>x y. \<exists>l. docker_step sample_docker l x y)\<^sup>*\<^sup>*"

lemma sample_reaches:
  "docker_reaches (sample_new ''running'', []) (sample_watched ''running'', [])"
  "docker_reaches (sample_new ''running'', []) (sample_delayed, [(0, ''test'', True, AtDelay)])"
proof -
  have 1: "docker_step sample_docker None (sample_new ''running'', []) (sample_watched ''running'', [])"
    using docker_step.start [of "sample_new ''running''" sample_docker "[]" "''c''" "Some newDefaultAvsPerformerLivenessConfig"]
    by (simp add: sample_started)
  have 2: "docker_step sample_docker None (sample_watched ''running'', []) (sample_watched ''running'', [(0, ''test'', True, AtTrigger)])"
    by (rule docker_step.trigger [OF _ sample_trigger]) simp
  have 3: "docker_step sample_docker (Some 0) (sample_watched ''running'', [(0, ''test'', True, AtTrigger)]) (sample_delayed, [(0, ''test'', True, AtCheck)])"
    using docker_step.notify [of "sample_watched ''running''" 0 "''test''" True "[(0, ''test'', True, AtTrigger)]" sample_docker]
    by (simp add: sample_delayed_def)
  have 4: "docker_step sample_docker (Some 0) (sample_delayed, [(0, ''test'', True, AtCheck)]) (sample_delayed, [(0, ''test'', True, AtDelay)])"
    using docker_step.allowed [of sample_delayed 0 "''test''" True "[(0, ''test'', True, AtCheck)]" sample_docker]
    by (simp add: sample_delayed_fields restartLimitReached_def defaultRestartPolicy_def)
  show one: "docker_reaches (sample_new ''running'', []) (sample_watched ''running'', [])" using 1 by blast
  note two = rtranclp.rtrancl_into_rtrancl [OF one exI, OF 2]
  note three = rtranclp.rtrancl_into_rtrancl [OF two exI, OF 3]
  show "docker_reaches (sample_new ''running'', []) (sample_delayed, [(0, ''test'', True, AtDelay)])"
    by (rule rtranclp.rtrancl_into_rtrancl [OF three exI, OF 4])
qed


lemma stop_during_triggered_restart_crashes_witness:
  "dm_crashed (snd (attemptNotify live_ctx 0 ''test'' (closeStopped 0 (stopLivenessMonitoring ''c'' sample_delayed))))"
proof -
  have "\<exists>s3 P'. docker_step sample_docker (Some 0) (closeStopped 0 (stopLivenessMonitoring ''c'' sample_delayed), [(0, ''test'', True, AtDelay)]) (s3, P') \<and>
      attemptNotify live_ctx 0 ''test'' (closeStopped 0 (stopLivenessMonitoring ''c'' sample_delayed)) = (False, s3) \<and> dm_crashed s3"
    using stop_during_triggered_restart_crashes [OF sample_new_made sample_reaches(2) sample_delayed_fields(2), of 0 "''test''" "''c''"]
    by (simp add: Let_def sample_delayed_fields(3))
  then show ?thesis by auto
qed

section \<open>A restored performer\<close>

definition restored_state :: performer_state where
  "restored_state = \<lparr>pst_PerformerId = ''p'', pst_AvsAddress = ''0xa'', pst_ResourceId = ''c'', pst_Status = statusInService,
     pst_ArtifactRegistry = ''r'', pst_ArtifactDigest = [], pst_ArtifactTag = ''t'', pst_DeploymentMode = ''docker'',
     pst_CreatedAt = 0, pst_LastHealthCheck = 0, pst_ContainerHealthy = True, pst_ApplicationHealthy = True,
     pst_NetworkName = [], pst_ContainerEndpoint = ''e'', pst_ContainerHostname = [], pst_EnvironmentVars = []\<rparr>"

lemma restored_run:
  "fst (rehydrateFromState sample_cm False restored_state (newAvsContainerPerformer sample_perf_config (sample_new ''running''))) = None"
  by (simp add: rehydrateFromState_def dockerManager_def adoptContainer_def dcm_Inspect_def sample_docker_def newAvsContainerPerformer_def
      restored_state_def sample_new_def startLivenessMonitoring_def Let_def)

lemma rehydrated_performer_never_restarted_witness:
  "\<exists>aps'. rehydrateFromState sample_cm False restored_state (newAvsContainerPerformer sample_perf_config (sample_new ''running'')) = (None, aps') \<and>
     (\<exists>r. gm_get (dm_livenessMonitors (cp_docker aps')) ''c'' = Some r \<and>
       dm_daemon (fold (monitorAction sample_docker r ''c'') (replicate 9 (LivenessCheck live_ctx 7)) (cp_docker aps')) = dm_daemon (cp_docker aps'))"
proof -
  obtain aps' where run: "rehydrateFromState sample_cm False restored_state (newAvsContainerPerformer sample_perf_config (sample_new ''running'')) = (None, aps')"
    using restored_run by (metis prod.collapse)
  have "pst_ResourceId restored_state = ''c''" by (simp add: restored_state_def)
  with rehydrated_performer_never_restarted [OF run] have "\<exists>r. gm_get (dm_livenessMonitors (cp_docker aps')) ''c'' = Some r \<and>
      dm_daemon (fold (monitorAction sample_docker r ''c'') (replicate 9 (LivenessCheck live_ctx 7)) (cp_docker aps')) = dm_daemon (cp_docker aps')"
    unfolding Let_def by metis
  with run show ?thesis by blast
qed

end
