(* ===== verification/Ethereum_Client.thy ===== *)
theory Ethereum_Client
  imports Go_Values Chain_Poller "HOL-Library.Monad_Syntax"
begin

text \<open>
  \<open>ponos/pkg/clients/ethereum\<close>: the JSON-RPC client (\<open>client.go\<close>), its requests and response parsers
  (\<open>handlers.go\<close>) and the JSON forms of blocks, transactions, receipts and logs (\<open>types.go\<close>).

  The node behind \<open>BaseUrl\<close> is a parameter: its answer to the \<open>i\<close>-th attempt at a request. So is
  go-ethereum's \<open>hexutil\<close>, with the law \<open>hexutil_ok\<close>. JSON is handled as decoded values: an
  unmarshalling that returns an error is \<open>None\<close>. As in \<open>encoding/json\<close>, member names are matched up
  to letter case, a missing member leaves the zero value, and so does \<open>null\<close>; an object names a member
  once. An integer is written in JSON without fraction or exponent.
\<close>

section \<open>Parameters\<close>

record hexutil =
  hex_EncodeUint64 :: "u64 \<Rightarrow> string"
  hex_DecodeUint64 :: "string \<Rightarrow> u64 option"
  hex_EncodeBig :: "int \<Rightarrow> string"
  hex_DecodeBig :: "string \<Rightarrow> int option"

text \<open>
  What \<open>hexutil\<close> documents: decoding undoes encoding, for \<open>uint64\<close> values and for integers of up to
  256 bits; an encoding starts with \<open>0x\<close>, so it is never empty; a decoded \<open>uint64\<close> is one.
\<close>

definition hexutil_ok :: "hexutil \<Rightarrow> bool" where
  "hexutil_ok h \<longleftrightarrow>
     (\<forall>n < 2 ^ 64. hex_DecodeUint64 h (hex_EncodeUint64 h n) = Some n \<and> hex_EncodeUint64 h n \<noteq> []) \<and>
     (\<forall>s n. hex_DecodeUint64 h s = Some n \<longrightarrow> n < 2 ^ 64) \<and>
     (\<forall>i. 0 \<le> i \<and> i < 2 ^ 256 \<longrightarrow> hex_DecodeBig h (hex_EncodeBig h i) = Some i \<and> hex_EncodeBig h i \<noteq> [])"

section \<open>JSON values\<close>

text \<open>
  A member of an object, \<open>None\<close> when the object has none of the name, and its value where a missing
  member counts as \<open>null\<close>.
\<close>

definition jsonLookup :: "(string \<times> json) list \<Rightarrow> string \<Rightarrow> json option" where
  "jsonLookup obj name = map_option snd (find (\<lambda>kv. equalFold (fst kv) name) obj)"

definition jsonMember :: "(string \<times> json) list \<Rightarrow> string \<Rightarrow> json" where
  "jsonMember obj name = (case jsonLookup obj name of None \<Rightarrow> JNull | Some v \<Rightarrow> v)"

text \<open>\<open>json.Unmarshal\<close> into a zeroed Go variable.\<close>

definition unmarshalString :: "json \<Rightarrow> string option" where
  "unmarshalString j = (case j of JNull \<Rightarrow> Some [] | JString s \<Rightarrow> Some s | _ \<Rightarrow> None)"

definition unmarshalBool :: "json \<Rightarrow> bool option" where
  "unmarshalBool j = (case j of JNull \<Rightarrow> Some False | JBool b \<Rightarrow> Some b | _ \<Rightarrow> None)"

definition unmarshalInteger :: "int \<Rightarrow> int \<Rightarrow> json \<Rightarrow> int option" where
  "unmarshalInteger lo hi j =
     (case j of
        JNull \<Rightarrow> Some 0
      | JNumber x \<Rightarrow> (if of_int (floor x) = x \<and> lo \<le> floor x \<and> floor x \<le> hi then Some (floor x) else None)
      | _ \<Rightarrow> None)"

definition unmarshalUint64 :: "json \<Rightarrow> u64 option" where
  "unmarshalUint64 j = map_option nat (unmarshalInteger 0 (2 ^ 64 - 1) j)"

definition unmarshalInt64 :: "json \<Rightarrow> int option" where
  "unmarshalInt64 j = unmarshalInteger (- (2 ^ 63)) (2 ^ 63 - 1) j"

definition unmarshalPointer :: "(json \<Rightarrow> 'a option) \<Rightarrow> json \<Rightarrow> 'a option option" where
  "unmarshalPointer decode j = (if j = JNull then Some None else map_option Some (decode j))"

definition unmarshalSlice :: "(json \<Rightarrow> 'a option) \<Rightarrow> json \<Rightarrow> 'a list option" where
  "unmarshalSlice decode j = (case j of JNull \<Rightarrow> Some [] | JArray js \<Rightarrow> those (map decode js) | _ \<Rightarrow> None)"

definition unmarshalStruct :: "'a \<Rightarrow> ((string \<times> json) list \<Rightarrow> 'a option) \<Rightarrow> json \<Rightarrow> 'a option" where
  "unmarshalStruct zero members j = (case j of JNull \<Rightarrow> Some zero | JObject m \<Rightarrow> members m | _ \<Rightarrow> None)"

section \<open>Hex strings and quantities\<close>

text \<open>
  \<open>EthereumHexString\<close>. \<open>MarshalJSON\<close> puts the string between quotes as it is: that is the JSON string
  only when no character of it needs an escape (\<open>None\<close> otherwise: the text is no JSON, or another
  string).
\<close>

definition plainChar :: "char \<Rightarrow> bool" where
  "plainChar c \<longleftrightarrow> c \<noteq> CHR 0x22 \<and> c \<noteq> CHR 0x5C \<and> (32::nat) \<le> of_char c"

definition hexString_MarshalJSON :: "string \<Rightarrow> json option" where
  "hexString_MarshalJSON v = (if list_all plainChar v then Some (JString v) else None)"

definition hexString_UnmarshalJSON :: "json \<Rightarrow> string option" where
  "hexString_UnmarshalJSON j = map_option toLower (unmarshalString j)"

text \<open>
  \<open>EthereumQuantity\<close>: hexadecimal in a string or a plain number. \<open>BigInt\<close> converts through \<open>int64\<close>.
\<close>

definition quantity_MarshalJSON :: "hexutil \<Rightarrow> u64 \<Rightarrow> json" where
  "quantity_MarshalJSON h v = JString (hex_EncodeUint64 h v)"

definition quantity_UnmarshalJSON :: "hexutil \<Rightarrow> json \<Rightarrow> u64 option" where
  "quantity_UnmarshalJSON h j =
     (case j of
        JString s \<Rightarrow> (if s = [] then Some 0 else hex_DecodeUint64 h s)
      | _ \<Rightarrow> unmarshalUint64 j)"

definition quantity_BigInt :: "u64 \<Rightarrow> int" where
  "quantity_BigInt v = (if v < 2 ^ 63 then int v else int v - 2 ^ 64)"

text \<open>\<open>EthereumBigQuantity\<close>.\<close>

definition bigQuantity_MarshalJSON :: "hexutil \<Rightarrow> int \<Rightarrow> json" where
  "bigQuantity_MarshalJSON h v = JString (hex_EncodeBig h v)"

definition bigQuantity_UnmarshalJSON :: "hexutil \<Rightarrow> json \<Rightarrow> int option" where
  "bigQuantity_UnmarshalJSON h j =
     (case unmarshalString j of
        None \<Rightarrow> None
      | Some s \<Rightarrow> (if s = [] then Some 0 else hex_DecodeBig h s))"

definition bigQuantity_Uint64 :: "int \<Rightarrow> u64 option" where
  "bigQuantity_Uint64 v = (if 0 \<le> v \<and> v < 2 ^ 64 then Some (nat v) else None)"

section \<open>Blocks, transactions, receipts and logs\<close>

definition zeroTransaction :: ethereum_transaction where
  "zeroTransaction = \<lparr>etx_BlockHash = [], etx_BlockNumber = 0, etx_From = [], etx_Gas = 0, etx_GasPrice = 0, etx_Hash = [],
     etx_Input = [], etx_To = [], etx_Index = 0, etx_Value = 0, etx_Nonce = 0, etx_V = [], etx_R = [], etx_S = [],
     etx_ChainId = None, etx_Type = 0\<rparr>"

definition transaction_UnmarshalJSON :: "hexutil \<Rightarrow> json \<Rightarrow> ethereum_transaction option" where
  "transaction_UnmarshalJSON h = unmarshalStruct zeroTransaction (\<lambda>m. do {
     blockHash \<leftarrow> hexString_UnmarshalJSON (jsonMember m ''blockHash'');
     blockNumber \<leftarrow> quantity_UnmarshalJSON h (jsonMember m ''blockNumber'');
     from' \<leftarrow> hexString_UnmarshalJSON (jsonMember m ''from'');
     gas \<leftarrow> quantity_UnmarshalJSON h (jsonMember m ''gas'');
     gasPrice \<leftarrow> bigQuantity_UnmarshalJSON h (jsonMember m ''gasPrice'');
     hash \<leftarrow> hexString_UnmarshalJSON (jsonMember m ''hash'');
     input \<leftarrow> hexString_UnmarshalJSON (jsonMember m ''input'');
     to \<leftarrow> hexString_UnmarshalJSON (jsonMember m ''to'');
     index \<leftarrow> quantity_UnmarshalJSON h (jsonMember m ''transactionIndex'');
     value' \<leftarrow> bigQuantity_UnmarshalJSON h (jsonMember m ''value'');
     nonce \<leftarrow> quantity_UnmarshalJSON h (jsonMember m ''nonce'');
     v \<leftarrow> hexString_UnmarshalJSON (jsonMember m ''v'');
     r \<leftarrow> hexString_UnmarshalJSON (jsonMember m ''r'');
     s \<leftarrow> hexString_UnmarshalJSON (jsonMember m ''s'');
     chainId \<leftarrow> unmarshalPointer (quantity_UnmarshalJSON h) (jsonMember m ''chainId'');
     type' \<leftarrow> quantity_UnmarshalJSON h (jsonMember m ''type'');
     Some \<lparr>etx_BlockHash = blockHash, etx_BlockNumber = blockNumber, etx_From = from', etx_Gas = gas, etx_GasPrice = gasPrice,
       etx_Hash = hash, etx_Input = input, etx_To = to, etx_Index = index, etx_Value = value', etx_Nonce = nonce,
       etx_V = v, etx_R = r, etx_S = s, etx_ChainId = chainId, etx_Type = type'\<rparr> })"

definition zeroBlock :: ethereum_block where
  "zeroBlock = \<lparr>eb_Hash = [], eb_ParentHash = [], eb_Number = 0, eb_Timestamp = 0, eb_Transactions = [], eb_Nonce = [],
     eb_ChainId = 0\<rparr>"

definition block_UnmarshalJSON :: "hexutil \<Rightarrow> json \<Rightarrow> ethereum_block option" where
  "block_UnmarshalJSON h = unmarshalStruct zeroBlock (\<lambda>m. do {
     hash \<leftarrow> hexString_UnmarshalJSON (jsonMember m ''hash'');
     parentHash \<leftarrow> hexString_UnmarshalJSON (jsonMember m ''parentHash'');
     number \<leftarrow> quantity_UnmarshalJSON h (jsonMember m ''number'');
     timestamp \<leftarrow> quantity_UnmarshalJSON h (jsonMember m ''timestamp'');
     transactions \<leftarrow> unmarshalSlice (unmarshalPointer (transaction_UnmarshalJSON h)) (jsonMember m ''transactions'');
     nonce \<leftarrow> hexString_UnmarshalJSON (jsonMember m ''nonce'');
     chainId \<leftarrow> unmarshalUint64 (jsonMember m ''ChainId'');
     Some \<lparr>eb_Hash = hash, eb_ParentHash = parentHash, eb_Number = number, eb_Timestamp = timestamp,
       eb_Transactions = transactions, eb_Nonce = nonce, eb_ChainId = chainId\<rparr> })"

definition zeroEventLog :: ethereum_event_log where
  "zeroEventLog = \<lparr>el_Removed = False, el_LogIndex = 0, el_TransactionHash = [], el_TransactionIndex = 0, el_BlockHash = [],
     el_BlockNumber = 0, el_Address = [], el_Data = [], el_Topics = []\<rparr>"

definition eventLog_UnmarshalJSON :: "hexutil \<Rightarrow> json \<Rightarrow> ethereum_event_log option" where
  "eventLog_UnmarshalJSON h = unmarshalStruct zeroEventLog (\<lambda>m. do {
     removed \<leftarrow> unmarshalBool (jsonMember m ''removed'');
     logIndex \<leftarrow> quantity_UnmarshalJSON h (jsonMember m ''logIndex'');
     transactionHash \<leftarrow> hexString_UnmarshalJSON (jsonMember m ''transactionHash'');
     transactionIndex \<leftarrow> quantity_UnmarshalJSON h (jsonMember m ''transactionIndex'');
     blockHash \<leftarrow> hexString_UnmarshalJSON (jsonMember m ''blockHash'');
     blockNumber \<leftarrow> quantity_UnmarshalJSON h (jsonMember m ''blockNumber'');
     address \<leftarrow> hexString_UnmarshalJSON (jsonMember m ''address'');
     data \<leftarrow> hexString_UnmarshalJSON (jsonMember m ''data'');
     topics \<leftarrow> unmarshalSlice hexString_UnmarshalJSON (jsonMember m ''topics'');
     Some \<lparr>el_Removed = removed, el_LogIndex = logIndex, el_TransactionHash = transactionHash,
       el_TransactionIndex = transactionIndex, el_BlockHash = blockHash, el_BlockNumber = blockNumber,
       el_Address = address, el_Data = data, el_Topics = topics\<rparr> })"

record ethereum_transaction_receipt =
  er_TransactionHash :: string
  er_TransactionIndex :: u64
  er_BlockHash :: string
  er_BlockNumber :: u64
  er_From :: string
  er_To :: string
  er_CumulativeGasUsed :: u64
  er_GasUsed :: u64
  er_ContractAddress :: string
  er_Logs :: "ethereum_event_log option list"
  er_LogsBloom :: string
  er_Root :: string
  er_Status :: "u64 option"
  er_Type :: u64
  er_EffectiveGasPrice :: "u64 option"
  er_ContractBytecode :: string

definition zeroReceipt :: ethereum_transaction_receipt where
  "zeroReceipt = \<lparr>er_TransactionHash = [], er_TransactionIndex = 0, er_BlockHash = [], er_BlockNumber = 0, er_From = [],
     er_To = [], er_CumulativeGasUsed = 0, er_GasUsed = 0, er_ContractAddress = [], er_Logs = [], er_LogsBloom = [],
     er_Root = [], er_Status = None, er_Type = 0, er_EffectiveGasPrice = None, er_ContractBytecode = []\<rparr>"

definition receipt_UnmarshalJSON :: "hexutil \<Rightarrow> json \<Rightarrow> ethereum_transaction_receipt option" where
  "receipt_UnmarshalJSON h = unmarshalStruct zeroReceipt (\<lambda>m. do {
     transactionHash \<leftarrow> hexString_UnmarshalJSON (jsonMember m ''transactionHash'');
     transactionIndex \<leftarrow> quantity_UnmarshalJSON h (jsonMember m ''transactionIndex'');
     blockHash \<leftarrow> hexString_UnmarshalJSON (jsonMember m ''blockHash'');
     blockNumber \<leftarrow> quantity_UnmarshalJSON h (jsonMember m ''blockNumber'');
     from' \<leftarrow> hexString_UnmarshalJSON (jsonMember m ''from'');
     to \<leftarrow> hexString_UnmarshalJSON (jsonMember m ''to'');
     cumulativeGasUsed \<leftarrow> quantity_UnmarshalJSON h (jsonMember m ''cumulativeGasUsed'');
     gasUsed \<leftarrow> quantity_UnmarshalJSON h (jsonMember m ''gasUsed'');
     contractAddress \<leftarrow> hexString_UnmarshalJSON (jsonMember m ''contractAddress'');
     logs \<leftarrow> unmarshalSlice (unmarshalPointer (eventLog_UnmarshalJSON h)) (jsonMember m ''logs'');
     logsBloom \<leftarrow> hexString_UnmarshalJSON (jsonMember m ''logsBloom'');
     root \<leftarrow> hexString_UnmarshalJSON (jsonMember m ''root'');
     status \<leftarrow> unmarshalPointer (quantity_UnmarshalJSON h) (jsonMember m ''status'');
     type' \<leftarrow> quantity_UnmarshalJSON h (jsonMember m ''type'');
     effectiveGasPrice \<leftarrow> unmarshalPointer (quantity_UnmarshalJSON h) (jsonMember m ''effectiveGasPrice'');
     contractBytecode \<leftarrow> hexString_UnmarshalJSON (jsonMember m ''contractBytecode'');
     Some \<lparr>er_TransactionHash = transactionHash, er_TransactionIndex = transactionIndex, er_BlockHash = blockHash,
       er_BlockNumber = blockNumber, er_From = from', er_To = to, er_CumulativeGasUsed = cumulativeGasUsed,
       er_GasUsed = gasUsed, er_ContractAddress = contractAddress, er_Logs = logs, er_LogsBloom = logsBloom,
       er_Root = root, er_Status = status, er_Type = type', er_EffectiveGasPrice = effectiveGasPrice,
       er_ContractBytecode = contractBytecode\<rparr> })"

definition getTargetAddress :: "ethereum_transaction_receipt \<Rightarrow> string" where
  "getTargetAddress r =
     (if er_To r \<noteq> [] then er_To r else if er_ContractAddress r \<noteq> [] then er_ContractAddress r else [])"

text \<open>The JSON form \<open>json.Marshal\<close> gives a transaction and a block, from the tags and marshallers.\<close>

definition marshalPointer :: "('a \<Rightarrow> json) \<Rightarrow> 'a option \<Rightarrow> json" where
  "marshalPointer enc p = (case p of None \<Rightarrow> JNull | Some v \<Rightarrow> enc v)"

definition transaction_MarshalJSON :: "hexutil \<Rightarrow> ethereum_transaction \<Rightarrow> json option" where
  "transaction_MarshalJSON h t = do {
     blockHash \<leftarrow> hexString_MarshalJSON (etx_BlockHash t);
     from' \<leftarrow> hexString_MarshalJSON (etx_From t);
     hash \<leftarrow> hexString_MarshalJSON (etx_Hash t);
     input \<leftarrow> hexString_MarshalJSON (etx_Input t);
     to \<leftarrow> hexString_MarshalJSON (etx_To t);
     v \<leftarrow> hexString_MarshalJSON (etx_V t);
     r \<leftarrow> hexString_MarshalJSON (etx_R t);
     s \<leftarrow> hexString_MarshalJSON (etx_S t);
     Some (JObject [(''blockHash'', blockHash), (''blockNumber'', quantity_MarshalJSON h (etx_BlockNumber t)), (''from'', from'),
       (''gas'', quantity_MarshalJSON h (etx_Gas t)), (''gasPrice'', bigQuantity_MarshalJSON h (etx_GasPrice t)),
       (''hash'', hash), (''input'', input), (''to'', to), (''transactionIndex'', quantity_MarshalJSON h (etx_Index t)),
       (''value'', bigQuantity_MarshalJSON h (etx_Value t)), (''nonce'', quantity_MarshalJSON h (etx_Nonce t)),
       (''v'', v), (''r'', r), (''s'', s), (''chainId'', marshalPointer (quantity_MarshalJSON h) (etx_ChainId t)),
       (''type'', quantity_MarshalJSON h (etx_Type t))]) }"

definition block_MarshalJSON :: "hexutil \<Rightarrow> ethereum_block \<Rightarrow> json option" where
  "block_MarshalJSON h b = do {
     hash \<leftarrow> hexString_MarshalJSON (eb_Hash b);
     parentHash \<leftarrow> hexString_MarshalJSON (eb_ParentHash b);
     transactions \<leftarrow> those (map (\<lambda>t. case t of None \<Rightarrow> Some JNull | Some t \<Rightarrow> transaction_MarshalJSON h t) (eb_Transactions b));
     nonce \<leftarrow> hexString_MarshalJSON (eb_Nonce b);
     Some (JObject [(''hash'', hash), (''parentHash'', parentHash), (''number'', quantity_MarshalJSON h (eb_Number b)),
       (''timestamp'', quantity_MarshalJSON h (eb_Timestamp b)), (''transactions'', JArray transactions),
       (''nonce'', nonce), (''ChainId'', JNumber (of_nat (eb_ChainId b)))]) }"

section \<open>Requests\<close>

record rpc_request =
  rr_JSONRPC :: string
  rr_Method :: string
  rr_Params :: "json option"
  rr_ID :: nat

definition jsonRPCVersion :: string where
  "jsonRPCVersion = ''2.0''"

definition getBlockRequest :: "nat \<Rightarrow> rpc_request" where
  "getBlockRequest i = \<lparr>rr_JSONRPC = jsonRPCVersion, rr_Method = ''eth_blockNumber'', rr_Params = None, rr_ID = i\<rparr>"

definition getBlockByNumberRequest :: "hexutil \<Rightarrow> u64 \<Rightarrow> nat \<Rightarrow> rpc_request" where
  "getBlockByNumberRequest h blockNumber i = \<lparr>rr_JSONRPC = jsonRPCVersion, rr_Method = ''eth_getBlockByNumber'',
     rr_Params = Some (JArray [JString (hex_EncodeUint64 h blockNumber), JBool True]), rr_ID = i\<rparr>"

definition getSafeBlockRequest :: "nat \<Rightarrow> rpc_request" where
  "getSafeBlockRequest i = \<lparr>rr_JSONRPC = jsonRPCVersion, rr_Method = ''eth_getBlockByNumber'',
     rr_Params = Some (JArray [JString ''safe'', JBool True]), rr_ID = i\<rparr>"

definition getLatestBlockRequest :: "nat \<Rightarrow> rpc_request" where
  "getLatestBlockRequest i = \<lparr>rr_JSONRPC = jsonRPCVersion, rr_Method = ''eth_getBlockByNumber'',
     rr_Params = Some (JArray [JString ''latest'', JBool True]), rr_ID = i\<rparr>"

definition getTransactionByHashRequest :: "string \<Rightarrow> nat \<Rightarrow> rpc_request" where
  "getTransactionByHashRequest txHash i = \<lparr>rr_JSONRPC = jsonRPCVersion, rr_Method = ''eth_getTransactionByHash'',
     rr_Params = Some (JArray [JString txHash]), rr_ID = i\<rparr>"

definition getTransactionReceiptRequest :: "string \<Rightarrow> nat \<Rightarrow> rpc_request" where
  "getTransactionReceiptRequest txHash i = \<lparr>rr_JSONRPC = jsonRPCVersion, rr_Method = ''eth_getTransactionReceipt'',
     rr_Params = Some (JArray [JString txHash]), rr_ID = i\<rparr>"

definition getBlockReceiptsRequest :: "hexutil \<Rightarrow> u64 \<Rightarrow> nat \<Rightarrow> rpc_request" where
  "getBlockReceiptsRequest h blockNumber i = \<lparr>rr_JSONRPC = jsonRPCVersion, rr_Method = ''eth_getBlockReceipts'',
     rr_Params = Some (JArray [JString (hex_EncodeUint64 h blockNumber)]), rr_ID = i\<rparr>"

definition getLogsRequest :: "hexutil \<Rightarrow> string \<Rightarrow> u64 \<Rightarrow> u64 \<Rightarrow> nat \<Rightarrow> rpc_request" where
  "getLogsRequest h address fromBlock toBlock i = \<lparr>rr_JSONRPC = jsonRPCVersion, rr_Method = ''eth_getLogs'',
     rr_Params = Some (JArray [JObject [(''address'', JString address), (''fromBlock'', JString (hex_EncodeUint64 h fromBlock)),
       (''toBlock'', JString (hex_EncodeUint64 h toBlock))]]), rr_ID = i\<rparr>"

section \<open>One call and its retries\<close>

text \<open>
  The outcome of one HTTP POST: no response (a bad URL, a broken connection, the five seconds of the
  call or the caller's context over), a body that cannot be read, or a status code and a body, which is
  \<open>None\<close> when it is not JSON.
\<close>

datatype http_answer = TransportFailed | BodyUnreadable | HttpAnswer int "json option"

type_synonym eth_node = "rpc_request \<Rightarrow> nat \<Rightarrow> http_answer"

record rpc_error =
  rpce_Code :: int
  rpce_Message :: string

record rpc_response =
  rp_JSONRPC :: string
  rp_ID :: "nat option"
  rp_Result :: "json option"
  rp_Error :: "rpc_error option"

datatype client_error = RequestFailed | ReadBodyFailed | HttpErrorCode int | UnmarshalFailed | ErrorResponse rpc_error
  | ExceededRetries | ParseFailed | ResultsMissing | BatchErrorPayload rpc_error | ClientPanic

definition rpcError_Unmarshal :: "json \<Rightarrow> rpc_error option" where
  "rpcError_Unmarshal = unmarshalStruct \<lparr>rpce_Code = 0, rpce_Message = []\<rparr> (\<lambda>m. do {
     code \<leftarrow> unmarshalInt64 (jsonMember m ''code'');
     message \<leftarrow> unmarshalString (jsonMember m ''message'');
     Some \<lparr>rpce_Code = code, rpce_Message = message\<rparr> })"

text \<open>\<open>Result\<close> is a \<open>json.RawMessage\<close>: nothing when the member is missing, the text \<open>null\<close> when it is null.\<close>

definition rpcResponse_Unmarshal :: "json \<Rightarrow> rpc_response option" where
  "rpcResponse_Unmarshal = unmarshalStruct \<lparr>rp_JSONRPC = [], rp_ID = None, rp_Result = None, rp_Error = None\<rparr> (\<lambda>m. do {
     version \<leftarrow> unmarshalString (jsonMember m ''jsonrpc'');
     i \<leftarrow> unmarshalPointer unmarshalUint64 (jsonMember m ''id'');
     err \<leftarrow> unmarshalPointer rpcError_Unmarshal (jsonMember m ''error'');
     Some \<lparr>rp_JSONRPC = version, rp_ID = i, rp_Result = jsonLookup m ''result'', rp_Error = err\<rparr> })"

definition eth_call :: "eth_node \<Rightarrow> rpc_request \<Rightarrow> nat \<Rightarrow> (client_error, rpc_response) result" where
  "eth_call node rpcRequest i =
     (case node rpcRequest i of
        TransportFailed \<Rightarrow> Inl RequestFailed
      | BodyUnreadable \<Rightarrow> Inl ReadBodyFailed
      | HttpAnswer statusCode body \<Rightarrow>
          if statusCode \<noteq> 200 then Inl (HttpErrorCode statusCode)
          else (case Option.bind body rpcResponse_Unmarshal of
              None \<Rightarrow> Inl UnmarshalFailed
            | Some destination \<Rightarrow>
                (case rp_Error destination of
                   Some e \<Rightarrow> Inl (ErrorResponse e)
                 | None \<Rightarrow> Inr destination)))"

text \<open>
  \<open>Call\<close>: the result and the seconds slept. Every failed attempt sleeps, the last one too, whatever has
  become of the context.
\<close>

definition callBackoffs :: "nat list" where
  "callBackoffs = [1, 3, 5, 10, 20, 30, 60]"

fun callLoop :: "(nat \<Rightarrow> (client_error, rpc_response) result) \<Rightarrow> nat \<Rightarrow> nat list \<Rightarrow> nat \<Rightarrow>
    (client_error, rpc_response) result \<times> nat" where
  "callLoop attempt i [] slept = (Inl ExceededRetries, slept)"
| "callLoop attempt i (backoff # backoffs) slept =
     (case attempt i of
        Inr res \<Rightarrow> (Inr res, slept)
      | Inl err \<Rightarrow> callLoop attempt (Suc i) backoffs (slept + backoff))"

definition eth_Call :: "eth_node \<Rightarrow> rpc_request \<Rightarrow> (client_error, rpc_response) result \<times> nat" where
  "eth_Call node rpcRequest = callLoop (eth_call node rpcRequest) 0 callBackoffs 0"

section \<open>The operations of the client\<close>

record ethereum_client_config =
  ecc_BaseUrl :: string
  ecc_BlockType :: string

definition defaultNativeCallEthereumClientConfig :: ethereum_client_config where
  "defaultNativeCallEthereumClientConfig = \<lparr>ecc_BaseUrl = [], ecc_BlockType = ''safe''\<rparr>"

definition defaultChunkedCallEthereumClientConfig :: ethereum_client_config where
  "defaultChunkedCallEthereumClientConfig = \<lparr>ecc_BaseUrl = [], ecc_BlockType = ''safe''\<rparr>"

text \<open>
  A call followed by a response parser. A response without result leaves no bytes to unmarshal, which is
  an error.
\<close>

definition callAndParse :: "eth_node \<Rightarrow> rpc_request \<Rightarrow> (json \<Rightarrow> 'a option) \<Rightarrow> (client_error, 'a) result" where
  "callAndParse node rpcRequest parse =
     (case fst (eth_Call node rpcRequest) of
        Inl e \<Rightarrow> Inl e
      | Inr res \<Rightarrow>
          (case Option.bind (rp_Result res) parse of None \<Rightarrow> Inl ParseFailed | Some v \<Rightarrow> Inr v))"

definition eth_GetLatestBlock :: "hexutil \<Rightarrow> ethereum_client_config \<Rightarrow> eth_node \<Rightarrow> (client_error, u64) result" where
  "eth_GetLatestBlock h cfg node =
     (let rpcRequest = (if ecc_BlockType cfg = ''latest'' then getLatestBlockRequest 1 else getSafeBlockRequest 1)
      in map_sum id eb_Number (callAndParse node rpcRequest (block_UnmarshalJSON h)))"

definition eth_GetBlockByNumber :: "hexutil \<Rightarrow> eth_node \<Rightarrow> u64 \<Rightarrow> (client_error, ethereum_block) result" where
  "eth_GetBlockByNumber h node blockNumber =
     callAndParse node (getBlockByNumberRequest h blockNumber 1) (block_UnmarshalJSON h)"

definition eth_GetTransactionByHash :: "hexutil \<Rightarrow> eth_node \<Rightarrow> string \<Rightarrow> (client_error, ethereum_transaction) result" where
  "eth_GetTransactionByHash h node txHash =
     callAndParse node (getTransactionByHashRequest txHash 1) (transaction_UnmarshalJSON h)"

definition eth_GetTransactionReceipt ::
  "hexutil \<Rightarrow> eth_node \<Rightarrow> string \<Rightarrow> (client_error, ethereum_transaction_receipt) result" where
  "eth_GetTransactionReceipt h node txHash =
     callAndParse node (getTransactionReceiptRequest txHash 1) (receipt_UnmarshalJSON h)"

definition eth_GetBlockTransactionReceipts ::
  "hexutil \<Rightarrow> eth_node \<Rightarrow> u64 \<Rightarrow> (client_error, ethereum_transaction_receipt option list) result" where
  "eth_GetBlockTransactionReceipts h node blockNumber =
     callAndParse node (getBlockReceiptsRequest h blockNumber 1)
       (unmarshalSlice (unmarshalPointer (receipt_UnmarshalJSON h)))"

definition eth_GetLogs ::
  "hexutil \<Rightarrow> eth_node \<Rightarrow> string \<Rightarrow> u64 \<Rightarrow> u64 \<Rightarrow> (client_error, ethereum_event_log option list) result" where
  "eth_GetLogs h node address fromBlock toBlock =
     callAndParse node (getLogsRequest h address fromBlock toBlock 1)
       (unmarshalSlice (unmarshalPointer (eventLog_UnmarshalJSON h)))"

text \<open>
  \<open>GetBlockNumber\<close> strips the quotes off the text of the result; \<open>raw\<close> gives the text the node wrote for a
  JSON value.
\<close>

definition eth_GetBlockNumber :: "(json \<Rightarrow> string) \<Rightarrow> eth_node \<Rightarrow> (client_error, string) result" where
  "eth_GetBlockNumber raw node =
     map_sum id (\<lambda>res. filter (\<lambda>c. c \<noteq> CHR 0x22) (case rp_Result res of None \<Rightarrow> [] | Some j \<Rightarrow> raw j))
       (fst (eth_Call node (getBlockRequest 1)))"

definition eth_GetBlockNumberUint64 :: "hexutil \<Rightarrow> (json \<Rightarrow> string) \<Rightarrow> eth_node \<Rightarrow> (client_error, u64) result" where
  "eth_GetBlockNumberUint64 h raw node =
     (case eth_GetBlockNumber raw node of
        Inl e \<Rightarrow> Inl e
      | Inr blockNumber \<Rightarrow> (case hex_DecodeUint64 h blockNumber of None \<Rightarrow> Inl ParseFailed | Some n \<Rightarrow> Inr n))"

section \<open>Batches\<close>

text \<open>
  The requests cut into batches of \<open>ChunkedBatchCallSize\<close>. The calls of a batch run in parallel:
  \<open>nodes i\<close> gives the answers to request \<open>i\<close>, and \<open>order j\<close> the order in which the responses of batch
  \<open>j\<close> arrive on its channel. A failed call sends nothing and leaves a nil response.
\<close>

definition chunkedBatchCallSize :: nat where
  "chunkedBatchCallSize = 100"

function batchesFrom :: "'a list \<Rightarrow> nat \<Rightarrow> 'a list list" where
  "batchesFrom requests currentIndex =
     (let endIndex = (if currentIndex + chunkedBatchCallSize \<ge> length requests then length requests
                      else currentIndex + chunkedBatchCallSize) in
      take (endIndex - currentIndex) (drop currentIndex requests) #
        (if currentIndex + chunkedBatchCallSize \<ge> length requests then []
         else batchesFrom requests (currentIndex + chunkedBatchCallSize)))"
  by pat_completeness auto
termination
  by (relation "measure (\<lambda>(requests, currentIndex). length requests - currentIndex)")
    (auto simp: chunkedBatchCallSize_def)

declare batchesFrom.simps [simp del]

definition batchResponses :: "(nat \<Rightarrow> eth_node) \<Rightarrow> (nat \<times> rpc_request) list \<Rightarrow> (nat \<times> rpc_response) list" where
  "batchResponses nodes batch =
     List.map_filter (\<lambda>(index, req). case fst (eth_Call (nodes index) req) of Inl e \<Rightarrow> None | Inr res \<Rightarrow> Some (index, res)) batch"

definition storeResponses :: "(nat \<times> rpc_response) list \<Rightarrow> rpc_response option list \<Rightarrow> rpc_response option list" where
  "storeResponses responses slots = fold (\<lambda>(index, res) slots. slots[index := Some res]) responses slots"

fun runBatches ::
  "(nat \<Rightarrow> (nat \<times> rpc_response) list \<Rightarrow> (nat \<times> rpc_response) list) \<Rightarrow> (nat \<Rightarrow> eth_node) \<Rightarrow> nat \<Rightarrow>
     (nat \<times> rpc_request) list list \<Rightarrow> rpc_response option list \<Rightarrow> rpc_response option list" where
  "runBatches order nodes i [] slots = slots"
| "runBatches order nodes i (batch # batches) slots =
     runBatches order nodes (Suc i) batches (storeResponses (order i (batchResponses nodes batch)) slots)"

definition chunkedBatchCall ::
  "(nat \<Rightarrow> (nat \<times> rpc_response) list \<Rightarrow> (nat \<times> rpc_response) list) \<Rightarrow> (nat \<Rightarrow> eth_node) \<Rightarrow> rpc_request list \<Rightarrow>
     (client_error, rpc_response option list) result" where
  "chunkedBatchCall order nodes requests =
     (if length requests = 0 then Inr []
      else (let batches = batchesFrom (List.enumerate 0 requests) 0;
                allResults = runBatches order nodes 0 batches (replicate (length requests) None)
            in if length allResults \<noteq> length requests then Inl ResultsMissing else Inr allResults))"

definition eth_BatchCall ::
  "(nat \<Rightarrow> (nat \<times> rpc_response) list \<Rightarrow> (nat \<times> rpc_response) list) \<Rightarrow> (nat \<Rightarrow> eth_node) \<Rightarrow> rpc_request list \<Rightarrow>
     (client_error, rpc_response option list) result" where
  "eth_BatchCall order nodes requests =
     (if length requests = 0 then Inr [] else chunkedBatchCall order nodes requests)"

text \<open>
  The batch call of the protocol, one POST for a list of requests (\<open>post\<close> is the answer). An object instead
  of a list is an error payload; one without error member is dereferenced all the same.
\<close>

definition batchCall :: "(rpc_request list \<Rightarrow> http_answer) \<Rightarrow> rpc_request list \<Rightarrow> (client_error, rpc_response option list) result" where
  "batchCall post requests =
     (if length requests = 0 then Inr []
      else case post requests of
        TransportFailed \<Rightarrow> Inl RequestFailed
      | BodyUnreadable \<Rightarrow> Inl ReadBodyFailed
      | HttpAnswer statusCode body \<Rightarrow>
          if statusCode \<noteq> 200 then Inl (HttpErrorCode statusCode)
          else (case body of
              None \<Rightarrow> Inl UnmarshalFailed
            | Some (JObject m) \<Rightarrow>
                (case rpcResponse_Unmarshal (JObject m) of
                   None \<Rightarrow> Inl UnmarshalFailed
                 | Some errorResponse \<Rightarrow>
                     (case rp_Error errorResponse of
                        None \<Rightarrow> Inl ClientPanic
                      | Some e \<Rightarrow> if rpce_Message e \<noteq> ''empty batch'' then Inl (BatchErrorPayload e) else Inr []))
            | Some j \<Rightarrow>
                (case unmarshalSlice (unmarshalPointer rpcResponse_Unmarshal) j of
                   None \<Rightarrow> Inl UnmarshalFailed
                 | Some destination \<Rightarrow> Inr destination)))"

text \<open>
  \<open>chunkedNativeBatchCall\<close>: the batches run in parallel, a failed one is only logged, and the results are
  sorted by their ids (below \<open>2 ^ 63\<close>, so that the difference orders them). Comparing a result without id
  dereferences nil. \<open>order\<close> is the order in which the batches arrive.
\<close>

definition responseId :: "rpc_response option \<Rightarrow> nat option" where
  "responseId r = Option.bind r rp_ID"

definition chunkedNativeBatchCall ::
  "(rpc_response option list list \<Rightarrow> rpc_response option list list) \<Rightarrow> (rpc_request list \<Rightarrow> http_answer) \<Rightarrow> rpc_request list \<Rightarrow>
     (client_error, rpc_response option list) result" where
  "chunkedNativeBatchCall order post requests =
     (if length requests = 0 then Inr []
      else (let outcomes = map (batchCall post) (batchesFrom requests 0);
                results = concat (order (List.map_filter (\<lambda>r. case r of Inl e \<Rightarrow> None | Inr res \<Rightarrow> Some res) outcomes))
            in if Inl ClientPanic \<in> set outcomes then Inl ClientPanic
               else if length results \<ge> 2 \<and> list_ex (\<lambda>r. responseId r = None) results then Inl ClientPanic
               else Inr (sort_key (\<lambda>r. the (responseId r)) results)))"

section \<open>New blocks over a subscription\<close>

text \<open>
  The loop of \<open>ListenForNewBlocks\<close> over what its channels deliver: a subscription error and a failing
  handler are logged, quitting ends it. \<open>False\<close>: still waiting after these events.
\<close>

datatype 'h listen_event = SubscriptionError | HeaderReceived 'h | QuitReceived

fun listenForNewBlocks :: "('h \<Rightarrow> 's \<Rightarrow> bool \<times> 's) \<Rightarrow> 'h listen_event list \<Rightarrow> 's \<Rightarrow> bool \<times> 's" where
  "listenForNewBlocks handler [] s = (False, s)"
| "listenForNewBlocks handler (ev # evs) s =
     (case ev of
        SubscriptionError \<Rightarrow> listenForNewBlocks handler evs s
      | HeaderReceived header \<Rightarrow> listenForNewBlocks handler evs (snd (handler header s))
      | QuitReceived \<Rightarrow> (True, s))"

section \<open>The client the poller uses\<close>

text \<open>
  The client as the \<open>Client\<close> interface of the poller, over the answers of a node during one poll. A null
  entry among the logs, a nil pointer that the log parser would dereference, is left out; numbers of 64
  bits and more are no block numbers.
\<close>

definition okOf :: "('e, 'a) result \<Rightarrow> 'a option" where
  "okOf r = (case r of Inl e \<Rightarrow> None | Inr v \<Rightarrow> Some v)"

definition ethClientOf :: "hexutil \<Rightarrow> ethereum_client_config \<Rightarrow> eth_node \<Rightarrow> eth_client" where
  "ethClientOf h cfg node =
     \<lparr>ecGetLatestBlock = okOf (eth_GetLatestBlock h cfg node),
      ecGetBlockByNumber = (\<lambda>n. if n < 2 ^ 64 then okOf (eth_GetBlockByNumber h node n) else None),
      ecGetLogs = (\<lambda>address from to. map_option (List.map_filter id) (okOf (eth_GetLogs h node address from to)))\<rparr>"

end
