(* ===== verification/Ethereum_Theorems.thy ===== *)
theory Ethereum_Theorems
  imports Ethereum_Client Poller_Theorems "HOL-Library.Multiset"
begin

text \<open>
  What the Ethereum client guarantees: how often a call is tried and how long it waits, that decoding a
  block undoes encoding it, that the parallel batch call is the sequential map, and that the client keeps
  the contract the chain poller's theorems rest on when the node answers a block request with that block.
  A node that answers \<open>null\<close> breaks that contract: the client makes a zero block of it.
\<close>

section \<open>Retries\<close>

lemma find_upt_Suc:
  "find P [0..<Suc n] = (if P 0 then Some 0 else map_option Suc (find (\<lambda>i. P (Suc i)) [0..<n]))"
proof -
  have "find P (map Suc xs) = map_option Suc (find (\<lambda>i. P (Suc i)) xs)" for xs by (induction xs) auto
  then show ?thesis by (simp add: upt_conv_Cons flip: map_Suc_upt del: upt_Suc)
qed

lemma callLoop_spec:
  "callLoop attempt i bs slept =
     (case find (\<lambda>j. \<not> isl (attempt (i + j))) [0..<length bs] of
        Some j \<Rightarrow> (attempt (i + j), slept + sum_list (take j bs))
      | None \<Rightarrow> (Inl ExceededRetries, slept + sum_list bs))"
proof (induction bs arbitrary: i slept)
  case (Cons b bs)
  show ?case
  proof (cases "attempt i")
    case (Inl e)
    then show ?thesis
      using Cons.IH [of "Suc i" "slept + b"]
      by (simp add: find_upt_Suc add.assoc del: upt_Suc split: option.splits)
  next
    case (Inr r)
    then show ?thesis by (simp add: find_upt_Suc del: upt_Suc)
  qed
qed simp

text \<open>
  \<open>Call\<close> makes at most seven attempts and returns the first response without error, after the pauses
  of the failed attempts before it; when all seven fail it reports that, having slept 129 seconds.
\<close>

theorem call_retries_with_backoff:
  "eth_Call node req =
     (case find (\<lambda>i. \<not> isl (eth_call node req i)) [0..<7] of
        Some i \<Rightarrow> (eth_call node req i, sum_list (take i [1, 3, 5, 10, 20, 30, 60]))
      | None \<Rightarrow> (Inl ExceededRetries, 129))"
proof -
  have b: "length callBackoffs = 7" "sum_list callBackoffs = 129" "[1, 3, 5, 10, 20, 30, 60] = callBackoffs"
    by (simp_all add: callBackoffs_def)
  show ?thesis
    unfolding eth_Call_def b(3) callLoop_spec b(1,2) by (simp split: option.split)
qed

section \<open>Batches\<close>

lemma concat_batchesFrom: "i \<le> length xs \<Longrightarrow> concat (batchesFrom xs i) = drop i xs"
proof (induction xs i rule: batchesFrom.induct)
  case (1 xs i)
  show ?case
  proof (cases "length xs \<le> i + chunkedBatchCallSize")
    case True
    then show ?thesis by (subst batchesFrom.simps) (simp add: Let_def)
  next
    case False
    have "take chunkedBatchCallSize (drop i xs) @ drop (i + chunkedBatchCallSize) xs = drop i xs"
      by (metis add.commute append_take_drop_id drop_drop)
    with 1 False show ?thesis by (subst batchesFrom.simps) (simp add: Let_def)
  qed
qed

lemma length_storeResponses [simp]: "length (storeResponses rs slots) = length slots"
  unfolding storeResponses_def by (induction rs arbitrary: slots) auto

lemma storeResponses_nth:
  "distinct (map fst rs) \<Longrightarrow> i < length slots \<Longrightarrow>
   storeResponses rs slots ! i = (case map_of rs i of None \<Rightarrow> slots ! i | Some r \<Rightarrow> Some r)"
proof (induction rs arbitrary: slots)
  case (Cons p rs)
  obtain j r where p: "p = (j, r)" by fastforce
  have "map_of rs j = None" using Cons.prems(1) p by (simp add: map_of_eq_None_iff)
  then show ?case using Cons p by (auto simp: storeResponses_def nth_list_update split: option.splits)
qed (simp add: storeResponses_def)

lemma length_runBatches [simp]: "length (runBatches order nodes i batches slots) = length slots"
  by (induction batches arbitrary: i slots) auto

definition responseTo :: "(nat \<Rightarrow> eth_node) \<Rightarrow> nat \<times> rpc_request \<Rightarrow> rpc_response option" where
  "responseTo nodes ireq = okOf (fst (eth_Call (nodes (fst ireq)) (snd ireq)))"

lemma batchResponses_mem:
  "distinct (map fst batch) \<Longrightarrow>
   distinct (map fst (batchResponses nodes batch)) \<and>
   map_of (batchResponses nodes batch) i = Option.bind (map_of batch i) (\<lambda>req. responseTo nodes (i, req))"
proof (induction batch)
  case (Cons p batch)
  obtain j req where p: "p = (j, req)" by fastforce
  have sub: "fst ` set (batchResponses nodes batch) \<subseteq> fst ` set batch"
    unfolding batchResponses_def by (force simp: List.map_filter_def split: sum.splits)
  have "map_of batch j = None" using Cons.prems p by (simp add: map_of_eq_None_iff)
  moreover have "map_of (batchResponses nodes batch) j = None"
    using Cons.prems p sub by (auto simp: map_of_eq_None_iff)
  ultimately show ?case
    using Cons p sub
    by (auto simp: batchResponses_def List.map_filter_def responseTo_def okOf_def split: sum.splits if_splits)
qed (simp add: batchResponses_def List.map_filter_def)

text \<open>The order in which a channel delivers its values is a permutation of them.\<close>

definition delivers :: "(nat \<Rightarrow> 'a list \<Rightarrow> 'a list) \<Rightarrow> bool" where
  "delivers order \<longleftrightarrow> (\<forall>j rs. mset (order j rs) = mset rs)"

lemma delivers_map_of:
  assumes "delivers order" "distinct (map fst rs)"
  shows "distinct (map fst (order j rs))" "map_of (order j rs) = map_of rs"
proof -
  have m: "mset (order j rs) = mset rs" using assms(1) by (simp add: delivers_def)
  then have "mset (map fst (order j rs)) = mset (map fst rs)" by simp
  then show d: "distinct (map fst (order j rs))" using assms(2) mset_eq_imp_distinct_iff by blast
  have "set (order j rs) = set rs" using m by (metis set_mset_mset)
  then show "map_of (order j rs) = map_of rs" using map_of_inject_set [OF d assms(2)] by simp
qed

lemma runBatches_nth:
  assumes "delivers order" "distinct (map fst (concat batches))" "i < length slots"
  shows "runBatches order nodes j batches slots ! i =
    (case map_of (concat batches) i of
       None \<Rightarrow> slots ! i
     | Some req \<Rightarrow> (case responseTo nodes (i, req) of None \<Rightarrow> slots ! i | Some r \<Rightarrow> Some r))"
  using assms(2,3)
proof (induction batches arbitrary: j slots)
  case (Cons batch batches)
  have d: "distinct (map fst batch)" "distinct (map fst (concat batches))"
    "fst ` set batch \<inter> fst ` set (concat batches) = {}"
    using Cons.prems(1) by auto
  note resp = batchResponses_mem [OF d(1), of nodes, THEN conjunct1] batchResponses_mem [OF d(1), of nodes i, THEN conjunct2]
  note del = delivers_map_of [OF assms(1) resp(1), of j]
  have here: "storeResponses (order j (batchResponses nodes batch)) slots ! i =
      (case map_of (batchResponses nodes batch) i of None \<Rightarrow> slots ! i | Some r \<Rightarrow> Some r)"
    using storeResponses_nth [OF del(1) Cons.prems(2)] del(2) by simp
  have "map_of batch i = None \<or> map_of (concat batches) i = None"
    using d(3) by (auto simp: map_of_eq_None_iff)
  then show ?case using Cons.IH [OF d(2)] Cons.prems(2) here resp(2)
    by (auto simp: map_add_def split: option.splits)
qed simp

text \<open>
  C28. \<open>BatchCall\<close> cuts the requests into batches and runs the calls of a batch in parallel; the result is
  nevertheless the list of what \<open>Call\<close> gives for each request, in the order of the requests, with nil for
  the calls that failed, whatever the order in which the responses arrive. It never returns an error.
\<close>

theorem batch_call_is_map:
  assumes "delivers order"
  shows "eth_BatchCall order nodes requests = Inr (map (responseTo nodes) (List.enumerate 0 requests))"
proof (cases "requests = []")
  case False
  let ?reqs = "List.enumerate 0 requests"
  let ?res = "runBatches order nodes 0 (batchesFrom ?reqs 0) (replicate (length requests) None)"
  have c: "concat (batchesFrom ?reqs 0) = ?reqs" using concat_batchesFrom [of 0 ?reqs] by simp
  have "?res = map (responseTo nodes) ?reqs"
  proof (rule nth_equalityI)
    fix i assume "i < length ?res"
    then have i: "i < length requests" by simp
    then have "map_of ?reqs i = Some (requests ! i)"
      by (intro map_of_is_SomeI) (auto simp: in_set_enumerate_eq)
    then show "?res ! i = map (responseTo nodes) ?reqs ! i"
      using runBatches_nth [OF assms, of "batchesFrom ?reqs 0" i "replicate (length requests) None" nodes 0] i c
      by (simp add: nth_enumerate_eq split: option.splits)
  qed simp
  then show ?thesis using False by (simp add: eth_BatchCall_def chunkedBatchCall_def Let_def)
qed (simp add: eth_BatchCall_def)


section \<open>JSON forms\<close>

text \<open>
  The values for which the JSON form is exact: hex strings in lower case that need no escape, \<open>uint64\<close>
  quantities and integers of up to 256 bits.
\<close>

definition hex_wf :: "string \<Rightarrow> bool" where
  "hex_wf s \<longleftrightarrow> list_all plainChar s \<and> toLower s = s"

definition transaction_wf :: "ethereum_transaction \<Rightarrow> bool" where
  "transaction_wf t \<longleftrightarrow>
     list_all hex_wf [etx_BlockHash t, etx_From t, etx_Hash t, etx_Input t, etx_To t, etx_V t, etx_R t, etx_S t] \<and>
     list_all (\<lambda>n. n < 2 ^ 64) [etx_BlockNumber t, etx_Gas t, etx_Index t, etx_Nonce t, etx_Type t] \<and>
     pred_option (\<lambda>n. n < 2 ^ 64) (etx_ChainId t) \<and>
     list_all (\<lambda>i. 0 \<le> i \<and> i < 2 ^ 256) [etx_GasPrice t, etx_Value t]"

definition block_wf :: "ethereum_block \<Rightarrow> bool" where
  "block_wf b \<longleftrightarrow> list_all hex_wf [eb_Hash b, eb_ParentHash b, eb_Nonce b] \<and>
     list_all (\<lambda>n. n < 2 ^ 64) [eb_Number b, eb_Timestamp b, eb_ChainId b] \<and>
     list_all (pred_option transaction_wf) (eb_Transactions b)"

lemma jsonMember_Cons:
  "jsonMember ((k, v) # m) name = (if toLower k = toLower name then v else jsonMember m name)"
  by (simp add: jsonMember_def jsonLookup_def equalFold_def)

lemma member_names:
  "toLower ''blockHash'' = ''blockhash''" "toLower ''blockNumber'' = ''blocknumber''" "toLower ''from'' = ''from''"
  "toLower ''gas'' = ''gas''" "toLower ''gasPrice'' = ''gasprice''" "toLower ''hash'' = ''hash''"
  "toLower ''input'' = ''input''" "toLower ''to'' = ''to''" "toLower ''transactionIndex'' = ''transactionindex''"
  "toLower ''value'' = ''value''" "toLower ''nonce'' = ''nonce''" "toLower ''v'' = ''v''" "toLower ''r'' = ''r''"
  "toLower ''s'' = ''s''" "toLower ''chainId'' = ''chainid''" "toLower ''type'' = ''type''"
  "toLower ''parentHash'' = ''parenthash''" "toLower ''number'' = ''number''" "toLower ''timestamp'' = ''timestamp''"
  "toLower ''transactions'' = ''transactions''" "toLower ''ChainId'' = ''chainid''"
  by code_simp+

lemma hex_roundtrip: "hex_wf s \<Longrightarrow> hexString_MarshalJSON s = Some (JString s) \<and> hexString_UnmarshalJSON (JString s) = Some s"
  by (simp add: hex_wf_def hexString_MarshalJSON_def hexString_UnmarshalJSON_def unmarshalString_def)

lemma quantity_roundtrip:
  "hexutil_ok h \<Longrightarrow> n < 2 ^ 64 \<Longrightarrow> quantity_UnmarshalJSON h (quantity_MarshalJSON h n) = Some n"
  by (simp add: hexutil_ok_def quantity_UnmarshalJSON_def quantity_MarshalJSON_def)

lemma bigQuantity_roundtrip:
  "hexutil_ok h \<Longrightarrow> 0 \<le> i \<and> i < 2 ^ 256 \<Longrightarrow> bigQuantity_UnmarshalJSON h (bigQuantity_MarshalJSON h i) = Some i"
  by (simp add: hexutil_ok_def bigQuantity_UnmarshalJSON_def bigQuantity_MarshalJSON_def unmarshalString_def)

lemma unmarshalPointer_simps [simp]:
  "unmarshalPointer decode JNull = Some None" "unmarshalPointer decode (JObject m) = map_option Some (decode (JObject m))"
  "unmarshalPointer decode (JString s) = map_option Some (decode (JString s))"
  by (simp_all add: unmarshalPointer_def)

lemma pointer_roundtrip:
  "hexutil_ok h \<Longrightarrow> pred_option (\<lambda>n. n < 2 ^ 64) p \<Longrightarrow>
   unmarshalPointer (quantity_UnmarshalJSON h) (marshalPointer (quantity_MarshalJSON h) p) = Some p"
  using quantity_roundtrip
  by (cases p) (auto simp: marshalPointer_def quantity_MarshalJSON_def)

lemma uint64_roundtrip: "n < 2 ^ 64 \<Longrightarrow> unmarshalUint64 (JNumber (of_nat n)) = Some n"
proof -
  assume "n < 2 ^ 64"
  then have "int n \<le> 2 ^ 64 - 1" by simp
  then show ?thesis by (simp add: unmarshalUint64_def unmarshalInteger_def)
qed

lemmas json_roundtrips = hex_roundtrip quantity_roundtrip bigQuantity_roundtrip pointer_roundtrip uint64_roundtrip

lemma transaction_roundtrip:
  assumes "hexutil_ok h" "transaction_wf t"
  shows "\<exists>j. transaction_MarshalJSON h t = Some (JObject j) \<and> transaction_UnmarshalJSON h (JObject j) = Some t"
  using assms
  by (simp add: transaction_wf_def transaction_MarshalJSON_def transaction_UnmarshalJSON_def unmarshalStruct_def
      jsonMember_Cons member_names json_roundtrips)

lemma transactions_roundtrip:
  assumes "hexutil_ok h" "list_all (pred_option transaction_wf) ts"
  shows "\<exists>js. those (map (\<lambda>t. case t of None \<Rightarrow> Some JNull | Some t \<Rightarrow> transaction_MarshalJSON h t) ts) = Some js \<and>
    those (map (unmarshalPointer (transaction_UnmarshalJSON h)) js) = Some ts"
  using assms(2)
proof (induction ts)
  case (Cons t ts)
  then obtain js where js: "those (map (\<lambda>t. case t of None \<Rightarrow> Some JNull | Some t \<Rightarrow> transaction_MarshalJSON h t) ts) = Some js"
    "those (map (unmarshalPointer (transaction_UnmarshalJSON h)) js) = Some ts" by auto
  show ?case
  proof (cases t)
    case None
    with js show ?thesis by simp
  next
    case (Some tx)
    with transaction_roundtrip [OF assms(1), of tx] Cons.prems
    obtain j where "transaction_MarshalJSON h tx = Some (JObject j)" "transaction_UnmarshalJSON h (JObject j) = Some tx" by auto
    with js Some show ?thesis by simp
  qed
qed simp


section \<open>The contract of the poller\<close>

text \<open>
  A node that answers a request for block \<open>n\<close> with a block of that number, written in hexadecimal. A block
  in JSON-RPC has no chain id.
\<close>

definition node_answers_blocks :: "hexutil \<Rightarrow> eth_node \<Rightarrow> bool" where
  "node_answers_blocks h node \<longleftrightarrow>
     (\<forall>n < 2 ^ 64. \<forall>res j. fst (eth_Call node (getBlockByNumberRequest h n 1)) = Inr res \<and> rp_Result res = Some j \<longrightarrow>
        (\<exists>m. j = JObject m \<and> jsonMember m ''number'' = JString (hex_EncodeUint64 h n) \<and> jsonMember m ''ChainId'' = JNull))"

lemma quantity_bounded: "hexutil_ok h \<Longrightarrow> quantity_UnmarshalJSON h j = Some n \<Longrightarrow> n < 2 ^ 64"
  by (auto simp: hexutil_ok_def quantity_UnmarshalJSON_def unmarshalUint64_def unmarshalInteger_def
      split: json.splits if_splits)

lemma block_number_bounded: "hexutil_ok h \<Longrightarrow> block_UnmarshalJSON h j = Some b \<Longrightarrow> eb_Number b < 2 ^ 64"
  using quantity_bounded
  by (fastforce simp: block_UnmarshalJSON_def unmarshalStruct_def zeroBlock_def bind_eq_Some_conv split: json.splits)

lemma block_number_decoded:
  assumes "hexutil_ok h" "n < 2 ^ 64" "jsonMember m ''number'' = JString (hex_EncodeUint64 h n)" "jsonMember m ''ChainId'' = JNull"
    and "block_UnmarshalJSON h (JObject m) = Some b"
  shows "eb_Number b = n \<and> eb_ChainId b = 0"
  using assms(3-5) quantity_roundtrip [OF assms(1,2)]
  by (auto simp: block_UnmarshalJSON_def unmarshalStruct_def bind_eq_Some_conv quantity_MarshalJSON_def
      unmarshalUint64_def unmarshalInteger_def)

lemma callAndParse_Inr:
  "callAndParse node req parse = Inr v \<longleftrightarrow>
     (\<exists>res j. fst (eth_Call node req) = Inr res \<and> rp_Result res = Some j \<and> parse j = Some v)"
  by (auto simp: callAndParse_def bind_eq_Some_conv split: sum.splits option.splits)

lemma okOf_Some [simp]: "okOf r = Some v \<longleftrightarrow> r = Inr v"
  by (simp add: okOf_def split: sum.splits)

lemma ethClientOf_ok:
  assumes "hexutil_ok h" "node_answers_blocks h node"
  shows "client_ok (ethClientOf h cfg node)"
  unfolding client_ok_def
proof (intro allI impI)
  fix n b assume "ecGetBlockByNumber (ethClientOf h cfg node) n = Some b"
  then have n: "n < 2 ^ 64" and "callAndParse node (getBlockByNumberRequest h n 1) (block_UnmarshalJSON h) = Inr b"
    by (auto simp: ethClientOf_def eth_GetBlockByNumber_def split: if_splits)
  then obtain res j where "fst (eth_Call node (getBlockByNumberRequest h n 1)) = Inr res" "rp_Result res = Some j"
    and b: "block_UnmarshalJSON h j = Some b" by (auto simp: callAndParse_Inr)
  with assms(2) n obtain m where m: "j = JObject m" "jsonMember m ''number'' = JString (hex_EncodeUint64 h n)"
    "jsonMember m ''ChainId'' = JNull" by (fastforce simp: node_answers_blocks_def)
  show "eb_Number b = n \<and> eb_ChainId b = 0" using block_number_decoded [OF assms(1) n m(2,3)] b m(1) by simp
qed

lemma ethClientOf_latest:
  "hexutil_ok h \<Longrightarrow> ecGetLatestBlock (ethClientOf h cfg node) = Some n \<Longrightarrow> n < 2 ^ 64"
proof -
  assume h: "hexutil_ok h" and l: "ecGetLatestBlock (ethClientOf h cfg node) = Some n"
  then obtain b req where "callAndParse node req (block_UnmarshalJSON h) = Inr b" "n = eb_Number b"
    by (auto simp: ethClientOf_def eth_GetLatestBlock_def Let_def map_sum_def id_def split: sum.splits)
  then show ?thesis using block_number_bounded [OF h] by (auto simp: callAndParse_Inr)
qed


section \<open>Unknown blocks\<close>

text \<open>JSON-RPC answers a request for a block the node does not have with the result \<open>null\<close>.\<close>

definition answers_null :: "eth_node \<Rightarrow> rpc_request \<Rightarrow> bool" where
  "answers_null node req \<longleftrightarrow> (\<exists>res. fst (eth_Call node req) = Inr res \<and> rp_Result res = Some JNull)"

lemma null_block_is_zero:
  "answers_null node (getBlockByNumberRequest h n 1) \<Longrightarrow> eth_GetBlockByNumber h node n = Inr zeroBlock"
  by (auto simp: answers_null_def eth_GetBlockByNumber_def callAndParse_def block_UnmarshalJSON_def unmarshalStruct_def)

lemma null_latest_is_zero:
  "answers_null node (if ecc_BlockType cfg = ''latest'' then getLatestBlockRequest 1 else getSafeBlockRequest 1) \<Longrightarrow>
   eth_GetLatestBlock h cfg node = Inr 0"
  by (auto simp: answers_null_def eth_GetLatestBlock_def callAndParse_def block_UnmarshalJSON_def unmarshalStruct_def
      zeroBlock_def Let_def)

context task_store
begin

lemma zero_block_reorg:
  assumes "invar s" "\<not> is_closed s" "0 < pc_MaxReorgDepth cfg" "pc_MaxReorgDepth cfg < 2 ^ 63"
    and "ecGetBlockByNumber ec (2 ^ 64 - 1) = Some zeroBlock"
    and "blocksOf s (pc_AvsAddress cfg, pc_ChainId cfg, 2 ^ 64 - 1) = None"
  shows "\<exists>s'. findOrphanedBlocks ops cfg ec zeroBlock s = (Inr [], s') \<and> invar s' \<and> tasksOf s' = tasksOf s \<and>
    blocksOf s' = (blocksOf s)((pc_AvsAddress cfg, 0, 0) \<mapsto> recordOfBlock 0 zeroBlock)"
proof -
  have "0 < u64_of_int (pc_MaxReorgDepth cfg)" using assms(3,4) by (simp add: u64_of_int_def)
  then obtain d where d: "u64_of_int (pc_MaxReorgDepth cfg) = Suc d" using gr0_conv_Suc by blast
  obtain s' where s': "sSaveBlock ops s (pc_AvsAddress cfg) (Some (recordOfBlock 0 zeroBlock)) = (None, s')" "invar s'"
    "tasksOf s' = tasksOf s"
    "blocksOf s' = (blocksOf s)((pc_AvsAddress cfg, 0, 0) \<mapsto> recordOfBlock 0 zeroBlock)"
    using saveBlock [OF assms(1,2), of "pc_AvsAddress cfg" "recordOfBlock 0 zeroBlock"]
    by (auto simp: recordOfBlock_def zeroBlock_def)
  have "(eb_Number zeroBlock + 2 ^ 64 - 1) mod 2 ^ 64 = (2 ^ 64 - 1 :: nat)" "eb_ChainId zeroBlock = 0"
    by (simp_all add: zeroBlock_def)
  moreover have "sGetBlock ops s (pc_AvsAddress cfg) (pc_ChainId cfg) (2 ^ 64 - 1) = Inl ErrNotFound"
    using getBlock [OF assms(1,2)] assms(6) by simp
  ultimately show ?thesis
    using s' assms(5) d by (simp add: findOrphanedBlocks_def Let_def)
qed

end

text \<open>
  C38. A node that has announced a block but answers \<open>null\<close> when asked for it (another replica behind the
  same URL, a moment later) is not seen as an error: the client makes a block with empty hashes and
  number 0 of the answer. The poller takes its empty parent hash for a reorganisation, searches from block
  0 downwards, that is from the number \<open>2^64 - 1\<close>, stores an empty block under chain 0 and reports that it
  found no orphaned blocks.
\<close>

theorem null_block_taken_for_reorg:
  assumes "mem_invar (ps_store ps)" "\<not> ms_closed (ps_store ps)" "0 < pc_MaxReorgDepth cfg" "pc_MaxReorgDepth cfg < 2 ^ 63"
    and "mem_GetLastProcessedBlock (ps_store ps) (pc_AvsAddress cfg) (pc_ChainId cfg) = Inr latest" "br_Hash latest \<noteq> []"
    and "eth_GetLatestBlock h ccfg node = Inr tip" "br_Number latest < tip" "tip < 2 ^ 64"
    and "answers_null node (getBlockByNumberRequest h (br_Number latest + 1) 1)"
    and "answers_null node (getBlockByNumberRequest h (2 ^ 64 - 1) 1)"
    and "mem_blocksOf (ps_store ps) (pc_AvsAddress cfg, pc_ChainId cfg, 2 ^ 64 - 1) = None"
  shows "\<exists>s'. processNextBlock memory_ops cfg env (ethClientOf h ccfg node) ps = (PollReorg (Some NoOrphans), ps\<lparr>ps_store := s'\<rparr>) \<and>
    mem_blocksOf s' = (mem_blocksOf (ps_store ps))((pc_AvsAddress cfg, 0, 0) \<mapsto> recordOfBlock 0 zeroBlock)"
proof -
  let ?ec = "ethClientOf h ccfg node"
  have tip: "ecGetLatestBlock ?ec = Some tip" using assms(7) by (simp add: ethClientOf_def)
  have far: "ecGetBlockByNumber ?ec (2 ^ 64 - 1) = Some zeroBlock"
    using null_block_is_zero [OF assms(11)] by (simp add: ethClientOf_def)
  have next_block: "ecGetBlockByNumber ?ec (br_Number latest + 1) = Some zeroBlock"
    using null_block_is_zero [OF assms(10)] assms(8,9) by (simp add: ethClientOf_def)
  have last: "sGetLastProcessedBlock memory_ops (ps_store ps) (pc_AvsAddress cfg) (pc_ChainId cfg) = Inr latest"
    using assms(5) by (simp add: memory_ops_def)
  from mem.zero_block_reorg [OF assms(1-4) far assms(12)] obtain s' where
    "findOrphanedBlocks memory_ops cfg ?ec zeroBlock (ps_store ps) = (Inr [], s')"
    and s': "mem_blocksOf s' = (mem_blocksOf (ps_store ps))((pc_AvsAddress cfg, 0, 0) \<mapsto> recordOfBlock 0 zeroBlock)" by auto
  then have "reconcileReorg memory_ops cfg ?ec zeroBlock ps = (Some NoOrphans, ps\<lparr>ps_store := s'\<rparr>)"
    by (simp add: reconcileReorg_def)
  moreover have "[br_Number latest + 1..<tip + 1] = (br_Number latest + 1) # [br_Number latest + 2..<tip + 1]"
    using assms(8) by (simp add: upt_conv_Cons)
  moreover have "eb_ParentHash zeroBlock = []" by (simp add: zeroBlock_def)
  ultimately show ?thesis
    using tip last next_block assms(6,8) s' by (auto simp: processNextBlock_def simp del: upt_Suc)
qed

end
