(* ===== verification/Log_Theorems.thy ===== *)
theory Log_Theorems
  imports Poller_Theorems
begin

text \<open>
  From a log of the chain to a stored task: what \<open>DecodeLog\<close> makes of a \<open>TaskCreated\<close> log, that the
  poller turns it into one pending task, and what a log that cannot be decoded does to the poller.
\<close>

section \<open>Decoding\<close>

lemma argumentOf_simps [simp]:
  "arg_Name (argumentOf input) = aa_Name input" "arg_Value (argumentOf input) = ArgNil"
  "arg_Indexed (argumentOf input) = aa_Indexed input"
  by (simp_all add: argumentOf_def)

text \<open>
  A log that carries the topics and data of \<open>TaskCreated\<close>: the contract of its address is known and its
  ABI names the event, whose first three inputs are an address, a 32 byte word and an address; the data is
  the hexadecimal form of bytes that the ABI unpacks to \<open>out\<close>.
\<close>

definition is_task_log ::
  "eth_common \<Rightarrow> abi_lib \<Rightarrow> contract_store \<Rightarrow> ethereum_event_log \<Rightarrow> string \<Rightarrow> string \<Rightarrow> (string \<times> out_value) list \<Rightarrow> bool" where
  "is_task_log eth lib store lg taskHash avs out \<longleftrightarrow>
     (\<exists>c a event signature creator i0 i1 i2 rest data.
        getContractByAddress store (el_Address lg) = Some c \<and> getAbi lib c = Inr a \<and>
        el_Topics lg = [signature, creator, taskHash, avs] \<and>
        abi_EventByID a (hexToHash eth signature) = Some event \<and> ev_RawName event = ''TaskCreated'' \<and>
        ev_Inputs event = i0 # i1 # i2 # rest \<and>
        at_T (aa_Type i0) = AddressTy \<and> at_T (aa_Type i1) = FixedBytesTy \<and> at_T (aa_Type i2) = AddressTy \<and>
        el_Data lg = ''0x'' @ hexEncodeToString data \<and> abi_UnpackIntoMap a (ev_Name event) data = Some out)"

lemma decodeLog_task:
  assumes "is_task_log eth lib store lg taskHash avs out"
  shows "\<exists>dl. decodeLog eth lib store None lg = Inr dl \<and> dl_EventName dl = ''TaskCreated'' \<and>
    dl_Address dl = addressString eth (hexToAddress eth (el_Address lg)) \<and> 3 \<le> length (dl_Arguments dl) \<and>
    arg_Value (dl_Arguments dl ! 1) = ArgString taskHash \<and>
    arg_Value (dl_Arguments dl ! 2) = ArgAddress (hexToAddress eth avs) \<and> dl_OutputData dl = Some out"
  using assms unfolding is_task_log_def
  by (elim exE conjE) (simp add: decodeLog_def decodeLogWith_def parseLogValueForType_def Let_def numeral_2_eq_2)

text \<open>The task a \<open>TaskCreated\<close> log stands for, by its topics and its unpacked data.\<close>

definition taskOfLog :: "eth_common \<Rightarrow> ethereum_event_log \<Rightarrow> string \<Rightarrow> string \<Rightarrow> output_data \<Rightarrow> nat \<Rightarrow> ethereum_block \<Rightarrow> task" where
  "taskOfLog eth lg taskHash avs od deadline block =
     \<lparr>task_TaskId = taskHash, task_AVSAddress = toLower (addressString eth (hexToAddress eth avs)),
      task_OperatorSetId = od_ExecutorOperatorSetId od,
      task_CallbackAddr = addressString eth (hexToAddress eth (el_Address lg)), task_DeadlineUnixSeconds = Some (int deadline),
      task_ThresholdBips = 0, task_Payload = od_Payload od, task_ChainId = eb_ChainId block,
      task_SourceBlockNumber = eb_Number block, task_L1ReferenceBlockNumber = 0,
      task_ReferenceTimestamp = od_OperatorTableReferenceTimestamp od, task_BlockHash = eb_Hash block, task_Version = 1,
      task_Context = None\<rparr>"

lemma task_log_converts:
  assumes "is_task_log eth lib store lg taskHash avs out" "json_fields od_zero (sort_key fst out) = Some od"
    and "od_TaskDeadline od = Some deadline" "deadline < 2 ^ 63"
  shows "\<exists>dl. decodeLog eth lib store None lg = Inr dl \<and> dl_EventName dl = ''TaskCreated'' \<and>
    dl_Address dl = addressString eth (hexToAddress eth (el_Address lg)) \<and>
    newTaskFromLog (addressString eth) dl block (dl_Address dl) = Inr (taskOfLog eth lg taskHash avs od deadline block)"
proof -
  from decodeLog_task [OF assms(1)] obtain dl where dl: "decodeLog eth lib store None lg = Inr dl"
    "dl_EventName dl = ''TaskCreated''" "dl_Address dl = addressString eth (hexToAddress eth (el_Address lg))"
    "3 \<le> length (dl_Arguments dl)" "arg_Value (dl_Arguments dl ! 1) = ArgString taskHash"
    "arg_Value (dl_Arguments dl ! 2) = ArgAddress (hexToAddress eth avs)" "dl_OutputData dl = Some out" by blast
  then have "newTaskFromLog (addressString eth) dl block (dl_Address dl) = Inr (taskOfLog eth lg taskHash avs od deadline block)"
    using assms(2-4) by (simp add: newTaskFromLog_def taskOfLog_def)
  with dl show ?thesis by blast
qed

section \<open>From the chain to the store\<close>

text \<open>The poller with this log parser.\<close>

definition decodes_with :: "poller_env \<Rightarrow> eth_common \<Rightarrow> abi_lib \<Rightarrow> contract_store \<Rightarrow> bool" where
  "decodes_with env eth lib store \<longleftrightarrow>
     (\<forall>lg. pe_DecodeLog env lg = decodeLog eth lib store None lg) \<and> pe_addrString env = addressString eth \<and>
     (\<forall>c. pe_Mailbox env c = map_option (\<lambda>co. Some (co_Address co)) (getContractByNameForChainId store ''TaskMailbox'' c))"

context cursor_store
begin

lemma processTask_creates:
  assumes "invar (ps_store ps)" "\<not> is_closed (ps_store ps)" "pe_room env (ps_queue ps)"
    and "newTaskFromLog (pe_addrString env) (lwb_Log lwb) (lwb_Block lwb) (dl_Address (lwb_Log lwb)) = Inr t"
    and "task_DeadlineUnixSeconds t \<noteq> None" "equalFold (task_AVSAddress t) (pc_AvsAddress cfg)"
    and "tasksOf (ps_store ps) (task_TaskId t) = None" "task_TaskId t \<noteq> []" "storable t"
  shows "\<exists>c ps'. processTask ops cfg env lwb ps = (None, ps') \<and> ps_queue ps' = ps_queue ps @ [t\<lparr>task_Context := Some c\<rparr>] \<and>
    invar (ps_store ps') \<and> \<not> is_closed (ps_store ps') \<and> blocksOf (ps_store ps') = blocksOf (ps_store ps) \<and>
    tasksOf (ps_store ps') = (tasksOf (ps_store ps))(task_TaskId t \<mapsto> (task_persist t, TaskStatusPending))"
proof -
  obtain c cm where ctx: "getContext (ps_cm ps) (eb_Number (lwb_Block lwb)) t = Some (c, cm)"
    using assms(5) by (cases "getContext (ps_cm ps) (eb_Number (lwb_Block lwb)) t")
      (auto simp: getContext_def Let_def split: option.splits)
  let ?t = "t\<lparr>task_Context := Some c\<rparr>"
  have "task_TaskId ?t \<noteq> []" "storable ?t" "tasksOf (ps_store ps) (task_TaskId ?t) = None"
    using assms(7-9) by (simp_all add: storable_def)
  from savePending_fresh [OF assms(1,2) this, of "pe_now env"] obtain s' where
    s': "sSavePendingTask ops (pe_now env) (ps_store ps) (Some ?t) = (None, s')" "invar s'" "\<not> is_closed s'"
    "tasksOf s' = (tasksOf (ps_store ps))(task_TaskId t \<mapsto> (task_persist t, TaskStatusPending))"
    "blocksOf s' = blocksOf (ps_store ps)"
    by (auto simp: task_persist_def)
  have "sGetTask ops (ps_store ps) (task_TaskId t) = Inl ErrNotFound"
    using getTask [OF assms(1,2), of "task_TaskId t"] assms(7) by simp
  with s' ctx assms(3,4,6) show ?thesis
    by (auto simp: processTask_def Let_def)
qed

lemma processBlockLogs_keeps_tasks:
  assumes "fetchLogsForInterestingContractsForBlock cfg ec (eb_Number block) = Some logs"
    and "handleLogs ops cfg env (block\<lparr>eb_ChainId := pc_ChainId cfg\<rparr>) logs ps = (None, ps1)"
    and "invar (ps_store ps1)" "\<not> is_closed (ps_store ps1)" "processBlockLogs ops cfg env ec block ps = (r, ps')"
  shows "(\<exists>rec. r = Inr rec) \<and> ps_queue ps' = ps_queue ps1 \<and> tasksOf (ps_store ps') = tasksOf (ps_store ps1)"
proof -
  let ?avs = "pc_AvsAddress cfg" and ?rec = "recordOfBlock (pc_ChainId cfg) (block\<lparr>eb_ChainId := pc_ChainId cfg\<rparr>)"
  from saveBlock [OF assms(3,4), of ?avs ?rec] obtain s2 where
    s2: "sSaveBlock ops (ps_store ps1) ?avs (Some ?rec) = (None, s2)" "invar s2" "\<not> is_closed s2"
    "tasksOf s2 = tasksOf (ps_store ps1)" by blast
  have "tasksOf (snd (sDeleteBlock ops s2 ?avs (pc_ChainId cfg) n)) = tasksOf s2" for n
    using deleteBlock_keeps [OF s2(2,3)] by (metis prod.collapse)
  then show ?thesis using assms(1,2,5) s2 by (auto simp: processBlockLogs_def Let_def split: if_splits)
qed

lemma handleLogs_undecodable:
  "lg \<in> set logs \<Longrightarrow> pe_DecodeLog env lg = Inl e \<Longrightarrow> fst (handleLogs ops cfg env block logs ps) \<noteq> None"
  by (induction logs arbitrary: ps) (auto split: sum.splits prod.splits option.splits)

lemma undecodable_keeps_block:
  assumes "invar (ps_store ps)" "\<not> is_closed (ps_store ps)" "config_ok cfg"
    and "sGetLastProcessedBlock ops (ps_store ps) (pc_AvsAddress cfg) (pc_ChainId cfg) = Inr latest"
    and "ecGetLatestBlock ec = Some tip" "br_Number latest < tip"
    and "ecGetBlockByNumber ec (Suc (br_Number latest)) = Some block" "eb_ParentHash block = br_Hash latest"
    and "fetchLogsForInterestingContractsForBlock cfg ec (eb_Number block) = Some logs" "lg \<in> set logs"
    and "pe_DecodeLog env lg = Inl e"
  shows "\<exists>e ps'. processNextBlock ops cfg env ec ps = (PollFailed e, ps') \<and> same_blocks (ps_store ps) (ps_store ps')"
proof -
  obtain e1 ps1 where h: "handleLogs ops cfg env (block\<lparr>eb_ChainId := pc_ChainId cfg\<rparr>) logs ps = (Some e1, ps1)"
    using handleLogs_undecodable [OF assms(10,11)] by (metis option.exhaust prod.exhaust_sel)
  then have "processBlockLogs ops cfg env ec block ps = (Inl e1, ps1)" using assms(9) by (simp add: processBlockLogs_def)
  moreover have "[br_Number latest + 1..<tip + 1] = Suc (br_Number latest) # [br_Number latest + 2..<tip + 1]"
    using assms(6) by (simp add: upt_conv_Cons)
  ultimately have "processNextBlock ops cfg env ec ps = (PollFailed e1, ps1)"
    using assms(4-8) by (simp add: processNextBlock_def del: upt_Suc)
  then show ?thesis using handleLogs_same [OF assms(1,2) h] by blast
qed

end


text \<open>
  A log with a topic that is no event of its contract's ABI, and a node that has a block with it above the
  last processed block.
\<close>

definition unknown_event :: "eth_common \<Rightarrow> abi_lib \<Rightarrow> contract_store \<Rightarrow> ethereum_event_log \<Rightarrow> bool" where
  "unknown_event eth lib store lg \<longleftrightarrow>
     (\<exists>c a. getContractByAddress store (el_Address lg) = Some c \<and> getAbi lib c = Inr a \<and> el_Topics lg \<noteq> [] \<and>
        abi_EventByID a (hexToHash eth (el_Topics lg ! 0)) = None)"

lemma decodeLog_unknown: "unknown_event eth lib store lg \<Longrightarrow> decodeLog eth lib store None lg = Inl EventNotFound"
  by (auto simp: unknown_event_def decodeLog_def decodeLogWith_def)

definition offers_block :: "poller_config \<Rightarrow> eth_client \<Rightarrow> block_record \<Rightarrow> ethereum_event_log \<Rightarrow> bool" where
  "offers_block cfg ec latest lg \<longleftrightarrow>
     (\<exists>tip block logs. ecGetLatestBlock ec = Some tip \<and> br_Number latest < tip \<and>
        ecGetBlockByNumber ec (Suc (br_Number latest)) = Some block \<and> eb_ParentHash block = br_Hash latest \<and>
        fetchLogsForInterestingContractsForBlock cfg ec (eb_Number block) = Some logs \<and> lg \<in> set logs)"

text \<open>
  C37. A log whose event the contract's ABI does not know stops the poller at its block: \<open>DecodeLog\<close>
  returns an error for it and the poller gives up the block, so that, as long as the chain keeps the block,
  the last processed block stays the one before, however often it polls.
\<close>

theorem unknown_event_stalls_poller:
  assumes "mem_invar (ps_store ps)" "\<not> ms_closed (ps_store ps)" "config_ok cfg"
    and "mem_GetLastProcessedBlock (ps_store ps) (pc_AvsAddress cfg) (pc_ChainId cfg) = Inr latest"
    and "unknown_event eth lib store lg"
    and "\<forall>(env, ec)\<in>set ticks. decodes_with env eth lib store \<and> offers_block cfg ec latest lg"
  shows "mem_GetLastProcessedBlock (ps_store (pollForBlocks memory_ops cfg ticks ps)) (pc_AvsAddress cfg) (pc_ChainId cfg) = Inr latest"
  using assms(1,2,4,6)
proof (induction ticks arbitrary: ps)
  case (Cons tick ticks)
  obtain env ec where tick: "tick = (env, ec)" by fastforce
  have get: "sGetLastProcessedBlock memory_ops = mem_GetLastProcessedBlock" by (simp add: memory_ops_def)
  from Cons.prems(4) tick have "decodes_with env eth lib store" "offers_block cfg ec latest lg" by auto
  then have "pe_DecodeLog env lg = Inl EventNotFound" using decodeLog_unknown [OF assms(5)] by (simp add: decodes_with_def)
  with \<open>offers_block cfg ec latest lg\<close> memc.undecodable_keeps_block [OF Cons.prems(1,2) assms(3), of latest ec _ _ _ lg env]
  obtain e ps1 where "processNextBlock memory_ops cfg env ec ps = (PollFailed e, ps1)" "memc.same_blocks (ps_store ps) (ps_store ps1)"
    using Cons.prems(3) unfolding offers_block_def get by blast
  then show ?case
    using Cons.IH [of ps1] Cons.prems(3,4) tick unfolding memc.same_blocks_def get by (simp add: pollForBlocks_def)
qed (simp add: pollForBlocks_def)

section \<open>Topics and inputs\<close>

text \<open>
  Topics are matched with the inputs by position, not with the indexed inputs: after an input that is not
  indexed, a topic lands in the wrong argument.
\<close>

lemma indexed_argument_misplaced:
  assumes "abi_EventByID a (hexToHash eth signature) = Some event" "ev_Inputs event = [i0, i1]"
    and "\<not> aa_Indexed i0" "at_T (aa_Type i0) = StringTy" "aa_Indexed i1"
    and "el_Topics lg = [signature, topic]" "el_Data lg = []"
  shows "\<exists>dl. decodeLogWith eth lib a lg = Inr dl \<and>
    map arg_Indexed (dl_Arguments dl) = [False, True] \<and> map arg_Value (dl_Arguments dl) = [ArgString topic, ArgNil]"
  using assms by (simp add: decodeLogWith_def parseLogValueForType_def)

text \<open>A log with more topics than the event has inputs ends the program.\<close>

lemma assignTopics_overflow: "i \<le> length inputs \<Longrightarrow> length inputs < i + length params \<Longrightarrow> assignTopics eth lib inputs i params args = None"
  by (induction params arbitrary: i args) (auto split: parse_outcome.splits)

lemma too_many_topics_panic:
  assumes "abi_EventByID a (hexToHash eth (el_Topics lg ! 0)) = Some event" "length (ev_Inputs event) + 1 < length (el_Topics lg)"
  shows "decodeLogWith eth lib a lg = Inl DecodePanic"
  using assms assignTopics_overflow [of 0 "ev_Inputs event" "drop 1 (el_Topics lg)"]
  by (cases "el_Topics lg") (simp_all add: decodeLogWith_def)

end
