(* ===== verification/Ethereum_Witnesses.thy ===== *)
theory Ethereum_Witnesses
  imports Ethereum_Theorems Log_Theorems
begin

text \<open>
  The properties of the Ethereum client and the log parser at concrete inputs: a hexadecimal codec, nodes
  that answer from a small chain, and a task mailbox with one event.
\<close>

section \<open>A codec\<close>

fun hexNat :: "nat \<Rightarrow> string" where
  "hexNat n = (if n < 16 then [hexDigit n] else hexNat (n div 16) @ [hexDigit (n mod 16)])"

declare hexNat.simps [simp del]

fun hexRead :: "nat \<Rightarrow> string \<Rightarrow> nat option" where
  "hexRead a [] = Some a"
| "hexRead a (c # cs) = (case hexValue c of None \<Rightarrow> None | Some d \<Rightarrow> hexRead (16 * a + d) cs)"

definition hexPrefixed :: "nat \<Rightarrow> string \<Rightarrow> nat option" where
  "hexPrefixed bound s =
     (if take 2 s = ''0x'' then (case hexRead 0 (drop 2 s) of None \<Rightarrow> None | Some n \<Rightarrow> if n < bound then Some n else None)
      else None)"

definition sample_hexutil :: hexutil where
  "sample_hexutil = \<lparr>hex_EncodeUint64 = (\<lambda>n. ''0x'' @ hexNat n), hex_DecodeUint64 = hexPrefixed (2 ^ 64),
     hex_EncodeBig = (\<lambda>i. ''0x'' @ hexNat (nat i)), hex_DecodeBig = map_option int \<circ> hexPrefixed (2 ^ 256)\<rparr>"

lemma hexRead_append: "hexRead a (xs @ ys) = Option.bind (hexRead a xs) (\<lambda>b. hexRead b ys)"
  by (induction xs arbitrary: a) (auto split: option.splits)

lemma hexRead_hexNat: "hexRead 0 (hexNat n) = Some n"
proof (induction n rule: hexNat.induct)
  case (1 n)
  then show ?case by (subst hexNat.simps) (auto simp: hexRead_append)
qed

lemma hexPrefixed_hexNat: "n < bound \<Longrightarrow> hexPrefixed bound (''0x'' @ hexNat n) = Some n"
  by (simp add: hexPrefixed_def hexRead_hexNat)

lemma sample_hexutil_ok: "hexutil_ok sample_hexutil"
proof -
  have "nat i < 2 ^ 256" if "i < 2 ^ 256" for i :: int using that by (simp add: nat_less_iff)
  then show ?thesis
    by (auto simp: hexutil_ok_def sample_hexutil_def hexPrefixed_hexNat simp flip: append_Cons)
      (auto simp: hexPrefixed_def split: if_splits option.splits)
qed

section \<open>The client\<close>

definition sample_eth_block :: ethereum_block where
  "sample_eth_block = \<lparr>eb_Hash = ''0xab'', eb_ParentHash = ''0xaa'', eb_Number = 7, eb_Timestamp = 12,
     eb_Transactions = [None, Some (zeroTransaction\<lparr>etx_Hash := ''0x1f'', etx_Value := 300, etx_ChainId := Some 1\<rparr>)],
     eb_Nonce = [], eb_ChainId = 0\<rparr>"


text \<open>A node that echoes the block number it is asked for, and one that has announced a block it does not have.\<close>

definition sample_answer :: "json \<Rightarrow> http_answer" where
  "sample_answer result = HttpAnswer 200 (Some (JObject [(''jsonrpc'', JString ''2.0''), (''id'', JNumber 1), (''result'', result)]))"

definition sample_node :: eth_node where
  "sample_node req i =
     (case rr_Params req of
        Some (JArray (tag # _)) \<Rightarrow> sample_answer (JObject [(''number'', tag), (''hash'', JString ''0xAB'')])
      | _ \<Rightarrow> TransportFailed)"

definition null_node :: eth_node where
  "null_node req i =
     (if req = getSafeBlockRequest 1 then sample_answer (JObject [(''number'', JString ''0x7'')]) else sample_answer JNull)"

lemma sample_answer_call:
  "node req 0 = sample_answer j \<Longrightarrow>
   fst (eth_Call node req) = Inr \<lparr>rp_JSONRPC = ''2.0'', rp_ID = Some 1, rp_Result = Some j, rp_Error = None\<rparr>"
proof -
  have "jsonLookup [(''jsonrpc'', JString ''2.0''), (''id'', JNumber 1), (''result'', j)] ''jsonrpc'' = Some (JString ''2.0'')"
    "jsonLookup [(''jsonrpc'', JString ''2.0''), (''id'', JNumber 1), (''result'', j)] ''id'' = Some (JNumber 1)"
    "jsonLookup [(''jsonrpc'', JString ''2.0''), (''id'', JNumber 1), (''result'', j)] ''error'' = None"
    "jsonLookup [(''jsonrpc'', JString ''2.0''), (''id'', JNumber 1), (''result'', j)] ''result'' = Some j"
    by (simp_all add: jsonLookup_def equalFold_def toLower_def lower_char_def)
  then show "node req 0 = sample_answer j \<Longrightarrow> ?thesis"
    by (simp add: eth_Call_def callBackoffs_def eth_call_def sample_answer_def rpcResponse_Unmarshal_def unmarshalStruct_def
        jsonMember_def unmarshalPointer_def unmarshalString_def unmarshalUint64_def unmarshalInteger_def)
qed

lemma sample_node_ok: "node_answers_blocks sample_hexutil sample_node"
  unfolding node_answers_blocks_def
proof (intro allI impI, elim conjE)
  fix n :: nat and res j
  assume "fst (eth_Call sample_node (getBlockByNumberRequest sample_hexutil n 1)) = Inr res" "rp_Result res = Some j"
  moreover have "fst (eth_Call sample_node (getBlockByNumberRequest sample_hexutil n 1)) = Inr \<lparr>rp_JSONRPC = ''2.0'', rp_ID = Some 1,
      rp_Result = Some (JObject [(''number'', JString (hex_EncodeUint64 sample_hexutil n)), (''hash'', JString ''0xAB'')]), rp_Error = None\<rparr>"
    by (rule sample_answer_call) (simp add: sample_node_def getBlockByNumberRequest_def)
  ultimately have "j = JObject [(''number'', JString (hex_EncodeUint64 sample_hexutil n)), (''hash'', JString ''0xAB'')]" by auto
  then show "\<exists>m. j = JObject m \<and> jsonMember m ''number'' = JString (hex_EncodeUint64 sample_hexutil n) \<and> jsonMember m ''ChainId'' = JNull"
    by (simp add: jsonMember_Cons member_names) (simp add: jsonMember_def jsonLookup_def)
qed


theorem batch_call_is_map_witness:
  "eth_BatchCall (\<lambda>_. rev) (\<lambda>i. if i = 1 then (\<lambda>_ _. TransportFailed) else sample_node)
     [getSafeBlockRequest 1, getLatestBlockRequest 2] =
   Inr (map (responseTo (\<lambda>i. if i = 1 then (\<lambda>_ _. TransportFailed) else sample_node))
     (List.enumerate 0 [getSafeBlockRequest 1, getLatestBlockRequest 2])) \<and>
   responseTo (\<lambda>i. if i = 1 then (\<lambda>_ _. TransportFailed) else sample_node) (1, getLatestBlockRequest 2) = None"
proof
  have "delivers (\<lambda>_. rev)" by (simp add: delivers_def)
  from batch_call_is_map [OF this]
  show "eth_BatchCall (\<lambda>_. rev) (\<lambda>i. if i = 1 then (\<lambda>_ _. TransportFailed) else sample_node)
     [getSafeBlockRequest 1, getLatestBlockRequest 2] =
   Inr (map (responseTo (\<lambda>i. if i = 1 then (\<lambda>_ _. TransportFailed) else sample_node))
     (List.enumerate 0 [getSafeBlockRequest 1, getLatestBlockRequest 2]))" .
  show "responseTo (\<lambda>i. if i = 1 then (\<lambda>_ _. TransportFailed) else sample_node) (1, getLatestBlockRequest 2) = None"
    by (simp add: responseTo_def eth_Call_def callBackoffs_def eth_call_def okOf_def)
qed

theorem null_block_taken_for_reorg_witness:
  "\<exists>s'. processNextBlock memory_ops sample_poller_config sample_poller_env
       (ethClientOf sample_hexutil defaultNativeCallEthereumClientConfig null_node) sample_ps =
     (PollReorg (Some NoOrphans), sample_ps\<lparr>ps_store := s'\<rparr>) \<and> mem_blocksOf s' (''0xa'', 0, 0) = Some (recordOfBlock 0 zeroBlock)"
proof -
  have null: "answers_null null_node (getBlockByNumberRequest sample_hexutil n 1)" for n
  proof -
    have "hex_EncodeUint64 sample_hexutil n \<noteq> ''safe''" by (simp add: sample_hexutil_def)
    then have "null_node (getBlockByNumberRequest sample_hexutil n 1) 0 = sample_answer JNull"
      by (simp add: null_node_def getBlockByNumberRequest_def getSafeBlockRequest_def)
    then show ?thesis by (auto simp: answers_null_def dest: sample_answer_call)
  qed
  have tip: "eth_GetLatestBlock sample_hexutil defaultNativeCallEthereumClientConfig null_node = Inr 7"
  proof -
    have "null_node (getSafeBlockRequest 1) 0 = sample_answer (JObject [(''number'', JString ''0x7'')])" by (simp add: null_node_def)
    moreover have "block_UnmarshalJSON sample_hexutil (JObject [(''number'', JString ''0x7'')]) = Some (zeroBlock\<lparr>eb_Number := 7\<rparr>)"
    proof -
      have "hexRead 0 ''7'' = Some 7" "jsonMember [] k = JNull" for k by code_simp (simp add: jsonMember_def jsonLookup_def)
      then show ?thesis
        by (simp add: block_UnmarshalJSON_def unmarshalStruct_def jsonMember_Cons member_names hexString_UnmarshalJSON_def
            unmarshalString_def quantity_UnmarshalJSON_def sample_hexutil_def hexPrefixed_def unmarshalSlice_def
            unmarshalUint64_def unmarshalInteger_def zeroBlock_def toLower_def)
    qed
    ultimately show ?thesis
      by (auto simp: eth_GetLatestBlock_def defaultNativeCallEthereumClientConfig_def callAndParse_def dest!: sample_answer_call)
  qed
  have cfg: "pc_MaxReorgDepth sample_poller_config = 10" "pc_AvsAddress sample_poller_config = ''0xa''" "pc_ChainId sample_poller_config = 1"
    by (simp_all add: sample_poller_config_def)
  have far: "mem_blocksOf (ps_store sample_ps) (''0xa'', 1, 2 ^ 64 - 1) = None"
    by (simp add: sample_ps_eq mem_blocksOf_def makeBlockRecordKey_def)
  from null_block_taken_for_reorg [of sample_ps sample_poller_config sample_block6 sample_hexutil
      defaultNativeCallEthereumClientConfig null_node 7 sample_poller_env, unfolded cfg, OF sample_ps_ok(1,2) _ _ sample_ps_last _ tip _ _ null null far]
  show ?thesis by (auto simp: sample_block6_def)
qed

section \<open>The log parser\<close>

definition log_eth :: eth_common where
  "log_eth = sample_eth\<lparr>hexToHash := stringBytes, hexToAddress := stringBytes\<rparr>"

definition sample_input :: "string \<Rightarrow> abi_kind \<Rightarrow> bool \<Rightarrow> abi_argument" where
  "sample_input name kind indexed = \<lparr>aa_Name = name, aa_Type = \<lparr>at_T = kind, at_String = name\<rparr>, aa_Indexed = indexed\<rparr>"

definition sample_event :: abi_event where
  "sample_event = \<lparr>ev_Name = ''TaskCreated'', ev_RawName = ''TaskCreated'',
     ev_Inputs = [sample_input ''creator'' AddressTy True, sample_input ''taskHash'' FixedBytesTy True,
       sample_input ''avs'' AddressTy True, sample_input ''taskDeadline'' UintTy False]\<rparr>"

definition sample_abi :: contract_abi where
  "sample_abi = \<lparr>abi_EventByID = (\<lambda>topic. if topic = stringBytes ''0xe'' then Some sample_event else None),
     abi_UnpackIntoMap = (\<lambda>_ _. Some [(''taskDeadline'', OutNat 100)])\<rparr>"

definition sample_abi_lib :: abi_lib where
  "sample_abi_lib = \<lparr>parseABI = (\<lambda>_. (sample_abi, None)), readInteger = (\<lambda>_ _. None), spare = (\<lambda>_. [])\<rparr>"

definition sample_mailbox :: contract where
  "sample_mailbox = \<lparr>co_Name = ''TaskMailbox'', co_Address = ''0xmb'', co_AbiVersions = [''[]''], co_ChainId = 1\<rparr>"

definition sample_chain_log :: "string \<Rightarrow> ethereum_event_log" where
  "sample_chain_log topic = zeroEventLog\<lparr>el_Address := ''0xmb'', el_BlockNumber := 7, el_Data := ''0x01'',
     el_Topics := [topic, ''0xc'', ''0x1'', ''0xa'']\<rparr>"

definition sample_log_env :: poller_env where
  "sample_log_env = \<lparr>pe_DecodeLog = decodeLog log_eth sample_abi_lib [sample_mailbox] None,
     pe_Mailbox = (\<lambda>c. map_option (\<lambda>co. Some (co_Address co)) (getContractByNameForChainId [sample_mailbox] ''TaskMailbox'' c)),
     pe_addrString = addressString log_eth, pe_now = 10, pe_room = (\<lambda>_. True)\<rparr>"

definition sample_log_chain :: "string \<Rightarrow> eth_client" where
  "sample_log_chain topic = (sample_chain CHR ''a'' 7)\<lparr>ecGetLogs := (\<lambda>_ _ _. Some [sample_chain_log topic])\<rparr>"

lemma sample_log_env_decodes: "decodes_with sample_log_env log_eth sample_abi_lib [sample_mailbox]"
  by (simp add: decodes_with_def sample_log_env_def)

lemma sample_mailbox_found:
  "getContractByAddress [sample_mailbox] ''0xmb'' = Some sample_mailbox"
  "getContractByNameForChainId [sample_mailbox] ''TaskMailbox'' 1 = Some sample_mailbox"
  "getAbi sample_abi_lib sample_mailbox = Inr sample_abi"
  by (simp_all add: getContractByAddress_def getContractByNameForChainId_def sample_mailbox_def Let_def equalFold_def
      getAbi_def combineAbis_def unmarshalJsonToAbi_def sample_abi_lib_def)

lemma sample_task_log:
  "is_task_log log_eth sample_abi_lib [sample_mailbox] (sample_chain_log ''0xe'') ''0x1'' ''0xa'' [(''taskDeadline'', OutNat 100)]"
proof -
  have "hexEncodeToString [1] = ''01''" by code_simp
  then show ?thesis
    unfolding is_task_log_def
    by (intro exI [of _ sample_mailbox] exI [of _ sample_abi] exI [of _ sample_event] exI [of _ "''0xe''"] exI [of _ "''0xc''"]
        exI [of _ "sample_input ''creator'' AddressTy True"] exI [of _ "sample_input ''taskHash'' FixedBytesTy True"]
        exI [of _ "sample_input ''avs'' AddressTy True"] exI [of _ "[sample_input ''taskDeadline'' UintTy False]"] exI [of _ "[1]"])
      (simp add: sample_mailbox_found sample_chain_log_def sample_abi_def log_eth_def sample_event_def sample_input_def)
qed

lemma sample_log_block:
  "fetchLogsForInterestingContractsForBlock sample_poller_config (sample_log_chain topic) 7 = Some [sample_chain_log topic]"
  "ecGetLatestBlock (sample_log_chain topic) = Some 7"
  "\<exists>block. ecGetBlockByNumber (sample_log_chain topic) 7 = Some block \<and> eb_Number block = 7 \<and> eb_ParentHash block = br_Hash sample_block6"
proof -
  show "fetchLogsForInterestingContractsForBlock sample_poller_config (sample_log_chain topic) 7 = Some [sample_chain_log topic]"
    by (simp add: fetchLogsForInterestingContractsForBlock_def sample_poller_config_def sample_log_chain_def)
  have "replicate 6 CHR ''a'' = ''aaaaaa''" by code_simp
  then show "\<exists>block. ecGetBlockByNumber (sample_log_chain topic) 7 = Some block \<and> eb_Number block = 7 \<and> eb_ParentHash block = br_Hash sample_block6"
    by (simp add: sample_log_chain_def sample_chain_def sample_block6_def)
  show "ecGetLatestBlock (sample_log_chain topic) = Some 7"
    by (simp add: sample_log_chain_def sample_chain_def)
qed


theorem unknown_event_stalls_poller_witness:
  "mem_GetLastProcessedBlock (ps_store (pollForBlocks memory_ops sample_poller_config
     (replicate 3 (sample_log_env, sample_log_chain ''0xf'')) sample_ps)) ''0xa'' 1 = Inr sample_block6"
proof -
  have cfg: "pc_AvsAddress sample_poller_config = ''0xa''" "pc_ChainId sample_poller_config = 1" by (simp_all add: sample_poller_config_def)
  have "stringBytes ''0xf'' \<noteq> stringBytes ''0xe''" by code_simp
  then have u: "unknown_event log_eth sample_abi_lib [sample_mailbox] (sample_chain_log ''0xf'')"
    by (simp add: unknown_event_def sample_mailbox_found sample_chain_log_def sample_abi_def log_eth_def)
  have "offers_block sample_poller_config (sample_log_chain ''0xf'') sample_block6 (sample_chain_log ''0xf'')"
    using sample_log_block [of "''0xf''"] by (auto simp: offers_block_def sample_block6_def)
  with unknown_event_stalls_poller [OF sample_ps_ok(1,2) sample_chain_ok(2) _ u, unfolded cfg, OF sample_ps_last]
    sample_log_env_decodes show ?thesis by simp
qed

end
