(* ===== verification/Spec2Isabelle.thy ===== *)
theory Spec2Isabelle
  imports Aggregator Store_Theorems Session_Theorems Poller_Theorems Execution_Theorems Performer_Theorems
    Executor_Witnesses Certificate_Submission Kubernetes_Witnesses Client_Witnesses Docker_Witnesses Ethereum_Witnesses
begin

text \<open>
  \<^bold>\<open>A verification library for the Hourglass aggregator and executor (\<open>ponos\<close>)\<close>

  \<^bold>\<open>The program.\<close> Hourglass runs tasks for EigenLayer AVSs. A task is created on chain in a mailbox
  contract. The \<^emph>\<open>chain poller\<close> of the aggregator follows the chain block by block through the
  \<^emph>\<open>Ethereum client\<close>, a JSON-RPC client, has the \<^emph>\<open>log parser\<close> decode \<open>TaskCreated\<close> logs, turns them into tasks, saves them in the \<^emph>\<open>store\<close> and queues them; a chain
  reorganisation takes blocks and their tasks back through the \<^emph>\<open>block contexts\<close>. The
  \<^emph>\<open>AVS execution manager\<close> takes a task from the queue, asks the \<^emph>\<open>operator manager\<close> for
  the executors of the task's operator set with their stake (which rests on \<^emph>\<open>peering\<close> data and on
  the operator tables on chain), and opens a \<^emph>\<open>task session\<close>. The session sends the task to every
  executor with a signature over a \<^emph>\<open>signing message\<close>, and feeds the signed results into a BN254 or
  ECDSA \<^emph>\<open>result aggregator\<close> until results with the same digest hold enough stake; then the
  \<^emph>\<open>contract caller\<close> submits the certificate on chain, with a Merkle proof for every operator that did not sign. The \<^emph>\<open>aggregator\<close> object owns the pollers and managers of the
  registered AVSs and offers a management API protected by \<^emph>\<open>challenge tokens\<close>. An \<^emph>\<open>executor\<close> receives
  the session's submission, checks that it is addressed to it and signed by the AVS's aggregator, runs it on
  the AVS's \<^emph>\<open>performer\<close>, a container whose deployment, health and replacement it manages, and signs the
  result. The \<^emph>\<open>Docker manager\<close> runs the container, watches it and restarts it. It keeps the deployed performers and the processed tasks in the \<^emph>\<open>executor store\<close> and offers a
  management API with the same tokens. On Kubernetes the performer is a custom resource: the
  \<^emph>\<open>Kubernetes performer\<close> of the executor creates and deletes it, and the \<^emph>\<open>operator\<close>, a process of its own,
  keeps a pod and a service for it. The \<^emph>\<open>gRPC clients\<close> repeat failed calls and authenticate management requests.

  \<^bold>\<open>Theories\<close> (sources are under \<open>src/ponos/pkg\<close> unless said otherwise):

  \<^item> \<open>Hourglass_Prelude\<close>: machine integers, byte strings, Go maps as association lists
    with distinct keys (\<open>gm_get\<close>, \<open>gm_put\<close>, \<open>gm_del\<close>), the helpers of \<open>util/utils.go\<close>, ASCII case
    folding, decimal printing; the collections \<open>go_simps\<close> and friends that carry the component proofs.
  \<^item> \<open>Task_Types\<close>: \<open>types/task.go\<close>, the curve types of \<open>config/config.go\<close>, the log types,
    and the types and the interface of \<open>aggregator/storage/storage.go\<close>.
  \<^item> \<open>Store_Spec\<close>: the contract of the task store as the locale \<open>task_store\<close>, with the client lemmas on
    status updates proved in it. \<open>Memory_Store\<close> (\<open>aggregator/storage/memory\<close>) and \<open>Badger_Store\<close>
    (\<open>aggregator/storage/badger\<close>) implement it; \<open>Store_Theorems\<close> states the refinement of the abstract
    store by both and their equivalence.
  \<^item> \<open>Signing_Bytes\<close>: the signed messages of \<open>util/signatures.go\<close>, \<open>util/taskMessageVersion.go\<close> and
    \<open>AuthSignatureData\<close>.
  \<^item> \<open>Stake_Tally\<close>, \<open>Aggregation_Spec\<close>, \<open>Aggregation_BN254\<close>, \<open>Aggregation_ECDSA\<close>:
    \<open>signing/aggregation\<close>. The weight bookkeeping that both aggregators share is in \<open>Stake_Tally\<close>; the
    locale of \<open>Aggregation_Spec\<close> says what a session needs of an aggregator, and both interpret it.
  \<^item> \<open>Peering\<close>: \<open>peering/peering.go\<close>, the peering data fetcher and the contract reads it uses.
    \<open>Operator_Manager\<close>: \<open>operatorManager/operatorManager.go\<close>.
  \<^item> \<open>Task_Session\<close>: \<open>taskSession/taskSession.go\<close>; \<open>Session_Theorems\<close> states what its certificates mean.
  \<^item> \<open>Block_Contexts\<close>: \<open>contextManager\<close>. \<open>Chain_Poller\<close>: \<open>chainPoller/EVMChainPoller\<close>;
    \<open>Poller_Theorems\<close> states its properties over runs of polls.
  \<^item> \<open>Go_Values\<close>: floating point numbers and decoded JSON. \<open>Ethereum_Client\<close>: \<open>clients/ethereum\<close>;
    \<open>Ethereum_Theorems\<close> shows its retries, its JSON forms, its batches, and that it keeps the poller's contract.
    \<open>Log_Parser\<close>: \<open>transactionLogParser\<close> and the ABI of \<open>contracts/contracts.go\<close>; \<open>Log_Theorems\<close> follows a
    log from the chain to the stored task. \<open>Ethereum_Witnesses\<close> holds the concrete instances.
  \<^item> \<open>Execution_Manager\<close>: \<open>aggregator/avsExecutionManager\<close>; \<open>Execution_Theorems\<close> states what the status of
    a handled task means, across the operator manager, the session, the aggregators and the store.
  \<^item> \<open>Certificate_Submission\<close>: the submission and verification of certificates and the operator tables of
    \<open>contractCaller/caller/caller.go\<close>, with \<open>util/encode.go\<close>.
  \<^item> \<open>Auth\<close>: \<open>auth\<close>. \<open>Contract_Store\<close>: \<open>contractStore/inMemoryContractStore\<close>. \<open>Aggregator\<close>:
    \<open>aggregator/aggregator.go\<close> and \<open>aggregator/handlers.go\<close>.
  \<^item> \<open>Key_Value\<close>: the transactional key-value database (BadgerDB) that the stores are written against.
  \<^item> \<open>Executor_Store\<close>: \<open>executor/storage\<close> with its memory and BadgerDB stores; the locale
    \<open>performer_store\<close> is the contract of both, \<open>replay_log\<close> extends it by remembering processed tasks.
  \<^item> \<open>Container_Types\<close>: \<open>containerManager/types.go\<close>, \<open>errors.go\<close> and \<open>configBuilder.go\<close>, the configurations
    with their defaults, merging and validation, and the back-off of restarts. \<open>Docker_Manager\<close>:
    \<open>containerManager/dockerManager.go\<close> over a Docker client; \<open>Docker_Restart\<close>: \<open>restartManager.go\<close> and
    \<open>eventManager.go\<close>. \<open>Docker_Theorems\<close> shows that it is a container manager in the sense of the performer's
    theorems and what its restarts do; \<open>Docker_Concurrency\<close> interleaves its operations, its monitoring
    goroutines and pending restarts as steps of a relation; \<open>Docker_Performer\<close> composes it with the restored
    performer; \<open>Docker_Witnesses\<close> holds a daemon and the concrete instances.
  \<^item> \<open>Container_Performer\<close>: \<open>executor/avsPerformer/avsContainerPerformer\<close> with the helpers of
    \<open>containerManager/utils.go\<close>. \<open>Performer_Theorems\<close> states the invariant of its two slots and what a
    deployment leaves behind.
  \<^item> \<open>Executor\<close>: \<open>executor/executor.go\<close> and \<open>executor/handlers.go\<close> over any performer
    (\<open>avs_performer_ops\<close>) and any store, with the in-memory signer. \<open>Executor_Theorems\<close> composes it with the
    task session and follows it through sequences of requests and restarts; \<open>Executor_Witnesses\<close> holds the
    concrete instances.
  \<^item> \<open>Kubernetes_Manager\<close>: \<open>kubernetesManager\<close>, the Performer resource and the operations on it.
    \<open>Performer_Operator\<close>: \<open>src/hourglass-operator/internal/controller/performerController.go\<close>;
    \<open>Operator_Theorems\<close> states what a reconciliation leaves in the cluster. \<open>Kubernetes_Performer\<close>:
    \<open>executor/avsPerformer/avsKubernetesPerformer\<close>; \<open>Kubernetes_Theorems\<close> states its properties over runs of
    operations and tasks. \<open>Performer_Interface\<close> states the contract of \<open>IAvsPerformer\<close> for deployments as the locale
    \<open>avs_performer\<close>, which the container performer and the Kubernetes performer satisfy. \<open>Kubernetes_Witnesses\<close> holds an API server and the concrete instances.
  \<^item> \<open>Grpc_Client\<close>: \<open>clients/grpcRetry.go\<close> and the authenticated clients; \<open>Client_Theorems\<close> composes them with
    the executor, \<open>Client_Witnesses\<close> holds the concrete instances.

  \<^bold>\<open>Correspondence.\<close> A struct is a record, its fields carrying a short prefix (\<open>task_TaskId\<close> is
  \<open>Task.TaskId\<close>); a method is a definition of the method's name, with the receiver's state as argument
  and result; an error return is \<open>Inl\<close> or \<open>Some\<close> of an error constructor, and a panic (a \<open>nil\<close>
  dereference, an index out of range) is a constructor of its own. A pointer that may be \<open>nil\<close> is an
  \<open>option\<close>. A mutex makes an operation one step, so that concurrent callers are sequences of
  operations; a \<open>select\<close> is given the event it takes. Chain ids and block numbers are natural numbers
  with the bounds and the wrap-around of \<open>uint64\<close> written out where the code computes with them;
  \<open>uint16\<close> and \<open>uint32\<close> values are words; \<open>big.Int\<close> is \<open>int\<close>.

  \<^bold>\<open>Parameters.\<close> Code outside the repository is an argument of the definitions that use it:
  go-ethereum's hashing and address parsing (\<open>eth_common\<close>), the BN254 and ECDSA libraries, BadgerDB's
  transactions, the contract bindings, the Ethereum node (\<open>eth_node\<close>), \<open>hexutil\<close> and the ABI library, the Docker daemon (\<open>docker_client\<close>), the Kubernetes API server (\<open>kube_api\<close>), the Merkle tree library, the remote signers and the
  clock. What a theorem needs
  of them is a named predicate (\<open>eth_ok\<close>, \<open>kv_ok\<close>, \<open>client_ok\<close>, \<open>cm_ok\<close>, \<open>hexutil_ok\<close>, \<open>node_answers_blocks\<close>, \<open>docker_ok\<close>, \<open>kube_ok\<close>, \<open>merkle_ok\<close>, \<open>bn254_signs\<close>,
  \<open>ecdsa_signs\<close>), and each such theorem has a witness
  with concrete functions in their place.

  \<^bold>\<open>What is shown.\<close> Sessions are sound and make progress: a certificate is backed by valid responses of
  a quorum of the stake, and a quorum of valid responses yields a certificate. A task is marked completed
  only after its certificate was accepted. The aggregator's stores implement one abstract store and are
  interchangeable; a task's status moves only along the legal transitions. The poller keeps its blocks
  linked, catches up with the node and returns to the canonical chain after a reorganisation, and takes
  back exactly the orphaned tasks. Tokens are used at most once; a request is accepted only with the
  verifier's own signature. Registrations are all or nothing and their contexts stay independent.
  A submission of a session is authentic for its executor, and the executor's answer is a valid vote for
  the session's aggregator. An executor on BadgerDB answers a task at most once, across restarts, and serves
  a deployed performer again after a restart. A performer's slots hold different, created containers, and a
  deployment either replaces the performer in service or leaves it as it was. Management requests need a
  valid token, and the authenticated client's requests pass. A submitted BN254 certificate carries valid
  Merkle proofs for exactly its non-signers and is the one that was verified. The pod and the service that the operator keeps for a performer
  are at the address at which the executor calls it, and a new image replaces the pod. A performer on
  Kubernetes is deleted only when its tasks have ended. Both kinds of performer serve the last deployment that
  succeeded. A retried call returns the outcome of its last
  attempt within the configured attempts and pauses.
  A \<open>TaskCreated\<close> log of the mailbox becomes one pending task of the store; the Ethereum client gives the
  poller the blocks it asks for, and its parallel batches are the sequential calls. The Docker manager keeps the
  contract of a container manager, keeps one live monitor per container however its goroutines interleave,
  restarts a container that stopped when the failure threshold is reached, and respects the restart limit.
  Some theorems record behaviour that deviates from what the code means to do; their text says so.

  \<^bold>\<open>Loops.\<close> No fuel is used: every loop of the code runs over a list, a range of block numbers or
  the search depth of a reorganisation, or the attempts of a retried call, and its definition is a terminating recursion over it. An endless
  loop of the code (polling, collecting results) is a function of the finite sequence of events seen so
  far, and a loop that still waits is the value \<open>None\<close>.

  \<^bold>\<open>Not modelled.\<close> The construction of Docker, Kubernetes and gRPC clients and of websocket connections, the
  Web3Signer client, building and signing transactions, the registration and key transactions of the contract
  caller, the command line tools (\<open>src/hgctl-go\<close>) and the table transport, logging and metrics, and the generated
  code: they call libraries and services and keep no state of the protocol.
\<close>

end
